(* ===== verification/Platform_Prelude.thy ===== *)
theory Platform_Prelude
  imports Main "HOL-Library.Char_ord" "HOL-Library.List_Lexorder"
begin

text \<open>
  The vocabulary shared by every component of the development: the exceptions the Python code
  raises as one \<open>error\<close> datatype, results as \<open>error + 'a\<close> with their sequential composition,
  Python's string operations on \<^typ>\<open>string\<close>, and the SQL statements of the controller database as
  operations on lists of rows (a table in insertion order). Strings are ordered by
  \<open>Char_ord\<close> and \<open>List_Lexorder\<close>: code point by code point, a proper prefix first, as Python's
  \<open>str\<close> comparison and SQLite's \<open>BINARY\<close> collation do on the 8-bit code points modelled here.
\<close>

named_theorems result_simps \<open>sequencing of fallible steps\<close>
named_theorems row_simps \<open>rows of a table after a statement\<close>

section \<open>Errors and results\<close>

text \<open>
  One constructor per exception class of the modelled modules. Messages are kept where the source
  has a fixed text. \<open>IntegrityError\<close> is \<open>sqlite3.IntegrityError\<close>, raised by a statement that breaks
  a constraint of the schema; \<open>AssertionError\<close>, \<open>KeyError\<close>, \<open>IndexError\<close>, \<open>TypeError\<close> and \<open>ValueError\<close> are Python's.
\<close>

datatype error =
    ValidationError string
  | CapacityError string string
  | RuntimeVersionError string
  | DatabaseError string
  | ApplicationError string
  | IdempotencyConflictError string
  | DispatchQueueFullError string
  | FinishingOperationConflictError string
  | UnfinishedOperationError string string string
  | IntegrityError
  | AssertionError
  | KeyError string
  | IndexError
  | TypeError
  | ValueError string
  | OverflowError
  | RetentionError string
  | SourceError string
  | RecoveryRequired string
  | HashCapacityError string
  | HttpError nat string string

type_synonym 'a result = "error + 'a"

text \<open>The subclasses of \<open>DatabaseError\<close> in \<open>controller/database.py\<close>.\<close>

fun is_database_error :: "error \<Rightarrow> bool" where
  "is_database_error (DatabaseError _) = True"
| "is_database_error (IdempotencyConflictError _) = True"
| "is_database_error (DispatchQueueFullError _) = True"
| "is_database_error (FinishingOperationConflictError _) = True"
| "is_database_error (UnfinishedOperationError _ _ _) = True"
| "is_database_error _ = False"

definition rbind :: "'e + 'a \<Rightarrow> ('a \<Rightarrow> 'e + 'b) \<Rightarrow> 'e + 'b" where
  "rbind m f = (case m of Inl e \<Rightarrow> Inl e | Inr x \<Rightarrow> f x)"

lemma rbind_simps [simp, result_simps]:
  "rbind (Inl e) f = Inl e"
  "rbind (Inr x) f = f x"
  by (simp_all add: rbind_def)

lemma rbind_eq_Inr [result_simps]:
  "rbind m f = Inr y \<longleftrightarrow> (\<exists>x. m = Inr x \<and> f x = Inr y)"
  by (cases m) auto

lemma rbind_eq_Inl [result_simps]:
  "rbind m f = Inl e \<longleftrightarrow> m = Inl e \<or> (\<exists>x. m = Inr x \<and> f x = Inl e)"
  by (cases m) auto

lemma rbind_assoc: "rbind (rbind m f) g = rbind m (\<lambda>x. rbind (f x) g)"
  by (cases m) auto

lemma rbind_cong [fundef_cong]:
  "m = m' \<Longrightarrow> (\<And>x. m' = Inr x \<Longrightarrow> f x = f' x) \<Longrightarrow> rbind m f = rbind m' f'"
  by (cases m') auto

lemma if_Inl_eq_Inr [result_simps]:
  "(if b then Inl e else m) = Inr y \<longleftrightarrow> \<not> b \<and> m = Inr y"
  "(if b then m else Inl e) = Inr y \<longleftrightarrow> b \<and> m = Inr y"
  by simp_all

text \<open>A comprehension whose element expression may raise stops at the first error.\<close>

fun rmap :: "('a \<Rightarrow> 'e + 'b) \<Rightarrow> 'a list \<Rightarrow> 'e + 'b list" where
  "rmap f [] = Inr []"
| "rmap f (x # xs) = rbind (f x) (\<lambda>y. rbind (rmap f xs) (\<lambda>ys. Inr (y # ys)))"

lemma rmap_Inr_iff:
  "rmap f xs = Inr ys \<longleftrightarrow> list_all2 (\<lambda>x y. f x = Inr y) xs ys"
  by (induction xs arbitrary: ys) (auto simp: result_simps list_all2_Cons1)

lemma rmap_ident:
  assumes "\<And>x y. f x = Inr y \<Longrightarrow> y = x" and "rmap f xs = Inr ys"
  shows "ys = xs"
  using assms(2) by (induction xs arbitrary: ys) (auto simp: result_simps dest: assms(1))

lemma rmap_all_Inr: "(\<And>x. x \<in> set xs \<Longrightarrow> f x = Inr (g x)) \<Longrightarrow> rmap f xs = Inr (map g xs)"
  by (induction xs) auto

lemma rmap_cong [fundef_cong]:
  "xs = ys \<Longrightarrow> (\<And>x. x \<in> set ys \<Longrightarrow> f x = g x) \<Longrightarrow> rmap f xs = rmap g ys"
  by (induction ys arbitrary: xs) (auto intro: rbind_cong)

section \<open>Python strings\<close>

abbreviation starts_with :: "string \<Rightarrow> string \<Rightarrow> bool" where
  "starts_with p s \<equiv> take (length p) s = p"

definition ends_with :: "string \<Rightarrow> string \<Rightarrow> bool" where
  "ends_with p s \<longleftrightarrow> starts_with (rev p) (rev s)"

text \<open>\<open>sub in s\<close>, and the two pieces around the first occurrence (\<open>str.partition\<close>).\<close>

fun contains :: "string \<Rightarrow> string \<Rightarrow> bool" where
  "contains sub [] = (sub = [])"
| "contains sub (c # s) = (starts_with sub (c # s) \<or> contains sub s)"

text \<open>\<open>s.split(c)\<close> for a one-character separator; the result is never empty.\<close>

fun split_char :: "char \<Rightarrow> string \<Rightarrow> string list" where
  "split_char c [] = [[]]"
| "split_char c (x # xs) =
     (if x = c then [] # split_char c xs
      else (case split_char c xs of [] \<Rightarrow> [[x]] | w # ws \<Rightarrow> (x # w) # ws))"

fun join_with :: "string \<Rightarrow> string list \<Rightarrow> string" where
  "join_with sep [] = []"
| "join_with sep [w] = w"
| "join_with sep (w # v # ws) = w @ sep @ join_with sep (v # ws)"

definition lstrip_chars :: "string \<Rightarrow> string \<Rightarrow> string" where
  "lstrip_chars cs s = dropWhile (\<lambda>c. c \<in> set cs) s"

definition strip_chars :: "string \<Rightarrow> string \<Rightarrow> string" where
  "strip_chars cs s = rev (lstrip_chars cs (rev (lstrip_chars cs s)))"

lemma split_char_not_Nil [simp]: "split_char c s \<noteq> []"
  by (induction s) (auto split: list.splits)

lemma Nil_not_split_char [simp]: "[] \<noteq> split_char c s"
  by (rule not_sym) simp

lemma split_char_no_sep: "w \<in> set (split_char c s) \<Longrightarrow> c \<notin> set w"
proof (induction s arbitrary: w)
  case Nil
  then show ?case by simp
next
  case (Cons x s)
  then show ?case by (cases "split_char c s") (auto split: if_splits)
qed

lemma split_char_plain: "c \<notin> set s \<Longrightarrow> split_char c s = [s]"
  by (induction s) auto

lemma split_char_append_sep:
  "c \<notin> set w \<Longrightarrow> split_char c (w @ c # s) = w # split_char c s"
  by (induction w) auto

section \<open>Character classes\<close>

text \<open>The bracket expressions of the source's regular expressions.\<close>

definition is_lower :: "char \<Rightarrow> bool" where
  "is_lower c \<longleftrightarrow> CHR ''a'' \<le> c \<and> c \<le> CHR ''z''"

definition is_upper :: "char \<Rightarrow> bool" where
  "is_upper c \<longleftrightarrow> CHR ''A'' \<le> c \<and> c \<le> CHR ''Z''"

definition is_digit :: "char \<Rightarrow> bool" where
  "is_digit c \<longleftrightarrow> CHR ''0'' \<le> c \<and> c \<le> CHR ''9''"

definition is_hex :: "char \<Rightarrow> bool" where
  "is_hex c \<longleftrightarrow> is_digit c \<or> CHR ''a'' \<le> c \<and> c \<le> CHR ''f''"

definition is_alnum :: "char \<Rightarrow> bool" where
  "is_alnum c \<longleftrightarrow> is_lower c \<or> is_upper c \<or> is_digit c"

lemmas char_class_defs = is_lower_def is_upper_def is_digit_def is_hex_def is_alnum_def

text \<open>\<open>int(s)\<close> for a text of decimal digits.\<close>

definition digits_value :: "string \<Rightarrow> int" where
  "digits_value s = foldl (\<lambda>n c. n * 10 + (int (of_char c) - 48)) 0 s"

text \<open>\<open>[first][rest]{0,n}\<close> as a full match.\<close>

fun matches_head_rest :: "(char \<Rightarrow> bool) \<Rightarrow> (char \<Rightarrow> bool) \<Rightarrow> nat \<Rightarrow> string \<Rightarrow> bool" where
  "matches_head_rest h r n [] = False"
| "matches_head_rest h r n (c # cs) = (h c \<and> list_all r cs \<and> length cs \<le> n)"

text \<open>\<open>[class]{n}\<close> as a full match.\<close>

definition matches_exact :: "(char \<Rightarrow> bool) \<Rightarrow> nat \<Rightarrow> string \<Rightarrow> bool" where
  "matches_exact p n s \<longleftrightarrow> length s = n \<and> list_all p s"

section \<open>SQL statements on a table\<close>

text \<open>
  A table is the list of its rows in insertion order. \<open>update_where\<close> is \<open>UPDATE \<dots> WHERE\<close>,
  \<open>delete_where\<close> is \<open>DELETE \<dots> WHERE\<close>, \<open>select_where\<close> the rows of a \<open>SELECT \<dots> WHERE\<close> with no
  \<open>ORDER BY\<close>, \<open>find_where\<close> its \<open>fetchone()\<close>, and \<open>unique_on key P\<close> a partial unique index on
  \<open>key\<close> over the rows that satisfy \<open>P\<close>.
\<close>

definition update_where :: "('r \<Rightarrow> bool) \<Rightarrow> ('r \<Rightarrow> 'r) \<Rightarrow> 'r list \<Rightarrow> 'r list" where
  "update_where P f rows = map (\<lambda>r. if P r then f r else r) rows"

definition delete_where :: "('r \<Rightarrow> bool) \<Rightarrow> 'r list \<Rightarrow> 'r list" where
  "delete_where P rows = filter (\<lambda>r. \<not> P r) rows"

abbreviation select_where :: "('r \<Rightarrow> bool) \<Rightarrow> 'r list \<Rightarrow> 'r list" where
  "select_where \<equiv> filter"

abbreviation find_where :: "('r \<Rightarrow> bool) \<Rightarrow> 'r list \<Rightarrow> 'r option" where
  "find_where \<equiv> List.find"

text \<open>\<open>cursor.rowcount\<close> of an \<open>UPDATE\<close>.\<close>

definition rowcount :: "('r \<Rightarrow> bool) \<Rightarrow> 'r list \<Rightarrow> nat" where
  "rowcount P rows = length (filter P rows)"

definition unique_on :: "('r \<Rightarrow> 'k) \<Rightarrow> ('r \<Rightarrow> bool) \<Rightarrow> 'r list \<Rightarrow> bool" where
  "unique_on key P rows \<longleftrightarrow> distinct (map key (filter P rows))"

text \<open>\<open>ON CONFLICT(key) DO UPDATE\<close>: change the row with that key, or append the new one.\<close>

definition upsert :: "('r \<Rightarrow> bool) \<Rightarrow> ('r \<Rightarrow> 'r) \<Rightarrow> 'r \<Rightarrow> 'r list \<Rightarrow> 'r list" where
  "upsert P f new rows = (if list_ex P rows then update_where P f rows else rows @ [new])"

lemma set_update_where:
  "set (update_where P f rows) = f ` {r \<in> set rows. P r} \<union> {r \<in> set rows. \<not> P r}"
  by (auto simp: update_where_def)

lemma in_update_whereE:
  assumes "r \<in> set (update_where P f rows)"
  obtains r0 where "r0 \<in> set rows" "P r0" "r = f r0" | "r \<in> set rows" "\<not> P r"
  using assms by (auto simp: update_where_def split: if_splits)

lemma map_update_where [row_simps]:
  "(\<And>r. r \<in> set rows \<Longrightarrow> P r \<Longrightarrow> key (f r) = key r) \<Longrightarrow> map key (update_where P f rows) = map key rows"
  by (simp add: update_where_def)

lemma update_where_none: "\<not> list_ex P rows \<Longrightarrow> update_where P f rows = rows"
  by (induction rows) (auto simp: update_where_def)

lemma find_where_None: "find_where P rows = None \<longleftrightarrow> \<not> list_ex P rows"
  by (induction rows) auto

lemma find_where_SomeD: "find_where P rows = Some r \<Longrightarrow> r \<in> set rows \<and> P r"
  by (auto simp: find_Some_iff)

lemma find_where_append [row_simps]:
  "find_where P (xs @ ys) = (case find_where P xs of None \<Rightarrow> find_where P ys | Some r \<Rightarrow> Some r)"
  by (induction xs) auto

lemma find_update_where [row_simps]:
  assumes "\<And>r. Q r \<Longrightarrow> P (f r) = P r"
  shows "find_where P (update_where Q f rows) =
         map_option (\<lambda>r. if Q r then f r else r) (find_where P rows)"
  using assms by (induction rows) (auto simp: update_where_def)

lemma unique_on_Nil [simp]: "unique_on key P []"
  by (simp add: unique_on_def)

lemma unique_on_Cons [simp]:
  "unique_on key P (a # rows) \<longleftrightarrow>
   unique_on key P rows \<and> (P a \<longrightarrow> (\<forall>x \<in> set rows. P x \<longrightarrow> key x \<noteq> key a))"
  by (auto simp: unique_on_def image_iff)

lemma unique_on_update:
  assumes "unique_on key P rows"
    and "\<And>r. r \<in> set rows \<Longrightarrow> Q r \<Longrightarrow> key (f r) = key r"
    and "\<And>r. r \<in> set rows \<Longrightarrow> Q r \<Longrightarrow> P (f r) \<Longrightarrow> P r"
  shows "unique_on key P (update_where Q f rows)"
  using assms
proof (induction rows)
  case Nil
  then show ?case by (simp add: update_where_def)
next
  case (Cons a rows)
  have keep: "P (if Q x then f x else x) \<Longrightarrow> P x \<and> key (if Q x then f x else x) = key x"
    if "x \<in> set (a # rows)" for x
    using Cons.prems(2,3) that by (auto split: if_splits)
  have "unique_on key P (update_where Q f rows)"
    using Cons by simp
  moreover have "key (if Q x then f x else x) \<noteq> key (if Q a then f a else a)"
    if "x \<in> set rows" "P (if Q x then f x else x)" "P (if Q a then f a else a)" for x
    using keep [of x] keep [of a] that Cons.prems(1) by auto
  ultimately show ?case
    unfolding update_where_def list.map unique_on_Cons set_map by blast
qed

lemma unique_on_append:
  "unique_on key P (rows @ [r]) \<longleftrightarrow>
   unique_on key P rows \<and> (P r \<longrightarrow> (\<forall>x \<in> set rows. P x \<longrightarrow> key x \<noteq> key r))"
  by (auto simp: unique_on_def image_iff)

lemma unique_on_imp:
  assumes "unique_on key P rows" and "\<And>r. Q r \<Longrightarrow> P r"
  shows "unique_on key Q rows"
  using assms(1) by (induction rows) (auto dest: assms(2))

lemma unique_on_same:
  "unique_on key P rows \<Longrightarrow> x \<in> set rows \<Longrightarrow> y \<in> set rows \<Longrightarrow> P x \<Longrightarrow> P y \<Longrightarrow> key x = key y \<Longrightarrow> x = y"
  by (auto simp: unique_on_def distinct_map inj_on_def)

end
