(* ===== verification/Json_Values.thy ===== *)
theory Json_Values
  imports Platform_Prelude
begin

text \<open>
  JSON documents as Python values and the parts of \<open>json.dumps\<close> the controller relies on. A
  \<open>dict\<close> is the list of its items in insertion order; \<open>json_sorted\<close> is the document \<open>json.loads\<close>
  gives back for a text written with \<open>sort_keys=True\<close>, and \<open>json_text\<close> the text itself, in the
  compact ASCII form (\<open>separators=(",", ":")\<close>, \<open>ensure_ascii=True\<close>). A float is carried as the text
  \<open>repr\<close> gives it. The columns \<open>refs_json\<close> and \<open>usage_json\<close> are modelled by the documents they hold.
\<close>

datatype json =
    JNull
  | JBool bool
  | JInt int
  | JFloat string
  | JStr string
  | JArr "json list"
  | JObj "(string \<times> json) list"

type_synonym jdict = "(string \<times> json) list"

section \<open>Dictionaries\<close>

abbreviation dict_get :: "('k \<times> 'v) list \<Rightarrow> 'k \<Rightarrow> 'v option" where
  "dict_get \<equiv> map_of"

text \<open>\<open>d[k] = v\<close>: an existing key keeps its position.\<close>

fun dict_put :: "'k \<Rightarrow> 'v \<Rightarrow> ('k \<times> 'v) list \<Rightarrow> ('k \<times> 'v) list" where
  "dict_put k v [] = [(k, v)]"
| "dict_put k v ((k', v') # d) = (if k' = k then (k, v) # d else (k', v') # dict_put k v d)"

text \<open>\<open>{**a, **b}\<close>\<close>

definition dict_merge :: "('k \<times> 'v) list \<Rightarrow> ('k \<times> 'v) list \<Rightarrow> ('k \<times> 'v) list" where
  "dict_merge a b = fold (\<lambda>(k, v) d. dict_put k v d) b a"

definition dict_keys :: "('k \<times> 'v) list \<Rightarrow> 'k set" where
  "dict_keys d = set (map fst d)"

lemma dict_get_put [simp]: "dict_get (dict_put k v d) = (dict_get d)(k \<mapsto> v)"
  by (induction d) (auto simp: fun_eq_iff)

lemma set_dict_put: "set (dict_put k v d) \<subseteq> insert (k, v) (set d)"
  by (induction k v d rule: dict_put.induct) auto

lemma dict_keys_put [simp]: "fst ` set (dict_put k v d) = insert k (fst ` set d)"
proof (induction k v d rule: dict_put.induct)
  case (2 k v k' v' d)
  then show ?case by (cases "k' = k") auto
qed simp

lemma distinct_dict_put: "distinct (map fst d) \<Longrightarrow> distinct (map fst (dict_put k v d))"
proof (induction k v d rule: dict_put.induct)
  case (2 k v k' v' d)
  then show ?case by (cases "k' = k") auto
qed simp

lemma dict_get_merge:
  "distinct (map fst b) \<Longrightarrow> dict_get (dict_merge a b) = dict_get a ++ dict_get b"
proof (induction b arbitrary: a)
  case Nil
  then show ?case by (simp add: dict_merge_def)
next
  case (Cons kv b)
  obtain k v where kv: "kv = (k, v)" by (cases kv)
  have "dict_get (dict_merge a (kv # b)) = dict_get (dict_put k v a) ++ dict_get b"
    using Cons kv by (simp add: dict_merge_def)
  also have "\<dots> = dict_get a ++ dict_get (kv # b)"
  proof -
    have "dict_get b k = None" using Cons.prems kv by (simp add: map_of_eq_None_iff)
    then show ?thesis using kv by (auto simp: fun_eq_iff map_add_def split: option.splits)
  qed
  finally show ?case .
qed

text \<open>\<open>d.get(key)\<close>\<close>

definition jget :: "jdict \<Rightarrow> string \<Rightarrow> json" where
  "jget d key = (case dict_get d key of None \<Rightarrow> JNull | Some v \<Rightarrow> v)"

text \<open>The values a set may contain, and \<open>v in {...}\<close> for a set of texts, which raises on any other.\<close>

fun hashable :: "json \<Rightarrow> bool" where
  "hashable (JArr _) = False"
| "hashable (JObj _) = False"
| "hashable _ = True"

text \<open>The truth value of a document.\<close>

definition json_true :: "json \<Rightarrow> bool" where
  "json_true v =
     (case v of JNull \<Rightarrow> False | JBool b \<Rightarrow> b | JInt i \<Rightarrow> i \<noteq> 0 | JFloat r \<Rightarrow> r \<notin> {''0.0'', ''-0.0''}
      | JStr s \<Rightarrow> s \<noteq> [] | JArr xs \<Rightarrow> xs \<noteq> [] | JObj d \<Rightarrow> d \<noteq> [])"

definition in_texts :: "json \<Rightarrow> string list \<Rightarrow> bool result" where
  "in_texts v texts = (if hashable v then Inr (v \<in> JStr ` set texts) else Inl TypeError)"

section \<open>Text of a document\<close>

definition digit_char :: "nat \<Rightarrow> char" where
  "digit_char d = char_of (48 + d)"

fun nat_text :: "nat \<Rightarrow> string" where
  "nat_text n = (if n < 10 then [digit_char n] else nat_text (n div 10) @ [digit_char (n mod 10)])"

declare nat_text.simps [simp del]

definition int_text :: "int \<Rightarrow> string" where
  "int_text i = (if i < 0 then CHR ''-'' # nat_text (nat (- i)) else nat_text (nat i))"

definition hex_char :: "nat \<Rightarrow> char" where
  "hex_char d = (if d < 10 then char_of (48 + d) else char_of (87 + d))"

text \<open>\<open>json.encoder.ESCAPE_ASCII\<close> for one code point below 256.\<close>

definition escape_char :: "char \<Rightarrow> string" where
  "escape_char c =
     (let n = of_char c :: nat
      in if c = CHR 0x22 then [CHR 0x5C, CHR 0x22]
         else if c = CHR 0x5C then [CHR 0x5C, CHR 0x5C]
         else if n = 10 then [CHR 0x5C, CHR ''n'']
         else if n = 13 then [CHR 0x5C, CHR ''r'']
         else if n = 9 then [CHR 0x5C, CHR ''t'']
         else if n = 12 then [CHR 0x5C, CHR ''f'']
         else if n = 8 then [CHR 0x5C, CHR ''b'']
         else if 32 \<le> n \<and> n \<le> 126 then [c]
         else [CHR 0x5C, CHR ''u'', CHR ''0'', CHR ''0'', hex_char (n div 16), hex_char (n mod 16)])"

definition json_quote :: "string \<Rightarrow> string" where
  "json_quote s = CHR 0x22 # concat (map escape_char s) @ [CHR 0x22]"

fun json_text :: "json \<Rightarrow> string" where
  "json_text JNull = ''null''"
| "json_text (JBool b) = (if b then ''true'' else ''false'')"
| "json_text (JInt i) = int_text i"
| "json_text (JFloat r) = r"
| "json_text (JStr s) = json_quote s"
| "json_text (JArr xs) = ''['' @ join_with '','' (map json_text xs) @ '']''"
| "json_text (JObj kvs) =
     ''{'' @ join_with '','' (map (\<lambda>(k, v). json_quote k @ '':'' @ json_text v) kvs) @ ''}''"

fun json_sorted :: "json \<Rightarrow> json" where
  "json_sorted (JArr xs) = JArr (map json_sorted xs)"
| "json_sorted (JObj kvs) = JObj (sort_key fst (map (\<lambda>(k, v). (k, json_sorted v)) kvs))"
| "json_sorted j = j"

text \<open>The fields of a document that is an object; \<open>None\<close> where Python would raise.\<close>

fun obj_fields :: "json \<Rightarrow> jdict option" where
  "obj_fields (JObj kvs) = Some kvs"
| "obj_fields _ = None"

lemma map_of_sort_key:
  assumes "distinct (map fst d)"
  shows "map_of (sort_key fst d) = map_of d"
proof (rule map_of_inject_set [THEN iffD2])
  show "distinct (map fst (sort_key fst d))"
    using assms by (simp add: distinct_map)
qed (use assms in simp_all)

section \<open>Evaluation\<close>

text \<open>
  Kernel evaluation counts in unary on \<open>nat\<close>; these equations let it compute the text of a document with
  binary integers.
\<close>

lemma of_char_as_int: "(of_char c :: int) = int (of_char c)"
  by (rule of_nat_of_char [symmetric])

lemma of_char_compare [code_unfold]:
  "(of_char c :: nat) = numeral k \<longleftrightarrow> (of_char c :: int) = numeral k"
  "(of_char c :: nat) < numeral k \<longleftrightarrow> (of_char c :: int) < numeral k"
  "numeral k < (of_char c :: nat) \<longleftrightarrow> numeral k < (of_char c :: int)"
  "numeral k \<le> (of_char c :: nat) \<longleftrightarrow> numeral k \<le> (of_char c :: int)"
  "(of_char c :: nat) \<le> numeral k \<longleftrightarrow> (of_char c :: int) \<le> numeral k"
  unfolding of_char_as_int by simp_all

lemma escape_char_code [code]:
  "escape_char c =
     (let n = of_char c :: int
      in if n = 34 then [CHR 0x5C, CHR 0x22]
         else if n = 92 then [CHR 0x5C, CHR 0x5C]
         else if n = 10 then [CHR 0x5C, CHR ''n'']
         else if n = 13 then [CHR 0x5C, CHR ''r'']
         else if n = 9 then [CHR 0x5C, CHR ''t'']
         else if n = 12 then [CHR 0x5C, CHR ''f'']
         else if n = 8 then [CHR 0x5C, CHR ''b'']
         else if 32 \<le> n \<and> n \<le> 126 then [c]
         else [CHR 0x5C, CHR ''u'', CHR ''0'', CHR ''0'', hex_char (nat (n div 16)), hex_char (nat (n mod 16))])"
proof -
  have lit: "of_char (CHR 0x22) = (34 :: int)" "of_char (CHR 0x5C) = (92 :: int)" by simp_all
  have q: "c = CHR 0x22 \<longleftrightarrow> (of_char c :: int) = 34" "c = CHR 0x5C \<longleftrightarrow> (of_char c :: int) = 92"
    unfolding lit [symmetric] of_char_eq_iff by (rule refl)+
  have h: "(of_char c :: nat) div 16 = nat (of_char c div 16)" "(of_char c :: nat) mod 16 = nat (of_char c mod 16)"
    unfolding of_char_as_int by (simp_all add: nat_div_distrib nat_mod_distrib)
  show ?thesis unfolding escape_char_def Let_def q h of_char_compare by (rule refl)
qed

function int_digits :: "int \<Rightarrow> string" where
  "int_digits i = (if i < 10 then [char_of (48 + i)] else int_digits (i div 10) @ [char_of (48 + i mod 10)])"
  by auto
termination by (relation "measure nat") auto

declare int_digits.simps [simp del]

lemma nat_text_int: "nat_text n = int_digits (int n)"
proof (induction n rule: nat_text.induct)
  case (1 n)
  have d: "digit_char m = char_of (48 + int m)" for m
    using char_of_nat [of "48 + m", where ?'a = int] by (simp add: digit_char_def del: char_of_nat)
  show ?case
    using 1 by (subst nat_text.simps, subst int_digits.simps) (simp add: d zdiv_int zmod_int)
qed

lemma int_text_code [code]: "int_text i = (if i < 0 then CHR ''-'' # int_digits (- i) else int_digits i)"
  by (simp add: int_text_def nat_text_int)

end
