(* ===== verification/Validation.thy ===== *)
theory Validation
  imports Json_Values
begin

text \<open>
  The strict validators of \<open>openstack_platform/validation.py\<close>. Each takes the text it checks and
  returns it, or raises \<open>ValidationError\<close>; the \<open>isinstance(value, str)\<close> guard is the type. A regular
  expression used with \<open>fullmatch\<close> is a bool-valued recogniser with the same bracket classes and
  repetition bounds. The \<open>field\<close> argument only words the message and is kept where a caller sets it.
\<close>

section \<open>Recognisers\<close>

definition lower_alnum :: "char \<Rightarrow> bool" where
  "lower_alnum c \<longleftrightarrow> is_lower c \<or> is_digit c"

definition slug_char :: "char \<Rightarrow> bool" where
  "slug_char c \<longleftrightarrow> is_lower c \<or> is_digit c \<or> c = CHR ''-''"

definition slug_re :: "string \<Rightarrow> bool" where
  "slug_re s \<longleftrightarrow> 3 \<le> length s \<and> length s \<le> 40 \<and> is_lower (hd s) \<and> list_all slug_char s \<and> lower_alnum (last s)"

definition resource_name_re :: "string \<Rightarrow> bool" where
  "resource_name_re s \<longleftrightarrow>
     s \<noteq> [] \<and> length s \<le> 40 \<and> is_lower (hd s) \<and> list_all slug_char s \<and> lower_alnum (last s)"

definition commit_re :: "string \<Rightarrow> bool" where
  "commit_re = matches_exact is_hex 40"

definition env_key_re :: "string \<Rightarrow> bool" where
  "env_key_re = matches_head_rest is_upper (\<lambda>c. is_upper c \<or> is_digit c \<or> c = CHR ''_'') 127"

definition script_name_re :: "string \<Rightarrow> bool" where
  "script_name_re = matches_head_rest is_alnum (\<lambda>c. is_alnum c \<or> c \<in> set '':._-'') 127"

definition safe_code_re :: "string \<Rightarrow> bool" where
  "safe_code_re = matches_head_rest is_upper (\<lambda>c. is_upper c \<or> is_digit c \<or> c = CHR ''_'') 63"

definition sha256_hex_re :: "string \<Rightarrow> bool" where
  "sha256_hex_re = matches_exact is_hex 64"

definition flavor_re :: "string \<Rightarrow> bool" where
  "flavor_re = matches_head_rest is_alnum (\<lambda>c. is_alnum c \<or> c \<in> set ''._-'') 254"

text \<open>Python's \<open>\s\<close> on the 8-bit code points.\<close>

definition is_space :: "char \<Rightarrow> bool" where
  "is_space c \<longleftrightarrow> c \<in> set [CHR '' '', CHR 0x09, CHR 0x0A, CHR 0x0B, CHR 0x0C, CHR 0x0D,
     CHR 0x1C, CHR 0x1D, CHR 0x1E, CHR 0x1F, CHR 0x85, CHR 0xA0]"

definition oci_component :: "string \<Rightarrow> bool" where
  "oci_component w \<longleftrightarrow> w \<noteq> [] \<and> list_all (\<lambda>c. \<not> is_space c) w"

text \<open>
  \<open>[^\s/@]+(?:/[^\s/@]+)+@sha256:[0-9a-f]{64}\<close>: two or more slash-separated components, one \<open>@\<close>
  and the digest.
\<close>

definition oci_digest_re :: "string \<Rightarrow> bool" where
  "oci_digest_re s \<longleftrightarrow>
     (case split_char (CHR ''@'') s of
        [path, digest] \<Rightarrow>
          (let parts = split_char (CHR ''/'') path
           in 2 \<le> length parts \<and> list_all oci_component parts \<and> starts_with ''sha256:'' digest \<and>
              matches_exact is_hex 64 (drop 7 digest))
      | _ \<Rightarrow> False)"

text \<open>
  A string equals \<open>str(uuid.UUID(s))\<close> exactly when it is 32 lowercase hexadecimal digits in the
  groups 8-4-4-4-12. The two messages of the validator (not a UUID at all, a UUID in another
  spelling) are one here.
\<close>

definition uuid_re :: "string \<Rightarrow> bool" where
  "uuid_re s \<longleftrightarrow>
     (case split_char (CHR ''-'') s of
        [a, b, c, d, e] \<Rightarrow>
          matches_exact is_hex 8 a \<and> matches_exact is_hex 4 b \<and> matches_exact is_hex 4 c \<and>
          matches_exact is_hex 4 d \<and> matches_exact is_hex 12 e
      | _ \<Rightarrow> False)"

section \<open>Validators\<close>

definition slug :: "string \<Rightarrow> string result" where
  "slug value =
     (if \<not> slug_re value
      then Inl (ValidationError ''slug must be 3-40 lowercase letters, numbers, or interior hyphens'')
      else if contains ''--'' value
      then Inl (ValidationError ''slug must not contain consecutive hyphens'')
      else Inr value)"

definition resource_name :: "string \<Rightarrow> string result" where
  "resource_name value =
     (if \<not> resource_name_re value
      then Inl (ValidationError ''resource name must be 1-40 lowercase letters, numbers, or interior hyphens'')
      else if contains ''--'' value
      then Inl (ValidationError ''resource name must not contain consecutive hyphens'')
      else Inr value)"

definition uuid :: "string \<Rightarrow> string \<Rightarrow> string result" where
  "uuid field value =
     (if uuid_re value then Inr value
      else Inl (ValidationError (field @ '' must be a canonical UUID'')))"

text \<open>Provider output may be 32 hexadecimal digits without hyphens; it is put in canonical form.\<close>

definition canonical_uuid :: "string \<Rightarrow> string" where
  "canonical_uuid h = take 8 h @ ''-'' @ take 4 (drop 8 h) @ ''-'' @ take 4 (drop 12 h) @ ''-'' @
     take 4 (drop 16 h) @ ''-'' @ drop 20 h"

definition openstack_uuid :: "string \<Rightarrow> string \<Rightarrow> string result" where
  "openstack_uuid field value =
     (if matches_exact is_hex 32 value then Inr (canonical_uuid value) else uuid field value)"

definition flavor_reference :: "string \<Rightarrow> string result" where
  "flavor_reference value =
     (if flavor_re value then Inr value
      else Inl (ValidationError ''flavor must be 1-255 letters, digits, dots, underscores or hyphens''))"

definition commit :: "string \<Rightarrow> string result" where
  "commit value =
     (if commit_re value then Inr value
      else Inl (ValidationError ''commit must be exactly 40 lowercase hexadecimal characters''))"

definition env_key :: "string \<Rightarrow> string result" where
  "env_key value =
     (if env_key_re value then Inr value
      else Inl (ValidationError ''environment key must start with A-Z and contain only A-Z, 0-9, or _''))"

definition script_name :: "string \<Rightarrow> string result" where
  "script_name value =
     (if script_name_re value then Inr value
      else Inl (ValidationError ''script name contains unsupported characters''))"

definition safe_code :: "string \<Rightarrow> string result" where
  "safe_code value =
     (if safe_code_re value then Inr value else Inl (ValidationError ''error code is malformed''))"

definition sha256_hex :: "string \<Rightarrow> string \<Rightarrow> string result" where
  "sha256_hex field value =
     (if sha256_hex_re value then Inr value
      else Inl (ValidationError (field @ '' must be 64 lowercase hexadecimal characters'')))"

definition oci_digest_pin :: "string \<Rightarrow> string \<Rightarrow> string result" where
  "oci_digest_pin field value =
     (if length value > 512 \<or> \<not> oci_digest_re value
      then Inl (ValidationError (field @ '' must be an image@sha256 digest pin''))
      else Inr value)"

section \<open>Paths\<close>

text \<open>The UTF-8 length of a string of code points below 256.\<close>

definition utf8_len :: "string \<Rightarrow> nat" where
  "utf8_len s = (\<Sum>c \<leftarrow> s. if of_char c < (128 :: nat) then 1 else 2)"

text \<open>
  \<open>PurePosixPath(value).parts\<close> of a relative path: empty and \<open>.\<close> components are dropped, \<open>..\<close> is
  kept; \<open>str(path)\<close> joins the parts and is \<open>.\<close> when there are none.
\<close>

definition posix_parts :: "string \<Rightarrow> string list" where
  "posix_parts value = filter (\<lambda>w. w \<noteq> [] \<and> w \<noteq> ''.'') (split_char (CHR ''/'') value)"

definition posix_str :: "string \<Rightarrow> string" where
  "posix_str value =
     (if posix_parts value = [] then ''.'' else join_with ''/'' (posix_parts value))"

definition relative_path :: "string \<Rightarrow> bool \<Rightarrow> string \<Rightarrow> string result" where
  "relative_path field allow_dot value =
     (if value = [] \<or> utf8_len value > 1024
      then Inl (ValidationError (field @ '' must be a non-empty repository-relative path''))
      else if CHR 0x5C \<in> set value \<or> CHR 0x00 \<in> set value
      then Inl (ValidationError (field @ '' contains unsupported characters''))
      else if starts_with ''/'' value \<or> ''..'' \<in> set (posix_parts value)
      then Inl (ValidationError (field @ '' must remain inside the repository''))
      else if posix_str value = ''.'' \<and> \<not> allow_dot
      then Inl (ValidationError (field @ '' must name a file below the repository root''))
      else if starts_with ''./'' value \<or> contains ''//'' value
      then Inl (ValidationError (field @ '' must be normalized''))
      else Inr (posix_str value))"

definition health_path :: "string \<Rightarrow> string result" where
  "health_path value =
     (if \<not> (1 \<le> length value \<and> length value \<le> 256)
      then Inl (ValidationError ''health path is malformed'')
      else if \<not> starts_with ''/'' value \<or> starts_with ''//'' value \<or> CHR ''?'' \<in> set value \<or> CHR ''#'' \<in> set value
      then Inl (ValidationError ''health path must be an absolute path without query or fragment'')
      else if list_ex (\<lambda>c. of_char c < (0x21 :: nat) \<or> of_char c > (0x7E :: nat)) value
      then Inl (ValidationError ''health path contains unsupported characters'')
      else if ''..'' \<in> set (posix_parts value) \<or> CHR 0x5C \<in> set value
      then Inl (ValidationError ''health path must be normalized'')
      else Inr value)"

definition bounded_text :: "string \<Rightarrow> int \<Rightarrow> string \<Rightarrow> string result" where
  "bounded_text field maximum value =
     (if CHR 0x00 \<in> set value
      then Inl (ValidationError (field @ '' must be text without NUL bytes''))
      else if int (utf8_len value) > maximum
      then Inl (ValidationError (field @ '' exceeds its '' @ int_text maximum @ ''-byte limit''))
      else Inr value)"

text \<open>\<open>age1[023456789acdefghjklmnpqrstuvwxyz]{58}\<close>, the bech32 alphabet.\<close>

definition age_recipient_re :: "string \<Rightarrow> bool" where
  "age_recipient_re s \<longleftrightarrow> starts_with ''age1'' s \<and>
     matches_exact (\<lambda>c. c \<in> set ''023456789acdefghjklmnpqrstuvwxyz'') 58 (drop 4 s)"

definition age_recipient :: "string \<Rightarrow> string result" where
  "age_recipient s =
     (if age_recipient_re s then Inr s
      else Inl (ValidationError ''backupAgeRecipient must be a canonical age recipient''))"

section \<open>Repository URLs\<close>

text \<open>
  \<open>urllib.parse.urlsplit\<close>. Leading control characters and spaces are dropped, tabs and line breaks are
  removed; a text before the first colon is the scheme when it is one. Whether a host in square brackets
  is a valid address literal is left to \<open>bracketed\<close>; the result is scheme, location, path, query and fragment; \<open>urlsplit\<close> raises \<open>ValueError\<close> where it is not.
\<close>

definition lower_char :: "char \<Rightarrow> char" where
  "lower_char c = (if is_upper c then char_of (of_char c + (32 :: nat)) else c)"

definition url_sanitized :: "string \<Rightarrow> string" where
  "url_sanitized url =
     filter (\<lambda>c. c \<notin> {CHR 0x09, CHR 0x0A, CHR 0x0D}) (dropWhile (\<lambda>c. of_char c \<le> (32 :: nat)) url)"

definition split_once :: "char \<Rightarrow> string \<Rightarrow> string \<times> string" where
  "split_once c s = (takeWhile (\<lambda>x. x \<noteq> c) s, drop 1 (dropWhile (\<lambda>x. x \<noteq> c) s))"

definition url_scheme :: "string \<Rightarrow> string \<times> string" where
  "url_scheme url =
     (let (before, after) = split_once (CHR '':'') url
      in if CHR '':'' \<in> set url \<and> before \<noteq> [] \<and> (is_lower (hd before) \<or> is_upper (hd before)) \<and>
            list_all (\<lambda>c. is_alnum c \<or> c \<in> set ''+-.'') before
         then (map lower_char before, after) else ([], url))"

definition urlsplit :: "(string \<Rightarrow> bool) \<Rightarrow> string \<Rightarrow> (string \<times> string \<times> string \<times> string \<times> string) result" where
  "urlsplit bracketed value =
     (let (scheme, url) = url_scheme (url_sanitized value);
          stop = (\<lambda>c. c \<notin> set ''/?#'');
          (netloc, url) = (if starts_with ''//'' url then (takeWhile stop (drop 2 url), dropWhile stop (drop 2 url)) else ([], url));
          opens = CHR ''['' \<in> set netloc; closes = CHR '']'' \<in> set netloc
      in if opens \<noteq> closes then Inl (ValueError ''Invalid IPv6 URL'')
         else if opens \<and> \<not> bracketed netloc then Inl (ValueError ''Invalid IPv6 URL'')
         else
           let (url, fragment) = split_once (CHR ''#'') url; (path, query) = split_once (CHR ''?'') url
           in Inr (scheme, netloc, path, query, fragment))"

text \<open>\<open>[A-Za-z0-9](?:[A-Za-z0-9._-]{0,98}[A-Za-z0-9])?\<close>\<close>

definition github_component :: "string \<Rightarrow> bool" where
  "github_component s \<longleftrightarrow> s \<noteq> [] \<and> length s \<le> 100 \<and> is_alnum (hd s) \<and> is_alnum (last s) \<and>
     list_all (\<lambda>c. is_alnum c \<or> c \<in> set ''._-'') s"

definition repository_url :: "(string \<Rightarrow> bool) \<Rightarrow> string \<Rightarrow> string result" where
  "repository_url bracketed value =
     (if length value > 256 then Inl (ValidationError ''repository URL is malformed'')
      else rbind (urlsplit bracketed value) (\<lambda>(scheme, netloc, path, query, fragment).
        if scheme \<noteq> ''https'' \<or> netloc \<noteq> ''github.com'' \<or> query \<noteq> [] \<or> fragment \<noteq> []
        then Inl (ValidationError ''repository must be a credential-free https://github.com/OWNER/REPOSITORY URL'')
        else case split_char (CHR ''/'') path of
          [_, owner, repository] \<Rightarrow>
            if owner = [] \<or> repository = []
            then Inl (ValidationError ''repository URL must contain exactly an owner and repository'')
            else
              let repository = (if ends_with ''.git'' repository then take (length repository - 4) repository else repository)
              in if \<not> github_component owner \<or> \<not> github_component repository
                 then Inl (ValidationError ''repository owner or name contains unsupported characters'')
                 else Inr (''https://github.com/'' @ owner @ ''/'' @ repository)
        | _ \<Rightarrow> Inl (ValidationError ''repository URL must contain exactly an owner and repository'')))"

section \<open>Validators return what they accept\<close>

lemma slug_Inr [result_simps]: "slug s = Inr t \<longleftrightarrow> t = s \<and> slug_re s \<and> \<not> contains ''--'' s"
  by (auto simp: slug_def)

lemma resource_name_Inr [result_simps]:
  "resource_name s = Inr t \<longleftrightarrow> t = s \<and> resource_name_re s \<and> \<not> contains ''--'' s"
  by (auto simp: resource_name_def)

lemma uuid_Inr [result_simps]: "uuid f s = Inr t \<longleftrightarrow> t = s \<and> uuid_re s"
  by (auto simp: uuid_def)

lemma flavor_reference_Inr [result_simps]: "flavor_reference s = Inr t \<longleftrightarrow> t = s \<and> flavor_re s"
  by (auto simp: flavor_reference_def)

lemma commit_Inr [result_simps]: "commit s = Inr t \<longleftrightarrow> t = s \<and> commit_re s"
  by (auto simp: commit_def)

lemma env_key_Inr [result_simps]: "env_key s = Inr t \<longleftrightarrow> t = s \<and> env_key_re s"
  by (auto simp: env_key_def)

lemma script_name_Inr [result_simps]: "script_name s = Inr t \<longleftrightarrow> t = s \<and> script_name_re s"
  by (auto simp: script_name_def)

lemma sha256_hex_Inr [result_simps]: "sha256_hex f s = Inr t \<longleftrightarrow> t = s \<and> sha256_hex_re s"
  by (auto simp: sha256_hex_def)

lemma oci_digest_pin_Inr [result_simps]:
  "oci_digest_pin f s = Inr t \<longleftrightarrow> t = s \<and> length s \<le> 512 \<and> oci_digest_re s"
  by (auto simp: oci_digest_pin_def)

lemma health_path_same: "health_path s = Inr t \<Longrightarrow> t = s"
  by (auto simp: health_path_def split: if_splits)

section \<open>Paths are canonical\<close>

lemma split_join:
  assumes "ws \<noteq> []" and "\<And>w. w \<in> set ws \<Longrightarrow> c \<notin> set w"
  shows "split_char c (join_with [c] ws) = ws"
  using assms
proof (induction "[c]" ws rule: join_with.induct)
  case (3 w v ws)
  then have "split_char c (w @ c # join_with [c] (v # ws)) = w # (v # ws)"
    by (subst split_char_append_sep) auto
  then show ?case by simp
qed (auto simp: split_char_plain)

lemma contains_double_sep: "contains [c, c] s \<Longrightarrow> [] \<in> set (tl (split_char c s))"
proof (induction s)
  case (Cons x s)
  obtain w ws where split: "split_char c s = w # ws"
    by (cases "split_char c s") auto
  show ?case
  proof (cases "contains [c, c] s")
    case True
    with Cons.IH split show ?thesis by auto
  next
    case False
    with Cons.prems have "x = c" by auto
    moreover from False Cons.prems obtain s' where "s = c # s'" by (cases s) auto
    ultimately show ?thesis by simp
  qed
qed simp

lemma in_set_tl: "x \<in> set (tl xs) \<Longrightarrow> x \<in> set xs"
  by (cases xs) auto

lemma split_char_head: "s = w @ c # t \<Longrightarrow> c \<notin> set w \<Longrightarrow> hd (split_char c s) = w"
  by (simp add: split_char_append_sep)

lemma posix_part_props:
  assumes "w \<in> set (posix_parts v)"
  shows "w \<noteq> []" and "w \<noteq> ''.''" and "CHR ''/'' \<notin> set w"
  using assms split_char_no_sep [of w "CHR ''/''" v] by (auto simp: posix_parts_def)

lemma split_posix_str:
  "split_char (CHR ''/'') (posix_str v) = (if posix_parts v = [] then [''.''] else posix_parts v)"
  using split_join [of "posix_parts v" "CHR ''/''"] posix_part_props(3) [of _ v]
  by (auto simp: posix_str_def)

lemma posix_parts_str: "posix_parts (posix_str v) = posix_parts v"
proof -
  have "filter (\<lambda>w. w \<noteq> [] \<and> w \<noteq> ''.'') (posix_parts v) = posix_parts v"
    by (simp add: posix_parts_def)
  then show ?thesis
    unfolding posix_parts_def [of "posix_str v"] split_posix_str by auto
qed

lemma posix_str_idem: "posix_str (posix_str v) = posix_str v"
  by (simp add: posix_str_def [of "posix_str v"] posix_parts_str) (simp add: posix_str_def)

lemma posix_str_components:
  "w \<in> set (split_char (CHR ''/'') (posix_str v)) \<Longrightarrow> w = ''.'' \<and> posix_parts v = [] \<or> w \<in> set (posix_parts v)"
  by (simp add: split_posix_str split: if_splits)

lemma utf8_len_append [simp]: "utf8_len (s @ t) = utf8_len s + utf8_len t"
  by (simp add: utf8_len_def)

lemma utf8_len_Cons: "utf8_len (c # s) = (if of_char c < (128 :: nat) then 1 else 2) + utf8_len s"
  by (simp add: utf8_len_def)

lemma utf8_len_Nil [simp]: "utf8_len [] = 0"
  by (simp add: utf8_len_def)

lemma utf8_len_slash [simp]: "utf8_len ''/'' = 1"
  by (simp add: utf8_len_Cons)

lemma utf8_len_join:
  "ws \<noteq> [] \<Longrightarrow> utf8_len (join_with ''/'' ws) + 1 = (\<Sum>w \<leftarrow> ws. utf8_len w + 1)"
  by (induction "''/''" ws rule: join_with.induct) (auto simp: utf8_len_Cons)

lemma utf8_len_split: "utf8_len v + 1 = (\<Sum>w \<leftarrow> split_char (CHR ''/'') v. utf8_len w + 1)"
proof (induction v)
  case (Cons x v)
  obtain w ws where "split_char (CHR ''/'') v = w # ws"
    by (cases "split_char (CHR ''/'') v") auto
  with Cons show ?case by (auto simp: utf8_len_Cons)
qed simp

lemma sum_list_filter_le: "(\<Sum>x \<leftarrow> filter P xs. f x) \<le> (\<Sum>x \<leftarrow> xs. f x :: nat)"
  by (induction xs) auto

lemma utf8_len_posix_str: "v \<noteq> [] \<Longrightarrow> utf8_len (posix_str v) \<le> utf8_len v"
proof (cases "posix_parts v = []")
  case True
  assume "v \<noteq> []"
  then have "1 \<le> utf8_len v" by (cases v) (auto simp: utf8_len_Cons)
  with True show ?thesis by (simp add: posix_str_def utf8_len_Cons)
next
  case False
  have "utf8_len (posix_str v) + 1 = (\<Sum>w \<leftarrow> posix_parts v. utf8_len w + 1)"
    using False utf8_len_join [OF False] by (simp add: posix_str_def)
  also have "\<dots> \<le> (\<Sum>w \<leftarrow> split_char (CHR ''/'') v. utf8_len w + 1)"
    unfolding posix_parts_def by (rule sum_list_filter_le)
  also have "\<dots> = utf8_len v + 1"
    by (rule utf8_len_split [symmetric])
  finally show ?thesis by simp
qed

lemma set_split_char: "w \<in> set (split_char c s) \<Longrightarrow> set w \<subseteq> set s"
proof (induction s arbitrary: w)
  case (Cons x s)
  then show ?case by (cases "split_char c s") (fastforce split: if_splits)+
qed simp

lemma set_join_with: "set (join_with sep ws) \<subseteq> set sep \<union> (\<Union>w \<in> set ws. set w)"
  by (induction sep ws rule: join_with.induct) auto

lemma set_posix_str: "set (posix_str v) \<subseteq> set v \<union> set ''/.''"
proof -
  have "(\<Union>w \<in> set (posix_parts v). set w) \<subseteq> set v"
    using set_split_char [of _ "CHR ''/''" v] by (auto simp: posix_parts_def)
  with set_join_with [of "''/''" "posix_parts v"] show ?thesis
    by (auto simp: posix_str_def)
qed

lemma posix_str_normal:
  shows "posix_str v \<noteq> []"
    and "\<not> starts_with ''/'' (posix_str v)"
    and "\<not> starts_with ''./'' (posix_str v)"
    and "\<not> contains ''//'' (posix_str v)"
proof -
  have nonempty: "w \<noteq> []" if "w \<in> set (split_char (CHR ''/'') (posix_str v))" for w
    using posix_str_components [OF that] posix_part_props(1) [of w v] by auto
  then show "posix_str v \<noteq> []" by (cases "posix_str v") auto
  show "\<not> starts_with ''/'' (posix_str v)"
  proof
    assume "starts_with ''/'' (posix_str v)"
    then obtain t where "posix_str v = CHR ''/'' # t" by (cases "posix_str v") auto
    then have "[] \<in> set (split_char (CHR ''/'') (posix_str v))" by simp
    with nonempty show False by blast
  qed
  show "\<not> starts_with ''./'' (posix_str v)"
  proof
    assume "starts_with ''./'' (posix_str v)"
    then obtain t where t: "posix_str v = ''.'' @ CHR ''/'' # t"
      using append_take_drop_id [of 2 "posix_str v"] by (simp add: numeral_2_eq_2) metis
    then have "split_char (CHR ''/'') (posix_str v) = ''.'' # split_char (CHR ''/'') t"
      using split_char_append_sep [of "CHR ''/''" "''.''" t] by simp
    then show False
      using posix_part_props(2) [of "''.''" v] split_posix_str [of v] split_char_not_Nil [of "CHR ''/''" t]
      by (auto split: if_splits)
  qed
  show "\<not> contains ''//'' (posix_str v)"
    using contains_double_sep [of "CHR ''/''" "posix_str v"] nonempty in_set_tl by fastforce
qed

lemma relative_path_Inr:
  "relative_path f a v = Inr r \<longleftrightarrow>
   r = posix_str v \<and> v \<noteq> [] \<and> utf8_len v \<le> 1024 \<and> CHR 0x5C \<notin> set v \<and> CHR 0x00 \<notin> set v \<and>
   \<not> starts_with ''/'' v \<and> ''..'' \<notin> set (posix_parts v) \<and> (posix_str v = ''.'' \<longrightarrow> a) \<and>
   \<not> starts_with ''./'' v \<and> \<not> contains ''//'' v"
  unfolding relative_path_def by (simp add: not_less) blast

lemma relative_path_idem:
  assumes "relative_path f a v = Inr r"
  shows "relative_path f a r = Inr r"
proof -
  have v: "r = posix_str v" "v \<noteq> []" "utf8_len v \<le> 1024" "CHR 0x5C \<notin> set v" "CHR 0x00 \<notin> set v"
    "''..'' \<notin> set (posix_parts v)" "posix_str v = ''.'' \<longrightarrow> a"
    using assms unfolding relative_path_Inr by blast+
  have "utf8_len r \<le> 1024"
    using utf8_len_posix_str [OF v(2)] v(1,3) by simp
  moreover have "CHR 0x5C \<notin> set r" "CHR 0x00 \<notin> set r"
    using set_posix_str [of v] v(1,4,5) by auto
  ultimately show ?thesis
    using v posix_str_normal [of v]
    unfolding relative_path_Inr by (simp add: posix_str_idem posix_parts_str)
qed

text \<open>
  A package path that \<open>relative_path\<close> accepts is returned in the one canonical spelling of the
  directory it names: validating the result again returns it unchanged, and the result is relative,
  has no empty and no \<open>..\<close> component, so that joining it to a checkout stays inside it.
\<close>

theorem relative_path_canonical:
  assumes "relative_path field allow_dot raw = Inr path"
  shows "relative_path field allow_dot path = Inr path \<and>
    (\<forall>w \<in> set (split_char (CHR ''/'') path). w \<noteq> [] \<and> w \<noteq> ''..'') \<and> \<not> starts_with ''/'' path"
proof -
  have v: "path = posix_str raw" "''..'' \<notin> set (posix_parts raw)"
    using assms unfolding relative_path_Inr by blast+
  have "w \<noteq> [] \<and> w \<noteq> ''..''" if "w \<in> set (split_char (CHR ''/'') path)" for w
    using posix_str_components [of w raw] posix_part_props(1) [of w raw] that v by auto
  with relative_path_idem [OF assms] posix_str_normal(2) [of raw] v(1) show ?thesis by simp
qed

theorem relative_path_canonical_witness:
  "relative_path ''package path'' True ''apps/./web/'' = Inr ''apps/web'' \<and>
   relative_path ''package path'' True ''apps/web'' = Inr ''apps/web''"
proof -
  have h: "relative_path ''package path'' True ''apps/./web/'' = Inr ''apps/web''"
    by code_simp
  show ?thesis using h relative_path_canonical [OF h] by simp
qed

end
