(* ===== verification/Storage_Contract.thy ===== *)
theory Storage_Contract
  imports Validation Json_Values
begin

text \<open>
  The secret-free contracts of managed storage: \<open>controller/storage_contract.py\<close> (output names, the
  keys their values are stored under, the conversion to and from provider variables, quota
  validation) and \<open>instance_contract.py\<close> (limits and disk reservations of database instances).
  Dictionaries are association lists in insertion order with distinct keys.
\<close>

section \<open>Tables of the contract\<close>

definition RESOURCE_TYPES :: "string list" where
  "RESOURCE_TYPES = [''postgres'', ''mongo'', ''s3'']"

definition RESOURCE_OUTPUTS :: "(string \<times> string list) list" where
  "RESOURCE_OUTPUTS =
     [(''postgres'', [''url'', ''host'', ''port'', ''database'', ''user'', ''password'', ''sslmode'', ''sslrootcert'']),
      (''mongo'', [''uri'']),
      (''s3'', [''endpoint'', ''public_endpoint'', ''region'', ''access_key_id'', ''secret_access_key'', ''bucket''])]"

definition DERIVED_OUTPUTS :: "(string \<times> string list) list" where
  "DERIVED_OUTPUTS = [(''postgres'', []), (''mongo'', []), (''s3'', [''public_endpoint''])]"

definition RETIRED_OUTPUTS :: "(string \<times> string list) list" where
  "RETIRED_OUTPUTS = [(''postgres'', []), (''mongo'', []), (''s3'', [''ca_bundle'', ''force_path_style''])]"

definition ENVIRONMENT_KEYS :: "(string \<times> string list) list" where
  "ENVIRONMENT_KEYS =
     [(''postgres'', [''DATABASE_URL'', ''PGHOST'', ''PGPORT'', ''PGDATABASE'', ''PGUSER'', ''PGPASSWORD'', ''PGSSLMODE'', ''PGSSLROOTCERT'']),
      (''mongo'', [''MONGODB_URI'']),
      (''s3'', [''AWS_ENDPOINT_URL_S3'', ''AWS_REGION'', ''AWS_ACCESS_KEY_ID'', ''AWS_SECRET_ACCESS_KEY'', ''S3_ENDPOINT'', ''S3_BUCKET''])]"

definition PROVIDER_ENVIRONMENT_KEYS :: "(string \<times> (string \<times> string) list) list" where
  "PROVIDER_ENVIRONMENT_KEYS =
     [(''postgres'', zip [''url'', ''host'', ''port'', ''database'', ''user'', ''password'', ''sslmode'', ''sslrootcert'']
         [''DATABASE_URL'', ''PGHOST'', ''PGPORT'', ''PGDATABASE'', ''PGUSER'', ''PGPASSWORD'', ''PGSSLMODE'', ''PGSSLROOTCERT'']),
      (''mongo'', [(''uri'', ''MONGODB_URI'')]),
      (''s3'', [(''endpoint'', ''AWS_ENDPOINT_URL_S3''), (''region'', ''AWS_REGION''),
        (''access_key_id'', ''AWS_ACCESS_KEY_ID''), (''secret_access_key'', ''AWS_SECRET_ACCESS_KEY''),
        (''bucket'', ''S3_BUCKET'')])]"

text \<open>\<open>table[key]\<close> raises \<open>KeyError\<close> for an absent key.\<close>

definition dict_index :: "(string \<times> 'v) list \<Rightarrow> string \<Rightarrow> 'v result" where
  "dict_index d k = (case map_of d k of None \<Rightarrow> Inl (KeyError k) | Some v \<Rightarrow> Inr v)"

section \<open>Names and keys\<close>

definition to_upper :: "char \<Rightarrow> char" where
  "to_upper c = (if is_lower c then char_of (of_char c - 32 :: nat) else c)"

definition upper :: "string \<Rightarrow> string" where
  "upper s = map to_upper s"

definition replace_char :: "char \<Rightarrow> char \<Rightarrow> string \<Rightarrow> string" where
  "replace_char a b s = map (\<lambda>c. if c = a then b else c) s"

definition storage_owner :: "string \<Rightarrow> string \<Rightarrow> string result" where
  "storage_owner resource_type name =
     (if resource_type \<notin> set RESOURCE_TYPES
      then Inl (ValidationError ''storage type must be postgres, mongo, or s3'')
      else rbind (resource_name name) (\<lambda>n. Inr (''storage.'' @ resource_type @ ''.'' @ n)))"

definition secret_key :: "string \<Rightarrow> string \<Rightarrow> string \<Rightarrow> string" where
  "secret_key resource_type checked_name output =
     ''STORAGE__'' @ upper resource_type @ ''__'' @ upper (replace_char (CHR ''-'') (CHR ''_'') checked_name) @
     ''__'' @ upper output"

definition canonical_secret_key :: "string \<Rightarrow> string \<Rightarrow> string \<Rightarrow> string result" where
  "canonical_secret_key resource_type name output =
     rbind (resource_name name) (\<lambda>checked_name.
       if resource_type \<notin> set RESOURCE_TYPES then Inl (ValidationError ''managed-storage output is invalid'')
       else rbind (dict_index RESOURCE_OUTPUTS resource_type) (\<lambda>outputs.
         if output \<notin> set outputs then Inl (ValidationError ''managed-storage output is invalid'')
         else Inr (secret_key resource_type checked_name output)))"

definition stored_outputs :: "string \<Rightarrow> string list result" where
  "stored_outputs resource_type =
     rbind (dict_index DERIVED_OUTPUTS resource_type) (\<lambda>derived.
     rbind (dict_index RESOURCE_OUTPUTS resource_type) (\<lambda>outputs.
       Inr (filter (\<lambda>output. output \<notin> set derived) outputs)))"

definition canonical_secret_keys :: "string \<Rightarrow> string \<Rightarrow> string list result" where
  "canonical_secret_keys resource_type name =
     rbind (stored_outputs resource_type) (\<lambda>outputs. rmap (canonical_secret_key resource_type name) outputs)"

definition public_s3_endpoint :: "string \<Rightarrow> string" where
  "public_s3_endpoint domain = ''https://s3.'' @ domain"

definition derived_output :: "string \<Rightarrow> string \<Rightarrow> string \<Rightarrow> string result" where
  "derived_output resource_type output domain =
     (if output \<notin> set (case map_of DERIVED_OUTPUTS resource_type of None \<Rightarrow> [] | Some outs \<Rightarrow> outs)
      then Inl (ValidationError ''managed-storage output is not derived'')
      else Inr (public_s3_endpoint domain))"

definition retired_secret_keys :: "string \<Rightarrow> string \<Rightarrow> string list result" where
  "retired_secret_keys resource_type name =
     rbind (resource_name name) (\<lambda>checked_name.
       if resource_type \<notin> set RESOURCE_TYPES
       then Inl (ValidationError ''storage type must be postgres, mongo, or s3'')
       else rbind (dict_index RETIRED_OUTPUTS resource_type) (\<lambda>outputs.
         Inr (map (secret_key resource_type checked_name) outputs)))"

definition stored_mapping :: "string \<Rightarrow> (string \<times> string) list result" where
  "stored_mapping resource_type =
     rbind (stored_outputs resource_type) (\<lambda>outputs.
     rbind (dict_index PROVIDER_ENVIRONMENT_KEYS resource_type) (\<lambda>keys.
       Inr (filter (\<lambda>(output, key). output \<in> set outputs) keys)))"

definition canonicalize_environment ::
  "string \<Rightarrow> string \<Rightarrow> (string \<times> string) list \<Rightarrow> (string \<times> string) list result" where
  "canonicalize_environment resource_type name vals =
     rbind (stored_mapping resource_type) (\<lambda>mapping.
     rbind (dict_index ENVIRONMENT_KEYS resource_type) (\<lambda>expected.
       if dict_keys vals \<noteq> set expected
       then Inl (ValidationError ''provider environment outputs are incomplete'')
       else if resource_type = ''s3'' \<and> map_of vals ''AWS_ENDPOINT_URL_S3'' \<noteq> map_of vals ''S3_ENDPOINT''
       then Inl (ValidationError ''provider endpoint outputs conflict'')
       else rmap (\<lambda>(output, key). rbind (canonical_secret_key resource_type name output) (\<lambda>k.
              rbind (dict_index vals key) (\<lambda>v. Inr (k, v)))) mapping))"

definition provider_environment ::
  "string \<Rightarrow> string \<Rightarrow> (string \<times> string) list \<Rightarrow> (string \<times> string) list result" where
  "provider_environment resource_type name vals =
     rbind (stored_mapping resource_type) (\<lambda>mapping.
     rbind (canonical_secret_keys resource_type name) (\<lambda>expected.
       if dict_keys vals \<noteq> set expected
       then Inl (ValidationError ''managed-storage secret outputs are incomplete'')
       else rbind (rmap (\<lambda>(output, key). rbind (canonical_secret_key resource_type name output) (\<lambda>k.
              rbind (dict_index vals k) (\<lambda>v. Inr (key, v)))) mapping) (\<lambda>result.
         if resource_type = ''s3''
         then rbind (dict_index result ''AWS_ENDPOINT_URL_S3'') (\<lambda>e. Inr (dict_put ''S3_ENDPOINT'' e result))
         else Inr result)))"

section \<open>Reserved environment names\<close>

definition FIXED_PLATFORM_ENVIRONMENT :: "(string \<times> string) list" where
  "FIXED_PLATFORM_ENVIRONMENT = [(''NODE_ENV'', ''production''), (''PLATFORM_ENV'', ''production'')]"

definition RESERVED_ENVIRONMENT_KEYS :: "string list" where
  "RESERVED_ENVIRONMENT_KEYS =
     [''NODE_ENV'', ''PLATFORM_ENV'', ''PLATFORM_PROJECT_ID'', ''PLATFORM_PROJECT_SLUG'', ''PORT'',
      ''NODE_EXTRA_CA_CERTS'', ''AWS_REQUEST_CHECKSUM_CALCULATION'']"

definition RESERVED_ENVIRONMENT_PREFIX :: string where
  "RESERVED_ENVIRONMENT_PREFIX = ''STORAGE__''"

definition platform_environment_values ::
  "string \<Rightarrow> string \<Rightarrow> int \<Rightarrow> (string \<times> string) list result" where
  "platform_environment_values application_id application_slug application_port =
     rbind (uuid ''application_id'' application_id) (\<lambda>identifier.
     rbind (slug application_slug) (\<lambda>checked_slug.
       if \<not> (1 \<le> application_port \<and> application_port \<le> 65535)
       then Inl (ValidationError ''application_port must be from 1 through 65535'')
       else Inr (FIXED_PLATFORM_ENVIRONMENT @
         [(''PLATFORM_PROJECT_ID'', identifier), (''PLATFORM_PROJECT_SLUG'', checked_slug),
          (''PORT'', int_text application_port)])))"

section \<open>Quotas\<close>

definition MIB :: int where "MIB = 1048576"
definition GIB :: int where "GIB = 1073741824"
definition DEFAULT_MEMORY :: int where "DEFAULT_MEMORY = 512 * MIB"
definition MEMORY_BUDGET :: int where "MEMORY_BUDGET = 50 * GIB"
definition TRANSITION_MEMORY_BUDGET :: int where "TRANSITION_MEMORY_BUDGET = 36 * GIB"
definition CONNECTION_BUDGET :: int where "CONNECTION_BUDGET = 2000"
definition S3_OBJECT_BUDGET :: int where "S3_OBJECT_BUDGET = 5000000"
definition MAX_STORAGE_BYTES :: int where "MAX_STORAGE_BYTES = 500 * GIB"
definition MIN_STORAGE_BYTES :: int where "MIN_STORAGE_BYTES = MIB"

definition hard_quota :: "int \<Rightarrow> int" where
  "hard_quota nbytes = (((nbytes * 3 + 1) div 2 + MIB - 1) div MIB) * MIB"

definition garage_reservation :: "int \<Rightarrow> int \<Rightarrow> int" where
  "garage_reservation nbytes objects =
     (let physical = max ((nbytes * 5 + 3) div 4) (objects * 4096)
      in ((physical + MIB - 1) div MIB) * MIB)"

text \<open>A JSON integer; booleans are refused although \<open>bool\<close> is a subclass of \<open>int\<close>.\<close>

fun as_int :: "json \<Rightarrow> int option" where
  "as_int (JInt i) = Some i"
| "as_int _ = None"

definition limit_bounds :: "string \<Rightarrow> int \<times> int" where
  "limit_bounds name =
     (if name = ''sizeBytes'' then (GIB, 500 * GIB)
      else if name = ''connections'' then (1, 100)
      else if name = ''memoryBytes'' then (DEFAULT_MEMORY, 8 * GIB)
      else (100, 4000))"

definition check_limit :: "string \<times> json \<Rightarrow> (string \<times> int) result" where
  "check_limit = (\<lambda>(name, number).
     case as_int number of
       None \<Rightarrow> Inl (ValidationError (name @ '' must be an integer in range''))
     | Some n \<Rightarrow>
         if \<not> (fst (limit_bounds name) \<le> n \<and> n \<le> snd (limit_bounds name))
         then Inl (ValidationError (name @ '' must be an integer in range''))
         else if name = ''memoryBytes'' \<and> n mod MIB \<noteq> 0
         then Inl (ValidationError ''memoryBytes must be a whole number of MiB'')
         else Inr (name, n))"

definition validate_limits :: "json \<Rightarrow> (string \<times> int) list result" where
  "validate_limits v =
     (case v of
        JObj fields \<Rightarrow>
          if dict_keys fields \<noteq> {''sizeBytes'', ''connections'', ''memoryBytes'', ''cpuMillicores''}
          then Inl (ValidationError ''database quotas require sizeBytes, connections, memoryBytes and cpuMillicores'')
          else rmap check_limit fields
      | _ \<Rightarrow> Inl (ValidationError ''database quotas require sizeBytes, connections, memoryBytes and cpuMillicores''))"

definition check_s3_quota :: "string \<times> json \<Rightarrow> (string \<times> int) result" where
  "check_s3_quota = (\<lambda>(name, number).
     let (lower, upper) = (if name = ''s3Objects'' then (1, 100000000) else (MIN_STORAGE_BYTES, MAX_STORAGE_BYTES))
     in case as_int number of
          None \<Rightarrow> Inl (ValidationError (name @ '' must be an integer in range''))
        | Some n \<Rightarrow>
            if \<not> (lower \<le> n \<and> n \<le> upper)
            then Inl (ValidationError (name @ '' must be an integer in range''))
            else Inr (name, n))"

definition validate_quotas :: "string \<Rightarrow> json \<Rightarrow> (string \<times> int) list result" where
  "validate_quotas resource_type v =
     (if resource_type \<in> {''postgres'', ''mongo''} then validate_limits v
      else case v of
        JObj fields \<Rightarrow>
          if resource_type \<noteq> ''s3'' \<or> dict_keys fields \<noteq> {''s3Bytes'', ''s3Objects''}
          then Inl (ValidationError ''quotas must contain exactly the resource's applicable fields'')
          else rmap check_s3_quota fields
      | _ \<Rightarrow> Inl (ValidationError ''quotas must contain exactly the resource's applicable fields''))"

definition validate_expected_quotas :: "string \<Rightarrow> json \<Rightarrow> jdict result" where
  "validate_expected_quotas resource_type v =
     (let fields = (if resource_type = ''s3'' then {''s3Bytes'', ''s3Objects''}
                    else {''sizeBytes'', ''connections'', ''memoryBytes'', ''cpuMillicores''})
      in case v of
           JObj kvs \<Rightarrow>
             if dict_keys kvs \<noteq> fields \<or>
                list_ex (\<lambda>(k, number). case as_int number of None \<Rightarrow> True
                   | Some n \<Rightarrow> \<not> (0 < n \<and> n \<le> 2 ^ 63 - 1)) kvs
             then Inl (ValidationError ''expectedQuotas must be the complete accepted integer quota snapshot'')
             else Inr kvs
         | _ \<Rightarrow> Inl (ValidationError ''expectedQuotas must be the complete accepted integer quota snapshot''))"

section \<open>Keys identify their output\<close>

definition key_char :: "char \<Rightarrow> bool" where
  "key_char c \<longleftrightarrow> is_lower c \<or> is_digit c \<or> c = CHR ''_''"

lemma of_char_to_upper:
  "of_char (to_upper c) = (if is_lower c then of_char c - 32 else of_char c :: nat)"
  by (auto simp: to_upper_def is_lower_def less_eq_char_def)

lemma to_upper_inj:
  assumes "key_char c" and "key_char d" and "to_upper c = to_upper d"
  shows "c = d"
proof -
  have "of_char (to_upper c) = (of_char (to_upper d) :: nat)"
    using assms(3) by simp
  with assms(1,2) have "of_char c = (of_char d :: nat)"
    unfolding of_char_to_upper key_char_def is_lower_def is_digit_def less_eq_char_def
    by (auto split: if_splits simp del: of_char_eq_iff)
  then show ?thesis by simp
qed

lemma to_upper_underscore: "key_char c \<Longrightarrow> to_upper c = CHR ''_'' \<longleftrightarrow> c = CHR ''_''"
  using to_upper_inj [of c "CHR ''_''"] by (auto simp: key_char_def to_upper_def is_lower_def)

lemma upper_inj: "list_all key_char s \<Longrightarrow> list_all key_char t \<Longrightarrow> upper s = upper t \<Longrightarrow> s = t"
proof (induction s arbitrary: t)
  case (Cons c s)
  then obtain d t' where t: "t = d # t'" by (cases t) (auto simp: upper_def)
  with Cons show ?case by (auto simp: upper_def dest: to_upper_inj)
qed (simp add: upper_def)

abbreviation name_key :: "string \<Rightarrow> string" where
  "name_key n \<equiv> replace_char (CHR ''-'') (CHR ''_'') n"

lemma name_key_chars: "list_all slug_char n \<Longrightarrow> list_all key_char (name_key n)"
  by (auto simp: list_all_iff replace_char_def slug_char_def key_char_def)

lemma name_key_inj:
  assumes "list_all slug_char n" and "list_all slug_char m" and "name_key n = name_key m"
  shows "n = m"
  using assms
proof (induction n arbitrary: m)
  case (Cons c n)
  then obtain d m' where m: "m = d # m'" by (cases m) (auto simp: replace_char_def)
  from Cons.prems have "c = d"
    by (auto simp: m replace_char_def slug_char_def is_lower_def is_digit_def split: if_splits)
  with Cons m show ?case by (simp add: replace_char_def)
qed (simp add: replace_char_def)

text \<open>A name never contains the separator and never ends with an underscore.\<close>

lemma starts_with_map: "starts_with (map f p) (map f s) \<longleftrightarrow> map f (take (length p) s) = map f p"
  by (simp add: take_map)

lemma contains_double_map:
  assumes "\<And>c. c \<in> set s \<Longrightarrow> f c = y \<longleftrightarrow> c = x"
  shows "contains [y, y] (map f s) \<longleftrightarrow> contains [x, x] s"
  using assms
proof (induction s)
  case (Cons c s)
  then show ?case by (cases s) auto
qed simp

lemma separator_split:
  assumes "a @ ''__'' @ b = a' @ ''__'' @ b'"
    and "\<not> contains ''__'' a" "a = [] \<or> last a \<noteq> CHR ''_''"
    and "\<not> contains ''__'' a'" "a' = [] \<or> last a' \<noteq> CHR ''_''"
  shows "a = a' \<and> b = b'"
  using assms
proof (induction a arbitrary: a')
  case Nil
  show ?case
  proof (cases a')
    case Nil
    with Nil.prems show ?thesis by simp
  next
    case (Cons c a2)
    with Nil.prems show ?thesis by (cases a2) (auto split: if_splits)
  qed
next
  case (Cons c a)
  show ?case
  proof (cases a')
    case Nil
    with Cons.prems show ?thesis by (cases a) (auto split: if_splits)
  next
    case (Cons d a2)
    with Cons.prems have "a = a2 \<and> b = b'"
      by (intro Cons.IH) (auto split: if_splits)
    with Cons.prems \<open>a' = d # a2\<close> show ?thesis by simp
  qed
qed

lemma last_map_name:
  assumes "n \<noteq> []" and "list_all slug_char n" and "lower_alnum (last n)"
  shows "last (upper (name_key n)) \<noteq> CHR ''_''"
proof -
  have "last (name_key n) = last n"
    using assms(1,3) by (auto simp: replace_char_def last_map lower_alnum_def is_lower_def is_digit_def)
  moreover have "key_char (last n)" "last n \<noteq> CHR ''_''"
    using assms(3) by (auto simp: lower_alnum_def key_char_def is_lower_def is_digit_def)
  ultimately show ?thesis
    using assms(1) to_upper_underscore [of "last n"]
    by (simp add: upper_def replace_char_def last_map)
qed

lemma contains_name_key:
  assumes "list_all slug_char n"
  shows "contains ''__'' (upper (name_key n)) \<longleftrightarrow> contains ''--'' n"
proof -
  have "contains ''__'' (map (to_upper \<circ> (\<lambda>c. if c = CHR ''-'' then CHR ''_'' else c)) n) \<longleftrightarrow> contains ''--'' n"
  proof (rule contains_double_map)
    fix c
    assume "c \<in> set n"
    then have "slug_char c" using assms by (simp add: list_all_iff)
    then show "(to_upper \<circ> (\<lambda>c. if c = CHR ''-'' then CHR ''_'' else c)) c = CHR ''_'' \<longleftrightarrow> c = CHR ''-''"
      using to_upper_underscore [of c] to_upper_underscore [of "CHR ''_''"]
      by (auto simp: slug_char_def key_char_def is_lower_def is_digit_def)
  qed
  then show ?thesis by (simp add: upper_def replace_char_def)
qed

lemma secret_key_inj:
  assumes types: "t \<in> set RESOURCE_TYPES" "t' \<in> set RESOURCE_TYPES"
    and names: "resource_name n = Inr n" "resource_name n' = Inr n'"
    and outputs: "list_all key_char x" "list_all key_char x'"
    and eq: "secret_key t n x = secret_key t' n' x'"
  shows "t = t' \<and> n = n' \<and> x = x'"
proof -
  have slugs: "list_all slug_char n" "list_all slug_char n'"
    using names by (auto simp: result_simps resource_name_re_def)
  have ends: "upper (name_key n) = [] \<or> last (upper (name_key n)) \<noteq> CHR ''_''"
    "upper (name_key n') = [] \<or> last (upper (name_key n')) \<noteq> CHR ''_''"
    using names last_map_name [of n] last_map_name [of n'] by (auto simp: result_simps resource_name_re_def)
  have plain: "\<not> contains ''__'' (upper (name_key n))" "\<not> contains ''__'' (upper (name_key n'))"
    using names slugs contains_name_key by (auto simp: result_simps)
  have types_eq: "t = t'"
    using types eq by (auto simp: RESOURCE_TYPES_def secret_key_def upper_def to_upper_def is_lower_def)
  then have "upper (name_key n) @ ''__'' @ upper x = upper (name_key n') @ ''__'' @ upper x'"
    using eq by (simp add: secret_key_def)
  from separator_split [OF this plain(1) ends(1) plain(2) ends(2)]
  have "upper (name_key n) = upper (name_key n')" "upper x = upper x'" by auto
  then have "name_key n = name_key n'" "x = x'"
    using upper_inj name_key_chars slugs outputs by blast+
  with types_eq name_key_inj slugs show ?thesis by blast
qed

lemma output_key_chars:
  assumes "map_of RESOURCE_OUTPUTS t = Some outs" and "x \<in> set outs"
  shows "list_all key_char x"
  using assms
  by (auto simp: RESOURCE_OUTPUTS_def key_char_def is_lower_def is_digit_def split: if_splits)

lemma canonical_secret_key_Inr:
  "canonical_secret_key t n x = Inr k \<longleftrightarrow>
   resource_name n = Inr n \<and> t \<in> set RESOURCE_TYPES \<and>
   (\<exists>outs. map_of RESOURCE_OUTPUTS t = Some outs \<and> x \<in> set outs) \<and> k = secret_key t n x"
  by (auto simp: canonical_secret_key_def dict_index_def result_simps split: option.splits)

text \<open>
  The stored key \<open>STORAGE__TYPE__NAME__OUTPUT\<close> identifies its resource type, resource name and
  output: two accepted triples with the same key are equal, although hyphens and underscores are
  merged and the parts are joined with the same character. No app secret can overwrite another.
\<close>

theorem canonical_secret_key_injective:
  assumes "canonical_secret_key t n x = Inr k" and "canonical_secret_key t' n' x' = Inr k"
  shows "t = t' \<and> n = n' \<and> x = x'"
  using assms secret_key_inj [of t t' n n' x x'] output_key_chars
  by (auto simp: canonical_secret_key_Inr)

theorem canonical_secret_key_injective_witness:
  "canonical_secret_key ''s3'' ''media-cdn'' ''bucket'' = Inr ''STORAGE__S3__MEDIA_CDN__BUCKET'' \<and>
   {(t, n, x). canonical_secret_key t n x = Inr ''STORAGE__S3__MEDIA_CDN__BUCKET''} = {(''s3'', ''media-cdn'', ''bucket'')}"
proof -
  have h: "canonical_secret_key ''s3'' ''media-cdn'' ''bucket'' = Inr ''STORAGE__S3__MEDIA_CDN__BUCKET''"
    by code_simp
  show ?thesis using h canonical_secret_key_injective [OF h] by blast
qed

section \<open>Provider variables survive the round trip\<close>

lemma dict_index_Inr: "dict_index d k = Inr v \<longleftrightarrow> map_of d k = Some v"
  by (auto simp: dict_index_def split: option.splits)

lemma dict_index_Some: "map_of d k = Some v \<Longrightarrow> dict_index d k = Inr v"
  by (simp add: dict_index_Inr)

text \<open>The stored mapping of each resource type, evaluated.\<close>

lemma stored_mapping_eval:
  "stored_mapping ''postgres'' = Inr (zip [''url'', ''host'', ''port'', ''database'', ''user'', ''password'', ''sslmode'', ''sslrootcert'']
     [''DATABASE_URL'', ''PGHOST'', ''PGPORT'', ''PGDATABASE'', ''PGUSER'', ''PGPASSWORD'', ''PGSSLMODE'', ''PGSSLROOTCERT''])"
  "stored_mapping ''mongo'' = Inr [(''uri'', ''MONGODB_URI'')]"
  "stored_mapping ''s3'' = Inr [(''endpoint'', ''AWS_ENDPOINT_URL_S3''), (''region'', ''AWS_REGION''),
     (''access_key_id'', ''AWS_ACCESS_KEY_ID''), (''secret_access_key'', ''AWS_SECRET_ACCESS_KEY''),
     (''bucket'', ''S3_BUCKET'')]"
  by code_simp+

lemma stored_outputs_eval:
  "stored_outputs ''postgres'' = Inr [''url'', ''host'', ''port'', ''database'', ''user'', ''password'', ''sslmode'', ''sslrootcert'']"
  "stored_outputs ''mongo'' = Inr [''uri'']"
  "stored_outputs ''s3'' = Inr [''endpoint'', ''region'', ''access_key_id'', ''secret_access_key'', ''bucket'']"
  by code_simp+

lemma stored_mapping_type:
  "stored_mapping t = Inr m \<Longrightarrow> t = ''postgres'' \<or> t = ''mongo'' \<or> t = ''s3''"
  by (auto simp: stored_mapping_def stored_outputs_def DERIVED_OUTPUTS_def dict_index_Inr result_simps split: if_splits)

definition stored_pairing :: "string \<Rightarrow> (string \<times> string) list \<Rightarrow> bool" where
  "stored_pairing t m \<longleftrightarrow> stored_mapping t = Inr m \<and> t \<in> set RESOURCE_TYPES \<and>
     (\<exists>outs. stored_outputs t = Inr outs \<and> set outs = fst ` set m) \<and>
     (\<forall>x \<in> fst ` set m. \<exists>outs. map_of RESOURCE_OUTPUTS t = Some outs \<and> x \<in> set outs) \<and>
     distinct (map fst m) \<and> distinct (map snd m)"

lemma stored_pairingI:
  assumes "stored_mapping t = Inr m"
  shows "stored_pairing t m"
  using stored_mapping_type [OF assms] assms
  by (elim disjE) (auto simp: stored_pairing_def stored_mapping_eval stored_outputs_eval
      RESOURCE_TYPES_def RESOURCE_OUTPUTS_def)

text \<open>Every provider variable but the second spelling of the S3 endpoint is stored.\<close>

lemma stored_mapping_variables:
  assumes "stored_mapping t = Inr m"
  shows "set (the (map_of ENVIRONMENT_KEYS t)) =
    (if t = ''s3'' then insert ''S3_ENDPOINT'' (snd ` set m) else snd ` set m)"
    and "t = ''s3'' \<Longrightarrow> ''AWS_ENDPOINT_URL_S3'' \<in> snd ` set m"
  using stored_mapping_type [OF assms] assms
  by (elim disjE; auto simp: stored_mapping_eval ENVIRONMENT_KEYS_def)+

lemma map_of_snd_map:
  "map_of (map (\<lambda>(x, k). (k, g k)) m) k = (if k \<in> snd ` set m then Some (g k) else None)"
  by (induction m) auto

lemma stored_keys_distinct:
  assumes "stored_pairing t m" and "resource_name n = Inr n"
  shows "inj_on (secret_key t n) (fst ` set m)"
  using assms secret_key_inj [of t t n n] output_key_chars
  unfolding stored_pairing_def inj_on_def by metis

lemma canonicalizeD:
  assumes "canonicalize_environment t n vals = Inr c"
  shows "\<exists>m outs. stored_mapping t = Inr m \<and> map_of ENVIRONMENT_KEYS t = Some outs \<and> dict_keys vals = set outs \<and>
    (t = ''s3'' \<longrightarrow> map_of vals ''S3_ENDPOINT'' = map_of vals ''AWS_ENDPOINT_URL_S3'') \<and>
    rmap (\<lambda>(x, k). rbind (canonical_secret_key t n x) (\<lambda>s. rbind (dict_index vals k) (\<lambda>v. Inr (s, v)))) m = Inr c"
  using assms unfolding canonicalize_environment_def rbind_eq_Inr dict_index_Inr if_Inl_eq_Inr by metis

lemma canonicalize_Inr:
  assumes "canonicalize_environment t n vals = Inr c" and "stored_pairing t m" and "m \<noteq> []"
  shows "c = map (\<lambda>(x, k). (secret_key t n x, the (map_of vals k))) m"
    and "resource_name n = Inr n"
    and "\<forall>(x, k) \<in> set m. map_of vals k \<noteq> None"
proof -
  have "rmap (\<lambda>(x, k). rbind (canonical_secret_key t n x) (\<lambda>s. rbind (dict_index vals k) (\<lambda>v. Inr (s, v)))) m = Inr c"
    using canonicalizeD [OF assms(1)] assms(2) by (auto simp: stored_pairing_def)
  then have steps: "list_all2 (\<lambda>(x, k) y. canonical_secret_key t n x = Inr (fst y) \<and> map_of vals k = Some (snd y)) m c"
    unfolding rmap_Inr_iff
    by (rule list_all2_mono) (auto simp: result_simps dict_index_Inr split: prod.splits)
  then show "c = map (\<lambda>(x, k). (secret_key t n x, the (map_of vals k))) m"
    by (induction rule: list_all2_induct) (auto simp: canonical_secret_key_Inr)
  show "resource_name n = Inr n"
    using steps assms(3) by (cases m; cases c) (auto simp: canonical_secret_key_Inr)
  show "\<forall>(x, k) \<in> set m. map_of vals k \<noteq> None"
    using steps by (induction rule: list_all2_induct) auto
qed

lemma map_of_map_pair:
  assumes "inj_on f (fst ` set m)" and "distinct (map fst m)" and "(x, k) \<in> set m"
  shows "map_of (map (\<lambda>(x, k). (f x, g k)) m) (f x) = Some (g k)"
proof (rule map_of_is_SomeI)
  have "inj_on f (set (map fst m))" using assms(1) by simp
  then have "distinct (map f (map fst m))" using assms(2) by (simp only: distinct_map)
  then show "distinct (map fst (map (\<lambda>(x, k). (f x, g k)) m))"
    by (simp add: comp_def case_prod_unfold)
  show "(f x, g k) \<in> set (map (\<lambda>(x, k). (f x, g k)) m)" using assms(3) by force
qed

lemma provider_values:
  assumes "stored_pairing t m" and "resource_name n = Inr n"
  shows "provider_environment t n (map (\<lambda>(x, k). (secret_key t n x, g k)) m) =
    (let p = map (\<lambda>(x, k). (k, g k)) m
     in if t = ''s3'' then rbind (dict_index p ''AWS_ENDPOINT_URL_S3'') (\<lambda>e. Inr (dict_put ''S3_ENDPOINT'' e p))
        else Inr p)"
proof -
  let ?c = "map (\<lambda>(x, k). (secret_key t n x, g k)) m"
  from assms obtain outs where outs: "stored_outputs t = Inr outs" "set outs = fst ` set m"
    by (auto simp: stored_pairing_def)
  have key: "canonical_secret_key t n x = Inr (secret_key t n x)" if "x \<in> fst ` set m" for x
    using assms that by (auto simp: canonical_secret_key_Inr stored_pairing_def)
  have keys: "canonical_secret_keys t n = Inr (map (secret_key t n) outs)"
    using outs key by (auto simp: canonical_secret_keys_def intro: rmap_all_Inr)
  have "rmap (\<lambda>(x, k). rbind (canonical_secret_key t n x) (\<lambda>s. rbind (dict_index ?c s) (\<lambda>v. Inr (k, v)))) m
      = Inr (map (\<lambda>(x, k). (k, g k)) m)"
  proof (rule rmap_all_Inr)
    fix xk
    assume xk: "xk \<in> set m"
    obtain x k where "xk = (x, k)" by (cases xk)
    with xk have "canonical_secret_key t n x = Inr (secret_key t n x)"
      and "map_of ?c (secret_key t n x) = Some (g k)"
      using key map_of_map_pair [OF stored_keys_distinct [OF assms], of x k g] assms(1)
      by (force simp: stored_pairing_def)+
    with \<open>xk = (x, k)\<close> show "(case xk of (x, k) \<Rightarrow> rbind (canonical_secret_key t n x)
        (\<lambda>s. rbind (dict_index ?c s) (\<lambda>v. Inr (k, v)))) = Inr (case xk of (x, k) \<Rightarrow> (k, g k))"
      by (simp add: dict_index_def)
  qed
  moreover have "dict_keys ?c = set (map (secret_key t n) outs)"
    using outs by (force simp: dict_keys_def)
  ultimately show ?thesis
    using assms(1) keys by (simp add: provider_environment_def stored_pairing_def Let_def)
qed

text \<open>
  Converting a provider's variables to canonical app-variable items and back gives the same
  variables, for every resource type, including the second spelling of the S3 endpoint that is not
  stored. The conversion back never fails on what the conversion there produced.
\<close>

theorem provider_environment_round_trip:
  assumes "distinct (map fst vals)" and "canonicalize_environment t n vals = Inr c"
  shows "\<exists>p. provider_environment t n c = Inr p \<and> map_of p = map_of vals"
proof -
  from canonicalizeD [OF assms(2)] obtain m outs
    where m: "stored_mapping t = Inr m" and outs: "map_of ENVIRONMENT_KEYS t = Some outs"
      and keys: "dict_keys vals = set outs"
      and endpoint: "t = ''s3'' \<Longrightarrow> map_of vals ''S3_ENDPOINT'' = map_of vals ''AWS_ENDPOINT_URL_S3''"
    by blast
  from m have pairing: "stored_pairing t m" by (rule stored_pairingI)
  have t: "t = ''postgres'' \<or> t = ''mongo'' \<or> t = ''s3''" using m by (rule stored_mapping_type)
  with m have "m \<noteq> []" by (auto simp: stored_mapping_eval)
  note canon = canonicalize_Inr [OF assms(2) pairing this]
  note canon' = provider_values [OF pairing canon(2), of "\<lambda>k. the (map_of vals k)"]
  let ?p = "map (\<lambda>(x, k). (k, the (map_of vals k))) m"
  have absent: "map_of vals k = None \<longleftrightarrow> k \<notin> set (the (map_of ENVIRONMENT_KEYS t))" for k
    using keys by (auto simp: outs dict_keys_def map_of_eq_None_iff)
  show ?thesis
  proof (cases "t = ''s3''")
    case False
    then have "map_of ?p k = map_of vals k" for k
      using absent [of k] stored_mapping_variables(1) [OF m]
      by (cases "map_of vals k") (simp_all add: map_of_snd_map)
    with False canon(1) canon' show ?thesis by (auto simp: fun_eq_iff)
  next
    case True
    define e where "e = the (map_of vals ''AWS_ENDPOINT_URL_S3'')"
    have e: "map_of ?p ''AWS_ENDPOINT_URL_S3'' = Some e"
      using stored_mapping_variables(2) [OF m True] by (simp add: map_of_snd_map e_def)
    have "((map_of ?p)(''S3_ENDPOINT'' \<mapsto> e)) k = map_of vals k" for k
      using absent [of k] absent [of "''AWS_ENDPOINT_URL_S3''"] stored_mapping_variables [OF m] True endpoint
      by (cases "map_of vals k") (auto simp: map_of_snd_map e_def)
    with True canon(1) canon' e show ?thesis
      by (auto simp: fun_eq_iff dict_index_def)
  qed
qed

theorem provider_environment_round_trip_witness:
  "distinct (map fst [(''MONGODB_URI'', ''mongodb://x'')]) \<and>
   canonicalize_environment ''mongo'' ''main'' [(''MONGODB_URI'', ''mongodb://x'')] =
     Inr [(''STORAGE__MONGO__MAIN__URI'', ''mongodb://x'')] \<and>
   (\<exists>p. provider_environment ''mongo'' ''main'' [(''STORAGE__MONGO__MAIN__URI'', ''mongodb://x'')] = Inr p \<and>
      map_of p = map_of [(''MONGODB_URI'', ''mongodb://x'')])"
proof -
  have d: "distinct (map fst [(''MONGODB_URI'', ''mongodb://x'')])" by simp
  have c: "canonicalize_environment ''mongo'' ''main'' [(''MONGODB_URI'', ''mongodb://x'')] =
     Inr [(''STORAGE__MONGO__MAIN__URI'', ''mongodb://x'')]"
    by code_simp
  show ?thesis using d c provider_environment_round_trip [OF d c] by blast
qed

section \<open>Reservations\<close>

lemma ceil_MIB_bounds:
  "x \<le> (x + MIB - 1) div MIB * MIB" "(x + MIB - 1) div MIB * MIB < x + MIB"
  by (simp_all add: MIB_def)

lemma ceil_MIB_dvd: "MIB dvd (x + MIB - 1) div MIB * MIB"
  by simp

lemma ceil_MIB_mono: "x \<le> y \<Longrightarrow> (x + MIB - 1) div MIB * MIB \<le> (y + MIB - 1) div MIB * MIB"
  by (simp add: MIB_def zdiv_mono1)

lemma hard_quota_mono: "n \<le> n' \<Longrightarrow> hard_quota n \<le> hard_quota n'"
  unfolding hard_quota_def by (intro ceil_MIB_mono zdiv_mono1) auto

text \<open>
  The hard quota reserved for a database is at least one and a half times its size, exceeds that by
  less than a mebibyte (and rounding) and is a whole number of mebibytes.
\<close>

theorem hard_quota_bounds:
  "3 * n \<le> 2 * hard_quota n \<and> 2 * hard_quota n \<le> 3 * n + 1 + 2 * MIB \<and> MIB dvd hard_quota n"
proof (intro conjI)
  show "3 * n \<le> 2 * hard_quota n" "2 * hard_quota n \<le> 3 * n + 1 + 2 * MIB"
    using ceil_MIB_bounds [of "(n * 3 + 1) div 2"] by (simp_all add: hard_quota_def)
  show "MIB dvd hard_quota n" by (simp add: hard_quota_def)
qed

lemma garage_reservation_mono:
  "s \<le> s' \<Longrightarrow> n \<le> n' \<Longrightarrow> garage_reservation s n \<le> garage_reservation s' n'"
  unfolding garage_reservation_def Let_def
  by (intro ceil_MIB_mono max.mono zdiv_mono1) auto

text \<open>
  An S3 reservation covers five quarters of the byte quota and four kibibytes per object, in whole
  mebibytes.
\<close>

theorem garage_reservation_bounds:
  "5 * s \<le> 4 * garage_reservation s n \<and> 4096 * n \<le> garage_reservation s n \<and> MIB dvd garage_reservation s n"
proof (intro conjI)
  let ?p = "max ((s * 5 + 3) div 4) (n * 4096)"
  have "?p \<le> garage_reservation s n"
    using ceil_MIB_bounds(1) [of ?p] by (simp add: garage_reservation_def Let_def)
  moreover have "5 * s \<le> 4 * ?p" "4096 * n \<le> ?p" by linarith+
  ultimately show "5 * s \<le> 4 * garage_reservation s n" "4096 * n \<le> garage_reservation s n" by linarith+
  show "MIB dvd garage_reservation s n" by (simp add: garage_reservation_def Let_def)
qed

end
