(* ===== verification/Deployment_Config.thy ===== *)
theory Deployment_Config
  imports Storage_Contract "HOL-Library.Multiset"
begin

text \<open>
  The strict parser of the deployment configuration an owner submits
  (\<open>controller/deployment_config.py\<close>) and the canonical document the controller stores with every
  deployment attempt. The parser runs on the decoded JSON document. The checkout validators of the
  same module read files and are not modelled.
\<close>

section \<open>Configurations\<close>

record storage_output_binding =
  sb_resource_id :: string
  sb_outputs :: "(string \<times> string) list"

record deployment_configuration =
  dc_schema_version :: int
  dc_runtime :: string
  dc_packages :: "string list"
  dc_build_script :: "string option"
  dc_start_script :: string
  dc_port :: int
  dc_health_path :: string
  dc_storage_bindings :: "storage_output_binding list"

definition opt_str :: "string option \<Rightarrow> json" where
  "opt_str v = (case v of None \<Rightarrow> JNull | Some s \<Rightarrow> JStr s)"

definition binding_document :: "storage_output_binding \<Rightarrow> json" where
  "binding_document b =
     JObj [(''resourceId'', JStr (sb_resource_id b)),
           (''outputs'', JObj (map (\<lambda>(output, target). (output, JStr target)) (sb_outputs b)))]"

text \<open>The document whose compact sorted text is \<open>canonical_json\<close>.\<close>

definition canonical_document :: "deployment_configuration \<Rightarrow> json" where
  "canonical_document c =
     json_sorted (JObj
       [(''schemaVersion'', JInt (dc_schema_version c)),
        (''build'', JObj
           [(''runtime'', JStr (dc_runtime c)),
            (''packages'', JArr (map JStr (dc_packages c))),
            (''buildScript'', opt_str (dc_build_script c)),
            (''startScript'', JStr (dc_start_script c))]),
        (''runtime'', JObj [(''port'', JInt (dc_port c)), (''healthPath'', JStr (dc_health_path c))]),
        (''storageBindings'', JArr (map binding_document (dc_storage_bindings c)))])"

definition canonical_json :: "deployment_configuration \<Rightarrow> string" where
  "canonical_json c = json_text (canonical_document c)"

section \<open>Parsing\<close>

definition object_fields :: "json \<Rightarrow> string list \<Rightarrow> string \<Rightarrow> jdict result" where
  "object_fields v expected field =
     (case v of
        JObj kvs \<Rightarrow>
          if dict_keys kvs \<noteq> set expected then Inl (ValidationError (field @ '' fields are invalid''))
          else Inr kvs
      | _ \<Rightarrow> Inl (ValidationError (field @ '' must be an object'')))"

text \<open>A validator of text applied to a JSON value: anything but text fails its \<open>isinstance\<close> guard.\<close>

definition on_text :: "(string \<Rightarrow> 'a result) \<Rightarrow> string \<Rightarrow> json \<Rightarrow> 'a result" where
  "on_text f message v = (case v of JStr s \<Rightarrow> f s | _ \<Rightarrow> Inl (ValidationError message))"

definition output_name_re :: "string \<Rightarrow> bool" where
  "output_name_re = matches_head_rest is_lower (\<lambda>c. is_lower c \<or> is_digit c \<or> c = CHR ''_'') 31"

definition reserved_target :: "string \<Rightarrow> bool" where
  "reserved_target target \<longleftrightarrow>
     target \<in> set RESERVED_ENVIRONMENT_KEYS \<or> starts_with RESERVED_ENVIRONMENT_PREFIX target"

text \<open>The loop over one binding's outputs; \<open>targets\<close> are the variables bound so far, of any binding.\<close>

fun parse_outputs :: "string list \<Rightarrow> jdict \<Rightarrow> (string list \<times> (string \<times> string) list) result" where
  "parse_outputs targets [] = Inr (targets, [])"
| "parse_outputs targets ((output, raw_target) # outputs) =
     (if \<not> output_name_re output then Inl (ValidationError ''storage output name is malformed'')
      else rbind (on_text env_key ''environment key must start with A-Z and contain only A-Z, 0-9, or _'' raw_target) (\<lambda>target.
        if reserved_target target then Inl (ValidationError (''storage binding target '' @ target @ '' is reserved''))
        else if target \<in> set targets then Inl (ValidationError (''storage binding target '' @ target @ '' conflicts''))
        else rbind (parse_outputs (targets @ [target]) outputs) (\<lambda>(targets', mapped).
          Inr (targets', (output, target) # mapped))))"

definition parse_binding ::
  "string list \<Rightarrow> string list \<Rightarrow> json \<Rightarrow> (string list \<times> storage_output_binding) result" where
  "parse_binding resource_ids targets raw_binding =
     rbind (object_fields raw_binding [''resourceId'', ''outputs''] ''storage binding'') (\<lambda>binding.
     rbind (dict_index binding ''resourceId'') (\<lambda>raw_id.
     rbind (on_text (uuid ''storage resource ID'') ''storage resource ID must be a canonical UUID'' raw_id) (\<lambda>resource_id.
       if resource_id \<in> set resource_ids then Inl (ValidationError ''storage resource bindings must be unique'')
       else rbind (dict_index binding ''outputs'') (\<lambda>outputs.
         case outputs of
           JObj kvs \<Rightarrow>
             if kvs = [] then Inl (ValidationError ''storage binding outputs must be a non-empty object'')
             else rbind (parse_outputs targets kvs) (\<lambda>(targets', mapped).
               Inr (targets', \<lparr>sb_resource_id = resource_id, sb_outputs = sort_key fst mapped\<rparr>))
         | _ \<Rightarrow> Inl (ValidationError ''storage binding outputs must be a non-empty object'')))))"

fun parse_bindings :: "string list \<Rightarrow> string list \<Rightarrow> json list \<Rightarrow> storage_output_binding list result" where
  "parse_bindings resource_ids targets [] = Inr []"
| "parse_bindings resource_ids targets (raw_binding # raw_bindings) =
     rbind (parse_binding resource_ids targets raw_binding) (\<lambda>(targets', b).
     rbind (parse_bindings (resource_ids @ [sb_resource_id b]) targets' raw_bindings) (\<lambda>rest.
       Inr (b # rest)))"

text \<open>
  \<open>schemaVersion\<close> is compared with \<open>!=\<close>, so the float \<open>1.0\<close> is accepted too; a runtime that is a list
  or an object cannot be looked up in a set and raises \<open>TypeError\<close>.
\<close>

definition schema_version_one :: "json \<Rightarrow> bool" where
  "schema_version_one v \<longleftrightarrow> v = JInt 1 \<or> v = JFloat ''1.0''"

definition parse_runtime_name :: "json \<Rightarrow> string result" where
  "parse_runtime_name v =
     (case v of
        JStr s \<Rightarrow> if s \<in> {''node'', ''bun''} then Inr s else Inl (ValidationError ''build runtime must be node or bun'')
      | JArr _ \<Rightarrow> Inl TypeError
      | JObj _ \<Rightarrow> Inl TypeError
      | _ \<Rightarrow> Inl (ValidationError ''build runtime must be node or bun''))"

definition parse_packages :: "json \<Rightarrow> string list result" where
  "parse_packages v =
     (case v of
        JArr raw_packages \<Rightarrow>
          if raw_packages = [] \<or> length raw_packages > 32
          then Inl (ValidationError ''build packages must contain from 1 through 32 paths'')
          else rbind (rmap (on_text (relative_path ''package path'' True)
                 ''package path must be a non-empty repository-relative path'') raw_packages) (\<lambda>packages.
            if \<not> distinct packages then Inl (ValidationError ''build package paths must be unique'')
            else Inr packages)
      | _ \<Rightarrow> Inl (ValidationError ''build packages must contain from 1 through 32 paths''))"

definition parse_build_script :: "json \<Rightarrow> string option result" where
  "parse_build_script v =
     (if v = JNull then Inr None
      else rbind (on_text script_name ''script name contains unsupported characters'' v) (\<lambda>s. Inr (Some s)))"

definition parse_port :: "json \<Rightarrow> int result" where
  "parse_port v =
     (case as_int v of
        None \<Rightarrow> Inl (ValidationError ''runtime port must be an integer from 1 through 65535'')
      | Some port \<Rightarrow>
          if \<not> (1 \<le> port \<and> port \<le> 65535)
          then Inl (ValidationError ''runtime port must be an integer from 1 through 65535'')
          else Inr port)"

definition parse_storage_bindings :: "json \<Rightarrow> storage_output_binding list result" where
  "parse_storage_bindings v =
     (case v of
        JArr raw_bindings \<Rightarrow>
          if length raw_bindings > 32
          then Inl (ValidationError ''storageBindings must be an array with at most 32 items'')
          else rbind (parse_bindings [] [] raw_bindings) (\<lambda>bindings. Inr (sort_key sb_resource_id bindings))
      | _ \<Rightarrow> Inl (ValidationError ''storageBindings must be an array with at most 32 items''))"

definition parse_configuration :: "json \<Rightarrow> deployment_configuration result" where
  "parse_configuration v =
     rbind (object_fields v [''schemaVersion'', ''build'', ''runtime'', ''storageBindings''] ''deployment configuration'') (\<lambda>document.
     rbind (dict_index document ''schemaVersion'') (\<lambda>schema_version.
       if \<not> schema_version_one schema_version
       then Inl (ValidationError ''deployment configuration schemaVersion must be 1'')
       else rbind (dict_index document ''build'') (\<lambda>raw_build.
     rbind (object_fields raw_build [''runtime'', ''packages'', ''buildScript'', ''startScript''] ''build configuration'') (\<lambda>build.
     rbind (rbind (dict_index build ''runtime'') parse_runtime_name) (\<lambda>runtime_name.
     rbind (rbind (dict_index build ''packages'') parse_packages) (\<lambda>packages.
     rbind (rbind (dict_index build ''buildScript'') parse_build_script) (\<lambda>build_script.
     rbind (rbind (dict_index build ''startScript'') (on_text script_name ''script name contains unsupported characters'')) (\<lambda>start.
     rbind (rbind (dict_index document ''runtime'') (\<lambda>r. object_fields r [''port'', ''healthPath''] ''runtime configuration'')) (\<lambda>runtime.
     rbind (rbind (dict_index runtime ''port'') parse_port) (\<lambda>port.
     rbind (rbind (dict_index runtime ''healthPath'') (on_text health_path ''health path is malformed'')) (\<lambda>checked_health.
     rbind (rbind (dict_index document ''storageBindings'') parse_storage_bindings) (\<lambda>bindings.
       Inr \<lparr>dc_schema_version = 1, dc_runtime = runtime_name, dc_packages = packages,
            dc_build_script = build_script, dc_start_script = start, dc_port = port,
            dc_health_path = checked_health, dc_storage_bindings = bindings\<rparr>))))))))))))"

section \<open>The manifest\<close>

text \<open>
  Binding resource UUIDs to the machine names of the app's active storage:
  \<open>DeploymentConfiguration.manifest\<close>. A resource is its type and machine name.
\<close>

record storage_binding =
  bind_name :: string
  bind_type :: string
  bind_outputs :: "(string \<times> string) list"

definition manifest_binding ::
  "(string \<times> (string \<times> string)) list \<Rightarrow> storage_output_binding \<Rightarrow> storage_binding result" where
  "manifest_binding resources b =
     (case map_of resources (sb_resource_id b) of
        None \<Rightarrow> Inl (ValidationError ''storage binding references missing or inactive storage'')
      | Some (resource_type, machine_name) \<Rightarrow>
          (case map_of RESOURCE_OUTPUTS resource_type of
             None \<Rightarrow> Inl (ValidationError ''storage binding references missing or inactive storage'')
           | Some allowed \<Rightarrow>
               rbind (resource_name machine_name) (\<lambda>checked_name.
                 if list_ex (\<lambda>(output, target). output \<notin> set allowed) (sb_outputs b)
                 then Inl (ValidationError (''storage output is not supported by '' @ resource_type))
                 else Inr \<lparr>bind_name = checked_name, bind_type = resource_type, bind_outputs = sb_outputs b\<rparr>)))"

definition manifest_bindings ::
  "deployment_configuration \<Rightarrow> (string \<times> (string \<times> string)) list \<Rightarrow> storage_binding list result" where
  "manifest_bindings c resources = rmap (manifest_binding resources) (dc_storage_bindings c)"

section \<open>Branch names\<close>

definition branch_re :: "string \<Rightarrow> bool" where
  "branch_re = matches_head_rest is_alnum (\<lambda>c. is_alnum c \<or> c \<in> set ''._/-'') 127"

definition branch_name :: "string \<Rightarrow> string result" where
  "branch_name b =
     (if \<not> branch_re b then Inl (ValidationError ''repository branch is malformed'')
      else if ends_with ''/'' b \<or> ends_with ''.'' b \<or> ends_with ''.lock'' b \<or> contains ''..'' b \<or>
              contains ''//'' b \<or> contains (CHR 0x40 # ''{'') b
      then Inl (ValidationError ''repository branch is malformed'')
      else Inr b)"

section \<open>What the parser accepts\<close>

lemma on_text_Inr: "on_text f m v = Inr r \<longleftrightarrow> (\<exists>s. v = JStr s \<and> f s = Inr r)"
  by (cases v) (auto simp: on_text_def)

lemma object_fields_Inr:
  "object_fields v expected field = Inr kvs \<longleftrightarrow> v = JObj kvs \<and> dict_keys kvs = set expected"
  by (cases v) (auto simp: object_fields_def)

definition output_ok :: "string \<times> json \<Rightarrow> string \<times> string \<Rightarrow> bool" where
  "output_ok = (\<lambda>(k, j) (k', t). k' = k \<and> j = JStr t \<and> output_name_re k \<and> env_key_re t \<and> \<not> reserved_target t)"

lemma parse_outputs_Inr:
  "parse_outputs targets kvs = Inr (targets', m) \<longleftrightarrow>
   list_all2 output_ok kvs m \<and> distinct (map snd m) \<and> set (map snd m) \<inter> set targets = {} \<and>
   targets' = targets @ map snd m"
proof (induction kvs arbitrary: targets targets' m)
  case Nil
  then show ?case by auto
next
  case (Cons kv kvs)
  obtain k j where kv: "kv = (k, j)" by (cases kv)
  show ?case
    unfolding kv
    by (cases m) (auto simp: result_simps on_text_Inr Cons.IH output_ok_def intro: rev_image_eqI)
qed

definition binding_targets :: "storage_output_binding \<Rightarrow> string list" where
  "binding_targets b = map snd (sb_outputs b)"

definition binding_ok :: "json \<Rightarrow> storage_output_binding \<Rightarrow> bool" where
  "binding_ok raw b \<longleftrightarrow> (\<exists>fields kvs m. raw = JObj fields \<and> dict_keys fields = {''resourceId'', ''outputs''} \<and>
     map_of fields ''resourceId'' = Some (JStr (sb_resource_id b)) \<and> uuid_re (sb_resource_id b) \<and>
     map_of fields ''outputs'' = Some (JObj kvs) \<and> kvs \<noteq> [] \<and> list_all2 output_ok kvs m \<and>
     sb_outputs b = sort_key fst m)"

lemma mset_targets: "mset (map snd (sort_key fst m)) = mset (map snd m)"
  by simp

lemma distinct_sorted_targets: "distinct (map snd (sort_key fst m)) = distinct (map snd m)"
  by (rule mset_eq_imp_distinct_iff) simp

lemma case_obj_Inr:
  "(case v of JObj kvs \<Rightarrow> f kvs | _ \<Rightarrow> Inl e) = Inr y \<longleftrightarrow> (\<exists>kvs. v = JObj kvs \<and> f kvs = Inr y)"
  by (cases v) auto

lemma parse_binding_accepts:
  assumes "parse_binding ids targets raw = Inr (targets', b)"
  shows "binding_ok raw b \<and> sb_resource_id b \<notin> set ids \<and> distinct (binding_targets b) \<and>
    set (binding_targets b) \<inter> set targets = {} \<and> set targets' = set targets \<union> set (binding_targets b)"
proof -
  from assms obtain fields rid kvs m where
    step: "raw = JObj fields" "dict_keys fields = {''resourceId'', ''outputs''}"
    "map_of fields ''resourceId'' = Some (JStr rid)" "uuid_re rid" "rid \<notin> set ids"
    "map_of fields ''outputs'' = Some (JObj kvs)" "kvs \<noteq> []"
    "parse_outputs targets kvs = Inr (targets', m)"
    "b = \<lparr>sb_resource_id = rid, sb_outputs = sort_key fst m\<rparr>"
    unfolding parse_binding_def rbind_eq_Inr if_Inl_eq_Inr object_fields_Inr on_text_Inr dict_index_Inr uuid_Inr case_obj_Inr
    by auto
  from step(8) show ?thesis
    unfolding parse_outputs_Inr using step(1-7,9)
    by (auto simp: binding_ok_def binding_targets_def distinct_sorted_targets)
qed

lemma parse_binding_complete:
  assumes "binding_ok raw b" and "sb_resource_id b \<notin> set ids" and "distinct (binding_targets b)"
    and "set (binding_targets b) \<inter> set targets = {}"
  shows "\<exists>targets'. parse_binding ids targets raw = Inr (targets', b) \<and>
    set targets' = set targets \<union> set (binding_targets b)"
proof -
  from assms(1) obtain fields kvs m where
    step: "raw = JObj fields" "dict_keys fields = {''resourceId'', ''outputs''}"
    "map_of fields ''resourceId'' = Some (JStr (sb_resource_id b))" "uuid_re (sb_resource_id b)"
    "map_of fields ''outputs'' = Some (JObj kvs)" "kvs \<noteq> []" "list_all2 output_ok kvs m"
    "sb_outputs b = sort_key fst m"
    unfolding binding_ok_def by (elim exE conjE) (rule that)
  obtain rid where b: "b = \<lparr>sb_resource_id = rid, sb_outputs = sort_key fst m\<rparr>"
    using step(8) by (cases b) simp
  have "parse_outputs targets kvs = Inr (targets @ map snd m, m)"
    unfolding parse_outputs_Inr using assms(3,4) step(7,8)
    by (auto simp: binding_targets_def distinct_sorted_targets)
  moreover have "object_fields raw [''resourceId'', ''outputs''] ''storage binding'' = Inr fields"
    unfolding object_fields_Inr using step(1,2) by simp
  moreover have "dict_index fields ''resourceId'' = Inr (JStr rid)" "dict_index fields ''outputs'' = Inr (JObj kvs)"
    unfolding dict_index_Inr using step(3,5) b by simp_all
  moreover have "on_text (uuid ''storage resource ID'') ''storage resource ID must be a canonical UUID'' (JStr rid) = Inr rid"
    using step(4) b by (simp add: on_text_def uuid_def)
  ultimately show ?thesis
    using assms(2) step(6) b by (simp add: parse_binding_def binding_targets_def)
qed

lemma parse_bindings_Inr:
  "parse_bindings ids targets raws = Inr bs \<longleftrightarrow>
   list_all2 binding_ok raws bs \<and> distinct (map sb_resource_id bs) \<and> set (map sb_resource_id bs) \<inter> set ids = {} \<and>
   distinct (concat (map binding_targets bs)) \<and> set (concat (map binding_targets bs)) \<inter> set targets = {}"
  (is "?lhs raws bs ids targets \<longleftrightarrow> ?rhs raws bs ids targets")
proof (induction raws arbitrary: ids targets bs)
  case Nil
  then show ?case by auto
next
  case (Cons raw raws)
  show ?case
  proof
    assume "?lhs (raw # raws) bs ids targets"
    then obtain targets' b rest where step: "parse_binding ids targets raw = Inr (targets', b)"
      "parse_bindings (ids @ [sb_resource_id b]) targets' raws = Inr rest" "bs = b # rest"
      by (auto simp: rbind_eq_Inr)
    from parse_binding_accepts [OF step(1)] step(2) show "?rhs (raw # raws) bs ids targets"
      unfolding Cons.IH step(3) by auto
  next
    assume r: "?rhs (raw # raws) bs ids targets"
    then obtain b rest where bs: "bs = b # rest" "binding_ok raw b" "list_all2 binding_ok raws rest"
      by (auto simp: list_all2_Cons1)
    have "set (binding_targets b) \<inter> set targets = {}" using r bs(1) by auto
    with r bs obtain targets' where t: "parse_binding ids targets raw = Inr (targets', b)"
      "set targets' = set targets \<union> set (binding_targets b)"
      using parse_binding_complete [of raw b ids targets] by auto
    moreover have "parse_bindings (ids @ [sb_resource_id b]) targets' raws = Inr rest"
      unfolding Cons.IH using r bs t(2) by auto
    ultimately show "?lhs (raw # raws) bs ids targets" using bs(1) by simp
  qed
qed

section \<open>Stored configurations parse to themselves\<close>

lemma sort_key_sorted: "sorted (map f xs) \<Longrightarrow> sort_key f xs = xs"
  by (induction xs) (auto simp: insort_is_Cons)

lemma json_sorted_binding:
  assumes "sorted (map fst (sb_outputs b))"
  shows "json_sorted (binding_document b) =
    JObj [(''outputs'', JObj (map (\<lambda>(x, t). (x, JStr t)) (sb_outputs b))), (''resourceId'', JStr (sb_resource_id b))]"
proof -
  have "(\<lambda>(k, v). (k, json_sorted v)) \<circ> (\<lambda>(x :: string, t). (x, JStr t)) = (\<lambda>(x, t). (x, JStr t))"
    by (auto simp: fun_eq_iff)
  moreover have "sort_key fst (map (\<lambda>(x, t). (x, JStr t)) (sb_outputs b)) = map (\<lambda>(x, t). (x, JStr t)) (sb_outputs b)"
    by (rule sort_key_sorted) (use assms in \<open>simp add: comp_def case_prod_unfold\<close>)
  ultimately show ?thesis by (simp add: binding_document_def)
qed

lemma binding_ok_canonical:
  assumes "binding_ok raw b"
  shows "binding_ok (json_sorted (binding_document b)) b"
proof -
  from assms obtain kvs m where m: "kvs \<noteq> []" "list_all2 output_ok kvs m" "sb_outputs b = sort_key fst m"
    "uuid_re (sb_resource_id b)"
    unfolding binding_ok_def by blast
  let ?kvs = "map (\<lambda>(x, t). (x, JStr t)) (sb_outputs b)"
  have "\<forall>(x, t) \<in> set m. output_name_re x \<and> env_key_re t \<and> \<not> reserved_target t"
    using m(2) by (induction rule: list_all2_induct) (auto simp: output_ok_def)
  then have "list_all2 output_ok ?kvs (sb_outputs b)"
    unfolding m(3) list_all2_map1 list_all2_same by (auto simp: output_ok_def)
  moreover have "?kvs \<noteq> []" using m(1,2,3) by (cases m) auto
  moreover have sorted: "sorted (map fst (sb_outputs b))" using m(3) by simp
  ultimately show ?thesis
    using m(4) sort_key_sorted [OF sorted]
    unfolding binding_ok_def json_sorted_binding [OF sorted] json.inject
    by (intro exI [of _ "[(''outputs'', JObj ?kvs), (''resourceId'', JStr (sb_resource_id b))]"]
        exI [of _ ?kvs] exI [of _ "sb_outputs b"]) (simp add: dict_keys_def insert_commute)
qed

lemma set_sort_key_bindings:
  "distinct (concat (map binding_targets (sort_key sb_resource_id bs))) = distinct (concat (map binding_targets bs))"
  by (rule mset_eq_imp_distinct_iff) (simp add: mset_concat sum_mset_sum_list [symmetric])

lemma parse_storage_bindings_canonical:
  assumes "parse_storage_bindings v = Inr bs"
  shows "parse_storage_bindings (JArr (map (\<lambda>b. json_sorted (binding_document b)) bs)) = Inr bs"
proof -
  from assms obtain raws bs0 where raws: "v = JArr raws" "length raws \<le> 32"
    "parse_bindings [] [] raws = Inr bs0" "bs = sort_key sb_resource_id bs0"
    by (cases v) (auto simp: parse_storage_bindings_def result_simps split: if_splits)
  from raws(3) have ok: "list_all2 binding_ok raws bs0" "distinct (map sb_resource_id bs0)"
    "distinct (concat (map binding_targets bs0))"
    unfolding parse_bindings_Inr by auto
  have each: "\<forall>b \<in> set bs0. \<exists>raw. binding_ok raw b"
    using ok(1) by (induction rule: list_all2_induct) auto
  have "list_all2 binding_ok (map (\<lambda>b. json_sorted (binding_document b)) bs) bs"
    unfolding list_all2_map1 list_all2_same using each raws(4) binding_ok_canonical by auto
  moreover have "distinct (map sb_resource_id bs)"
    unfolding raws(4) by (rule mset_eq_imp_distinct_iff [THEN iffD1, OF _ ok(2)]) simp
  moreover have "distinct (concat (map binding_targets bs))"
    using ok(3) by (simp add: raws(4) set_sort_key_bindings)
  ultimately have "parse_bindings [] [] (map (\<lambda>b. json_sorted (binding_document b)) bs) = Inr bs"
    unfolding parse_bindings_Inr by simp
  moreover have "length bs \<le> 32"
    using raws(2,4) list_all2_lengthD [OF ok(1)] by simp
  moreover have "sort_key sb_resource_id bs = bs"
    using raws(4) by (simp add: sort_key_sorted)
  ultimately show ?thesis by (simp add: parse_storage_bindings_def)
qed

lemma parse_packages_canonical:
  assumes "parse_packages v = Inr ps"
  shows "parse_packages (JArr (map JStr ps)) = Inr ps"
proof -
  let ?f = "on_text (relative_path ''package path'' True) ''package path must be a non-empty repository-relative path''"
  from assms obtain raws where raws: "raws \<noteq> []" "length raws \<le> 32" "rmap ?f raws = Inr ps" "distinct ps"
    by (cases v) (auto simp: parse_packages_def result_simps split: if_splits)
  have each: "\<forall>p \<in> set ps. \<exists>s. relative_path ''package path'' True s = Inr p"
    using raws(3) unfolding rmap_Inr_iff by (induction rule: list_all2_induct) (auto simp: on_text_Inr)
  have "rmap ?f (map JStr ps) = Inr ps"
    unfolding rmap_Inr_iff list_all2_map1 list_all2_same
    using each relative_path_idem by (fastforce simp: on_text_Inr)
  moreover have "length ps = length raws"
    using raws(3) unfolding rmap_Inr_iff by (auto dest: list_all2_lengthD)
  ultimately show ?thesis using raws by (auto simp: parse_packages_def)
qed

lemma canonical_document_eq:
  "canonical_document c = JObj
     [(''build'', JObj
         [(''buildScript'', opt_str (dc_build_script c)), (''packages'', JArr (map JStr (dc_packages c))),
          (''runtime'', JStr (dc_runtime c)), (''startScript'', JStr (dc_start_script c))]),
      (''runtime'', JObj [(''healthPath'', JStr (dc_health_path c)), (''port'', JInt (dc_port c))]),
      (''schemaVersion'', JInt (dc_schema_version c)),
      (''storageBindings'', JArr (map (\<lambda>b. json_sorted (binding_document b)) (dc_storage_bindings c)))]"
  by (auto simp: canonical_document_def opt_str_def comp_def split: option.splits)

lemma parse_runtime_name_Inr: "parse_runtime_name v = Inr r \<longleftrightarrow> v = JStr r \<and> r \<in> {''node'', ''bun''}"
  by (cases v) (auto simp: parse_runtime_name_def)

lemma parse_build_script_Inr:
  "parse_build_script v = Inr r \<longleftrightarrow> v = opt_str r \<and> (\<forall>s. r = Some s \<longrightarrow> script_name_re s)"
  by (cases v; cases r)
    (auto simp: parse_build_script_def opt_str_def on_text_def script_name_Inr rbind_eq_Inr)

lemma parse_port_Inr: "parse_port v = Inr p \<longleftrightarrow> v = JInt p \<and> 1 \<le> p \<and> p \<le> 65535"
  by (cases v) (auto simp: parse_port_def)

definition configuration_ok :: "deployment_configuration \<Rightarrow> bool" where
  "configuration_ok c \<longleftrightarrow> dc_schema_version c = 1 \<and> dc_runtime c \<in> {''node'', ''bun''} \<and>
     (\<exists>j. parse_packages j = Inr (dc_packages c)) \<and>
     (\<forall>s. dc_build_script c = Some s \<longrightarrow> script_name_re s) \<and> script_name_re (dc_start_script c) \<and>
     1 \<le> dc_port c \<and> dc_port c \<le> 65535 \<and> health_path (dc_health_path c) = Inr (dc_health_path c) \<and>
     (\<exists>j. parse_storage_bindings j = Inr (dc_storage_bindings c))"

lemma parse_configuration_ok:
  assumes "parse_configuration v = Inr c"
  shows "configuration_ok c"
  using assms
  unfolding parse_configuration_def rbind_eq_Inr if_Inl_eq_Inr on_text_Inr script_name_Inr
    parse_runtime_name_Inr parse_build_script_Inr parse_port_Inr configuration_ok_def
  by (elim exE conjE) (use health_path_same in fastforce)

lemma parse_configuration_canonical:
  assumes "configuration_ok c"
  shows "parse_configuration (canonical_document c) = Inr c"
proof -
  have fields: "object_fields (JObj kvs) names field = Inr kvs" if "dict_keys kvs = set names" for kvs names field
    using that by (simp add: object_fields_def)
  have parts: "dc_schema_version c = 1" "parse_runtime_name (JStr (dc_runtime c)) = Inr (dc_runtime c)"
    "parse_packages (JArr (map JStr (dc_packages c))) = Inr (dc_packages c)"
    "parse_build_script (opt_str (dc_build_script c)) = Inr (dc_build_script c)"
    "on_text script_name ''script name contains unsupported characters'' (JStr (dc_start_script c)) = Inr (dc_start_script c)"
    "parse_port (JInt (dc_port c)) = Inr (dc_port c)"
    "on_text health_path ''health path is malformed'' (JStr (dc_health_path c)) = Inr (dc_health_path c)"
    "parse_storage_bindings (JArr (map (\<lambda>b. json_sorted (binding_document b)) (dc_storage_bindings c))) = Inr (dc_storage_bindings c)"
    using assms parse_packages_canonical parse_storage_bindings_canonical
    unfolding configuration_ok_def parse_runtime_name_Inr parse_build_script_Inr parse_port_Inr on_text_Inr script_name_Inr
    by blast+
  have "parse_configuration (canonical_document c) = Inr \<lparr>dc_schema_version = 1, dc_runtime = dc_runtime c,
      dc_packages = dc_packages c, dc_build_script = dc_build_script c, dc_start_script = dc_start_script c,
      dc_port = dc_port c, dc_health_path = dc_health_path c, dc_storage_bindings = dc_storage_bindings c\<rparr>"
    unfolding parse_configuration_def canonical_document_eq
    by (subst fields, force simp: dict_keys_def)
      (simp add: parts fields dict_index_def schema_version_one_def dict_keys_def insert_commute)
  also have "\<dots> = Inr c" using parts(1) by (cases c) simp
  finally show ?thesis .
qed


definition example_request :: json where
  "example_request = JObj
     [(''storageBindings'', JArr [JObj [(''resourceId'', JStr ''00000000-0000-4000-8000-000000000007''),
         (''outputs'', JObj [(''url'', JStr ''DATABASE_URL''), (''host'', JStr ''DB_HOST'')])]]),
      (''schemaVersion'', JInt 1),
      (''build'', JObj [(''runtime'', JStr ''node''), (''packages'', JArr [JStr ''web/'']),
         (''buildScript'', JNull), (''startScript'', JStr ''start'')]),
      (''runtime'', JObj [(''port'', JInt 3000), (''healthPath'', JStr ''/health'')])]"

definition example_configuration :: deployment_configuration where
  "example_configuration = \<lparr>dc_schema_version = 1, dc_runtime = ''node'', dc_packages = [''web''],
     dc_build_script = None, dc_start_script = ''start'', dc_port = 3000, dc_health_path = ''/health'',
     dc_storage_bindings = [\<lparr>sb_resource_id = ''00000000-0000-4000-8000-000000000007'',
       sb_outputs = [(''host'', ''DB_HOST''), (''url'', ''DATABASE_URL'')]\<rparr>]\<rparr>"

lemma example_request_parses: "parse_configuration example_request = Inr example_configuration"
  by code_simp


lemma parse_storage_bindings_targets:
  assumes "parse_storage_bindings v = Inr bs"
  shows "distinct (map sb_resource_id bs)" and "distinct (concat (map binding_targets bs))"
    and "b \<in> set bs \<Longrightarrow> t \<in> set (binding_targets b) \<Longrightarrow> env_key_re t \<and> \<not> reserved_target t"
proof -
  from parse_storage_bindings_canonical [OF assms]
  have "parse_bindings [] [] (map (\<lambda>b. json_sorted (binding_document b)) bs) = Inr bs \<or>
     (\<exists>bs0. parse_bindings [] [] (map (\<lambda>b. json_sorted (binding_document b)) bs) = Inr bs0 \<and> bs = sort_key sb_resource_id bs0)"
    by (auto simp: parse_storage_bindings_def result_simps split: if_splits)
  then obtain raws bs0 where p: "parse_bindings [] [] raws = Inr bs0" "bs = bs0 \<or> bs = sort_key sb_resource_id bs0"
    by blast
  then have ok: "list_all2 binding_ok raws bs0" "distinct (map sb_resource_id bs0)" "distinct (concat (map binding_targets bs0))"
    unfolding parse_bindings_Inr by auto
  show "distinct (map sb_resource_id bs)"
    using ok(2) p(2) mset_eq_imp_distinct_iff [of "map sb_resource_id (sort_key sb_resource_id bs0)" "map sb_resource_id bs0"]
    by auto
  show "distinct (concat (map binding_targets bs))"
    using ok(3) p(2) by (auto simp: set_sort_key_bindings)
  have "\<forall>b \<in> set bs0. \<exists>raw. binding_ok raw b"
    using ok(1) by (induction rule: list_all2_induct) auto
  moreover assume "b \<in> set bs" "t \<in> set (binding_targets b)"
  ultimately obtain raw where "binding_ok raw b" using p(2) by (metis set_sort)
  then obtain kvs m where m: "list_all2 output_ok kvs m" "sb_outputs b = sort_key fst m"
    unfolding binding_ok_def by (elim exE conjE) (rule that)
  have "\<forall>(x, t) \<in> set m. env_key_re t \<and> \<not> reserved_target t"
    using m(1) by (induction rule: list_all2_induct) (auto simp: output_ok_def)
  with \<open>t \<in> set (binding_targets b)\<close> m(2) show "env_key_re t \<and> \<not> reserved_target t"
    by (auto simp: binding_targets_def)
qed

text \<open>
  C19: an accepted configuration binds every storage resource at most once and every environment
  variable at most once over all its bindings, and never a name the platform sets itself or keeps for
  stored credentials: no binding can shadow \<open>PORT\<close>, \<open>NODE_ENV\<close> or another app secret.
\<close>

theorem storage_bindings_never_shadow:
  assumes "parse_configuration v = Inr c"
  shows "distinct (map sb_resource_id (dc_storage_bindings c)) \<and>
    distinct (concat (map binding_targets (dc_storage_bindings c))) \<and>
    (\<forall>b \<in> set (dc_storage_bindings c). \<forall>t \<in> set (binding_targets b).
       env_key_re t \<and> t \<notin> set RESERVED_ENVIRONMENT_KEYS \<and> \<not> starts_with ''STORAGE__'' t)"
proof -
  from parse_configuration_ok [OF assms] obtain j where j: "parse_storage_bindings j = Inr (dc_storage_bindings c)"
    unfolding configuration_ok_def by blast
  from parse_storage_bindings_targets [OF j] show ?thesis
    by (auto simp: reserved_target_def RESERVED_ENVIRONMENT_PREFIX_def)
qed

theorem storage_bindings_never_shadow_witness:
  "parse_configuration example_request = Inr example_configuration \<and>
   distinct (concat (map binding_targets (dc_storage_bindings example_configuration))) \<and>
   \<not> starts_with ''STORAGE__'' ''DATABASE_URL''"
  using example_request_parses storage_bindings_never_shadow [OF example_request_parses] by simp

end
