(* ===== verification/Runtime_Text.thy ===== *)
theory Runtime_Text
  imports Validation
begin

text \<open>
  The diagnostics that may be stored or shown (\<open>openstack_platform/runtime.py\<close>): \<open>redact_text\<close> with
  its four regular expressions as deterministic matchers, and \<open>safe_summary\<close>, which every safe error
  column of the controller database is written through. Text is on 8-bit code points; secrets are
  given as text.
\<close>

section \<open>Redaction\<close>

definition redacted_mark :: string where
  "redacted_mark = ''[REDACTED]''"

text \<open>\<open>s.replace(old, new)\<close> for a non-empty \<open>old\<close>.\<close>

function replace_all :: "string \<Rightarrow> string \<Rightarrow> string \<Rightarrow> string" where
  "replace_all old new [] = []"
| "replace_all old new (c # s) =
     (if old \<noteq> [] \<and> starts_with old (c # s) then new @ replace_all old new (drop (length old) (c # s))
      else c # replace_all old new s)"
  by pat_completeness auto
termination
  by (relation "measure (\<lambda>(old, new, s). length s)") auto

text \<open>\<open>\w\<close> on the 8-bit code points.\<close>

definition is_word :: "char \<Rightarrow> bool" where
  "is_word c \<longleftrightarrow> is_alnum c \<or>
     c \<in> set [CHR ''_'', CHR 0xAA, CHR 0xB2, CHR 0xB3, CHR 0xB5, CHR 0xB9, CHR 0xBA, CHR 0xBC, CHR 0xBD, CHR 0xBE] \<or>
     (CHR 0xC0 \<le> c \<and> c \<noteq> CHR 0xD7 \<and> c \<noteq> CHR 0xF7)"

definition word_boundary :: "char option \<Rightarrow> string \<Rightarrow> bool" where
  "word_boundary prev s \<longleftrightarrow>
     (case prev of None \<Rightarrow> False | Some c \<Rightarrow> is_word c) \<noteq> (case s of [] \<Rightarrow> False | c # _ \<Rightarrow> is_word c)"

definition to_lower :: "char \<Rightarrow> char" where
  "to_lower c = (if is_upper c then char_of (of_char c + 32 :: nat) else c)"

definition starts_with_ci :: "string \<Rightarrow> string \<Rightarrow> bool" where
  "starts_with_ci p s \<longleftrightarrow> map to_lower (take (length p) s) = p"

text \<open>
  A matcher gets the character before the position (for \<open>\b\<close>) and the text from the position on; on a
  match it gives the replacement and the text after the match. \<open>sub_matches\<close> is \<open>Pattern.sub\<close>: leftmost
  matches, none overlapping.
\<close>

type_synonym matcher = "char option \<Rightarrow> string \<Rightarrow> (string \<times> string) option"

function sub_matches :: "matcher \<Rightarrow> char option \<Rightarrow> string \<Rightarrow> string" where
  "sub_matches m prev [] = []"
| "sub_matches m prev (c # s) =
     (case m prev (c # s) of
        Some (out, rest) \<Rightarrow>
          if length rest \<le> length s
          then out @ sub_matches m (Some ((c # s) ! (length s - length rest))) rest
          else c # sub_matches m (Some c) s
      | None \<Rightarrow> c # sub_matches m (Some c) s)"
  by pat_completeness auto
termination
  by (relation "measure (\<lambda>(m, prev, s). length s)") auto

definition secret_words :: "string list" where
  "secret_words =
     [''password'', ''passwd'', ''secret'', ''token'', ''credential'',
      ''private_key'', ''private-key'', ''privatekey'', ''access_key'', ''access-key'', ''accesskey'']"

definition match_secret_assignment :: matcher where
  "match_secret_assignment prev s =
     (if \<not> word_boundary prev s then None
      else case List.find (\<lambda>w. starts_with_ci w s) secret_words of
        None \<Rightarrow> None
      | Some w \<Rightarrow>
          (case dropWhile is_space (drop (length w) s) of
             [] \<Rightarrow> None
           | d # rest \<Rightarrow>
               let plain = (\<lambda>c. \<not> is_space c \<and> c \<noteq> CHR '','' \<and> c \<noteq> CHR '';'');
                   v = dropWhile is_space rest
               in if d \<in> {CHR ''='', CHR '':''} \<and> takeWhile plain v \<noteq> []
                  then Some (take (length w) s @ d # redacted_mark, dropWhile plain v)
                  else None))"

definition match_bearer :: matcher where
  "match_bearer prev s =
     (if \<not> word_boundary prev s \<or> \<not> starts_with_ci ''bearer'' s then None
      else
        let after = drop 6 s; v = dropWhile is_space after;
            token_char = (\<lambda>c. is_alnum c \<or> c \<in> set ''._~+/=-'')
        in if takeWhile is_space after \<noteq> [] \<and> takeWhile token_char v \<noteq> []
           then Some (''Bearer '' @ redacted_mark, dropWhile token_char v)
           else None)"

definition match_uri_userinfo :: matcher where
  "match_uri_userinfo prev s =
     (case s of
        [] \<Rightarrow> None
      | c # t \<Rightarrow>
          let scheme_char = (\<lambda>c. is_alnum c \<or> c \<in> set ''+.-'');
              scheme = takeWhile scheme_char s; rest = dropWhile scheme_char s;
              user_char = (\<lambda>c. c \<noteq> CHR ''/'' \<and> c \<noteq> CHR ''@'' \<and> \<not> is_space c);
              user = takeWhile user_char (drop 3 rest); tail = dropWhile user_char (drop 3 rest)
          in if (is_lower c \<or> is_upper c) \<and> starts_with ''://'' rest \<and> user \<noteq> [] \<and> starts_with ''@'' tail
             then Some (scheme @ ''://'' @ redacted_mark @ ''@'', drop 1 tail)
             else None)"

text \<open>\<open>-----WORD [^-]+-----\<close>: the text after such a line of a PEM block.\<close>

definition match_pem_line :: "string \<Rightarrow> string \<Rightarrow> string option" where
  "match_pem_line word s =
     (let head = ''-----'' @ word @ '' ''; rest = drop (length head) s;
          after = dropWhile (\<lambda>c. c \<noteq> CHR ''-'') rest
      in if starts_with head s \<and> takeWhile (\<lambda>c. c \<noteq> CHR ''-'') rest \<noteq> [] \<and> starts_with ''-----'' after
         then Some (drop 5 after) else None)"

fun after_pem_end :: "string \<Rightarrow> string option" where
  "after_pem_end [] = None"
| "after_pem_end (c # s) =
     (case match_pem_line ''END'' (c # s) of Some rest \<Rightarrow> Some rest | None \<Rightarrow> after_pem_end s)"

definition match_pem :: matcher where
  "match_pem prev s =
     (case match_pem_line ''BEGIN'' s of
        None \<Rightarrow> None
      | Some body \<Rightarrow> map_option (Pair ''[REDACTED PEM]'') (after_pem_end body))"

text \<open>The explicit secrets are replaced longest first, those of equal length in the given order.\<close>

definition longest_first :: "string list \<Rightarrow> string list" where
  "longest_first secrets = rev (sort_key length (rev secrets))"

definition redact_text :: "string list \<Rightarrow> string \<Rightarrow> string" where
  "redact_text secrets s =
     (let t0 = fold (\<lambda>secret t. if secret \<noteq> [] then replace_all secret redacted_mark t else t)
                 (longest_first secrets) s;
          t1 = sub_matches match_secret_assignment None t0;
          t2 = sub_matches match_bearer None t1;
          t3 = sub_matches match_uri_userinfo None t2
      in sub_matches match_pem None t3)"

section \<open>Summaries\<close>

text \<open>An error argument: an exception, of which only the class name is used, or a fixed text.\<close>

datatype raised = Raised string | Note string

definition is_line_break :: "char \<Rightarrow> bool" where
  "is_line_break c \<longleftrightarrow> c \<in> set [CHR 0x0A, CHR 0x0B, CHR 0x0C, CHR 0x0D, CHR 0x1C, CHR 0x1D, CHR 0x1E, CHR 0x85]"

text \<open>\<open>str.splitlines()\<close>: \<open>\r\n\<close> is one break, and a break at the end opens no new line.\<close>

fun splitlines :: "string \<Rightarrow> string list" where
  "splitlines [] = []"
| "splitlines [c] = (if is_line_break c then [[]] else [[c]])"
| "splitlines (c # d # s) =
     (if c = CHR 0x0D \<and> d = CHR 0x0A then [] # splitlines s
      else if is_line_break c then [] # splitlines (d # s)
      else case splitlines (d # s) of [] \<Rightarrow> [[c]] | l # ls \<Rightarrow> (c # l) # ls)"

definition strip :: "string \<Rightarrow> string" where
  "strip s = rev (dropWhile is_space (rev (dropWhile is_space s)))"

text \<open>\<open>s.encode()[:n].decode(errors="ignore")\<close>: the characters whose bytes are complete in the first \<open>n\<close>.\<close>

fun utf8_prefix :: "nat \<Rightarrow> string \<Rightarrow> string" where
  "utf8_prefix n [] = []"
| "utf8_prefix n (c # s) =
     (let w = (if of_char c < (128 :: nat) then 1 else 2)
      in if w \<le> n then c # utf8_prefix (n - w) s else [])"

definition safe_summary :: "raised \<Rightarrow> string" where
  "safe_summary err =
     (let summary = (case err of
            Raised cls \<Rightarrow> cls @ '': details redacted''
          | Note s \<Rightarrow> map (\<lambda>c. if c = CHR 0x00 then CHR ''?'' else c) (redact_text [] s));
          line = strip (join_with '' '' (splitlines summary));
          line' = (if line = [] then (case err of Raised cls \<Rightarrow> cls | Note _ \<Rightarrow> ''str'') else line)
      in if utf8_len line' > 1024 then utf8_prefix 1021 line' @ ''...'' else line')"

lemma redact_text_example:
  "redact_text [] ''x password = hunter2, Bearer abc https://u:p@h/ token:1'' =
   ''x password=[REDACTED], Bearer [REDACTED] https://[REDACTED]@h/ token:[REDACTED]''"
  by code_simp

section \<open>Bounds\<close>

lemma utf8_prefix_len: "utf8_len (utf8_prefix n s) \<le> n"
  by (induction n s rule: utf8_prefix.induct) (auto simp: utf8_len_Cons Let_def)

lemma set_utf8_prefix: "set (utf8_prefix n s) \<subseteq> set s"
  by (induction n s rule: utf8_prefix.induct) (auto simp: Let_def split: if_splits)

lemma set_strip: "set (strip s) \<subseteq> set s"
  unfolding strip_def set_rev by (metis set_dropWhileD set_rev subsetI)

lemma splitlines_no_break: "l \<in> set (splitlines s) \<Longrightarrow> c \<in> set l \<Longrightarrow> \<not> is_line_break c"
proof (induction s arbitrary: l rule: splitlines.induct)
  case (3 x y s)
  then show ?case
    by (cases "splitlines (y # s)") (fastforce split: if_splits)+
qed (auto split: if_splits)

lemma splitlines_keeps: "c \<in> set s \<Longrightarrow> \<not> is_line_break c \<Longrightarrow> \<exists>l \<in> set (splitlines s). c \<in> set l"
proof (induction s rule: splitlines.induct)
  case (3 x y s)
  have crlf: "is_line_break (CHR 0x0D)" "is_line_break (CHR 0x0A)"
    by (simp_all add: is_line_break_def)
  consider "x = CHR 0x0D \<and> y = CHR 0x0A" | "\<not> (x = CHR 0x0D \<and> y = CHR 0x0A)" "is_line_break x"
    | "\<not> (x = CHR 0x0D \<and> y = CHR 0x0A)" "\<not> is_line_break x" by blast
  then show ?case
  proof cases
    case 1
    then have "c \<in> set s" using "3.prems" crlf by auto
    then show ?thesis using 1 "3.IH"(1) "3.prems"(2) by auto
  next
    case 2
    then have "c \<in> set (y # s)" using "3.prems" by auto
    then show ?thesis using 2 "3.IH"(2) "3.prems"(2) by auto
  next
    case 3
    show ?thesis
    proof (cases "c \<in> set (y # s)")
      case True
      then show ?thesis using 3 "3.IH"(3) "3.prems"(2) by (cases "splitlines (y # s)") auto
    next
      case False
      then have "c = x" using "3.prems" by auto
      then show ?thesis using 3 by (cases "splitlines (y # s)") auto
    qed
  qed
qed (auto split: if_splits)

lemma set_join_keeps: "l \<in> set ls \<Longrightarrow> c \<in> set l \<Longrightarrow> c \<in> set (join_with sep ls)"
  by (induction sep ls rule: join_with.induct) auto

lemma dropWhile_keeps: "c \<in> set s \<Longrightarrow> \<not> P c \<Longrightarrow> c \<in> set (dropWhile P s)"
  by (induction s) auto

lemma strip_keeps: "c \<in> set s \<Longrightarrow> \<not> is_space c \<Longrightarrow> c \<in> set (strip s)"
  unfolding strip_def set_rev by (intro dropWhile_keeps) (simp_all add: dropWhile_keeps)

definition summary_line :: "string \<Rightarrow> string" where
  "summary_line s = strip (join_with '' '' (splitlines s))"

lemma summary_line_no_break: "c \<in> set (summary_line s) \<Longrightarrow> \<not> is_line_break c"
  unfolding summary_line_def
  by (drule set_strip [THEN subsetD], drule set_join_with [THEN subsetD])
     (auto simp: splitlines_no_break, auto simp: is_line_break_def)

lemma summary_line_keeps: "c \<in> set s \<Longrightarrow> \<not> is_space c \<Longrightarrow> \<not> is_line_break c \<Longrightarrow> c \<in> set (summary_line s)"
  unfolding summary_line_def by (intro strip_keeps) (meson set_join_keeps splitlines_keeps)+

lemma length_le_utf8_len: "length s \<le> utf8_len s"
  by (induction s) (auto simp: utf8_len_Cons)

lemma safe_summary_line:
  "utf8_len (safe_summary err) \<le> 1024 \<and> length (safe_summary err) \<le> 1024 \<and>
   safe_summary err \<noteq> [] \<and> \<not> list_ex is_line_break (safe_summary err)"
proof -
  define raw where "raw = (case err of Raised cls \<Rightarrow> cls @ '': details redacted''
          | Note s \<Rightarrow> map (\<lambda>c. if c = CHR 0x00 then CHR ''?'' else c) (redact_text [] s))"
  define line where
    "line = (if summary_line raw = [] then (case err of Raised cls \<Rightarrow> cls | Note _ \<Rightarrow> ''str'') else summary_line raw)"
  have eq: "safe_summary err = (if utf8_len line > 1024 then utf8_prefix 1021 line @ ''...'' else line)"
    unfolding safe_summary_def line_def raw_def summary_line_def Let_def by (rule refl)
  have "CHR '':'' \<in> set (summary_line raw)" if "err = Raised cls" for cls
    using that by (intro summary_line_keeps) (auto simp: raw_def is_space_def is_line_break_def)
  then have "line = summary_line raw \<and> line \<noteq> [] \<or> line = ''str''"
    by (cases err) (auto simp: line_def)
  then have line: "line \<noteq> []" "\<And>c. c \<in> set line \<Longrightarrow> \<not> is_line_break c"
    using summary_line_no_break by (auto simp: is_line_break_def)
  have dots: "utf8_len ''...'' = 3"
    by code_simp
  have "utf8_len (safe_summary err) \<le> 1024"
    using utf8_prefix_len [of 1021 line] by (auto simp: eq dots)
  moreover have "\<not> list_ex is_line_break (safe_summary err)"
    using line(2) set_utf8_prefix [of 1021 line] by (auto simp: eq list_ex_iff is_line_break_def)
  ultimately show ?thesis
    using length_le_utf8_len [of "safe_summary err"] line(1) by (auto simp: eq split: if_splits)
qed

text \<open>
  A summary stored in the database is one non-empty line of at most 1024 bytes, whatever the error:
  no line break survives, so the \<open>length(safe_error) <= 1024\<close> constraint of every table holds.
\<close>

theorem safe_summary_bounded:
  "utf8_len (safe_summary err) \<le> 1024 \<and> length (safe_summary err) \<le> 1024 \<and>
   safe_summary err \<noteq> [] \<and> \<not> list_ex is_line_break (safe_summary err)"
  by (rule safe_summary_line)

end
