(* ===== verification/Runtime_Versions.thy ===== *)
theory Runtime_Versions
  imports Validation Json_Values "HOL-Library.Product_Lexorder"
begin

text \<open>
  The Node.js or Bun version a repository asks for (\<open>openstack_platform/runtime_versions.py\<close>): the
  parser of npm-style ranges, their meaning as intervals of versions, the check against the oldest
  supported release line, and the check of the runtime a build reports back. Versions are
  \<open>(major, minor, patch, release)\<close> tuples ordered lexicographically, as in the source; \<open>release\<close> is 0
  for a pre-release and 1 for the release itself. The byte-order mark that \<open>version_file_request\<close>
  removes is not an 8-bit code point and is left out.
\<close>

section \<open>Constants\<close>

definition OLDEST_LINES :: "string \<Rightarrow> int \<times> int" where
  "OLDEST_LINES runtime = (if runtime = ''node'' then (20, 0) else (1, 1))"

definition VERSION_FILES :: "string \<Rightarrow> string list" where
  "VERSION_FILES runtime = (if runtime = ''node'' then [''.nvmrc'', ''.node-version''] else [''.bun-version''])"

definition RUNTIME_NAMES :: "string \<Rightarrow> string" where
  "RUNTIME_NAMES runtime = (if runtime = ''node'' then ''Node.js'' else ''Bun'')"

definition IMAGE_REPOSITORIES :: "string \<Rightarrow> string" where
  "IMAGE_REPOSITORIES runtime =
     (if runtime = ''node'' then ''docker.io/library/node'' else ''docker.io/oven/bun'')"

abbreviation known_runtime :: "string \<Rightarrow> bool" where
  "known_runtime runtime \<equiv> runtime = ''node'' \<or> runtime = ''bun''"

definition MAXIMUM_REQUEST_LENGTH :: nat where "MAXIMUM_REQUEST_LENGTH = 256"
definition UNBOUNDED :: int where "UNBOUNDED = 1000000000"

section \<open>Intervals\<close>

type_synonym vkey = "int \<times> int \<times> int \<times> int"

record bound =
  b_key :: vkey
  b_inclusive :: bool

record interval =
  i_low :: "bound option"
  i_high :: "bound option"

definition low_admits :: "bound option \<Rightarrow> vkey \<Rightarrow> bool" where
  "low_admits low key =
     (case low of None \<Rightarrow> True | Some b \<Rightarrow> key > b_key b \<or> (b_inclusive b \<and> key = b_key b))"

definition high_admits :: "bound option \<Rightarrow> vkey \<Rightarrow> bool" where
  "high_admits high key =
     (case high of None \<Rightarrow> True | Some b \<Rightarrow> key < b_key b \<or> (b_inclusive b \<and> key = b_key b))"

definition interval_admits :: "interval \<Rightarrow> vkey \<Rightarrow> bool" where
  "interval_admits i key \<longleftrightarrow> low_admits (i_low i) key \<and> high_admits (i_high i) key"

text \<open>\<open>max(lows, key=\<dots>)\<close> and \<open>min(highs, key=\<dots>)\<close> over the bounds that are present.\<close>

fun tighter_low :: "bound option \<Rightarrow> bound option \<Rightarrow> bound option" where
  "tighter_low None b = b"
| "tighter_low (Some a) None = Some a"
| "tighter_low (Some a) (Some b) =
     (if (b_key b, \<not> b_inclusive b) > (b_key a, \<not> b_inclusive a) then Some b else Some a)"

fun tighter_high :: "bound option \<Rightarrow> bound option \<Rightarrow> bound option" where
  "tighter_high None b = b"
| "tighter_high (Some a) None = Some a"
| "tighter_high (Some a) (Some b) =
     (if (b_key b, b_inclusive b) < (b_key a, b_inclusive a) then Some b else Some a)"

definition interval_intersect :: "interval \<Rightarrow> interval \<Rightarrow> interval" where
  "interval_intersect i j =
     \<lparr>i_low = tighter_low (i_low i) (i_low j), i_high = tighter_high (i_high i) (i_high j)\<rparr>"

definition interval_lowest :: "interval \<Rightarrow> vkey option" where
  "interval_lowest i =
     (let key = (case i_low i of
                   None \<Rightarrow> (0, 0, 0, 1)
                 | Some b \<Rightarrow>
                     (case b_key b of (major, minor, patch, release) \<Rightarrow>
                        (let bump = (if release \<noteq> 0 \<and> \<not> b_inclusive b then 1 else 0)
                         in (major, minor, patch + bump, 1))))
      in if interval_admits i key then Some key else None)"

definition interval_highest :: "interval \<Rightarrow> vkey" where
  "interval_highest i =
     (case i_high i of
        None \<Rightarrow> (UNBOUNDED, UNBOUNDED, UNBOUNDED, 1)
      | Some b \<Rightarrow>
          (case b_key b of (major, minor, patch, release) \<Rightarrow>
             if b_inclusive b \<and> release \<noteq> 0 then (major, minor, patch, 1)
             else if patch \<noteq> 0 then (major, minor, patch - 1, 1)
             else if minor \<noteq> 0 then (major, minor - 1, UNBOUNDED, 1)
             else (major - 1, UNBOUNDED, UNBOUNDED, 1)))"

definition ANY :: interval where
  "ANY = \<lparr>i_low = None, i_high = None\<rparr>"

definition NOTHING :: interval where
  "NOTHING = \<lparr>i_low = None, i_high = Some \<lparr>b_key = (0, 0, 0, 0), b_inclusive = False\<rparr>\<rparr>"

type_synonym version_range = "interval list"

definition range_admits :: "version_range \<Rightarrow> int \<times> int \<times> int \<Rightarrow> bool" where
  "range_admits alternatives = (\<lambda>(major, minor, patch).
     list_ex (\<lambda>item. interval_admits item (major, minor, patch, 1)) alternatives)"

section \<open>Parsing versions\<close>

text \<open>\<open>0|[1-9][0-9]{0,8}\<close>\<close>

definition number_re :: "string \<Rightarrow> bool" where
  "number_re s \<longleftrightarrow> s = ''0'' \<or> matches_head_rest (\<lambda>c. is_digit c \<and> c \<noteq> CHR ''0'') is_digit 8 s"

definition part_re :: "string \<Rightarrow> bool" where
  "part_re s \<longleftrightarrow> number_re s \<or> s \<in> {''x'', ''X'', ''*''}"

definition identifiers_re :: "string \<Rightarrow> bool" where
  "identifiers_re s \<longleftrightarrow>
     list_all (\<lambda>w. w \<noteq> [] \<and> list_all (\<lambda>c. is_alnum c \<or> c = CHR ''-'') w) (split_char (CHR ''.'') s)"

definition parse_version :: "string \<Rightarrow> (int \<times> int \<times> int) option" where
  "parse_version s =
     (case split_char (CHR ''.'') s of
        [a, b, c] \<Rightarrow>
          if number_re a \<and> number_re b \<and> number_re c
          then Some (digits_value a, digits_value b, digits_value c) else None
      | _ \<Rightarrow> None)"

text \<open>
  The optional \<open>-identifiers\<close> and \<open>+identifiers\<close> after a third part: whether the text is such a suffix
  and whether it has a pre-release tag.
\<close>

definition suffix_re :: "string \<Rightarrow> bool option" where
  "suffix_re s =
     (case s of
        [] \<Rightarrow> Some False
      | c # t \<Rightarrow>
          if c = CHR ''-'' then
            (let pre = takeWhile (\<lambda>d. d \<noteq> CHR ''+'') t; build = dropWhile (\<lambda>d. d \<noteq> CHR ''+'') t
             in if identifiers_re pre \<and> (build = [] \<or> identifiers_re (tl build)) then Some True else None)
          else if c = CHR ''+'' \<and> identifiers_re t then Some False
          else None)"

text \<open>The groups of \<open>_PARTIAL\<close>: the one to three parts, and whether a pre-release tag follows.\<close>

definition partial_groups :: "string \<Rightarrow> (string list \<times> bool) option" where
  "partial_groups s =
     (let t = (if starts_with ''v'' s then tl s else s);
          dot = (\<lambda>c. c \<noteq> CHR ''.'');
          first = takeWhile dot t; rest1 = dropWhile dot t
      in if rest1 = [] then (if part_re first then Some ([first], False) else None)
         else (let second = takeWhile dot (tl rest1); rest2 = dropWhile dot (tl rest1)
               in if rest2 = [] then (if part_re first \<and> part_re second then Some ([first, second], False) else None)
                  else (let plain = (\<lambda>c. c \<noteq> CHR ''-'' \<and> c \<noteq> CHR ''+'');
                            third = takeWhile plain (tl rest2)
                        in if part_re first \<and> part_re second \<and> part_re third
                           then map_option (\<lambda>pre. ([first, second, third], pre)) (suffix_re (dropWhile plain (tl rest2)))
                           else None)))"

fun numeric_parts :: "bool \<Rightarrow> string list \<Rightarrow> int list option" where
  "numeric_parts wildcard [] = Some []"
| "numeric_parts wildcard (item # items) =
     (if item \<in> {''x'', ''X'', ''*''} then numeric_parts True items
      else if wildcard then None
      else map_option ((#) (digits_value item)) (numeric_parts wildcard items))"

definition partial_version :: "string \<Rightarrow> (int list \<times> bool) option" where
  "partial_version s =
     (case partial_groups s of
        None \<Rightarrow> None
      | Some (items, prerelease) \<Rightarrow>
          (case numeric_parts False items of
             None \<Rightarrow> None
           | Some parts \<Rightarrow> if prerelease \<and> length parts < 3 then None else Some (parts, prerelease)))"

section \<open>Parsing ranges\<close>

text \<open>\<open>_start\<close> and \<open>_after\<close>, on one to three parts.\<close>

definition start_key :: "int list \<Rightarrow> bool \<Rightarrow> vkey" where
  "start_key parts prerelease =
     (if length parts = 3 then (parts ! 0, parts ! 1, parts ! 2, if prerelease then 0 else 1)
      else (parts ! 0, if length parts > 1 then parts ! 1 else 0, 0, 0))"

definition after_key :: "int list \<Rightarrow> vkey" where
  "after_key parts =
     (if length parts = 1 then (parts ! 0 + 1, 0, 0, 0)
      else if length parts = 2 then (parts ! 0, parts ! 1 + 1, 0, 0)
      else (parts ! 0, parts ! 1, parts ! 2 + 1, 0))"

definition incl :: "vkey \<Rightarrow> bound option" where "incl k = Some \<lparr>b_key = k, b_inclusive = True\<rparr>"
definition excl :: "vkey \<Rightarrow> bound option" where "excl k = Some \<lparr>b_key = k, b_inclusive = False\<rparr>"

definition comparator_interval :: "string \<Rightarrow> int list \<Rightarrow> bool \<Rightarrow> interval" where
  "comparator_interval operator parts prerelease =
     (if parts = [] then (if operator \<in> {''<'', ''>''} then NOTHING else ANY)
      else
        let start = start_key parts prerelease; exact = (length parts = 3); major = parts ! 0
        in if operator = ''='' then
             (if exact then \<lparr>i_low = incl start, i_high = incl start\<rparr>
              else \<lparr>i_low = incl start, i_high = excl (after_key parts)\<rparr>)
           else if operator = ''>='' then \<lparr>i_low = incl start, i_high = None\<rparr>
           else if operator = ''>'' then
             \<lparr>i_low = (if exact then excl start else incl (after_key parts)), i_high = None\<rparr>
           else if operator = ''<'' then \<lparr>i_low = None, i_high = excl start\<rparr>
           else if operator = ''<='' then
             \<lparr>i_low = None, i_high = (if exact then incl start else excl (after_key parts))\<rparr>
           else if operator \<in> {''~'', ''~>''} then
             \<lparr>i_low = incl start, i_high = excl (after_key (take 2 parts))\<rparr>
           else
             \<lparr>i_low = incl start,
              i_high = excl (if major \<noteq> 0 \<or> length parts = 1 then (major + 1, 0, 0, 0)
                             else if parts ! 1 \<noteq> 0 \<or> length parts = 2 then (0, parts ! 1 + 1, 0, 0)
                             else (0, 0, parts ! 2 + 1, 0))\<rparr>)"

text \<open>
  \<open>(\^|~>?|>=|<=|>|<|=)?(.+)\<close>: the longest operator the token starts with, \<open>=\<close> when there is none.
  Where the regular expression would back off to a shorter operator (nothing follows the longest
  one), what remains is not a version, as the empty text is not.
\<close>

definition split_operator :: "string \<Rightarrow> string \<times> string" where
  "split_operator token =
     (if starts_with ''^'' token then (''^'', drop 1 token)
      else if starts_with ''~>'' token then (''~>'', drop 2 token)
      else if starts_with ''~'' token then (''~'', drop 1 token)
      else if starts_with ''>='' token then (''>='', drop 2 token)
      else if starts_with ''<='' token then (''<='', drop 2 token)
      else if starts_with ''>'' token then (''>'', drop 1 token)
      else if starts_with ''<'' token then (''<'', drop 1 token)
      else if starts_with ''='' token then (''='', drop 1 token)
      else (''='', token))"

definition comparator :: "string \<Rightarrow> interval option" where
  "comparator token =
     (case split_operator token of (operator, rest) \<Rightarrow>
        (case partial_version rest of
           None \<Rightarrow> None
         | Some (parts, prerelease) \<Rightarrow> Some (comparator_interval operator parts prerelease)))"

definition hyphen_interval :: "string \<Rightarrow> string \<Rightarrow> interval option" where
  "hyphen_interval lower upper =
     (case (partial_version lower, partial_version upper) of
        (Some (low, low_pre), Some (high, high_pre)) \<Rightarrow>
          Some \<lparr>i_low = (if low \<noteq> [] then incl (start_key low low_pre) else None),
                i_high = (if high = [] then None
                          else if length high = 3 then incl (start_key high high_pre)
                          else excl (after_key high))\<rparr>
      | _ \<Rightarrow> None)"

definition range_char :: "char \<Rightarrow> bool" where
  "range_char c \<longleftrightarrow> is_alnum c \<or> c \<in> set ''.+*~^<>=| -''"

text \<open>\<open>s.split("||")\<close>\<close>

fun split_bars :: "string \<Rightarrow> string list" where
  "split_bars [] = [[]]"
| "split_bars [c] = [[c]]"
| "split_bars (c # d # s) =
     (if c = CHR ''|'' \<and> d = CHR ''|'' then [] # split_bars s
      else (case split_bars (d # s) of [] \<Rightarrow> [[c]] | w # ws \<Rightarrow> (c # w) # ws))"

text \<open>\<open>_OPERATOR_SPACE.sub\<close> on single-spaced text: no space stays after an operator character.\<close>

fun drop_operator_space :: "string \<Rightarrow> string" where
  "drop_operator_space [] = []"
| "drop_operator_space [c] = [c]"
| "drop_operator_space (c # d # s) =
     (if c \<in> set ''^~<>='' \<and> d = CHR '' '' then c # drop_operator_space s
      else c # drop_operator_space (d # s))"

fun intersect_tokens :: "interval \<Rightarrow> string list \<Rightarrow> interval option" where
  "intersect_tokens i [] = Some i"
| "intersect_tokens i (token # tokens) =
     (if token = [] then intersect_tokens i tokens
      else (case comparator token of
              None \<Rightarrow> None
            | Some c \<Rightarrow> intersect_tokens (interval_intersect i c) tokens))"

definition parse_alternative :: "string \<Rightarrow> interval option" where
  "parse_alternative alternative =
     (let ws = filter (\<lambda>w. w \<noteq> []) (split_char (CHR '' '') alternative)
      in case ws of
           [lower, [dash], upper] \<Rightarrow>
             if dash = CHR ''-'' then hyphen_interval lower upper
             else intersect_tokens ANY (split_char (CHR '' '') (drop_operator_space (join_with '' '' ws)))
         | _ \<Rightarrow> intersect_tokens ANY (split_char (CHR '' '') (drop_operator_space (join_with '' '' ws))))"

fun all_some :: "'a option list \<Rightarrow> 'a list option" where
  "all_some [] = Some []"
| "all_some (None # xs) = None"
| "all_some (Some x # xs) = map_option ((#) x) (all_some xs)"

definition parse_range :: "string \<Rightarrow> version_range option" where
  "parse_range s =
     (if length s > MAXIMUM_REQUEST_LENGTH \<or> \<not> list_all range_char s then None
      else all_some (map parse_alternative (split_bars s)))"

section \<open>Requests\<close>

text \<open>\<open>_quoted\<close>: \<open>[ !#-\[\]-~]{1,64}\<close> is printable ASCII without the quote and the backslash.\<close>

definition quotable :: "string \<Rightarrow> bool" where
  "quotable s \<longleftrightarrow> 1 \<le> length s \<and> length s \<le> 64 \<and>
     list_all (\<lambda>c. CHR '' '' \<le> c \<and> c \<le> CHR ''~'' \<and> c \<noteq> CHR 0x22 \<and> c \<noteq> CHR 0x5C) s"

definition quoted :: "string \<Rightarrow> string" where
  "quoted s = (if quotable s then [CHR '' '', CHR 0x22] @ s @ [CHR 0x22] else [])"

definition line_text :: "string \<Rightarrow> vkey \<Rightarrow> string" where
  "line_text runtime = (\<lambda>(major, minor, _, _).
     if runtime = ''node'' then ''Node.js '' @ int_text major
     else ''Bun '' @ int_text major @ ''.'' @ (if minor = UNBOUNDED then ''x'' else int_text minor))"

definition oldest_supported :: "string \<Rightarrow> string" where
  "oldest_supported runtime =
     (case OLDEST_LINES runtime of (major, minor) \<Rightarrow>
        if runtime = ''node'' then int_text major else int_text major @ ''.'' @ int_text minor)"

record runtime_request_row =
  rr_runtime :: string
  rr_field :: string
  rr_value :: string
  rr_wanted :: string
  rr_versions :: "version_range option"

definition request_source :: "runtime_request_row \<Rightarrow> string" where
  "request_source r = rr_field r @ '' '' @ rr_value r"

definition floor_interval :: "string \<Rightarrow> interval" where
  "floor_interval runtime =
     (case OLDEST_LINES runtime of (major, minor) \<Rightarrow>
        \<lparr>i_low = Some \<lparr>b_key = (major, minor, 0, 0), b_inclusive = True\<rparr>, i_high = None\<rparr>)"

text \<open>\<open>max\<close> and \<open>min\<close> of a non-empty list of keys.\<close>

fun max_key :: "vkey list \<Rightarrow> vkey" where
  "max_key [] = (0, 0, 0, 0)"
| "max_key [k] = k"
| "max_key (k # ks) = max k (max_key ks)"

fun min_key :: "vkey list \<Rightarrow> vkey" where
  "min_key [] = (0, 0, 0, 0)"
| "min_key [k] = k"
| "min_key (k # ks) = min k (min_key ks)"

definition checked :: "runtime_request_row \<Rightarrow> runtime_request_row result" where
  "checked request =
     (case rr_versions request of
        None \<Rightarrow> Inl AssertionError
      | Some alternatives \<Rightarrow>
          let lowest = List.map_filter interval_lowest alternatives;
              name = RUNTIME_NAMES (rr_runtime request);
              floor = floor_interval (rr_runtime request);
              label = rr_field request @ quoted (rr_value request)
          in if lowest = [] then
               Inl (RuntimeVersionError (label @ '' doesn't match any '' @ name @ '' version.''))
             else if list_ex (\<lambda>item. interval_lowest (interval_intersect item floor) \<noteq> None) alternatives
             then Inr request
             else
               let newest = line_text (rr_runtime request)
                     (max_key (map interval_highest (filter (\<lambda>item. interval_lowest item \<noteq> None) alternatives)));
                   asks = (if line_text (rr_runtime request) (min_key lowest) = newest then newest
                           else newest @ '' or earlier'')
               in Inl (RuntimeVersionError (label @ '' asks for '' @ asks @
                    '', older than the oldest supported version ('' @
                    oldest_supported (rr_runtime request) @ '').'')))"

text \<open>\<open>[A-Za-z][A-Za-z0-9/*_.-]*\<close>, with no bound on its length.\<close>

definition alias_re :: "string \<Rightarrow> bool" where
  "alias_re s \<longleftrightarrow>
     matches_head_rest (\<lambda>c. is_lower c \<or> is_upper c) (\<lambda>c. is_alnum c \<or> c \<in> set ''/*_.-'') (length s) s"

definition range_request :: "string \<Rightarrow> string \<Rightarrow> string \<Rightarrow> runtime_request_row result" where
  "range_request runtime field v =
     (if length v > MAXIMUM_REQUEST_LENGTH then
        Inl (RuntimeVersionError (field @ '' is longer than 256 characters.''))
      else
        case parse_range v of
          Some versions \<Rightarrow>
            checked \<lparr>rr_runtime = runtime, rr_field = field, rr_value = v, rr_wanted = v,
                     rr_versions = Some versions\<rparr>
        | None \<Rightarrow>
            if runtime = ''node'' \<and> field \<in> set (VERSION_FILES ''node'') \<and> alias_re v then
              Inl (RuntimeVersionError (field @ '' asks for'' @ quoted v @
                     ''. Use a version number or range, or lts/*.''))
            else Inl (RuntimeVersionError (field @ quoted v @ '' isn't a valid version range.'')))"

fun first_nonempty :: "string list \<Rightarrow> string" where
  "first_nonempty [] = []"
| "first_nonempty (v # vs) = (if v \<noteq> [] then v else first_nonempty vs)"

definition version_file_request :: "string \<Rightarrow> string" where
  "version_file_request content =
     first_nonempty
       (map (\<lambda>line. strip_chars [CHR '' '', CHR 0x09, CHR 0x0D, CHR 0x0B, CHR 0x0C]
                      (takeWhile (\<lambda>c. c \<noteq> CHR ''#'') line))
            (split_char (CHR 0x0A) content))"

text \<open>The loop over \<open>VERSION_FILES[runtime]\<close>: the first file that holds a request decides.\<close>

fun version_files_request ::
  "string \<Rightarrow> (string \<Rightarrow> string option result) \<Rightarrow> string list \<Rightarrow> runtime_request_row option result" where
  "version_files_request runtime read_file [] = Inr None"
| "version_files_request runtime read_file (name # names) =
     rbind (read_file name) (\<lambda>content.
       let v = (case content of None \<Rightarrow> [] | Some c \<Rightarrow> version_file_request c)
       in if v = [] then version_files_request runtime read_file names
          else if runtime = ''node'' \<and> v = ''lts/*'' then
            Inr (Some \<lparr>rr_runtime = runtime, rr_field = name, rr_value = v, rr_wanted = v, rr_versions = None\<rparr>)
          else rbind (range_request runtime name v) (\<lambda>r. Inr (Some r)))"

definition package_manager_request :: "string \<Rightarrow> runtime_request_row result" where
  "package_manager_request manager =
     (let wanted = takeWhile (\<lambda>c. c \<noteq> CHR ''+'') (drop 4 manager)
      in case parse_version wanted of
           None \<Rightarrow> Inl (RuntimeVersionError (''packageManager'' @ quoted manager @
                          '' must name an exact Bun version, like bun@1.3.4.''))
         | Some (major, minor, patch) \<Rightarrow>
             let b = Some \<lparr>b_key = (major, minor, patch, 1), b_inclusive = True\<rparr>
             in checked \<lparr>rr_runtime = ''bun'', rr_field = ''packageManager'',
                         rr_value = ''bun@'' @ wanted, rr_wanted = wanted,
                         rr_versions = Some [\<lparr>i_low = b, i_high = b\<rparr>]\<rparr>)"

definition example_range :: "string \<Rightarrow> string" where
  "example_range runtime = (if runtime = ''node'' then ''>=22'' else ''^1.3'')"

definition runtime_request ::
  "string \<Rightarrow> jdict \<Rightarrow> (string \<Rightarrow> string option result) \<Rightarrow> runtime_request_row option result" where
  "runtime_request runtime package read_file =
     (if \<not> known_runtime runtime then Inl (ValidationError ''runtime must be node or bun'')
      else
        let manager = (case dict_get package ''packageManager'' of Some (JStr s) \<Rightarrow> s | _ \<Rightarrow> []);
            field = ''engines.'' @ runtime
        in if runtime = ''bun'' \<and> starts_with ''bun@'' manager then
             rbind (package_manager_request manager) (\<lambda>r. Inr (Some r))
           else
             case dict_get package ''engines'' of
               Some (JObj engines) \<Rightarrow>
                 (case dict_get engines runtime of
                    Some (JStr v) \<Rightarrow> rbind (range_request runtime field v) (\<lambda>r. Inr (Some r))
                  | Some _ \<Rightarrow> Inl (RuntimeVersionError (field @
                      '' must be a version range in quotes, like '' @
                      [CHR 0x22] @ example_range runtime @ [CHR 0x22] @ ''.''))
                  | None \<Rightarrow> version_files_request runtime read_file (VERSION_FILES runtime))
             | _ \<Rightarrow> version_files_request runtime read_file (VERSION_FILES runtime))"

section \<open>The runtime of a build\<close>

record runtime_images =
  ri_bun :: string
  ri_node :: string

record resolved =
  rs_runtime :: string
  rs_version :: "string option"
  rs_image :: string
  rs_source :: string

definition evidence :: "resolved \<Rightarrow> jdict" where
  "evidence r =
     [(''runtime'', JStr (rs_runtime r)),
      (''version'', case rs_version r of None \<Rightarrow> JNull | Some v \<Rightarrow> JStr v),
      (''image'', JStr (rs_image r)), (''source'', JStr (rs_source r))]"

definition default_runtime :: "string \<Rightarrow> runtime_images \<Rightarrow> resolved result" where
  "default_runtime runtime defaults =
     (if \<not> known_runtime runtime then Inl (ValidationError ''runtime must be node or bun'')
      else Inr \<lparr>rs_runtime = runtime, rs_version = None,
                rs_image = (if runtime = ''node'' then ri_node defaults else ri_bun defaults),
                rs_source = ''default''\<rparr>)"

definition source_fields :: "string \<Rightarrow> string list" where
  "source_fields runtime =
     (if runtime = ''node'' then ''engines.node'' # VERSION_FILES ''node''
      else [''packageManager'', ''engines.bun''] @ VERSION_FILES ''bun'')"

text \<open>The request that a source text such as \<open>engines.node >=22\<close> names, asked again.\<close>

definition source_request :: "string \<Rightarrow> string \<Rightarrow> string \<Rightarrow> runtime_request_row option result" where
  "source_request runtime field requested =
     (if field = ''packageManager'' then
        runtime_request runtime [(''packageManager'', JStr requested)] (\<lambda>_. Inr None)
      else if starts_with ''engines.'' field then
        runtime_request runtime [(''engines'', JObj [(runtime, JStr requested)])] (\<lambda>_. Inr None)
      else
        runtime_request runtime [] (\<lambda>name. Inr (if name = field then Some requested else None)))"

text \<open>The last check of \<open>resolved_runtime\<close>: the version satisfies the request that its source names.\<close>

definition satisfies_source :: "string \<Rightarrow> int \<times> int \<times> int \<Rightarrow> string \<Rightarrow> unit result" where
  "satisfies_source runtime version source =
     (let field = takeWhile (\<lambda>c. c \<noteq> CHR '' '') source;
          requested = drop 1 (dropWhile (\<lambda>c. c \<noteq> CHR '' '') source)
      in if length source > MAXIMUM_REQUEST_LENGTH + 32 \<or>
            field \<notin> set (source_fields runtime) \<or> requested = [] then
           Inl (ValidationError ''resolved runtime source is malformed'')
         else if requested = ''lts/*'' \<and> field \<in> set (VERSION_FILES ''node'') then Inr ()
         else
           rbind (source_request runtime field requested) (\<lambda>request.
           case request of
             None \<Rightarrow> Inl (ValidationError ''resolved runtime version does not satisfy its source'')
           | Some r \<Rightarrow>
               if request_source r \<noteq> source \<or>
                  (case rr_versions r of None \<Rightarrow> True
                   | Some versions \<Rightarrow> \<not> range_admits versions version)
               then Inl (ValidationError ''resolved runtime version does not satisfy its source'')
               else Inr ()))"

text \<open>
  The image of a report: a value that is not a text is refused by \<open>oci_digest_pin\<close>.
\<close>

definition official_image :: "string \<Rightarrow> json \<Rightarrow> string result" where
  "official_image runtime image_json =
     rbind (case image_json of
              JStr pin \<Rightarrow> oci_digest_pin ''resolved runtime image'' pin
            | _ \<Rightarrow> Inl (ValidationError ''resolved runtime image must be an image@sha256 digest pin'')) (\<lambda>pin.
     if \<not> starts_with (IMAGE_REPOSITORIES runtime @ ''@'') pin then
       Inl (ValidationError ''resolved runtime image is outside its official repository'')
     else Inr pin)"

text \<open>The branch of \<open>resolved_runtime\<close> where the reported source is not \<open>default\<close>.\<close>

definition resolved_release :: "string \<Rightarrow> json \<Rightarrow> json \<Rightarrow> json \<Rightarrow> resolved result" where
  "resolved_release runtime version_json image_json source_json =
     (case (case version_json of JStr v \<Rightarrow> map_option (Pair v) (parse_version v) | _ \<Rightarrow> None) of
        None \<Rightarrow> Inl (ValidationError ''resolved runtime version is not a supported release'')
      | Some (version_text, major, minor, patch) \<Rightarrow>
          if (major, minor) < OLDEST_LINES runtime then
            Inl (ValidationError ''resolved runtime version is not a supported release'')
          else
            rbind (official_image runtime image_json) (\<lambda>pin.
            case source_json of
              JStr source \<Rightarrow>
                rbind (satisfies_source runtime (major, minor, patch) source) (\<lambda>_.
                Inr \<lparr>rs_runtime = runtime, rs_version = Some version_text, rs_image = pin, rs_source = source\<rparr>)
            | _ \<Rightarrow> Inl (ValidationError ''resolved runtime source is malformed'')))"

definition resolved_runtime :: "json \<Rightarrow> string \<Rightarrow> runtime_images \<Rightarrow> resolved result" where
  "resolved_runtime v runtime defaults =
     (case v of
        JObj d \<Rightarrow>
          if dict_keys d \<noteq> {''runtime'', ''version'', ''image'', ''source''} then
            Inl (ValidationError ''resolved runtime must name runtime, version, image and source'')
          else if dict_get d ''runtime'' \<noteq> Some (JStr runtime) then
            Inl (ValidationError ''resolved runtime differs from the configured runtime'')
          else
            rbind (default_runtime runtime defaults) (\<lambda>default.
            if dict_get d ''source'' = Some (JStr ''default'') then
              (if dict_get d ''version'' \<noteq> Some JNull \<or> dict_get d ''image'' \<noteq> Some (JStr (rs_image default))
               then Inl (ValidationError ''default runtime must be the policy image'')
               else Inr default)
            else resolved_release runtime (the (dict_get d ''version'')) (the (dict_get d ''image''))
                   (the (dict_get d ''source'')))
      | _ \<Rightarrow> Inl (ValidationError ''resolved runtime must name runtime, version, image and source''))"

section \<open>Intervals as sets of versions\<close>

text \<open>
  What the parser needs of a comparator set: a meet whose members are the common members, and a
  top that admits everything. A space-separated alternative is the meet of its comparators.
\<close>

locale version_sets =
  fixes admits :: "'s \<Rightarrow> 'k \<Rightarrow> bool" and meet :: "'s \<Rightarrow> 's \<Rightarrow> 's" and top_set :: 's
  assumes admits_meet: "admits (meet s t) k \<longleftrightarrow> admits s k \<and> admits t k"
    and admits_top: "admits top_set k"
begin

lemma admits_foldl: "admits (foldl meet s ts) k \<longleftrightarrow> admits s k \<and> (\<forall>t \<in> set ts. admits t k)"
  by (induction ts arbitrary: s) (auto simp: admits_meet)

lemma admits_meets: "admits (foldl meet top_set ts) k \<longleftrightarrow> (\<forall>t \<in> set ts. admits t k)"
  by (simp add: admits_foldl admits_top)

end

lemma low_admits_tighter: "low_admits (tighter_low a b) k \<longleftrightarrow> low_admits a k \<and> low_admits b k"
  by (cases a; cases b) (auto simp: low_admits_def)

lemma high_admits_tighter: "high_admits (tighter_high a b) k \<longleftrightarrow> high_admits a k \<and> high_admits b k"
  by (cases a; cases b) (auto simp: high_admits_def)

interpretation iv: version_sets interval_admits interval_intersect ANY
proof unfold_locales
  show "interval_admits (interval_intersect s t) k \<longleftrightarrow> interval_admits s k \<and> interval_admits t k" for s t k
    by (auto simp: interval_admits_def interval_intersect_def low_admits_tighter high_admits_tighter)
  show "interval_admits ANY k" for k
    by (simp add: interval_admits_def ANY_def low_admits_def high_admits_def)
qed

definition key_ok :: "vkey \<Rightarrow> bool" where
  "key_ok = (\<lambda>(a, b, c, r). 0 \<le> a \<and> 0 \<le> b \<and> 0 \<le> c \<and> (r = 0 \<or> r = 1))"

definition low_ok :: "interval \<Rightarrow> bool" where
  "low_ok i \<longleftrightarrow> (case i_low i of None \<Rightarrow> True | Some b \<Rightarrow> key_ok (b_key b))"

abbreviation release_key :: "int \<times> int \<times> int \<Rightarrow> vkey" where
  "release_key v \<equiv> (case v of (a, b, c) \<Rightarrow> (a, b, c, 1))"

abbreviation version_ok :: "int \<times> int \<times> int \<Rightarrow> bool" where
  "version_ok v \<equiv> (case v of (a, b, c) \<Rightarrow> 0 \<le> a \<and> 0 \<le> b \<and> 0 \<le> c)"

lemma high_admits_below: "high_admits h k' \<Longrightarrow> k \<le> k' \<Longrightarrow> high_admits h k"
  by (cases h) (auto simp: high_admits_def)

definition lowest_key :: "bound option \<Rightarrow> vkey" where
  "lowest_key low =
     (case low of None \<Rightarrow> (0, 0, 0, 1)
      | Some b \<Rightarrow> (case b_key b of (major, minor, patch, release) \<Rightarrow>
                    (major, minor, patch + (if release \<noteq> 0 \<and> \<not> b_inclusive b then 1 else 0), 1)))"

lemma interval_lowest_alt:
  "interval_lowest i = (if interval_admits i (lowest_key (i_low i)) then Some (lowest_key (i_low i)) else None)"
  unfolding interval_lowest_def lowest_key_def Let_def by (rule refl)

lemma lowest_key_least:
  assumes "low_ok i" "0 \<le> a" "0 \<le> b" "0 \<le> c" "low_admits (i_low i) (a, b, c, 1)"
  shows "lowest_key (i_low i) \<le> (a, b, c, 1) \<and> low_admits (i_low i) (lowest_key (i_low i))"
proof (cases "i_low i")
  case None
  then show ?thesis using assms by (auto simp: lowest_key_def low_admits_def)
next
  case (Some l)
  obtain x y z r inc where "l = \<lparr>b_key = (x, y, z, r), b_inclusive = inc\<rparr>"
    by (cases l) auto
  then show ?thesis
    using assms Some
    by (cases inc) (auto simp: lowest_key_def low_admits_def low_ok_def key_ok_def split: if_splits)
qed

lemma interval_lowest_least:
  assumes "low_ok i" and "version_ok v" and "interval_admits i (release_key v)"
  shows "\<exists>k. interval_lowest i = Some k \<and> k \<le> release_key v"
proof -
  obtain a b c where v: "v = (a, b, c)" by (cases v)
  have "lowest_key (i_low i) \<le> (a, b, c, 1) \<and> low_admits (i_low i) (lowest_key (i_low i))"
    using assms v by (intro lowest_key_least) (auto simp: interval_admits_def)
  moreover have "high_admits (i_high i) (a, b, c, 1)"
    using assms(3) v by (simp add: interval_admits_def)
  ultimately show ?thesis
    unfolding v by (simp only: interval_lowest_alt) (simp add: interval_admits_def high_admits_below)
qed

lemma interval_lowest_release:
  assumes "low_ok i" and "interval_lowest i = Some k"
  shows "\<exists>v. version_ok v \<and> k = release_key v \<and> interval_admits i k"
  using assms
  by (auto simp: interval_lowest_def low_ok_def key_ok_def Let_def split: option.splits if_splits prod.splits)

lemma low_ok_intersect: "low_ok i \<Longrightarrow> low_ok j \<Longrightarrow> low_ok (interval_intersect i j)"
  by (cases "i_low i"; cases "i_low j") (auto simp: low_ok_def interval_intersect_def)

section \<open>What the parser produces\<close>

lemma digits_value_nonneg: "list_all is_digit s \<Longrightarrow> 0 \<le> digits_value s"
proof -
  have "0 \<le> n \<Longrightarrow> list_all is_digit s \<Longrightarrow> 0 \<le> foldl (\<lambda>n c. n * 10 + (int (of_char c) - 48)) n s" for n
  proof (induction s arbitrary: n)
    case (Cons c s)
    have "(48 :: nat) \<le> of_char c"
      using Cons.prems(2) by (simp add: is_digit_def less_eq_char_def)
    then show ?case using Cons by simp
  qed simp
  then show "list_all is_digit s \<Longrightarrow> 0 \<le> digits_value s" by (simp add: digits_value_def)
qed

lemma number_re_digits: "number_re s \<Longrightarrow> list_all is_digit s"
  by (cases s) (auto simp: number_re_def is_digit_def)

lemma if_SomeE:
  assumes "(if c then x else y) = Some r"
  obtains (True) "c" "x = Some r" | (False) "\<not> c" "y = Some r"
  using assms by (cases c) auto

lemma partial_groups_parts:
  assumes "partial_groups s = Some (items, pre)"
  shows "list_all part_re items \<and> length items \<le> 3"
proof -
  let ?ok = "list_all part_re items \<and> length items \<le> 3"
  have one: "part_re u \<Longrightarrow> Some ([u], False) = Some (items, pre) \<Longrightarrow> ?ok" for u
    by auto
  have two: "part_re u \<and> part_re v \<Longrightarrow> Some ([u, v], False) = Some (items, pre) \<Longrightarrow> ?ok" for u v
    by auto
  have three: "part_re u \<and> part_re v \<and> part_re w \<Longrightarrow>
      map_option (\<lambda>pre. ([u, v, w], pre)) r = Some (items, pre) \<Longrightarrow> ?ok" for u v w r
    by auto
  show ?thesis
    using assms unfolding partial_groups_def Let_def
    by (elim if_SomeE) (erule (1) one | erule (1) two | erule (1) three | erule option.distinct(1) [THEN notE])+
qed

lemma numeric_parts_nonneg:
  "numeric_parts w items = Some parts \<Longrightarrow> list_all part_re items \<Longrightarrow>
   list_all (\<lambda>n. 0 \<le> n) parts \<and> length parts \<le> length items"
proof (induction w items arbitrary: parts rule: numeric_parts.induct)
  case (2 w item items)
  then show ?case
  proof (cases "item \<in> {''x'', ''X'', ''*''}")
    case True
    then show ?thesis using 2 by force
  next
    case False
    then have "number_re item" using 2 by (simp add: part_re_def)
    then have "0 \<le> digits_value item" by (simp add: digits_value_nonneg number_re_digits)
    then show ?thesis using 2 False by (auto split: if_splits)
  qed
qed simp

lemma partial_version_parts:
  "partial_version s = Some (parts, pre) \<Longrightarrow> list_all (\<lambda>n. 0 \<le> n) parts \<and> length parts \<le> 3"
  by (auto simp: partial_version_def split: option.splits if_splits
           dest!: partial_groups_parts numeric_parts_nonneg)

lemma parts_cases:
  assumes "list_all (\<lambda>n. 0 \<le> n) (parts :: int list)" "length parts \<le> 3"
  obtains "parts = []" | a where "parts = [a]" "0 \<le> a" | a b where "parts = [a, b]" "0 \<le> a" "0 \<le> b"
    | a b c where "parts = [a, b, c]" "0 \<le> a" "0 \<le> b" "0 \<le> c"
  using assms by (cases parts rule: list.exhaust; cases "tl parts"; cases "tl (tl parts)") auto

lemma low_ok_comparator_interval:
  assumes "list_all (\<lambda>n. 0 \<le> n) parts" "length parts \<le> 3"
  shows "low_ok (comparator_interval operator parts pre)"
  using assms
  by (rule parts_cases)
     (auto simp: comparator_interval_def low_ok_def key_ok_def incl_def excl_def start_key_def after_key_def
       ANY_def NOTHING_def Let_def)

lemma low_ok_hyphen: "hyphen_interval l u = Some i \<Longrightarrow> low_ok i"
  by (auto simp: hyphen_interval_def low_ok_def incl_def start_key_def key_ok_def
           split: option.splits if_splits dest!: partial_version_parts elim!: parts_cases)

lemma low_ok_tokens: "intersect_tokens i ts = Some j \<Longrightarrow> low_ok i \<Longrightarrow> low_ok j"
proof (induction i ts rule: intersect_tokens.induct)
  case (2 i t ts)
  then show ?case
    by (force simp: comparator_def split: if_splits option.splits prod.splits
              intro: low_ok_intersect low_ok_comparator_interval dest: partial_version_parts)
qed simp

lemma low_ok_ANY: "low_ok ANY"
  by (simp add: low_ok_def ANY_def)

lemma low_ok_alternative: "parse_alternative s = Some i \<Longrightarrow> low_ok i"
  unfolding parse_alternative_def Let_def
  by (auto split: list.splits if_splits dest!: low_ok_hyphen low_ok_tokens simp: low_ok_ANY)

lemma all_some_in: "all_some xs = Some ys \<Longrightarrow> y \<in> set ys \<Longrightarrow> Some y \<in> set xs"
  by (induction xs arbitrary: ys rule: all_some.induct) auto

lemma low_ok_range: "parse_range s = Some alts \<Longrightarrow> i \<in> set alts \<Longrightarrow> low_ok i"
  by (auto simp: parse_range_def split: if_splits dest!: all_some_in)
     (metis low_ok_alternative)

lemma low_ok_floor: "low_ok (floor_interval runtime)"
  by (simp add: floor_interval_def low_ok_def key_ok_def OLDEST_LINES_def)

lemma floor_admits:
  "interval_admits (floor_interval runtime) (a, b, c, 1) \<longleftrightarrow> OLDEST_LINES runtime \<le> (a, b)" if "0 \<le> c"
  using that by (auto simp: floor_interval_def interval_admits_def low_admits_def high_admits_def OLDEST_LINES_def)

lemma interval_lowest_iff:
  assumes "low_ok i"
  shows "interval_lowest i \<noteq> None \<longleftrightarrow> (\<exists>v. version_ok v \<and> interval_admits i (release_key v))"
  using interval_lowest_least [OF assms] interval_lowest_release [OF assms] by fastforce

lemma checked_accepts:
  assumes "rr_versions r = Some alts" and "\<And>i. i \<in> set alts \<Longrightarrow> low_ok i"
  shows "(\<exists>r'. checked r = Inr r') \<longleftrightarrow>
    (\<exists>a b c. 0 \<le> a \<and> 0 \<le> b \<and> 0 \<le> c \<and> range_admits alts (a, b, c) \<and> OLDEST_LINES (rr_runtime r) \<le> (a, b))"
proof -
  let ?f = "floor_interval (rr_runtime r)"
  have item: "interval_lowest (interval_intersect i ?f) \<noteq> None \<longleftrightarrow>
      (\<exists>a b c. 0 \<le> a \<and> 0 \<le> b \<and> 0 \<le> c \<and> interval_admits i (a, b, c, 1) \<and> OLDEST_LINES (rr_runtime r) \<le> (a, b))"
    if "i \<in> set alts" for i
    by (simp only: interval_lowest_iff [OF low_ok_intersect [OF assms(2) [OF that] low_ok_floor]] iv.admits_meet)
       (force simp: floor_admits)
  have low: "interval_lowest i \<noteq> None" if "i \<in> set alts" "interval_lowest (interval_intersect i ?f) \<noteq> None" for i
    using item [OF that(1)] that(2) interval_lowest_iff [OF assms(2) [OF that(1)]] by fastforce
  have "List.map_filter interval_lowest alts \<noteq> []"
    if some: "\<exists>i \<in> set alts. interval_lowest (interval_intersect i ?f) \<noteq> None"
  proof -
    obtain i where "i \<in> set alts" "interval_lowest i \<noteq> None" using some low by blast
    then show ?thesis unfolding List.map_filter_def by (force simp: filter_empty_conv)
  qed
  then have "(\<exists>r'. checked r = Inr r') \<longleftrightarrow> (\<exists>i \<in> set alts. interval_lowest (interval_intersect i ?f) \<noteq> None)"
    using assms(1) unfolding checked_def Let_def list_ex_iff
    by (simp del: not_None_eq)
  also have "\<dots> \<longleftrightarrow> (\<exists>a b c. 0 \<le> a \<and> 0 \<le> b \<and> 0 \<le> c \<and> range_admits alts (a, b, c) \<and>
      OLDEST_LINES (rr_runtime r) \<le> (a, b))"
    using item by (simp add: range_admits_def list_ex_iff) blast
  finally show ?thesis .
qed

text \<open>
  A range the parser accepts is accepted as a request exactly when some release it admits is no
  older than the runtime's oldest supported line; every other range is refused. The interval
  computation of \<open>_checked\<close> (intersection with the floor, \<open>lowest\<close>) decides this for all releases.
\<close>

theorem range_request_supported:
  assumes "parse_range v = Some alts"
  shows "(\<exists>r. range_request runtime field v = Inr r) \<longleftrightarrow>
    (\<exists>a b c. 0 \<le> a \<and> 0 \<le> b \<and> 0 \<le> c \<and> range_admits alts (a, b, c) \<and> OLDEST_LINES runtime \<le> (a, b))"
proof -
  have "\<not> length v > MAXIMUM_REQUEST_LENGTH"
    using assms by (auto simp: parse_range_def split: if_splits)
  then show ?thesis
    using checked_accepts [of "\<lparr>rr_runtime = runtime, rr_field = field, rr_value = v, rr_wanted = v,
        rr_versions = Some alts\<rparr>" alts] low_ok_range [OF assms] assms
    by (simp add: range_request_def)
qed

lemma example_parse_range:
  "parse_range ''>=22 <23'' =
   Some [\<lparr>i_low = incl (22, 0, 0, 0), i_high = excl (23, 0, 0, 0)\<rparr>]"
  by code_simp

theorem range_request_supported_witness:
  "\<exists>r. range_request ''node'' ''engines.node'' ''>=22 <23'' = Inr r"
proof -
  have "range_admits [\<lparr>i_low = incl (22, 0, 0, 0), i_high = excl (23, 0, 0, 0)\<rparr>] (22, 1, 0) \<and>
    OLDEST_LINES ''node'' \<le> (22, 1)"
    by code_simp
  then show ?thesis
    unfolding range_request_supported [OF example_parse_range, of "''node''" "''engines.node''"]
    by (intro exI [of _ 22] exI [of _ 1] exI [of _ 0]) simp
qed

lemma admits_simps:
  "interval_admits \<lparr>i_low = incl k, i_high = excl h\<rparr> v \<longleftrightarrow> k \<le> v \<and> v < h"
  "interval_admits \<lparr>i_low = incl k, i_high = incl h\<rparr> v \<longleftrightarrow> k \<le> v \<and> v \<le> h"
  "interval_admits \<lparr>i_low = incl k, i_high = None\<rparr> v \<longleftrightarrow> k \<le> v"
  "interval_admits \<lparr>i_low = excl k, i_high = None\<rparr> v \<longleftrightarrow> k < v"
  "interval_admits \<lparr>i_low = None, i_high = excl h\<rparr> v \<longleftrightarrow> v < h"
  "interval_admits \<lparr>i_low = None, i_high = incl h\<rparr> v \<longleftrightarrow> v \<le> h"
  by (auto simp: interval_admits_def low_admits_def high_admits_def incl_def excl_def)

text \<open>The npm meaning of the operators, on the parts of a version rather than on intervals.\<close>

definition same_prefix :: "int list \<Rightarrow> int list \<Rightarrow> bool" where
  "same_prefix parts v \<longleftrightarrow> take (length parts) v = parts"

text \<open>The parts a caret range pins: up to the first nonzero part, or all that are given.\<close>

fun caret_pins :: "int list \<Rightarrow> int list" where
  "caret_pins [] = []"
| "caret_pins [a] = [a]"
| "caret_pins (a # b # rest) = (if a \<noteq> 0 then [a] else a # caret_pins (b # rest))"

lemmas comparator_meaning_simps =
  comparator_interval_def Let_def start_key_def after_key_def admits_simps same_prefix_def

text \<open>
  The comparator intervals have the meaning npm gives their operators. A release satisfies a
  partial version when it has the same leading parts, a tilde range when it is no older and agrees on
  the first two parts given, and a caret range when it is no older and agrees up to the first nonzero part.
\<close>

theorem comparator_meaning:
  assumes "parts \<noteq> []" "length parts \<le> 3" "list_all (\<lambda>n. 0 \<le> n) parts" "0 \<le> a" "0 \<le> b" "0 \<le> c"
  shows "interval_admits (comparator_interval ''='' parts False) (a, b, c, 1) = same_prefix parts [a, b, c] \<and>
    interval_admits (comparator_interval ''~'' parts False) (a, b, c, 1) =
      (start_key parts False \<le> (a, b, c, 1) \<and> same_prefix (take 2 parts) [a, b, c]) \<and>
    interval_admits (comparator_interval ''^'' parts False) (a, b, c, 1) =
      (start_key parts False \<le> (a, b, c, 1) \<and> same_prefix (caret_pins parts) [a, b, c])"
proof (intro conjI)
  show "interval_admits (comparator_interval ''='' parts False) (a, b, c, 1) = same_prefix parts [a, b, c]"
    using assms(3,2,1,4-) by (auto elim!: parts_cases simp: comparator_meaning_simps)
  show "interval_admits (comparator_interval ''~'' parts False) (a, b, c, 1) =
      (start_key parts False \<le> (a, b, c, 1) \<and> same_prefix (take 2 parts) [a, b, c])"
    using assms(3,2,1,4-) by (auto elim!: parts_cases simp: comparator_meaning_simps)
  show "interval_admits (comparator_interval ''^'' parts False) (a, b, c, 1) =
      (start_key parts False \<le> (a, b, c, 1) \<and> same_prefix (caret_pins parts) [a, b, c])"
    using assms(3,2,1,4-) by (auto elim!: parts_cases simp: comparator_meaning_simps)
qed

theorem comparator_meaning_witness:
  "interval_admits (comparator_interval ''^'' [0, 2, 3] False) (0, 2, 9, 1) \<and>
   \<not> interval_admits (comparator_interval ''^'' [0, 2, 3] False) (0, 3, 0, 1)"
  using comparator_meaning [of "[0, 2, 3]" 0 2 9] comparator_meaning [of "[0, 2, 3]" 0 3 0]
  by (simp add: same_prefix_def start_key_def)

lemma satisfies_source_field:
  "satisfies_source runtime v source = Inr u \<Longrightarrow>
   takeWhile (\<lambda>c. c \<noteq> CHR '' '') source \<in> set (source_fields runtime)"
  unfolding satisfies_source_def Let_def if_Inl_eq_Inr by blast

lemma satisfies_source_request:
  assumes "satisfies_source runtime v source = Inr u"
  shows "(\<exists>f. source = f @ '' lts/*'') \<or>
    (\<exists>field requested r versions. source_request runtime field requested = Inr (Some r) \<and>
       request_source r = source \<and> rr_versions r = Some versions \<and> range_admits versions v)"
proof -
  let ?f = "takeWhile (\<lambda>c. c \<noteq> CHR '' '') source"
  let ?q = "drop 1 (dropWhile (\<lambda>c. c \<noteq> CHR '' '') source)"
  show ?thesis
  proof (cases "?q = ''lts/*''")
    case True
    then obtain x where x: "dropWhile (\<lambda>c. c \<noteq> CHR '' '') source = x # ''lts/*''"
      by (cases "dropWhile (\<lambda>c. c \<noteq> CHR '' '') source") auto
    then have "x = CHR '' ''"
      using hd_dropWhile [of "\<lambda>c. c \<noteq> CHR '' ''" source] by simp
    then have "source = ?f @ '' lts/*''"
      using takeWhile_dropWhile_id [of "\<lambda>c. c \<noteq> CHR '' ''" source] x by simp
    then show ?thesis by blast
  next
    case False
    then obtain request where req: "source_request runtime ?f ?q = Inr request"
      using assms unfolding satisfies_source_def Let_def if_Inl_eq_Inr by (auto simp: rbind_eq_Inr)
    then show ?thesis
      using assms False unfolding satisfies_source_def Let_def if_Inl_eq_Inr
      by (cases request) (auto simp del: drop_Suc split: option.splits if_splits)
  qed
qed

lemma official_image_sound:
  "official_image runtime ij = Inr pin \<Longrightarrow>
   starts_with (IMAGE_REPOSITORIES runtime @ ''@'') pin \<and> oci_digest_re pin"
  unfolding official_image_def rbind_eq_Inr if_Inl_eq_Inr
  by (cases ij) (auto simp: oci_digest_pin_Inr simp del: length_append)

lemma resolved_release_sound:
  assumes "resolved_release runtime vj ij sj = Inr r"
  shows "rs_runtime r = runtime \<and>
    (\<exists>s v. rs_version r = Some s \<and> parse_version s = Some v \<and>
       OLDEST_LINES runtime \<le> (fst v, fst (snd v)) \<and> satisfies_source runtime v (rs_source r) = Inr ()) \<and>
    starts_with (IMAGE_REPOSITORIES runtime @ ''@'') (rs_image r) \<and> oci_digest_re (rs_image r)"
proof -
  obtain s major minor patch where s: "vj = JStr s" "parse_version s = Some (major, minor, patch)"
    "\<not> (major, minor) < OLDEST_LINES runtime"
    using assms by (auto simp: resolved_release_def split: option.splits json.splits if_splits)
  have *: "rbind (official_image runtime ij) (\<lambda>pin.
            case sj of
              JStr source \<Rightarrow>
                rbind (satisfies_source runtime (major, minor, patch) source) (\<lambda>_.
                Inr \<lparr>rs_runtime = runtime, rs_version = Some s, rs_image = pin, rs_source = source\<rparr>)
            | _ \<Rightarrow> Inl (ValidationError ''resolved runtime source is malformed'')) = Inr r"
    using assms s by (simp add: resolved_release_def)
  then obtain pin where pin: "official_image runtime ij = Inr pin"
    unfolding rbind_eq_Inr by blast
  obtain source where source: "sj = JStr source" "satisfies_source runtime (major, minor, patch) source = Inr ()"
      "r = \<lparr>rs_runtime = runtime, rs_version = Some s, rs_image = pin, rs_source = source\<rparr>"
    using * pin by (cases sj) (auto simp: rbind_eq_Inr)
  show ?thesis using s source official_image_sound [OF pin] by auto
qed


definition example_pin :: string where
  "example_pin = ''docker.io/library/node@sha256:'' @ replicate 64 (CHR ''a'')"

definition example_report :: json where
  "example_report =
     JObj [(''runtime'', JStr ''node''), (''version'', JStr ''22.11.0''), (''image'', JStr example_pin),
           (''source'', JStr ''engines.node >=22'')]"

lemma example_report_accepted:
  "resolved_runtime example_report ''node'' \<lparr>ri_bun = ''b'', ri_node = ''n''\<rparr> =
   Inr \<lparr>rs_runtime = ''node'', rs_version = Some ''22.11.0'', rs_image = example_pin,
        rs_source = ''engines.node >=22''\<rparr>"
  by code_simp


end
