(* ===== verification/Controller_Tables.thy ===== *)
theory Controller_Tables
  imports Runtime_Text Deployment_Config
begin

text \<open>
  The state of the controller: the SQLite schema of \<open>controller/database.py\<close> as records of rows, its
  constraints as Boolean predicates, statements, and the transaction discipline. A database is the record
  of its tables, each a list of rows in insertion order. A statement that would leave the database in
  breach of a \<open>CHECK\<close>, \<open>UNIQUE\<close>, partial unique index or foreign key raises \<open>IntegrityError\<close>.
  An operation that raises leaves no database behind: the enclosing transaction rolls back.
  Timestamps are the texts the caller's \<open>now or utc_now()\<close> gives. The JSON columns hold documents.
  The tables for floating addresses, fixed ports and worker allow lists are not read or written by the
  modelled operations and are left out.
\<close>

section \<open>Rows\<close>

record idempotency_request =
  rq_request_id :: string
  rq_request_fingerprint :: string
  rq_result_kind :: "string option"
  rq_result_id :: "string option"
  rq_created_at :: string
  rq_completed_at :: "string option"

record operation_dispatch =
  dp_operation_id :: string
  dp_kind :: string
  dp_scope :: string
  dp_status :: string
  dp_created_at :: string
  dp_updated_at :: string
  dp_safe_error :: "string option"
  dp_finishing :: bool

record operation =
  op_operation_id :: string
  op_kind :: string
  op_scope :: string
  op_status :: string
  op_phase :: string
  op_started_at :: string
  op_updated_at :: string
  op_deadline_at :: string
  op_refs :: jdict
  op_candidate_digest :: "string option"
  op_safe_error :: "string option"
  op_cleanup_state :: string
  op_finishing :: bool

record image_selection =
  img_role :: string
  img_image_id :: string
  img_display_name :: string
  img_source_commit :: string
  img_compatibility_hash :: string
  img_selected_at :: string

record application =
  app_application_id :: string
  app_slug :: string
  app_repository_url :: "string option"
  app_desired_running :: bool
  app_url :: "string option"
  app_worker_server_id :: "string option"
  app_worker_server_name :: "string option"
  app_worker_port_id :: "string option"
  app_worker_port_name :: "string option"
  app_worker_flavor :: string
  app_scheduler_cpu_mhz :: int
  app_scheduler_memory_mib :: int
  app_created_at :: string
  app_updated_at :: string
  app_builder_flavor :: "string option"

record deployment_attempt =
  at_deployment_id :: string
  at_application_id :: string
  at_status :: string
  at_snapshot_kind :: string
  at_source_commit :: string
  at_requested_ref :: string
  at_configuration_revision :: int
  at_configuration_json :: json
  at_configuration_sha256 :: string
  at_environment_revision :: int
  at_idempotency_request_id :: string
  at_recipe_hash :: "string option"
  at_image_digest :: "string option"
  at_nomad_job :: "string option"
  at_nomad_job_sha256 :: "string option"
  at_nomad_version :: "int option"
  at_health_path :: "string option"
  at_application_port :: "int option"
  at_build_log_path :: "string option"
  at_safe_error :: "string option"
  at_cleanup_state :: "string option"
  at_requested_at :: string
  at_updated_at :: string
  at_accepted_at :: "string option"
  at_last_healthy_at :: "string option"

record active_deployment =
  act_application_id :: string
  act_deployment_id :: string
  act_lifecycle_state :: string
  act_updated_at :: string

record managed_resource =
  res_resource_id :: string
  res_application_id :: string
  res_resource_type :: string
  res_resource_name :: string
  res_display_label :: string
  res_provider_id :: "string option"
  res_provider_name :: string
  res_lifecycle_state :: string
  res_memory_bytes :: "int option"
  res_cpu_millicores :: "int option"
  res_mongo_connections :: "int option"
  res_instance_id :: "string option"
  res_instance_port :: "int option"
  res_migration_state :: "string option"
  res_usage :: jdict
  res_usage_error :: "string option"
  res_write_blocked :: bool
  res_blocked_since :: "string option"
  res_postgres_connections :: "int option"
  res_measured_target_bytes :: "int option"
  res_s3_bytes :: "int option"
  res_s3_objects :: "int option"
  res_last_verified_at :: "string option"
  res_created_at :: string
  res_updated_at :: string

record environment_revision =
  er_application_id :: string
  er_revision :: int
  er_updated_at :: string

record environment_key =
  ek_application_id :: string
  ek_key_name :: string
  ek_owner :: string

record slug_tombstone =
  ts_slug :: string
  ts_application_id :: string
  ts_deleted_at :: string

text \<open>\<open>builder_settings\<close> and \<open>storage_host_usage\<close> hold at most their singleton row.\<close>

record db =
  in_transaction :: bool
  idempotency_requests :: "idempotency_request list"
  operation_dispatches :: "operation_dispatch list"
  operations :: "operation list"
  image_selections :: "image_selection list"
  applications :: "application list"
  deployment_attempts :: "deployment_attempt list"
  active_deployments :: "active_deployment list"
  managed_resources :: "managed_resource list"
  environment_revisions :: "environment_revision list"
  environment_keys :: "environment_key list"
  slug_tombstones :: "slug_tombstone list"
  builder_settings :: "string option"
  storage_host_usage :: "jdict option"

definition empty_db :: db where
  "empty_db = \<lparr>in_transaction = False, idempotency_requests = [], operation_dispatches = [], operations = [],
     image_selections = [], applications = [], deployment_attempts = [], active_deployments = [],
     managed_resources = [], environment_revisions = [], environment_keys = [], slug_tombstones = [],
     builder_settings = None, storage_host_usage = None\<rparr>"

section \<open>Constraints\<close>

definition IMAGE_ROLES :: "string list" where
  "IMAGE_ROLES = [''admin'', ''ingress'', ''storage'', ''worker'', ''builder'']"

definition unfinished_statuses :: "string list" where
  "unfinished_statuses = [''running'', ''recovery_required'']"

definition active_dispatch_statuses :: "string list" where
  "active_dispatch_statuses = [''pending'', ''running'', ''recovery_required'']"

definition unfinished_attempt_statuses :: "string list" where
  "unfinished_attempt_statuses = [''queued'', ''building'', ''deploying'', ''recovery_required'']"

definition DEPLOYMENT_STATUSES :: "string list" where
  "DEPLOYMENT_STATUSES = [''queued'', ''building'', ''deploying'', ''succeeded'', ''failed'', ''recovery_required'']"

definition op_unfinished :: "operation \<Rightarrow> bool" where
  "op_unfinished o' \<longleftrightarrow> op_status o' \<in> set unfinished_statuses"

definition dp_active :: "operation_dispatch \<Rightarrow> bool" where
  "dp_active d \<longleftrightarrow> dp_status d \<in> set active_dispatch_statuses"

definition at_unfinished :: "deployment_attempt \<Rightarrow> bool" where
  "at_unfinished a \<longleftrightarrow> at_status a \<in> set unfinished_attempt_statuses"

definition opt_all :: "('a \<Rightarrow> bool) \<Rightarrow> 'a option \<Rightarrow> bool" where
  "opt_all P x = (case x of None \<Rightarrow> True | Some v \<Rightarrow> P v)"

definition refs_length :: "jdict \<Rightarrow> nat" where
  "refs_length refs = length (json_text (JObj refs))"

definition request_row_ok :: "idempotency_request \<Rightarrow> bool" where
  "request_row_ok r \<longleftrightarrow> sha256_hex_re (rq_request_fingerprint r) \<and>
     (rq_result_kind r = None) = (rq_result_id r = None) \<and> (rq_result_id r = None) = (rq_completed_at r = None)"

definition dispatch_row_ok :: "operation_dispatch \<Rightarrow> bool" where
  "dispatch_row_ok d \<longleftrightarrow> dp_status d \<in> set [''pending'', ''running'', ''finished'', ''recovery_required''] \<and>
     opt_all (\<lambda>e. length e \<le> 1024) (dp_safe_error d)"

definition operation_row_ok :: "operation \<Rightarrow> bool" where
  "operation_row_ok o' \<longleftrightarrow> op_status o' \<in> set [''running'', ''succeeded'', ''failed'', ''recovery_required''] \<and>
     refs_length (op_refs o') \<le> 16384 \<and> opt_all (\<lambda>e. length e \<le> 1024) (op_safe_error o')"

definition application_row_ok :: "application \<Rightarrow> bool" where
  "application_row_ok a \<longleftrightarrow> app_scheduler_cpu_mhz a > 0 \<and> app_scheduler_memory_mib a > 0"

definition accepted_evidence :: "deployment_attempt \<Rightarrow> bool" where
  "accepted_evidence a \<longleftrightarrow> at_recipe_hash a \<noteq> None \<and> at_image_digest a \<noteq> None \<and> at_nomad_job a \<noteq> None \<and>
     at_nomad_job_sha256 a \<noteq> None \<and> at_nomad_version a \<noteq> None \<and> at_build_log_path a \<noteq> None \<and>
     at_accepted_at a \<noteq> None \<and> at_last_healthy_at a \<noteq> None"

definition attempt_row_ok :: "deployment_attempt \<Rightarrow> bool" where
  "attempt_row_ok a \<longleftrightarrow> at_status a \<in> set DEPLOYMENT_STATUSES \<and> at_snapshot_kind a = ''strict'' \<and>
     at_configuration_revision a \<ge> 0 \<and> obj_fields (at_configuration_json a) \<noteq> None \<and>
     sha256_hex_re (at_configuration_sha256 a) \<and> at_environment_revision a \<ge> 0 \<and>
     opt_all (\<lambda>v. v \<ge> 0) (at_nomad_version a) \<and> opt_all (\<lambda>p. 1 \<le> p \<and> p \<le> 65535) (at_application_port a) \<and>
     opt_all (\<lambda>e. length e \<le> 1024) (at_safe_error a) \<and>
     (at_status a = ''succeeded'' \<longrightarrow> accepted_evidence a) \<and>
     (at_status a \<in> set [''failed'', ''recovery_required''] \<longrightarrow> at_safe_error a \<noteq> None)"

definition active_row_ok :: "active_deployment \<Rightarrow> bool" where
  "active_row_ok a \<longleftrightarrow> act_lifecycle_state a \<in> set [''running'', ''stopped'']"

text \<open>
  The \<open>GLOB\<close> form of the resource-name check: \<open>[a-z]*\<close> a letter first, \<open>NOT GLOB '*[^a-z0-9-]*'\<close> no
  other character, \<open>NOT GLOB '*--*'\<close> no double hyphen, and a letter or digit last.
\<close>

definition sql_resource_name :: "string \<Rightarrow> bool" where
  "sql_resource_name s \<longleftrightarrow> 1 \<le> length s \<and> length s \<le> 40 \<and> is_lower (hd s) \<and>
     \<not> list_ex (\<lambda>c. \<not> (is_lower c \<or> is_digit c \<or> c = CHR ''-'')) s \<and> \<not> contains ''--'' s \<and>
     (length s = 1 \<or> is_lower (last s) \<or> is_digit (last s))"

definition resource_row_ok :: "managed_resource \<Rightarrow> bool" where
  "resource_row_ok r \<longleftrightarrow> res_resource_type r \<in> set [''postgres'', ''mongo'', ''s3''] \<and>
     sql_resource_name (res_resource_name r) \<and> 1 \<le> length (res_display_label r) \<and> length (res_display_label r) \<le> 100 \<and>
     res_lifecycle_state r \<in> set [''creating'', ''active'', ''removing'', ''recovery_required''] \<and>
     opt_all (\<lambda>n. n > 0) (res_postgres_connections r) \<and> opt_all (\<lambda>n. n > 0) (res_measured_target_bytes r) \<and>
     opt_all (\<lambda>n. n > 0) (res_s3_bytes r) \<and> opt_all (\<lambda>n. n > 0) (res_s3_objects r) \<and>
     opt_all (\<lambda>n. n > 0) (res_memory_bytes r) \<and> opt_all (\<lambda>n. n > 0) (res_cpu_millicores r) \<and>
     opt_all (\<lambda>n. n > 0) (res_mongo_connections r) \<and>
     opt_all (\<lambda>p. 30000 \<le> p \<and> p \<le> 30999) (res_instance_port r) \<and>
     (res_resource_type r = ''postgres'' \<or> res_postgres_connections r = None) \<and>
     (res_resource_type r \<in> set [''postgres'', ''mongo''] \<or> res_measured_target_bytes r = None) \<and>
     (res_resource_type r = ''s3'' \<or> (res_s3_bytes r = None \<and> res_s3_objects r = None))"

abbreviation references :: "('r \<Rightarrow> 'k) \<Rightarrow> 'r list \<Rightarrow> 'k list \<Rightarrow> bool" where
  "references key rows targets \<equiv> list_all (\<lambda>r. key r \<in> set targets) rows"

abbreviation primary_key :: "('r \<Rightarrow> 'k) \<Rightarrow> 'r list \<Rightarrow> bool" where
  "primary_key key \<equiv> unique_on key (\<lambda>_. True)"

definition requests_ok :: "idempotency_request list \<Rightarrow> bool" where
  "requests_ok rs \<longleftrightarrow> primary_key rq_request_id rs \<and> list_all request_row_ok rs"

definition dispatches_ok :: "operation_dispatch list \<Rightarrow> idempotency_request list \<Rightarrow> bool" where
  "dispatches_ok ds rs \<longleftrightarrow> primary_key dp_operation_id ds \<and> list_all dispatch_row_ok ds \<and>
     references dp_operation_id ds (map rq_request_id rs) \<and>
     unique_on dp_scope (\<lambda>d. dp_active d \<and> \<not> dp_finishing d) ds \<and>
     unique_on dp_scope (\<lambda>d. dp_active d \<and> dp_finishing d) ds"

definition operations_ok :: "operation list \<Rightarrow> bool" where
  "operations_ok os \<longleftrightarrow> primary_key op_operation_id os \<and> list_all operation_row_ok os \<and>
     unique_on op_scope (\<lambda>r. op_unfinished r \<and> \<not> op_finishing r) os \<and>
     unique_on op_scope (\<lambda>r. op_unfinished r \<and> op_finishing r) os"

definition applications_ok :: "application list \<Rightarrow> bool" where
  "applications_ok as \<longleftrightarrow> primary_key app_application_id as \<and> primary_key app_slug as \<and> list_all application_row_ok as"

definition attempts_ok ::
  "deployment_attempt list \<Rightarrow> application list \<Rightarrow> idempotency_request list \<Rightarrow> bool" where
  "attempts_ok ats as rs \<longleftrightarrow> primary_key at_deployment_id ats \<and> primary_key at_idempotency_request_id ats \<and>
     list_all attempt_row_ok ats \<and> references at_application_id ats (map app_application_id as) \<and>
     references at_idempotency_request_id ats (map rq_request_id rs) \<and>
     unique_on at_application_id at_unfinished ats"

definition actives_ok :: "active_deployment list \<Rightarrow> application list \<Rightarrow> deployment_attempt list \<Rightarrow> bool" where
  "actives_ok acts as ats \<longleftrightarrow> primary_key act_application_id acts \<and> list_all active_row_ok acts \<and>
     references act_application_id acts (map app_application_id as) \<and>
     references (\<lambda>a. (act_application_id a, act_deployment_id a)) acts
       (map (\<lambda>a. (at_application_id a, at_deployment_id a)) ats)"

definition resources_ok :: "managed_resource list \<Rightarrow> application list \<Rightarrow> bool" where
  "resources_ok rs as \<longleftrightarrow> primary_key res_resource_id rs \<and>
     primary_key (\<lambda>r. (res_application_id r, res_resource_type r, res_resource_name r)) rs \<and>
     unique_on res_instance_id (\<lambda>r. res_instance_id r \<noteq> None) rs \<and> list_all resource_row_ok rs \<and>
     references res_application_id rs (map app_application_id as)"

definition environment_ok ::
  "environment_revision list \<Rightarrow> environment_key list \<Rightarrow> application list \<Rightarrow> bool" where
  "environment_ok rs ks as \<longleftrightarrow> primary_key er_application_id rs \<and> list_all (\<lambda>r. er_revision r \<ge> 0) rs \<and>
     references er_application_id rs (map app_application_id as) \<and>
     primary_key (\<lambda>k. (ek_application_id k, ek_key_name k)) ks \<and>
     references ek_application_id ks (map app_application_id as)"

definition images_ok :: "image_selection list \<Rightarrow> bool" where
  "images_ok is \<longleftrightarrow> primary_key img_role is \<and> list_all (\<lambda>i. img_role i \<in> set IMAGE_ROLES) is"

definition schema_ok :: "db \<Rightarrow> bool" where
  "schema_ok db \<longleftrightarrow> requests_ok (idempotency_requests db) \<and>
     dispatches_ok (operation_dispatches db) (idempotency_requests db) \<and> operations_ok (operations db) \<and>
     images_ok (image_selections db) \<and> applications_ok (applications db) \<and>
     attempts_ok (deployment_attempts db) (applications db) (idempotency_requests db) \<and>
     actives_ok (active_deployments db) (applications db) (deployment_attempts db) \<and>
     resources_ok (managed_resources db) (applications db) \<and>
     environment_ok (environment_revisions db) (environment_keys db) (applications db) \<and>
     primary_key ts_slug (slug_tombstones db)"

section \<open>Statements and transactions\<close>

text \<open>The database after a statement, or the constraint error it raises.\<close>

definition execute :: "db \<Rightarrow> db result" where
  "execute db = (if schema_ok db then Inr db else Inl IntegrityError)"

text \<open>The columns of an attempt the trigger \<open>deployment_attempt_request_immutable\<close> protects.\<close>

definition request_columns ::
  "deployment_attempt \<Rightarrow> (string \<times> string \<times> string \<times> string \<times> string) \<times> (int \<times> json \<times> string \<times> int \<times> string) \<times>
   string \<times> string option \<times> int option" where
  "request_columns a =
     ((at_deployment_id a, at_application_id a, at_snapshot_kind a, at_source_commit a, at_requested_ref a),
      (at_configuration_revision a, at_configuration_json a, at_configuration_sha256 a, at_environment_revision a,
       at_idempotency_request_id a),
      at_requested_at a, at_health_path a, at_application_port a)"

text \<open>\<open>UPDATE deployment_attempts \<dots>\<close>, with the trigger.\<close>

definition update_attempts ::
  "(deployment_attempt \<Rightarrow> bool) \<Rightarrow> (deployment_attempt \<Rightarrow> deployment_attempt) \<Rightarrow> db \<Rightarrow> db result" where
  "update_attempts P f db =
     (if list_ex (\<lambda>a. P a \<and> request_columns (f a) \<noteq> request_columns a) (deployment_attempts db)
      then Inl IntegrityError
      else execute (db\<lparr>deployment_attempts := update_where P f (deployment_attempts db)\<rparr>))"

definition transaction :: "(db \<Rightarrow> (db \<times> 'a) result) \<Rightarrow> db \<Rightarrow> (db \<times> 'a) result" where
  "transaction body db =
     (if in_transaction db
      then Inl (DatabaseError ''nested or long-lived database transactions are not supported'')
      else rbind (body (db\<lparr>in_transaction := True\<rparr>)) (\<lambda>(db', x). Inr (db'\<lparr>in_transaction := False\<rparr>, x)))"

definition acceptance_write :: "bool \<Rightarrow> (db \<Rightarrow> (db \<times> 'a) result) \<Rightarrow> db \<Rightarrow> (db \<times> 'a) result" where
  "acceptance_write within body db =
     (if within then
        (if in_transaction db then body db
         else Inl (DatabaseError ''acceptance write requires an active transaction''))
      else transaction body db)"

text \<open>The state an operation leaves and its outcome: an exception rolls everything back.\<close>

definition run_op :: "(db \<Rightarrow> (db \<times> 'a) result) \<Rightarrow> db \<Rightarrow> db \<times> 'a result" where
  "run_op f db = (case f db of Inl e \<Rightarrow> (db, Inl e) | Inr (db', x) \<Rightarrow> (db', Inr x))"

section \<open>Lemmas on statements\<close>

lemma execute_Inr [result_simps]: "execute d = Inr d' \<longleftrightarrow> schema_ok d \<and> d' = d"
  by (auto simp: execute_def)

lemma transaction_Inr:
  "transaction body db = Inr (db', x) \<longleftrightarrow>
   \<not> in_transaction db \<and> (\<exists>d. body (db\<lparr>in_transaction := True\<rparr>) = Inr (d, x) \<and> db' = d\<lparr>in_transaction := False\<rparr>)"
  by (auto simp: transaction_def rbind_eq_Inr split: prod.splits)

lemma schema_ok_in_transaction [simp]: "schema_ok (db\<lparr>in_transaction := b\<rparr>) = schema_ok db"
  by (simp add: schema_ok_def)

lemma execute_cases: "execute d = Inr d \<and> schema_ok d \<or> execute d = Inl IntegrityError \<and> \<not> schema_ok d"
  by (simp add: execute_def)

lemma update_attempts_Inr:
  "update_attempts P f db = Inr db' \<longleftrightarrow>
   (\<forall>a \<in> set (deployment_attempts db). P a \<longrightarrow> request_columns (f a) = request_columns a) \<and>
   db' = db\<lparr>deployment_attempts := update_where P f (deployment_attempts db)\<rparr> \<and> schema_ok db'"
  by (auto simp: update_attempts_def execute_def list_ex_iff)


section \<open>Tables with a foreground and a finishing lane\<close>

text \<open>
  The interface \<open>operations\<close> and \<open>operation_dispatches\<close> share: rows with a primary key and a scope,
  live until they reach a terminal status, in the foreground lane or the finishing lane. The provider
  promises that each lane of a scope holds at most one live row, and that two kinds of statement cannot
  break a constraint: an update that keeps every row in its lane, and an insertion into a free lane.
\<close>

locale lane_table =
  fixes table_ok :: "'r list \<Rightarrow> bool" and row_ok :: "'r \<Rightarrow> bool" and key :: "'r \<Rightarrow> string"
    and scope :: "'r \<Rightarrow> string" and live :: "'r \<Rightarrow> bool" and finishing :: "'r \<Rightarrow> bool"
  assumes key_unique: "table_ok rows \<Longrightarrow> primary_key key rows"
    and lane_unique: "table_ok rows \<Longrightarrow> unique_on scope (\<lambda>r. live r \<and> finishing r = lane) rows"
    and table_row_ok: "table_ok rows \<Longrightarrow> r \<in> set rows \<Longrightarrow> row_ok r"
    and table_update: "table_ok rows \<Longrightarrow>
      (\<And>r. r \<in> set rows \<Longrightarrow> P r \<Longrightarrow> row_ok (f r) \<and> key (f r) = key r \<and> scope (f r) = scope r \<and>
             finishing (f r) = finishing r \<and> (live (f r) \<longrightarrow> live r)) \<Longrightarrow>
      table_ok (update_where P f rows)"
begin

definition holder :: "string \<Rightarrow> bool \<Rightarrow> 'r list \<Rightarrow> 'r option" where
  "holder sc lane rows = find_where (\<lambda>r. scope r = sc \<and> live r \<and> finishing r = lane) rows"

lemma by_key_unique: "table_ok rows \<Longrightarrow> r \<in> set rows \<Longrightarrow> r' \<in> set rows \<Longrightarrow> key r = key r' \<Longrightarrow> r = r'"
  using key_unique by (auto intro: unique_on_same)

lemma by_lane_unique:
  "table_ok rows \<Longrightarrow> r \<in> set rows \<Longrightarrow> r' \<in> set rows \<Longrightarrow> live r \<Longrightarrow> live r' \<Longrightarrow> scope r = scope r' \<Longrightarrow>
   finishing r = finishing r' \<Longrightarrow> r = r'"
  using lane_unique [of rows "finishing r"] by (auto intro: unique_on_same)

lemma lookup_key:
  assumes "table_ok rows" "r \<in> set rows"
  shows "find_where (\<lambda>x. key x = key r) rows = Some r"
proof -
  obtain x where "find_where (\<lambda>x. key x = key r) rows = Some x"
    using assms(2) by (cases "find_where (\<lambda>x. key x = key r) rows") (auto simp: find_where_None list_ex_iff)
  moreover have "x = r"
    using find_where_SomeD [OF calculation] by_key_unique [OF assms(1) _ assms(2)] by simp
  ultimately show ?thesis by simp
qed

lemma holder_iff:
  assumes "table_ok rows"
  shows "holder sc lane rows = Some r \<longleftrightarrow> r \<in> set rows \<and> scope r = sc \<and> live r \<and> finishing r = lane"
proof
  assume "holder sc lane rows = Some r"
  then show "r \<in> set rows \<and> scope r = sc \<and> live r \<and> finishing r = lane"
    unfolding holder_def by (auto dest: find_where_SomeD)
next
  assume r: "r \<in> set rows \<and> scope r = sc \<and> live r \<and> finishing r = lane"
  obtain x where x: "holder sc lane rows = Some x"
    using r unfolding holder_def
    by (cases "find_where (\<lambda>r. scope r = sc \<and> live r \<and> finishing r = lane) rows")
       (auto simp: find_where_None list_ex_iff)
  then have "x = r"
    using r by_lane_unique [OF assms, of x r] unfolding holder_def by (auto dest: find_where_SomeD)
  with x show "holder sc lane rows = Some r" by simp
qed

lemma rowcount_key:
  assumes "table_ok rows"
  shows "rowcount (\<lambda>r. key r = k \<and> Q r) rows = (if \<exists>r \<in> set rows. key r = k \<and> Q r then 1 else 0)"
proof (cases "\<exists>r \<in> set rows. key r = k \<and> Q r")
  case True
  then obtain r where r: "r \<in> set rows" "key r = k" "Q r" by blast
  have d: "distinct rows"
    using key_unique [OF assms] by (auto simp: unique_on_def distinct_map)
  have "set (filter (\<lambda>r. key r = k \<and> Q r) rows) = {r}"
    using r by_key_unique [OF assms] by auto
  then have "length (filter (\<lambda>r. key r = k \<and> Q r) rows) = 1"
    using distinct_card [of "filter (\<lambda>r. key r = k \<and> Q r) rows"] d by simp
  then show ?thesis using True by (simp add: rowcount_def)
next
  case False
  then have "filter (\<lambda>r. key r = k \<and> Q r) rows = []" by (auto simp: filter_empty_conv)
  then show ?thesis using False by (simp add: rowcount_def)
qed

end

interpretation opl: lane_table operations_ok operation_row_ok op_operation_id op_scope op_unfinished op_finishing
proof unfold_locales
  fix rows P f
  assume ok: "operations_ok rows"
    and f: "\<And>r. r \<in> set rows \<Longrightarrow> P r \<Longrightarrow> operation_row_ok (f r) \<and> op_operation_id (f r) = op_operation_id r \<and>
      op_scope (f r) = op_scope r \<and> op_finishing (f r) = op_finishing r \<and> (op_unfinished (f r) \<longrightarrow> op_unfinished r)"
  then show "operations_ok (update_where P f rows)"
    unfolding operations_ok_def
    by (intro conjI unique_on_update) (auto simp: list_all_iff elim!: in_update_whereE)
next
  show "operations_ok rows \<Longrightarrow> unique_on op_scope (\<lambda>r. op_unfinished r \<and> op_finishing r = lane) rows" for rows lane
    by (cases lane) (simp_all add: operations_ok_def)
qed (auto simp: operations_ok_def list_all_iff)

interpretation dpl: lane_table "\<lambda>ds. dispatches_ok ds rs" dispatch_row_ok dp_operation_id dp_scope dp_active dp_finishing
  for rs
proof unfold_locales
  fix rows P f
  assume ok: "dispatches_ok rows rs"
    and f: "\<And>r. r \<in> set rows \<Longrightarrow> P r \<Longrightarrow> dispatch_row_ok (f r) \<and> dp_operation_id (f r) = dp_operation_id r \<and>
      dp_scope (f r) = dp_scope r \<and> dp_finishing (f r) = dp_finishing r \<and> (dp_active (f r) \<longrightarrow> dp_active r)"
  then show "dispatches_ok (update_where P f rows) rs"
    unfolding dispatches_ok_def
    by (intro conjI unique_on_update) (auto simp: list_all_iff elim!: in_update_whereE)
next
  show "dispatches_ok rows rs \<Longrightarrow> unique_on dp_scope (\<lambda>r. dp_active r \<and> dp_finishing r = lane) rows" for rows lane
    by (cases lane) (simp_all add: dispatches_ok_def)
qed (auto simp: dispatches_ok_def list_all_iff)

end
