(* ===== verification/Application_Records.thy ===== *)
theory Application_Records
  imports Controller_Tables
begin

text \<open>
  Applications, their sizing and slugs, the builder flavors and the image selections of
  \<open>controller/database.py\<close>: \<open>put_application\<close>, \<open>get_application\<close>, \<open>list_applications\<close>,
  \<open>set_application_runtime\<close>, the builder-flavor settings and the image-selection table.
\<close>

section \<open>Builder flavors and image selections\<close>

definition get_default_builder_flavor :: "db \<Rightarrow> string option result" where
  "get_default_builder_flavor db =
     (case builder_settings db of None \<Rightarrow> Inr None
      | Some f \<Rightarrow> rbind (flavor_reference f) (\<lambda>g. Inr (Some g)))"

definition put_default_builder_flavor :: "string \<Rightarrow> db \<Rightarrow> (db \<times> unit) result" where
  "put_default_builder_flavor flavor db =
     rbind (flavor_reference flavor) (\<lambda>f.
     transaction (\<lambda>d. rbind (execute (d\<lparr>builder_settings := Some f\<rparr>)) (\<lambda>d. Inr (d, ()))) db)"

definition get_application_builder_flavor :: "string \<Rightarrow> db \<Rightarrow> string option result" where
  "get_application_builder_flavor application_id db =
     rbind (uuid ''UUID'' application_id) (\<lambda>i.
     case find_where (\<lambda>a. app_application_id a = i) (applications db) of
       None \<Rightarrow> Inl (ValidationError ''application does not exist'')
     | Some a \<Rightarrow> (case app_builder_flavor a of None \<Rightarrow> Inr None
                   | Some f \<Rightarrow> rbind (flavor_reference f) (\<lambda>g. Inr (Some g))))"

definition optional_check :: "('a \<Rightarrow> 'a result) \<Rightarrow> 'a option \<Rightarrow> 'a option result" where
  "optional_check f x = (case x of None \<Rightarrow> Inr None | Some v \<Rightarrow> rbind (f v) (\<lambda>w. Inr (Some w)))"

definition put_application_builder_flavor ::
  "string \<Rightarrow> string option \<Rightarrow> string \<Rightarrow> db \<Rightarrow> (db \<times> unit) result" where
  "put_application_builder_flavor application_id flavor now db =
     rbind (uuid ''UUID'' application_id) (\<lambda>i.
     rbind (optional_check flavor_reference flavor) (\<lambda>f.
     transaction (\<lambda>d.
       let P = (\<lambda>a. app_application_id a = i) in
       rbind (execute (d\<lparr>applications :=
         update_where P (\<lambda>a. a\<lparr>app_builder_flavor := f, app_updated_at := now\<rparr>) (applications d)\<rparr>)) (\<lambda>d'.
       if rowcount P (applications d) \<noteq> 1 then Inl (ValidationError ''application does not exist'')
       else Inr (d', ()))) db))"

definition put_image_selection ::
  "string \<Rightarrow> string \<Rightarrow> string \<Rightarrow> string \<Rightarrow> string \<Rightarrow> string \<Rightarrow> db \<Rightarrow> (db \<times> unit) result" where
  "put_image_selection role image_id display_name source_commit compatibility_hash selected_at db =
     rbind (uuid ''image_id'' image_id) (\<lambda>_.
     rbind (commit source_commit) (\<lambda>_.
     rbind (sha256_hex ''compatibility_hash'' compatibility_hash) (\<lambda>_.
     transaction (\<lambda>d.
       let new = \<lparr>img_role = role, img_image_id = image_id, img_display_name = display_name,
                  img_source_commit = source_commit, img_compatibility_hash = compatibility_hash,
                  img_selected_at = selected_at\<rparr> in
       rbind (execute (d\<lparr>image_selections :=
         upsert (\<lambda>i. img_role i = role) (\<lambda>_. new) new (image_selections d)\<rparr>)) (\<lambda>d'. Inr (d', ()))) db)))"

definition get_image_selection :: "string \<Rightarrow> db \<Rightarrow> image_selection option" where
  "get_image_selection role db = find_where (\<lambda>i. img_role i = role) (image_selections db)"

definition list_image_selections :: "db \<Rightarrow> image_selection list" where
  "list_image_selections db =
     List.map_filter (\<lambda>role. get_image_selection role db) (sort (map img_role (image_selections db)))"

section \<open>Applications\<close>

record application_input =
  in_application_id :: string
  in_slug :: string
  in_worker_flavor :: string
  in_cpu_mhz :: int
  in_memory_mib :: int
  in_repository_url :: "string option"
  in_desired_running :: bool
  in_url :: "string option"
  in_worker_server_id :: "string option"
  in_worker_server_name :: "string option"
  in_worker_port_id :: "string option"
  in_worker_port_name :: "string option"

text \<open>The \<open>ON CONFLICT(application_id) DO UPDATE SET\<close> columns of the upsert.\<close>

definition apply_input :: "application_input \<Rightarrow> string \<Rightarrow> application \<Rightarrow> application" where
  "apply_input i now a = a\<lparr>app_slug := in_slug i, app_repository_url := in_repository_url i,
     app_desired_running := in_desired_running i, app_url := in_url i,
     app_worker_server_id := in_worker_server_id i, app_worker_server_name := in_worker_server_name i,
     app_worker_port_id := in_worker_port_id i, app_worker_port_name := in_worker_port_name i,
     app_worker_flavor := in_worker_flavor i, app_scheduler_cpu_mhz := in_cpu_mhz i,
     app_scheduler_memory_mib := in_memory_mib i, app_updated_at := now\<rparr>"

definition input_row :: "application_input \<Rightarrow> string \<Rightarrow> application" where
  "input_row i now = \<lparr>app_application_id = in_application_id i, app_slug = in_slug i,
     app_repository_url = in_repository_url i, app_desired_running = in_desired_running i, app_url = in_url i,
     app_worker_server_id = in_worker_server_id i, app_worker_server_name = in_worker_server_name i,
     app_worker_port_id = in_worker_port_id i, app_worker_port_name = in_worker_port_name i,
     app_worker_flavor = in_worker_flavor i, app_scheduler_cpu_mhz = in_cpu_mhz i,
     app_scheduler_memory_mib = in_memory_mib i, app_created_at = now, app_updated_at = now,
     app_builder_flavor = None\<rparr>"

definition lifecycle_of :: "bool \<Rightarrow> string" where
  "lifecycle_of running = (if running then ''running'' else ''stopped'')"

text \<open>The statements of \<open>put_application\<close>, inside its transaction.\<close>

definition put_application_statements :: "application_input \<Rightarrow> string \<Rightarrow> db \<Rightarrow> (db \<times> unit) result" where
  "put_application_statements i now d =
     (let ident = in_application_id i; mine = (\<lambda>a. app_application_id a = ident) in
      if list_ex (\<lambda>t. ts_slug t = in_slug i) (slug_tombstones d)
      then Inl (DatabaseError ''application slug is permanently retired'')
      else
        rbind (case find_where mine (applications d) of
                 Some a \<Rightarrow>
                   if app_slug a \<noteq> in_slug i
                   then execute (d\<lparr>slug_tombstones := slug_tombstones d @
                          [\<lparr>ts_slug = app_slug a, ts_application_id = ident, ts_deleted_at = now\<rparr>]\<rparr>)
                   else Inr d
               | None \<Rightarrow> Inr d) (\<lambda>d1.
        rbind (execute (d1\<lparr>applications := upsert mine (apply_input i now) (input_row i now) (applications d1)\<rparr>)) (\<lambda>d2.
        rbind (execute (d2\<lparr>environment_revisions :=
                 upsert (\<lambda>r. er_application_id r = ident) id
                   \<lparr>er_application_id = ident, er_revision = 0, er_updated_at = now\<rparr> (environment_revisions d2)\<rparr>)) (\<lambda>d3.
        rbind (execute (d3\<lparr>active_deployments :=
                 update_where (\<lambda>a. act_application_id a = ident)
                   (\<lambda>a. a\<lparr>act_lifecycle_state := lifecycle_of (in_desired_running i), act_updated_at := now\<rparr>)
                   (active_deployments d3)\<rparr>)) (\<lambda>d4.
        Inr (d4, ()))))))"

definition put_application :: "application_input \<Rightarrow> string \<Rightarrow> bool \<Rightarrow> db \<Rightarrow> (db \<times> unit) result" where
  "put_application i now within_transaction db =
     rbind (uuid ''application_id'' (in_application_id i)) (\<lambda>_.
     rbind (slug (in_slug i)) (\<lambda>_.
     rbind (optional_check (uuid ''worker_server_id'') (in_worker_server_id i)) (\<lambda>_.
     rbind (optional_check (uuid ''worker_port_id'') (in_worker_port_id i)) (\<lambda>_.
     if in_cpu_mhz i \<le> 0 \<or> in_memory_mib i \<le> 0 \<or> in_worker_flavor i = []
     then Inl (ValidationError ''application sizing must be positive and have a worker flavor'')
     else acceptance_write within_transaction (put_application_statements i now) db))))"

definition tombstoned :: "db \<Rightarrow> application \<Rightarrow> bool" where
  "tombstoned db a \<longleftrightarrow> list_ex (\<lambda>t. ts_application_id t = app_application_id a) (slug_tombstones db)"

definition get_application :: "string \<Rightarrow> db \<Rightarrow> application option" where
  "get_application identifier db =
     find_where (\<lambda>a. (app_application_id a = identifier \<or> app_slug a = identifier) \<and> \<not> tombstoned db a)
       (applications db)"

definition get_application_including_tombstone :: "string \<Rightarrow> db \<Rightarrow> application option" where
  "get_application_including_tombstone application_id db =
     find_where (\<lambda>a. app_application_id a = application_id) (applications db)"

definition list_applications :: "db \<Rightarrow> application list" where
  "list_applications db = sort_key app_slug (filter (\<lambda>a. \<not> tombstoned db a) (applications db))"

definition revision :: "string \<Rightarrow> int \<Rightarrow> int result" where
  "revision field v = (if v < 0 then Inl (ValidationError (field @ '' must be a non-negative integer'')) else Inr v)"

record worker_placement =
  wp_server_id :: "string option"
  wp_server_name :: "string option"
  wp_port_id :: "string option"
  wp_port_name :: "string option"

text \<open>The statements of \<open>set_application_runtime\<close>, inside its transaction.\<close>

definition set_runtime_statements ::
  "string \<Rightarrow> bool \<Rightarrow> worker_placement \<Rightarrow> int option \<Rightarrow> string \<Rightarrow> db \<Rightarrow> (db \<times> unit) result" where
  "set_runtime_statements ident running w nomad_version now d =
     (let mine = (\<lambda>a. app_application_id a = ident) in
      rbind (execute (d\<lparr>applications := update_where mine
               (\<lambda>a. a\<lparr>app_desired_running := running, app_worker_server_id := wp_server_id w,
                       app_worker_server_name := wp_server_name w, app_worker_port_id := wp_port_id w,
                       app_worker_port_name := wp_port_name w, app_updated_at := now\<rparr>) (applications d)\<rparr>)) (\<lambda>d1.
      if rowcount mine (applications d) \<noteq> 1 then Inl (DatabaseError ''application is missing'')
      else
        case find_where (\<lambda>a. act_application_id a = ident) (active_deployments d1) of
          None \<Rightarrow> Inr (d1, ())
        | Some active \<Rightarrow>
            rbind (execute (d1\<lparr>active_deployments := update_where (\<lambda>a. act_application_id a = ident)
                     (\<lambda>a. a\<lparr>act_lifecycle_state := lifecycle_of running, act_updated_at := now\<rparr>)
                     (active_deployments d1)\<rparr>)) (\<lambda>d2.
            case nomad_version of
              None \<Rightarrow> Inr (d2, ())
            | Some v \<Rightarrow>
                rbind (update_attempts
                         (\<lambda>a. at_deployment_id a = act_deployment_id active \<and> at_application_id a = ident)
                         (\<lambda>a. a\<lparr>at_nomad_version := Some v, at_last_healthy_at := Some now, at_updated_at := now\<rparr>) d2) (\<lambda>d3.
                Inr (d3, ())))))"

definition set_application_runtime ::
  "string \<Rightarrow> bool \<Rightarrow> worker_placement \<Rightarrow> int option \<Rightarrow> string \<Rightarrow> bool \<Rightarrow> db \<Rightarrow> (db \<times> unit) result" where
  "set_application_runtime application_id running w nomad_version now within_transaction db =
     rbind (uuid ''application_id'' application_id) (\<lambda>ident.
     if running \<and> (wp_server_id w = None \<or> wp_server_name w = None \<or> wp_port_id w = None \<or> wp_port_name w = None)
     then Inl (ValidationError ''running application requires exact worker identity'')
     else
       rbind (optional_check (uuid ''worker_server_id'') (wp_server_id w)) (\<lambda>_.
       rbind (optional_check (uuid ''worker_port_id'') (wp_port_id w)) (\<lambda>_.
       rbind (optional_check (revision ''nomad version'') nomad_version) (\<lambda>_.
       acceptance_write within_transaction (set_runtime_statements ident running w nomad_version now) db))))"

end
