(* ===== verification/Storage_Capacity.thy ===== *)
theory Storage_Capacity
  imports Controller_Tables
begin

text \<open>
  Admission of storage reservations (\<open>controller/storage_capacity.py\<close>): what the recorded limits and
  the intents of unfinished operations reserve of disk, memory, connections and S3 objects, and the check
  a new limit has to pass under the writer transaction. Quotas are the integers the callers'
  \<open>validate_quotas\<close> produces; a quota of another JSON type raises \<open>TypeError\<close> here, also a float,
  which that validation excludes.
\<close>

section \<open>Reading quotas\<close>

text \<open>An integer for Python's arithmetic, where a Boolean counts as 0 or 1.\<close>

fun json_int :: "json \<Rightarrow> int option" where
  "json_int (JInt i) = Some i"
| "json_int (JBool b) = Some (if b then 1 else 0)"
| "json_int _ = None"

definition or_zero :: "int option \<Rightarrow> int" where
  "or_zero x = (case x of None \<Rightarrow> 0 | Some v \<Rightarrow> v)"

text \<open>\<open>x or d\<close> on an optional integer: \<open>None\<close> and 0 give the default.\<close>

definition or_default :: "int option \<Rightarrow> int \<Rightarrow> int" where
  "or_default x d = (if or_zero x = 0 then d else or_zero x)"

text \<open>\<open>refs.get("quotas", {}).get(name, 0)\<close>\<close>

definition intent_quota :: "jdict \<Rightarrow> string \<Rightarrow> int result" where
  "intent_quota refs name =
     (case dict_get refs ''quotas'' of
        None \<Rightarrow> Inr 0
      | Some (JObj q) \<Rightarrow> (case dict_get q name of
                          None \<Rightarrow> Inr 0
                        | Some v \<Rightarrow> (case json_int v of None \<Rightarrow> Inl TypeError | Some n \<Rightarrow> Inr n))
      | Some _ \<Rightarrow> Inl TypeError)"

text \<open>The resource an intent names, if it is a text.\<close>

definition intent_resource :: "jdict \<Rightarrow> string option result" where
  "intent_resource refs =
     (case dict_get refs ''resource_id'' of
        Some (JStr s) \<Rightarrow> Inr (Some s)
      | Some (JArr _) \<Rightarrow> Inl TypeError
      | Some (JObj _) \<Rightarrow> Inl TypeError
      | _ \<Rightarrow> Inr None)"

text \<open>
  A reservation table: the value each resource reserves, raised to the intents that name it.
\<close>

definition raise_to_intent :: "string \<Rightarrow> jdict \<Rightarrow> (string \<times> int) list \<Rightarrow> (string \<times> int) list result" where
  "raise_to_intent name refs reserved =
     rbind (intent_resource refs) (\<lambda>r.
     case r of
       None \<Rightarrow> Inr reserved
     | Some i \<Rightarrow>
         (case dict_get reserved i of
            None \<Rightarrow> Inr reserved
          | Some v \<Rightarrow> rbind (intent_quota refs name) (\<lambda>q. Inr (dict_put i (max v q) reserved))))"

fun raise_to_intents :: "string \<Rightarrow> jdict list \<Rightarrow> (string \<times> int) list \<Rightarrow> (string \<times> int) list result" where
  "raise_to_intents name [] reserved = Inr reserved"
| "raise_to_intents name (refs # intents) reserved =
     rbind (raise_to_intent name refs reserved) (raise_to_intents name intents)"

definition limit_kinds :: "string list" where
  "limit_kinds = [''storage.limits.set'', ''storage.usage.collect'']"

definition unfinished_intents :: "string list \<Rightarrow> db \<Rightarrow> jdict list" where
  "unfinished_intents kinds db =
     map op_refs (filter (\<lambda>r. op_kind r \<in> set kinds \<and> op_unfinished r) (operations db))"

text \<open>One column of \<open>disk_reservations\<close>'s dictionary.\<close>

definition column_reservations :: "(managed_resource \<Rightarrow> int option) \<Rightarrow> string \<Rightarrow> db \<Rightarrow> (string \<times> int) list result" where
  "column_reservations column name db =
     raise_to_intents name (unfinished_intents limit_kinds db)
       (map (\<lambda>r. (res_resource_id r, or_zero (column r))) (managed_resources db))"

record disk_reservation =
  databaseBytes :: int
  garageBytes :: int

definition disk_reservations :: "db \<Rightarrow> disk_reservation result" where
  "disk_reservations db =
     rbind (column_reservations res_measured_target_bytes ''sizeBytes'' db) (\<lambda>sizes.
     rbind (column_reservations res_s3_bytes ''s3Bytes'' db) (\<lambda>s3.
     rbind (column_reservations res_s3_objects ''s3Objects'' db) (\<lambda>objects.
     Inr \<lparr>databaseBytes = (\<Sum>x \<leftarrow> sizes. hard_quota (snd x)),
          garageBytes = (\<Sum>(x, y) \<leftarrow> zip s3 objects. garage_reservation (snd x) (snd y))\<rparr>)))"

section \<open>The check\<close>

definition total_bytes :: "db \<Rightarrow> int result" where
  "total_bytes db =
     (case storage_host_usage db of
        None \<Rightarrow> Inr (500 * GIB)
      | Some usage \<Rightarrow>
          (case dict_get usage ''dataVolume'' of
             None \<Rightarrow> Inr (500 * GIB)
           | Some (JObj volume) \<Rightarrow>
               (case dict_get volume ''totalBytes'' of
                  None \<Rightarrow> Inr (500 * GIB)
                | Some v \<Rightarrow> (case json_int v of None \<Rightarrow> Inl TypeError | Some n \<Rightarrow> Inr n))
           | Some _ \<Rightarrow> Inl TypeError))"

type_synonym quotas = "(string \<times> int) list"

definition quota :: "quotas \<Rightarrow> string \<Rightarrow> int" where
  "quota target name = or_zero (dict_get target name)"

text \<open>How much more disk the target reserves than the resource's own row does.\<close>

definition disk_increase :: "managed_resource option \<Rightarrow> quotas \<Rightarrow> int" where
  "disk_increase row target =
     (if dict_get target ''sizeBytes'' \<noteq> None
      then hard_quota (quota target ''sizeBytes'') -
           hard_quota (case row of None \<Rightarrow> 0 | Some r \<Rightarrow> or_zero (res_measured_target_bytes r))
      else garage_reservation (quota target ''s3Bytes'') (quota target ''s3Objects'') -
           garage_reservation (case row of None \<Rightarrow> 0 | Some r \<Rightarrow> or_zero (res_s3_bytes r))
             (case row of None \<Rightarrow> 0 | Some r \<Rightarrow> or_zero (res_s3_objects r)))"

definition resource_row :: "string option \<Rightarrow> db \<Rightarrow> managed_resource option" where
  "resource_row resource_id db =
     (case resource_id of None \<Rightarrow> None
      | Some i \<Rightarrow> find_where (\<lambda>r. res_resource_id r = i) (managed_resources db))"

definition check_disk :: "string option \<Rightarrow> quotas \<Rightarrow> db \<Rightarrow> unit result" where
  "check_disk resource_id target db =
     (if dict_get target ''sizeBytes'' = None \<and> dict_get target ''s3Bytes'' = None then Inr ()
      else
        rbind (disk_reservations db) (\<lambda>reserved.
        let increase = disk_increase (resource_row resource_id db) target in
        if increase \<le> 0 then Inr ()
        else
          rbind (total_bytes db) (\<lambda>total.
          if databaseBytes reserved + garageBytes reserved + increase + 197 * GIB > total * 85 div 100
          then Inl (CapacityError ''DISK_BUDGET_EXCEEDED''
                 ''hard disk reservations exceed 85% of the data volume; grow the volume before admitting this limit'')
          else Inr ())))"

definition resource_key :: "string option \<Rightarrow> string" where
  "resource_key resource_id = (case resource_id of None \<Rightarrow> ''new'' | Some i \<Rightarrow> if i = [] then ''new'' else i)"

definition check_objects :: "string option \<Rightarrow> quotas \<Rightarrow> db \<Rightarrow> unit result" where
  "check_objects resource_id target db =
     rbind (raise_to_intents ''s3Objects'' (unfinished_intents [''storage.limits.set''] db)
              (map (\<lambda>r. (res_resource_id r, or_zero (res_s3_objects r)))
                 (filter (\<lambda>r. res_resource_type r = ''s3'') (managed_resources db)))) (\<lambda>objects.
     let previous = or_zero (dict_get objects (resource_key resource_id));
         requested = (case dict_get target ''s3Objects'' of None \<Rightarrow> previous | Some n \<Rightarrow> n);
         objects' = dict_put (resource_key resource_id) (max previous requested) objects
     in if requested > previous \<and> (\<Sum>x \<leftarrow> objects'. snd x) > S3_OBJECT_BUDGET
        then Inl (CapacityError ''OBJECT_BUDGET_EXCEEDED''
               ''S3 object reservations exceed the five-million-object backup/metadata budget'')
        else Inr ())"

definition database_reservations :: "db \<Rightarrow> ((string \<times> int) list \<times> (string \<times> int) list) result" where
  "database_reservations db =
     (let rows = filter (\<lambda>r. res_resource_type r \<in> {''postgres'', ''mongo''}) (managed_resources db);
          intents = unfinished_intents limit_kinds db
      in rbind (raise_to_intents ''memoryBytes'' intents
                  (map (\<lambda>r. (res_resource_id r, or_default (res_memory_bytes r) 536870912)) rows)) (\<lambda>memory.
         rbind (raise_to_intents ''connections'' intents
                  (map (\<lambda>r. (res_resource_id r,
                              or_default (res_postgres_connections r) (or_default (res_mongo_connections r) 10))) rows)) (\<lambda>connections.
         Inr (memory, connections))))"

text \<open>
  The memory budget the host reported, if it reported one. A value that is not an integer, or is outside
  the bounds, is refused.
\<close>

definition memory_budget :: "db \<Rightarrow> int result" where
  "memory_budget db =
     (case (case storage_host_usage db of
              None \<Rightarrow> Some TRANSITION_MEMORY_BUDGET
            | Some usage \<Rightarrow> (case dict_get usage ''instanceMemoryBudgetBytes'' of
                              None \<Rightarrow> Some TRANSITION_MEMORY_BUDGET | Some v \<Rightarrow> json_int v)) of
        None \<Rightarrow> Inl (CapacityError ''MEMORY_BUDGET_EXCEEDED'' ''storage memory budget is unavailable'')
      | Some n \<Rightarrow> if 0 < n \<and> n \<le> MEMORY_BUDGET then Inr n
                  else Inl (CapacityError ''MEMORY_BUDGET_EXCEEDED'' ''storage memory budget is unavailable''))"

definition check_memory :: "string option \<Rightarrow> quotas \<Rightarrow> db \<Rightarrow> unit result" where
  "check_memory resource_id target db =
     rbind (database_reservations db) (\<lambda>(memory, connections).
     rbind (dict_index target ''memoryBytes'') (\<lambda>m.
     rbind (dict_index target ''connections'') (\<lambda>c.
     let k = resource_key resource_id;
         known = (case resource_id of None \<Rightarrow> None | Some i \<Rightarrow> dict_get memory i);
         pm = or_zero (dict_get memory k); pc = or_zero (dict_get connections k)
     in if known \<noteq> None \<and> m \<le> pm \<and> c \<le> pc then Inr ()
        else
          let memory' = dict_put k (if known \<noteq> None then max pm m else m) memory;
              connections' = dict_put k (if known \<noteq> None then max pc c else c) connections
          in rbind (memory_budget db) (\<lambda>budget.
             if (\<Sum>x \<leftarrow> memory'. snd x) > budget
             then Inl (CapacityError ''MEMORY_BUDGET_EXCEEDED''
                    ''instance memory reservations exceed the configured storage memory budget'')
             else if (\<Sum>x \<leftarrow> connections'. snd x) > CONNECTION_BUDGET
             then Inl (CapacityError ''CONNECTION_BUDGET_EXCEEDED''
                    ''instance application connection reservations exceed 2000'')
             else Inr ()))))"

definition check :: "string option \<Rightarrow> quotas \<Rightarrow> db \<Rightarrow> unit result" where
  "check resource_id target db =
     rbind (check_disk resource_id target db) (\<lambda>_.
     if dict_get target ''s3Bytes'' \<noteq> None then check_objects resource_id target db
     else check_memory resource_id target db)"

end
