(* ===== verification/Operation_Journal.thy ===== *)
theory Operation_Journal
  imports Application_Records Storage_Capacity "HOL-Library.Product_Lexorder"
begin

text \<open>
  The operation journal of \<open>controller/database.py\<close>: idempotent requests, the dispatches that reserve a
  scope before asynchronous work is accepted, and the operations with their phases, references and
  statuses. Both tables have a foreground lane and a finishing lane per scope.
\<close>

section \<open>References and tokens\<close>

definition secret_ref_words :: "string list" where
  "secret_ref_words =
     [''password'', ''passwd'', ''secret'', ''token'', ''credential'', ''private_key'', ''user_data'',
      ''cloud_init'', ''env_value'', ''source_content'', ''source_contents'']"

text \<open>One of the words at this position, followed by the end (\<open>$\<close>) or an underscore.\<close>

definition secret_word_at :: "string \<Rightarrow> bool" where
  "secret_word_at s \<longleftrightarrow>
     list_ex (\<lambda>w. starts_with_ci w s \<and>
        (let rest = drop (length w) s in rest = [] \<or> rest = [CHR 0x0A] \<or> hd rest = CHR ''_'')) secret_ref_words"

fun secret_after_underscore :: "string \<Rightarrow> bool" where
  "secret_after_underscore [] = False"
| "secret_after_underscore (c # s) = (c = CHR ''_'' \<and> secret_word_at s \<or> secret_after_underscore s)"

definition secret_key_search :: "string \<Rightarrow> bool" where
  "secret_key_search k \<longleftrightarrow> secret_word_at k \<or> secret_after_underscore k"

definition secret_ref_error :: "string \<Rightarrow> error" where
  "secret_ref_error k = ValidationError (''operation refs key '' @ [CHR 0x27] @ k @ [CHR 0x27] @ '' may contain secret material'')"

text \<open>\<open>_walk_refs\<close>: every key of every nested object is tested before its value.\<close>

fun walk_refs :: "json \<Rightarrow> unit result" and walk_items :: "json list \<Rightarrow> unit result"
  and walk_fields :: "jdict \<Rightarrow> unit result" where
  "walk_refs (JArr xs) = walk_items xs"
| "walk_refs (JObj kvs) = walk_fields kvs"
| "walk_refs _ = Inr ()"
| "walk_items [] = Inr ()"
| "walk_items (x # xs) = rbind (walk_refs x) (\<lambda>_. walk_items xs)"
| "walk_fields [] = Inr ()"
| "walk_fields ((k, v) # kvs) =
     (if secret_key_search k then Inl (secret_ref_error k)
      else rbind (walk_refs v) (\<lambda>_. walk_fields kvs))"

definition MAX_REFS_BYTES :: nat where "MAX_REFS_BYTES = 16384"

text \<open>The document that is stored: the references with sorted keys.\<close>

definition sorted_refs :: "jdict \<Rightarrow> jdict" where
  "sorted_refs refs = (case json_sorted (JObj refs) of JObj d \<Rightarrow> d | _ \<Rightarrow> [])"

definition refs_json :: "jdict \<Rightarrow> jdict result" where
  "refs_json refs =
     rbind (walk_refs (JObj refs)) (\<lambda>_.
     if refs_length (sorted_refs refs) > MAX_REFS_BYTES
     then Inl (ValidationError ''operation refs exceed their 16384-byte limit'')
     else Inr (sorted_refs refs))"

section \<open>Request fingerprints\<close>

text \<open>The public view of one storage binding: its outputs as sorted pairs, each checked.\<close>

definition view_binding :: "json \<Rightarrow> json result" where
  "view_binding b =
     (case b of
        JObj kvs \<Rightarrow>
          rbind (rmap (\<lambda>(k, v).
            (case (k = ''outputs'', v) of
               (True, JObj outputs) \<Rightarrow>
                 rbind (rmap (\<lambda>(output, target).
                   if \<not> list_ex (\<lambda>(_, names). output \<in> set names) RESOURCE_OUTPUTS
                   then Inl (ValidationError ''storage output is not supported'')
                   else (case target of
                           JStr s \<Rightarrow> rbind (env_key s) (\<lambda>s'. Inr (JArr [JStr output, JStr s']))
                         | _ \<Rightarrow> Inl (ValidationError ''environment key is malformed'')))
                   (sort_key fst outputs)) (\<lambda>pairs. Inr (k, JArr pairs))
             | _ \<Rightarrow> Inr (k, v))) kvs) (\<lambda>kvs'. Inr (JObj kvs'))
      | _ \<Rightarrow> Inr b)"

definition view_configuration :: "json \<Rightarrow> json result" where
  "view_configuration item =
     rbind (parse_configuration item) (\<lambda>c.
     case canonical_document c of
       JObj kvs \<Rightarrow>
         rbind (rmap (\<lambda>(k, v).
           (case (k = ''storageBindings'', v) of
              (True, JArr bs) \<Rightarrow> rbind (rmap view_binding bs) (\<lambda>bs'. Inr (k, JArr bs'))
            | _ \<Rightarrow> Inr (k, v))) kvs) (\<lambda>kvs'. Inr (JObj kvs'))
     | other \<Rightarrow> Inr other)"

definition is_bound_configuration :: "string \<Rightarrow> json \<Rightarrow> bool" where
  "is_bound_configuration k v \<longleftrightarrow>
     k = ''configuration'' \<and> (case v of JObj d \<Rightarrow> dict_get d ''storageBindings'' \<noteq> None | _ \<Rightarrow> False)"

fun fingerprint_view :: "json \<Rightarrow> json result" and view_items :: "json list \<Rightarrow> json list result"
  and view_fields :: "jdict \<Rightarrow> jdict result" where
  "fingerprint_view (JArr xs) = rbind (view_items xs) (\<lambda>ys. Inr (JArr ys))"
| "fingerprint_view (JObj kvs) = rbind (view_fields kvs) (\<lambda>ys. Inr (JObj ys))"
| "fingerprint_view v = Inr v"
| "view_items [] = Inr []"
| "view_items (x # xs) = rbind (fingerprint_view x) (\<lambda>y. rbind (view_items xs) (\<lambda>ys. Inr (y # ys)))"
| "view_fields [] = Inr []"
| "view_fields ((k, v) # kvs) =
     rbind (if is_bound_configuration k v then view_configuration v else fingerprint_view v) (\<lambda>w.
     rbind (view_fields kvs) (\<lambda>ws. Inr ((k, w) # ws)))"

text \<open>\<open>allow_nan=False\<close>\<close>

fun strict_json :: "json \<Rightarrow> bool" and strict_items :: "json list \<Rightarrow> bool" and strict_fields :: "jdict \<Rightarrow> bool" where
  "strict_json (JFloat r) = (r \<notin> {''nan'', ''inf'', ''-inf''})"
| "strict_json (JArr xs) = strict_items xs"
| "strict_json (JObj kvs) = strict_fields kvs"
| "strict_json _ = True"
| "strict_items [] = True"
| "strict_items (x # xs) = (strict_json x \<and> strict_items xs)"
| "strict_fields [] = True"
| "strict_fields ((k, v) # kvs) = (strict_json v \<and> strict_fields kvs)"

text \<open>\<open>sha\<close> stands for \<open>hashlib.sha256(\<dots>).hexdigest()\<close>.\<close>

definition request_fingerprint :: "(string \<Rightarrow> string) \<Rightarrow> jdict \<Rightarrow> string result" where
  "request_fingerprint sha request =
     rbind (fingerprint_view (JObj request)) (\<lambda>view.
     rbind (walk_refs view) (\<lambda>_.
     if \<not> strict_json (JObj request) then Inl (ValidationError ''idempotency request must be strict JSON'')
     else
       let encoded = json_text (json_sorted (JObj request)) in
       if length encoded > 1048576 then Inl (ValidationError ''idempotency request exceeds its 1048576-byte limit'')
       else Inr (sha encoded)))"

section \<open>Tokens\<close>

text \<open>\<open>[a-z0-9][a-z0-9._-]{0,127}\<close> and \<open>[a-z][a-z0-9_]{0,63}\<close>\<close>

definition operation_token :: "string \<Rightarrow> string \<Rightarrow> string result" where
  "operation_token field v =
     (if matches_head_rest (\<lambda>c. is_lower c \<or> is_digit c) (\<lambda>c. is_lower c \<or> is_digit c \<or> c \<in> set ''._-'') 127 v
      then Inr v else Inl (ValidationError (''operation '' @ field @ '' is malformed'')))"

definition cleanup_state :: "string \<Rightarrow> string result" where
  "cleanup_state v =
     (if matches_head_rest is_lower (\<lambda>c. is_lower c \<or> is_digit c \<or> c = CHR ''_'') 63 v
      then Inr v else Inl (ValidationError ''operation cleanup state is malformed''))"

section \<open>Idempotent requests\<close>

definition get_idempotency_request :: "string \<Rightarrow> db \<Rightarrow> idempotency_request option result" where
  "get_idempotency_request request_id db =
     rbind (uuid ''request_id'' request_id) (\<lambda>i.
     Inr (find_where (\<lambda>r. rq_request_id r = i) (idempotency_requests db)))"

text \<open>The read after the transaction, with its \<open>assert result is not None\<close>.\<close>

definition read_back :: "(db \<Rightarrow> 'a option result) \<Rightarrow> db \<Rightarrow> (db \<times> 'a) result" where
  "read_back get db =
     rbind (get db) (\<lambda>r. case r of None \<Rightarrow> Inl AssertionError | Some x \<Rightarrow> Inr (db, x))"

text \<open>A transaction that may return early with a value, or fall through to the read after it.\<close>

definition then_read :: "(db \<times> 'a option) result \<Rightarrow> (db \<Rightarrow> (db \<times> 'a) result) \<Rightarrow> (db \<times> 'a) result" where
  "then_read m k =
     rbind m (\<lambda>(db, early). case early of Some x \<Rightarrow> Inr (db, x) | None \<Rightarrow> k db)"

definition request_row :: "string \<Rightarrow> string \<Rightarrow> string \<Rightarrow> idempotency_request" where
  "request_row identifier fingerprint now =
     \<lparr>rq_request_id = identifier, rq_request_fingerprint = fingerprint, rq_result_kind = None,
      rq_result_id = None, rq_created_at = now, rq_completed_at = None\<rparr>"

definition claim_idempotency_request ::
  "string \<Rightarrow> string \<Rightarrow> string \<Rightarrow> db \<Rightarrow> (db \<times> idempotency_request) result" where
  "claim_idempotency_request request_id given_fingerprint now db =
     rbind (uuid ''request_id'' request_id) (\<lambda>identifier.
     rbind (sha256_hex ''request fingerprint'' given_fingerprint) (\<lambda>fingerprint.
     then_read
       (transaction (\<lambda>d.
          rbind (get_idempotency_request identifier d) (\<lambda>existing.
          case existing of
            Some r \<Rightarrow>
              if rq_request_fingerprint r \<noteq> fingerprint
              then Inl (IdempotencyConflictError ''idempotency request was already used for different input'')
              else Inr (d, Some r)
          | None \<Rightarrow>
              rbind (execute (d\<lparr>idempotency_requests := idempotency_requests d @
                       [request_row identifier fingerprint now]\<rparr>)) (\<lambda>d'.
              Inr (d', None)))) db)
       (read_back (get_idempotency_request identifier))))"

definition set_request_result ::
  "string \<Rightarrow> string \<Rightarrow> string \<Rightarrow> string \<Rightarrow> db \<Rightarrow> db result" where
  "set_request_result identifier kind result_id now d =
     execute (d\<lparr>idempotency_requests := update_where (\<lambda>r. rq_request_id r = identifier)
       (\<lambda>r. r\<lparr>rq_result_kind := Some kind, rq_result_id := Some result_id, rq_completed_at := Some now\<rparr>)
       (idempotency_requests d)\<rparr>)"

definition complete_idempotency_request ::
  "string \<Rightarrow> string \<Rightarrow> string \<Rightarrow> string \<Rightarrow> db \<Rightarrow> (db \<times> idempotency_request) result" where
  "complete_idempotency_request request_id result_kind result_id now db =
     rbind (uuid ''request_id'' request_id) (\<lambda>identifier.
     rbind (operation_token ''result kind'' result_kind) (\<lambda>kind.
     rbind (uuid ''idempotency result ID'' result_id) (\<lambda>result_identifier.
     then_read
       (transaction (\<lambda>d.
          rbind (get_idempotency_request identifier d) (\<lambda>existing.
          case existing of
            None \<Rightarrow> Inl (DatabaseError ''idempotency request is missing'')
          | Some r \<Rightarrow>
              if rq_result_id r \<noteq> None then
                (if (rq_result_kind r, rq_result_id r) \<noteq> (Some kind, Some result_identifier)
                 then Inl (IdempotencyConflictError ''idempotency request already has a different result'')
                 else Inr (d, Some r))
              else
                rbind (set_request_result identifier kind result_identifier now d) (\<lambda>d'. Inr (d', None)))) db)
       (read_back (get_idempotency_request identifier)))))"

section \<open>Reading operations\<close>

definition get_operation :: "string \<Rightarrow> db \<Rightarrow> operation option" where
  "get_operation operation_id db = find_where (\<lambda>r. op_operation_id r = operation_id) (operations db)"

text \<open>\<open>ORDER BY \<dots> DESC\<close> on the columns of a key, compared lexicographically.\<close>

definition order_desc :: "('r \<Rightarrow> 'k :: linorder) \<Rightarrow> 'r list \<Rightarrow> 'r list" where
  "order_desc key rows = rev (sort_key key rows)"

definition list_application_deploy_operations :: "string \<Rightarrow> db \<Rightarrow> operation list" where
  "list_application_deploy_operations application_id db =
     order_desc (\<lambda>r. (op_started_at r, op_operation_id r))
       (filter (\<lambda>r. op_scope r = ''app-'' @ application_id \<and> op_kind r = ''app.deploy'') (operations db))"

definition get_unfinished_operation :: "string \<Rightarrow> db \<Rightarrow> operation option" where
  "get_unfinished_operation scope db =
     find_where (\<lambda>r. op_scope r = scope \<and> op_unfinished r \<and> op_finishing r = False) (operations db)"

definition get_finishing_operation :: "string \<Rightarrow> db \<Rightarrow> operation option" where
  "get_finishing_operation scope db =
     find_where (\<lambda>r. op_scope r = scope \<and> op_unfinished r \<and> op_finishing r = True) (operations db)"

definition finishing_compatible_kinds :: "string list" where
  "finishing_compatible_kinds =
     [''app.env.set'', ''app.env.unset'', ''app.env.import'', ''storage.verify'', ''storage.rotate'',
      ''storage.limits.set'', ''storage.usage.collect'', ''app.restart'']"

text \<open>\<open>refs.get(key)\<close>, where a missing key and JSON \<open>null\<close> are both \<open>None\<close>.\<close>

definition refs_get :: "jdict \<Rightarrow> string \<Rightarrow> json" where
  "refs_get refs key = (case dict_get refs key of None \<Rightarrow> JNull | Some v \<Rightarrow> v)"

fun is_text :: "json \<Rightarrow> bool" where
  "is_text (JStr _) = True"
| "is_text _ = False"

definition removeprefix :: "string \<Rightarrow> string \<Rightarrow> string" where
  "removeprefix p s = (if starts_with p s then drop (length p) s else s)"

definition check_finishing_admission :: "string \<Rightarrow> string \<Rightarrow> db \<Rightarrow> unit result" where
  "check_finishing_admission scope kind db =
     (case get_finishing_operation scope db of
        None \<Rightarrow> Inr ()
      | Some f \<Rightarrow>
          let conflict = Inl (FinishingOperationConflictError (op_operation_id f)) in
          if kind \<in> set finishing_compatible_kinds then Inr ()
          else if kind \<in> {''app.enable'', ''app.disable''} \<and> op_phase f \<in> {''predecessor_cleanup'', ''accepted''} then
            (if kind = ''app.enable'' then
               (case get_application (removeprefix ''app-'' scope) db of
                  None \<Rightarrow> conflict
                | Some a \<Rightarrow> if app_desired_running a then Inr () else conflict)
             else if op_phase f = ''accepted'' then Inr ()
             else if refs_get (op_refs f) ''predecessor_job_id'' \<noteq> JNull \<and>
                     refs_get (op_refs f) ''predecessor_job_absent'' \<noteq> JBool True then conflict
             else
               let predecessor = refs_get (op_refs f) ''predecessor_worker_application_id'';
                   active = refs_get (op_refs f) ''worker_application_id''
               in if predecessor = JNull \<or> (is_text active \<and> predecessor \<noteq> active)
                  then Inr () else conflict)
          else conflict)"

section \<open>Dispatches\<close>

definition get_operation_dispatch :: "string \<Rightarrow> db \<Rightarrow> operation_dispatch option result" where
  "get_operation_dispatch operation_id db =
     rbind (uuid ''operation_id'' operation_id) (\<lambda>i.
     Inr (find_where (\<lambda>r. dp_operation_id r = i) (operation_dispatches db)))"

definition list_operation_dispatches :: "db \<Rightarrow> operation_dispatch list" where
  "list_operation_dispatches db = order_desc (\<lambda>r. (dp_updated_at r, dp_operation_id r)) (operation_dispatches db)"

definition active_dispatch :: "string \<Rightarrow> db \<Rightarrow> operation_dispatch option" where
  "active_dispatch scope db =
     find_where (\<lambda>r. dp_scope r = scope \<and> dp_active r \<and> dp_finishing r = False) (operation_dispatches db)"

text \<open>The admission checks of \<open>enqueue_operation_dispatch\<close> for an identifier with no dispatch yet.\<close>

definition admit_dispatch :: "string \<Rightarrow> string \<Rightarrow> string \<Rightarrow> db \<Rightarrow> unit result" where
  "admit_dispatch identifier kind scope d =
     rbind (get_idempotency_request identifier d) (\<lambda>request.
     case request of
       None \<Rightarrow> Inl (DatabaseError ''idempotency request is missing'')
     | Some r \<Rightarrow>
         if rq_result_id r \<noteq> None then
           (if (rq_result_kind r, rq_result_id r) \<noteq> (Some ''operation'', Some identifier)
            then Inl (IdempotencyConflictError ''idempotency request already has a different result'')
            else Inl (DatabaseError ''idempotency result has no operation dispatch''))
         else
           case active_dispatch scope d of
             Some a \<Rightarrow> Inl (UnfinishedOperationError scope (dp_operation_id a) (dp_kind a))
           | None \<Rightarrow>
               rbind (check_finishing_admission scope kind d) (\<lambda>_.
               case get_unfinished_operation scope d of
                 Some u \<Rightarrow> Inl (UnfinishedOperationError scope (op_operation_id u) (op_kind u))
               | None \<Rightarrow> Inr ()))"

definition dispatch_row :: "string \<Rightarrow> string \<Rightarrow> string \<Rightarrow> string \<Rightarrow> operation_dispatch" where
  "dispatch_row identifier kind scope now =
     \<lparr>dp_operation_id = identifier, dp_kind = kind, dp_scope = scope, dp_status = ''pending'',
      dp_created_at = now, dp_updated_at = now, dp_safe_error = None, dp_finishing = False\<rparr>"

definition enqueue_operation_dispatch ::
  "string \<Rightarrow> string \<Rightarrow> string \<Rightarrow> string \<Rightarrow> db \<Rightarrow> (db \<times> operation_dispatch \<times> bool) result" where
  "enqueue_operation_dispatch operation_id kind scope now db =
     rbind (uuid ''operation_id'' operation_id) (\<lambda>identifier.
     rbind (operation_token ''kind'' kind) (\<lambda>checked_kind.
     rbind (operation_token ''scope'' scope) (\<lambda>checked_scope.
     then_read
       (transaction (\<lambda>d.
          rbind (get_operation_dispatch identifier d) (\<lambda>existing.
          case existing of
            Some e \<Rightarrow>
              if (dp_kind e, dp_scope e) \<noteq> (checked_kind, checked_scope)
              then Inl (IdempotencyConflictError ''operation dispatch does not match request'')
              else Inr (d, Some (e, False))
          | None \<Rightarrow>
              rbind (admit_dispatch identifier checked_kind checked_scope d) (\<lambda>_.
              rbind (execute (d\<lparr>operation_dispatches := operation_dispatches d @
                       [dispatch_row identifier checked_kind checked_scope now]\<rparr>)) (\<lambda>d1.
              rbind (set_request_result identifier ''operation'' identifier now d1) (\<lambda>d2.
              Inr (d2, None)))))) db)
       (read_back (\<lambda>d. rbind (get_operation_dispatch identifier d) (\<lambda>r. Inr (map_option (\<lambda>x. (x, True)) r)))))))"

text \<open>\<open>dict(refs.get("finishing_retry", {}))\<close>, and \<open>int(retry.get("attempts", 0))\<close>.\<close>

definition retry_state :: "jdict \<Rightarrow> jdict result" where
  "retry_state refs =
     (case dict_get refs ''finishing_retry'' of
        None \<Rightarrow> Inr []
      | Some (JObj d) \<Rightarrow> Inr d
      | Some (JArr []) \<Rightarrow> Inr []
      | Some (JStr []) \<Rightarrow> Inr []
      | Some _ \<Rightarrow> Inl TypeError)"

definition retry_attempts :: "jdict \<Rightarrow> int result" where
  "retry_attempts retry =
     (case dict_get retry ''attempts'' of
        None \<Rightarrow> Inr 0
      | Some v \<Rightarrow> (case json_int v of None \<Rightarrow> Inl TypeError | Some n \<Rightarrow> Inr n))"

definition recovery_eligible ::
  "operation_dispatch option \<Rightarrow> operation option \<Rightarrow> string \<Rightarrow> string \<Rightarrow> bool" where
  "recovery_eligible dispatch oper kind scope =
     (case (dispatch, oper) of
        (Some d, Some r) \<Rightarrow>
          dp_status d = ''recovery_required'' \<and> op_unfinished r \<and>
          (op_status r = ''recovery_required'' \<or> op_finishing r) \<and>
          (dp_kind d, dp_scope d) = (kind, scope) \<and> (op_kind r, op_scope r) = (kind, scope)
      | _ \<Rightarrow> False)"

definition set_refs :: "string \<Rightarrow> jdict \<Rightarrow> db \<Rightarrow> db result" where
  "set_refs identifier refs d =
     execute (d\<lparr>operations := update_where (\<lambda>r. op_operation_id r = identifier) (\<lambda>r. r\<lparr>op_refs := refs\<rparr>) (operations d)\<rparr>)"

text \<open>The new retry record of a requeue: an automatic one must be due and counts as an attempt.\<close>

definition requeue_retry :: "jdict \<Rightarrow> string \<Rightarrow> bool \<Rightarrow> jdict result" where
  "requeue_retry refs now automatic =
     rbind (retry_state refs) (\<lambda>retry.
     rbind (if automatic then
              (case dict_get retry ''next_at'' of
                 Some (JStr next_at) \<Rightarrow>
                   if next_at > now then Inl (DatabaseError ''finishing retry is not due'')
                   else rbind (retry_attempts retry) (\<lambda>n. Inr (dict_put ''attempts'' (JInt (n + 1)) retry))
               | _ \<Rightarrow> Inl (DatabaseError ''finishing retry is not due''))
            else Inr retry) (\<lambda>retry'.
     Inr (dict_put ''next_at'' JNull retry')))"

definition requeue_recovery_dispatch ::
  "string \<Rightarrow> string \<Rightarrow> string \<Rightarrow> string \<Rightarrow> bool \<Rightarrow> db \<Rightarrow> (db \<times> operation_dispatch) result" where
  "requeue_recovery_dispatch operation_id kind scope now automatic db =
     rbind (uuid ''operation_id'' operation_id) (\<lambda>identifier.
     rbind (operation_token ''kind'' kind) (\<lambda>checked_kind.
     rbind (operation_token ''scope'' scope) (\<lambda>checked_scope.
     then_read
       (transaction (\<lambda>d.
          rbind (get_operation_dispatch identifier d) (\<lambda>dispatch.
          if \<not> recovery_eligible dispatch (get_operation identifier d) checked_kind checked_scope
          then Inl (DatabaseError ''operation is not eligible for recovery dispatch'')
          else
            let r = the (get_operation identifier d) in
            rbind (if op_finishing r then
                     rbind (requeue_retry (op_refs r) now automatic) (\<lambda>retry.
                     rbind (refs_json (dict_merge (op_refs r) [(''finishing_retry'', JObj retry)])) (\<lambda>refs.
                     set_refs identifier refs d))
                   else Inr d) (\<lambda>d1.
            let P = (\<lambda>x. dp_operation_id x = identifier \<and> dp_status x = ''recovery_required'') in
            rbind (execute (d1\<lparr>operation_dispatches := update_where P
                     (\<lambda>x. x\<lparr>dp_status := ''pending'', dp_updated_at := now, dp_safe_error := None\<rparr>)
                     (operation_dispatches d1)\<rparr>)) (\<lambda>d2.
            if rowcount P (operation_dispatches d1) \<noteq> 1
            then Inl (DatabaseError ''operation recovery dispatch changed concurrently'')
            else Inr (d2, None))))) db)
       (read_back (get_operation_dispatch identifier)))))"

definition summary_of :: "raised option \<Rightarrow> string option" where
  "summary_of err = map_option safe_summary err"

definition set_operation_dispatch_status ::
  "string \<Rightarrow> string \<Rightarrow> raised option \<Rightarrow> string \<Rightarrow> db \<Rightarrow> (db \<times> operation_dispatch) result" where
  "set_operation_dispatch_status operation_id status err now db =
     rbind (uuid ''operation_id'' operation_id) (\<lambda>identifier.
     if status \<notin> {''running'', ''finished'', ''recovery_required''}
     then Inl (ValidationError ''operation dispatch status is invalid'')
     else
       then_read
         (transaction (\<lambda>d.
            let P = (\<lambda>x. dp_operation_id x = identifier) in
            rbind (execute (d\<lparr>operation_dispatches := update_where P
                     (\<lambda>x. x\<lparr>dp_status := status, dp_updated_at := now, dp_safe_error := summary_of err\<rparr>)
                     (operation_dispatches d)\<rparr>)) (\<lambda>d1.
            if rowcount P (operation_dispatches d) \<noteq> 1 then Inl (DatabaseError ''operation dispatch is missing'')
            else Inr (d1, None))) db)
         (read_back (get_operation_dispatch identifier)))"

section \<open>Operations\<close>

definition mark_operation_finishing :: "string \<Rightarrow> bool \<Rightarrow> db \<Rightarrow> (db \<times> unit) result" where
  "mark_operation_finishing operation_id within_transaction db =
     acceptance_write within_transaction (\<lambda>d.
       if (case get_operation operation_id d of None \<Rightarrow> True
           | Some r \<Rightarrow> op_kind r \<notin> {''app.deploy'', ''app.enable''})
       then Inl (DatabaseError ''finishing operation intent is missing'')
       else
         rbind (execute (d\<lparr>operations := update_where (\<lambda>r. op_operation_id r = operation_id)
                  (\<lambda>r. r\<lparr>op_finishing := True, op_cleanup_state := ''pending''\<rparr>) (operations d)\<rparr>)) (\<lambda>d1.
         rbind (execute (d1\<lparr>operation_dispatches := update_where (\<lambda>r. dp_operation_id r = operation_id)
                  (\<lambda>r. r\<lparr>dp_finishing := True\<rparr>) (operation_dispatches d1)\<rparr>)) (\<lambda>d2.
         Inr (d2, ())))) db"

text \<open>
  The quotas that make \<open>begin_operation\<close> check capacity. \<open>in\<close> is a key test on an object, a membership
  test on an array and a substring test on a text; anything but an object then fails in \<open>check\<close>.
\<close>

definition quota_names :: "string list" where
  "quota_names = [''memoryBytes'', ''s3Bytes'']"

definition int_dict :: "jdict \<Rightarrow> quotas result" where
  "int_dict d = rmap (\<lambda>(k, v). case json_int v of None \<Rightarrow> Inl TypeError | Some n \<Rightarrow> Inr (k, n)) d"

definition requested_quotas :: "string \<Rightarrow> jdict \<Rightarrow> quotas option result" where
  "requested_quotas kind refs =
     (if kind \<notin> set limit_kinds \<or> refs = [] then Inr None
      else case dict_get refs ''quotas'' of
        None \<Rightarrow> Inr None
      | Some (JObj q) \<Rightarrow>
          if list_ex (\<lambda>n. dict_get q n \<noteq> None) quota_names
          then rbind (int_dict q) (\<lambda>target. Inr (Some target)) else Inr None
      | Some (JArr xs) \<Rightarrow> if list_ex (\<lambda>n. JStr n \<in> set xs) quota_names then Inl TypeError else Inr None
      | Some (JStr s) \<Rightarrow> if list_ex (\<lambda>n. contains n s) quota_names then Inl TypeError else Inr None
      | Some _ \<Rightarrow> Inl TypeError)"

definition check_requested_quotas :: "string \<Rightarrow> jdict \<Rightarrow> db \<Rightarrow> unit result" where
  "check_requested_quotas kind refs d =
     rbind (requested_quotas kind refs) (\<lambda>q.
     case q of None \<Rightarrow> Inr ()
     | Some target \<Rightarrow> rbind (intent_resource refs) (\<lambda>resource. check resource target d))"

definition deadline_ok :: "string \<Rightarrow> unit result" where
  "deadline_ok deadline_at =
     (if length deadline_at > 64 then Inl (ValidationError ''operation deadline is malformed'') else Inr ())"

definition begin_row :: "string \<Rightarrow> string \<Rightarrow> string \<Rightarrow> string \<Rightarrow> string \<Rightarrow> jdict \<Rightarrow> string \<Rightarrow> operation" where
  "begin_row identifier kind scope phase deadline_at stored now =
     \<lparr>op_operation_id = identifier, op_kind = kind, op_scope = scope, op_status = ''running'',
      op_phase = phase, op_started_at = now, op_updated_at = now, op_deadline_at = deadline_at,
      op_refs = stored, op_candidate_digest = None, op_safe_error = None,
      op_cleanup_state = ''pending'', op_finishing = False\<rparr>"

definition begin_operation ::
  "string \<Rightarrow> string \<Rightarrow> string \<Rightarrow> string \<Rightarrow> string \<Rightarrow> jdict \<Rightarrow> string \<Rightarrow> db \<Rightarrow> (db \<times> operation) result" where
  "begin_operation operation_id kind scope phase deadline_at refs now db =
     rbind (uuid ''operation_id'' operation_id) (\<lambda>identifier.
     rbind (operation_token ''kind'' kind) (\<lambda>kind.
     rbind (operation_token ''scope'' scope) (\<lambda>scope.
     rbind (operation_token ''phase'' phase) (\<lambda>phase.
     rbind (deadline_ok deadline_at) (\<lambda>_.
     then_read
       (transaction (\<lambda>d.
          rbind (check_finishing_admission scope kind d) (\<lambda>_.
          case get_unfinished_operation scope d of
            Some e \<Rightarrow> Inl (UnfinishedOperationError scope (op_operation_id e) (op_kind e))
          | None \<Rightarrow>
              rbind (check_requested_quotas kind refs d) (\<lambda>_.
              rbind (refs_json refs) (\<lambda>stored.
              rbind (execute (d\<lparr>operations := operations d @
                       [begin_row identifier kind scope phase deadline_at stored now]\<rparr>)) (\<lambda>d1.
              Inr (d1, None)))))) db)
       (read_back (\<lambda>d. Inr (get_operation identifier d))))))))"

text \<open>\<open>UPDATE operations SET \<dots> WHERE operation_id = ? AND status IN ('running','recovery_required')\<close>
  with its row count check, and the read after the transaction.\<close>

definition update_unfinished :: "string \<Rightarrow> (operation \<Rightarrow> operation) \<Rightarrow> db \<Rightarrow> (db \<times> operation option) result" where
  "update_unfinished operation_id f d =
     (let P = (\<lambda>r. op_operation_id r = operation_id \<and> op_unfinished r) in
      rbind (execute (d\<lparr>operations := update_where P f (operations d)\<rparr>)) (\<lambda>d1.
      if rowcount P (operations d) \<noteq> 1 then Inl (DatabaseError ''operation is missing or already terminal'')
      else Inr (d1, None)))"

definition read_operation :: "string \<Rightarrow> db \<Rightarrow> (db \<times> operation) result" where
  "read_operation operation_id = read_back (\<lambda>d. Inr (get_operation operation_id d))"

definition renew_row :: "string \<Rightarrow> string \<Rightarrow> operation \<Rightarrow> operation" where
  "renew_row deadline_at now r =
     r\<lparr>op_deadline_at := deadline_at, op_updated_at := now, op_status := ''running'', op_safe_error := None\<rparr>"

definition renew_operation_deadline :: "string \<Rightarrow> string \<Rightarrow> string \<Rightarrow> db \<Rightarrow> (db \<times> operation) result" where
  "renew_operation_deadline operation_id deadline_at now db =
     rbind (uuid ''operation_id'' operation_id) (\<lambda>_.
     rbind (deadline_ok deadline_at) (\<lambda>_.
     then_read
       (transaction (update_unfinished operation_id (renew_row deadline_at now)) db)
       (read_operation operation_id)))"

record checkpoint =
  cp_phase :: string
  cp_refs :: "jdict option"
  cp_merge_refs :: bool
  cp_candidate_digest :: "string option"
  cp_cleanup_state :: "string option"

definition put_optional :: "'a option \<Rightarrow> ('a \<Rightarrow> 'r \<Rightarrow> 'r) \<Rightarrow> 'r \<Rightarrow> 'r" where
  "put_optional x f r = (case x of None \<Rightarrow> r | Some v \<Rightarrow> f v r)"

definition apply_checkpoint :: "checkpoint \<Rightarrow> jdict option \<Rightarrow> string \<Rightarrow> operation \<Rightarrow> operation" where
  "apply_checkpoint cp encoded now r =
     put_optional (cp_cleanup_state cp) (\<lambda>v r. r\<lparr>op_cleanup_state := v\<rparr>)
       (put_optional (cp_candidate_digest cp) (\<lambda>v r. r\<lparr>op_candidate_digest := Some v\<rparr>)
         (put_optional encoded (\<lambda>v r. r\<lparr>op_refs := v\<rparr>)
           (r\<lparr>op_phase := cp_phase cp, op_updated_at := now\<rparr>)))"

text \<open>The references a checkpoint stores, merged over the recorded ones on request.\<close>

definition checkpoint_refs :: "string \<Rightarrow> checkpoint \<Rightarrow> db \<Rightarrow> jdict option result" where
  "checkpoint_refs operation_id cp d =
     (case cp_refs cp of
        None \<Rightarrow> Inr None
      | Some refs \<Rightarrow>
          rbind (if cp_merge_refs cp then
                   (case find_where (\<lambda>r. op_operation_id r = operation_id \<and> op_unfinished r) (operations d) of
                      None \<Rightarrow> Inl (DatabaseError ''operation is missing or already terminal'')
                    | Some r \<Rightarrow> Inr (dict_merge (op_refs r) refs))
                 else Inr refs) (\<lambda>merged.
          rbind (refs_json merged) (\<lambda>encoded. Inr (Some encoded))))"

definition checkpoint_operation :: "string \<Rightarrow> checkpoint \<Rightarrow> string \<Rightarrow> db \<Rightarrow> (db \<times> operation) result" where
  "checkpoint_operation operation_id cp now db =
     rbind (uuid ''operation_id'' operation_id) (\<lambda>_.
     rbind (operation_token ''phase'' (cp_phase cp)) (\<lambda>_.
     rbind (optional_check (oci_digest_pin ''candidate_digest'') (cp_candidate_digest cp)) (\<lambda>_.
     rbind (optional_check (\<lambda>refs. rbind (refs_json refs) (\<lambda>_. Inr refs)) (cp_refs cp)) (\<lambda>_.
     rbind (optional_check cleanup_state (cp_cleanup_state cp)) (\<lambda>_.
     then_read
       (transaction (\<lambda>d.
          rbind (checkpoint_refs operation_id cp d) (\<lambda>encoded.
          update_unfinished operation_id (apply_checkpoint cp encoded now) d)) db)
       (read_operation operation_id))))))"

definition image_key :: "string \<Rightarrow> bool" where
  "image_key key \<longleftrightarrow> key = ''image_id'' \<or> ends_with ''_image_id'' key \<or> ends_with ''_image_ids'' key"

definition image_uuid :: "json \<Rightarrow> string list result" where
  "image_uuid v = (case v of JStr s \<Rightarrow> rbind (uuid ''operation image UUID'' s) (\<lambda>i. Inr [i])
     | _ \<Rightarrow> Inl (ValidationError ''operation image UUID must be a canonical UUID''))"

text \<open>\<open>collect\<close>, with \<open>named\<close> for \<open>image_key\<close> of the key the value is found under.\<close>

fun collect_images :: "bool \<Rightarrow> json \<Rightarrow> string list result" and collect_items :: "bool \<Rightarrow> json list \<Rightarrow> string list result"
  and collect_fields :: "jdict \<Rightarrow> string list result" where
  "collect_images named (JStr s) = (if named then image_uuid (JStr s) else Inr [])"
| "collect_images named (JArr xs) =
     (if named then rbind (rmap image_uuid xs) (\<lambda>ys. Inr (concat ys)) else collect_items named xs)"
| "collect_images named (JObj kvs) = collect_fields kvs"
| "collect_images named _ = Inr []"
| "collect_items named [] = Inr []"
| "collect_items named (x # xs) =
     rbind (collect_images named x) (\<lambda>a. rbind (collect_items named xs) (\<lambda>b. Inr (a @ b)))"
| "collect_fields [] = Inr []"
| "collect_fields ((k, v) # kvs) =
     rbind (collect_images (image_key k) v) (\<lambda>a. rbind (collect_fields kvs) (\<lambda>b. Inr (a @ b)))"

definition unfinished_operation_image_ids :: "string option \<Rightarrow> db \<Rightarrow> string list result" where
  "unfinished_operation_image_ids exclude db =
     rbind (optional_check (uuid ''operation_id'') exclude) (\<lambda>_.
     rbind (rmap (\<lambda>r. collect_images False (JObj (op_refs r)))
              (filter (\<lambda>r. op_unfinished r \<and> Some (op_operation_id r) \<noteq> exclude) (operations db))) (\<lambda>found.
     Inr (sort (remdups (concat found)))))"

definition finish_row ::
  "string \<Rightarrow> raised option \<Rightarrow> string option \<Rightarrow> string option \<Rightarrow> string \<Rightarrow> operation \<Rightarrow> operation" where
  "finish_row status err phase cleanup now r =
     put_optional cleanup (\<lambda>v r. r\<lparr>op_cleanup_state := v\<rparr>)
       (put_optional phase (\<lambda>v r. r\<lparr>op_phase := v\<rparr>)
         (r\<lparr>op_status := status, op_updated_at := now, op_safe_error := summary_of err\<rparr>))"

definition finish_operation ::
  "string \<Rightarrow> string \<Rightarrow> raised option \<Rightarrow> string option \<Rightarrow> string option \<Rightarrow> string \<Rightarrow> db \<Rightarrow> (db \<times> operation) result" where
  "finish_operation operation_id status err phase cleanup now db =
     rbind (uuid ''operation_id'' operation_id) (\<lambda>_.
     rbind (optional_check (operation_token ''phase'') phase) (\<lambda>_.
     rbind (optional_check cleanup_state cleanup) (\<lambda>_.
     then_read
       (transaction (update_unfinished operation_id (finish_row status err phase cleanup now)) db)
       (read_operation operation_id))))"

definition mark_recovery_required ::
  "string \<Rightarrow> raised \<Rightarrow> string option \<Rightarrow> string \<Rightarrow> db \<Rightarrow> (db \<times> operation) result" where
  "mark_recovery_required operation_id err phase now =
     finish_operation operation_id ''recovery_required'' (Some err) phase None now"

definition record_finishing_failure :: "string \<Rightarrow> raised \<Rightarrow> string \<Rightarrow> db \<Rightarrow> (db \<times> operation) result" where
  "record_finishing_failure operation_id err now db =
     (case get_operation operation_id db of
        None \<Rightarrow> Inl (DatabaseError ''accepted finishing intent is missing'')
      | Some r \<Rightarrow>
          if \<not> op_finishing r then Inl (DatabaseError ''accepted finishing intent is missing'')
          else finish_operation operation_id ''running'' (Some err) None None now db)"

definition mark_succeeded :: "string \<Rightarrow> string \<Rightarrow> string \<Rightarrow> db \<Rightarrow> (db \<times> operation) result" where
  "mark_succeeded operation_id cleanup now =
     finish_operation operation_id ''succeeded'' None None (Some cleanup) now"

definition mark_failed :: "string \<Rightarrow> raised \<Rightarrow> string \<Rightarrow> string \<Rightarrow> db \<Rightarrow> (db \<times> operation) result" where
  "mark_failed operation_id err cleanup now db =
     (if cleanup \<notin> {''confirmed'', ''not_required''}
      then Inl (ValidationError ''failed operations require confirmed or not_required cleanup'')
      else finish_operation operation_id ''failed'' (Some err) None (Some cleanup) now db)"

lemma in_transaction_same [simp]: "\<not> in_transaction db \<Longrightarrow> db\<lparr>in_transaction := False\<rparr> = db"
  by (cases db) simp

lemma then_read_Inr:
  "then_read m k = Inr r \<longleftrightarrow>
   (\<exists>db x. m = Inr (db, Some x) \<and> r = (db, x)) \<or> (\<exists>db. m = Inr (db, None) \<and> k db = Inr r)"
  by (cases r) (auto simp: then_read_def rbind_eq_Inr split: prod.splits option.splits)

lemma read_back_Inr: "read_back get db = Inr (db', x) \<longleftrightarrow> db' = db \<and> get db = Inr (Some x)"
  by (auto simp: read_back_def rbind_eq_Inr split: option.splits)

lemma read_operation_Inr: "read_operation i db = Inr (db', x) \<longleftrightarrow> db' = db \<and> get_operation i db = Some x"
  by (auto simp: read_operation_def read_back_Inr)

lemma update_unfinished_Inr:
  "update_unfinished i f d = Inr (d', x) \<longleftrightarrow>
   x = None \<and> d' = d\<lparr>operations := update_where (\<lambda>r. op_operation_id r = i \<and> op_unfinished r) f (operations d)\<rparr> \<and>
   schema_ok d' \<and> rowcount (\<lambda>r. op_operation_id r = i \<and> op_unfinished r) (operations d) = 1"
  by (auto simp: update_unfinished_def Let_def rbind_eq_Inr execute_Inr)

lemma schema_okD:
  assumes "schema_ok db"
  shows "requests_ok (idempotency_requests db)" "dispatches_ok (operation_dispatches db) (idempotency_requests db)"
    "operations_ok (operations db)" "applications_ok (applications db)"
    "attempts_ok (deployment_attempts db) (applications db) (idempotency_requests db)"
    "actives_ok (active_deployments db) (applications db) (deployment_attempts db)"
    "resources_ok (managed_resources db) (applications db)"
    "environment_ok (environment_revisions db) (environment_keys db) (applications db)"
    "primary_key ts_slug (slug_tombstones db)"
  using assms by (auto simp: schema_ok_def)

lemma schema_ok_operations: "schema_ok db \<Longrightarrow> operations_ok ops \<Longrightarrow> schema_ok (db\<lparr>operations := ops\<rparr>)"
  by (simp add: schema_ok_def)

lemma schema_ok_operations_tx:
  "schema_ok (db\<lparr>in_transaction := b, operations := x\<rparr>) = schema_ok (db\<lparr>operations := x\<rparr>)"
  by (simp add: schema_ok_def)

lemma transaction_update_unfinished:
  assumes "\<not> in_transaction db"
  shows "transaction (update_unfinished i f) db =
    (let P = (\<lambda>r. op_operation_id r = i \<and> op_unfinished r); db1 = db\<lparr>operations := update_where P f (operations db)\<rparr>
     in if \<not> schema_ok db1 then Inl IntegrityError
        else if rowcount P (operations db) \<noteq> 1 then Inl (DatabaseError ''operation is missing or already terminal'')
        else Inr (db1, None))"
proof -
  have "db\<lparr>in_transaction := True, operations := x, in_transaction := False\<rparr> = db\<lparr>operations := x\<rparr>" for x
    using assms by (cases db) simp
  then show ?thesis
    using assms by (simp add: transaction_def update_unfinished_def execute_def Let_def schema_ok_operations_tx)
qed

lemma one_unfinished_row:
  assumes "schema_ok db"
  shows "rowcount (\<lambda>r. op_operation_id r = i \<and> op_unfinished r) (operations db) = 1 \<longleftrightarrow>
    (\<exists>r0. get_operation i db = Some r0 \<and> op_unfinished r0)"
proof -
  have "rowcount (\<lambda>r. op_operation_id r = i \<and> op_unfinished r) (operations db) = 1 \<longleftrightarrow>
      (\<exists>r \<in> set (operations db). op_operation_id r = i \<and> op_unfinished r)"
    using opl.rowcount_key [OF schema_okD(3) [OF assms(1)], of i op_unfinished] by simp
  also have "\<dots> \<longleftrightarrow> (\<exists>r0. get_operation i db = Some r0 \<and> op_unfinished r0)"
  proof
    assume "\<exists>r \<in> set (operations db). op_operation_id r = i \<and> op_unfinished r"
    then obtain r where "r \<in> set (operations db)" "op_operation_id r = i" "op_unfinished r" by blast
    then show "\<exists>r0. get_operation i db = Some r0 \<and> op_unfinished r0"
      using opl.lookup_key [OF schema_okD(3) [OF assms(1)], of r] unfolding get_operation_def by blast
  next
    assume "\<exists>r0. get_operation i db = Some r0 \<and> op_unfinished r0"
    then show "\<exists>r \<in> set (operations db). op_operation_id r = i \<and> op_unfinished r"
      unfolding get_operation_def using find_where_SomeD by fast
  qed
  finally show ?thesis .
qed

lemma get_operation_update:
  assumes "\<And>r. op_operation_id (f r) = op_operation_id r"
  shows "get_operation i (db\<lparr>operations := update_where P f (operations db)\<rparr>) =
    map_option (\<lambda>r. if P r then f r else r) (get_operation i db)"
  unfolding get_operation_def by (simp add: find_update_where assms)

lemma get_operation_id: "get_operation i db = Some r \<Longrightarrow> op_operation_id r = i \<and> r \<in> set (operations db)"
  unfolding get_operation_def by (auto dest: find_where_SomeD)

lemma in_transaction_then_read: "in_transaction db \<Longrightarrow> then_read (transaction body db) k \<noteq> Inr r"
  by (simp add: then_read_def transaction_def)

text \<open>An update of one unfinished operation, with its read: when it succeeds and what it does.\<close>

lemma update_unfinished_tx:
  assumes "schema_ok db" and keep: "\<And>r. op_operation_id (f r) = op_operation_id r"
  shows "then_read (transaction (update_unfinished i f) db) (read_operation i) = Inr (db', r) \<longleftrightarrow>
    \<not> in_transaction db \<and> schema_ok db' \<and>
    db' = db\<lparr>operations := update_where (\<lambda>r. op_operation_id r = i \<and> op_unfinished r) f (operations db)\<rparr> \<and>
    (\<exists>r0. get_operation i db = Some r0 \<and> op_unfinished r0 \<and> r = f r0)"
    (is "?L \<longleftrightarrow> ?R")
proof (cases "in_transaction db")
  case True
  then show ?thesis using in_transaction_then_read by blast
next
  case False
  let ?db = "db\<lparr>operations := update_where (\<lambda>r. op_operation_id r = i \<and> op_unfinished r) f (operations db)\<rparr>"
  have "?L \<longleftrightarrow> schema_ok ?db \<and> rowcount (\<lambda>r. op_operation_id r = i \<and> op_unfinished r) (operations db) = 1 \<and>
      db' = ?db \<and> get_operation i ?db = Some r"
    unfolding transaction_update_unfinished [OF False] Let_def
    by (simp add: then_read_def read_operation_Inr)
  also have "\<dots> \<longleftrightarrow> ?R"
    unfolding one_unfinished_row [OF assms(1)] get_operation_update [of f, OF keep]
    using False by (auto dest: get_operation_id)
  finally show ?thesis .
qed

section \<open>Beginning and finishing operations\<close>

lemma put_optional_simps [simp]:
  "put_optional None f r = r" "put_optional (Some v) f r = f v r"
  by (simp_all add: put_optional_def)

lemma finish_row_simps [simp]:
  "op_operation_id (finish_row s e p c now r) = op_operation_id r"
  "op_kind (finish_row s e p c now r) = op_kind r"
  "op_scope (finish_row s e p c now r) = op_scope r"
  "op_status (finish_row s e p c now r) = s"
  "op_refs (finish_row s e p c now r) = op_refs r"
  "op_finishing (finish_row s e p c now r) = op_finishing r"
  "op_candidate_digest (finish_row s e p c now r) = op_candidate_digest r"
  "op_started_at (finish_row s e p c now r) = op_started_at r"
  "op_safe_error (finish_row s e p c now r) = summary_of e"
  "op_updated_at (finish_row s e p c now r) = now"
  by (cases p; cases c; simp add: finish_row_def)+

lemma renew_row_simps [simp]:
  "op_operation_id (renew_row d now r) = op_operation_id r" "op_kind (renew_row d now r) = op_kind r"
  "op_scope (renew_row d now r) = op_scope r" "op_status (renew_row d now r) = ''running''"
  "op_refs (renew_row d now r) = op_refs r" "op_finishing (renew_row d now r) = op_finishing r"
  "op_started_at (renew_row d now r) = op_started_at r" "op_safe_error (renew_row d now r) = None"
  by (simp_all add: renew_row_def)

lemma apply_checkpoint_simps [simp]:
  "op_operation_id (apply_checkpoint cp enc now r) = op_operation_id r"
  "op_kind (apply_checkpoint cp enc now r) = op_kind r"
  "op_scope (apply_checkpoint cp enc now r) = op_scope r"
  "op_status (apply_checkpoint cp enc now r) = op_status r"
  "op_refs (apply_checkpoint cp enc now r) = (case enc of None \<Rightarrow> op_refs r | Some x \<Rightarrow> x)"
  "op_finishing (apply_checkpoint cp enc now r) = op_finishing r"
  "op_started_at (apply_checkpoint cp enc now r) = op_started_at r"
  "op_safe_error (apply_checkpoint cp enc now r) = op_safe_error r"
  by (cases "cp_cleanup_state cp"; cases "cp_candidate_digest cp"; cases enc; simp add: apply_checkpoint_def)+

lemma optional_check_Inr: "optional_check f x = Inr y \<longleftrightarrow> (case x of None \<Rightarrow> y = None | Some v \<Rightarrow> (\<exists>w. f v = Inr w \<and> y = Some w))"
  by (cases x) (auto simp: optional_check_def rbind_eq_Inr)

lemma summary_of_ok: "opt_all (\<lambda>e. length e \<le> 1024) (summary_of err)"
  using safe_summary_line by (cases err) (auto simp: opt_all_def summary_of_def)

lemma update_unfinished_schema:
  assumes "schema_ok db"
    and "\<And>r. r \<in> set (operations db) \<Longrightarrow> op_operation_id r = i \<Longrightarrow> op_unfinished r \<Longrightarrow>
      operation_row_ok (f r) \<and> op_operation_id (f r) = op_operation_id r \<and> op_scope (f r) = op_scope r \<and>
      op_finishing (f r) = op_finishing r"
  shows "schema_ok (db\<lparr>operations := update_where (\<lambda>r. op_operation_id r = i \<and> op_unfinished r) f (operations db)\<rparr>)"
  using assms by (intro schema_ok_operations opl.table_update) (auto simp: schema_okD(3))

lemma operation_row: "schema_ok db \<Longrightarrow> r \<in> set (operations db) \<Longrightarrow> operation_row_ok r"
  using schema_okD(3) opl.table_row_ok by blast

lemma finish_operation_Inr:
  assumes "schema_ok db"
  shows "finish_operation i s e p c now db = Inr (db', r) \<longleftrightarrow>
    uuid_re i \<and> (\<exists>x. optional_check (operation_token ''phase'') p = Inr x) \<and>
    (\<exists>x. optional_check cleanup_state c = Inr x) \<and> \<not> in_transaction db \<and> schema_ok db' \<and>
    db' = db\<lparr>operations := update_where (\<lambda>r. op_operation_id r = i \<and> op_unfinished r) (finish_row s e p c now) (operations db)\<rparr> \<and>
    (\<exists>r0. get_operation i db = Some r0 \<and> op_unfinished r0 \<and> r = finish_row s e p c now r0)"
  unfolding finish_operation_def rbind_eq_Inr uuid_Inr
  using update_unfinished_tx [OF assms, of "finish_row s e p c now" i db' r] by simp

text \<open>
  C20: settling an unfinished operation cannot fail: for a valid identifier and valid phase and cleanup
  texts, an operation that is running or needs recovery always reaches the given status, with its
  error summary, and no constraint of the schema stands in the way.
\<close>

theorem finish_operation_settles:
  assumes "schema_ok db" "\<not> in_transaction db" "uuid_re i" "get_operation i db = Some r0" "op_unfinished r0"
    and "s \<in> {''running'', ''succeeded'', ''failed'', ''recovery_required''}"
    and "optional_check (operation_token ''phase'') p = Inr p'" "optional_check cleanup_state c = Inr c'"
  shows "\<exists>db' r. finish_operation i s e p c now db = Inr (db', r) \<and> get_operation i db' = Some r \<and>
    op_status r = s \<and> op_safe_error r = map_option safe_summary e \<and> schema_ok db'"
proof -
  let ?db = "db\<lparr>operations := update_where (\<lambda>r. op_operation_id r = i \<and> op_unfinished r) (finish_row s e p c now) (operations db)\<rparr>"
  have "schema_ok ?db"
    using assms(6) operation_row [OF assms(1)]
    by (intro update_unfinished_schema assms(1)) (auto simp: operation_row_ok_def summary_of_ok)
  then have "finish_operation i s e p c now db = Inr (?db, finish_row s e p c now r0)"
    unfolding finish_operation_Inr [OF assms(1)] using assms by blast
  moreover have "get_operation i ?db = Some (finish_row s e p c now r0)"
    using assms(4,5) get_operation_id [OF assms(4)] by (simp add: get_operation_update)
  ultimately show ?thesis using \<open>schema_ok ?db\<close> by (auto simp: summary_of_def)
qed

definition token_ok :: "string \<Rightarrow> bool" where
  "token_ok v \<longleftrightarrow>
     matches_head_rest (\<lambda>c. is_lower c \<or> is_digit c) (\<lambda>c. is_lower c \<or> is_digit c \<or> c \<in> set ''._-'') 127 v"

lemma operation_token_iff: "operation_token f v = Inr w \<longleftrightarrow> w = v \<and> token_ok v"
  by (auto simp: operation_token_def token_ok_def)

lemma deadline_ok_iff: "deadline_ok d = Inr u \<longleftrightarrow> length d \<le> 64"
  by (auto simp: deadline_ok_def)

text \<open>Reads do not depend on the transaction flag.\<close>

lemma reads_in_transaction [simp]:
  "get_operation i (db\<lparr>in_transaction := b\<rparr>) = get_operation i db"
  "get_unfinished_operation s (db\<lparr>in_transaction := b\<rparr>) = get_unfinished_operation s db"
  "get_finishing_operation s (db\<lparr>in_transaction := b\<rparr>) = get_finishing_operation s db"
  "get_idempotency_request i (db\<lparr>in_transaction := b\<rparr>) = get_idempotency_request i db"
  "get_operation_dispatch i (db\<lparr>in_transaction := b\<rparr>) = get_operation_dispatch i db"
  "active_dispatch s (db\<lparr>in_transaction := b\<rparr>) = active_dispatch s db"
  "get_application s (db\<lparr>in_transaction := b\<rparr>) = get_application s db"
  by (simp_all add: get_operation_def get_unfinished_operation_def get_finishing_operation_def
      get_idempotency_request_def get_operation_dispatch_def active_dispatch_def get_application_def tombstoned_def)

lemma check_finishing_in_transaction [simp]:
  "check_finishing_admission s k (db\<lparr>in_transaction := b\<rparr>) = check_finishing_admission s k db"
  unfolding check_finishing_admission_def reads_in_transaction by (rule refl)

lemma reservations_in_transaction [simp]:
  "unfinished_intents ks (db\<lparr>in_transaction := b\<rparr>) = unfinished_intents ks db"
  "total_bytes (db\<lparr>in_transaction := b\<rparr>) = total_bytes db"
  "memory_budget (db\<lparr>in_transaction := b\<rparr>) = memory_budget db"
  "resource_row r (db\<lparr>in_transaction := b\<rparr>) = resource_row r db"
  by (simp_all add: unfinished_intents_def total_bytes_def memory_budget_def resource_row_def split: option.split)

lemma disk_reservations_in_transaction [simp]:
  "disk_reservations (db\<lparr>in_transaction := b\<rparr>) = disk_reservations db"
  "database_reservations (db\<lparr>in_transaction := b\<rparr>) = database_reservations db"
  by (simp_all add: disk_reservations_def column_reservations_def database_reservations_def)

lemma check_parts_in_transaction:
  "check_disk r q (db\<lparr>in_transaction := b\<rparr>) = check_disk r q db"
  "check_objects r q (db\<lparr>in_transaction := b\<rparr>) = check_objects r q db"
  "check_memory r q (db\<lparr>in_transaction := b\<rparr>) = check_memory r q db"
  unfolding check_disk_def check_objects_def check_memory_def disk_reservations_in_transaction
    reservations_in_transaction by simp_all

lemma check_in_transaction [simp]: "check r q (db\<lparr>in_transaction := b\<rparr>) = check r q db"
  unfolding check_def check_parts_in_transaction by (rule refl)

lemma check_requested_quotas_in_transaction [simp]:
  "check_requested_quotas k refs (db\<lparr>in_transaction := b\<rparr>) = check_requested_quotas k refs db"
  unfolding check_requested_quotas_def check_in_transaction by (rule refl)

lemma admit_dispatch_in_transaction [simp]:
  "admit_dispatch i k s (db\<lparr>in_transaction := b\<rparr>) = admit_dispatch i k s db"
  unfolding admit_dispatch_def reads_in_transaction check_finishing_in_transaction by (rule refl)

lemma begin_row_simps [simp]:
  "op_operation_id (begin_row i k s p dl st now) = i" "op_kind (begin_row i k s p dl st now) = k"
  "op_scope (begin_row i k s p dl st now) = s" "op_status (begin_row i k s p dl st now) = ''running''"
  "op_refs (begin_row i k s p dl st now) = st" "op_finishing (begin_row i k s p dl st now) = False"
  "op_safe_error (begin_row i k s p dl st now) = None" "op_phase (begin_row i k s p dl st now) = p"
  "op_unfinished (begin_row i k s p dl st now)"
  by (simp_all add: begin_row_def op_unfinished_def unfinished_statuses_def)

lemma get_operation_None: "get_operation i db = None \<longleftrightarrow> i \<notin> op_operation_id ` set (operations db)"
  by (auto simp: get_operation_def find_where_None list_ex_iff)

lemma get_unfinished_None:
  "get_unfinished_operation s db = None \<longleftrightarrow>
   (\<forall>r \<in> set (operations db). op_unfinished r \<and> \<not> op_finishing r \<longrightarrow> op_scope r \<noteq> s)"
  by (auto simp: get_unfinished_operation_def find_where_None list_ex_iff)

lemma operations_ok_append:
  "operations_ok (rows @ [r]) \<longleftrightarrow> operations_ok rows \<and> operation_row_ok r \<and>
   op_operation_id r \<notin> op_operation_id ` set rows \<and>
   (op_unfinished r \<longrightarrow> (\<forall>x \<in> set rows. op_unfinished x \<and> op_finishing x = op_finishing r \<longrightarrow> op_scope x \<noteq> op_scope r))"
  by (auto simp: operations_ok_def unique_on_append image_iff)

lemma transaction_insert_operation:
  assumes "\<not> in_transaction db"
  shows "rbind (execute (db\<lparr>in_transaction := True, operations := x\<rparr>)) (\<lambda>d. Inr (d\<lparr>in_transaction := False\<rparr>, y)) =
    (if schema_ok (db\<lparr>operations := x\<rparr>) then Inr (db\<lparr>operations := x\<rparr>, y) else Inl IntegrityError)"
proof -
  have "db\<lparr>in_transaction := True, operations := x, in_transaction := False\<rparr> = db\<lparr>operations := x\<rparr>"
    using assms by (cases db) simp
  then show ?thesis by (simp add: execute_def schema_ok_operations_tx)
qed

definition begin_body :: "string \<Rightarrow> string \<Rightarrow> string \<Rightarrow> string \<Rightarrow> string \<Rightarrow> jdict \<Rightarrow> string \<Rightarrow> db \<Rightarrow> (db \<times> operation option) result" where
  "begin_body i k s p dl refs now d =
     rbind (check_finishing_admission s k d) (\<lambda>_.
     case get_unfinished_operation s d of
       Some e \<Rightarrow> Inl (UnfinishedOperationError s (op_operation_id e) (op_kind e))
     | None \<Rightarrow>
         rbind (check_requested_quotas k refs d) (\<lambda>_.
         rbind (refs_json refs) (\<lambda>stored.
         let d1 = d\<lparr>operations := operations d @ [begin_row i k s p dl stored now]\<rparr> in
         if schema_ok d1 then Inr (d1, None) else Inl IntegrityError)))"

lemma begin_operation_eq:
  assumes "\<not> in_transaction db" "uuid_re i" "token_ok k" "token_ok s" "token_ok p" "length dl \<le> 64"
  shows "begin_operation i k s p dl refs now db =
    then_read (begin_body i k s p dl refs now db) (read_operation i)"
proof -
  have valid: "uuid ''operation_id'' i = Inr i" "operation_token ''kind'' k = Inr k" "operation_token ''scope'' s = Inr s"
    "operation_token ''phase'' p = Inr p" "deadline_ok dl = Inr ()"
    using assms by (simp_all add: uuid_Inr operation_token_iff deadline_ok_iff)
  show ?thesis
    unfolding begin_operation_def valid rbind_simps transaction_def read_operation_def begin_body_def Let_def
    using assms(1)
    by (cases "check_finishing_admission s k db"; cases "get_unfinished_operation s db";
        cases "check_requested_quotas k refs db"; cases "refs_json refs")
       (simp_all add: rbind_assoc transaction_insert_operation)
qed

lemma begin_operation_valid:
  assumes "begin_operation i k s p dl refs now db = Inr x"
  shows "\<not> in_transaction db \<and> uuid_re i \<and> token_ok k \<and> token_ok s \<and> token_ok p \<and> length dl \<le> 64"
proof -
  have "uuid_re i \<and> token_ok k \<and> token_ok s \<and> token_ok p \<and> length dl \<le> 64"
    using assms unfolding begin_operation_def rbind_eq_Inr uuid_Inr operation_token_iff deadline_ok_iff
    by blast
  moreover have "\<not> in_transaction db"
    using assms in_transaction_then_read unfolding begin_operation_def rbind_eq_Inr by blast
  ultimately show ?thesis by blast
qed

lemma refs_json_Inr:
  "refs_json refs = Inr st \<longleftrightarrow> walk_refs (JObj refs) = Inr () \<and> st = sorted_refs refs \<and> refs_length st \<le> MAX_REFS_BYTES"
  by (auto simp: refs_json_def rbind_eq_Inr)

lemma begin_schema_ok:
  assumes "schema_ok db" "refs_json refs = Inr st"
  shows "schema_ok (db\<lparr>operations := operations db @ [begin_row i k s p dl st now]\<rparr>) \<longleftrightarrow>
    get_operation i db = None \<and> get_unfinished_operation s db = None"
proof -
  have "operation_row_ok (begin_row i k s p dl st now)"
    using assms(2) by (auto simp: operation_row_ok_def refs_json_Inr MAX_REFS_BYTES_def opt_all_def)
  then have "operations_ok (operations db @ [begin_row i k s p dl st now]) \<longleftrightarrow>
      get_operation i db = None \<and> get_unfinished_operation s db = None"
    unfolding operations_ok_append get_operation_None get_unfinished_None
    using schema_okD(3) [OF assms(1)] by auto
  then show ?thesis
    using assms(1) by (simp add: schema_ok_def)
qed

lemma begin_operation_Inr:
  assumes "schema_ok db"
  shows "begin_operation i k s p dl refs now db = Inr (db', r) \<longleftrightarrow>
    \<not> in_transaction db \<and> uuid_re i \<and> token_ok k \<and> token_ok s \<and> token_ok p \<and> length dl \<le> 64 \<and>
    check_finishing_admission s k db = Inr () \<and> get_unfinished_operation s db = None \<and>
    check_requested_quotas k refs db = Inr () \<and> get_operation i db = None \<and>
    (\<exists>st. refs_json refs = Inr st \<and> r = begin_row i k s p dl st now \<and>
       db' = db\<lparr>operations := operations db @ [r]\<rparr> \<and> schema_ok db')"
    (is "?L \<longleftrightarrow> ?R")
proof (cases "\<not> in_transaction db \<and> uuid_re i \<and> token_ok k \<and> token_ok s \<and> token_ok p \<and> length dl \<le> 64")
  case True
  note eq = begin_operation_eq [of db i k s p dl refs now]
  have get: "get_operation i (db\<lparr>operations := operations db @ [begin_row i k s p dl st now]\<rparr>) =
      (case get_operation i db of None \<Rightarrow> Some (begin_row i k s p dl st now) | Some x \<Rightarrow> Some x)" for st
    by (simp add: get_operation_def find_where_append split: option.split)
  show ?thesis
    using True eq begin_schema_ok [OF assms, of refs _ i k s p dl now]
    by (cases "check_finishing_admission s k db"; cases "get_unfinished_operation s db";
        cases "check_requested_quotas k refs db"; cases "refs_json refs"; cases "get_operation i db")
       (auto simp: begin_body_def then_read_def read_operation_Inr get Let_def)
next
  case False
  then show ?thesis using begin_operation_valid by blast
qed

text \<open>
  C1: an operation that begins has its scope's foreground lane to itself: the lane was free, the new
  row is the only foreground operation of the scope that is unfinished, every other row of every table
  is as it was, and all constraints of the schema hold.
\<close>

theorem begin_operation_exclusive:
  assumes "schema_ok db" "begin_operation i k s p dl refs now db = Inr (db', r)"
  shows "db' = db\<lparr>operations := operations db @ [r]\<rparr> \<and> schema_ok db' \<and>
    op_operation_id r = i \<and> op_scope r = s \<and> op_status r = ''running'' \<and> op_finishing r = False \<and>
    (\<forall>x \<in> set (operations db'). op_scope x = s \<and> op_unfinished x \<and> \<not> op_finishing x \<longrightarrow> x = r)"
proof -
  obtain st where r: "r = begin_row i k s p dl st now" "db' = db\<lparr>operations := operations db @ [r]\<rparr>" "schema_ok db'"
    using assms(2) unfolding begin_operation_Inr [OF assms(1)] by blast
  have "x = r" if "x \<in> set (operations db')" "op_scope x = s \<and> op_unfinished x \<and> \<not> op_finishing x" for x
    using opl.by_lane_unique [OF schema_okD(3) [OF r(3)] that(1), of r] that(2) r by simp
  then show ?thesis using r by simp
qed

text \<open>
  The checks of \<open>begin_operation\<close> are complete: with a new identifier and valid references it ends in
  one of three ways, a finishing conflict, the unfinished operation of the scope, or success; the
  unique indexes of the table are never what refuses it.
\<close>

theorem begin_operation_decides:
  assumes "schema_ok db" "\<not> in_transaction db" "uuid_re i" "token_ok k" "token_ok s" "token_ok p" "length dl \<le> 64"
    and "get_operation i db = None" "refs_json refs = Inr st" "k \<notin> set limit_kinds"
  shows "begin_operation i k s p dl refs now db =
    (case check_finishing_admission s k db of
       Inl e \<Rightarrow> Inl e
     | Inr _ \<Rightarrow> (case get_unfinished_operation s db of
           Some u \<Rightarrow> Inl (UnfinishedOperationError s (op_operation_id u) (op_kind u))
         | None \<Rightarrow> Inr (db\<lparr>operations := operations db @ [begin_row i k s p dl st now]\<rparr>, begin_row i k s p dl st now)))"
proof -
  have q: "check_requested_quotas k refs db = Inr ()"
    using assms(10) by (simp add: check_requested_quotas_def requested_quotas_def)
  have get: "get_operation i (db\<lparr>operations := operations db @ [begin_row i k s p dl st now]\<rparr>) = Some (begin_row i k s p dl st now)"
    using assms(8) by (simp add: get_operation_def find_where_append)
  show ?thesis
    unfolding begin_operation_eq [OF assms(2-7)] begin_body_def
    using begin_schema_ok [OF assms(1,9), of i k s p dl now] assms(8,9) q get
    by (auto simp: then_read_def read_operation_def read_back_def Let_def split: sum.splits option.splits)
qed

section \<open>An example\<close>

abbreviation example_id :: string where
  "example_id \<equiv> ''00000000-0000-4000-8000-000000000001''"

abbreviation example_time :: string where
  "example_time \<equiv> ''2026-01-02T03:04:05Z''"

abbreviation example_operation :: operation where
  "example_operation \<equiv> begin_row example_id ''app.deploy'' ''app-demo'' ''building'' example_time [] example_time"

definition example_db :: db where
  "example_db = empty_db\<lparr>operations := [example_operation]\<rparr>"

lemma example_begins:
  "begin_operation example_id ''app.deploy'' ''app-demo'' ''building'' example_time [] example_time empty_db =
   Inr (example_db, example_operation)"
  by code_simp

lemma example_schema: "schema_ok empty_db" "schema_ok example_db"
  by code_simp+

theorem begin_operation_exclusive_witness:
  "schema_ok example_db \<and> op_status example_operation = ''running''"
  using begin_operation_exclusive [OF example_schema(1) example_begins] by simp

lemma example_valid: "uuid_re example_id" "token_ok ''app.deploy''" "token_ok ''app-demo''" "token_ok ''building''"
  "length example_time \<le> 64" "refs_json [] = Inr []" "''app.deploy'' \<notin> set limit_kinds"
  "\<not> in_transaction empty_db" "\<not> in_transaction example_db" "get_operation example_id empty_db = None"
  "get_operation example_id example_db = Some example_operation" "op_unfinished example_operation"
  by code_simp+

theorem begin_operation_decides_witness:
  "begin_operation example_id ''app.deploy'' ''app-demo'' ''building'' example_time [] example_time empty_db =
   Inr (empty_db\<lparr>operations := [example_operation]\<rparr>, example_operation)"
proof -
  have "check_finishing_admission ''app-demo'' ''app.deploy'' empty_db = Inr ()"
    "get_unfinished_operation ''app-demo'' empty_db = None" "operations empty_db = []"
    by code_simp+
  then show ?thesis
    using begin_operation_decides [OF example_schema(1) example_valid(8,1,2,3,4,5,10,6,7), of example_time] by simp
qed

theorem finish_operation_settles_witness:
  "\<exists>db' r. finish_operation example_id ''failed'' (Some (Raised ''RuntimeError'')) None (Some ''confirmed'') example_time example_db =
     Inr (db', r) \<and> op_status r = ''failed''"
proof -
  have "optional_check (operation_token ''phase'') None = Inr None"
    "optional_check cleanup_state (Some ''confirmed'') = Inr (Some ''confirmed'')"
    by code_simp+
  then show ?thesis
    using finish_operation_settles [OF example_schema(2) example_valid(9,1,11,12), of "''failed''" None None
        "Some ''confirmed''" "Some ''confirmed''" "Some (Raised ''RuntimeError'')" example_time] by auto
qed

section \<open>Idempotent requests and dispatches\<close>

lemma leave_transaction [simp]:
  "\<not> in_transaction db \<Longrightarrow> db\<lparr>in_transaction := True, in_transaction := False\<rparr> = db"
  by (cases db) simp

lemma get_request_Inr:
  "get_idempotency_request i db = Inr x \<longleftrightarrow> uuid_re i \<and> x = find_where (\<lambda>r. rq_request_id r = i) (idempotency_requests db)"
  by (auto simp: get_idempotency_request_def rbind_eq_Inr uuid_Inr)

lemma get_dispatch_Inr:
  "get_operation_dispatch i db = Inr x \<longleftrightarrow> uuid_re i \<and> x = find_where (\<lambda>r. dp_operation_id r = i) (operation_dispatches db)"
  by (auto simp: get_operation_dispatch_def rbind_eq_Inr uuid_Inr)

lemma claim_Inr:
  assumes "claim_idempotency_request i fp now db = Inr (db', r)"
  shows "uuid_re i \<and> sha256_hex_re fp \<and> \<not> in_transaction db \<and> \<not> in_transaction db' \<and>
    get_idempotency_request i db' = Inr (Some r) \<and> rq_request_fingerprint r = fp \<and>
    (db' = db \<or> get_idempotency_request i db = Inr None \<and> schema_ok db' \<and>
       db' = db\<lparr>idempotency_requests := idempotency_requests db @ [request_row i fp now]\<rparr> \<and> r = request_row i fp now)"
proof -
  have valid: "uuid_re i" "sha256_hex_re fp"
    and m: "then_read (transaction (\<lambda>d.
          rbind (get_idempotency_request i d) (\<lambda>existing.
          case existing of
            Some r \<Rightarrow>
              if rq_request_fingerprint r \<noteq> fp
              then Inl (IdempotencyConflictError ''idempotency request was already used for different input'')
              else Inr (d, Some r)
          | None \<Rightarrow>
              rbind (execute (d\<lparr>idempotency_requests := idempotency_requests d @
                       [request_row i fp now]\<rparr>)) (\<lambda>d'.
              Inr (d', None)))) db)
       (read_back (get_idempotency_request i)) = Inr (db', r)"
    using assms unfolding claim_idempotency_request_def rbind_eq_Inr uuid_Inr sha256_hex_Inr by auto
  have tx: "\<not> in_transaction db"
    using m in_transaction_then_read by blast
  have get: "get_idempotency_request i db = Inr (find_where (\<lambda>r. rq_request_id r = i) (idempotency_requests db))"
    using valid by (simp add: get_request_Inr)
  show ?thesis
  proof (cases "find_where (\<lambda>r. rq_request_id r = i) (idempotency_requests db)")
    case None
    let ?new = "db\<lparr>idempotency_requests := idempotency_requests db @ [request_row i fp now]\<rparr>"
    have "schema_ok ?new \<and> db' = ?new \<and> get_idempotency_request i ?new = Inr (Some r)"
      using m tx None
      unfolding then_read_Inr transaction_Inr reads_in_transaction get rbind_simps
      by (auto simp: rbind_eq_Inr execute_Inr read_back_Inr schema_ok_def)
    moreover from this have "r = request_row i fp now"
      using None by (auto simp: get_request_Inr find_where_append request_row_def)
    ultimately show ?thesis
      using valid tx get None by (auto simp: request_row_def)
  next
    case (Some x)
    then have "rq_request_fingerprint x = fp \<and> db' = db \<and> r = x"
      using m tx unfolding then_read_Inr transaction_Inr reads_in_transaction get rbind_simps
      by (auto split: if_splits)
    then show ?thesis using valid tx get Some by auto
  qed
qed

lemma claim_existing:
  assumes "uuid_re i" "sha256_hex_re fp" "\<not> in_transaction db" "get_idempotency_request i db = Inr (Some r)"
  shows "claim_idempotency_request i fp now db =
    (if rq_request_fingerprint r = fp then Inr (db, r)
     else Inl (IdempotencyConflictError ''idempotency request was already used for different input''))"
proof -
  have "uuid ''request_id'' i = Inr i" "sha256_hex ''request fingerprint'' fp = Inr fp"
    using assms by (simp_all add: uuid_Inr sha256_hex_Inr)
  then show ?thesis
    using assms(3,4) by (simp add: claim_idempotency_request_def then_read_def transaction_def)
qed

text \<open>
  C3: a claimed request is replayed exactly: claiming it again with the same fingerprint, at any later
  time, returns the recorded row and changes nothing, and claiming it for different input is refused.
\<close>

theorem claim_replays:
  assumes "claim_idempotency_request i fp now db = Inr (db', r)"
  shows "claim_idempotency_request i fp later db' = Inr (db', r) \<and>
    (\<forall>fp'. sha256_hex_re fp' \<and> fp' \<noteq> fp \<longrightarrow>
       claim_idempotency_request i fp' later db' =
         Inl (IdempotencyConflictError ''idempotency request was already used for different input''))"
  using claim_Inr [OF assms] claim_existing [of i _ db' r later] by auto

definition example_fingerprint :: string where
  "example_fingerprint = replicate 64 (CHR ''a'')"

lemma example_claim:
  "claim_idempotency_request example_id example_fingerprint example_time empty_db =
   Inr (empty_db\<lparr>idempotency_requests := [request_row example_id example_fingerprint example_time]\<rparr>,
        request_row example_id example_fingerprint example_time)"
  by code_simp

theorem claim_replays_witness:
  "\<exists>db r. claim_idempotency_request example_id example_fingerprint ''later'' db = Inr (db, r)"
  using claim_replays [OF example_claim, of "''later''"] by blast

lemma dispatch_row_simps [simp]:
  "dp_operation_id (dispatch_row i k s now) = i" "dp_kind (dispatch_row i k s now) = k"
  "dp_scope (dispatch_row i k s now) = s" "dp_status (dispatch_row i k s now) = ''pending''"
  "dp_finishing (dispatch_row i k s now) = False" "dp_safe_error (dispatch_row i k s now) = None"
  by (simp_all add: dispatch_row_def)

definition result_row :: "string \<Rightarrow> string \<Rightarrow> string \<Rightarrow> idempotency_request \<Rightarrow> idempotency_request" where
  "result_row kind result_id now r =
     r\<lparr>rq_result_kind := Some kind, rq_result_id := Some result_id, rq_completed_at := Some now\<rparr>"

definition with_result :: "string \<Rightarrow> string \<Rightarrow> string \<Rightarrow> string \<Rightarrow> db \<Rightarrow> db" where
  "with_result i kind result_id now db = db\<lparr>idempotency_requests :=
     update_where (\<lambda>r. rq_request_id r = i) (result_row kind result_id now) (idempotency_requests db)\<rparr>"

lemma map_request_ids [simp]:
  "map rq_request_id (update_where P (result_row kind result_id now) rs) = map rq_request_id rs"
  by (simp add: map_update_where result_row_def)

lemma with_result_schema: "schema_ok db \<Longrightarrow> schema_ok (with_result i kind result_id now db)"
proof -
  assume ok: "schema_ok db"
  have "requests_ok (update_where (\<lambda>r. rq_request_id r = i) (result_row kind result_id now) (idempotency_requests db))"
    using schema_okD(1) [OF ok] unfolding requests_ok_def
    by (auto simp: list_all_iff result_row_def request_row_ok_def intro!: unique_on_update elim!: in_update_whereE)
  then show ?thesis
    using ok by (simp add: schema_ok_def with_result_def dispatches_ok_def attempts_ok_def del: set_map)
qed

lemma set_request_result_eq:
  "schema_ok db \<Longrightarrow> set_request_result i kind result_id now db = Inr (with_result i kind result_id now db)"
  using with_result_schema [of db i kind result_id now]
  by (simp add: set_request_result_def execute_def with_result_def result_row_def [abs_def])

lemma dispatches_ok_append:
  "dispatches_ok (ds @ [d]) rs \<longleftrightarrow> dispatches_ok ds rs \<and> dispatch_row_ok d \<and>
   dp_operation_id d \<notin> dp_operation_id ` set ds \<and> dp_operation_id d \<in> rq_request_id ` set rs \<and>
   (dp_active d \<longrightarrow> (\<forall>x \<in> set ds. dp_active x \<and> dp_finishing x = dp_finishing d \<longrightarrow> dp_scope x \<noteq> dp_scope d))"
  by (auto simp: dispatches_ok_def unique_on_append image_iff)

lemma admit_dispatch_Inr:
  "admit_dispatch i k s db = Inr u \<longleftrightarrow>
   uuid_re i \<and> (\<exists>r. find_where (\<lambda>r. rq_request_id r = i) (idempotency_requests db) = Some r \<and> rq_result_id r = None) \<and>
   active_dispatch s db = None \<and> check_finishing_admission s k db = Inr () \<and> get_unfinished_operation s db = None"
  unfolding admit_dispatch_def rbind_eq_Inr get_request_Inr
  by (auto simp: rbind_eq_Inr split: option.splits if_splits)

lemma enqueue_schema:
  assumes "schema_ok db" "get_operation_dispatch i db = Inr None" "admit_dispatch i k s db = Inr u"
  shows "schema_ok (db\<lparr>operation_dispatches := operation_dispatches db @ [dispatch_row i k s now]\<rparr>)"
proof -
  have "i \<in> rq_request_id ` set (idempotency_requests db)"
    using assms(3) unfolding admit_dispatch_Inr by (auto dest!: find_where_SomeD)
  moreover have "i \<notin> dp_operation_id ` set (operation_dispatches db)"
    using assms(2) find_where_None [of "\<lambda>r. dp_operation_id r = i" "operation_dispatches db"]
    unfolding get_dispatch_Inr by (auto simp: list_ex_iff)
  moreover have "dp_scope x \<noteq> s" if "x \<in> set (operation_dispatches db)" "dp_active x" "\<not> dp_finishing x" for x
    using assms(3) that unfolding admit_dispatch_Inr active_dispatch_def by (auto simp: find_where_None list_ex_iff)
  ultimately have "dispatches_ok (operation_dispatches db @ [dispatch_row i k s now]) (idempotency_requests db)"
    using schema_okD(2) [OF assms(1)] unfolding dispatches_ok_append
    by (auto simp: dispatch_row_ok_def opt_all_def)
  then show ?thesis using assms(1) by (simp add: schema_ok_def)
qed

definition enqueued :: "string \<Rightarrow> string \<Rightarrow> string \<Rightarrow> string \<Rightarrow> db \<Rightarrow> db" where
  "enqueued i k s now db = with_result i ''operation'' i now
     (db\<lparr>operation_dispatches := operation_dispatches db @ [dispatch_row i k s now]\<rparr>)"

lemma find_new_dispatch:
  "get_operation_dispatch i db = Inr None \<Longrightarrow> get_operation_dispatch i (enqueued i k s now db) = Inr (Some (dispatch_row i k s now))"
  by (auto simp: get_dispatch_Inr enqueued_def with_result_def find_where_append)

lemma enqueue_decides_aux:
  assumes "schema_ok db" "\<not> in_transaction db" "uuid_re i" "token_ok k" "token_ok s"
    and "get_operation_dispatch i db = Inr None"
  shows "enqueue_operation_dispatch i k s now db =
    (case admit_dispatch i k s db of
       Inl e \<Rightarrow> Inl e
     | Inr _ \<Rightarrow> Inr (enqueued i k s now db, dispatch_row i k s now, True)) \<and>
    (admit_dispatch i k s db = Inr () \<longrightarrow> schema_ok (enqueued i k s now db))"
proof -
  let ?d = "db\<lparr>in_transaction := True, operation_dispatches := operation_dispatches db @ [dispatch_row i k s now]\<rparr>"
  have valid: "uuid ''operation_id'' i = Inr i" "operation_token ''kind'' k = Inr k" "operation_token ''scope'' s = Inr s"
    using assms by (simp_all add: uuid_Inr operation_token_iff)
  have leave: "(with_result i ''operation'' i now ?d)\<lparr>in_transaction := False\<rparr> = enqueued i k s now db"
    using assms(2) unfolding enqueued_def with_result_def by (cases db) simp
  have ok: "schema_ok (db\<lparr>operation_dispatches := operation_dispatches db @ [dispatch_row i k s now]\<rparr>)"
    if "admit_dispatch i k s db = Inr ()"
    using enqueue_schema [OF assms(1,6) that] .
  then have ok': "schema_ok ?d" if "admit_dispatch i k s db = Inr ()"
    using that by (simp add: schema_ok_def)
  show ?thesis
  proof (cases "admit_dispatch i k s db")
    case (Inl e)
    then show ?thesis
      using assms(2,6) by (simp add: enqueue_operation_dispatch_def valid then_read_def transaction_def)
  next
    case (Inr u)
    then have adm: "admit_dispatch i k s db = Inr ()" by simp
    show ?thesis
      using assms(2,6) adm ok' [OF adm] leave set_request_result_eq [OF ok' [OF adm], of i "''operation''" i now]
        find_new_dispatch [OF assms(6), of k s now]
        with_result_schema [OF ok [OF adm], of i "''operation''" i now, folded enqueued_def]
      by (simp add: enqueue_operation_dispatch_def valid then_read_def transaction_def execute_def read_back_def)
  qed
qed

text \<open>
  The admission checks of \<open>enqueue_operation_dispatch\<close> are complete: a new identifier is refused only
  by \<open>admit_dispatch\<close> (missing or used request, busy scope, finishing conflict), never by a constraint of
  the schema; otherwise the dispatch is stored as pending and the request is completed with it in the
  same transaction.
\<close>

theorem enqueue_decides:
  assumes "schema_ok db" "\<not> in_transaction db" "uuid_re i" "token_ok k" "token_ok s"
    and "get_operation_dispatch i db = Inr None"
  shows "enqueue_operation_dispatch i k s now db =
    (case admit_dispatch i k s db of
       Inl e \<Rightarrow> Inl e
     | Inr _ \<Rightarrow> Inr (enqueued i k s now db, dispatch_row i k s now, True)) \<and>
    (admit_dispatch i k s db = Inr () \<longrightarrow> schema_ok (enqueued i k s now db))"
  by (rule enqueue_decides_aux [OF assms])

lemma enqueue_existing:
  assumes "\<not> in_transaction db" "uuid_re i" "token_ok k" "token_ok s" "get_operation_dispatch i db = Inr (Some d)"
  shows "enqueue_operation_dispatch i k s now db =
    (if (dp_kind d, dp_scope d) = (k, s) then Inr (db, d, False)
     else Inl (IdempotencyConflictError ''operation dispatch does not match request''))"
proof -
  have "uuid ''operation_id'' i = Inr i" "operation_token ''kind'' k = Inr k" "operation_token ''scope'' s = Inr s"
    using assms by (simp_all add: uuid_Inr operation_token_iff)
  then show ?thesis
    using assms(1,5) by (auto simp: enqueue_operation_dispatch_def then_read_def transaction_def)
qed

lemma enqueue_valid:
  assumes "enqueue_operation_dispatch i k s now db = Inr x"
  shows "\<not> in_transaction db \<and> uuid_re i \<and> token_ok k \<and> token_ok s"
proof -
  have "uuid_re i \<and> token_ok k \<and> token_ok s"
    using assms unfolding enqueue_operation_dispatch_def rbind_eq_Inr uuid_Inr operation_token_iff by blast
  moreover have "\<not> in_transaction db"
    using assms in_transaction_then_read unfolding enqueue_operation_dispatch_def rbind_eq_Inr by blast
  ultimately show ?thesis by blast
qed

lemma enqueue_Inr:
  assumes "schema_ok db" "enqueue_operation_dispatch i k s now db = Inr (db', d, created)"
  shows "get_operation_dispatch i db' = Inr (Some d) \<and> dp_kind d = k \<and> dp_scope d = s \<and> \<not> in_transaction db' \<and>
    (if created then admit_dispatch i k s db = Inr () \<and> db' = enqueued i k s now db \<and> d = dispatch_row i k s now \<and> schema_ok db'
     else db' = db)"
proof -
  have v: "\<not> in_transaction db" "uuid_re i" "token_ok k" "token_ok s"
    using enqueue_valid [OF assms(2)] by auto
  have get: "get_operation_dispatch i db = Inr (find_where (\<lambda>r. dp_operation_id r = i) (operation_dispatches db))"
    using v(2) by (simp add: get_dispatch_Inr)
  show ?thesis
  proof (cases "find_where (\<lambda>r. dp_operation_id r = i) (operation_dispatches db)")
    case None
    then have none: "get_operation_dispatch i db = Inr None" using get by simp
    have tx: "\<not> in_transaction (enqueued i k s now db)"
      using v(1) by (simp add: enqueued_def with_result_def)
    show ?thesis
      using assms(2) enqueue_decides_aux [OF assms(1) v none, of now] find_new_dispatch [OF none, of k s now] tx
      by (cases "admit_dispatch i k s db") auto
  next
    case (Some x)
    then show ?thesis
      using assms(2) enqueue_existing [OF v, of x now] get v(1) by (auto split: if_splits)
  qed
qed

text \<open>
  Enqueueing is idempotent: once a dispatch has been accepted, the same request returns that dispatch
  and changes nothing, at any later time, and the same identifier with another kind or scope is refused.
\<close>

theorem enqueue_replays:
  assumes "schema_ok db" "enqueue_operation_dispatch i k s now db = Inr (db', d, created)"
  shows "enqueue_operation_dispatch i k s later db' = Inr (db', d, False) \<and>
    (\<forall>k' s'. token_ok k' \<and> token_ok s' \<and> (k', s') \<noteq> (k, s) \<longrightarrow>
       enqueue_operation_dispatch i k' s' later db' =
         Inl (IdempotencyConflictError ''operation dispatch does not match request''))"
  using enqueue_Inr [OF assms] enqueue_valid [OF assms(2)] enqueue_existing [of db' i _ _ d later] by auto

definition claimed_db :: db where
  "claimed_db = empty_db\<lparr>idempotency_requests := [request_row example_id example_fingerprint example_time]\<rparr>"

lemma example_claimed: "schema_ok claimed_db" "\<not> in_transaction claimed_db"
    "get_operation_dispatch example_id claimed_db = Inr None" "admit_dispatch example_id ''app.deploy'' ''app-demo'' claimed_db = Inr ()"
  by code_simp+

lemma example_enqueue:
  "enqueue_operation_dispatch example_id ''app.deploy'' ''app-demo'' example_time claimed_db =
   Inr (enqueued example_id ''app.deploy'' ''app-demo'' example_time claimed_db,
        dispatch_row example_id ''app.deploy'' ''app-demo'' example_time, True)"
  by code_simp

theorem enqueue_decides_witness:
  "schema_ok (enqueued example_id ''app.deploy'' ''app-demo'' example_time claimed_db)"
  using enqueue_decides [OF example_claimed(1,2) example_valid(1,2,3) example_claimed(3), of example_time]
    example_claimed(4) by simp

theorem enqueue_replays_witness:
  "enqueue_operation_dispatch example_id ''app.deploy'' ''app-demo'' ''later''
     (enqueued example_id ''app.deploy'' ''app-demo'' example_time claimed_db) =
   Inr (enqueued example_id ''app.deploy'' ''app-demo'' example_time claimed_db,
        dispatch_row example_id ''app.deploy'' ''app-demo'' example_time, False)"
  using enqueue_replays [OF example_claimed(1) example_enqueue, of "''later''"] by blast

section \<open>Finishing work\<close>


definition finishing_db :: db where
  "finishing_db = empty_db\<lparr>operations := [example_operation\<lparr>op_finishing := True, op_phase := ''deployment_healthy''\<rparr>]\<rparr>"


section \<open>References carry no secrets\<close>

fun all_keys :: "json \<Rightarrow> string list" where
  "all_keys (JArr xs) = concat (map all_keys xs)"
| "all_keys (JObj kvs) = map fst kvs @ concat (map (\<lambda>kv. all_keys (snd kv)) kvs)"
| "all_keys _ = []"

lemma walk_refs_keys:
  "walk_refs v = Inr u \<longleftrightarrow> (\<forall>k \<in> set (all_keys v). \<not> secret_key_search k)"
  "walk_items vs = Inr u \<longleftrightarrow> (\<forall>v \<in> set vs. \<forall>k \<in> set (all_keys v). \<not> secret_key_search k)"
  "walk_fields kvs = Inr u \<longleftrightarrow>
     (\<forall>kv \<in> set kvs. \<not> secret_key_search (fst kv) \<and> (\<forall>k \<in> set (all_keys (snd kv)). \<not> secret_key_search k))"
  by (induction v and vs and kvs rule: walk_refs_walk_items_walk_fields.induct)
     (auto simp: rbind_eq_Inr ball_Un)

lemma all_keys_sorted: "set (all_keys (json_sorted v)) = set (all_keys v)"
proof (induction v rule: json_sorted.induct)
  case (2 kvs)
  have "set (all_keys (json_sorted w)) = set (all_keys w)" if "(k, w) \<in> set kvs" for k w
    using 2 that by fastforce
  then show ?case by (force simp: image_iff)
qed auto

lemma sorted_refs_obj: "json_sorted (JObj refs) = JObj (sorted_refs refs)"
  by (simp add: sorted_refs_def)



text \<open>What a secret-looking key is: one of the words, in any case, between underscores or at an end.\<close>

definition names_secret :: "string \<Rightarrow> bool" where
  "names_secret k \<longleftrightarrow> (\<exists>a w b. k = a @ w @ b \<and> map to_lower w \<in> set secret_ref_words \<and>
     (a = [] \<or> last a = CHR ''_'') \<and> (b = [] \<or> hd b = CHR ''_''))"

lemma secret_word_atI:
  assumes "map to_lower w \<in> set secret_ref_words" "b = [] \<or> hd b = CHR ''_''"
  shows "secret_word_at (w @ b)"
  unfolding secret_word_at_def list_ex_iff starts_with_ci_def
  using assms by (intro bexI [of _ "map to_lower w"]) (auto simp: Let_def)

lemma secret_after_underscoreI: "secret_word_at s \<Longrightarrow> secret_after_underscore (a @ CHR ''_'' # s)"
  by (induction a) auto

lemma names_secret_found: "names_secret k \<Longrightarrow> secret_key_search k"
proof -
  assume "names_secret k"
  then obtain a w b where k: "k = a @ w @ b" "map to_lower w \<in> set secret_ref_words"
    "a = [] \<or> last a = CHR ''_''" "b = [] \<or> hd b = CHR ''_''"
    unfolding names_secret_def by blast
  show ?thesis
  proof (cases "a = []")
    case True
    then show ?thesis using k secret_word_atI by (simp add: secret_key_search_def)
  next
    case False
    then have "a = butlast a @ [CHR ''_'']" using k(3) by (metis append_butlast_last_id)
    then have "k = butlast a @ CHR ''_'' # (w @ b)" using k(1) by (metis append.assoc append_Cons append_Nil)
    then show ?thesis
      using secret_after_underscoreI [OF secret_word_atI [OF k(2,4)], of "butlast a"] by (simp add: secret_key_search_def)
  qed
qed

text \<open>
  C21: references accepted for the journal name no secret at any depth: no key of any nested object
  contains one of the secret words between underscores or at an end, in any letter case, and the stored
  document has the same keys as the given one and is at most 16384 bytes long.
\<close>

theorem stored_refs_name_no_secret:
  assumes "refs_json refs = Inr stored"
  shows "(\<forall>k \<in> set (all_keys (JObj stored)). \<not> names_secret k) \<and>
    set (all_keys (JObj stored)) = set (all_keys (JObj refs)) \<and> length (json_text (JObj stored)) \<le> 16384"
proof -
  have w: "walk_refs (JObj refs) = Inr ()" "stored = sorted_refs refs" "refs_length stored \<le> 16384"
    using assms by (auto simp: refs_json_Inr MAX_REFS_BYTES_def)
  have "set (all_keys (JObj stored)) = set (all_keys (JObj refs))"
    using all_keys_sorted [of "JObj refs"] unfolding sorted_refs_obj w(2) .
  then show ?thesis
    using w names_secret_found unfolding walk_refs_keys refs_length_def by metis
qed

lemma example_refs: "refs_json [(''server_id'', JStr ''x''), (''image'', JObj [(''name'', JStr ''y'')])] =
   Inr [(''image'', JObj [(''name'', JStr ''y'')]), (''server_id'', JStr ''x'')]"
  by code_simp

theorem stored_refs_name_no_secret_witness:
  "\<not> names_secret ''server_id'' \<and> \<not> names_secret ''name''"
  using stored_refs_name_no_secret [OF example_refs] by simp

end
