(* ===== verification/Capacity_Admission.thy ===== *)
theory Capacity_Admission
  imports Operation_Journal
begin

text \<open>
  The journal and the capacity check together: a limit change that \<open>begin_operation\<close> admits keeps the
  disk reservations within 85% of the data volume, because its intent is recorded as a reservation in
  the same transaction that checked it.
\<close>

section \<open>Reservation tables\<close>

lemma dict_put_keys: "dict_get d k \<noteq> None \<Longrightarrow> map fst (dict_put k v d) = map fst d"
  by (induction k v d rule: dict_put.induct) auto

lemma raise_append:
  "raise_to_intents name (xs @ [y]) res = rbind (raise_to_intents name xs res) (raise_to_intent name y)"
proof (induction xs arbitrary: res)
  case Nil
  show ?case by (cases "raise_to_intent name y res") auto
next
  case (Cons x xs)
  then show ?case by (cases "raise_to_intent name x res") auto
qed

lemma raise_to_intentE:
  assumes "raise_to_intent name refs res = Inr res'"
  obtains "res' = res" | i v q where "dict_get res i = Some v" "res' = dict_put i (max v q) res"
proof -
  obtain r where r: "intent_resource refs = Inr r"
    using assms by (auto simp: raise_to_intent_def rbind_eq_Inr)
  show thesis
  proof (cases "r = None \<or> dict_get res (the r) = None")
    case True
    then have "res' = res" using assms r by (cases r) (auto simp: raise_to_intent_def)
    then show thesis by (rule that(1))
  next
    case False
    then obtain i v where "r = Some i" "dict_get res i = Some v" by auto
    then show thesis using assms r that(2) by (auto simp: raise_to_intent_def rbind_eq_Inr)
  qed
qed

lemma raise_keys: "raise_to_intents name xs res = Inr res' \<Longrightarrow> map fst res' = map fst res"
proof (induction xs arbitrary: res)
  case (Cons x xs)
  then obtain res1 where 1: "raise_to_intent name x res = Inr res1" "map fst res' = map fst res1"
    by (auto simp: rbind_eq_Inr)
  from 1(1) have "map fst res1 = map fst res"
    by (rule raise_to_intentE) (auto simp: dict_put_keys)
  with 1(2) show ?case by simp
qed simp

lemma raise_ge:
  "raise_to_intents name xs res = Inr res' \<Longrightarrow> dict_get res k = Some v \<Longrightarrow> \<exists>v'. dict_get res' k = Some v' \<and> v \<le> v'"
proof (induction xs arbitrary: res v)
  case (Cons x xs)
  then obtain res1 where 1: "raise_to_intent name x res = Inr res1" "raise_to_intents name xs res1 = Inr res'"
    by (auto simp: rbind_eq_Inr)
  from 1(1) have "\<exists>w. dict_get res1 k = Some w \<and> v \<le> w"
    by (rule raise_to_intentE) (use Cons.prems(2) in \<open>auto split: if_splits\<close>)
  then obtain w where "dict_get res1 k = Some w" "v \<le> w" by blast
  then show ?case using Cons.IH [OF 1(2)] by fastforce
qed simp

text \<open>Summing a function of a table's values over its distinct keys.\<close>

definition value_at :: "(string \<times> int) list \<Rightarrow> string \<Rightarrow> int" where
  "value_at t k = or_zero (dict_get t k)"

lemma value_at_put [simp]: "value_at (dict_put i x t) = (value_at t)(i := x)"
  by (auto simp: value_at_def or_zero_def)

lemma table_by_keys: "distinct (map fst t) \<Longrightarrow> t = map (\<lambda>k. (k, value_at t k)) (map fst t)"
proof (rule nth_equalityI)
  fix i
  assume "distinct (map fst t)" "i < length t"
  then have "map_of t (fst (t ! i)) = Some (snd (t ! i))"
    by (intro map_of_is_SomeI) auto
  then show "t ! i = map (\<lambda>k. (k, value_at t k)) (map fst t) ! i"
    using \<open>i < length t\<close> by (simp add: value_at_def or_zero_def prod_eq_iff)
qed simp

lemma table_sum:
  assumes "distinct (map fst t)"
  shows "(\<Sum>x \<leftarrow> t. f (snd x)) = (\<Sum>k \<in> fst ` set t. f (value_at t k))"
proof -
  have "map (\<lambda>x. f (snd x)) t = map (\<lambda>k. f (value_at t k)) (map fst t)"
    using arg_cong [OF table_by_keys [OF assms], of "map (\<lambda>x. f (snd x))"] by (simp add: comp_def)
  then have "(\<Sum>x \<leftarrow> t. f (snd x)) = (\<Sum>k \<leftarrow> map fst t. f (value_at t k))"
    by (rule arg_cong)
  also have "\<dots> = (\<Sum>k \<in> fst ` set t. f (value_at t k))"
    using assms by (simp only: sum_list_distinct_conv_sum_set set_map)
  finally show ?thesis .
qed

lemma table_sum2:
  assumes "distinct (map fst t)" "map fst u = map fst t"
  shows "(\<Sum>(x, y) \<leftarrow> zip t u. g (snd x) (snd y)) = (\<Sum>k \<in> fst ` set t. g (value_at t k) (value_at u k))"
proof -
  let ?ks = "map fst t"
  have u: "u = map (\<lambda>k. (k, value_at u k)) ?ks"
    by (rule table_by_keys [of u, unfolded assms(2), OF assms(1)])
  have "zip t u = zip (map (\<lambda>k. (k, value_at t k)) ?ks) (map (\<lambda>k. (k, value_at u k)) ?ks)"
    by (rule arg_cong2 [OF table_by_keys [OF assms(1)] u])
  also have "\<dots> = map (\<lambda>k. ((k, value_at t k), (k, value_at u k))) ?ks"
    by (simp only: zip_map_map zip_same_conv_map map_map comp_def prod.case)
  finally have "map (\<lambda>(x, y). g (snd x) (snd y)) (zip t u) = map (\<lambda>k. g (value_at t k) (value_at u k)) ?ks"
    by (simp add: comp_def)
  then have "(\<Sum>(x, y) \<leftarrow> zip t u. g (snd x) (snd y)) = (\<Sum>k \<leftarrow> ?ks. g (value_at t k) (value_at u k))"
    by (rule arg_cong)
  also have "\<dots> = (\<Sum>k \<in> fst ` set t. g (value_at t k) (value_at u k))"
    using assms by (simp only: sum_list_distinct_conv_sum_set set_map)
  finally show ?thesis .
qed

lemma hard_quota_max: "hard_quota (max a b) = max (hard_quota a) (hard_quota b)"
  using hard_quota_mono [of a b] hard_quota_mono [of b a] by (auto simp: max_def)

lemma ceil_max: "((max x y + MIB - 1) div MIB) * MIB = max (((x + MIB - 1) div MIB) * MIB) (((y + MIB - 1) div MIB) * MIB)"
  using ceil_MIB_mono [of x y] ceil_MIB_mono [of y x] by (auto simp: max_def)

lemma garage_reservation_max:
  "garage_reservation (max a b) (max c d) = max (garage_reservation a c) (garage_reservation b d)"
proof -
  have div: "x \<le> y \<Longrightarrow> (x * 5 + 3) div 4 \<le> (y * 5 + 3) div 4" for x y :: int
    by (intro zdiv_mono1) auto
  have "(max a b * 5 + 3) div 4 = max ((a * 5 + 3) div 4) ((b * 5 + 3) div 4)"
    using div [of a b] div [of b a] by (cases "a \<le> b") (simp_all add: max_absorb1 max_absorb2)
  moreover have "max c d * 4096 = max (c * 4096) (d * 4096)"
    by (cases "c \<le> d") (simp_all add: max_absorb1 max_absorb2)
  ultimately have "max ((max a b * 5 + 3) div 4) (max c d * 4096) =
      max (max ((a * 5 + 3) div 4) (c * 4096)) (max ((b * 5 + 3) div 4) (d * 4096))"
    by (simp only: max.assoc max.left_commute)
  then show ?thesis
    unfolding garage_reservation_def Let_def by (simp only: ceil_max)
qed

section \<open>Reservations per resource\<close>

definition resource_total :: "(string \<times> int) list \<Rightarrow> (string \<times> int) list \<Rightarrow> (string \<times> int) list \<Rightarrow> string \<Rightarrow> int" where
  "resource_total sizes s3 objects k =
     hard_quota (value_at sizes k) + garage_reservation (value_at s3 k) (value_at objects k)"

definition reserved_total :: "disk_reservation \<Rightarrow> int" where
  "reserved_total d = databaseBytes d + garageBytes d"

lemma disk_reservations_total:
  assumes "distinct (map res_resource_id (managed_resources db))"
  shows "disk_reservations db = Inr d \<longleftrightarrow>
    (\<exists>sizes s3 objects. column_reservations res_measured_target_bytes ''sizeBytes'' db = Inr sizes \<and>
       column_reservations res_s3_bytes ''s3Bytes'' db = Inr s3 \<and>
       column_reservations res_s3_objects ''s3Objects'' db = Inr objects \<and>
       databaseBytes d = (\<Sum>x \<leftarrow> sizes. hard_quota (snd x)) \<and>
       garageBytes d = (\<Sum>(x, y) \<leftarrow> zip s3 objects. garage_reservation (snd x) (snd y)))"
  unfolding disk_reservations_def rbind_eq_Inr by (cases d) auto

lemma column_keys:
  "column_reservations column name db = Inr t \<Longrightarrow> map fst t = map res_resource_id (managed_resources db)"
  unfolding column_reservations_def by (drule raise_keys) (simp add: comp_def)

lemma reserved_total_sum:
  assumes d: "distinct (map res_resource_id (managed_resources db))"
    and c: "column_reservations res_measured_target_bytes ''sizeBytes'' db = Inr sizes"
      "column_reservations res_s3_bytes ''s3Bytes'' db = Inr s3"
      "column_reservations res_s3_objects ''s3Objects'' db = Inr objects"
  shows "(\<Sum>x \<leftarrow> sizes. hard_quota (snd x)) + (\<Sum>(x, y) \<leftarrow> zip s3 objects. garage_reservation (snd x) (snd y)) =
    (\<Sum>k \<in> res_resource_id ` set (managed_resources db). resource_total sizes s3 objects k)"
proof -
  note keys = c [THEN column_keys]
  have sets: "fst ` set sizes = res_resource_id ` set (managed_resources db)"
    "fst ` set s3 = res_resource_id ` set (managed_resources db)"
    using keys(1,2) by (metis set_map)+
  show ?thesis
    using table_sum [of sizes hard_quota] table_sum2 [of s3 objects garage_reservation] keys d sets
    by (simp add: resource_total_def sum.distrib)
qed

lemma column_at_least:
  assumes "column_reservations column name db = Inr t" "distinct (map res_resource_id (managed_resources db))"
    and "r \<in> set (managed_resources db)"
  shows "or_zero (column r) \<le> value_at t (res_resource_id r)"
proof -
  have "map_of (map (\<lambda>r. (res_resource_id r, or_zero (column r))) (managed_resources db)) (res_resource_id r) =
      Some (or_zero (column r))"
    using assms(2,3) by (intro map_of_is_SomeI) (auto simp: comp_def)
  then show ?thesis
    using raise_ge [OF assms(1) [unfolded column_reservations_def]] by (fastforce simp: value_at_def or_zero_def)
qed

text \<open>A table after one more intent.\<close>

lemma raise_to_intent_value:
  assumes "raise_to_intent name refs t = Inr t'" "intent_resource refs = Inr (Some i)" "intent_quota refs name = Inr q"
  shows "value_at t' k = (if k = i \<and> i \<in> fst ` set t then max (value_at t k) q else value_at t k)"
proof (cases "dict_get t i")
  case None
  then have "i \<notin> fst ` set t" by (simp add: map_of_eq_None_iff)
  then show ?thesis using assms None by (simp add: raise_to_intent_def)
next
  case (Some v)
  then have "i \<in> fst ` set t" by (force dest: map_of_SomeD)
  then show ?thesis using assms Some by (auto simp: raise_to_intent_def value_at_def or_zero_def)
qed

section \<open>The intent a limit change records\<close>

text \<open>
  The references of a limit change as the callers build them: the resource and its validated quotas,
  those of a database (size and memory) or those of a bucket (bytes and objects), as Python dictionaries.
\<close>

definition all_ints :: "jdict \<Rightarrow> bool" where
  "all_ints q \<longleftrightarrow> list_all (\<lambda>(_, v). case v of JInt n \<Rightarrow> 0 \<le> n | _ \<Rightarrow> False) q"

definition quota_shape :: "jdict \<Rightarrow> bool" where
  "quota_shape q \<longleftrightarrow>
     (dict_get q ''sizeBytes'' \<noteq> None \<and> dict_get q ''memoryBytes'' \<noteq> None \<and>
        dict_get q ''s3Bytes'' = None \<and> dict_get q ''s3Objects'' = None) \<or>
     (dict_get q ''s3Bytes'' \<noteq> None \<and> dict_get q ''sizeBytes'' = None)"

definition limit_refs :: "jdict \<Rightarrow> string \<Rightarrow> jdict \<Rightarrow> bool" where
  "limit_refs refs rid q \<longleftrightarrow> distinct (map fst refs) \<and> distinct (map fst q) \<and>
     dict_get refs ''resource_id'' = Some (JStr rid) \<and> dict_get refs ''quotas'' = Some (JObj q) \<and>
     all_ints q \<and> quota_shape q"

definition quota_value :: "jdict \<Rightarrow> string \<Rightarrow> int" where
  "quota_value q name = (case dict_get q name of Some (JInt n) \<Rightarrow> n | _ \<Rightarrow> 0)"

lemma all_ints_get: "all_ints q \<Longrightarrow> dict_get q name = Some v \<Longrightarrow> \<exists>n. v = JInt n \<and> 0 \<le> n"
  by (auto simp: all_ints_def list_all_iff split: json.splits dest!: map_of_SomeD)

lemma quota_value_nonneg: "all_ints q \<Longrightarrow> 0 \<le> quota_value q name"
  using all_ints_get [of q name] by (cases "dict_get q name") (auto simp: quota_value_def)

lemma dict_get_sorted:
  assumes "distinct (map fst d)"
  shows "dict_get (sort_key fst (map (\<lambda>(k, v). (k, json_sorted v)) d)) name = map_option json_sorted (dict_get d name)"
proof -
  have "distinct (map fst (map (\<lambda>(k, v). (k, json_sorted v)) d))"
    using assms by (simp add: comp_def split_def)
  then show ?thesis by (simp add: map_of_sort_key map_of_map)
qed

lemma stored_intent:
  assumes "limit_refs refs rid q"
  shows "intent_resource (sorted_refs refs) = Inr (Some rid)"
    and "intent_quota (sorted_refs refs) name = Inr (quota_value q name)"
proof -
  have l: "distinct (map fst refs)" "distinct (map fst q)" "dict_get refs ''resource_id'' = Some (JStr rid)"
    "dict_get refs ''quotas'' = Some (JObj q)" "all_ints q"
    using assms by (auto simp: limit_refs_def)
  have get: "dict_get (sorted_refs refs) k = map_option json_sorted (dict_get refs k)" for k
    unfolding sorted_refs_def using dict_get_sorted [OF l(1), of k] by simp
  show "intent_resource (sorted_refs refs) = Inr (Some rid)"
    by (simp add: intent_resource_def get l(3))
  have "intent_quota (sorted_refs refs) name =
      (case map_option json_sorted (dict_get q name) of None \<Rightarrow> Inr 0
       | Some v \<Rightarrow> (case json_int v of None \<Rightarrow> Inl TypeError | Some n \<Rightarrow> Inr n))"
    by (simp add: intent_quota_def get l(4) dict_get_sorted [OF l(2)])
  then show "intent_quota (sorted_refs refs) name = Inr (quota_value q name)"
    using all_ints_get [OF l(5), of name] by (cases "dict_get q name") (auto simp: quota_value_def)
qed

lemma int_dict_get:
  assumes "all_ints q" "int_dict q = Inr target"
  shows "dict_get target name = map_option (\<lambda>v. case v of JInt n \<Rightarrow> n | _ \<Rightarrow> 0) (dict_get q name)"
proof -
  have "int_dict q = Inr (map (\<lambda>(k, v). (k, case v of JInt n \<Rightarrow> n | _ \<Rightarrow> 0)) q)"
    unfolding int_dict_def using assms(1)
    by (subst rmap_all_Inr [where g = "\<lambda>(k, v). (k, case v of JInt n \<Rightarrow> n | _ \<Rightarrow> 0)"])
       (auto simp: all_ints_def list_all_iff split: json.splits)
  then show ?thesis using assms(2) by (simp add: map_of_map)
qed

lemma admitted_check_disk:
  assumes "limit_refs refs rid q" "k \<in> set limit_kinds" "check_requested_quotas k refs db = Inr u"
  obtains target where "int_dict q = Inr target" "check_disk (Some rid) target db = Inr ()"
proof -
  have l: "dict_get refs ''resource_id'' = Some (JStr rid)" "dict_get refs ''quotas'' = Some (JObj q)"
    using assms(1) by (auto simp: limit_refs_def)
  have "refs \<noteq> []" using l(1) by auto
  moreover have "list_ex (\<lambda>n. dict_get q n \<noteq> None) quota_names"
    using assms(1) by (auto simp: limit_refs_def quota_shape_def quota_names_def)
  ultimately have "requested_quotas k refs = rbind (int_dict q) (\<lambda>target. Inr (Some target))"
    using l(2) assms(2) unfolding requested_quotas_def by simp
  then obtain target where t: "int_dict q = Inr target" "check (Some rid) target db = Inr u"
    using assms(3) l(1) by (auto simp: check_requested_quotas_def rbind_eq_Inr intent_resource_def)
  then have "check_disk (Some rid) target db = Inr ()"
    by (auto simp: check_def rbind_eq_Inr)
  with t(1) show thesis by (rule that)
qed

section \<open>The budget is kept\<close>

lemma growth_size:
  fixes v q c :: int
  assumes "c \<le> v"
  shows "hard_quota (max v q) \<le> hard_quota v + max 0 (hard_quota q - hard_quota c)"
  using hard_quota_mono [OF assms] unfolding hard_quota_max by linarith

lemma growth_garage:
  assumes "c \<le> v" "d \<le> w"
  shows "garage_reservation (max v q) (max w p) \<le>
    garage_reservation v w + max 0 (garage_reservation q p - garage_reservation c d)"
  using garage_reservation_mono [OF assms] unfolding garage_reservation_max by linarith

lemma resource_total_growth:
  assumes q: "all_ints q" "quota_shape q" "int_dict q = Inr target"
    and row: "0 \<le> or_zero (res_s3_bytes r)" "0 \<le> or_zero (res_s3_objects r)" "0 \<le> or_zero (res_measured_target_bytes r)"
    and ge: "or_zero (res_measured_target_bytes r) \<le> v" "or_zero (res_s3_bytes r) \<le> b" "or_zero (res_s3_objects r) \<le> n"
  shows "hard_quota (max v (quota_value q ''sizeBytes'')) +
      garage_reservation (max b (quota_value q ''s3Bytes'')) (max n (quota_value q ''s3Objects'')) \<le>
    hard_quota v + garage_reservation b n + max 0 (disk_increase (Some r) target)"
proof -
  have get: "quota target m = quota_value q m" "dict_get target m = None \<longleftrightarrow> dict_get q m = None" for m
    using int_dict_get [OF q(1,3), of m] all_ints_get [OF q(1), of m]
    by (cases "dict_get q m"; auto simp: quota_def quota_value_def or_zero_def)+
  have zero: "dict_get q m = None \<Longrightarrow> quota_value q m = 0" for m
    by (simp add: quota_value_def)
  show ?thesis
  proof (cases "dict_get q ''sizeBytes'' = None")
    case False
    then have "max b (quota_value q ''s3Bytes'') = b" "max n (quota_value q ''s3Objects'') = n"
      using q(2) row ge zero by (auto simp: quota_shape_def)
    then show ?thesis
      using growth_size [OF ge(1), of "quota_value q ''sizeBytes''"] False by (simp add: disk_increase_def get)
  next
    case True
    then have "max v (quota_value q ''sizeBytes'') = v"
      using row ge zero by auto
    then show ?thesis
      using growth_garage [OF ge(2,3), of "quota_value q ''s3Bytes''" "quota_value q ''s3Objects''"] True
      by (simp add: disk_increase_def get)
  qed
qed

lemma sum_grow_one:
  fixes f g :: "'a \<Rightarrow> int"
  assumes "finite S" "\<And>k. k \<in> S \<Longrightarrow> k \<noteq> i \<Longrightarrow> g k = f k" "i \<in> S \<Longrightarrow> g i \<le> f i + e" "0 \<le> e"
  shows "sum g S \<le> sum f S + e"
proof (cases "i \<in> S")
  case True
  have "sum g S = g i + sum g (S - {i})" "sum f S = f i + sum f (S - {i})"
    using True assms(1) by (simp_all add: sum.remove)
  moreover have "sum g (S - {i}) = sum f (S - {i})"
    using assms(2) by (intro sum.cong) auto
  ultimately show ?thesis using assms(3) [OF True] by linarith
next
  case False
  then have "sum g S = sum f S" using assms(2) by (intro sum.cong) auto
  then show ?thesis using assms(4) by simp
qed

lemma column_after_intent:
  assumes "operations db' = operations db @ [r]" "managed_resources db' = managed_resources db"
    and "op_kind r \<in> set limit_kinds" "op_unfinished r" "op_refs r = stored"
  shows "column_reservations column name db' =
    rbind (column_reservations column name db) (raise_to_intent name stored)"
proof -
  have "unfinished_intents limit_kinds db' = unfinished_intents limit_kinds db @ [stored]"
    using assms by (simp add: unfinished_intents_def)
  then show ?thesis
    using assms(2) by (simp add: column_reservations_def raise_append)
qed

lemma raise_to_intent_total:
  assumes "intent_resource refs = Inr (Some i)" "intent_quota refs name = Inr q"
  shows "\<exists>t'. raise_to_intent name refs t = Inr t'"
  using assms by (cases "dict_get t i") (auto simp: raise_to_intent_def)

lemma positive_or_zero: "opt_all (\<lambda>n. n > 0) x \<Longrightarrow> 0 \<le> or_zero x"
  by (cases x) (auto simp: opt_all_def or_zero_def)

lemma resource_columns_nonneg:
  assumes "schema_ok db" "r \<in> set (managed_resources db)"
  shows "0 \<le> or_zero (res_s3_bytes r)" "0 \<le> or_zero (res_s3_objects r)" "0 \<le> or_zero (res_measured_target_bytes r)"
proof -
  have "resource_row_ok r"
    using schema_okD(7) [OF assms(1)] assms(2) by (simp add: resources_ok_def list_all_iff)
  then show "0 \<le> or_zero (res_s3_bytes r)" "0 \<le> or_zero (res_s3_objects r)" "0 \<le> or_zero (res_measured_target_bytes r)"
    by (intro positive_or_zero; simp only: resource_row_ok_def)+
qed

definition disk_budget_kept :: "db \<Rightarrow> bool" where
  "disk_budget_kept db =
     (case (disk_reservations db, total_bytes db) of
        (Inr d, Inr vol) \<Rightarrow> databaseBytes d + garageBytes d + 197 * GIB \<le> vol * 85 div 100
      | _ \<Rightarrow> False)"

lemma resource_row_unique:
  assumes "distinct (map res_resource_id (managed_resources db))" "x \<in> set (managed_resources db)"
  shows "resource_row (Some (res_resource_id x)) db = Some x"
  using assms
  by (auto simp: resource_row_def find_Some_iff in_set_conv_nth nth_eq_iff_index_eq distinct_conv_nth intro!: exI [of _ x])

lemma resource_growth:
  assumes ok: "schema_ok db" and q: "all_ints q" "quota_shape q" "int_dict q = Inr target"
    and dist: "distinct (map res_resource_id (managed_resources db))" and x: "x \<in> set (managed_resources db)"
    and old: "column_reservations res_measured_target_bytes ''sizeBytes'' db = Inr sz"
      "column_reservations res_s3_bytes ''s3Bytes'' db = Inr sb" "column_reservations res_s3_objects ''s3Objects'' db = Inr so"
  shows "hard_quota (max (value_at sz (res_resource_id x)) (quota_value q ''sizeBytes'')) +
      garage_reservation (max (value_at sb (res_resource_id x)) (quota_value q ''s3Bytes''))
        (max (value_at so (res_resource_id x)) (quota_value q ''s3Objects'')) \<le>
    resource_total sz sb so (res_resource_id x) + max 0 (disk_increase (Some x) target)"
  unfolding resource_total_def
  by (rule resource_total_growth [OF q resource_columns_nonneg [OF ok x]
        column_at_least [OF old(1) dist x] column_at_least [OF old(2) dist x] column_at_least [OF old(3) dist x]])

lemma limit_reservations:
  assumes ok: "schema_ok db" and l: "limit_refs refs rid q" and k: "op_kind r \<in> set limit_kinds" "op_unfinished r"
    and db': "db' = db\<lparr>operations := operations db @ [r]\<rparr>" "op_refs r = sorted_refs refs"
    and d: "disk_reservations db = Inr d" and target: "int_dict q = Inr target"
  shows "\<exists>d'. disk_reservations db' = Inr d' \<and>
    reserved_total d' \<le> reserved_total d + max 0 (case resource_row (Some rid) db of None \<Rightarrow> 0 | Some x \<Rightarrow> disk_increase (Some x) target)"
proof -
  let ?S = "res_resource_id ` set (managed_resources db)"
  have dist: "distinct (map res_resource_id (managed_resources db))"
    using schema_okD(7) [OF ok] by (simp add: resources_ok_def unique_on_def)
  have same: "managed_resources db' = managed_resources db" "operations db' = operations db @ [r]"
    using db'(1) by simp_all
  note step = column_after_intent [OF same(2,1) k db'(2)]
  note intent = stored_intent [OF l]
  obtain sz sb so where old: "column_reservations res_measured_target_bytes ''sizeBytes'' db = Inr sz"
      "column_reservations res_s3_bytes ''s3Bytes'' db = Inr sb" "column_reservations res_s3_objects ''s3Objects'' db = Inr so"
    and dsum: "reserved_total d = (\<Sum>k \<in> ?S. resource_total sz sb so k)"
    using d reserved_total_sum [OF dist] unfolding disk_reservations_total [OF dist] reserved_total_def by metis
  obtain sz' sb' so' where new: "raise_to_intent ''sizeBytes'' (sorted_refs refs) sz = Inr sz'"
      "raise_to_intent ''s3Bytes'' (sorted_refs refs) sb = Inr sb'" "raise_to_intent ''s3Objects'' (sorted_refs refs) so = Inr so'"
    using raise_to_intent_total [OF intent] by metis
  have cols: "column_reservations res_measured_target_bytes ''sizeBytes'' db' = Inr sz'"
      "column_reservations res_s3_bytes ''s3Bytes'' db' = Inr sb'" "column_reservations res_s3_objects ''s3Objects'' db' = Inr so'"
    using step old new by simp_all
  define d' where "d' = \<lparr>databaseBytes = (\<Sum>x \<leftarrow> sz'. hard_quota (snd x)),
      garageBytes = (\<Sum>(x, y) \<leftarrow> zip sb' so'. garage_reservation (snd x) (snd y))\<rparr>"
  have d': "disk_reservations db' = Inr d'"
    using cols by (simp add: disk_reservations_def d'_def)
  have dsum': "reserved_total d' = (\<Sum>k \<in> ?S. resource_total sz' sb' so' k)"
    using reserved_total_sum [OF _ cols] dist same(1) by (simp add: reserved_total_def d'_def)
  have keys: "fst ` set sz = ?S" "fst ` set sb = ?S" "fst ` set so = ?S"
    using old [THEN column_keys] by (metis set_map)+
  have val: "resource_total sz' sb' so' j = (if j = rid \<and> rid \<in> ?S
      then hard_quota (max (value_at sz j) (quota_value q ''sizeBytes'')) +
        garage_reservation (max (value_at sb j) (quota_value q ''s3Bytes'')) (max (value_at so j) (quota_value q ''s3Objects''))
      else resource_total sz sb so j)" for j
    using raise_to_intent_value [OF new(1) intent] raise_to_intent_value [OF new(2) intent]
      raise_to_intent_value [OF new(3) intent] keys by (simp add: resource_total_def)
  have "reserved_total d' \<le> reserved_total d +
      max 0 (case resource_row (Some rid) db of None \<Rightarrow> 0 | Some x \<Rightarrow> disk_increase (Some x) target)"
    unfolding dsum dsum'
  proof (rule sum_grow_one [where i = rid])
    assume "rid \<in> ?S"
    then obtain x where x: "x \<in> set (managed_resources db)" "res_resource_id x = rid" by auto
    have q: "all_ints q" "quota_shape q"
      using l by (auto simp: limit_refs_def)
    show "resource_total sz' sb' so' rid \<le> resource_total sz sb so rid +
        max 0 (case resource_row (Some rid) db of None \<Rightarrow> 0 | Some x \<Rightarrow> disk_increase (Some x) target)"
      using \<open>rid \<in> ?S\<close> resource_row_unique [OF dist x(1)] resource_growth [OF ok q target dist x(1) old]
      unfolding val x(2) by simp
  qed (simp_all add: val)
  with d' show ?thesis by blast
qed

text \<open>
  C2: a limit change keeps the disk budget: when the reservations fit 85% of the data volume (with the
  197 GiB held back) and \<open>begin_operation\<close> admits new limits for a resource, the reservations that include
  the recorded intent still fit, whatever the resource's own row and the other unfinished intents are.
\<close>

theorem begin_operation_keeps_disk_budget:
  assumes "schema_ok db" "disk_budget_kept db" "limit_refs refs rid q" "k \<in> set limit_kinds"
    and "begin_operation i k s p dl refs now db = Inr (db', r)"
  shows "disk_budget_kept db'"
proof -
  obtain st where b: "check_requested_quotas k refs db = Inr ()" "refs_json refs = Inr st"
      "r = begin_row i k s p dl st now" "db' = db\<lparr>operations := operations db @ [r]\<rparr>"
    using assms(5) unfolding begin_operation_Inr [OF assms(1)] by blast
  obtain target where t: "int_dict q = Inr target" "check_disk (Some rid) target db = Inr ()"
    using admitted_check_disk [OF assms(3,4) b(1)] .
  obtain d vol where d: "disk_reservations db = Inr d" "total_bytes db = Inr vol"
      "reserved_total d + 197 * GIB \<le> vol * 85 div 100"
    using assms(2) by (auto simp: disk_budget_kept_def reserved_total_def split: sum.splits)
  let ?inc = "case resource_row (Some rid) db of None \<Rightarrow> 0 | Some x \<Rightarrow> disk_increase (Some x) target"
  have refs: "op_refs r = sorted_refs refs" using b(2,3) by (simp add: refs_json_Inr)
  have kind: "op_kind r \<in> set limit_kinds" "op_unfinished r" using b(3) assms(4) by simp_all
  obtain d' where d': "disk_reservations db' = Inr d'" "reserved_total d' \<le> reserved_total d + max 0 ?inc"
    using limit_reservations [OF assms(1,3) kind b(4) refs d(1) t(1)] by blast
  have "reserved_total d + max 0 ?inc + 197 * GIB \<le> vol * 85 div 100"
  proof (cases "?inc \<le> 0")
    case True
    then show ?thesis using d(3) by simp
  next
    case False
    have "dict_get target ''sizeBytes'' \<noteq> None \<or> dict_get target ''s3Bytes'' \<noteq> None"
      using assms(3) int_dict_get [OF _ t(1)] by (auto simp: limit_refs_def quota_shape_def)
    then show ?thesis
      using t(2) d False unfolding check_disk_def reserved_total_def
      by (cases "resource_row (Some rid) db") (auto simp: Let_def split: if_splits)
  qed
  moreover have "total_bytes db' = Inr vol"
    using d(2) b(4) by (simp add: total_bytes_def)
  ultimately show ?thesis
    using d' by (simp add: disk_budget_kept_def reserved_total_def)
qed

abbreviation example_resource_id :: string where
  "example_resource_id \<equiv> ''00000000-0000-4000-8000-000000000009''"

definition example_limit_refs :: jdict where
  "example_limit_refs = [(''resource_id'', JStr example_resource_id),
     (''quotas'', JObj [(''sizeBytes'', JInt 9), (''memoryBytes'', JInt 8), (''connections'', JInt 5)])]"

lemma example_limit:
  "disk_budget_kept empty_db"
  "limit_refs example_limit_refs example_resource_id
     [(''sizeBytes'', JInt 9), (''memoryBytes'', JInt 8), (''connections'', JInt 5)]"
  "''storage.limits.set'' \<in> set limit_kinds"
  by code_simp+

lemma example_limit_begins:
  "begin_operation example_id ''storage.limits.set'' ''app-demo'' ''limits'' example_time example_limit_refs example_time empty_db =
   Inr (empty_db\<lparr>operations := [begin_row example_id ''storage.limits.set'' ''app-demo'' ''limits'' example_time
          (sorted_refs example_limit_refs) example_time]\<rparr>,
        begin_row example_id ''storage.limits.set'' ''app-demo'' ''limits'' example_time (sorted_refs example_limit_refs) example_time)"
  by code_simp

theorem begin_operation_keeps_disk_budget_witness:
  "disk_budget_kept (empty_db\<lparr>operations := [begin_row example_id ''storage.limits.set'' ''app-demo'' ''limits'' example_time
     (sorted_refs example_limit_refs) example_time]\<rparr>)"
  by (rule begin_operation_keeps_disk_budget [OF example_schema(1) example_limit example_limit_begins])

end
