(* ===== verification/Deployment_Store.thy ===== *)
theory Deployment_Store
  imports Operation_Journal
begin

text \<open>
  Deployment attempts and the accepted deployment, managed resources, environment revisions and keys,
  slug tombstones and the completion of an application's deletion (\<open>controller/database.py\<close>).
  \<open>sha\<close> stands for \<open>hashlib.sha256(\<dots>).hexdigest()\<close>.
\<close>

section \<open>Reading attempts\<close>

record attempt_view =
  av_row :: deployment_attempt
  av_configuration :: "deployment_configuration option"

definition deployment_attempt_of :: "(string \<Rightarrow> string) \<Rightarrow> deployment_attempt \<Rightarrow> attempt_view result" where
  "deployment_attempt_of sha row =
     (if at_snapshot_kind row = ''strict'' then
        let encoded = json_text (at_configuration_json row) in
        if sha encoded \<noteq> at_configuration_sha256 row
        then Inl (DatabaseError ''deployment configuration snapshot hash does not match'')
        else
          rbind (parse_configuration (at_configuration_json row)) (\<lambda>c.
          if canonical_json c \<noteq> encoded
          then Inl (DatabaseError ''deployment configuration snapshot is not canonical'')
          else Inr \<lparr>av_row = row, av_configuration = Some c\<rparr>)
      else Inr \<lparr>av_row = row, av_configuration = None\<rparr>)"

definition read_row :: "('r \<Rightarrow> 'a result) \<Rightarrow> 'r option \<Rightarrow> 'a option result" where
  "read_row f row = (case row of None \<Rightarrow> Inr None | Some r \<Rightarrow> rbind (f r) (\<lambda>x. Inr (Some x)))"

definition get_deployment_attempt :: "(string \<Rightarrow> string) \<Rightarrow> string \<Rightarrow> db \<Rightarrow> attempt_view option result" where
  "get_deployment_attempt sha deployment_id db =
     rbind (uuid ''deployment_id'' deployment_id) (\<lambda>i.
     read_row (deployment_attempt_of sha)
       (find_where (\<lambda>a. at_deployment_id a = i) (deployment_attempts db)))"

definition get_active_deployment :: "string \<Rightarrow> db \<Rightarrow> active_deployment option" where
  "get_active_deployment application_id db =
     find_where (\<lambda>a. act_application_id a = application_id) (active_deployments db)"

text \<open>The join of \<open>get_deployment\<close>.\<close>

definition active_attempt :: "string \<Rightarrow> db \<Rightarrow> deployment_attempt option" where
  "active_attempt application_id db =
     (case get_active_deployment application_id db of
        None \<Rightarrow> None
      | Some act \<Rightarrow> find_where (\<lambda>a. at_deployment_id a = act_deployment_id act \<and>
                      at_application_id a = act_application_id act) (deployment_attempts db))"

record deployment =
  dep_application_id :: string
  dep_deployment_id :: string
  dep_source_commit :: string
  dep_recipe_hash :: string
  dep_image_digest :: string
  dep_nomad_job :: string
  dep_nomad_job_sha256 :: string
  dep_nomad_version :: int
  dep_health_path :: string
  dep_application_port :: int
  dep_build_log_path :: string
  dep_accepted_at :: string
  dep_last_healthy_at :: string

definition get_deployment :: "(string \<Rightarrow> string) \<Rightarrow> string \<Rightarrow> db \<Rightarrow> deployment option result" where
  "get_deployment sha application_id db =
     rbind (read_row (deployment_attempt_of sha) (active_attempt application_id db)) (\<lambda>view.
     case view of
       None \<Rightarrow> Inr None
     | Some v \<Rightarrow>
         let a = av_row v in
         if at_recipe_hash a = None \<or> at_image_digest a = None \<or> at_nomad_job a = None \<or> at_nomad_job_sha256 a = None \<or>
            at_nomad_version a = None \<or> at_health_path a = None \<or> at_application_port a = None \<or>
            at_build_log_path a = None \<or> at_accepted_at a = None \<or> at_last_healthy_at a = None
         then Inl (DatabaseError ''active deployment evidence is incomplete'')
         else Inr (Some
           \<lparr>dep_application_id = at_application_id a, dep_deployment_id = at_deployment_id a,
            dep_source_commit = at_source_commit a, dep_recipe_hash = the (at_recipe_hash a),
            dep_image_digest = the (at_image_digest a), dep_nomad_job = the (at_nomad_job a),
            dep_nomad_job_sha256 = the (at_nomad_job_sha256 a), dep_nomad_version = the (at_nomad_version a),
            dep_health_path = the (at_health_path a), dep_application_port = the (at_application_port a),
            dep_build_log_path = the (at_build_log_path a), dep_accepted_at = the (at_accepted_at a),
            dep_last_healthy_at = the (at_last_healthy_at a)\<rparr>))"

section \<open>Environment revisions\<close>

definition get_environment_revision :: "string \<Rightarrow> db \<Rightarrow> environment_revision option result" where
  "get_environment_revision application_id db =
     rbind (uuid ''application_id'' application_id) (\<lambda>i.
     Inr (find_where (\<lambda>r. er_application_id r = i) (environment_revisions db)))"

definition advance_environment_revision ::
  "string \<Rightarrow> int \<Rightarrow> string \<Rightarrow> db \<Rightarrow> (db \<times> environment_revision) result" where
  "advance_environment_revision application_id expected_revision now db =
     rbind (uuid ''application_id'' application_id) (\<lambda>identifier.
     then_read
       (transaction (\<lambda>d.
          let P = (\<lambda>r. er_application_id r = identifier \<and> er_revision r = expected_revision) in
          rbind (execute (d\<lparr>environment_revisions := update_where P
                   (\<lambda>r. r\<lparr>er_revision := er_revision r + 1, er_updated_at := now\<rparr>) (environment_revisions d)\<rparr>)) (\<lambda>d1.
          if rowcount P (environment_revisions d) \<noteq> 1
          then Inl (DatabaseError ''environment revision is missing or stale'')
          else Inr (d1, None))) db)
       (read_back (get_environment_revision identifier)))"

section \<open>Attempts\<close>

record attempt_input =
  ai_deployment_id :: string
  ai_application_id :: string
  ai_source_commit :: string
  ai_requested_ref :: string
  ai_configuration_revision :: int
  ai_configuration :: deployment_configuration
  ai_environment_revision :: int
  ai_idempotency_request_id :: string

text \<open>\<open>[^\x00-\x20\x7f]{1,256}\<close>\<close>

definition requested_ref_re :: "string \<Rightarrow> bool" where
  "requested_ref_re s \<longleftrightarrow> 1 \<le> length s \<and> length s \<le> 256 \<and>
     list_all (\<lambda>c. (of_char c :: nat) > 32 \<and> of_char c \<noteq> (127 :: nat)) s"

definition attempt_row :: "(string \<Rightarrow> string) \<Rightarrow> attempt_input \<Rightarrow> string \<Rightarrow> deployment_attempt" where
  "attempt_row sha i now =
     \<lparr>at_deployment_id = ai_deployment_id i, at_application_id = ai_application_id i, at_status = ''queued'',
      at_snapshot_kind = ''strict'', at_source_commit = ai_source_commit i, at_requested_ref = ai_requested_ref i,
      at_configuration_revision = ai_configuration_revision i,
      at_configuration_json = canonical_document (ai_configuration i),
      at_configuration_sha256 = sha (canonical_json (ai_configuration i)),
      at_environment_revision = ai_environment_revision i,
      at_idempotency_request_id = ai_idempotency_request_id i, at_recipe_hash = None, at_image_digest = None,
      at_nomad_job = None, at_nomad_job_sha256 = None, at_nomad_version = None,
      at_health_path = Some (dc_health_path (ai_configuration i)),
      at_application_port = Some (dc_port (ai_configuration i)), at_build_log_path = None, at_safe_error = None,
      at_cleanup_state = None, at_requested_at = now, at_updated_at = now, at_accepted_at = None,
      at_last_healthy_at = None\<rparr>"

text \<open>
  What \<open>create_deployment_attempt\<close> does with the request: refuse it, return the attempt it already
  created (\<open>Some\<close>), or go on (\<open>None\<close>).
\<close>

definition attempt_replay ::
  "(string \<Rightarrow> string) \<Rightarrow> attempt_input \<Rightarrow> db \<Rightarrow> attempt_view option result" where
  "attempt_replay sha i d =
     rbind (get_idempotency_request (ai_idempotency_request_id i) d) (\<lambda>request.
     case request of
       None \<Rightarrow> Inl (DatabaseError ''idempotency request is missing'')
     | Some r \<Rightarrow>
         if rq_result_id r = None then Inr None
         else if \<not> (rq_result_kind r \<in> {Some ''deployment'', Some ''operation''} \<and>
                    rq_result_id r = Some (ai_deployment_id i))
         then Inl (IdempotencyConflictError ''idempotency request already has a different result'')
         else
           rbind (get_deployment_attempt sha (ai_deployment_id i) d) (\<lambda>existing.
           case existing of
             Some v \<Rightarrow> Inr (Some v)
           | None \<Rightarrow> if rq_result_kind r = Some ''deployment''
                     then Inl (DatabaseError ''idempotency result deployment is missing'') else Inr None))"

definition create_deployment_attempt ::
  "(string \<Rightarrow> string) \<Rightarrow> attempt_input \<Rightarrow> string \<Rightarrow> db \<Rightarrow> (db \<times> attempt_view) result" where
  "create_deployment_attempt sha i now db =
     rbind (uuid ''deployment_id'' (ai_deployment_id i)) (\<lambda>_.
     rbind (uuid ''application_id'' (ai_application_id i)) (\<lambda>_.
     rbind (commit (ai_source_commit i)) (\<lambda>_.
     if \<not> requested_ref_re (ai_requested_ref i) then Inl (ValidationError ''requested source ref is malformed'')
     else
     rbind (revision ''configuration revision'' (ai_configuration_revision i)) (\<lambda>_.
     rbind (revision ''environment revision'' (ai_environment_revision i)) (\<lambda>_.
     rbind (uuid ''idempotency request ID'' (ai_idempotency_request_id i)) (\<lambda>_.
     then_read
       (transaction (\<lambda>d.
          rbind (attempt_replay sha i d) (\<lambda>replay.
          case replay of
            Some v \<Rightarrow> Inr (d, Some v)
          | None \<Rightarrow>
              rbind (get_environment_revision (ai_application_id i) d) (\<lambda>current.
              if (case current of None \<Rightarrow> True | Some r \<Rightarrow> er_revision r \<noteq> ai_environment_revision i)
              then Inl (DatabaseError ''environment revision is missing or stale'')
              else if list_ex (\<lambda>a. at_application_id a = ai_application_id i \<and> at_unfinished a) (deployment_attempts d)
              then Inl (DatabaseError ''application already has an unfinished deployment attempt'')
              else
                rbind (execute (d\<lparr>deployment_attempts := deployment_attempts d @ [attempt_row sha i now]\<rparr>)) (\<lambda>d1.
                rbind (set_request_result (ai_idempotency_request_id i) ''deployment'' (ai_deployment_id i) now d1) (\<lambda>d2.
                Inr (d2, None)))))) db)
       (read_back (get_deployment_attempt sha (ai_deployment_id i)))))))))"

record evidence_input =
  ev_status :: string
  ev_recipe_hash :: "string option"
  ev_image_digest :: "string option"
  ev_nomad_job :: "string option"
  ev_nomad_job_sha256 :: "string option"
  ev_nomad_version :: "int option"
  ev_build_log_path :: "string option"
  ev_error :: "raised option"
  ev_cleanup_state :: "string option"

definition build_log_path :: "string \<Rightarrow> string result" where
  "build_log_path p = (if p = [] \<or> length p > 1024 then Inl (ValidationError ''build log path is malformed'') else Inr p)"

definition check_evidence :: "evidence_input \<Rightarrow> unit result" where
  "check_evidence e =
     (if ev_status e \<notin> set DEPLOYMENT_STATUSES then Inl (ValidationError ''deployment attempt status is malformed'')
      else
        rbind (optional_check (sha256_hex ''recipe_hash'') (ev_recipe_hash e)) (\<lambda>_.
        rbind (optional_check (oci_digest_pin ''image_digest'') (ev_image_digest e)) (\<lambda>_.
        rbind (optional_check (sha256_hex ''nomad_job_sha256'') (ev_nomad_job_sha256 e)) (\<lambda>_.
        rbind (optional_check (revision ''nomad version'') (ev_nomad_version e)) (\<lambda>_.
        rbind (optional_check build_log_path (ev_build_log_path e)) (\<lambda>_.
        rbind (optional_check cleanup_state (ev_cleanup_state e)) (\<lambda>_. Inr ())))))))"

definition keep_or :: "'a option \<Rightarrow> 'a option \<Rightarrow> 'a option" where
  "keep_or new old = (case new of None \<Rightarrow> old | Some v \<Rightarrow> Some v)"

definition apply_evidence :: "evidence_input \<Rightarrow> string \<Rightarrow> deployment_attempt \<Rightarrow> deployment_attempt" where
  "apply_evidence e now a =
     (let b = a\<lparr>at_status := ev_status e, at_updated_at := now,
               at_recipe_hash := keep_or (ev_recipe_hash e) (at_recipe_hash a),
               at_image_digest := keep_or (ev_image_digest e) (at_image_digest a),
               at_nomad_job := keep_or (ev_nomad_job e) (at_nomad_job a),
               at_nomad_job_sha256 := keep_or (ev_nomad_job_sha256 e) (at_nomad_job_sha256 a),
               at_nomad_version := keep_or (ev_nomad_version e) (at_nomad_version a),
               at_build_log_path := keep_or (ev_build_log_path e) (at_build_log_path a),
               at_safe_error := keep_or (summary_of (ev_error e)) (at_safe_error a),
               at_cleanup_state := keep_or (ev_cleanup_state e) (at_cleanup_state a)\<rparr>
      in if ev_status e = ''succeeded'' then b\<lparr>at_accepted_at := Some now, at_last_healthy_at := Some now\<rparr> else b)"

text \<open>\<open>except sqlite3.IntegrityError: raise DatabaseError\<close>\<close>

definition or_incomplete :: "db result \<Rightarrow> db result" where
  "or_incomplete m =
     (case m of Inl IntegrityError \<Rightarrow> Inl (DatabaseError ''deployment attempt evidence is incomplete'') | _ \<Rightarrow> m)"

text \<open>The statements of \<open>checkpoint_deployment_attempt\<close>, inside its transaction.\<close>

definition checkpoint_attempt_statements ::
  "(string \<Rightarrow> string) \<Rightarrow> string \<Rightarrow> evidence_input \<Rightarrow> string \<Rightarrow> db \<Rightarrow> (db \<times> attempt_view option) result" where
  "checkpoint_attempt_statements sha identifier e now d =
     rbind (get_deployment_attempt sha identifier d) (\<lambda>current.
     case current of
       None \<Rightarrow> Inl (DatabaseError ''deployment attempt is missing'')
     | Some v \<Rightarrow>
         if ev_status e \<in> {''failed'', ''recovery_required''} \<and>
            keep_or (summary_of (ev_error e)) (at_safe_error (av_row v)) = None
         then Inl (DatabaseError ''failed deployment attempt requires a safe error'')
         else
           rbind (or_incomplete (update_attempts (\<lambda>a. at_deployment_id a = identifier) (apply_evidence e now) d)) (\<lambda>d1.
           if ev_status e = ''succeeded'' then
             let app = at_application_id (av_row v);
                 new = \<lparr>act_application_id = app, act_deployment_id = identifier,
                        act_lifecycle_state = ''running'', act_updated_at = now\<rparr>
             in rbind (execute (d1\<lparr>active_deployments :=
                         upsert (\<lambda>a. act_application_id a = app) (\<lambda>_. new) new (active_deployments d1)\<rparr>)) (\<lambda>d2.
                rbind (execute (d2\<lparr>applications := update_where (\<lambda>a. app_application_id a = app)
                         (\<lambda>a. a\<lparr>app_desired_running := True, app_updated_at := now\<rparr>) (applications d2)\<rparr>)) (\<lambda>d3.
                Inr (d3, None)))
           else Inr (d1, None)))"

definition checkpoint_deployment_attempt ::
  "(string \<Rightarrow> string) \<Rightarrow> string \<Rightarrow> evidence_input \<Rightarrow> string \<Rightarrow> bool \<Rightarrow> db \<Rightarrow> (db \<times> attempt_view) result" where
  "checkpoint_deployment_attempt sha deployment_id e now within_transaction db =
     rbind (uuid ''deployment_id'' deployment_id) (\<lambda>identifier.
     rbind (check_evidence e) (\<lambda>_.
     then_read
       (acceptance_write within_transaction (checkpoint_attempt_statements sha identifier e now) db)
       (read_back (get_deployment_attempt sha identifier))))"

definition list_deployment_attempts ::
  "(string \<Rightarrow> string) \<Rightarrow> string \<Rightarrow> string option \<Rightarrow> db \<Rightarrow> attempt_view list result" where
  "list_deployment_attempts sha application_id status db =
     rbind (uuid ''application_id'' application_id) (\<lambda>identifier.
     if \<not> opt_all (\<lambda>s. s \<in> set DEPLOYMENT_STATUSES) status
     then Inl (ValidationError ''deployment attempt status is malformed'')
     else
       rmap (deployment_attempt_of sha)
         (order_desc (\<lambda>a. (at_requested_at a, at_deployment_id a))
            (filter (\<lambda>a. at_application_id a = identifier \<and> opt_all (\<lambda>s. at_status a = s) status)
               (deployment_attempts db))))"

definition active_storage_resource_ids :: "(string \<Rightarrow> string) \<Rightarrow> string \<Rightarrow> db \<Rightarrow> string list result" where
  "active_storage_resource_ids sha application_id db =
     rbind (uuid ''application_id'' application_id) (\<lambda>i.
     case get_active_deployment i db of
       None \<Rightarrow> Inr []
     | Some act \<Rightarrow>
         rbind (get_deployment_attempt sha (act_deployment_id act) db) (\<lambda>v.
         Inr (case v of None \<Rightarrow> [] | Some view \<Rightarrow>
           (case av_configuration view of None \<Rightarrow> [] | Some c \<Rightarrow> map sb_resource_id (dc_storage_bindings c)))))"

end
