(* ===== verification/Resource_Store.thy ===== *)
theory Resource_Store
  imports Deployment_Store
begin

text \<open>
  The rest of the controller's tables (\<open>controller/database.py\<close>): the registry manifests recorded for an
  application, managed storage resources, environment keys, slug tombstones, the completion of an
  application's deletion, and storage usage and limits. \<open>sha\<close> stands for \<open>hashlib.sha256(\<dots>).hexdigest()\<close>.
\<close>

section \<open>Recorded manifests\<close>

text \<open>The candidate digests of the deploy operations of an application, newest first.\<close>

definition candidate_digests :: "(operation \<Rightarrow> bool) \<Rightarrow> string \<Rightarrow> db \<Rightarrow> string list" where
  "candidate_digests P identifier db =
     List.map_filter op_candidate_digest
       (order_desc (\<lambda>r. (op_updated_at r, op_operation_id r))
          (filter (\<lambda>r. op_scope r = ''app-'' @ identifier \<and> op_kind r = ''app.deploy'' \<and> P r \<and>
                       op_candidate_digest r \<noteq> None) (operations db)))"

text \<open>The loop that appends each digest not seen yet.\<close>

fun append_new :: "string \<Rightarrow> string list \<Rightarrow> string list \<Rightarrow> string list result" where
  "append_new field images [] = Inr images"
| "append_new field images (c # cs) =
     rbind (oci_digest_pin field c) (\<lambda>i.
     append_new field (if i \<in> set images then images else images @ [i]) cs)"

definition attempt_images :: "attempt_view list \<Rightarrow> string list result" where
  "attempt_images views =
     rmap (oci_digest_pin ''deployment image'') (List.map_filter (\<lambda>v. at_image_digest (av_row v)) views)"

definition list_application_manifest_images :: "(string \<Rightarrow> string) \<Rightarrow> string \<Rightarrow> db \<Rightarrow> string list result" where
  "list_application_manifest_images sha application_id db =
     rbind (uuid ''application_id'' application_id) (\<lambda>identifier.
     rbind (list_deployment_attempts sha identifier None db) (\<lambda>views.
     rbind (attempt_images views) (\<lambda>images.
     append_new ''operation candidate image'' images (candidate_digests (\<lambda>_. True) identifier db))))"

definition list_application_successful_manifest_history ::
  "(string \<Rightarrow> string) \<Rightarrow> string \<Rightarrow> db \<Rightarrow> string list result" where
  "list_application_successful_manifest_history sha application_id db =
     rbind (uuid ''application_id'' application_id) (\<lambda>identifier.
     rbind (list_deployment_attempts sha identifier (Some ''succeeded'') db) (\<lambda>views.
     rbind (attempt_images views) (\<lambda>images.
     append_new ''successful candidate image'' images
       (candidate_digests (\<lambda>r. op_status r = ''succeeded'') identifier db))))"

definition list_active_application_manifest_references ::
  "(string \<Rightarrow> string) \<Rightarrow> string \<Rightarrow> db \<Rightarrow> string list result" where
  "list_active_application_manifest_references sha application_id db =
     rbind (uuid ''application_id'' application_id) (\<lambda>identifier.
     rbind (get_deployment sha identifier db) (\<lambda>deployment.
     rbind (case deployment of None \<Rightarrow> Inr []
            | Some dep \<Rightarrow> rbind (oci_digest_pin ''deployment image'' (dep_image_digest dep)) (\<lambda>i. Inr [i])) (\<lambda>images.
     append_new ''active candidate image'' images (candidate_digests op_unfinished identifier db))))"

section \<open>Managed resources\<close>

definition display_label :: "string \<Rightarrow> string result" where
  "display_label v =
     (if \<not> (1 \<le> length v \<and> length v \<le> 100) \<or> v \<noteq> strip v \<or> list_ex (\<lambda>c. (of_char c :: nat) < 32) v
      then Inl (ValidationError ''storage display label must be 1-100 printable characters'') else Inr v)"

definition get_managed_resource :: "string \<Rightarrow> db \<Rightarrow> managed_resource option result" where
  "get_managed_resource resource_id db =
     rbind (uuid ''resource_id'' resource_id) (\<lambda>i.
     Inr (find_where (\<lambda>r. res_resource_id r = i) (managed_resources db)))"

record resource_input =
  ri_application_id :: string
  ri_resource_type :: string
  ri_resource_name :: string
  ri_provider_name :: string
  ri_lifecycle_state :: string
  ri_provider_id :: "string option"
  ri_resource_id :: "string option"
  ri_display_label :: "string option"
  ri_memory_bytes :: "int option"
  ri_cpu_millicores :: "int option"
  ri_mongo_connections :: "int option"
  ri_isolated :: bool
  ri_postgres_connections :: "int option"
  ri_measured_target_bytes :: "int option"
  ri_s3_bytes :: "int option"
  ri_s3_objects :: "int option"
  ri_last_verified_at :: "string option"

definition is_database_type :: "string \<Rightarrow> bool" where
  "is_database_type t \<longleftrightarrow> t \<in> {''postgres'', ''mongo''}"

definition resource_columns :: "resource_input \<Rightarrow> string \<Rightarrow> string \<Rightarrow> managed_resource \<Rightarrow> managed_resource" where
  "resource_columns i label now r = r\<lparr>res_display_label := label, res_provider_id := ri_provider_id i,
     res_provider_name := ri_provider_name i, res_lifecycle_state := ri_lifecycle_state i,
     res_postgres_connections := ri_postgres_connections i, res_measured_target_bytes := ri_measured_target_bytes i,
     res_s3_bytes := ri_s3_bytes i, res_s3_objects := ri_s3_objects i,
     res_memory_bytes := (if is_database_type (ri_resource_type i)
                          then Some (or_default (ri_memory_bytes i) 536870912) else None),
     res_cpu_millicores := (if is_database_type (ri_resource_type i)
                            then Some (or_default (ri_cpu_millicores i) 500) else None),
     res_mongo_connections := (if ri_resource_type i = ''mongo''
                               then Some (or_default (ri_mongo_connections i) 10) else None),
     res_last_verified_at := ri_last_verified_at i, res_updated_at := now\<rparr>"

definition resource_row_of :: "resource_input \<Rightarrow> string \<Rightarrow> string \<Rightarrow> string \<Rightarrow> managed_resource" where
  "resource_row_of i identifier label now = resource_columns i label now
     \<lparr>res_resource_id = identifier, res_application_id = ri_application_id i, res_resource_type = ri_resource_type i,
      res_resource_name = ri_resource_name i, res_display_label = label, res_provider_id = None,
      res_provider_name = [], res_lifecycle_state = [], res_memory_bytes = None, res_cpu_millicores = None,
      res_mongo_connections = None, res_instance_id = (if ri_isolated i then Some identifier else None),
      res_instance_port = None, res_migration_state = None, res_usage = [], res_usage_error = None,
      res_write_blocked = False, res_blocked_since = None, res_postgres_connections = None,
      res_measured_target_bytes = None, res_s3_bytes = None, res_s3_objects = None, res_last_verified_at = None,
      res_created_at = now, res_updated_at = now\<rparr>"

definition admission_target :: "resource_input \<Rightarrow> quotas" where
  "admission_target i =
     (if ri_resource_type i = ''s3''
      then [(''s3Bytes'', or_zero (ri_s3_bytes i)), (''s3Objects'', or_zero (ri_s3_objects i))]
      else [(''memoryBytes'', or_default (ri_memory_bytes i) 536870912),
            (''connections'', or_default (ri_postgres_connections i) (or_default (ri_mongo_connections i) 10)),
            (''sizeBytes'', or_zero (ri_measured_target_bytes i))])"

text \<open>\<open>fresh\<close> is the identifier \<open>uuid4()\<close> would give.\<close>

definition put_managed_resource ::
  "resource_input \<Rightarrow> string \<Rightarrow> string \<Rightarrow> db \<Rightarrow> (db \<times> managed_resource) result" where
  "put_managed_resource i fresh now db =
     rbind (uuid ''application_id'' (ri_application_id i)) (\<lambda>_.
     rbind (resource_name (ri_resource_name i)) (\<lambda>_.
     rbind (display_label (case ri_display_label i of None \<Rightarrow> ri_resource_name i | Some l \<Rightarrow> l)) (\<lambda>label.
     rbind (optional_check (uuid ''resource_id'') (ri_resource_id i)) (\<lambda>supplied.
     let mine = (\<lambda>r. (res_application_id r, res_resource_type r, res_resource_name r) =
                     (ri_application_id i, ri_resource_type i, ri_resource_name i)) in
     rbind (transaction (\<lambda>d.
       let existing = find_where mine (managed_resources d);
           identifier = (case existing of Some r \<Rightarrow> res_resource_id r
                         | None \<Rightarrow> (case supplied of Some s \<Rightarrow> s | None \<Rightarrow> fresh))
       in if existing \<noteq> None \<and> supplied \<noteq> None \<and> supplied \<noteq> Some identifier
          then Inl (DatabaseError ''storage resource UUID is immutable'')
          else
            rbind (if (ri_isolated i \<or> ri_resource_type i = ''s3'') \<and> existing = None
                   then check None (admission_target i) d else Inr ()) (\<lambda>_.
            rbind (execute (d\<lparr>managed_resources :=
                     upsert mine (resource_columns i label now) (resource_row_of i identifier label now)
                       (managed_resources d)\<rparr>)) (\<lambda>d1.
            Inr (d1, identifier)))) db) (\<lambda>(db1, identifier).
     read_back (get_managed_resource identifier) db1)))))"

definition update_resource ::
  "string \<Rightarrow> (managed_resource \<Rightarrow> managed_resource) \<Rightarrow> db \<Rightarrow> (db \<times> managed_resource option) result" where
  "update_resource identifier f d =
     (let P = (\<lambda>r. res_resource_id r = identifier) in
      rbind (execute (d\<lparr>managed_resources := update_where P f (managed_resources d)\<rparr>)) (\<lambda>d1.
      if rowcount P (managed_resources d) \<noteq> 1 then Inl (DatabaseError ''storage resource is missing'')
      else Inr (d1, None)))"

definition rename_managed_resource :: "string \<Rightarrow> string \<Rightarrow> string \<Rightarrow> db \<Rightarrow> (db \<times> managed_resource) result" where
  "rename_managed_resource resource_id label now db =
     rbind (uuid ''resource_id'' resource_id) (\<lambda>identifier.
     rbind (display_label label) (\<lambda>label.
     then_read
       (transaction (update_resource identifier
          (\<lambda>r. r\<lparr>res_display_label := label, res_updated_at := now\<rparr>)) db)
       (read_back (get_managed_resource identifier))))"

definition list_managed_resources :: "string option \<Rightarrow> db \<Rightarrow> managed_resource list" where
  "list_managed_resources application_id db =
     sort_key (\<lambda>r. (res_application_id r, res_resource_type r, res_resource_name r))
       (filter (\<lambda>r. opt_all (\<lambda>a. res_application_id r = a) application_id) (managed_resources db))"

definition set_managed_resource_lifecycle :: "string \<Rightarrow> string \<Rightarrow> string \<Rightarrow> db \<Rightarrow> (db \<times> unit) result" where
  "set_managed_resource_lifecycle resource_id state now db =
     rbind (uuid ''resource_id'' resource_id) (\<lambda>identifier.
     if state \<notin> {''creating'', ''active'', ''removing'', ''recovery_required''}
     then Inl (ValidationError ''storage lifecycle state is invalid'')
     else
       rbind (transaction (update_resource identifier
         (\<lambda>r. r\<lparr>res_lifecycle_state := state, res_updated_at := now\<rparr>)) db) (\<lambda>(db1, _). Inr (db1, ())))"

definition delete_managed_resource :: "string \<Rightarrow> string \<Rightarrow> string \<Rightarrow> db \<Rightarrow> (db \<times> unit) result" where
  "delete_managed_resource application_id resource_type name db =
     rbind (uuid ''application_id'' application_id) (\<lambda>_.
     rbind (resource_name name) (\<lambda>checked_name.
     transaction (\<lambda>d.
       rbind (execute (d\<lparr>managed_resources :=
         delete_where (\<lambda>r. (res_application_id r, res_resource_type r, res_resource_name r) =
                           (application_id, resource_type, checked_name)) (managed_resources d)\<rparr>)) (\<lambda>d1.
       Inr (d1, ()))) db))"

text \<open>\<open>CASE WHEN blocked THEN coalesce(blocked_since, measuredAt) ELSE NULL END\<close>\<close>

definition usage_columns :: "jdict \<Rightarrow> bool \<Rightarrow> string \<Rightarrow> managed_resource \<Rightarrow> managed_resource" where
  "usage_columns usage blocked measured r = r\<lparr>res_usage := usage, res_usage_error := None,
     res_write_blocked := blocked,
     res_blocked_since := (if blocked then (case res_blocked_since r of None \<Rightarrow> Some measured | Some t \<Rightarrow> Some t)
                           else None)\<rparr>"

text \<open>\<open>usage["measuredAt"]\<close>, a text in every measurement.\<close>

definition measured_at :: "jdict \<Rightarrow> string result" where
  "measured_at usage = (case dict_get usage ''measuredAt'' of
     None \<Rightarrow> Inl (KeyError ''measuredAt'') | Some (JStr t) \<Rightarrow> Inr t | Some _ \<Rightarrow> Inl TypeError)"

definition put_storage_usage :: "string \<Rightarrow> jdict \<Rightarrow> bool \<Rightarrow> db \<Rightarrow> (db \<times> unit) result" where
  "put_storage_usage resource_id usage blocked db =
     rbind (measured_at usage) (\<lambda>measured.
     transaction (\<lambda>d.
       rbind (execute (d\<lparr>managed_resources := update_where (\<lambda>r. res_resource_id r = resource_id)
                (usage_columns usage blocked measured) (managed_resources d)\<rparr>)) (\<lambda>d1. Inr (d1, ()))) db)"

definition put_storage_host_usage :: "jdict \<Rightarrow> db \<Rightarrow> (db \<times> unit) result" where
  "put_storage_host_usage usage db =
     transaction (\<lambda>d. rbind (execute (d\<lparr>storage_host_usage := Some usage\<rparr>)) (\<lambda>d1. Inr (d1, ()))) db"

definition get_storage_host_usage :: "db \<Rightarrow> jdict option" where
  "get_storage_host_usage db = storage_host_usage db"

definition put_storage_limits ::
  "string \<Rightarrow> quotas \<Rightarrow> jdict \<Rightarrow> bool \<Rightarrow> string \<Rightarrow> db \<Rightarrow> (db \<times> unit) result" where
  "put_storage_limits resource_id target usage blocked now db =
     rbind (get_managed_resource resource_id db) (\<lambda>found.
     case found of
       None \<Rightarrow> Inl (DatabaseError ''resource is absent'')
     | Some resource \<Rightarrow>
         transaction (\<lambda>d.
           rbind (measured_at usage) (\<lambda>measured.
           rbind (execute (d\<lparr>managed_resources := update_where (\<lambda>r. res_resource_id r = resource_id)
             (\<lambda>r. usage_columns usage blocked measured (r\<lparr>
                res_postgres_connections :=
                  (if res_resource_type resource = ''postgres'' then dict_get target ''connections'' else None),
                res_mongo_connections :=
                  (if res_resource_type resource = ''mongo'' then dict_get target ''connections'' else None),
                res_measured_target_bytes := dict_get target ''sizeBytes'',
                res_memory_bytes := dict_get target ''memoryBytes'',
                res_cpu_millicores := dict_get target ''cpuMillicores'',
                res_s3_bytes := dict_get target ''s3Bytes'', res_s3_objects := dict_get target ''s3Objects'',
                res_updated_at := now\<rparr>)) (managed_resources d)\<rparr>)) (\<lambda>d1. Inr (d1, ())))) db)"

definition set_storage_instance ::
  "string \<Rightarrow> string \<Rightarrow> int \<Rightarrow> string option \<Rightarrow> db \<Rightarrow> (db \<times> unit) result" where
  "set_storage_instance resource_id instance_id port migration_state db =
     transaction (\<lambda>d.
       rbind (uuid ''instance ID'' instance_id) (\<lambda>inst.
       rbind (execute (d\<lparr>managed_resources := update_where (\<lambda>r. res_resource_id r = resource_id)
                (\<lambda>r. r\<lparr>res_instance_id := Some inst, res_instance_port := Some port,
                        res_migration_state := migration_state\<rparr>) (managed_resources d)\<rparr>)) (\<lambda>d1.
       Inr (d1, ())))) db"

section \<open>Environment keys and tombstones\<close>

text \<open>\<open>platform|staff|storage\.(postgres|mongo|s3)\.[a-z][a-z0-9-]{0,39}\<close>\<close>

definition environment_owner :: "string \<Rightarrow> bool" where
  "environment_owner owner \<longleftrightarrow> owner \<in> {''platform'', ''staff''} \<or>
     list_ex (\<lambda>t. starts_with (''storage.'' @ t @ ''.'') owner \<and>
        matches_head_rest is_lower slug_char 39 (drop (length (''storage.'' @ t @ ''.'')) owner))
       [''postgres'', ''mongo'', ''s3'']"

definition set_environment_keys :: "string \<Rightarrow> string \<Rightarrow> string list \<Rightarrow> db \<Rightarrow> (db \<times> unit) result" where
  "set_environment_keys application_id owner keys db =
     rbind (uuid ''application_id'' application_id) (\<lambda>i.
     if \<not> environment_owner owner
     then Inl (ValidationError (''unknown environment key owner '' @ [CHR 0x27] @ owner @ [CHR 0x27]))
     else
       rbind (rmap env_key keys) (\<lambda>checked.
       let validated = sort (remdups checked) in
       transaction (\<lambda>d.
         rbind (execute (d\<lparr>environment_keys :=
           delete_where (\<lambda>k. ek_application_id k = i \<and> ek_owner k = owner) (environment_keys d)\<rparr>)) (\<lambda>d1.
         rbind (execute (d1\<lparr>environment_keys := environment_keys d1 @
           map (\<lambda>k. \<lparr>ek_application_id = i, ek_key_name = k, ek_owner = owner\<rparr>) validated\<rparr>)) (\<lambda>d2.
         Inr (d2, ())))) db))"

definition list_environment_keys :: "string option \<Rightarrow> db \<Rightarrow> environment_key list" where
  "list_environment_keys application_id db =
     sort_key (\<lambda>k. (ek_application_id k, ek_key_name k))
       (filter (\<lambda>k. opt_all (\<lambda>a. ek_application_id k = a) application_id) (environment_keys db))"

definition get_slug_tombstone :: "string \<Rightarrow> db \<Rightarrow> slug_tombstone option result" where
  "get_slug_tombstone application_slug db =
     rbind (slug application_slug) (\<lambda>s.
     Inr (find_where (\<lambda>t. ts_slug t = s) (slug_tombstones db)))"

definition deletion_ready :: "string \<Rightarrow> operation option \<Rightarrow> bool" where
  "deletion_ready identifier oper =
     (case oper of None \<Rightarrow> False
      | Some r \<Rightarrow> op_kind r = ''app.delete'' \<and> op_unfinished r \<and>
          refs_get (op_refs r) ''application_id'' = JStr identifier \<and> op_phase r = ''manifest_absent'')"

text \<open>The statements that retire an application.\<close>

definition retire_application :: "string \<Rightarrow> string \<Rightarrow> application \<Rightarrow> db \<Rightarrow> db result" where
  "retire_application identifier now a d =
     (let new = \<lparr>ts_slug = app_slug a, ts_application_id = identifier, ts_deleted_at = now\<rparr> in
      rbind (execute (d\<lparr>slug_tombstones := upsert (\<lambda>t. ts_slug t = app_slug a) id new (slug_tombstones d)\<rparr>)) (\<lambda>d1.
      rbind (execute (d1\<lparr>environment_keys :=
               delete_where (\<lambda>k. ek_application_id k = identifier) (environment_keys d1)\<rparr>)) (\<lambda>d2.
      rbind (execute (d2\<lparr>applications := update_where (\<lambda>x. app_application_id x = identifier)
               (\<lambda>x. x\<lparr>app_desired_running := False, app_url := None, app_worker_server_id := None,
                       app_worker_server_name := None, app_worker_port_id := None, app_worker_port_name := None,
                       app_updated_at := now\<rparr>) (applications d2)\<rparr>)) (\<lambda>d3.
      execute (d3\<lparr>active_deployments := update_where (\<lambda>x. act_application_id x = identifier)
               (\<lambda>x. x\<lparr>act_lifecycle_state := ''stopped'', act_updated_at := now\<rparr>) (active_deployments d3)\<rparr>)))))"

definition complete_application_deletion :: "string \<Rightarrow> string \<Rightarrow> string \<Rightarrow> db \<Rightarrow> (db \<times> unit) result" where
  "complete_application_deletion application_id operation_id now db =
     rbind (uuid ''application_id'' application_id) (\<lambda>identifier.
     rbind (uuid ''operation_id'' operation_id) (\<lambda>operation_identifier.
     transaction (\<lambda>d.
       if \<not> deletion_ready identifier (get_operation operation_identifier d)
       then Inl (DatabaseError ''application deletion operation is not ready to complete'')
       else if list_ex (\<lambda>r. res_application_id r = identifier) (managed_resources d)
       then Inl (DatabaseError ''application deletion refuses managed resource rows'')
       else
         case get_application_including_tombstone identifier d of
           None \<Rightarrow> Inl (DatabaseError ''application is missing'')
         | Some a \<Rightarrow>
             rbind (retire_application identifier now a d) (\<lambda>d1.
             let P = (\<lambda>r. op_operation_id r = operation_identifier \<and> op_unfinished r) in
             rbind (execute (d1\<lparr>operations := update_where P
                      (\<lambda>r. r\<lparr>op_status := ''succeeded'', op_phase := ''tombstoned'', op_updated_at := now,
                              op_safe_error := None, op_cleanup_state := ''confirmed''\<rparr>) (operations d1)\<rparr>)) (\<lambda>d2.
             if rowcount P (operations d1) \<noteq> 1
             then Inl (DatabaseError ''application deletion operation could not be completed'')
             else Inr (d2, ())))) db))"

end
