(* ===== verification/Deployment_Acceptance.thy ===== *)
theory Deployment_Acceptance
  imports Resource_Store
begin

text \<open>
  The transactions that accept work: \<open>accept_healthy_deployment\<close> (\<open>controller/application_runtime.py\<close>),
  which re-observes an exact candidate and commits placement, evidence and the finishing lane together,
  the acceptance of an enabled application (\<open>controller/application_service.py\<close>), and the direct updates
  other services make to the controller tables (\<open>storage_limits.py\<close>, \<open>storage_instances.py\<close>,
  \<open>database_backups.py\<close>). The helper process and the public health check are parameters.
\<close>

section \<open>The job an acceptance names\<close>

text \<open>\<open>re.match(r'^job "([^"\n]+)" \{\n', job)\<close>: the group, if the text matches.\<close>

definition job_header :: "string \<Rightarrow> string option" where
  "job_header job =
     (let start = ''job '' @ [CHR 0x22]; rest = drop (length start) job;
          name = takeWhile (\<lambda>c. c \<noteq> CHR 0x22 \<and> c \<noteq> CHR 0x0A) rest in
      if starts_with start job \<and> name \<noteq> [] \<and>
         starts_with ([CHR 0x22] @ '' {'' @ [CHR 0x0A]) (drop (length name) rest)
      then Some name else None)"

definition nomad_job_id :: "string \<Rightarrow> string \<Rightarrow> string result" where
  "nomad_job_id nomad_job application_slug =
     rbind (bounded_text ''Nomad job'' 262144 nomad_job) (\<lambda>job.
     rbind (slug application_slug) (\<lambda>app_slug.
     case job_header job of
       None \<Rightarrow> Inl (ValidationError ''Nomad job ID is not the stable or candidate application job'')
     | Some name \<Rightarrow>
         if name = app_slug \<or> name = app_slug @ ''-candidate'' then Inr name
         else Inl (ValidationError ''Nomad job ID is not the stable or candidate application job'')))"

section \<open>Accepting a deployment\<close>

record deployment_acceptance =
  acc_application_id :: string
  acc_application_slug :: string
  acc_repository :: string
  acc_deployment_id :: string
  acc_worker_server_id :: string
  acc_worker_server_name :: string
  acc_worker_port_id :: string
  acc_worker_port_name :: string
  acc_worker_flavor :: string
  acc_cpu_mhz :: int
  acc_memory_mib :: int
  acc_source_commit :: string
  acc_recipe_hash :: string
  acc_image :: string
  acc_nomad_job :: string
  acc_nomad_job_sha256 :: string
  acc_nomad_version :: int
  acc_health_path :: string
  acc_application_port :: int
  acc_build_log_path :: string
  acc_public_url :: string

definition health_arguments :: "deployment_acceptance \<Rightarrow> string \<Rightarrow> jdict" where
  "health_arguments acc job_id =
     [(''slug'', JStr (acc_application_slug acc)), (''version'', JInt (acc_nomad_version acc)),
      (''candidateJobSha256'', JStr (acc_nomad_job_sha256 acc)), (''candidateImage'', JStr (acc_image acc)),
      (''jobId'', JStr job_id)]"

text \<open>The observation of exactly this candidate: same version, job and image, one healthy live allocation.\<close>

definition exact_health :: "deployment_acceptance \<Rightarrow> jdict \<Rightarrow> bool" where
  "exact_health acc observation \<longleftrightarrow>
     dict_get observation ''version'' = Some (JInt (acc_nomad_version acc)) \<and>
     dict_get observation ''currentVersion'' = Some (JInt (acc_nomad_version acc)) \<and>
     dict_get observation ''candidateJobSha256'' = Some (JStr (acc_nomad_job_sha256 acc)) \<and>
     dict_get observation ''candidateImage'' = Some (JStr (acc_image acc)) \<and>
     dict_get observation ''allocations'' = Some (JInt 1) \<and>
     dict_get observation ''healthy'' = Some (JBool True) \<and>
     dict_get observation ''terminal'' = Some (JBool False)"

definition accepted_application :: "deployment_acceptance \<Rightarrow> application_input" where
  "accepted_application acc =
     \<lparr>in_application_id = acc_application_id acc, in_slug = acc_application_slug acc,
      in_worker_flavor = acc_worker_flavor acc, in_cpu_mhz = acc_cpu_mhz acc, in_memory_mib = acc_memory_mib acc,
      in_repository_url = Some (acc_repository acc), in_desired_running = True, in_url = Some (acc_public_url acc),
      in_worker_server_id = Some (acc_worker_server_id acc), in_worker_server_name = Some (acc_worker_server_name acc),
      in_worker_port_id = Some (acc_worker_port_id acc), in_worker_port_name = Some (acc_worker_port_name acc)\<rparr>"

definition acceptance_evidence :: "deployment_acceptance \<Rightarrow> evidence_input" where
  "acceptance_evidence acc =
     \<lparr>ev_status = ''succeeded'', ev_recipe_hash = Some (acc_recipe_hash acc), ev_image_digest = Some (acc_image acc),
      ev_nomad_job = Some (acc_nomad_job acc), ev_nomad_job_sha256 = Some (acc_nomad_job_sha256 acc),
      ev_nomad_version = Some (acc_nomad_version acc), ev_build_log_path = Some (acc_build_log_path acc),
      ev_error = None, ev_cleanup_state = Some ''not_required''\<rparr>"

text \<open>The body of the acceptance transaction.\<close>

definition acceptance_statements ::
  "(string \<Rightarrow> string) \<Rightarrow> deployment_acceptance \<Rightarrow> (nat \<Rightarrow> string) \<Rightarrow> db \<Rightarrow> (db \<times> unit) result" where
  "acceptance_statements sha acc clock d =
     rbind (put_application (accepted_application acc) (clock 0) True d) (\<lambda>(d1, _).
     rbind (checkpoint_deployment_attempt sha (acc_deployment_id acc) (acceptance_evidence acc) (clock 1) True d1) (\<lambda>(d2, _).
     case get_operation (acc_deployment_id acc) d2 of
       None \<Rightarrow> Inr (d2, ())
     | Some r \<Rightarrow> if op_kind r = ''app.deploy'' then mark_operation_finishing (op_operation_id r) True d2 else Inr (d2, ())))"

definition accept_healthy_deployment ::
  "(string \<Rightarrow> string) \<Rightarrow> (string \<Rightarrow> jdict \<Rightarrow> jdict result) \<Rightarrow> bool result \<Rightarrow> deployment_acceptance \<Rightarrow>
   (nat \<Rightarrow> string) \<Rightarrow> db \<Rightarrow> (db \<times> int) result" where
  "accept_healthy_deployment sha helper route acc clock db =
     rbind (uuid ''application ID'' (acc_application_id acc)) (\<lambda>identifier.
     rbind (slug (acc_application_slug acc)) (\<lambda>app_slug.
     rbind (sha256_hex ''Nomad job SHA-256'' (acc_nomad_job_sha256 acc)) (\<lambda>expected_hash.
     rbind (oci_digest_pin ''accepted image'' (acc_image acc)) (\<lambda>expected_image.
     rbind (nomad_job_id (acc_nomad_job acc) app_slug) (\<lambda>expected_job_id.
     if acc_nomad_version acc < 0 then Inl (ValidationError ''accepted Nomad version must be non-negative'')
     else
     rbind (helper ''app.health'' (health_arguments acc expected_job_id)) (\<lambda>observation.
     if \<not> exact_health acc observation
     then Inl (ApplicationError ''exact deployment health could not be reobserved for acceptance'')
     else
     rbind (case route of Inl _ \<Rightarrow> Inl (ApplicationError ''public deployment route could not be reobserved'')
            | Inr healthy \<Rightarrow> Inr healthy) (\<lambda>route_healthy.
     if \<not> route_healthy then Inl (ApplicationError ''public deployment route was not healthy for acceptance'')
     else
     rbind (get_deployment_attempt sha (acc_deployment_id acc) db) (\<lambda>attempt.
     if (case attempt of None \<Rightarrow> True | Some v \<Rightarrow> at_application_id (av_row v) \<noteq> identifier)
     then Inl (ApplicationError ''deployment attempt snapshot is missing for acceptance'')
     else
     rbind (transaction (acceptance_statements sha acc clock) db) (\<lambda>(db', _).
     Inr (db', acc_nomad_version acc))))))))))"

text \<open>The acceptance transaction of an enabled application, in \<open>ApplicationService\<close>.\<close>

definition accept_enabled ::
  "string \<Rightarrow> string \<Rightarrow> worker_placement \<Rightarrow> int \<Rightarrow> string \<Rightarrow> db \<Rightarrow> (db \<times> unit) result" where
  "accept_enabled application_id operation_id w nomad_version now db =
     transaction (\<lambda>d.
       rbind (set_application_runtime application_id True w (Some nomad_version) now True d) (\<lambda>(d1, _).
       mark_operation_finishing operation_id True d1)) db"

section \<open>Direct updates of other services\<close>

text \<open>\<open>StorageLimits.prepare_dns_job\<close> and, with no version, \<open>restore_entry\<close> of the database backups.\<close>

definition replace_saved_job ::
  "string \<Rightarrow> string \<Rightarrow> string \<Rightarrow> int option \<Rightarrow> db \<Rightarrow> (db \<times> unit) result" where
  "replace_saved_job deployment_id job job_sha256 version db =
     transaction (\<lambda>d.
       rbind (update_attempts (\<lambda>a. at_deployment_id a = deployment_id)
                (\<lambda>a. a\<lparr>at_nomad_job := Some job, at_nomad_job_sha256 := Some job_sha256,
                        at_nomad_version := keep_or version (at_nomad_version a)\<rparr>) d) (\<lambda>d1. Inr (d1, ()))) db"

definition mark_usage_failed :: "string \<Rightarrow> db \<Rightarrow> (db \<times> unit) result" where
  "mark_usage_failed resource_id db =
     transaction (\<lambda>d.
       rbind (execute (d\<lparr>managed_resources := update_where (\<lambda>r. res_resource_id r = resource_id)
                (\<lambda>r. r\<lparr>res_usage_error := Some ''collection_failed''\<rparr>) (managed_resources d)\<rparr>)) (\<lambda>d1. Inr (d1, ()))) db"

definition mark_migration_copying :: "string \<Rightarrow> db \<Rightarrow> (db \<times> unit) result" where
  "mark_migration_copying resource_id db =
     transaction (\<lambda>d.
       rbind (execute (d\<lparr>managed_resources := update_where (\<lambda>r. res_resource_id r = resource_id)
                (\<lambda>r. r\<lparr>res_migration_state := Some ''copying''\<rparr>) (managed_resources d)\<rparr>)) (\<lambda>d1. Inr (d1, ()))) db"

definition mark_migration_aborted :: "string \<Rightarrow> db \<Rightarrow> (db \<times> unit) result" where
  "mark_migration_aborted application_id db =
     transaction (\<lambda>d.
       rbind (execute (d\<lparr>managed_resources := update_where
                (\<lambda>r. res_application_id r = application_id \<and> res_instance_id r = None)
                (\<lambda>r. r\<lparr>res_migration_state := Some ''aborted''\<rparr>) (managed_resources d)\<rparr>)) (\<lambda>d1. Inr (d1, ()))) db"

text \<open>The columns \<open>restore_entry\<close> writes for a restored database; \<open>quotas\<close> has all of its keys.\<close>

record restored_columns =
  rc_type :: string
  rc_connections :: int
  rc_size_bytes :: int
  rc_memory_bytes :: int
  rc_cpu_millicores :: int
  rc_blocked :: bool
  rc_since :: "string option"

definition restore_resource_columns :: "string \<Rightarrow> restored_columns \<Rightarrow> db \<Rightarrow> (db \<times> unit) result" where
  "restore_resource_columns resource_id c db =
     transaction (\<lambda>d.
       rbind (execute (d\<lparr>managed_resources := update_where (\<lambda>r. res_resource_id r = resource_id)
                (\<lambda>r. r\<lparr>res_postgres_connections := (if rc_type c = ''postgres'' then Some (rc_connections c) else None),
                        res_mongo_connections := (if rc_type c = ''mongo'' then Some (rc_connections c) else None),
                        res_measured_target_bytes := Some (rc_size_bytes c), res_memory_bytes := Some (rc_memory_bytes c),
                        res_cpu_millicores := Some (rc_cpu_millicores c), res_usage := [], res_usage_error := None,
                        res_write_blocked := rc_blocked c, res_blocked_since := rc_since c\<rparr>)
                (managed_resources d)\<rparr>)) (\<lambda>d1. Inr (d1, ()))) db"

end
