(* ===== verification/Async_Executor.thy ===== *)
theory Async_Executor
  imports Operation_Journal
begin

text \<open>
  Bounded retries of finishing work (\<open>controller/finishing_retries.py\<close>) and the in-process executor of
  accepted operations (\<open>controller/async_operations.py\<close>). The work of an operation is a parameter: what it
  does to the database and the class of the exception it raises, if any. A sequence of calls in the
  executor is not one transaction: \<open>seq\<close> keeps what the calls before a failing one committed.
\<close>

section \<open>Sequences of committed calls\<close>

type_synonym 'a action = "db \<Rightarrow> db \<times> 'a result"

definition seq :: "'a action \<Rightarrow> ('a \<Rightarrow> 'b action) \<Rightarrow> 'b action" where
  "seq m k db = (case m db of (db', Inl e) \<Rightarrow> (db', Inl e) | (db', Inr x) \<Rightarrow> k x db')"

definition ret :: "'a \<Rightarrow> 'a action" where
  "ret x db = (db, Inr x)"

definition throw :: "error \<Rightarrow> 'a action" where
  "throw e db = (db, Inl e)"

text \<open>\<open>error.__class__.__name__\<close>\<close>

fun error_class :: "error \<Rightarrow> string" where
  "error_class (ValidationError _) = ''ValidationError''"
| "error_class (CapacityError _ _) = ''CapacityError''"
| "error_class (RuntimeVersionError _) = ''RuntimeVersionError''"
| "error_class (DatabaseError _) = ''DatabaseError''"
| "error_class (ApplicationError _) = ''ApplicationError''"
| "error_class (IdempotencyConflictError _) = ''IdempotencyConflictError''"
| "error_class (DispatchQueueFullError _) = ''DispatchQueueFullError''"
| "error_class (FinishingOperationConflictError _) = ''FinishingOperationConflictError''"
| "error_class (UnfinishedOperationError _ _ _) = ''UnfinishedOperationError''"
| "error_class IntegrityError = ''IntegrityError''"
| "error_class AssertionError = ''AssertionError''"
| "error_class (KeyError _) = ''KeyError''"
| "error_class TypeError = ''TypeError''"
| "error_class (ValueError _) = ''ValueError''"
| "error_class OverflowError = ''OverflowError''"
| "error_class (SourceError _) = ''SourceError''"
| "error_class (RetentionError _) = ''RetentionError''"
| "error_class (HashCapacityError _) = ''HashCapacityError''"
| "error_class (HttpError _ _ _) = ''HttpError''"

section \<open>Retries\<close>

definition RETRY_DELAYS :: "int list" where
  "RETRY_DELAYS = [60, 120, 240, 480, 600]"

text \<open>
  \<open>later seconds\<close> is the text of the time that many seconds from now. A negative recorded count would
  index from the end, as Python does, and raise below \<open>-5\<close>.
\<close>

definition next_retry :: "(int \<Rightarrow> string) \<Rightarrow> int \<Rightarrow> string option result" where
  "next_retry later attempts =
     (if attempts \<ge> 5 then Inr None
      else if attempts < -5 then Inl (ValueError ''tuple index out of range'')
      else Inr (Some (later (RETRY_DELAYS ! nat (if attempts < 0 then attempts + 5 else attempts)))))"

definition next_at_json :: "string option \<Rightarrow> json" where
  "next_at_json x = (case x of None \<Rightarrow> JNull | Some t \<Rightarrow> JStr t)"

definition schedule :: "(int \<Rightarrow> string) \<Rightarrow> string \<Rightarrow> raised \<Rightarrow> string \<Rightarrow> db \<Rightarrow> (db \<times> bool) result" where
  "schedule later operation_id err now db =
     transaction (\<lambda>d.
       case get_operation operation_id d of
         None \<Rightarrow> Inr (d, False)
       | Some r \<Rightarrow>
           if \<not> op_finishing r \<or> op_status r \<in> {''succeeded'', ''failed''} then Inr (d, False)
           else
             rbind (retry_state (op_refs r)) (\<lambda>retry.
             rbind (retry_attempts retry) (\<lambda>attempts.
             rbind (next_retry later attempts) (\<lambda>next_at.
             let retry' = dict_put ''next_at'' (next_at_json next_at) (dict_put ''attempts'' (JInt attempts) retry) in
             rbind (refs_json (dict_merge (op_refs r) [(''finishing_retry'', JObj retry')])) (\<lambda>refs.
             rbind (execute (d\<lparr>operations := update_where (\<lambda>x. op_operation_id x = operation_id)
                      (\<lambda>x. x\<lparr>op_status := (if next_at = None then ''recovery_required'' else ''running''),
                              op_refs := refs, op_safe_error := Some (safe_summary err), op_updated_at := now\<rparr>)
                      (operations d)\<rparr>)) (\<lambda>d1.
             Inr (d1, next_at \<noteq> None))))))) db"

text \<open>\<open>json_extract(o.refs_json, '$.finishing_retry.next_at')\<close> where it is a text.\<close>

definition next_at_of :: "operation \<Rightarrow> string option" where
  "next_at_of r =
     (case dict_get (op_refs r) ''finishing_retry'' of
        Some (JObj retry) \<Rightarrow> (case dict_get retry ''next_at'' of Some (JStr t) \<Rightarrow> Some t | _ \<Rightarrow> None)
      | _ \<Rightarrow> None)"

definition retry_due :: "string \<Rightarrow> db \<Rightarrow> operation \<Rightarrow> bool" where
  "retry_due now db r \<longleftrightarrow> op_finishing r \<and> op_status r = ''running'' \<and>
     list_ex (\<lambda>d. dp_operation_id d = op_operation_id r \<and> dp_status d = ''recovery_required'') (operation_dispatches db) \<and>
     (case next_at_of r of None \<Rightarrow> False | Some t \<Rightarrow> t \<le> now)"

definition due :: "string \<Rightarrow> db \<Rightarrow> operation list" where
  "due now db = take 32 (sort_key (\<lambda>r. the (next_at_of r)) (filter (retry_due now db) (operations db)))"

section \<open>Startup recovery\<close>

text \<open>
  \<open>clock n\<close> is what the n-th reading of the time in a handler gives.
\<close>

definition stopped_note :: raised where
  "stopped_note = Note ''controller stopped before asynchronous work completed''"

text \<open>\<open>begin_operation\<close> for a dispatch with no operation; a busy scope leaves \<open>operation\<close> unset.\<close>

definition begin_placeholder :: "string \<Rightarrow> operation_dispatch \<Rightarrow> string \<Rightarrow> string \<Rightarrow> operation option action" where
  "begin_placeholder phase dispatch deadline now db =
     (case run_op (begin_operation (dp_operation_id dispatch) (dp_kind dispatch) (dp_scope dispatch) phase deadline [] now) db of
        (db', Inr r) \<Rightarrow> (db', Inr (Some r))
      | (db', Inl (UnfinishedOperationError a b c)) \<Rightarrow> (db', Inr None)
      | (db', Inl e) \<Rightarrow> (db', Inl e))"

definition interrupted_finishing :: "operation option \<Rightarrow> bool" where
  "interrupted_finishing oper =
     (case oper of None \<Rightarrow> False | Some r \<Rightarrow> op_finishing r \<and> op_status r \<notin> {''succeeded'', ''failed''})"

definition recover_finishing ::
  "(int \<Rightarrow> string) \<Rightarrow> (nat \<Rightarrow> string) \<Rightarrow> operation_dispatch \<Rightarrow> operation \<Rightarrow> unit action" where
  "recover_finishing later clock dispatch r =
     (if dp_status dispatch \<in> {''pending'', ''running''} \<or> refs_get (op_refs r) ''finishing_retry'' = JNull then
        seq (run_op (schedule later (op_operation_id r)
               (Note ''controller stopped before finishing work completed'') (clock 0))) (\<lambda>_.
        seq (run_op (set_operation_dispatch_status (dp_operation_id dispatch) ''recovery_required'' None (clock 1))) (\<lambda>_.
        ret ()))
      else ret ())"

definition recover_dispatch ::
  "(int \<Rightarrow> string) \<Rightarrow> (nat \<Rightarrow> string) \<Rightarrow> operation_dispatch \<Rightarrow> unit action" where
  "recover_dispatch later clock dispatch db =
     (let ident = dp_operation_id dispatch;
          oper = get_operation ident db;
          set_status = (\<lambda>status err now. seq (run_op (set_operation_dispatch_status ident status err now)) (\<lambda>_. ret ()))
      in if interrupted_finishing oper then recover_finishing later clock dispatch (the oper) db
         else if dp_status dispatch \<notin> {''pending'', ''running''} then ret () db
         else case oper of
           Some r \<Rightarrow>
             if op_status r \<in> {''succeeded'', ''failed''} then set_status ''finished'' None (clock 0) db
             else
               seq (if op_status r = ''running''
                    then seq (run_op (mark_recovery_required ident stopped_note None (clock 0))) (\<lambda>_. ret ())
                    else ret ()) (\<lambda>_.
               set_status ''recovery_required'' (Some stopped_note) (clock 1)) db
         | None \<Rightarrow>
             seq (begin_placeholder ''startup_interrupted'' dispatch (clock 0) (clock 1)) (\<lambda>started.
             if started \<noteq> None then
               seq (run_op (mark_failed ident
                      (Note ''operation stopped before recording any domain mutation intent'')
                      ''not_required'' (clock 2))) (\<lambda>_.
               set_status ''finished'' None (clock 3))
             else set_status ''recovery_required'' (Some stopped_note) (clock 2)) db)"

fun recover_dispatches ::
  "(int \<Rightarrow> string) \<Rightarrow> (nat \<Rightarrow> nat \<Rightarrow> string) \<Rightarrow> nat \<Rightarrow> operation_dispatch list \<Rightarrow> unit action" where
  "recover_dispatches later clock n [] = ret ()"
| "recover_dispatches later clock n (x # xs) =
     seq (recover_dispatch later (clock n) x) (\<lambda>_. recover_dispatches later clock (Suc n) xs)"

definition recover_startup :: "(int \<Rightarrow> string) \<Rightarrow> (nat \<Rightarrow> nat \<Rightarrow> string) \<Rightarrow> unit action" where
  "recover_startup later clock db = recover_dispatches later clock 0 (list_operation_dispatches db) db"

section \<open>The executor\<close>

text \<open>
  \<open>free\<close> is the count of the bounded semaphore, \<open>queued\<close> the identifiers in the queue, \<open>executing\<close>
  those a worker thread has taken, and \<open>idle\<close> the number of worker threads waiting for an item.
\<close>

record executor =
  ex_db :: db
  ex_free :: nat
  ex_queued :: "string list"
  ex_executing :: "string list"
  ex_idle :: nat
  ex_closed :: bool

definition submit ::
  "string \<Rightarrow> string \<Rightarrow> string \<Rightarrow> string \<Rightarrow> executor \<Rightarrow> (executor \<times> operation_dispatch) result" where
  "submit operation_id kind scope now ex =
     (if ex_closed ex then Inl (DispatchQueueFullError ''operation executor is stopping'')
      else if ex_free ex = 0 then Inl (DispatchQueueFullError ''operation executor is at capacity'')
      else
        rbind (enqueue_operation_dispatch operation_id kind scope now (ex_db ex)) (\<lambda>(db, dispatch, created).
        if \<not> created then Inr (ex\<lparr>ex_db := db\<rparr>, dispatch)
        else Inr (ex\<lparr>ex_db := db, ex_free := ex_free ex - 1, ex_queued := ex_queued ex @ [operation_id]\<rparr>, dispatch)))"

definition resubmit_recovery ::
  "string \<Rightarrow> string \<Rightarrow> string \<Rightarrow> string \<Rightarrow> bool \<Rightarrow> executor \<Rightarrow> (executor \<times> operation_dispatch) result" where
  "resubmit_recovery operation_id kind scope now automatic ex =
     (if ex_closed ex then Inl (DispatchQueueFullError ''operation executor is stopping'')
      else if ex_free ex = 0 then Inl (DispatchQueueFullError ''operation executor is at capacity'')
      else
        rbind (requeue_recovery_dispatch operation_id kind scope now automatic (ex_db ex)) (\<lambda>(db, dispatch).
        Inr (ex\<lparr>ex_db := db, ex_free := ex_free ex - 1, ex_queued := ex_queued ex @ [operation_id]\<rparr>, dispatch)))"

text \<open>One pass of \<open>_retry_loop\<close>: a database error leaves the retry for the next tick.\<close>

fun retry_each :: "(nat \<Rightarrow> string) \<Rightarrow> nat \<Rightarrow> operation list \<Rightarrow> executor \<Rightarrow> executor result" where
  "retry_each clock n [] ex = Inr ex"
| "retry_each clock n (r # rs) ex =
     (case resubmit_recovery (op_operation_id r) (op_kind r) (op_scope r) (clock n) True ex of
        Inr (ex', _) \<Rightarrow> retry_each clock (Suc n) rs ex'
      | Inl e \<Rightarrow> if is_database_error e then retry_each clock (Suc n) rs ex else Inl e)"

definition retry_tick :: "(nat \<Rightarrow> string) \<Rightarrow> executor \<Rightarrow> executor result" where
  "retry_tick clock ex = retry_each clock 1 (due (clock 0) (ex_db ex)) ex"

text \<open>The \<open>try\<close> block of \<open>_run\<close>: the work, and the record of one that left no operation.\<close>

type_synonym operation_work = "db \<Rightarrow> db \<times> string option"

definition read_dispatch :: "string \<Rightarrow> operation_dispatch action" where
  "read_dispatch operation_id db =
     (db, rbind (get_operation_dispatch operation_id db) (\<lambda>d. case d of None \<Rightarrow> Inl AssertionError | Some x \<Rightarrow> Inr x))"

text \<open>The rest of the block once the work has returned: work that left no operation is recorded as one.\<close>

definition work_done :: "(nat \<Rightarrow> string) \<Rightarrow> string \<Rightarrow> db \<Rightarrow> db \<times> string option" where
  "work_done clock ident db =
     (if get_operation ident db \<noteq> None then (db, None)
      else
        (case seq (read_dispatch ident) (\<lambda>dispatch.
              seq (run_op (begin_operation ident (dp_kind dispatch) (dp_scope dispatch) ''accepted'' (clock 1) [] (clock 2))) (\<lambda>_.
              run_op (mark_succeeded ident ''not_required'' (clock 3)))) db of
           (db', Inl e) \<Rightarrow> (db', Some (error_class e))
         | (db', Inr _) \<Rightarrow> (db', None)))"

definition start_item :: "string \<Rightarrow> string \<Rightarrow> db \<Rightarrow> db \<times> operation_dispatch result" where
  "start_item now ident = run_op (set_operation_dispatch_status ident ''running'' None now)"

definition run_body :: "operation_work \<Rightarrow> (nat \<Rightarrow> string) \<Rightarrow> string \<Rightarrow> db \<Rightarrow> db \<times> string option" where
  "run_body work clock ident db =
     (case start_item (clock 0) ident db of
        (db1, Inl e) \<Rightarrow> (db1, Some (error_class e))
      | (db1, Inr _) \<Rightarrow>
          (case work db1 of
             (db2, Some cls) \<Rightarrow> (db2, Some cls)
           | (db2, None) \<Rightarrow> work_done clock ident db2))"

text \<open>The \<open>except BaseException\<close> block.\<close>

definition run_failed :: "(nat \<Rightarrow> string) \<Rightarrow> string \<Rightarrow> string \<Rightarrow> unit action" where
  "run_failed clock ident cls db =
     (case get_operation ident db of
        None \<Rightarrow>
          (case seq (read_dispatch ident) (\<lambda>dispatch.
                seq (run_op (begin_operation ident (dp_kind dispatch) (dp_scope dispatch) ''rejected'' (clock 0) [] (clock 1))) (\<lambda>_.
                run_op (mark_failed ident (Raised cls) ''not_required'' (clock 2)))) db of
             (db', Inl (UnfinishedOperationError a b c)) \<Rightarrow> (db', Inr ())
           | (db', Inl e) \<Rightarrow> (db', Inl e)
           | (db', Inr _) \<Rightarrow> (db', Inr ()))
      | Some r \<Rightarrow>
          if op_status r \<noteq> ''running'' then ret () db
          else if op_finishing r
          then seq (run_op (record_finishing_failure ident (Raised cls) (clock 0))) (\<lambda>_. ret ()) db
          else seq (run_op (mark_recovery_required ident (Raised cls) None (clock 0))) (\<lambda>_. ret ()) db)"

text \<open>The \<open>finally\<close> block: accepted finishing work is scheduled again, and the dispatch settled.\<close>

definition run_settle :: "(int \<Rightarrow> string) \<Rightarrow> (nat \<Rightarrow> string) \<Rightarrow> string \<Rightarrow> unit action" where
  "run_settle later clock ident db =
     (let oper = get_operation ident db;
          finishing_pending = (case oper of None \<Rightarrow> False | Some r \<Rightarrow> op_finishing r \<and> op_unfinished r);
          waiting = finishing_pending \<or> (case oper of None \<Rightarrow> False | Some r \<Rightarrow> op_status r = ''recovery_required'')
      in seq (if finishing_pending
              then seq (run_op (schedule later ident
                     (case op_safe_error (the oper) of
                        None \<Rightarrow> Note ''accepted finishing work was interrupted''
                      | Some e \<Rightarrow> if e = [] then Note ''accepted finishing work was interrupted'' else Note e) (clock 0))) (\<lambda>_. ret ())
              else ret ()) (\<lambda>_.
         seq (run_op (set_operation_dispatch_status ident
                (if waiting then ''recovery_required'' else ''finished'') None (clock 1))) (\<lambda>_. ret ())) db)"

text \<open>
  One iteration of \<open>_run\<close>: the database it leaves, and the exception that leaves the loop, if any (which
  ends that worker thread). An exception of the \<open>finally\<close> block replaces one of the \<open>except\<close> block.
\<close>

definition end_item ::
  "(int \<Rightarrow> string) \<Rightarrow> (nat \<Rightarrow> nat \<Rightarrow> string) \<Rightarrow> string \<Rightarrow> string option \<Rightarrow> unit action" where
  "end_item later clock ident failed db =
     (case (case failed of None \<Rightarrow> ret () db | Some cls \<Rightarrow> run_failed (clock 1) ident cls db) of
        (db2, handled) \<Rightarrow>
          (case run_settle later (clock 2) ident db2 of
             (db3, Inl e) \<Rightarrow> (db3, Inl e)
           | (db3, Inr _) \<Rightarrow> (db3, handled)))"

definition run_item ::
  "(int \<Rightarrow> string) \<Rightarrow> operation_work \<Rightarrow> (nat \<Rightarrow> nat \<Rightarrow> string) \<Rightarrow> string \<Rightarrow> unit action" where
  "run_item later work clock ident db =
     (case run_body work (clock 0) ident db of (db1, failed) \<Rightarrow> end_item later clock ident failed db1)"

text \<open>
  A worker takes an item; later it has run it and releases the slot, whatever happened. A worker whose
  iteration raised is gone.
\<close>

definition take_item :: "executor \<Rightarrow> executor option" where
  "take_item ex =
     (if ex_idle ex = 0 then None
      else case ex_queued ex of [] \<Rightarrow> None
      | i # q \<Rightarrow> Some (ex\<lparr>ex_queued := q, ex_idle := ex_idle ex - 1, ex_executing := ex_executing ex @ [i]\<rparr>))"

definition release_item :: "string \<Rightarrow> db \<times> unit result \<Rightarrow> executor \<Rightarrow> executor" where
  "release_item ident outcome ex =
     ex\<lparr>ex_db := fst outcome, ex_free := ex_free ex + 1, ex_executing := remove1 ident (ex_executing ex),
        ex_idle := (case snd outcome of Inl _ \<Rightarrow> ex_idle ex | Inr _ \<Rightarrow> ex_idle ex + 1)\<rparr>"

definition finish_item ::
  "(int \<Rightarrow> string) \<Rightarrow> operation_work \<Rightarrow> (nat \<Rightarrow> nat \<Rightarrow> string) \<Rightarrow> string \<Rightarrow> executor \<Rightarrow> executor" where
  "finish_item later work clock ident ex = release_item ident (run_item later work clock ident (ex_db ex)) ex"

definition close_executor :: "executor \<Rightarrow> executor" where
  "close_executor ex = ex\<lparr>ex_closed := True\<rparr>"

definition new_executor :: "nat \<Rightarrow> nat \<Rightarrow> (int \<Rightarrow> string) \<Rightarrow> (nat \<Rightarrow> nat \<Rightarrow> string) \<Rightarrow> db \<Rightarrow> executor result" where
  "new_executor workers capacity later clock db =
     (if workers < 1 \<or> capacity < workers then Inl (ValueError ''async operation bounds are invalid'')
      else (case recover_startup later clock db of
              (_, Inl e) \<Rightarrow> Inl e
            | (db', Inr _) \<Rightarrow>
                Inr \<lparr>ex_db = db', ex_free = capacity, ex_queued = [], ex_executing = [], ex_idle = workers, ex_closed = False\<rparr>))"

end
