(* ===== verification/Controller_Guarantees.thy ===== *)
theory Controller_Guarantees
  imports Deployment_Acceptance Async_Executor
begin

text \<open>
  What every operation of the controller database guarantees, as a step relation: each step is one
  public operation of \<open>controller/database.py\<close> or \<open>finishing_retries.py\<close> that succeeded, or one acceptance
  transaction that joins several writes. The theory shows an invariant of every reachable database and
  a two-state guarantee that relates any reachable database to all later ones.
\<close>

section \<open>What is kept of each table\<close>

definition op_kept :: "operation \<Rightarrow> operation \<Rightarrow> bool" where
  "op_kept r r' \<longleftrightarrow> op_operation_id r' = op_operation_id r \<and> op_kind r' = op_kind r \<and> op_scope r' = op_scope r \<and>
     op_started_at r' = op_started_at r \<and> (op_finishing r \<longrightarrow> op_finishing r') \<and>
     (\<not> op_unfinished r \<longrightarrow> op_status r' = op_status r)"

definition request_kept :: "idempotency_request \<Rightarrow> idempotency_request \<Rightarrow> bool" where
  "request_kept r r' \<longleftrightarrow> rq_request_id r' = rq_request_id r \<and> rq_request_fingerprint r' = rq_request_fingerprint r \<and>
     rq_created_at r' = rq_created_at r \<and> (rq_result_id r \<noteq> None \<longrightarrow> rq_result_id r' = rq_result_id r)"

definition evidence_kept :: "deployment_attempt \<Rightarrow> deployment_attempt \<Rightarrow> bool" where
  "evidence_kept a a' \<longleftrightarrow> request_columns a' = request_columns a \<and>
     (accepted_evidence a \<longrightarrow> accepted_evidence a')"

definition revision_kept :: "environment_revision \<Rightarrow> environment_revision \<Rightarrow> bool" where
  "revision_kept r r' \<longleftrightarrow> er_application_id r' = er_application_id r \<and> er_revision r \<le> er_revision r'"

definition application_kept :: "application \<Rightarrow> application \<Rightarrow> bool" where
  "application_kept a a' \<longleftrightarrow> app_application_id a' = app_application_id a \<and> app_created_at a' = app_created_at a"

text \<open>Every row of a table has a successor in the later table.\<close>

definition rows_kept :: "('r \<Rightarrow> 'r \<Rightarrow> bool) \<Rightarrow> 'r list \<Rightarrow> 'r list \<Rightarrow> bool" where
  "rows_kept K rows rows' \<longleftrightarrow> (\<forall>r \<in> set rows. \<exists>r' \<in> set rows'. K r r')"

definition kept :: "db \<Rightarrow> db \<Rightarrow> bool" where
  "kept d d' \<longleftrightarrow> rows_kept op_kept (operations d) (operations d') \<and>
     rows_kept request_kept (idempotency_requests d) (idempotency_requests d') \<and>
     rows_kept evidence_kept (deployment_attempts d) (deployment_attempts d') \<and>
     rows_kept revision_kept (environment_revisions d) (environment_revisions d') \<and>
     rows_kept application_kept (applications d) (applications d') \<and>
     set (slug_tombstones d) \<subseteq> set (slug_tombstones d')"

text \<open>
  A guarantee on rows: reflexive and transitive, so that it holds of a table across any number of
  statements that hold it.
\<close>

locale row_guarantee =
  fixes K :: "'r \<Rightarrow> 'r \<Rightarrow> bool"
  assumes K_refl: "K r r" and K_trans: "K r r' \<Longrightarrow> K r' r'' \<Longrightarrow> K r r''"
begin

lemma rows_refl: "rows_kept K rows rows"
  using K_refl by (auto simp: rows_kept_def)

lemma rows_trans: "rows_kept K a b \<Longrightarrow> rows_kept K b c \<Longrightarrow> rows_kept K a c"
  unfolding rows_kept_def using K_trans by meson

lemma rows_append: "rows_kept K rows (rows @ new)"
  using K_refl by (auto simp: rows_kept_def)

lemma rows_update:
  "(\<And>r. r \<in> set rows \<Longrightarrow> P r \<Longrightarrow> K r (f r)) \<Longrightarrow> rows_kept K rows (update_where P f rows)"
  unfolding rows_kept_def
proof
  fix r
  assume f: "\<And>r. r \<in> set rows \<Longrightarrow> P r \<Longrightarrow> K r (f r)" and r: "r \<in> set rows"
  show "\<exists>r' \<in> set (update_where P f rows). K r r'"
    using f [OF r] K_refl [of r] r by (cases "P r") (auto simp: set_update_where)
qed

lemma rows_upsert:
  "(\<And>r. r \<in> set rows \<Longrightarrow> P r \<Longrightarrow> K r (f r)) \<Longrightarrow> rows_kept K rows (upsert P f new rows)"
  by (simp add: upsert_def rows_update rows_append)

end

interpretation opk: row_guarantee op_kept
  by unfold_locales (auto simp: op_kept_def op_unfinished_def)

interpretation rqk: row_guarantee request_kept
  by unfold_locales (auto simp: request_kept_def)

interpretation evk: row_guarantee evidence_kept
  by unfold_locales (auto simp: evidence_kept_def)

interpretation rvk: row_guarantee revision_kept
  by unfold_locales (auto simp: revision_kept_def)

interpretation apk: row_guarantee application_kept
  by unfold_locales (auto simp: application_kept_def)

lemma kept_refl: "kept d d"
  by (simp add: kept_def opk.rows_refl rqk.rows_refl evk.rows_refl rvk.rows_refl apk.rows_refl)

lemma kept_trans: "kept a b \<Longrightarrow> kept b c \<Longrightarrow> kept a c"
  unfolding kept_def
  by (meson opk.rows_trans rqk.rows_trans evk.rows_trans rvk.rows_trans apk.rows_trans subset_trans)

section \<open>The invariant\<close>

definition readable :: "(string \<Rightarrow> string) \<Rightarrow> deployment_attempt \<Rightarrow> bool" where
  "readable sha a \<longleftrightarrow> (\<exists>c. deployment_attempt_of sha a = Inr \<lparr>av_row = a, av_configuration = Some c\<rparr>) \<and>
     at_health_path a \<noteq> None \<and> at_application_port a \<noteq> None"

definition attempts_readable :: "(string \<Rightarrow> string) \<Rightarrow> db \<Rightarrow> bool" where
  "attempts_readable sha d \<longleftrightarrow> (\<forall>a \<in> set (deployment_attempts d). readable sha a)"

definition active_accepted :: "db \<Rightarrow> bool" where
  "active_accepted d \<longleftrightarrow> (\<forall>act \<in> set (active_deployments d). \<forall>a \<in> set (deployment_attempts d).
     at_deployment_id a = act_deployment_id act \<longrightarrow> accepted_evidence a)"

definition slugs_retired :: "db \<Rightarrow> bool" where
  "slugs_retired d \<longleftrightarrow> (\<forall>a \<in> set (applications d). \<forall>t \<in> set (slug_tombstones d).
     ts_slug t = app_slug a \<longrightarrow> ts_application_id t = app_application_id a)"

definition refs_clean :: "db \<Rightarrow> bool" where
  "refs_clean d \<longleftrightarrow> (\<forall>r \<in> set (operations d). walk_refs (JObj (op_refs r)) = Inr ())"

definition controller_inv :: "(string \<Rightarrow> string) \<Rightarrow> db \<Rightarrow> bool" where
  "controller_inv sha d \<longleftrightarrow> schema_ok d \<and> attempts_readable sha d \<and> active_accepted d \<and> slugs_retired d \<and> refs_clean d"

text \<open>A statement or sequence of statements that keeps the invariant and the guarantee.\<close>

definition safe :: "(string \<Rightarrow> string) \<Rightarrow> db \<Rightarrow> db \<Rightarrow> bool" where
  "safe sha d d' \<longleftrightarrow> (controller_inv sha d \<longrightarrow> controller_inv sha d' \<and> kept d d')"

lemma safe_refl: "safe sha d d"
  by (simp add: safe_def kept_refl)

lemma safe_trans: "safe sha a b \<Longrightarrow> safe sha b c \<Longrightarrow> safe sha a c"
  unfolding safe_def using kept_trans by blast

lemma kept_flag [simp]:
  "kept (d\<lparr>in_transaction := b\<rparr>) d' = kept d d'" "kept d (d'\<lparr>in_transaction := b\<rparr>) = kept d d'"
  by (simp_all add: kept_def)

lemma controller_inv_flag [simp]: "controller_inv sha (d\<lparr>in_transaction := b\<rparr>) = controller_inv sha d"
  by (simp add: controller_inv_def attempts_readable_def active_accepted_def slugs_retired_def refs_clean_def)

lemma safe_flag [simp]:
  "safe sha (d\<lparr>in_transaction := b\<rparr>) d' = safe sha d d'" "safe sha d (d'\<lparr>in_transaction := b\<rparr>) = safe sha d d'"
  by (simp_all add: safe_def)

lemma safe_transaction:
  assumes "transaction body db = Inr (db', x)"
    and "\<And>d. body (db\<lparr>in_transaction := True\<rparr>) = Inr (d, x) \<Longrightarrow> safe sha (db\<lparr>in_transaction := True\<rparr>) d"
  shows "safe sha db db'"
  using assms by (auto simp: transaction_Inr)

text \<open>Statements on a table the invariant and the guarantee do not read.\<close>

lemma safe_frame:
  assumes "schema_ok d'"
    and "operations d' = operations d" "idempotency_requests d' = idempotency_requests d"
      "deployment_attempts d' = deployment_attempts d" "environment_revisions d' = environment_revisions d"
      "applications d' = applications d" "slug_tombstones d' = slug_tombstones d"
      "active_deployments d' = active_deployments d"
  shows "safe sha d d'"
  using assms kept_refl [of d]
  by (simp add: safe_def controller_inv_def attempts_readable_def active_accepted_def slugs_retired_def refs_clean_def kept_def)

lemma safe_operations:
  assumes "execute (d\<lparr>operations := os\<rparr>) = Inr d'" and "schema_ok d \<Longrightarrow> rows_kept op_kept (operations d) os"
    and "schema_ok d \<Longrightarrow> refs_clean d \<Longrightarrow> refs_clean (d\<lparr>operations := os\<rparr>)"
  shows "safe sha d d'"
  using assms kept_refl [of d]
  by (auto simp: safe_def controller_inv_def attempts_readable_def active_accepted_def slugs_retired_def kept_def execute_Inr)

lemma safe_requests:
  assumes "execute (d\<lparr>idempotency_requests := rs\<rparr>) = Inr d'"
    and "schema_ok d \<Longrightarrow> rows_kept request_kept (idempotency_requests d) rs"
  shows "safe sha d d'"
  using assms kept_refl [of d]
  by (auto simp: safe_def controller_inv_def attempts_readable_def active_accepted_def slugs_retired_def refs_clean_def
      kept_def execute_Inr)

lemma safe_revisions:
  assumes "execute (d\<lparr>environment_revisions := rs\<rparr>) = Inr d'" and "rows_kept revision_kept (environment_revisions d) rs"
  shows "safe sha d d'"
  using assms kept_refl [of d]
  by (auto simp: safe_def controller_inv_def attempts_readable_def active_accepted_def slugs_retired_def refs_clean_def
      kept_def execute_Inr)

lemma safe_applications:
  assumes "execute (d\<lparr>applications := as\<rparr>) = Inr d'" and "rows_kept application_kept (applications d) as"
    and "schema_ok d \<Longrightarrow> slugs_retired d \<Longrightarrow> slugs_retired (d\<lparr>applications := as\<rparr>)"
  shows "safe sha d d'"
  using assms kept_refl [of d]
  by (auto simp: safe_def controller_inv_def attempts_readable_def active_accepted_def refs_clean_def kept_def execute_Inr)

lemma safe_actives:
  assumes "execute (d\<lparr>active_deployments := as\<rparr>) = Inr d'"
    and "schema_ok d \<Longrightarrow> active_accepted d \<Longrightarrow> active_accepted (d\<lparr>active_deployments := as\<rparr>)"
  shows "safe sha d d'"
  using assms kept_refl [of d]
  by (auto simp: safe_def controller_inv_def attempts_readable_def slugs_retired_def refs_clean_def kept_def execute_Inr)

lemma safe_tombstones:
  assumes "execute (d\<lparr>slug_tombstones := ts\<rparr>) = Inr d'" and "set (slug_tombstones d) \<subseteq> set ts"
    and "schema_ok d \<Longrightarrow> slugs_retired d \<Longrightarrow> slugs_retired (d\<lparr>slug_tombstones := ts\<rparr>)"
  shows "safe sha d d'"
  using assms kept_refl [of d]
  by (auto simp: safe_def controller_inv_def attempts_readable_def active_accepted_def refs_clean_def kept_def execute_Inr)

section \<open>Attempts\<close>

lemma readable_request_columns:
  assumes "request_columns a' = request_columns a" "readable sha a"
  shows "readable sha a'"
proof -
  have eq: "at_snapshot_kind a' = at_snapshot_kind a" "at_configuration_json a' = at_configuration_json a"
    "at_configuration_sha256 a' = at_configuration_sha256 a" "at_health_path a' = at_health_path a"
    "at_application_port a' = at_application_port a"
    using assms(1) by (auto simp: request_columns_def)
  obtain c where c: "deployment_attempt_of sha a = Inr \<lparr>av_row = a, av_configuration = Some c\<rparr>"
    using assms(2) by (auto simp: readable_def)
  then have "deployment_attempt_of sha a' = Inr \<lparr>av_row = a', av_configuration = Some c\<rparr>"
    unfolding deployment_attempt_of_def Let_def eq if_Inl_eq_Inr rbind_eq_Inr
    by (auto simp: rbind_eq_Inr split: if_splits)
  then show ?thesis using assms(2) eq by (auto simp: readable_def)
qed

lemma request_columns_id: "request_columns a' = request_columns a \<Longrightarrow> at_deployment_id a' = at_deployment_id a"
  by (simp add: request_columns_def)

lemma safe_update_attempts:
  assumes "update_attempts P f d = Inr d'" "\<And>a. accepted_evidence a \<Longrightarrow> accepted_evidence (f a)"
  shows "safe sha d d'"
proof -
  have f: "\<And>a. a \<in> set (deployment_attempts d) \<Longrightarrow> P a \<Longrightarrow> request_columns (f a) = request_columns a"
    and d': "d' = d\<lparr>deployment_attempts := update_where P f (deployment_attempts d)\<rparr>" "schema_ok d'"
    using assms(1) by (auto simp: update_attempts_Inr)
  have rows: "\<exists>a \<in> set (deployment_attempts d). request_columns a' = request_columns a \<and>
      (accepted_evidence a \<longrightarrow> accepted_evidence a')"
    if "a' \<in> set (deployment_attempts d')" for a'
    using that f assms(2) unfolding d'(1) by (auto elim!: in_update_whereE)
  have "attempts_readable sha d'" if "attempts_readable sha d"
    using that rows readable_request_columns unfolding attempts_readable_def by blast
  moreover have "active_accepted d'" if acc: "active_accepted d"
    unfolding active_accepted_def
  proof (intro ballI impI)
    fix act a'
    assume act: "act \<in> set (active_deployments d')" and a': "a' \<in> set (deployment_attempts d')"
      and id: "at_deployment_id a' = act_deployment_id act"
    obtain a where a: "a \<in> set (deployment_attempts d)" "request_columns a' = request_columns a"
        "accepted_evidence a \<longrightarrow> accepted_evidence a'"
      using rows [OF a'] by blast
    have "at_deployment_id a = act_deployment_id act" using id request_columns_id [OF a(2)] by simp
    then show "accepted_evidence a'"
      using acc a act unfolding active_accepted_def d'(1) by simp
  qed
  moreover have "rows_kept evidence_kept (deployment_attempts d) (deployment_attempts d')"
    unfolding d'(1) using f assms(2) by (auto simp: evidence_kept_def intro!: evk.rows_update)
  ultimately show ?thesis
    using d' kept_refl [of d] by (auto simp: safe_def controller_inv_def slugs_retired_def refs_clean_def kept_def)
qed

lemma safe_new_attempt:
  assumes "execute (d\<lparr>deployment_attempts := deployment_attempts d @ [a]\<rparr>) = Inr d'" "readable sha a"
  shows "safe sha d d'"
proof -
  have d': "d' = d\<lparr>deployment_attempts := deployment_attempts d @ [a]\<rparr>" "schema_ok d'"
    using assms(1) by (auto simp: execute_Inr)
  have "active_accepted d'" if ok: "schema_ok d" and acc: "active_accepted d"
  proof -
    have "act_deployment_id act \<noteq> at_deployment_id a" if "act \<in> set (active_deployments d)" for act
    proof -
      have "(act_application_id act, act_deployment_id act) \<in>
          (\<lambda>a. (at_application_id a, at_deployment_id a)) ` set (deployment_attempts d)"
        using schema_okD(6) [OF ok] that by (simp add: actives_ok_def list_all_iff)
      then obtain b where "b \<in> set (deployment_attempts d)" "at_deployment_id b = act_deployment_id act"
        by auto
      moreover have "at_deployment_id b \<noteq> at_deployment_id a" if "b \<in> set (deployment_attempts d)" for b
        using schema_okD(5) [OF d'(2)] that unfolding d'(1) by (auto simp: attempts_ok_def unique_on_append)
      ultimately show ?thesis by metis
    qed
    then show ?thesis using acc unfolding active_accepted_def d'(1) by fastforce
  qed
  then show ?thesis
    using d' assms(2) kept_refl [of d] evk.rows_append [of "deployment_attempts d" "[a]"]
    by (auto simp: safe_def controller_inv_def attempts_readable_def slugs_retired_def refs_clean_def kept_def)
qed

section \<open>The journal\<close>

lemma refs_clean_stored: "refs_json refs = Inr stored \<Longrightarrow> walk_refs (JObj stored) = Inr ()"
  using all_keys_sorted [of "JObj refs"] unfolding refs_json_Inr sorted_refs_obj by (simp only: walk_refs_keys) blast

lemma refs_clean_update:
  assumes "refs_clean d" "\<And>r. P r \<Longrightarrow> op_refs (f r) = op_refs r \<or> walk_refs (JObj (op_refs (f r))) = Inr ()"
  shows "refs_clean (d\<lparr>operations := update_where P f (operations d)\<rparr>)"
  unfolding refs_clean_def
proof
  fix r
  assume "r \<in> set (operations (d\<lparr>operations := update_where P f (operations d)\<rparr>))"
  then have "r \<in> set (update_where P f (operations d))" by simp
  then show "walk_refs (JObj (op_refs r)) = Inr ()"
  proof (rule in_update_whereE)
    fix r0
    assume "r0 \<in> set (operations d)" "P r0" "r = f r0"
    then show ?thesis using assms(1) assms(2) [of r0] unfolding refs_clean_def by metis
  qed (use assms(1) in \<open>simp add: refs_clean_def\<close>)
qed

lemma safe_update_unfinished:
  assumes "update_unfinished i f d = Inr (d', x)"
    and "\<And>r. op_operation_id (f r) = op_operation_id r \<and> op_kind (f r) = op_kind r \<and> op_scope (f r) = op_scope r \<and>
      op_started_at (f r) = op_started_at r \<and> op_finishing (f r) = op_finishing r"
    and "\<And>r. op_refs (f r) = op_refs r \<or> walk_refs (JObj (op_refs (f r))) = Inr ()"
  shows "safe sha d d'"
proof -
  have "execute (d\<lparr>operations := update_where (\<lambda>r. op_operation_id r = i \<and> op_unfinished r) f (operations d)\<rparr>) = Inr d'"
    using assms(1) by (auto simp: update_unfinished_Inr execute_def)
  then show ?thesis
  proof (rule safe_operations)
    show "rows_kept op_kept (operations d)
        (update_where (\<lambda>r. op_operation_id r = i \<and> op_unfinished r) f (operations d))"
      using assms(2) by (intro opk.rows_update) (simp add: op_kept_def)
    show "refs_clean d \<Longrightarrow>
        refs_clean (d\<lparr>operations := update_where (\<lambda>r. op_operation_id r = i \<and> op_unfinished r) f (operations d)\<rparr>)"
      by (erule refs_clean_update) (rule assms(3))
  qed
qed

lemma safe_then_read:
  assumes "then_read (transaction body db) (read_back get) = Inr (db', x)"
    and "\<And>d y. body (db\<lparr>in_transaction := True\<rparr>) = Inr (d, y) \<Longrightarrow> safe sha (db\<lparr>in_transaction := True\<rparr>) d"
  shows "safe sha db db'"
  using assms(1) unfolding then_read_Inr
proof (elim disjE exE conjE)
  fix d y
  assume "transaction body db = Inr (d, Some y)" "(db', x) = (d, y)"
  then show ?thesis using safe_transaction [of body db d "Some y" sha] assms(2) by simp
next
  fix d
  assume "transaction body db = Inr (d, None)" "read_back get d = Inr (db', x)"
  then show ?thesis using safe_transaction [of body db d None sha] assms(2) by (simp add: read_back_Inr)
qed

lemma safe_finish: "finish_operation i s e p c now db = Inr (db', r) \<Longrightarrow> safe sha db db'"
  unfolding finish_operation_def rbind_eq_Inr read_operation_def
  by (elim exE conjE, erule safe_then_read, erule safe_update_unfinished) auto

lemma safe_mark:
  "mark_recovery_required i e p now db = Inr (db', r) \<Longrightarrow> safe sha db db'"
  "record_finishing_failure i e now db = Inr (db', r) \<Longrightarrow> safe sha db db'"
  "mark_succeeded i c now db = Inr (db', r) \<Longrightarrow> safe sha db db'"
  "mark_failed i e c now db = Inr (db', r) \<Longrightarrow> safe sha db db'"
  unfolding mark_recovery_required_def record_finishing_failure_def mark_succeeded_def mark_failed_def
  by (auto intro: safe_finish split: option.splits if_splits)

lemma safe_renew: "renew_operation_deadline i dl now db = Inr (db', r) \<Longrightarrow> safe sha db db'"
  unfolding renew_operation_deadline_def rbind_eq_Inr read_operation_def
  by (elim exE conjE, erule safe_then_read, erule safe_update_unfinished) auto

lemma checkpoint_refs_clean:
  "checkpoint_refs i cp d = Inr (Some st) \<Longrightarrow> walk_refs (JObj st) = Inr ()"
  unfolding checkpoint_refs_def by (auto simp: rbind_eq_Inr simp del: walk_refs.simps dest: refs_clean_stored split: option.splits)

lemma safe_checkpoint: "checkpoint_operation i cp now db = Inr (db', r) \<Longrightarrow> safe sha db db'"
  unfolding checkpoint_operation_def rbind_eq_Inr read_operation_def
proof (elim exE conjE, erule safe_then_read)
  fix d y
  assume "rbind (checkpoint_refs i cp (db\<lparr>in_transaction := True\<rparr>)) (\<lambda>encoded.
      update_unfinished i (apply_checkpoint cp encoded now) (db\<lparr>in_transaction := True\<rparr>)) = Inr (d, y)"
  then obtain enc where enc: "checkpoint_refs i cp (db\<lparr>in_transaction := True\<rparr>) = Inr enc"
      "update_unfinished i (apply_checkpoint cp enc now) (db\<lparr>in_transaction := True\<rparr>) = Inr (d, y)"
    unfolding rbind_eq_Inr by blast
  show "safe sha (db\<lparr>in_transaction := True\<rparr>) d"
    using enc(2)
  proof (rule safe_update_unfinished)
    show "op_refs (apply_checkpoint cp enc now r) = op_refs r \<or>
        walk_refs (JObj (op_refs (apply_checkpoint cp enc now r))) = Inr ()" for r
      using enc(1) checkpoint_refs_clean by (cases enc) auto
  qed simp
qed

lemma safe_begin: "begin_operation i k s p dl refs now db = Inr (db', r) \<Longrightarrow> safe sha db db'"
proof -
  assume b: "begin_operation i k s p dl refs now db = Inr (db', r)"
  have "controller_inv sha db' \<and> kept db db'" if inv: "controller_inv sha db"
  proof -
    obtain st where st: "refs_json refs = Inr st" "r = begin_row i k s p dl st now"
        "db' = db\<lparr>operations := operations db @ [r]\<rparr>" "schema_ok db'"
      using b inv begin_operation_Inr [of db] by (auto simp: controller_inv_def)
    have "execute (db\<lparr>operations := operations db @ [r]\<rparr>) = Inr db'"
      using st by (simp add: execute_def)
    then have "safe sha db db'"
    proof (rule safe_operations)
      show "rows_kept op_kept (operations db) (operations db @ [r])" by (rule opk.rows_append)
      show "refs_clean db \<Longrightarrow> refs_clean (db\<lparr>operations := operations db @ [r]\<rparr>)"
        using refs_clean_stored [OF st(1)] st(2) by (simp add: refs_clean_def del: walk_refs.simps)
    qed
    then show ?thesis using inv by (simp add: safe_def)
  qed
  then show "safe sha db db'" by (simp add: safe_def)
qed

lemma safe_dispatches: "execute (d\<lparr>operation_dispatches := ds\<rparr>) = Inr d' \<Longrightarrow> safe sha d d'"
  by (auto simp: execute_Inr intro!: safe_frame)

lemma safe_set_result:
  assumes "set_request_result i kind rid now d = Inr d'"
    and "\<And>r. r \<in> set (idempotency_requests d) \<Longrightarrow> rq_request_id r = i \<Longrightarrow> rq_result_id r \<in> {None, Some rid}"
  shows "safe sha d d'"
proof -
  have "execute (d\<lparr>idempotency_requests := update_where (\<lambda>r. rq_request_id r = i)
       (\<lambda>r. r\<lparr>rq_result_kind := Some kind, rq_result_id := Some rid, rq_completed_at := Some now\<rparr>)
       (idempotency_requests d)\<rparr>) = Inr d'"
    using assms(1) by (simp add: set_request_result_def)
  then show ?thesis
    by (rule safe_requests) (use assms(2) in \<open>fastforce simp: request_kept_def intro!: rqk.rows_update\<close>)
qed

lemma safe_claim: "claim_idempotency_request i fp now db = Inr (db', r) \<Longrightarrow> safe sha db db'"
proof -
  assume "claim_idempotency_request i fp now db = Inr (db', r)"
  from claim_Inr [OF this] consider "db' = db" | "schema_ok db'"
      "db' = db\<lparr>idempotency_requests := idempotency_requests db @ [request_row i fp now]\<rparr>" by blast
  then show "safe sha db db'"
  proof cases
    case 2
    then have "execute (db\<lparr>idempotency_requests := idempotency_requests db @ [request_row i fp now]\<rparr>) = Inr db'"
      by (simp add: execute_def)
    then show ?thesis by (rule safe_requests) (rule rqk.rows_append)
  qed (simp add: safe_refl)
qed

lemma request_result_unique:
  assumes "schema_ok d" "find_where (\<lambda>r. rq_request_id r = i) (idempotency_requests d) = Some r"
    and "x \<in> set (idempotency_requests d)" "rq_request_id x = i"
  shows "x = r"
  using schema_okD(1) [OF assms(1)] find_where_SomeD [OF assms(2)] assms(3,4)
  by (auto simp: requests_ok_def intro: unique_on_same)

section \<open>A calculus for handlers\<close>

text \<open>Whatever a handler leaves is safe for the database it started from.\<close>

definition keeps :: "(string \<Rightarrow> string) \<Rightarrow> db \<Rightarrow> (db \<times> 'a) result \<Rightarrow> bool" where
  "keeps sha d m \<longleftrightarrow> (\<forall>d' x. m = Inr (d', x) \<longrightarrow> safe sha d d')"

lemma keeps_error [simp]: "keeps sha d (Inl e)"
  by (simp add: keeps_def)

lemma keeps_return [simp]: "keeps sha d (Inr (d', x)) = safe sha d d'"
  by (simp add: keeps_def)

lemma keeps_bind: "(\<And>x. r = Inr x \<Longrightarrow> keeps sha d (k x)) \<Longrightarrow> keeps sha d (rbind r k)"
  by (cases r) simp_all

lemma keeps_if: "(P \<Longrightarrow> keeps sha d a) \<Longrightarrow> (\<not> P \<Longrightarrow> keeps sha d b) \<Longrightarrow> keeps sha d (if P then a else b)"
  by simp

lemma keeps_option:
  "(x = None \<Longrightarrow> keeps sha d n) \<Longrightarrow> (\<And>y. x = Some y \<Longrightarrow> keeps sha d (s y)) \<Longrightarrow>
   keeps sha d (case x of None \<Rightarrow> n | Some y \<Rightarrow> s y)"
  by (cases x) simp_all

lemma keeps_inv: "(controller_inv sha d \<Longrightarrow> keeps sha d m) \<Longrightarrow> keeps sha d m"
  by (auto simp: keeps_def safe_def)

lemma keeps_transaction: "(\<And>d. keeps sha d (body d)) \<Longrightarrow> keeps sha db (transaction body db)"
  unfolding keeps_def by (auto elim!: safe_transaction)

lemma keeps_acceptance: "(\<And>d. keeps sha d (body d)) \<Longrightarrow> keeps sha db (acceptance_write w body db)"
  by (simp add: acceptance_write_def keeps_transaction)

lemma keeps_after: "keeps sha db m \<Longrightarrow> keeps sha db (then_read m (read_back get))"
  by (auto simp: keeps_def then_read_Inr read_back_Inr)

lemmas keeps_steps = keeps_bind keeps_if keeps_option keeps_transaction keeps_acceptance keeps_after safe_refl

lemma safe_inv_cases: "(controller_inv sha d \<Longrightarrow> safe sha d d') \<Longrightarrow> safe sha d d'"
  by (auto simp: safe_def)

lemma inv_schema: "controller_inv sha d \<Longrightarrow> schema_ok d"
  by (simp add: controller_inv_def)

text \<open>The rows a key identifies.\<close>

lemma request_unique:
  assumes "schema_ok d" "get_idempotency_request i d = Inr (Some r)" "x \<in> set (idempotency_requests d)" "rq_request_id x = i"
  shows "x = r"
  using assms request_result_unique [of d i r x] by (auto simp: get_request_Inr)

lemma operation_unique:
  assumes "schema_ok d" "get_operation i d = Some r" "x \<in> set (operations d)" "op_operation_id x = i"
  shows "x = r"
  using schema_okD(3) [OF assms(1)] find_where_SomeD [OF assms(2) [unfolded get_operation_def]] assms(3,4)
  by (auto simp: operations_ok_def intro: unique_on_same)

lemma keeps_complete: "keeps sha db (complete_idempotency_request i kind rid now db)"
  unfolding complete_idempotency_request_def
proof (intro keeps_steps)
  fix i kind rid d existing r d'
  assume get: "get_idempotency_request i d = Inr existing" "existing = Some r" "\<not> rq_result_id r \<noteq> None"
    and upd: "set_request_result i kind rid now d = Inr d'"
  show "keeps sha d (Inr (d', None :: idempotency_request option))"
  proof (rule keeps_inv)
    assume "controller_inv sha d"
    then show ?thesis
      using safe_set_result [OF upd] request_unique [OF inv_schema] get by fastforce
  qed
qed (simp_all add: safe_refl)

lemma keeps_enqueue: "keeps sha db (enqueue_operation_dispatch i k s now db)"
  unfolding enqueue_operation_dispatch_def
proof (intro keeps_steps)
  fix i k s d existing x d1 d2
  assume adm: "admit_dispatch i k s d = Inr x"
    and ex: "execute (d\<lparr>operation_dispatches := operation_dispatches d @ [dispatch_row i k s now]\<rparr>) = Inr d1"
    and upd: "set_request_result i ''operation'' i now d1 = Inr d2"
  show "keeps sha d (Inr (d2, None :: (operation_dispatch \<times> bool) option))"
  proof (rule keeps_inv)
    assume inv: "controller_inv sha d"
    have "rq_result_id r \<in> {None, Some i}" if "r \<in> set (idempotency_requests d1)" "rq_request_id r = i" for r
      using adm ex that request_result_unique [OF inv_schema [OF inv], of i _ r]
      by (auto simp: admit_dispatch_Inr execute_Inr)
    then show ?thesis
      using safe_trans [OF safe_dispatches [OF ex] safe_set_result [OF upd]] by simp
  qed
qed (simp_all add: safe_refl)

lemma safe_set_refs:
  assumes "set_refs i refs d = Inr d'" "walk_refs (JObj refs) = Inr ()"
  shows "safe sha d d'"
  using assms(1) unfolding set_refs_def
proof (rule safe_operations)
  let ?f = "\<lambda>r. r\<lparr>op_refs := refs\<rparr>"
  show "rows_kept op_kept (operations d) (update_where (\<lambda>r. op_operation_id r = i) ?f (operations d))"
    by (intro opk.rows_update) (simp add: op_kept_def op_unfinished_def)
  show "refs_clean d \<Longrightarrow> refs_clean (d\<lparr>operations := update_where (\<lambda>r. op_operation_id r = i) ?f (operations d)\<rparr>)"
    by (erule refs_clean_update) (simp add: assms(2) del: walk_refs.simps)
qed

lemma keeps_requeue: "keeps sha db (requeue_recovery_dispatch i k s now automatic db)"
  unfolding requeue_recovery_dispatch_def Let_def
proof (intro keeps_steps)
  fix i d d1 d2
  assume fin: "(if op_finishing (the (get_operation i d))
      then rbind (requeue_retry (op_refs (the (get_operation i d))) now automatic) (\<lambda>retry.
           rbind (refs_json (dict_merge (op_refs (the (get_operation i d))) [(''finishing_retry'', JObj retry)])) (\<lambda>refs.
           set_refs i refs d))
      else Inr d) = Inr d1"
    and upd: "execute (d1\<lparr>operation_dispatches := update_where
        (\<lambda>x. dp_operation_id x = i \<and> dp_status x = ''recovery_required'')
        (\<lambda>x. x\<lparr>dp_status := ''pending'', dp_updated_at := now, dp_safe_error := None\<rparr>) (operation_dispatches d1)\<rparr>) = Inr d2"
  have "safe sha d d1"
    using fin refs_clean_stored safe_set_refs by (auto simp: rbind_eq_Inr safe_refl simp del: walk_refs.simps split: if_splits)
  then show "keeps sha d (Inr (d2, None :: operation_dispatch option))"
    using safe_trans [OF _ safe_dispatches [OF upd]] by simp
qed simp_all

lemma keeps_dispatch_status: "keeps sha db (set_operation_dispatch_status i st e now db)"
  unfolding set_operation_dispatch_status_def Let_def
  by (intro keeps_steps) (simp_all add: safe_dispatches)

lemma safe_mark_finishing_row:
  assumes "execute (d\<lparr>operations := update_where (\<lambda>r. op_operation_id r = i)
      (\<lambda>r. r\<lparr>op_finishing := True, op_cleanup_state := ''pending''\<rparr>) (operations d)\<rparr>) = Inr d'"
  shows "safe sha d d'"
  using assms
proof (rule safe_operations)
  let ?f = "\<lambda>r. r\<lparr>op_finishing := True, op_cleanup_state := ''pending''\<rparr>"
  show "rows_kept op_kept (operations d) (update_where (\<lambda>r. op_operation_id r = i) ?f (operations d))"
    by (intro opk.rows_update) (simp add: op_kept_def op_unfinished_def)
  show "refs_clean d \<Longrightarrow> refs_clean (d\<lparr>operations := update_where (\<lambda>r. op_operation_id r = i) ?f (operations d)\<rparr>)"
    by (erule refs_clean_update) simp
qed

lemma keeps_mark_finishing: "keeps sha db (mark_operation_finishing i w db)"
  unfolding mark_operation_finishing_def
proof (intro keeps_steps)
  fix d d1 d2
  assume "execute (d\<lparr>operations := update_where (\<lambda>r. op_operation_id r = i)
      (\<lambda>r. r\<lparr>op_finishing := True, op_cleanup_state := ''pending''\<rparr>) (operations d)\<rparr>) = Inr d1"
    and "execute (d1\<lparr>operation_dispatches := update_where (\<lambda>r. dp_operation_id r = i)
      (\<lambda>r. r\<lparr>dp_finishing := True\<rparr>) (operation_dispatches d1)\<rparr>) = Inr d2"
  then show "keeps sha d (Inr (d2, ()))"
    using safe_trans [OF safe_mark_finishing_row safe_dispatches] by simp
qed simp

lemma keeps_schedule: "keeps sha db (schedule later i e now db)"
  unfolding schedule_def Let_def
proof (intro keeps_steps)
  fix d r retry attempts next_at refs d1
  assume get: "get_operation i d = Some r" and st: "\<not> (\<not> op_finishing r \<or> op_status r \<in> {''succeeded'', ''failed''})"
    and refs: "refs_json (dict_merge (op_refs r) [(''finishing_retry'', JObj (dict_put ''next_at'' (next_at_json next_at)
        (dict_put ''attempts'' (JInt attempts) retry)))]) = Inr refs"
    and upd: "execute (d\<lparr>operations := update_where (\<lambda>x. op_operation_id x = i)
      (\<lambda>x. x\<lparr>op_status := (if next_at = None then ''recovery_required'' else ''running''),
              op_refs := refs, op_safe_error := Some (safe_summary e), op_updated_at := now\<rparr>) (operations d)\<rparr>) = Inr d1"
  let ?f = "\<lambda>x. x\<lparr>op_status := (if next_at = None then ''recovery_required'' else ''running''),
              op_refs := refs, op_safe_error := Some (safe_summary e), op_updated_at := now\<rparr>"
  have "safe sha d d1"
    using upd
  proof (rule safe_operations)
    assume ok: "schema_ok d"
    have "op_unfinished r"
      using operation_row [OF ok, of r] find_where_SomeD [OF get [unfolded get_operation_def]] st by (auto simp: operation_row_ok_def op_unfinished_def unfinished_statuses_def)
    then show "rows_kept op_kept (operations d) (update_where (\<lambda>x. op_operation_id x = i) ?f (operations d))"
      using operation_unique [OF ok get] by (intro opk.rows_update) (auto simp: op_kept_def)
    show "refs_clean d \<Longrightarrow> refs_clean (d\<lparr>operations := update_where (\<lambda>x. op_operation_id x = i) ?f (operations d)\<rparr>)"
      by (erule refs_clean_update) (simp add: refs_clean_stored [OF refs] del: walk_refs.simps)
  qed
  then show "keeps sha d (Inr (d1, next_at \<noteq> None))" by simp
qed (simp_all add: safe_refl)

section \<open>Applications\<close>

lemma keeps_default_flavor: "keeps sha db (put_default_builder_flavor f db)"
  unfolding put_default_builder_flavor_def
  by (intro keeps_steps) (auto simp: execute_Inr intro!: safe_frame)

lemma keeps_image_selection: "keeps sha db (put_image_selection role i n c h at db)"
  unfolding put_image_selection_def Let_def
  by (intro keeps_steps) (auto simp: execute_Inr intro!: safe_frame)

lemma slugs_retired_update:
  assumes "slugs_retired d" "\<And>a. a \<in> set (applications d) \<Longrightarrow> P a \<Longrightarrow>
    app_slug (f a) = app_slug a \<and> app_application_id (f a) = app_application_id a"
  shows "slugs_retired (d\<lparr>applications := update_where P f (applications d)\<rparr>)"
  unfolding slugs_retired_def
proof (intro ballI impI)
  fix a t
  assume a: "a \<in> set (applications (d\<lparr>applications := update_where P f (applications d)\<rparr>))"
    and t: "t \<in> set (slug_tombstones (d\<lparr>applications := update_where P f (applications d)\<rparr>))" "ts_slug t = app_slug a"
  have "a \<in> set (update_where P f (applications d))" using a by simp
  then obtain a0 where "a0 \<in> set (applications d)" "app_slug a = app_slug a0" "app_application_id a = app_application_id a0"
    using assms(2) by (auto elim!: in_update_whereE)
  then show "ts_application_id t = app_application_id a"
    using assms(1) t unfolding slugs_retired_def by simp
qed

lemma safe_update_applications:
  assumes "execute (d\<lparr>applications := update_where P f (applications d)\<rparr>) = Inr d'"
    and "\<And>a. app_slug (f a) = app_slug a \<and> app_application_id (f a) = app_application_id a \<and>
      app_created_at (f a) = app_created_at a"
  shows "safe sha d d'"
  using assms(1)
proof (rule safe_applications)
  show "rows_kept application_kept (applications d) (update_where P f (applications d))"
    using assms(2) by (intro apk.rows_update) (simp add: application_kept_def)
  show "slugs_retired d \<Longrightarrow> slugs_retired (d\<lparr>applications := update_where P f (applications d)\<rparr>)"
    by (erule slugs_retired_update) (simp add: assms(2))
qed

lemma safe_update_actives:
  assumes "execute (d\<lparr>active_deployments := update_where P f (active_deployments d)\<rparr>) = Inr d'"
    and "\<And>a. act_deployment_id (f a) = act_deployment_id a"
  shows "safe sha d d'"
  using assms(1)
proof (rule safe_actives)
  assume "active_accepted d"
  then show "active_accepted (d\<lparr>active_deployments := update_where P f (active_deployments d)\<rparr>)"
    using assms(2) by (auto simp: active_accepted_def elim!: in_update_whereE)
qed

lemma keeps_application_flavor: "keeps sha db (put_application_builder_flavor i f now db)"
  unfolding put_application_builder_flavor_def Let_def
  by (intro keeps_steps) (auto intro: safe_update_applications)

lemma safe_rename_tombstone:
  assumes "execute (d\<lparr>slug_tombstones := slug_tombstones d @ [t]\<rparr>) = Inr d'"
    and "a \<in> set (applications d)" "ts_slug t = app_slug a" "ts_application_id t = app_application_id a"
  shows "safe sha d d'"
  using assms(1)
proof (rule safe_tombstones)
  assume ok: "schema_ok d" and ret: "slugs_retired d"
  have "b = a" if "b \<in> set (applications d)" "app_slug b = app_slug a" for b
    using schema_okD(4) [OF ok] assms(2) that by (auto simp: applications_ok_def intro: unique_on_same)
  then show "slugs_retired (d\<lparr>slug_tombstones := slug_tombstones d @ [t]\<rparr>)"
    using ret assms(3,4) by (auto simp: slugs_retired_def)
qed auto

lemma safe_put_row:
  assumes "execute (d\<lparr>applications := upsert (\<lambda>a. app_application_id a = in_application_id i)
      (apply_input i now) (input_row i now) (applications d)\<rparr>) = Inr d'"
    and "\<And>t. t \<in> set (slug_tombstones d) \<Longrightarrow> ts_slug t \<noteq> in_slug i"
  shows "safe sha d d'"
  using assms(1)
proof (rule safe_applications)
  show "rows_kept application_kept (applications d) (upsert (\<lambda>a. app_application_id a = in_application_id i)
      (apply_input i now) (input_row i now) (applications d))"
    by (intro apk.rows_upsert) (simp add: application_kept_def apply_input_def)
  show "slugs_retired d \<Longrightarrow> slugs_retired (d\<lparr>applications := upsert (\<lambda>a. app_application_id a = in_application_id i)
      (apply_input i now) (input_row i now) (applications d)\<rparr>)"
    using assms(2) by (auto simp: slugs_retired_def upsert_def apply_input_def input_row_def elim!: in_update_whereE)
qed

lemma safe_put_revision:
  "execute (d\<lparr>environment_revisions := upsert (\<lambda>r. er_application_id r = i) id new (environment_revisions d)\<rparr>) = Inr d'
   \<Longrightarrow> safe sha d d'"
  by (erule safe_revisions) (auto simp: revision_kept_def intro: rvk.rows_upsert)

lemma keeps_put_application: "keeps sha db (put_application i now w db)"
  unfolding put_application_def put_application_statements_def Let_def
proof (intro keeps_steps)
  let ?mine = "\<lambda>a. app_application_id a = in_application_id i"
  fix d d1 d2 d3 d4
  assume free: "\<not> list_ex (\<lambda>t. ts_slug t = in_slug i) (slug_tombstones d)"
    and t: "(case find_where ?mine (applications d) of None \<Rightarrow> Inr d
      | Some a \<Rightarrow> if app_slug a \<noteq> in_slug i
          then execute (d\<lparr>slug_tombstones := slug_tombstones d @
                 [\<lparr>ts_slug = app_slug a, ts_application_id = in_application_id i, ts_deleted_at = now\<rparr>]\<rparr>)
          else Inr d) = Inr d1"
    and put: "execute (d1\<lparr>applications := upsert ?mine (apply_input i now) (input_row i now) (applications d1)\<rparr>) = Inr d2"
    and rev: "execute (d2\<lparr>environment_revisions := upsert (\<lambda>r. er_application_id r = in_application_id i) id
      \<lparr>er_application_id = in_application_id i, er_revision = 0, er_updated_at = now\<rparr> (environment_revisions d2)\<rparr>) = Inr d3"
    and act: "execute (d3\<lparr>active_deployments := update_where (\<lambda>a. act_application_id a = in_application_id i)
      (\<lambda>a. a\<lparr>act_lifecycle_state := lifecycle_of (in_desired_running i), act_updated_at := now\<rparr>)
      (active_deployments d3)\<rparr>) = Inr d4"
  have one: "safe sha d d1 \<and> (\<forall>t \<in> set (slug_tombstones d1). ts_slug t \<noteq> in_slug i)"
  proof (cases "\<exists>a. find_where ?mine (applications d) = Some a \<and> app_slug a \<noteq> in_slug i")
    case True
    then obtain a where a: "find_where ?mine (applications d) = Some a" "app_slug a \<noteq> in_slug i" by blast
    have ex: "execute (d\<lparr>slug_tombstones := slug_tombstones d @
        [\<lparr>ts_slug = app_slug a, ts_application_id = in_application_id i, ts_deleted_at = now\<rparr>]\<rparr>) = Inr d1"
      using t a by simp
    show ?thesis
      using safe_rename_tombstone [OF ex, of a] find_where_SomeD [OF a(1)] ex a(2) free
      by (auto simp: execute_Inr list_ex_iff)
  next
    case False
    then have "d1 = d" using t by (auto split: option.splits)
    then show ?thesis using free by (simp add: safe_refl list_ex_iff)
  qed
  have four: "safe sha d3 d4" using act by (rule safe_update_actives) simp
  have "safe sha d1 d2" using put by (rule safe_put_row) (use one in blast)
  then have "safe sha d d2" using safe_trans [OF conjunct1 [OF one]] by simp
  then have "safe sha d d4"
    by (rule safe_trans [OF _ safe_trans [OF safe_put_revision [OF rev] four]])
  then show "keeps sha d (Inr (d4, ()))" by simp
qed simp_all

lemma keeps_set_runtime: "keeps sha db (set_application_runtime i running w v now within db)"
  unfolding set_application_runtime_def set_runtime_statements_def Let_def
proof (intro keeps_steps)
  let ?mine = "\<lambda>a. app_application_id a = ident"
  fix ident d d1
  assume app: "execute (d\<lparr>applications := update_where (\<lambda>a. app_application_id a = ident)
      (\<lambda>a. a\<lparr>app_desired_running := running, app_worker_server_id := wp_server_id w,
        app_worker_server_name := wp_server_name w, app_worker_port_id := wp_port_id w,
        app_worker_port_name := wp_port_name w, app_updated_at := now\<rparr>) (applications d)\<rparr>) = Inr d1"
  have one: "safe sha d d1" using app by (rule safe_update_applications) simp
  then show "keeps sha d (Inr (d1, ()))" by simp
  fix active d2
  assume act: "execute (d1\<lparr>active_deployments := update_where (\<lambda>a. act_application_id a = ident)
      (\<lambda>a. a\<lparr>act_lifecycle_state := lifecycle_of running, act_updated_at := now\<rparr>) (active_deployments d1)\<rparr>) = Inr d2"
  have "safe sha d1 d2" using act by (rule safe_update_actives) simp
  then have two: "safe sha d d2" using one safe_trans by blast
  then show "keeps sha d (Inr (d2, ()))" by simp
  fix ver d3
  assume "update_attempts (\<lambda>a. at_deployment_id a = act_deployment_id active \<and> at_application_id a = ident)
      (\<lambda>a. a\<lparr>at_nomad_version := Some ver, at_last_healthy_at := Some now, at_updated_at := now\<rparr>) d2 = Inr d3"
  then have "safe sha d2 d3" by (rule safe_update_attempts) (simp add: accepted_evidence_def)
  then show "keeps sha d (Inr (d3, ()))" using two safe_trans by auto
qed simp_all

section \<open>Deployment attempts\<close>

text \<open>A configuration the parser made, which is the only way the services obtain one.\<close>

lemma attempt_row_readable:
  assumes "parse_configuration v = Inr (ai_configuration i)"
  shows "readable sha (attempt_row sha i now)"
  using parse_configuration_canonical [OF parse_configuration_ok [OF assms]]
  by (simp add: readable_def deployment_attempt_of_def attempt_row_def canonical_json_def Let_def)

lemma keeps_create_attempt:
  assumes "parse_configuration v = Inr (ai_configuration i)"
  shows "keeps sha db (create_deployment_attempt sha i now db)"
  unfolding create_deployment_attempt_def
proof (intro keeps_steps)
  fix d replay d1 d2
  assume replay: "attempt_replay sha i d = Inr replay"
    and ins: "execute (d\<lparr>deployment_attempts := deployment_attempts d @ [attempt_row sha i now]\<rparr>) = Inr d1"
    and upd: "set_request_result (ai_idempotency_request_id i) ''deployment'' (ai_deployment_id i) now d1 = Inr d2"
  show "keeps sha d (Inr (d2, None :: attempt_view option))"
  proof (rule keeps_inv)
    assume inv: "controller_inv sha d"
    obtain r where r: "get_idempotency_request (ai_idempotency_request_id i) d = Inr (Some r)"
        "rq_result_id r \<in> {None, Some (ai_deployment_id i)}"
      using replay unfolding attempt_replay_def rbind_eq_Inr by (auto split: option.splits if_splits)
    have "rq_result_id x \<in> {None, Some (ai_deployment_id i)}"
      if "x \<in> set (idempotency_requests d1)" "rq_request_id x = ai_idempotency_request_id i" for x
      using request_unique [OF inv_schema [OF inv] r(1)] r(2) that ins by (auto simp: execute_Inr)
    then show ?thesis
      using safe_trans [OF safe_new_attempt [OF ins attempt_row_readable [OF assms]] safe_set_result [OF upd]] by simp
  qed
qed (simp_all add: safe_refl)

lemma accepted_apply_evidence: "accepted_evidence a \<Longrightarrow> accepted_evidence (apply_evidence e now a)"
  by (auto simp: accepted_evidence_def apply_evidence_def Let_def keep_or_def split: option.splits)

lemma or_incomplete_Inr [simp]: "or_incomplete m = Inr d \<longleftrightarrow> m = Inr d"
proof (cases m)
  case (Inl e)
  then show ?thesis by (cases e) (simp_all add: or_incomplete_def)
qed (simp add: or_incomplete_def)

lemma succeeded_accepted:
  assumes "update_attempts (\<lambda>a. at_deployment_id a = i) (apply_evidence e now) d = Inr d1" "ev_status e = ''succeeded''"
    and "a \<in> set (deployment_attempts d1)" "at_deployment_id a = i"
  shows "accepted_evidence a"
proof -
  have d1: "d1 = d\<lparr>deployment_attempts := update_where (\<lambda>a. at_deployment_id a = i) (apply_evidence e now) (deployment_attempts d)\<rparr>"
      "schema_ok d1"
    using assms(1) by (auto simp: update_attempts_Inr)
  have "a \<in> set (update_where (\<lambda>a. at_deployment_id a = i) (apply_evidence e now) (deployment_attempts d))"
    using assms(3) unfolding d1(1) by simp
  then have "at_status a = ''succeeded''"
  proof (rule in_update_whereE)
    fix b
    assume "a = apply_evidence e now b"
    then show ?thesis using assms(2) by (simp add: apply_evidence_def Let_def)
  qed (use assms(4) in simp)
  then show ?thesis
    using schema_okD(5) [OF d1(2)] assms(3) by (auto simp: attempts_ok_def list_all_iff attempt_row_ok_def)
qed

lemma safe_activate:
  assumes "execute (d\<lparr>active_deployments := upsert (\<lambda>a. act_application_id a = app) (\<lambda>_. new) new (active_deployments d)\<rparr>) = Inr d'"
    and "\<And>a. a \<in> set (deployment_attempts d) \<Longrightarrow> at_deployment_id a = act_deployment_id new \<Longrightarrow> accepted_evidence a"
  shows "safe sha d d'"
  using assms(1)
proof (rule safe_actives)
  assume "active_accepted d"
  then show "active_accepted (d\<lparr>active_deployments :=
      upsert (\<lambda>a. act_application_id a = app) (\<lambda>_. new) new (active_deployments d)\<rparr>)"
    using assms(2) by (auto simp: active_accepted_def upsert_def elim!: in_update_whereE)
qed

lemma keeps_checkpoint_attempt: "keeps sha db (checkpoint_deployment_attempt sha i e now w db)"
  unfolding checkpoint_deployment_attempt_def checkpoint_attempt_statements_def Let_def or_incomplete_Inr
proof (intro keeps_steps)
  fix i d v d1
  assume upd: "or_incomplete (update_attempts (\<lambda>a. at_deployment_id a = i) (apply_evidence e now) d) = Inr d1"
  have one: "safe sha d d1"
    using upd accepted_apply_evidence by (simp add: safe_update_attempts)
  then show "keeps sha d (Inr (d1, None :: attempt_view option))" by simp
  fix d2 d3
  let ?new = "\<lparr>act_application_id = at_application_id (av_row v), act_deployment_id = i,
    act_lifecycle_state = ''running'', act_updated_at = now\<rparr>"
  assume st: "ev_status e = ''succeeded''"
    and act: "execute (d1\<lparr>active_deployments := upsert (\<lambda>a. act_application_id a = at_application_id (av_row v))
        (\<lambda>_. ?new) ?new (active_deployments d1)\<rparr>) = Inr d2"
    and app: "execute (d2\<lparr>applications := update_where (\<lambda>a. app_application_id a = at_application_id (av_row v))
        (\<lambda>a. a\<lparr>app_desired_running := True, app_updated_at := now\<rparr>) (applications d2)\<rparr>) = Inr d3"
  have two: "safe sha d1 d2"
    using act by (rule safe_activate) (use succeeded_accepted [of i e now d d1] upd st in auto)
  have "safe sha d2 d3" using app by (rule safe_update_applications) simp
  then show "keeps sha d (Inr (d3, None :: attempt_view option))"
    using safe_trans [OF one safe_trans [OF two]] by simp
qed simp_all

lemma keeps_advance: "keeps sha db (advance_environment_revision i n now db)"
  unfolding advance_environment_revision_def Let_def
proof (intro keeps_steps)
  fix i d d1
  assume "execute (d\<lparr>environment_revisions := update_where (\<lambda>r. er_application_id r = i \<and> er_revision r = n)
      (\<lambda>r. r\<lparr>er_revision := er_revision r + 1, er_updated_at := now\<rparr>) (environment_revisions d)\<rparr>) = Inr d1"
  then have "safe sha d d1"
    by (rule safe_revisions) (auto simp: revision_kept_def intro!: rvk.rows_update)
  then show "keeps sha d (Inr (d1, None :: environment_revision option))" by simp
qed simp

section \<open>Resources, keys and deletion\<close>

lemma safe_resources: "execute (d\<lparr>managed_resources := rs\<rparr>) = Inr d' \<Longrightarrow> safe sha d d'"
  by (auto simp: execute_Inr intro!: safe_frame)

lemma safe_keys: "execute (d\<lparr>environment_keys := ks\<rparr>) = Inr d' \<Longrightarrow> safe sha d d'"
  by (auto simp: execute_Inr intro!: safe_frame)

lemma keeps_update_resource: "keeps sha d (update_resource i f d)"
  unfolding update_resource_def Let_def by (intro keeps_steps) (simp_all add: safe_resources)

lemma keeps_fst: "keeps sha db m \<Longrightarrow> keeps sha db (rbind m (\<lambda>(d, x). read_back (get x) d))"
  by (auto simp: keeps_def rbind_eq_Inr read_back_Inr)

lemma keeps_put_resource: "keeps sha db (put_managed_resource i fresh now db)"
  unfolding put_managed_resource_def Let_def
  by (intro keeps_bind [of "uuid a b" for a b] keeps_bind [of "resource_name a" for a]
      keeps_bind [of "display_label a" for a] keeps_bind [of "optional_check a b" for a b] keeps_fst)
     (intro keeps_steps; simp add: safe_resources)

lemma keeps_resources:
  "keeps sha db (rename_managed_resource i l now db)" "keeps sha db (delete_managed_resource i ty n db)"
  "keeps sha db (put_storage_usage i u b db)" "keeps sha db (put_storage_limits i q u b now db)"
  "keeps sha db (set_storage_instance i inst port m db)"
  unfolding rename_managed_resource_def delete_managed_resource_def put_storage_usage_def put_storage_limits_def
    set_storage_instance_def
  by (intro keeps_steps keeps_update_resource; simp add: safe_resources)+

lemma keeps_lifecycle: "keeps sha db (set_managed_resource_lifecycle i st now db)"
  unfolding set_managed_resource_lifecycle_def
proof (intro keeps_bind [of "uuid a b" for a b] keeps_if)
  fix j
  let ?m = "transaction (update_resource j (\<lambda>r. r\<lparr>res_lifecycle_state := st, res_updated_at := now\<rparr>)) db"
  have "keeps sha db ?m" by (rule keeps_transaction [OF keeps_update_resource])
  then show "keeps sha db (rbind ?m (\<lambda>(d, _). Inr (d, ())))" by (auto simp: keeps_def rbind_eq_Inr)
qed simp

lemma keeps_host_usage: "keeps sha db (put_storage_host_usage u db)"
  unfolding put_storage_host_usage_def
  by (intro keeps_steps) (auto simp: execute_Inr intro!: safe_frame)

lemma keeps_environment_keys: "keeps sha db (set_environment_keys i own ks db)"
  unfolding set_environment_keys_def Let_def
  by (intro keeps_steps, simp_all) (erule safe_trans [OF safe_keys], erule safe_keys)

lemma safe_retire:
  assumes "retire_application i now a d = Inr d'" "get_application_including_tombstone i d = Some a"
  shows "safe sha d d'"
proof -
  let ?t = "\<lparr>ts_slug = app_slug a, ts_application_id = i, ts_deleted_at = now\<rparr>"
  obtain d1 d2 d3 where
    t: "execute (d\<lparr>slug_tombstones := upsert (\<lambda>t. ts_slug t = app_slug a) id ?t (slug_tombstones d)\<rparr>) = Inr d1"
    and k: "execute (d1\<lparr>environment_keys := delete_where (\<lambda>k. ek_application_id k = i) (environment_keys d1)\<rparr>) = Inr d2"
    and app: "execute (d2\<lparr>applications := update_where (\<lambda>x. app_application_id x = i)
               (\<lambda>x. x\<lparr>app_desired_running := False, app_url := None, app_worker_server_id := None,
                       app_worker_server_name := None, app_worker_port_id := None, app_worker_port_name := None,
                       app_updated_at := now\<rparr>) (applications d2)\<rparr>) = Inr d3"
    and act: "execute (d3\<lparr>active_deployments := update_where (\<lambda>x. act_application_id x = i)
               (\<lambda>x. x\<lparr>act_lifecycle_state := ''stopped'', act_updated_at := now\<rparr>) (active_deployments d3)\<rparr>) = Inr d'"
    using assms(1) unfolding retire_application_def Let_def rbind_eq_Inr by blast
  have a: "a \<in> set (applications d)" "app_application_id a = i"
    using find_where_SomeD [OF assms(2) [unfolded get_application_including_tombstone_def]] by auto
  have "safe sha d d1"
  proof (cases "list_ex (\<lambda>t. ts_slug t = app_slug a) (slug_tombstones d)")
    case True
    have "update_where (\<lambda>t. ts_slug t = app_slug a) id (slug_tombstones d) = slug_tombstones d"
      by (simp add: update_where_def map_idI)
    then have "d1 = d" using True t by (simp add: execute_Inr upsert_def)
    then show ?thesis by (simp add: safe_refl)
  next
    case False
    then have "execute (d\<lparr>slug_tombstones := slug_tombstones d @ [?t]\<rparr>) = Inr d1"
      using t by (simp add: upsert_def)
    then show ?thesis by (rule safe_rename_tombstone [OF _ a(1)]) (simp_all add: a(2))
  qed
  moreover have "safe sha d2 d3" using app by (rule safe_update_applications) simp
  moreover have "safe sha d3 d'" using act by (rule safe_update_actives) simp
  ultimately show ?thesis by (meson safe_trans safe_keys [OF k])
qed

lemma keeps_deletion: "keeps sha db (complete_application_deletion i op_id now db)"
  unfolding complete_application_deletion_def Let_def
proof (intro keeps_steps)
  fix i op_id d a d1 d2
  assume get: "get_application_including_tombstone i d = Some a" and ret: "retire_application i now a d = Inr d1"
    and upd: "execute (d1\<lparr>operations := update_where (\<lambda>r. op_operation_id r = op_id \<and> op_unfinished r)
      (\<lambda>r. r\<lparr>op_status := ''succeeded'', op_phase := ''tombstoned'', op_updated_at := now,
              op_safe_error := None, op_cleanup_state := ''confirmed''\<rparr>) (operations d1)\<rparr>) = Inr d2"
  have "safe sha d1 d2"
    using upd by (rule safe_operations) (auto simp: op_kept_def intro!: opk.rows_update elim!: refs_clean_update)
  then show "keeps sha d (Inr (d2, ()))" using safe_trans [OF safe_retire [OF ret get]] by simp
qed simp_all

section \<open>Acceptance transactions and direct updates\<close>

lemma keeps_chain:
  assumes "keeps sha d m" "\<And>d1 x. m = Inr (d1, x) \<Longrightarrow> keeps sha d1 (k d1 x)"
  shows "keeps sha d (rbind m (\<lambda>(d1, x). k d1 x))"
  unfolding keeps_def rbind_eq_Inr
proof (intro allI impI)
  fix d' y
  assume "\<exists>x. m = Inr x \<and> (case x of (d1, x) \<Rightarrow> k d1 x) = Inr (d', y)"
  then obtain d1 x where "m = Inr (d1, x)" "k d1 x = Inr (d', y)" by auto
  then show "safe sha d d'" using assms safe_trans unfolding keeps_def by blast
qed

lemma keeps_accept: "keeps sha db (accept_healthy_deployment sha helper route acc clock db)"
proof -
  have body: "keeps sha d (acceptance_statements sha acc clock d)" for d
    unfolding acceptance_statements_def
    by (intro keeps_chain keeps_put_application keeps_checkpoint_attempt keeps_option keeps_if keeps_mark_finishing)
       (simp_all add: safe_refl)
  have "keeps sha db (rbind (transaction (acceptance_statements sha acc clock) db) (\<lambda>(db', _). Inr (db', n)))" for n :: int
    by (intro keeps_chain keeps_transaction body) (simp add: safe_refl)
  then show ?thesis
    unfolding accept_healthy_deployment_def
    by (intro keeps_bind [of "uuid a b" for a b] keeps_bind [of "slug a" for a] keeps_bind [of "sha256_hex a b" for a b]
        keeps_bind [of "oci_digest_pin a b" for a b] keeps_bind [of "nomad_job_id a b" for a b] keeps_if
        keeps_bind [of "helper a b" for a b] keeps_bind [of "case_sum a b c" for a b c]
        keeps_bind [of "get_deployment_attempt a b c" for a b c]) simp_all
qed

lemma keeps_accept_enabled: "keeps sha db (accept_enabled i op_id w v now db)"
  unfolding accept_enabled_def
  by (intro keeps_transaction keeps_chain keeps_set_runtime keeps_mark_finishing)

lemma keeps_replace_job: "keeps sha db (replace_saved_job i job h v db)"
  unfolding replace_saved_job_def
proof (intro keeps_steps)
  fix d d1
  assume "update_attempts (\<lambda>a. at_deployment_id a = i) (\<lambda>a. a\<lparr>at_nomad_job := Some job, at_nomad_job_sha256 := Some h,
      at_nomad_version := keep_or v (at_nomad_version a)\<rparr>) d = Inr d1"
  then have "safe sha d d1"
    by (rule safe_update_attempts) (auto simp: accepted_evidence_def keep_or_def split: option.splits)
  then show "keeps sha d (Inr (d1, ()))" by simp
qed

lemma keeps_resource_updates:
  "keeps sha db (mark_usage_failed i db)" "keeps sha db (mark_migration_copying i db)"
  "keeps sha db (mark_migration_aborted i db)" "keeps sha db (restore_resource_columns i c db)"
  unfolding mark_usage_failed_def mark_migration_copying_def mark_migration_aborted_def restore_resource_columns_def
  by (intro keeps_steps; simp add: safe_resources)+

lemma keeps_journal:
  "keeps sha db (finish_operation i s e p c now db)" "keeps sha db (renew_operation_deadline i dl now db)"
  "keeps sha db (checkpoint_operation i cp now db)" "keeps sha db (begin_operation i k s ph dl refs now db)"
  "keeps sha db (claim_idempotency_request i fp now db)"
  "keeps sha db (mark_recovery_required i err p now db)" "keeps sha db (record_finishing_failure i err now db)"
  "keeps sha db (mark_succeeded i cl now db)" "keeps sha db (mark_failed i err cl now db)"
  unfolding keeps_def
  by (auto intro: safe_finish safe_renew safe_checkpoint safe_begin safe_claim safe_mark)

lemmas keeps_all = keeps_journal keeps_complete keeps_enqueue keeps_requeue keeps_dispatch_status keeps_mark_finishing
  keeps_schedule keeps_default_flavor keeps_image_selection keeps_application_flavor keeps_put_application
  keeps_set_runtime keeps_checkpoint_attempt keeps_advance keeps_put_resource keeps_resources keeps_lifecycle
  keeps_host_usage keeps_environment_keys keeps_deletion keeps_accept keeps_accept_enabled keeps_replace_job
  keeps_resource_updates

end
