(* ===== verification/Controller_Calls.thy ===== *)
theory Controller_Calls
  imports Controller_Guarantees
begin

text \<open>
  Runs of the controller: every sequence of calls that write the controller database, in any order and
  with any arguments, failed calls included. SQLite serialises the writing transactions of the
  controller's threads, so an interleaving of threads is such a sequence. The theory lifts
  \<open>Controller_Guarantees\<close> to runs.
\<close>

section \<open>Calls\<close>

text \<open>
  One constructor per function that writes. A call that creates an attempt carries the configuration
  document, which the service parses first; the helper process and the route check of an acceptance
  are part of the call.
\<close>

datatype call =
    Claim string string
  | Complete string string string
  | Enqueue string string string
  | Requeue string string string bool
  | Dispatch_Status string string "raised option"
  | Mark_Finishing string
  | Begin string string string string string jdict
  | Renew string string
  | Checkpoint_Operation string checkpoint
  | Recovery_Required string raised "string option"
  | Finishing_Failure string raised
  | Succeeded string string
  | Failed string raised string
  | Schedule "int \<Rightarrow> string" string raised
  | Default_Flavor string
  | Application_Flavor string "string option"
  | Select_Image string string string string string
  | Put_Application application_input
  | Set_Runtime string bool worker_placement "int option"
  | Create_Attempt json attempt_input
  | Checkpoint_Attempt string evidence_input
  | Advance_Environment string int
  | Put_Resource resource_input string
  | Rename_Resource string string
  | Resource_Lifecycle string string
  | Delete_Resource string string string
  | Storage_Usage string jdict bool
  | Host_Usage jdict
  | Storage_Limits string quotas jdict bool
  | Storage_Instance string string int "string option"
  | Set_Environment_Keys string string "string list"
  | Complete_Deletion string string
  | Accept_Deployment "string \<Rightarrow> jdict \<Rightarrow> jdict result" "bool result" deployment_acceptance
  | Accept_Enabled string string worker_placement int
  | Replace_Job string string string "int option"
  | Usage_Failed string
  | Migration_Copying string
  | Migration_Aborted string
  | Restore_Columns string restored_columns

definition forget :: "(db \<times> 'a) result \<Rightarrow> db result" where
  "forget m = rbind m (\<lambda>(d, _). Inr d)"

fun perform :: "(string \<Rightarrow> string) \<Rightarrow> (nat \<Rightarrow> string) \<Rightarrow> call \<Rightarrow> db \<Rightarrow> db result" where
  "perform sha clock (Claim i fp) db = forget (claim_idempotency_request i fp (clock 0) db)"
| "perform sha clock (Complete i k r) db = forget (complete_idempotency_request i k r (clock 0) db)"
| "perform sha clock (Enqueue i k s) db = forget (enqueue_operation_dispatch i k s (clock 0) db)"
| "perform sha clock (Requeue i k s auto) db = forget (requeue_recovery_dispatch i k s (clock 0) auto db)"
| "perform sha clock (Dispatch_Status i st e) db = forget (set_operation_dispatch_status i st e (clock 0) db)"
| "perform sha clock (Mark_Finishing i) db = forget (mark_operation_finishing i False db)"
| "perform sha clock (Begin i k s ph dl refs) db = forget (begin_operation i k s ph dl refs (clock 0) db)"
| "perform sha clock (Renew i dl) db = forget (renew_operation_deadline i dl (clock 0) db)"
| "perform sha clock (Checkpoint_Operation i cp) db = forget (checkpoint_operation i cp (clock 0) db)"
| "perform sha clock (Recovery_Required i e ph) db = forget (mark_recovery_required i e ph (clock 0) db)"
| "perform sha clock (Finishing_Failure i e) db = forget (record_finishing_failure i e (clock 0) db)"
| "perform sha clock (Succeeded i c) db = forget (mark_succeeded i c (clock 0) db)"
| "perform sha clock (Failed i e c) db = forget (mark_failed i e c (clock 0) db)"
| "perform sha clock (Schedule later i e) db = forget (schedule later i e (clock 0) db)"
| "perform sha clock (Default_Flavor f) db = forget (put_default_builder_flavor f db)"
| "perform sha clock (Application_Flavor i f) db = forget (put_application_builder_flavor i f (clock 0) db)"
| "perform sha clock (Select_Image r i n c h) db = forget (put_image_selection r i n c h (clock 0) db)"
| "perform sha clock (Put_Application i) db = forget (put_application i (clock 0) False db)"
| "perform sha clock (Set_Runtime i running w v) db = forget (set_application_runtime i running w v (clock 0) False db)"
| "perform sha clock (Create_Attempt document i) db =
     rbind (parse_configuration document) (\<lambda>c.
     forget (create_deployment_attempt sha (i\<lparr>ai_configuration := c\<rparr>) (clock 0) db))"
| "perform sha clock (Checkpoint_Attempt i e) db = forget (checkpoint_deployment_attempt sha i e (clock 0) False db)"
| "perform sha clock (Advance_Environment i n) db = forget (advance_environment_revision i n (clock 0) db)"
| "perform sha clock (Put_Resource i fresh) db = forget (put_managed_resource i fresh (clock 0) db)"
| "perform sha clock (Rename_Resource i l) db = forget (rename_managed_resource i l (clock 0) db)"
| "perform sha clock (Resource_Lifecycle i st) db = forget (set_managed_resource_lifecycle i st (clock 0) db)"
| "perform sha clock (Delete_Resource i ty n) db = forget (delete_managed_resource i ty n db)"
| "perform sha clock (Storage_Usage i u b) db = forget (put_storage_usage i u b db)"
| "perform sha clock (Host_Usage u) db = forget (put_storage_host_usage u db)"
| "perform sha clock (Storage_Limits i q u b) db = forget (put_storage_limits i q u b (clock 0) db)"
| "perform sha clock (Storage_Instance i inst port m) db = forget (set_storage_instance i inst port m db)"
| "perform sha clock (Set_Environment_Keys i own ks) db = forget (set_environment_keys i own ks db)"
| "perform sha clock (Complete_Deletion i j) db = forget (complete_application_deletion i j (clock 0) db)"
| "perform sha clock (Accept_Deployment helper route acc) db =
     forget (accept_healthy_deployment sha helper route acc clock db)"
| "perform sha clock (Accept_Enabled i j w v) db = forget (accept_enabled i j w v (clock 0) db)"
| "perform sha clock (Replace_Job i job h v) db = forget (replace_saved_job i job h v db)"
| "perform sha clock (Usage_Failed i) db = forget (mark_usage_failed i db)"
| "perform sha clock (Migration_Copying i) db = forget (mark_migration_copying i db)"
| "perform sha clock (Migration_Aborted i) db = forget (mark_migration_aborted i db)"
| "perform sha clock (Restore_Columns i c) db = forget (restore_resource_columns i c db)"

text \<open>A call with the times it reads; an exception leaves the database as it was.\<close>

type_synonym timed_call = "(nat \<Rightarrow> string) \<times> call"

definition commit_call :: "(string \<Rightarrow> string) \<Rightarrow> timed_call \<Rightarrow> db \<Rightarrow> db" where
  "commit_call sha c db = (case perform sha (fst c) (snd c) db of Inl _ \<Rightarrow> db | Inr db' \<Rightarrow> db')"

definition run_calls :: "(string \<Rightarrow> string) \<Rightarrow> timed_call list \<Rightarrow> db \<Rightarrow> db" where
  "run_calls sha cs db = fold (commit_call sha) cs db"

lemma run_calls_append [simp]: "run_calls sha (cs @ ds) db = run_calls sha ds (run_calls sha cs db)"
  by (simp add: run_calls_def)

lemma run_calls_Nil [simp]: "run_calls sha [] db = db"
  by (simp add: run_calls_def)

lemma run_calls_Cons [simp]: "run_calls sha (c # cs) db = run_calls sha cs (commit_call sha c db)"
  by (simp add: run_calls_def)

lemma forget_Inr: "forget m = Inr d' \<longleftrightarrow> (\<exists>x. m = Inr (d', x))"
  by (auto simp: forget_def rbind_eq_Inr)

lemma safe_forget: "keeps sha d m \<Longrightarrow> forget m = Inr d' \<Longrightarrow> safe sha d d'"
  by (auto simp: keeps_def forget_Inr)

lemma safe_perform: "perform sha clock c db = Inr db' \<Longrightarrow> safe sha db db'"
proof (cases c)
  case (Create_Attempt document i)
  assume "perform sha clock c db = Inr db'"
  then obtain conf where p: "parse_configuration document = Inr conf"
      "forget (create_deployment_attempt sha (i\<lparr>ai_configuration := conf\<rparr>) (clock 0) db) = Inr db'"
    using Create_Attempt by (auto simp: rbind_eq_Inr)
  then show ?thesis
    using safe_forget [OF keeps_create_attempt, of document "i\<lparr>ai_configuration := conf\<rparr>"] by simp
qed (simp, erule safe_forget [rotated], rule keeps_all)+

lemma safe_commit: "safe sha db (commit_call sha c db)"
  by (auto simp: commit_call_def safe_refl safe_perform split: sum.split)

lemma safe_run: "safe sha db (run_calls sha cs db)"
proof (induction cs arbitrary: db)
  case (Cons c cs)
  then show ?case by (auto intro: safe_trans [OF safe_commit])
qed (simp add: safe_refl)

lemma empty_inv: "controller_inv sha empty_db"
proof -
  have "schema_ok empty_db" by code_simp
  then show ?thesis
    by (simp add: controller_inv_def attempts_readable_def active_accepted_def slugs_retired_def refs_clean_def empty_db_def)
qed

lemma run_inv: "controller_inv sha (run_calls sha cs empty_db)"
  using safe_run [of sha empty_db cs] empty_inv by (simp add: safe_def)

lemma run_kept: "kept (run_calls sha cs empty_db) (run_calls sha (cs @ ds) empty_db)"
  using safe_run [of sha "run_calls sha cs empty_db" ds] run_inv by (simp add: safe_def)

section \<open>No call leaves a transaction open\<close>

definition idle :: "(db \<times> 'a) result \<Rightarrow> bool" where
  "idle m \<longleftrightarrow> (\<forall>d x. m = Inr (d, x) \<longrightarrow> \<not> in_transaction d)"

lemma idle_rules:
  "(\<And>x. idle (k x)) \<Longrightarrow> idle (rbind r k)"
  "idle a \<Longrightarrow> idle b \<Longrightarrow> idle (if P then a else b)"
  "idle n \<Longrightarrow> (\<And>y. idle (s y)) \<Longrightarrow> idle (case z of None \<Rightarrow> n | Some y \<Rightarrow> s y)"
  "idle (transaction body db)"
  "idle m \<Longrightarrow> idle (then_read m (read_back get))"
  "idle (Inl e)"
  by (auto simp: idle_def rbind_eq_Inr transaction_Inr then_read_Inr read_back_Inr split: option.splits)

lemma idle_acceptance: "idle (acceptance_write False body db)"
  by (simp add: acceptance_write_def idle_rules)

lemma idle_after_transaction: "idle (rbind (transaction body db) (\<lambda>(d, x). Inr (d, y x)))"
  by (auto simp: idle_def rbind_eq_Inr transaction_Inr)

lemma idle_read_after: "idle (rbind (transaction body db) (\<lambda>(d, x). read_back (get x) d))"
  by (auto simp: idle_def rbind_eq_Inr transaction_Inr read_back_Inr)

lemmas idle_steps = idle_rules(2-) idle_acceptance idle_after_transaction idle_read_after

lemma idle_forget: "idle m \<Longrightarrow> forget m = Inr d \<Longrightarrow> \<not> in_transaction d"
  by (auto simp: idle_def forget_Inr)

lemma idle_finish: "idle (finish_operation i s e p c now db)"
  unfolding finish_operation_def read_operation_def by (intro idle_rules)

lemma idle_journal:
  "idle (claim_idempotency_request i fp now db)" "idle (complete_idempotency_request i k r now db)"
  "idle (enqueue_operation_dispatch i k s now db)" "idle (requeue_recovery_dispatch i k s now auto db)"
  "idle (set_operation_dispatch_status i st er now db)" "idle (mark_operation_finishing i False db)"
  "idle (begin_operation i k s ph dl refs now db)" "idle (renew_operation_deadline i dl now db)"
  "idle (checkpoint_operation i cp now db)"
  "idle (mark_succeeded i cl now db)" "idle (mark_recovery_required i err p now db)"
  "idle (schedule later i err now db)"
  unfolding claim_idempotency_request_def complete_idempotency_request_def enqueue_operation_dispatch_def
    requeue_recovery_dispatch_def set_operation_dispatch_status_def mark_operation_finishing_def begin_operation_def
    renew_operation_deadline_def checkpoint_operation_def mark_succeeded_def mark_recovery_required_def schedule_def
    read_operation_def
  by (intro idle_rules idle_acceptance idle_finish)+

lemma idle_settle:
  "idle (mark_failed i e cl now db)" "idle (record_finishing_failure i e now db)"
  unfolding mark_failed_def record_finishing_failure_def by (intro idle_rules idle_finish)+

lemma idle_tables:
  "idle (put_default_builder_flavor f db)" "idle (put_application_builder_flavor i fl now db)"
  "idle (put_image_selection r i n c h now db)" "idle (put_application ai now False db)"
  "idle (set_application_runtime i running w v now False db)"
  "idle (create_deployment_attempt sha at now db)" "idle (checkpoint_deployment_attempt sha i ev now False db)"
  "idle (advance_environment_revision i ver now db)"
  unfolding put_default_builder_flavor_def put_application_builder_flavor_def put_image_selection_def put_application_def
    set_application_runtime_def create_deployment_attempt_def checkpoint_deployment_attempt_def advance_environment_revision_def
  by (intro idle_rules idle_acceptance)+

lemma idle_resources:
  "idle (rename_managed_resource i l now db)" "idle (set_managed_resource_lifecycle i st now db)"
  "idle (delete_managed_resource i ty n db)" "idle (put_storage_usage i u b db)" "idle (put_storage_host_usage u db)"
  "idle (put_storage_limits i q u b now db)" "idle (set_storage_instance i inst port m db)"
  "idle (set_environment_keys i own ks db)" "idle (complete_application_deletion i j now db)"
  unfolding rename_managed_resource_def set_managed_resource_lifecycle_def delete_managed_resource_def put_storage_usage_def
    put_storage_host_usage_def put_storage_limits_def set_storage_instance_def set_environment_keys_def
    complete_application_deletion_def Let_def
  by (intro idle_after_transaction idle_rules idle_acceptance)+

lemma idle_put_resource: "idle (put_managed_resource i fresh now db)"
  unfolding put_managed_resource_def Let_def by (intro idle_read_after idle_rules)

lemma idle_acceptances:
  "idle (accept_healthy_deployment sha helper route acc clock db)" "idle (accept_enabled i j w n now db)"
  "idle (replace_saved_job i job h v db)" "idle (mark_usage_failed i db)" "idle (mark_migration_copying i db)"
  "idle (mark_migration_aborted i db)" "idle (restore_resource_columns i c db)"
  unfolding accept_healthy_deployment_def accept_enabled_def replace_saved_job_def mark_usage_failed_def
    mark_migration_copying_def mark_migration_aborted_def restore_resource_columns_def
  by (intro idle_after_transaction idle_rules idle_acceptance)+

lemmas idle_all = idle_journal idle_settle idle_tables idle_resources idle_put_resource idle_acceptances

lemma perform_idle: "perform sha clock c db = Inr db' \<Longrightarrow> \<not> in_transaction db'"
proof (cases c)
  case (Create_Attempt document i)
  assume "perform sha clock c db = Inr db'"
  then show ?thesis
    using Create_Attempt idle_forget [OF idle_tables(6)] by (auto simp: rbind_eq_Inr)
qed (simp, erule idle_forget [rotated], rule idle_all)+

lemma run_idle: "\<not> in_transaction db \<Longrightarrow> \<not> in_transaction (run_calls sha cs db)"
proof (induction cs arbitrary: db)
  case (Cons c cs)
  then have "\<not> in_transaction (commit_call sha c db)"
    using perform_idle by (auto simp: commit_call_def split: sum.split)
  then show ?case using Cons.IH by simp
qed simp

lemma empty_idle: "\<not> in_transaction empty_db"
  by (simp add: empty_db_def)

end
