(* ===== verification/Controller_Runs.thy ===== *)
theory Controller_Runs
  imports Controller_Calls
begin

text \<open>
  What holds of every run of the controller: an invariant of the database, what no later call can undo,
  and what every read finds.
\<close>

section \<open>The invariant\<close>


lemma run_schema: "schema_ok (run_calls sha cs empty_db)"
  using run_inv inv_schema by blast

lemma later_operation:
  assumes "r \<in> set (operations (run_calls sha cs empty_db))"
  shows "\<exists>r'. get_operation (op_operation_id r) (run_calls sha (cs @ ds) empty_db) = Some r' \<and> op_kept r r'"
proof -
  have "rows_kept op_kept (operations (run_calls sha cs empty_db)) (operations (run_calls sha (cs @ ds) empty_db))"
    using run_kept unfolding kept_def by blast
  then obtain r' where r': "r' \<in> set (operations (run_calls sha (cs @ ds) empty_db))" "op_kept r r'"
    using assms unfolding rows_kept_def by blast
  then have id: "op_operation_id r' = op_operation_id r" by (simp add: op_kept_def)
  obtain x where x: "get_operation (op_operation_id r) (run_calls sha (cs @ ds) empty_db) = Some x"
    using r'(1) id find_where_None [of "\<lambda>y. op_operation_id y = op_operation_id r"]
    unfolding get_operation_def by (fastforce simp: list_ex_iff)
  then show ?thesis
    using operation_unique [OF run_schema x r'(1) id] r'(2) by auto
qed


definition settled_run :: "timed_call list" where
  "settled_run = [(\<lambda>_. example_time, Begin example_id ''app.deploy'' ''app-1'' ''queued'' ''later'' []),
                  (\<lambda>_. example_time, Succeeded example_id ''confirmed'')]"

lemma settled_operations:
  "map (\<lambda>r. (op_operation_id r, op_status r)) (operations (run_calls id settled_run empty_db)) = [(example_id, ''succeeded'')]"
  by code_simp


section \<open>Requests\<close>

lemma kept_run: "controller_inv sha db \<Longrightarrow> kept db (run_calls sha ds db) \<and> controller_inv sha (run_calls sha ds db)"
  using safe_run [of sha db ds] by (simp add: safe_def)

lemma later_request:
  assumes "controller_inv sha db" "get_idempotency_request i db = Inr (Some r)"
  shows "\<exists>r'. get_idempotency_request i (run_calls sha ds db) = Inr (Some r') \<and> request_kept r r'"
proof -
  have u: "uuid_re i" "r \<in> set (idempotency_requests db)" "rq_request_id r = i"
    using assms(2) find_where_SomeD [of "\<lambda>r. rq_request_id r = i" "idempotency_requests db" r]
    unfolding get_request_Inr by simp_all
  have "rows_kept request_kept (idempotency_requests db) (idempotency_requests (run_calls sha ds db))"
    using kept_run [OF assms(1)] unfolding kept_def by blast
  then obtain r' where r': "r' \<in> set (idempotency_requests (run_calls sha ds db))" "request_kept r r'"
    using u(2) unfolding rows_kept_def by blast
  then have id: "rq_request_id r' = i" using u(3) by (simp add: request_kept_def)
  obtain x where x: "get_idempotency_request i (run_calls sha ds db) = Inr (Some x)"
    using r'(1) id u(1) find_where_None [of "\<lambda>y. rq_request_id y = i"]
    by (fastforce simp: get_request_Inr list_ex_iff)
  moreover have "r' = x"
    using request_unique [OF inv_schema x r'(1) id] kept_run [OF assms(1)] by blast
  ultimately show ?thesis using r'(2) by auto
qed

lemma claim_inv:
  assumes "controller_inv sha db" "claim_idempotency_request i fp now db = Inr (db', r)"
  shows "controller_inv sha db'"
  using safe_claim [OF assms(2), of sha] assms(1) by (simp add: safe_def)

text \<open>
  An idempotency key is bound to its input forever: once a request has been claimed, then after any
  further calls a claim with another fingerprint is refused, and a claim with the same one returns the
  recorded request, with the result recorded so far.
\<close>

theorem claimed_key_bound:
  assumes "claim_idempotency_request i fp now (run_calls sha cs empty_db) = Inr (db', r)"
    and "sha256_hex_re fp'" "fp' \<noteq> fp"
  shows "claim_idempotency_request i fp' later (run_calls sha ds db') =
      Inl (IdempotencyConflictError ''idempotency request was already used for different input'') \<and>
    (\<exists>r'. claim_idempotency_request i fp later (run_calls sha ds db') = Inr (run_calls sha ds db', r') \<and>
      (rq_result_id r = None \<or> rq_result_id r' = rq_result_id r))"
proof -
  have c: "uuid_re i" "sha256_hex_re fp" "\<not> in_transaction db'" "get_idempotency_request i db' = Inr (Some r)"
      "rq_request_fingerprint r = fp"
    using claim_Inr [OF assms(1)] by auto
  obtain r' where r': "get_idempotency_request i (run_calls sha ds db') = Inr (Some r')" "request_kept r r'"
    using later_request [OF claim_inv [OF run_inv assms(1)] c(4), of ds] by blast
  note ex = claim_existing [OF c(1) _ run_idle [OF c(3)] r'(1)]
  show ?thesis
    using ex [OF assms(2), of later] ex [OF c(2), of later] r'(2) c(5) assms(3) by (auto simp: request_kept_def)
qed

theorem claimed_key_bound_witness:
  "\<exists>db'. claim_idempotency_request example_id (replicate 64 (CHR ''b'')) ''later''
     (run_calls id [(\<lambda>_. ''t'', Complete example_id ''operation'' example_id)] db') =
   Inl (IdempotencyConflictError ''idempotency request was already used for different input'')"
proof -
  have "claim_idempotency_request example_id example_fingerprint example_time (run_calls id [] empty_db) =
     Inr (empty_db\<lparr>idempotency_requests := [request_row example_id example_fingerprint example_time]\<rparr>,
        request_row example_id example_fingerprint example_time)"
    using example_claim by simp
  moreover have "sha256_hex_re (replicate 64 (CHR ''b''))" "replicate 64 (CHR ''b'') \<noteq> example_fingerprint"
    by code_simp+
  ultimately show ?thesis using claimed_key_bound by blast
qed

section \<open>Deployments\<close>

lemma active_attempt_in:
  assumes "active_attempt i db = Some a"
  shows "a \<in> set (deployment_attempts db) \<and> (\<exists>act \<in> set (active_deployments db). at_deployment_id a = act_deployment_id act)"
proof -
  obtain act where act: "get_active_deployment i db = Some act"
      "find_where (\<lambda>a. at_deployment_id a = act_deployment_id act \<and> at_application_id a = act_application_id act)
         (deployment_attempts db) = Some a"
    using assms by (auto simp: active_attempt_def split: option.splits)
  show ?thesis
    using find_where_SomeD [OF act(2)] find_where_SomeD [OF act(1) [unfolded get_active_deployment_def]] by blast
qed

lemma get_deployment_total:
  assumes "controller_inv sha db"
  shows "get_deployment sha i db \<noteq> Inl e"
proof (cases "active_attempt i db")
  case None
  then show ?thesis by (simp add: get_deployment_def read_row_def)
next
  case (Some a)
  note a = active_attempt_in [OF Some]
  have "readable sha a" using assms a by (auto simp: controller_inv_def attempts_readable_def)
  moreover have "accepted_evidence a" using assms a by (auto simp: controller_inv_def active_accepted_def)
  ultimately show ?thesis
    using Some by (auto simp: get_deployment_def read_row_def readable_def accepted_evidence_def Let_def)
qed

lemma rmap_readable: "(\<And>a. a \<in> set rows \<Longrightarrow> readable sha a) \<Longrightarrow> rmap (deployment_attempt_of sha) rows \<noteq> Inl e"
proof (induction rows arbitrary: e)
  case (Cons a rows)
  obtain v where "deployment_attempt_of sha a = Inr v" using Cons.prems [of a] by (auto simp: readable_def)
  moreover have "rmap (deployment_attempt_of sha) rows \<noteq> Inl e" for e using Cons.IH Cons.prems by simp
  ultimately show ?case by (auto simp: rbind_eq_Inl)
qed simp


text \<open>A concrete run: an application is created, a deployment requested, begun, and accepted.\<close>

definition example_sha :: "string \<Rightarrow> string" where
  "example_sha = (\<lambda>_. replicate 64 (CHR ''a''))"

abbreviation example_application_id :: string where
  "example_application_id \<equiv> ''00000000-0000-4000-8000-000000000002''"

definition example_application :: application_input where
  "example_application = \<lparr>in_application_id = example_application_id, in_slug = ''shop'', in_worker_flavor = ''m1'',
     in_cpu_mhz = 500, in_memory_mib = 256, in_repository_url = None, in_desired_running = False, in_url = None,
     in_worker_server_id = None, in_worker_server_name = None, in_worker_port_id = None, in_worker_port_name = None\<rparr>"

definition example_attempt :: attempt_input where
  "example_attempt = \<lparr>ai_deployment_id = example_id, ai_application_id = example_application_id,
     ai_source_commit = replicate 40 (CHR ''b''), ai_requested_ref = ''main'', ai_configuration_revision = 1,
     ai_configuration = example_configuration, ai_environment_revision = 0, ai_idempotency_request_id = example_id\<rparr>"

definition example_image :: string where
  "example_image = ''registry/shop'' @ [CHR 0x40] @ ''sha256:'' @ replicate 64 (CHR ''c'')"

definition example_acceptance :: deployment_acceptance where
  "example_acceptance = \<lparr>acc_application_id = example_application_id, acc_application_slug = ''shop'',
     acc_repository = ''https://example.org/shop.git'', acc_deployment_id = example_id,
     acc_worker_server_id = example_id, acc_worker_server_name = ''worker'', acc_worker_port_id = example_id,
     acc_worker_port_name = ''port'', acc_worker_flavor = ''m1'', acc_cpu_mhz = 500, acc_memory_mib = 256,
     acc_source_commit = replicate 40 (CHR ''b''), acc_recipe_hash = replicate 64 (CHR ''d''), acc_image = example_image,
     acc_nomad_job = ''job '' @ [CHR 0x22] @ ''shop'' @ [CHR 0x22] @ '' {'' @ [CHR 0x0A],
     acc_nomad_job_sha256 = replicate 64 (CHR ''e''), acc_nomad_version = 3, acc_health_path = ''/health'',
     acc_application_port = 3000, acc_build_log_path = ''logs/1'', acc_public_url = ''https://shop.example.org''\<rparr>"

definition example_health :: "string \<Rightarrow> jdict \<Rightarrow> jdict result" where
  "example_health action arguments = Inr
     [(''version'', JInt 3), (''currentVersion'', JInt 3), (''candidateJobSha256'', JStr (replicate 64 (CHR ''e''))),
      (''candidateImage'', JStr example_image), (''allocations'', JInt 1), (''healthy'', JBool True),
      (''terminal'', JBool False)]"

definition requested_run :: "timed_call list" where
  "requested_run = map (\<lambda>c. (\<lambda>_. example_time, c))
     [Put_Application example_application,
      Claim example_id example_fingerprint,
      Create_Attempt example_request example_attempt,
      Begin example_id ''app.deploy'' (''app-'' @ example_application_id) ''queued'' ''later'' []]"

definition deployed_run :: "timed_call list" where
  "deployed_run = requested_run @ [(\<lambda>_. example_time, Accept_Deployment example_health (Inr True) example_acceptance)]"

lemma deployed_calls:
  "rbind (put_application example_application example_time False empty_db) (\<lambda>(d1, _).
   rbind (claim_idempotency_request example_id example_fingerprint example_time d1) (\<lambda>(d2, _).
   rbind (create_deployment_attempt example_sha (example_attempt\<lparr>ai_configuration := example_configuration\<rparr>) example_time d2) (\<lambda>(d3, _).
   rbind (begin_operation example_id ''app.deploy'' (''app-'' @ example_application_id) ''queued'' ''later'' [] example_time d3) (\<lambda>(d4, _).
   rbind (accept_healthy_deployment example_sha example_health (Inr True) example_acceptance (\<lambda>_. example_time) d4) (\<lambda>(d5, _).
   Inr (map at_image_digest (deployment_attempts d5), map at_deployment_id (deployment_attempts d5), map op_finishing (operations d5))))))) =
   Inr ([Some example_image], [example_id], [True])"
  by code_simp

lemma example_accepted:
  "\<exists>db v. accept_healthy_deployment example_sha example_health (Inr True) example_acceptance (\<lambda>_. example_time)
      (run_calls example_sha requested_run empty_db) = Inr (db, v) \<and>
    run_calls example_sha deployed_run empty_db = db \<and> map at_deployment_id (deployment_attempts db) = [example_id]"
proof -
  obtain d1 d2 d3 d4 d5 x1 x2 x3 x4 x5 where
    "put_application example_application example_time False empty_db = Inr (d1, x1)"
    "claim_idempotency_request example_id example_fingerprint example_time d1 = Inr (d2, x2)"
    "create_deployment_attempt example_sha (example_attempt\<lparr>ai_configuration := example_configuration\<rparr>) example_time d2 = Inr (d3, x3)"
    "begin_operation example_id ''app.deploy'' (''app-'' @ example_application_id) ''queued'' ''later'' [] example_time d3 = Inr (d4, x4)"
    "accept_healthy_deployment example_sha example_health (Inr True) example_acceptance (\<lambda>_. example_time) d4 = Inr (d5, x5)"
    "map at_deployment_id (deployment_attempts d5) = [example_id]"
    using deployed_calls unfolding rbind_eq_Inr by (auto simp: rbind_eq_Inr)
  then show ?thesis
    by (simp add: deployed_run_def requested_run_def commit_call_def forget_def example_request_parses)
qed


text \<open>
  The evidence of a deployment is durable: what an attempt was asked to deploy (source, requested
  ref, configuration, revisions, health path and port) never changes after it is created, and evidence
  that was complete is never lost, whatever calls follow.
\<close>

theorem attempt_evidence_durable:
  assumes "a \<in> set (deployment_attempts (run_calls sha cs empty_db))"
  shows "\<exists>a'. a' \<in> set (deployment_attempts (run_calls sha (cs @ ds) empty_db)) \<and>
    request_columns a' = request_columns a \<and> (accepted_evidence a' \<or> \<not> accepted_evidence a)"
proof -
  have "rows_kept evidence_kept (deployment_attempts (run_calls sha cs empty_db))
      (deployment_attempts (run_calls sha (cs @ ds) empty_db))"
    using run_kept unfolding kept_def by blast
  then show ?thesis using assms unfolding rows_kept_def evidence_kept_def by blast
qed

theorem attempt_evidence_durable_witness:
  "\<exists>a'. a' \<in> set (deployment_attempts (run_calls example_sha
     (deployed_run @ [(\<lambda>_. ''t'', Replace_Job example_id ''x'' ''y'' None)]) empty_db)) \<and> at_deployment_id a' = example_id"
proof -
  have "map at_deployment_id (deployment_attempts (run_calls example_sha deployed_run empty_db)) = [example_id]"
    using example_accepted by (elim exE conjE) simp
  then obtain a where a: "a \<in> set (deployment_attempts (run_calls example_sha deployed_run empty_db))"
      "at_deployment_id a = example_id" by (auto simp: map_eq_Cons_conv)
  obtain a' where "a' \<in> set (deployment_attempts (run_calls example_sha
      (deployed_run @ [(\<lambda>_. ''t'', Replace_Job example_id ''x'' ''y'' None)]) empty_db))" "request_columns a' = request_columns a"
    using attempt_evidence_durable [OF a(1)] by blast
  then show ?thesis using a(2) request_columns_id [of a' a] by (intro exI [of _ a'] conjI) simp_all
qed

section \<open>Slugs\<close>

text \<open>
  C27: a retired slug is never used again: once a slug has a tombstone, then after any further calls every
  attempt to give it to an application is refused, and only the application it was retired with can still
  carry it.
\<close>

theorem retired_slug_refused:
  assumes "t \<in> set (slug_tombstones (run_calls sha cs empty_db))" "in_slug i = ts_slug t"
    and "uuid_re (in_application_id i)" "slug (in_slug i) = Inr (in_slug i)"
    and "optional_check (uuid ''worker_server_id'') (in_worker_server_id i) = Inr sid"
    and "optional_check (uuid ''worker_port_id'') (in_worker_port_id i) = Inr pid"
    and "0 < in_cpu_mhz i" "0 < in_memory_mib i" "in_worker_flavor i \<noteq> []"
  shows "put_application i now False (run_calls sha (cs @ ds) empty_db) =
      Inl (DatabaseError ''application slug is permanently retired'') \<and>
    (\<forall>a. a \<in> set (applications (run_calls sha (cs @ ds) empty_db)) \<and> app_slug a = ts_slug t \<longrightarrow>
      app_application_id a = ts_application_id t)"
proof -
  let ?db = "run_calls sha (cs @ ds) empty_db"
  have t: "t \<in> set (slug_tombstones ?db)"
    using run_kept [of sha cs ds] assms(1) by (auto simp: kept_def)
  have "slugs_retired ?db" using run_inv unfolding controller_inv_def by blast
  moreover have "\<not> in_transaction ?db" by (rule run_idle [OF empty_idle])
  moreover have "list_ex (\<lambda>x. ts_slug x = in_slug i) (slug_tombstones (?db\<lparr>in_transaction := True\<rparr>))"
    using t assms(2) by (auto simp: list_ex_iff)
  ultimately show ?thesis
    using assms t
    by (auto simp: put_application_def put_application_statements_def acceptance_write_def transaction_def uuid_def
        slugs_retired_def simp del: run_calls_append)
qed

text \<open>
  C28: an application given a new slug disappears: \<open>put_application\<close> retires the old slug under the
  application's own identifier, and every reader hides an application that has a tombstone, so after the
  rename no read ever returns it again, under its identifier or any slug.
\<close>

theorem renamed_application_hidden:
  assumes "put_application i now False (run_calls sha cs empty_db) = Inr (db', u)"
    and "get_application_including_tombstone (in_application_id i) (run_calls sha cs empty_db) = Some a"
    and "app_slug a \<noteq> in_slug i"
  shows "get_application x (run_calls sha ds db') = Some b \<longrightarrow> app_application_id b \<noteq> in_application_id i"
proof -
  let ?db = "run_calls sha cs empty_db"
  have inv: "controller_inv sha db'"
    using keeps_put_application [of sha ?db i now False] assms(1) run_inv by (auto simp: keeps_def safe_def)
  have "\<exists>t \<in> set (slug_tombstones db'). ts_application_id t = in_application_id i"
    using assms(1,2,3)
    unfolding put_application_def put_application_statements_def acceptance_write_def Let_def rbind_eq_Inr
      get_application_including_tombstone_def
    by (auto simp: transaction_Inr rbind_eq_Inr execute_Inr split: if_splits)
  then have "\<exists>t \<in> set (slug_tombstones (run_calls sha ds db')). ts_application_id t = in_application_id i"
    using kept_run [OF inv, of ds] by (auto simp: kept_def)
  then show ?thesis
    using find_where_SomeD unfolding get_application_def by (fastforce simp: tombstoned_def list_ex_iff)
qed

text \<open>A run that gives an application a new slug.\<close>

definition renamed_application :: application_input where
  "renamed_application = example_application\<lparr>in_slug := ''store''\<rparr>"

lemma example_renamed:
  "\<exists>d db. put_application example_application example_time False empty_db = Inr (d, ()) \<and>
    put_application renamed_application example_time False d = Inr (db, ()) \<and>
    map app_slug (applications d) = [''shop''] \<and> map app_application_id (applications d) = [example_application_id] \<and>
    map ts_slug (slug_tombstones db) = [''shop'']"
proof -
  have "rbind (put_application example_application example_time False empty_db) (\<lambda>(d, _).
      rbind (put_application renamed_application example_time False d) (\<lambda>(db, _).
      Inr (map app_slug (applications d), map app_application_id (applications d), map ts_slug (slug_tombstones db)))) =
      Inr ([''shop''], [example_application_id], [''shop''])"
    by code_simp
  then show ?thesis unfolding rbind_eq_Inr by (auto simp: rbind_eq_Inr)
qed

abbreviation created_run :: "timed_call list" where
  "created_run \<equiv> [(\<lambda>_. example_time, Put_Application example_application)]"

abbreviation renamed_run :: "timed_call list" where
  "renamed_run \<equiv> created_run @ [(\<lambda>_. example_time, Put_Application renamed_application)]"

theorem retired_slug_refused_witness:
  "put_application example_application ''later'' False (run_calls id (renamed_run @ [(\<lambda>_. ''t'', Default_Flavor ''x'')]) empty_db) =
    Inl (DatabaseError ''application slug is permanently retired'')"
proof -
  obtain t where t: "t \<in> set (slug_tombstones (run_calls id renamed_run empty_db))" "ts_slug t = ''shop''"
    using example_renamed by (auto simp: commit_call_def forget_def map_eq_Cons_conv)
  have "uuid_re example_application_id" "slug ''shop'' = Inr ''shop''" by code_simp+
  then show ?thesis
    using retired_slug_refused [OF t(1), of example_application None None "''later''" "[(\<lambda>_. ''t'', Default_Flavor ''x'')]"] t(2)
    by (simp add: example_application_def optional_check_def)
qed

theorem renamed_application_hidden_witness:
  "\<exists>db. \<forall>x b. get_application x db = Some b \<longrightarrow> app_application_id b \<noteq> example_application_id"
proof -
  obtain d db where d: "put_application example_application example_time False empty_db = Inr (d, ())"
      "put_application renamed_application example_time False d = Inr (db, ())"
      "map app_slug (applications d) = [''shop'']" "map app_application_id (applications d) = [example_application_id]"
    using example_renamed by (elim exE conjE)
  have run: "run_calls id created_run empty_db = d" using d(1) by (simp add: commit_call_def forget_def)
  obtain a where a: "get_application_including_tombstone (in_application_id renamed_application) d = Some a" "app_slug a = ''shop''"
    using d(3,4) by (auto simp: get_application_including_tombstone_def map_eq_Cons_conv renamed_application_def example_application_def)
  have "app_slug a \<noteq> in_slug renamed_application" using a(2) by (simp add: renamed_application_def)
  then show ?thesis
    using renamed_application_hidden [of renamed_application example_time id created_run db "()" a _ "[]"] d(2) a(1)
    unfolding run by (auto simp: renamed_application_def example_application_def)
qed

section \<open>Acceptance\<close>

lemma put_application_attempts:
  "put_application i now w d = Inr (d', u) \<Longrightarrow> deployment_attempts d' = deployment_attempts d"
  unfolding put_application_def put_application_statements_def acceptance_write_def transaction_def Let_def rbind_eq_Inr
  by (auto simp: rbind_eq_Inr execute_Inr split: option.splits if_splits)

lemma put_application_schema:
  assumes "put_application i now w d = Inr (d', u)"
  shows "schema_ok d'"
proof -
  have "schema_ok d4" if "put_application_statements i now d = Inr (d4, u)" for d d4
    using that unfolding put_application_statements_def Let_def
    by (auto simp: rbind_eq_Inr execute_Inr split: if_splits)
  then show ?thesis
    using assms unfolding put_application_def acceptance_write_def
    by (auto simp: rbind_eq_Inr transaction_Inr split: if_splits)
qed

lemma mark_finishing_frame:
  "mark_operation_finishing i w d = Inr (d', u) \<Longrightarrow>
   deployment_attempts d' = deployment_attempts d \<and> active_deployments d' = active_deployments d"
  unfolding mark_operation_finishing_def acceptance_write_def transaction_def
  by (auto simp: rbind_eq_Inr execute_Inr split: if_splits option.splits)

lemma active_attempt_frame:
  "deployment_attempts d' = deployment_attempts d \<Longrightarrow> active_deployments d' = active_deployments d \<Longrightarrow>
   active_attempt i d' = active_attempt i d"
  unfolding active_attempt_def get_active_deployment_def by (simp only:)

lemma find_upsert_new:
  "P new \<Longrightarrow> find_where P (upsert P (\<lambda>_. new) new rows) = Some new"
  by (induction rows) (auto simp: upsert_def update_where_def)

lemma apply_evidence_ids [simp]:
  "at_deployment_id (apply_evidence e now a) = at_deployment_id a" "at_application_id (apply_evidence e now a) = at_application_id a"
  by (simp_all add: apply_evidence_def Let_def)

lemma checkpoint_activates:
  assumes "checkpoint_attempt_statements sha i e now d = Inr (d', x)" "ev_status e = ''succeeded''" "schema_ok d"
    and "find_where (\<lambda>a. at_deployment_id a = i) (deployment_attempts d) = Some a"
  shows "active_attempt (at_application_id a) d' = Some (apply_evidence e now a)"
proof -
  let ?new = "\<lparr>act_application_id = at_application_id a, act_deployment_id = i,
    act_lifecycle_state = ''running'', act_updated_at = now\<rparr>"
  let ?upd = "update_where (\<lambda>a. at_deployment_id a = i) (apply_evidence e now) (deployment_attempts d)"
  obtain cur where cur: "get_deployment_attempt sha i d = Inr cur"
    using assms(1) unfolding checkpoint_attempt_statements_def rbind_eq_Inr by blast
  then obtain v where v: "deployment_attempt_of sha a = Inr v" "get_deployment_attempt sha i d = Inr (Some v)"
    using assms(4) unfolding get_deployment_attempt_def by (auto simp: rbind_eq_Inr uuid_Inr read_row_def)
  have row: "av_row v = a"
    using v(1) unfolding deployment_attempt_of_def Let_def by (auto simp: rbind_eq_Inr split: if_splits)
  obtain d1 where d1: "d1 = d\<lparr>deployment_attempts := ?upd\<rparr>"
      "\<exists>d2. execute (d1\<lparr>active_deployments := upsert (\<lambda>b. act_application_id b = at_application_id a)
          (\<lambda>_. ?new) ?new (active_deployments d1)\<rparr>) = Inr d2 \<and>
        execute (d2\<lparr>applications := update_where (\<lambda>b. app_application_id b = at_application_id a)
          (\<lambda>b. b\<lparr>app_desired_running := True, app_updated_at := now\<rparr>) (applications d2)\<rparr>) = Inr d'"
    using assms(1,2) v(2) row unfolding checkpoint_attempt_statements_def Let_def
    by (auto simp: rbind_eq_Inr update_attempts_Inr)
  then have d': "deployment_attempts d' = ?upd"
      "active_deployments d' = upsert (\<lambda>b. act_application_id b = at_application_id a) (\<lambda>_. ?new) ?new (active_deployments d)"
    by (auto simp: execute_Inr)
  have act: "get_active_deployment (at_application_id a) d' = Some ?new"
    unfolding get_active_deployment_def d'(2) by (rule find_upsert_new) simp
  have a: "a \<in> set (deployment_attempts d)" "at_deployment_id a = i" using find_where_SomeD [OF assms(4)] by auto
  have uniq: "b = a" if "b \<in> set (deployment_attempts d)" "at_deployment_id b = i" for b
    using schema_okD(5) [OF assms(3)] a that by (auto simp: attempts_ok_def intro: unique_on_same)
  have "find_where (\<lambda>b. at_deployment_id b = i \<and> at_application_id b = at_application_id a) ?upd = Some (apply_evidence e now a)"
  proof -
    have mem: "apply_evidence e now a \<in> set ?upd" using a by (auto simp: set_update_where)
    have only: "b = apply_evidence e now a" if "b \<in> set ?upd" "at_deployment_id b = i" for b
      using that uniq by (auto elim!: in_update_whereE)
    obtain b where b: "find_where (\<lambda>b. at_deployment_id b = i \<and> at_application_id b = at_application_id a) ?upd = Some b"
      using mem a(2) find_where_None [of "\<lambda>b. at_deployment_id b = i \<and> at_application_id b = at_application_id a" ?upd]
      by (cases "find_where (\<lambda>b. at_deployment_id b = i \<and> at_application_id b = at_application_id a) ?upd")
         (auto simp: list_ex_iff)
    then show ?thesis using only [of b] find_where_SomeD [OF b] by simp
  qed
  then show ?thesis unfolding active_attempt_def act d'(1) by simp
qed

lemma acceptance_activates:
  assumes "acceptance_statements sha acc clock d = Inr (d', u)" "schema_ok d"
    and "find_where (\<lambda>a. at_deployment_id a = acc_deployment_id acc) (deployment_attempts d) = Some a"
  shows "active_attempt (at_application_id a) d' = Some (apply_evidence (acceptance_evidence acc) (clock 1) a)"
proof -
  obtain d1 d2 x y where put: "put_application (accepted_application acc) (clock 0) True d = Inr (d1, x)"
    and check: "checkpoint_deployment_attempt sha (acc_deployment_id acc) (acceptance_evidence acc) (clock 1) True d1 = Inr (d2, y)"
    and fin: "(case get_operation (acc_deployment_id acc) d2 of None \<Rightarrow> Inr (d2, ())
       | Some r \<Rightarrow> if op_kind r = ''app.deploy'' then mark_operation_finishing (op_operation_id r) True d2 else Inr (d2, ())) = Inr (d', u)"
    using assms(1) unfolding acceptance_statements_def rbind_eq_Inr by (auto simp: rbind_eq_Inr)
  obtain z where "checkpoint_attempt_statements sha (acc_deployment_id acc) (acceptance_evidence acc) (clock 1) d1 = Inr (d2, z)"
    using check unfolding checkpoint_deployment_attempt_def rbind_eq_Inr uuid_Inr acceptance_write_def
    by (auto simp: then_read_Inr read_back_Inr split: if_splits)
  then have "active_attempt (at_application_id a) d2 = Some (apply_evidence (acceptance_evidence acc) (clock 1) a)"
    using checkpoint_activates [OF _ _ put_application_schema [OF put]] assms(3) put_application_attempts [OF put]
    by (simp add: acceptance_evidence_def)
  moreover have "deployment_attempts d' = deployment_attempts d2 \<and> active_deployments d' = active_deployments d2"
    using fin mark_finishing_frame by (auto split: option.splits if_splits)
  ultimately show ?thesis using active_attempt_frame [of d' d2] by simp
qed

lemma accept_parts:
  assumes "accept_healthy_deployment sha helper route acc clock db = Inr (db', v)"
  shows "\<exists>u a job_id obs. transaction (acceptance_statements sha acc clock) db = Inr (db', u) \<and>
    find_where (\<lambda>a. at_deployment_id a = acc_deployment_id acc) (deployment_attempts db) = Some a \<and>
    at_application_id a = acc_application_id acc \<and>
    helper ''app.health'' (health_arguments acc job_id) = Inr obs \<and> exact_health acc obs \<and> route = Inr True"
proof -
  obtain view job_id obs u where p: "helper ''app.health'' (health_arguments acc job_id) = Inr obs" "exact_health acc obs"
      "route = Inr True" "get_deployment_attempt sha (acc_deployment_id acc) db = Inr (Some view)"
      "at_application_id (av_row view) = acc_application_id acc"
      "transaction (acceptance_statements sha acc clock) db = Inr (db', u)"
    using assms unfolding accept_healthy_deployment_def rbind_eq_Inr if_Inl_eq_Inr uuid_Inr
    by (auto simp: rbind_eq_Inr split: sum.splits option.splits if_splits)
  moreover obtain a where "find_where (\<lambda>a. at_deployment_id a = acc_deployment_id acc) (deployment_attempts db) = Some a"
      "deployment_attempt_of sha a = Inr view"
    using p(4) unfolding get_deployment_attempt_def
    by (auto simp: rbind_eq_Inr uuid_Inr read_row_def split: option.splits)
  moreover have "av_row view = a"
    using calculation(8) unfolding deployment_attempt_of_def Let_def by (auto simp: rbind_eq_Inr split: if_splits)
  ultimately show ?thesis by blast
qed

lemma deployment_of_active:
  assumes "active_attempt i db = Some a" "get_deployment sha i db = Inr r"
  shows "\<exists>dep. r = Some dep \<and> dep_deployment_id dep = at_deployment_id a \<and> Some (dep_image_digest dep) = at_image_digest a \<and>
    Some (dep_nomad_job dep) = at_nomad_job a \<and> Some (dep_nomad_job_sha256 dep) = at_nomad_job_sha256 a \<and>
    Some (dep_nomad_version dep) = at_nomad_version a \<and> Some (dep_recipe_hash dep) = at_recipe_hash a \<and>
    Some (dep_build_log_path dep) = at_build_log_path a \<and> dep_source_commit dep = at_source_commit a"
proof -
  obtain v where v: "deployment_attempt_of sha a = Inr v"
    using assms unfolding get_deployment_def read_row_def by (auto simp: rbind_eq_Inr)
  have row: "av_row v = a"
    using v unfolding deployment_attempt_of_def Let_def by (auto simp: rbind_eq_Inr split: if_splits)
  show ?thesis
    using assms v row by (auto simp: get_deployment_def read_row_def Let_def split: if_splits)
qed




section \<open>Environment revisions\<close>

lemma rowcount_exists: "rowcount P rows = 1 \<Longrightarrow> \<exists>x \<in> set rows. P x"
  by (cases "filter P rows = []") (auto simp: rowcount_def filter_empty_conv)

lemma advance_Inr:
  assumes "advance_environment_revision i n now db = Inr (db', r)" "schema_ok db"
  shows "uuid_re i \<and> \<not> in_transaction db' \<and> er_application_id r = i \<and> er_revision r = n + 1 \<and>
    r \<in> set (environment_revisions db')"
proof -
  let ?P = "\<lambda>r. er_application_id r = i \<and> er_revision r = n"
  let ?f = "\<lambda>r. r\<lparr>er_revision := er_revision r + 1, er_updated_at := now\<rparr>"
  have p: "uuid_re i" "\<not> in_transaction db'" "rowcount ?P (environment_revisions db) = 1"
      "environment_revisions db' = update_where ?P ?f (environment_revisions db)"
      "get_environment_revision i db' = Inr (Some r)"
    using assms(1) unfolding advance_environment_revision_def rbind_eq_Inr uuid_Inr Let_def
    by (auto simp: then_read_Inr transaction_Inr read_back_Inr rbind_eq_Inr execute_Inr split: if_splits)
  obtain x where x: "x \<in> set (environment_revisions db)" "?P x"
    using rowcount_exists [OF p(3)] by blast
  have r: "r \<in> set (environment_revisions db')" "er_application_id r = i"
    using p(5) find_where_SomeD [of "\<lambda>r. er_application_id r = i" "environment_revisions db'" r]
    unfolding get_environment_revision_def by (auto simp: rbind_eq_Inr uuid_Inr)
  have uniq: "y = x" if "y \<in> set (environment_revisions db)" "er_application_id y = i" for y
    using schema_okD(8) [OF assms(2)] x that by (auto simp: environment_ok_def intro: unique_on_same)
  have "er_revision r = n + 1"
    using r(1) unfolding p(4)
  proof (rule in_update_whereE)
    assume "r \<in> set (environment_revisions db)" "\<not> ?P r"
    then show ?thesis using uniq [of r] r(2) x(2) by simp
  qed simp
  then show ?thesis using p r by simp
qed

text \<open>
  C30: environment revisions give optimistic concurrency: a successful advance returns the next revision,
  and after it, whatever calls follow, an advance that still expects the old revision is refused, so two
  writers that read the same revision cannot both succeed.
\<close>

theorem stale_revision_refused:
  assumes "advance_environment_revision i n now (run_calls sha cs empty_db) = Inr (db', r)"
  shows "er_revision r = n + 1 \<and>
    advance_environment_revision i n later (run_calls sha ds db') =
      Inl (DatabaseError ''environment revision is missing or stale'')"
proof -
  let ?d = "run_calls sha ds db'"
  let ?P = "\<lambda>r. er_application_id r = i \<and> er_revision r = n"
  have a: "uuid_re i" "\<not> in_transaction db'" "er_application_id r = i" "er_revision r = n + 1" "r \<in> set (environment_revisions db')"
    using advance_Inr [OF assms inv_schema [OF run_inv]] by auto
  have "controller_inv sha db'"
    using keeps_advance [of sha "run_calls sha cs empty_db" i n now] assms run_inv [of sha cs] by (auto simp: keeps_def safe_def)
  then have inv: "controller_inv sha ?d" "kept db' ?d"
    using safe_run [of sha db' ds] by (auto simp: safe_def)
  then obtain r' where r': "r' \<in> set (environment_revisions ?d)" "er_application_id r' = i" "n + 1 \<le> er_revision r'"
    using a unfolding kept_def rows_kept_def revision_kept_def by metis
  have none: "\<not> list_ex ?P (environment_revisions ?d)"
  proof
    assume "list_ex ?P (environment_revisions ?d)"
    then obtain x where x: "x \<in> set (environment_revisions ?d)" "?P x" by (auto simp: list_ex_iff)
    then have "x = r'"
      using schema_okD(8) [OF inv_schema [OF inv(1)]] r' by (auto simp: environment_ok_def intro: unique_on_same)
    then show False using x(2) r'(3) by simp
  qed
  let ?f = "\<lambda>r. r\<lparr>er_revision := er_revision r + 1, er_updated_at := later\<rparr>"
  have same: "update_where ?P ?f (environment_revisions ?d) = environment_revisions ?d"
    by (rule update_where_none [OF none])
  have ok: "execute (?d\<lparr>in_transaction := True, environment_revisions := environment_revisions ?d\<rparr>) =
      Inr (?d\<lparr>in_transaction := True, environment_revisions := environment_revisions ?d\<rparr>)"
    using inv_schema [OF inv(1)] by (simp add: execute_def schema_ok_def)
  have "rowcount ?P (environment_revisions ?d) \<noteq> 1"
    using none rowcount_exists [of ?P "environment_revisions ?d"] by (auto simp: list_ex_iff)
  then show ?thesis
    using a run_idle [OF a(2), of sha ds] same ok
    by (simp add: advance_environment_revision_def then_read_def transaction_def uuid_def Let_def)
qed

theorem stale_revision_refused_witness:
  "\<exists>db. advance_environment_revision example_application_id 0 ''later''
      (run_calls id [(\<lambda>_. ''t'', Advance_Environment example_application_id 1)] db) =
    Inl (DatabaseError ''environment revision is missing or stale'')"
proof -
  have "rbind (put_application example_application example_time False empty_db) (\<lambda>(d, _).
      rbind (advance_environment_revision example_application_id 0 example_time d) (\<lambda>(_, r). Inr (er_revision r))) = Inr 1"
    by code_simp
  then obtain d x db r where "put_application example_application example_time False empty_db = Inr (d, x)"
      "advance_environment_revision example_application_id 0 example_time d = Inr (db, r)"
    unfolding rbind_eq_Inr by (auto simp: rbind_eq_Inr)
  then have "advance_environment_revision example_application_id 0 example_time
      (run_calls id [(\<lambda>_. example_time, Put_Application example_application)] empty_db) = Inr (db, r)"
    by (simp add: commit_call_def forget_def)
  from stale_revision_refused [OF this] show ?thesis by blast
qed

end
