(* ===== verification/Executor_Runs.thy ===== *)
theory Executor_Runs
  imports Controller_Calls
begin

text \<open>
  The executor as a state machine (\<open>controller/async_operations.py\<close>): request threads submit and resubmit,
  worker threads take, start and end items, and between any two of these steps any thread may run any
  other call on the database. The theory shows that the executor never loses or duplicates accepted work.
\<close>

section \<open>Calls that leave the dispatches alone\<close>

definition dispatch_states :: "db \<Rightarrow> (string \<times> string) list" where
  "dispatch_states db = map (\<lambda>d. (dp_operation_id d, dp_status d)) (operation_dispatches db)"

definition same_dispatches :: "db \<Rightarrow> db \<Rightarrow> bool" where
  "same_dispatches d d' \<longleftrightarrow> dispatch_states d' = dispatch_states d"

text \<open>
  A relation between the databases before and after a handler, insensitive to the transaction flag: the
  rules follow the shape of the handlers.
\<close>

locale handler_relation =
  fixes R :: "db \<Rightarrow> db \<Rightarrow> bool"
  assumes refl_R: "R d d"
    and trans_R: "R d1 d2 \<Longrightarrow> R d2 d3 \<Longrightarrow> R d1 d3"
    and open_R: "R (d\<lparr>in_transaction := flag\<rparr>) d' \<Longrightarrow> R d d'"
    and close_R: "R d d' \<Longrightarrow> R d (d'\<lparr>in_transaction := flag\<rparr>)"
begin

definition outcomes :: "db \<Rightarrow> (db \<times> 'a) result \<Rightarrow> bool" where
  "outcomes d m \<longleftrightarrow> (\<forall>d' x. m = Inr (d', x) \<longrightarrow> R d d')"

lemma outcomesD: "outcomes d m \<Longrightarrow> m = Inr (d', x) \<Longrightarrow> R d d'"
  by (simp add: outcomes_def)

lemma of_return: "R d d' \<Longrightarrow> outcomes d (Inr (d', x))"
  by (simp add: outcomes_def)

lemma of_error: "outcomes d (Inl e)"
  by (simp add: outcomes_def)

lemma of_bind: "(\<And>x. r = Inr x \<Longrightarrow> outcomes d (k x)) \<Longrightarrow> outcomes d (rbind r k)"
  by (auto simp: outcomes_def rbind_eq_Inr)

lemma of_if: "(P \<Longrightarrow> outcomes d a) \<Longrightarrow> (\<not> P \<Longrightarrow> outcomes d b) \<Longrightarrow> outcomes d (if P then a else b)"
  by simp

lemma of_option:
  "(x = None \<Longrightarrow> outcomes d a) \<Longrightarrow> (\<And>y. x = Some y \<Longrightarrow> outcomes d (f y)) \<Longrightarrow>
   outcomes d (case x of None \<Rightarrow> a | Some y \<Rightarrow> f y)"
  by (cases x) simp_all

lemma of_transaction: "(\<And>d. outcomes d (body d)) \<Longrightarrow> outcomes db (transaction body db)"
  unfolding outcomes_def transaction_Inr by (blast intro: open_R close_R)

lemma of_acceptance: "(\<And>d. outcomes d (body d)) \<Longrightarrow> outcomes db (acceptance_write w body db)"
  unfolding acceptance_write_def by (intro of_if of_transaction of_error) blast+

lemma of_after: "outcomes db m \<Longrightarrow> outcomes db (then_read m (read_back get))"
  by (auto simp: outcomes_def then_read_Inr read_back_Inr)

lemma of_chain: "outcomes db m \<Longrightarrow> (\<And>d x. m = Inr (d, x) \<Longrightarrow> outcomes d (k d x)) \<Longrightarrow> outcomes db (rbind m (\<lambda>(d, x). k d x))"
  by (auto simp: outcomes_def rbind_eq_Inr intro: trans_R)

lemma of_read: "outcomes db m \<Longrightarrow> outcomes db (rbind m (\<lambda>(d, x). read_back (get x) d))"
  by (auto simp: outcomes_def rbind_eq_Inr read_back_Inr)

lemma of_result: "outcomes db m \<Longrightarrow> outcomes db (rbind m (\<lambda>(d, x). Inr (d, y x)))"
  by (auto simp: outcomes_def rbind_eq_Inr)

lemma of_run: "outcomes db (f db) \<Longrightarrow> R db (fst (run_op f db))"
  by (auto simp: run_op_def outcomes_def refl_R split: sum.split)

lemma of_forget: "outcomes db m \<Longrightarrow> forget m = Inr d' \<Longrightarrow> R db d'"
  by (auto simp: outcomes_def forget_Inr)

lemma of_seq: "R db (fst (m db)) \<Longrightarrow> (\<And>x d. R d (fst (k x d))) \<Longrightarrow> R db (fst (seq m k db))"
  by (auto simp: seq_def split: prod.splits sum.splits) (metis fst_conv trans_R)

lemma of_ret: "R db (fst (ret x db))"
  by (simp add: ret_def refl_R)

lemma of_read_dispatch: "R db (fst (read_dispatch i db))"
  by (simp add: read_dispatch_def refl_R)

lemmas steps = of_after of_read of_result of_bind of_if of_option of_transaction of_acceptance of_error of_return

end

text \<open>The calls on operations the executor makes keep the relation.\<close>

locale executor_relation = handler_relation +
  assumes of_begin: "outcomes db (begin_operation i k s ph dl refs now db)"
    and of_succeeded: "outcomes db (mark_succeeded i cl now db)"
    and of_failed: "outcomes db (mark_failed i err cl now db)"
    and of_finishing_failure: "outcomes db (record_finishing_failure i err now db)"
    and of_recovery: "outcomes db (mark_recovery_required i err p now db)"
    and of_schedule: "outcomes db (schedule later i err now db)"
begin

lemma of_calls:
  "R db (fst (run_op (begin_operation i k s ph dl refs now) db))"
  "R db (fst (run_op (mark_succeeded i cl now) db))"
  "R db (fst (run_op (mark_failed i err cl now) db))"
  "R db (fst (run_op (record_finishing_failure i err now) db))"
  "R db (fst (run_op (mark_recovery_required i err p now) db))"
  "R db (fst (run_op (schedule later i err now) db))"
  by (intro of_run of_begin of_succeeded of_failed of_finishing_failure of_recovery of_schedule)+

lemma of_run_failed: "R db (fst (run_failed clock i cls db))"
proof -
  have "R db (fst (seq (read_dispatch i) (\<lambda>dispatch.
          seq (run_op (begin_operation i (dp_kind dispatch) (dp_scope dispatch) ''rejected'' (clock 0) [] (clock 1))) (\<lambda>_.
          run_op (mark_failed i (Raised cls) ''not_required'' (clock 2)))) db))"
    by (intro of_seq of_read_dispatch of_calls)
  moreover have "R db (fst (seq (run_op (record_finishing_failure i (Raised cls) (clock 0))) (\<lambda>_. ret ()) db))"
      "R db (fst (seq (run_op (mark_recovery_required i (Raised cls) None (clock 0))) (\<lambda>_. ret ()) db))"
    by (intro of_seq of_ret of_calls)+
  ultimately show ?thesis
    unfolding run_failed_def
    by (auto simp: refl_R ret_def split: option.splits prod.splits sum.splits error.splits)
qed

lemma of_placeholder: "R db (fst (begin_placeholder ph d dl now db))"
  using of_calls(1) [of db "dp_operation_id d" "dp_kind d" "dp_scope d" ph dl "[]" now]
  unfolding begin_placeholder_def by (auto split: prod.splits sum.splits error.splits)

end

text \<open>So do the calls that move a dispatch.\<close>

locale journal_relation = executor_relation +
  assumes of_status: "outcomes db (set_operation_dispatch_status i st err' now db)"
    and of_enqueue: "outcomes db (enqueue_operation_dispatch i k s now db)"
    and of_requeue: "outcomes db (requeue_recovery_dispatch i k s now automatic db)"
begin

lemma of_moves: "R db (fst (run_op (set_operation_dispatch_status i st err' now) db))"
  by (intro of_run of_status)

lemma of_settle: "R db (fst (run_settle later clock i db))"
  unfolding run_settle_def Let_def by (auto intro!: of_seq of_ret of_moves of_calls)

lemma of_end_item: "R db (fst (end_item later clock i failed db))"
proof -
  obtain db2 handled where h: "(case failed of None \<Rightarrow> ret () db | Some cls \<Rightarrow> run_failed (clock 1) i cls db) = (db2, handled)"
    by fastforce
  have "R db db2"
  proof (cases failed)
    case (Some cls)
    then show ?thesis using h of_run_failed [of db "clock 1" i cls] by simp
  qed (use h in \<open>simp add: ret_def refl_R\<close>)
  moreover obtain db3 r where r: "run_settle later (clock 2) i db2 = (db3, r)"
    by fastforce
  moreover have "fst (end_item later clock i failed db) = db3"
    unfolding end_item_def h by (cases r) (simp_all add: r)
  ultimately show ?thesis
    using of_settle [of db2 later "clock 2" i] trans_R by auto
qed

lemma of_recover_dispatch: "R db (fst (recover_dispatch later clock d db))"
proof -
  have "R db (fst (recover_finishing later clock d r db))" for r
    unfolding recover_finishing_def by (auto intro!: of_seq of_ret of_moves of_calls)
  then show ?thesis
    unfolding recover_dispatch_def Let_def
    by (auto intro!: of_seq of_ret of_moves of_calls of_placeholder split: option.split)
qed

lemma of_recover_dispatches: "R db (fst (recover_dispatches later clock n ds db))"
  by (induction ds arbitrary: n db) (auto intro!: of_seq of_ret of_recover_dispatch)

lemma of_startup: "R db (fst (recover_startup later clock db))"
  unfolding recover_startup_def by (rule of_recover_dispatches)

end

interpretation sf: handler_relation "safe sha" for sha
  by unfold_locales (auto simp: safe_refl intro: safe_trans)

lemma sf_keeps: "sf.outcomes sha d m \<longleftrightarrow> keeps sha d m"
  by (simp add: sf.outcomes_def keeps_def)

interpretation sf: journal_relation "safe sha" for sha
  by unfold_locales (simp only: sf_keeps, rule keeps_all)+

interpretation sd: handler_relation same_dispatches
  by unfold_locales (simp_all add: same_dispatches_def dispatch_states_def)

lemma same_dispatches_table: "operation_dispatches d' = operation_dispatches d \<Longrightarrow> same_dispatches d d'"
  by (simp add: same_dispatches_def dispatch_states_def)

lemmas sd_simps = sd.outcomes_def same_dispatches_def dispatch_states_def execute_Inr update_unfinished_Inr
  set_request_result_def set_refs_def rbind_eq_Inr

lemma sd_update_where [simp]:
  "(\<And>x. (dp_operation_id (f x), dp_status (f x)) = (dp_operation_id x, dp_status x)) \<Longrightarrow>
   map (\<lambda>d. (dp_operation_id d, dp_status d)) (update_where P f ds) = map (\<lambda>d. (dp_operation_id d, dp_status d)) ds"
  by (simp add: update_where_def)

lemma sd_requests:
  "sd.outcomes db (claim_idempotency_request i fp now db)"
  "sd.outcomes db (complete_idempotency_request i k r now db)"
  unfolding claim_idempotency_request_def complete_idempotency_request_def
  by (intro sd.steps; simp add: sd_simps)+

lemma sd_finish: "sd.outcomes db (finish_operation i s e p c now db)"
  unfolding finish_operation_def read_operation_def
  by (intro sd.steps; simp add: sd_simps)

lemma sd_operations:
  "sd.outcomes db (mark_operation_finishing i w db)"
  "sd.outcomes db (begin_operation i k s ph dl refs now db)"
  "sd.outcomes db (renew_operation_deadline i dl now db)"
  "sd.outcomes db (checkpoint_operation i cp now db)"
  "sd.outcomes db (mark_succeeded i cl now db)"
  "sd.outcomes db (mark_recovery_required i err p now db)"
  "sd.outcomes db (mark_failed i e cl now db)"
  "sd.outcomes db (record_finishing_failure i e now db)"
  "sd.outcomes db (schedule later i er now db)"
  unfolding mark_operation_finishing_def begin_operation_def renew_operation_deadline_def checkpoint_operation_def
    mark_succeeded_def mark_recovery_required_def mark_failed_def record_finishing_failure_def schedule_def
    read_operation_def Let_def
  by (intro sd_finish sd.steps; simp add: sd_simps)+

lemma sd_runtime: "sd.outcomes db (set_application_runtime i running w v now within db)"
  unfolding set_application_runtime_def set_runtime_statements_def Let_def
  by (intro sd.steps; simp add: sd_simps update_attempts_Inr)

lemma sd_tables:
  "sd.outcomes db (put_default_builder_flavor f db)"
  "sd.outcomes db (put_application_builder_flavor i fl now db)"
  "sd.outcomes db (put_image_selection r i n c h now db)"
  "sd.outcomes db (advance_environment_revision i ver now db)"
  unfolding put_default_builder_flavor_def put_application_builder_flavor_def put_image_selection_def
    advance_environment_revision_def Let_def
  by (intro sd.steps; simp add: sd_simps)+

lemma sd_put: "sd.outcomes db (put_application ai now within db)"
  unfolding put_application_def put_application_statements_def Let_def
  by (intro sd.steps; simp add: sd_simps split: option.splits if_splits; auto simp: execute_Inr)

lemma sd_create: "sd.outcomes db (create_deployment_attempt sha at now db)"
  unfolding create_deployment_attempt_def Let_def
  by (intro sd.steps; simp add: sd_simps)

lemma sd_checkpoint: "sd.outcomes db (checkpoint_deployment_attempt sha i ev now w db)"
  unfolding checkpoint_deployment_attempt_def checkpoint_attempt_statements_def Let_def
  by (intro sd.steps; simp add: sd_simps update_attempts_Inr)

lemma sd_resources:
  "sd.outcomes db (rename_managed_resource i l now db)" "sd.outcomes db (set_managed_resource_lifecycle i st now db)"
  "sd.outcomes db (delete_managed_resource i ty n db)" "sd.outcomes db (put_storage_usage i u b db)" "sd.outcomes db (put_storage_host_usage u db)"
  "sd.outcomes db (put_storage_limits i q u b now db)" "sd.outcomes db (set_storage_instance i inst port m db)"
  "sd.outcomes db (set_environment_keys i own ks db)"
  unfolding rename_managed_resource_def set_managed_resource_lifecycle_def delete_managed_resource_def put_storage_usage_def
    put_storage_host_usage_def put_storage_limits_def set_storage_instance_def set_environment_keys_def update_resource_def
    Let_def
  by (intro sd.steps; simp add: sd_simps)+

lemma sd_retire: "retire_application i now a d = Inr d' \<Longrightarrow> operation_dispatches d' = operation_dispatches d"
  by (auto simp: retire_application_def execute_Inr rbind_eq_Inr Let_def)

lemma sd_deletion: "sd.outcomes db (complete_application_deletion i j now db)"
  unfolding complete_application_deletion_def Let_def
  by (intro sd.steps; simp add: sd_simps sd_retire)

lemma sd_put_resource: "sd.outcomes db (put_managed_resource i fresh now db)"
  unfolding put_managed_resource_def Let_def
  by (intro sd.steps; simp add: sd_simps)

lemma sd_accept: "sd.outcomes db (accept_healthy_deployment sha helper route acc clock db)"
proof -
  have "sd.outcomes d (acceptance_statements sha acc clock d)" for d
    unfolding acceptance_statements_def
    by (intro sd.of_chain sd_put sd_checkpoint sd.of_option sd.of_if sd_operations sd.of_return sd.refl_R)
  then show ?thesis
    unfolding accept_healthy_deployment_def by (intro sd.steps)
qed

lemma sd_accept_enabled: "sd.outcomes db (accept_enabled i j w v now db)"
  unfolding accept_enabled_def by (intro sd.of_transaction sd.of_chain sd_runtime sd_operations)

lemma sd_updates:
  "sd.outcomes db (replace_saved_job i job h v db)" "sd.outcomes db (mark_usage_failed i db)"
  "sd.outcomes db (mark_migration_copying i db)" "sd.outcomes db (mark_migration_aborted i db)"
  "sd.outcomes db (restore_resource_columns i c db)"
  unfolding replace_saved_job_def mark_usage_failed_def mark_migration_copying_def mark_migration_aborted_def
    restore_resource_columns_def
  by (intro sd.steps; simp add: sd_simps update_attempts_Inr)+

lemmas sd_all = sd_requests sd_operations sd_tables sd_runtime sd_put sd_create sd_checkpoint sd_resources sd_deletion
  sd_put_resource sd_accept sd_accept_enabled sd_updates

text \<open>Everything but the three functions the executor itself uses to move a dispatch.\<close>

fun quiet :: "call \<Rightarrow> bool" where
  "quiet (Enqueue _ _ _) = False"
| "quiet (Requeue _ _ _ _) = False"
| "quiet (Dispatch_Status _ _ _) = False"
| "quiet _ = True"

lemma quiet_perform: "quiet c \<Longrightarrow> perform sha clock c db = Inr db' \<Longrightarrow> same_dispatches db db'"
proof (cases c)
  case (Create_Attempt document i)
  assume "perform sha clock c db = Inr db'"
  then show ?thesis
    using Create_Attempt sd.of_forget [OF sd_create] by (auto simp: rbind_eq_Inr)
qed (simp, (erule sd.of_forget [rotated], rule sd_all)?)+

lemma quiet_run: "list_all (\<lambda>c. quiet (snd c)) cs \<Longrightarrow> same_dispatches db (run_calls sha cs db)"
proof (induction cs arbitrary: db)
  case (Cons c cs)
  have "same_dispatches db (commit_call sha c db)"
    using Cons.prems quiet_perform by (auto simp: commit_call_def sd.refl_R split: sum.split)
  then show ?case using Cons by (auto intro: sd.trans_R)
qed (simp add: sd.refl_R)


section \<open>Calls that move a dispatch\<close>

definition put_state :: "string \<Rightarrow> string \<Rightarrow> (string \<times> string) list \<Rightarrow> (string \<times> string) list" where
  "put_state i st xs = map (\<lambda>(j, s). (j, if j = i then st else s)) xs"

lemma in_put_state: "(j, s) \<in> set (put_state i st xs) \<longleftrightarrow> (if j = i then s = st \<and> (\<exists>s'. (i, s') \<in> set xs) else (j, s) \<in> set xs)"
  by (induction xs) (auto simp: put_state_def)

lemma dispatch_states_flag [simp]: "dispatch_states (d\<lparr>in_transaction := b\<rparr>) = dispatch_states d"
  by (simp add: dispatch_states_def)

lemma dispatch_states_put:
  "map (\<lambda>d. (dp_operation_id d, dp_status d))
     (update_where (\<lambda>x. dp_operation_id x = i) (\<lambda>x. x\<lparr>dp_status := st, dp_updated_at := now, dp_safe_error := e\<rparr>) ds) =
   put_state i st (map (\<lambda>d. (dp_operation_id d, dp_status d)) ds)"
  by (simp add: update_where_def put_state_def)

lemma set_status_states:
  assumes "set_operation_dispatch_status i st err now db = Inr (db', d)"
  shows "dispatch_states db' = put_state i st (dispatch_states db)"
proof -
  obtain d1 where "\<not> in_transaction db"
      "db' = d1\<lparr>in_transaction := False\<rparr>"
      "d1 = db\<lparr>in_transaction := True, operation_dispatches := update_where (\<lambda>x. dp_operation_id x = i)
         (\<lambda>x. x\<lparr>dp_status := st, dp_updated_at := now, dp_safe_error := summary_of err\<rparr>) (operation_dispatches db)\<rparr>"
    using assms unfolding set_operation_dispatch_status_def Let_def
    by (auto simp: rbind_eq_Inr uuid_Inr then_read_Inr transaction_Inr execute_Inr read_back_Inr split: if_splits)
  then show ?thesis by (simp add: dispatch_states_def dispatch_states_put)
qed

lemma start_states:
  "dispatch_states (fst (start_item now i db)) \<in> {dispatch_states db, put_state i ''running'' (dispatch_states db)}"
  using set_status_states by (auto simp: start_item_def run_op_def split: sum.splits)

lemma enqueue_states:
  assumes "schema_ok db" "enqueue_operation_dispatch i k s now db = Inr (db', d, created)"
  shows "if created then dispatch_states db' = dispatch_states db @ [(i, ''pending'')] \<and> i \<notin> fst ` set (dispatch_states db)
    else db' = db"
proof (cases created)
  case True
  then have e: "db' = enqueued i k s now db" "schema_ok db'"
    using enqueue_Inr [OF assms] by auto
  have "dispatches_ok (operation_dispatches db') (idempotency_requests db')"
    using e(2) by (rule schema_okD)
  then have "distinct (map fst (dispatch_states db'))"
    by (auto simp: dispatches_ok_def unique_on_def dispatch_states_def comp_def)
  moreover have "dispatch_states db' = dispatch_states db @ [(i, ''pending'')]"
    by (simp add: e(1) enqueued_def with_result_def dispatch_states_def dispatch_row_def)
  ultimately show ?thesis using True by auto
qed (use enqueue_Inr [OF assms] in auto)


lemma states_distinct: "schema_ok db \<Longrightarrow> distinct (map fst (dispatch_states db))"
  using schema_okD(2) [of db] by (auto simp: dispatches_ok_def unique_on_def dispatch_states_def comp_def)

lemma states_functional:
  "schema_ok db \<Longrightarrow> (i, a) \<in> set (dispatch_states db) \<Longrightarrow> (i, b) \<in> set (dispatch_states db) \<Longrightarrow> a = b"
  using states_distinct [of db] by (meson eq_key_imp_eq_value)

lemma put_state_eligible:
  assumes "schema_ok db" "(i, rr) \<in> set (dispatch_states db)"
  shows "map (\<lambda>(j, s). (j, if j = i \<and> s = rr then st else s)) (dispatch_states db) = put_state i st (dispatch_states db)"
  unfolding put_state_def using states_functional [OF assms(1) assms(2)] by auto

lemma requeue_states:
  assumes "schema_ok db" "requeue_recovery_dispatch i k s now automatic db = Inr (db', d)"
  shows "(i, ''recovery_required'') \<in> set (dispatch_states db) \<and>
    dispatch_states db' = put_state i ''pending'' (dispatch_states db)"
proof -
  let ?P = "\<lambda>x. dp_operation_id x = i \<and> dp_status x = ''recovery_required''"
  have body: "recovery_eligible (find_where (\<lambda>r. dp_operation_id r = i) (operation_dispatches db)) (get_operation i db) k s \<and>
      operation_dispatches db' =
        update_where ?P (\<lambda>x. x\<lparr>dp_status := ''pending'', dp_updated_at := now, dp_safe_error := None\<rparr>) (operation_dispatches db)"
    using assms(2) unfolding requeue_recovery_dispatch_def Let_def
    by (auto simp: rbind_eq_Inr uuid_Inr operation_token_iff then_read_Inr transaction_Inr execute_Inr read_back_Inr get_dispatch_Inr
        set_refs_def split: if_splits)
  then obtain y where y: "find_where (\<lambda>r. dp_operation_id r = i) (operation_dispatches db) = Some y"
      "dp_status y = ''recovery_required''"
    by (auto simp: recovery_eligible_def split: option.splits)
  have mem: "(i, ''recovery_required'') \<in> set (dispatch_states db)"
    using find_where_SomeD [OF y(1)] y(2) by (force simp: dispatch_states_def)
  have "dispatch_states db' =
      map (\<lambda>(j, s). (j, if j = i \<and> s = ''recovery_required'' then ''pending'' else s)) (dispatch_states db)"
    unfolding dispatch_states_def by (simp add: conjunct2 [OF body] update_where_def)
  then show ?thesis using mem put_state_eligible [OF assms(1) mem] by simp
qed

section \<open>The last steps of an item\<close>

interpretation sd: executor_relation same_dispatches
  by unfold_locales (rule sd_operations)+

text \<open>A call of \<open>set_operation_dispatch_status\<close> that ends a handler.\<close>

definition settled :: "string \<Rightarrow> db \<Rightarrow> db \<times> 'a result \<Rightarrow> bool" where
  "settled i db outcome \<longleftrightarrow>
     (\<exists>e. snd outcome = Inl e) \<and> same_dispatches db (fst outcome) \<or>
     (\<exists>x. snd outcome = Inr x) \<and> (\<exists>st. st \<notin> {''pending'', ''running''} \<and>
        dispatch_states (fst outcome) = put_state i st (dispatch_states db))"

lemma settled_status:
  assumes "st \<notin> {''pending'', ''running''}"
  shows "settled i db (seq (run_op (set_operation_dispatch_status i st err now)) (\<lambda>_. ret x) db)"
  using assms set_status_states [of i st err now db]
  by (auto simp: settled_def seq_def run_op_def ret_def sd.refl_R split: sum.splits)

lemma settled_same: "same_dispatches db d \<Longrightarrow> settled i d outcome \<Longrightarrow> settled i db outcome"
  by (simp add: settled_def same_dispatches_def)

lemma settled_seq:
  assumes "same_dispatches db (fst (m db))" "\<And>x d. settled i d (k x d)"
  shows "settled i db (seq m k db)"
proof (cases "m db")
  case (Pair d r)
  then show ?thesis
    using assms(1) settled_same [OF _ assms(2), of db d]
    by (cases r) (simp_all add: seq_def settled_def [of i db "(d, Inl e)" for e])
qed

lemma run_settle_states: "settled i db (run_settle later clock i db)"
  unfolding run_settle_def Let_def
  by (intro settled_seq settled_status) (auto intro!: sd.of_seq sd.of_ret sd.of_calls)

lemma end_item_states:
  "(\<exists>e. snd (end_item later clock i failed db) = Inl e) \<and> same_dispatches db (fst (end_item later clock i failed db)) \<or>
   (\<exists>st. st \<notin> {''pending'', ''running''} \<and>
      dispatch_states (fst (end_item later clock i failed db)) = put_state i st (dispatch_states db))"
proof -
  obtain db2 handled where h: "(case failed of None \<Rightarrow> ret () db | Some cls \<Rightarrow> run_failed (clock 1) i cls db) = (db2, handled)"
    by fastforce
  have same: "same_dispatches db db2"
  proof (cases failed)
    case (Some cls)
    then show ?thesis using h sd.of_run_failed [of db "clock 1" i cls] by simp
  qed (use h in \<open>simp add: ret_def sd.refl_R\<close>)
  obtain db3 r where r: "run_settle later (clock 2) i db2 = (db3, r)"
    by fastforce
  have "settled i db (db3, r)"
    using settled_same [OF same run_settle_states [of i db2 later "clock 2"]] r by simp
  then show ?thesis
    unfolding end_item_def h settled_def by (cases r) (simp_all add: r)
qed


section \<open>Startup\<close>

lemma settled_finish: "same_dispatches db (fst (m db)) \<Longrightarrow> st \<notin> {''pending'', ''running''} \<Longrightarrow>
   settled i db (seq m (\<lambda>_. seq (run_op (set_operation_dispatch_status i st err now)) (\<lambda>_. ret x)) db)"
  by (intro settled_seq settled_status)

text \<open>Recovering a dispatch settles it, or leaves it alone when it was settled already.\<close>

lemma recover_dispatch_states:
  "settled (dp_operation_id d) db (recover_dispatch later clock d db) \<or>
   dp_status d \<notin> {''pending'', ''running''} \<and> same_dispatches db (fst (recover_dispatch later clock d db))"
proof -
  let ?i = "dp_operation_id d"
  have sched: "settled ?i db (seq (run_op (schedule later j e (clock 0))) (\<lambda>_.
      seq (run_op (set_operation_dispatch_status ?i ''recovery_required'' None (clock 1))) (\<lambda>_. ret ())) db)" for j e
    by (intro settled_finish sd.of_calls) simp
  have fin: "settled ?i db (recover_finishing later clock d r db) \<or>
      dp_status d \<notin> {''pending'', ''running''} \<and> same_dispatches db (fst (recover_finishing later clock d r db))" for r
    unfolding recover_finishing_def using sched by (auto simp: sd.of_ret)
  have marked: "settled ?i db (seq (if P then seq (run_op (mark_recovery_required ?i stopped_note None (clock 0))) (\<lambda>_. ret ()) else ret ()) (\<lambda>_.
      seq (run_op (set_operation_dispatch_status ?i ''recovery_required'' (Some stopped_note) (clock 1))) (\<lambda>_. ret ())) db)" for P
    by (intro settled_finish) (auto intro!: sd.of_seq sd.of_ret sd.of_calls)
  have none: "settled ?i db (seq (begin_placeholder ''startup_interrupted'' d (clock 0) (clock 1)) (\<lambda>started.
             if started \<noteq> None then
               seq (run_op (mark_failed ?i
                      (Note ''operation stopped before recording any domain mutation intent'')
                      ''not_required'' (clock 2))) (\<lambda>_.
               seq (run_op (set_operation_dispatch_status ?i ''finished'' None (clock 3))) (\<lambda>_. ret ()))
             else seq (run_op (set_operation_dispatch_status ?i ''recovery_required'' (Some stopped_note) (clock 2))) (\<lambda>_. ret ())) db)"
    by (intro settled_seq sd.of_placeholder) (auto intro!: settled_finish settled_status sd.of_calls)
  show ?thesis
    unfolding recover_dispatch_def Let_def
    using fin none marked settled_status [of "''finished''" ?i db None "clock 0" "()"]
    by (auto simp: sd.of_ret split: option.splits)
qed


text \<open>Recovering the listed dispatches leaves active only what was active and not listed.\<close>

lemma recover_dispatches_active:
  "recover_dispatches later clock n ds db = (db', Inr u) \<Longrightarrow>
   (i, st) \<in> set (dispatch_states db') \<Longrightarrow> st \<in> {''pending'', ''running''} \<Longrightarrow>
   (i, st) \<in> set (dispatch_states db) \<and> (\<forall>d \<in> set ds. dp_operation_id d = i \<longrightarrow> dp_status d \<notin> {''pending'', ''running''})"
proof (induction ds arbitrary: n db)
  case (Cons d ds)
  obtain d1 u1 where r: "recover_dispatch later (clock n) d db = (d1, Inr u1)" "recover_dispatches later clock (Suc n) ds d1 = (db', Inr u)"
    using Cons.prems(1) by (auto simp: seq_def split: prod.splits sum.splits)
  have IH: "(i, st) \<in> set (dispatch_states d1)"
      "\<forall>x \<in> set ds. dp_operation_id x = i \<longrightarrow> dp_status x \<notin> {''pending'', ''running''}"
    using Cons.IH [OF r(2) Cons.prems(2,3)] by auto
  from recover_dispatch_states [of d db later "clock n"] show ?case
  proof
    assume "settled (dp_operation_id d) db (recover_dispatch later (clock n) d db)"
    then have "dp_operation_id d \<noteq> i \<and> (i, st) \<in> set (dispatch_states db)"
      using IH(1) Cons.prems(3) by (auto simp: r(1) settled_def in_put_state split: if_splits)
    then show ?thesis using IH(2) by auto
  next
    assume "dp_status d \<notin> {''pending'', ''running''} \<and> same_dispatches db (fst (recover_dispatch later (clock n) d db))"
    then show ?thesis using IH by (auto simp: r(1) same_dispatches_def)
  qed
qed (simp add: ret_def)

lemma recover_startup_settles:
  assumes "recover_startup later clock db = (db', Inr u)" "(i, st) \<in> set (dispatch_states db')"
  shows "st \<notin> {''pending'', ''running''}"
proof
  assume "st \<in> {''pending'', ''running''}"
  then have *: "(i, st) \<in> set (dispatch_states db)"
      "\<forall>d \<in> set (list_operation_dispatches db). dp_operation_id d = i \<longrightarrow> dp_status d \<notin> {''pending'', ''running''}"
    using recover_dispatches_active [OF assms(1) [unfolded recover_startup_def] assms(2)] by auto
  have "set (list_operation_dispatches db) = set (operation_dispatches db)"
    by (simp add: list_operation_dispatches_def order_desc_def)
  with * \<open>st \<in> {''pending'', ''running''}\<close> show False by (auto simp: dispatch_states_def)
qed


section \<open>The state machine\<close>

text \<open>
  One rule per step of a thread: a request thread submits or resubmits (the retry thread resubmits
  too), a worker takes an item from the queue, marks it running, and ends it, with the class of the
  exception its work raised, if any. What the work itself and every other thread do to the database are
  calls of their own, in any order in between.
\<close>

inductive executor_step :: "(string \<Rightarrow> string) \<Rightarrow> executor \<Rightarrow> executor \<Rightarrow> bool" for sha where
  Submit: "submit i k s now ex = Inr (ex', d) \<Longrightarrow> executor_step sha ex ex'"
| Resubmit: "resubmit_recovery i k s now automatic ex = Inr (ex', d) \<Longrightarrow> executor_step sha ex ex'"
| Take: "take_item ex = Some ex' \<Longrightarrow> executor_step sha ex ex'"
| Start: "i \<in> set (ex_executing ex) \<Longrightarrow> executor_step sha ex (ex\<lparr>ex_db := fst (start_item now i (ex_db ex))\<rparr>)"
| Call: "quiet (snd c) \<Longrightarrow> executor_step sha ex (ex\<lparr>ex_db := commit_call sha c (ex_db ex)\<rparr>)"
| Finish: "i \<in> set (ex_executing ex) \<Longrightarrow>
    executor_step sha ex (release_item i (end_item later clock i failed (ex_db ex)) ex)"
| Close: "executor_step sha ex (close_executor ex)"

definition held :: "executor \<Rightarrow> string list" where
  "held ex = ex_queued ex @ ex_executing ex"

text \<open>The dispatches in the given states.\<close>

definition in_states :: "string set \<Rightarrow> (string \<times> string) list \<Rightarrow> string set" where
  "in_states S xs = {i. \<exists>st \<in> S. (i, st) \<in> set xs}"

lemma in_states_append [simp]: "in_states S (xs @ [(i, st)]) = in_states S xs \<union> (if st \<in> S then {i} else {})"
  by (auto simp: in_states_def)

lemma in_states_put: "in_states S (put_state i st xs) = (in_states S xs - {i}) \<union> (if st \<in> S then {i} \<inter> fst ` set xs else {})"
  by (auto simp: in_states_def in_put_state split: if_splits) force+

lemma in_states_keys: "i \<in> in_states S xs \<Longrightarrow> i \<in> fst ` set xs"
  by (force simp: in_states_def)

lemma in_states_dispatches:
  "i \<in> in_states S (dispatch_states db) \<longleftrightarrow> (\<exists>d \<in> set (operation_dispatches db). dp_operation_id d = i \<and> dp_status d \<in> S)"
  by (auto simp: in_states_def dispatch_states_def)

abbreviation active :: "string set" where
  "active \<equiv> {''pending'', ''running''}"

definition executor_inv :: "(string \<Rightarrow> string) \<Rightarrow> nat \<Rightarrow> nat \<Rightarrow> executor \<Rightarrow> bool" where
  "executor_inv sha workers capacity ex \<longleftrightarrow>
     controller_inv sha (ex_db ex) \<and>
     ex_free ex + length (held ex) = capacity \<and>
     ex_idle ex + length (ex_executing ex) \<le> workers \<and>
     distinct (held ex) \<and>
     set (ex_queued ex) \<subseteq> in_states {''pending''} (dispatch_states (ex_db ex)) \<and>
     set (ex_executing ex) \<subseteq> in_states active (dispatch_states (ex_db ex)) \<and>
     (ex_idle ex + length (ex_executing ex) = workers \<longrightarrow>
        in_states active (dispatch_states (ex_db ex)) \<subseteq> set (held ex))"

lemma held_active: "executor_inv sha w n ex \<Longrightarrow> set (held ex) \<subseteq> in_states active (dispatch_states (ex_db ex))"
  unfolding executor_inv_def held_def in_states_def by auto

lemma inv_schema_ok: "executor_inv sha w n ex \<Longrightarrow> schema_ok (ex_db ex)"
  by (auto simp: executor_inv_def inv_schema)

lemma inv_safe: "executor_inv sha w n ex \<Longrightarrow> safe sha (ex_db ex) d \<Longrightarrow> controller_inv sha d"
  by (simp add: executor_inv_def safe_def)

lemma inv_same:
  assumes "executor_inv sha w n ex" "safe sha (ex_db ex) d" "same_dispatches (ex_db ex) d"
  shows "executor_inv sha w n (ex\<lparr>ex_db := d\<rparr>)"
  using assms inv_safe [OF assms(1,2)] by (simp add: executor_inv_def same_dispatches_def held_def)

lemma inv_enqueue:
  assumes "executor_inv sha w n ex" "safe sha (ex_db ex) db" "ex_free ex \<noteq> 0" "i \<notin> set (held ex)"
    and "in_states {''pending''} (dispatch_states db) = insert i (in_states {''pending''} (dispatch_states (ex_db ex)))"
    and "in_states active (dispatch_states db) = insert i (in_states active (dispatch_states (ex_db ex)))"
  shows "executor_inv sha w n (ex\<lparr>ex_db := db, ex_free := ex_free ex - 1, ex_queued := ex_queued ex @ [i]\<rparr>)"
  using assms(1,3,4) inv_safe [OF assms(1,2)] unfolding executor_inv_def held_def by (auto simp: assms(5,6))

lemma inv_submit:
  assumes "executor_inv sha w n ex" "submit i k s now ex = Inr (ex', d)"
  shows "executor_inv sha w n ex'"
proof -
  obtain db created where e: "enqueue_operation_dispatch i k s now (ex_db ex) = Inr (db, d, created)" "ex_free ex \<noteq> 0"
      and ex': "ex' = (if created then ex\<lparr>ex_db := db, ex_free := ex_free ex - 1, ex_queued := ex_queued ex @ [i]\<rparr>
                       else ex\<lparr>ex_db := db\<rparr>)"
    using assms(2) by (auto simp: submit_def rbind_eq_Inr split: if_splits)
  have s: "safe sha (ex_db ex) db"
    using sf.outcomesD [OF sf.of_enqueue e(1)] .
  show ?thesis
  proof (cases created)
    case True
    then have st: "dispatch_states db = dispatch_states (ex_db ex) @ [(i, ''pending'')]" "i \<notin> fst ` set (dispatch_states (ex_db ex))"
      using enqueue_states [OF inv_schema_ok [OF assms(1)] e(1)] by auto
    have "i \<notin> set (held ex)"
      using held_active [OF assms(1)] in_states_keys st(2) by blast
    then show ?thesis
      using inv_enqueue [OF assms(1) s e(2)] True by (simp add: ex' st(1))
  next
    case False
    then show ?thesis
      using inv_same [OF assms(1) s] enqueue_states [OF inv_schema_ok [OF assms(1)] e(1)] sd.refl_R
      by (simp add: ex')
  qed
qed

lemma inv_resubmit:
  assumes "executor_inv sha w n ex" "resubmit_recovery i k s now automatic ex = Inr (ex', d)"
  shows "executor_inv sha w n ex'"
proof -
  obtain db where e: "requeue_recovery_dispatch i k s now automatic (ex_db ex) = Inr (db, d)" "ex_free ex \<noteq> 0"
      and ex': "ex' = ex\<lparr>ex_db := db, ex_free := ex_free ex - 1, ex_queued := ex_queued ex @ [i]\<rparr>"
    using assms(2) by (auto simp: resubmit_recovery_def rbind_eq_Inr split: if_splits)
  have s: "safe sha (ex_db ex) db"
    using sf.outcomesD [OF sf.of_requeue e(1)] .
  note st = requeue_states [OF inv_schema_ok [OF assms(1)] e(1)]
  then have key: "i \<in> fst ` set (dispatch_states (ex_db ex))" by force
  have "i \<notin> in_states active (dispatch_states (ex_db ex))"
    using states_functional [OF inv_schema_ok [OF assms(1)] conjunct1 [OF st]] by (auto simp: in_states_def)
  then have "i \<notin> set (held ex)"
    using held_active [OF assms(1)] by blast
  then show ?thesis
    unfolding ex' using key st by (intro inv_enqueue [OF assms(1) s e(2)]) (auto simp: in_states_put)
qed

lemma inv_take:
  assumes "executor_inv sha w n ex" "take_item ex = Some ex'"
  shows "executor_inv sha w n ex'"
proof -
  obtain i q where q: "ex_queued ex = i # q" "ex_idle ex \<noteq> 0"
      and ex': "ex' = ex\<lparr>ex_queued := q, ex_idle := ex_idle ex - 1, ex_executing := ex_executing ex @ [i]\<rparr>"
    using assms(2) by (auto simp: take_item_def split: if_splits list.splits)
  have "i \<in> in_states active (dispatch_states (ex_db ex))"
    using held_active [OF assms(1)] by (simp add: held_def q(1))
  then show ?thesis
    using assms(1) q unfolding executor_inv_def held_def ex' by auto
qed

lemma inv_start:
  assumes "executor_inv sha w n ex" "i \<in> set (ex_executing ex)"
  shows "executor_inv sha w n (ex\<lparr>ex_db := fst (start_item now i (ex_db ex))\<rparr>)"
proof -
  let ?db = "fst (start_item now i (ex_db ex))"
  have s: "safe sha (ex_db ex) ?db"
    unfolding start_item_def by (rule sf.of_moves)
  from start_states [of now i "ex_db ex"] consider "dispatch_states ?db = dispatch_states (ex_db ex)" |
      "dispatch_states ?db = put_state i ''running'' (dispatch_states (ex_db ex))" by auto
  then show ?thesis
  proof cases
    case 1
    then show ?thesis using inv_same [OF assms(1) s] by (simp add: same_dispatches_def)
  next
    case 2
    have "i \<notin> set (ex_queued ex)"
      using assms by (auto simp: executor_inv_def held_def)
    moreover have "i \<in> in_states active (dispatch_states (ex_db ex))"
      using assms by (auto simp: executor_inv_def)
    moreover have "in_states active (dispatch_states ?db) = in_states active (dispatch_states (ex_db ex))"
      using calculation(2) in_states_keys [of i] by (auto simp: 2 in_states_put)
    moreover have "in_states {''pending''} (dispatch_states ?db) = in_states {''pending''} (dispatch_states (ex_db ex)) - {i}"
      by (simp add: 2 in_states_put)
    ultimately show ?thesis
      using assms(1) inv_safe [OF assms(1) s] unfolding executor_inv_def held_def by auto
  qed
qed

lemma inv_finish:
  assumes "executor_inv sha w n ex" "i \<in> set (ex_executing ex)"
  shows "executor_inv sha w n (release_item i (end_item later clock i failed (ex_db ex)) ex)"
proof -
  let ?o = "end_item later clock i failed (ex_db ex)"
  have s: "safe sha (ex_db ex) (fst ?o)"
    by (rule sf.of_end_item)
  have d: "distinct (ex_executing ex)" "i \<notin> set (ex_queued ex)"
    using assms by (auto simp: executor_inv_def held_def)
  have len: "length (ex_executing ex) = Suc (length (remove1 i (ex_executing ex)))"
    using length_pos_if_in_set [OF assms(2)] assms(2) by (simp add: length_remove1)
  from end_item_states [of later clock i failed "ex_db ex"] show ?thesis
  proof
    assume *: "(\<exists>e. snd ?o = Inl e) \<and> same_dispatches (ex_db ex) (fst ?o)"
    then obtain e where "snd ?o = Inl e" by blast
    then show ?thesis
      using assms(1) inv_safe [OF assms(1) s] * d len
      unfolding executor_inv_def held_def release_item_def same_dispatches_def by (auto simp: set_remove1_eq)
  next
    assume "\<exists>st. st \<notin> active \<and> dispatch_states (fst ?o) = put_state i st (dispatch_states (ex_db ex))"
    then obtain st where st: "st \<notin> active" "dispatch_states (fst ?o) = put_state i st (dispatch_states (ex_db ex))" by blast
    have p: "in_states {''pending''} (dispatch_states (fst ?o)) = in_states {''pending''} (dispatch_states (ex_db ex)) - {i}"
        "in_states active (dispatch_states (fst ?o)) = in_states active (dispatch_states (ex_db ex)) - {i}"
      using st(1) by (auto simp: st(2) in_states_put)
    show ?thesis
      using assms(1) inv_safe [OF assms(1) s] d len
      unfolding executor_inv_def held_def release_item_def by (auto simp: set_remove1_eq p split: sum.split)
  qed
qed

lemma inv_step: "executor_step sha ex ex' \<Longrightarrow> executor_inv sha w n ex \<Longrightarrow> executor_inv sha w n ex'"
proof (induction rule: executor_step.induct)
  case (Call c ex)
  have "same_dispatches (ex_db ex) (commit_call sha c (ex_db ex))"
    using quiet_run [of "[c]"] Call by simp
  then show ?case using inv_same Call safe_commit by blast
next
  case (Close ex)
  then show ?case by (simp add: close_executor_def executor_inv_def held_def)
qed (rule inv_submit inv_resubmit inv_take inv_start inv_finish; assumption)+

lemma inv_new:
  assumes "new_executor workers capacity later clock db = Inr ex" "controller_inv sha db"
  shows "executor_inv sha workers capacity ex"
proof -
  obtain db' u where r: "recover_startup later clock db = (db', Inr u)"
      and ex: "ex = \<lparr>ex_db = db', ex_free = capacity, ex_queued = [], ex_executing = [], ex_idle = workers, ex_closed = False\<rparr>"
    using assms(1) by (auto simp: new_executor_def split: if_splits prod.splits sum.splits)
  have "controller_inv sha db'"
    using sf.of_startup [of sha db later clock] assms(2) r by (simp add: safe_def)
  then show ?thesis
    using recover_startup_settles [OF r] unfolding executor_inv_def held_def ex in_states_def by auto
qed


section \<open>Composite steps\<close>

lemma fst_commit:
  "(\<And>d. perform sha (\<lambda>_. now) c d = forget (f d)) \<Longrightarrow> fst (run_op f db) = commit_call sha (\<lambda>_. now, c) db"
  by (auto simp: run_op_def commit_call_def forget_def split: sum.splits prod.splits)

lemma call_steps:
  assumes "list_all (\<lambda>c. quiet (snd c)) cs"
  shows "(executor_step sha)\<^sup>*\<^sup>* ex (ex\<lparr>ex_db := run_calls sha cs (ex_db ex)\<rparr>)"
  using assms
proof (induction cs arbitrary: ex)
  case (Cons c cs)
  have "executor_step sha ex (ex\<lparr>ex_db := commit_call sha c (ex_db ex)\<rparr>)"
    using Cons.prems by (intro executor_step.Call) simp
  then show ?case
    using Cons.IH [of "ex\<lparr>ex_db := commit_call sha c (ex_db ex)\<rparr>"] Cons.prems by simp
qed simp

text \<open>The record of work that left no operation is made of calls too.\<close>

lemma work_done_calls:
  "\<exists>cs. list_all (\<lambda>c. quiet (snd c)) cs \<and> fst (work_done clock i db) = run_calls sha cs db"
proof (cases "get_operation i db \<noteq> None \<or> (\<exists>e. snd (read_dispatch i db) = Inl e)")
  case True
  then have "fst (work_done clock i db) = run_calls sha [] db"
    unfolding work_done_def by (auto simp: seq_def read_dispatch_def split: sum.splits)
  then show ?thesis by (intro exI [of _ "[]"]) simp
next
  case False
  then obtain d where d: "get_operation i db = None" "read_dispatch i db = (db, Inr d)"
    by (auto simp: read_dispatch_def split: sum.splits) (metis sum.exhaust)
  let ?b = "begin_operation i (dp_kind d) (dp_scope d) ''accepted'' (clock 1) [] (clock 2)"
  let ?s = "mark_succeeded i ''not_required'' (clock 3)"
  let ?cb = "(\<lambda>_ :: nat. clock 2, Begin i (dp_kind d) (dp_scope d) ''accepted'' (clock 1) [])"
  let ?cs = "(\<lambda>_ :: nat. clock 3, Succeeded i ''not_required'')"
  have b: "fst (run_op ?b db') = commit_call sha ?cb db'" for db'
    by (rule fst_commit) simp
  have s: "fst (run_op ?s db') = commit_call sha ?cs db'" for db'
    by (rule fst_commit) simp
  have "fst (work_done clock i db) = run_calls sha [?cb] db \<or> fst (work_done clock i db) = run_calls sha [?cb, ?cs] db"
  proof (cases "run_op ?b db")
    case (Pair db1 r)
    then have b1: "db1 = commit_call sha ?cb db" using b [of db] by simp
    show ?thesis
    proof (cases r)
      case (Inl e)
      then show ?thesis using d Pair b1 by (simp add: work_done_def seq_def)
    next
      case (Inr x)
      have "fst (work_done clock i db) = fst (run_op ?s db1)"
        using d Pair Inr by (auto simp: work_done_def seq_def split: prod.splits sum.splits)
      then show ?thesis using s [of db1] b1 by simp
    qed
  qed
  then show ?thesis by (force intro: exI [of _ "[?cb]"] exI [of _ "[?cb, ?cs]"])
qed

text \<open>
  A whole iteration of \<open>_run\<close>, with work made of calls on the database, is a sequence of steps of the
  machine; so is a pass of the retry thread.
\<close>

lemma finish_item_steps:
  assumes i: "i \<in> set (ex_executing ex)" and work: "\<And>db. \<exists>cs. list_all (\<lambda>c. quiet (snd c)) cs \<and> fst (work db) = run_calls sha cs db"
  shows "(executor_step sha)\<^sup>*\<^sup>* ex (finish_item later work clock i ex)"
proof -
  obtain db1 failed where b: "run_body work (clock 0) i (ex_db ex) = (db1, failed)"
    by fastforce
  let ?ex1 = "ex\<lparr>ex_db := fst (start_item (clock 0 0) i (ex_db ex))\<rparr>"
  have start: "executor_step sha ex ?ex1"
    using i by (rule executor_step.Start)
  obtain cs where "list_all (\<lambda>c. quiet (snd c)) cs" "db1 = run_calls sha cs (ex_db ?ex1)"
  proof (cases "start_item (clock 0 0) i (ex_db ex)")
    case (Pair d r)
    show ?thesis
    proof (cases r)
      case (Inl e)
      then show ?thesis using that [of "[]"] b Pair by (simp add: run_body_def)
    next
      case (Inr x)
      obtain d2 f where w: "work d = (d2, f)" by fastforce
      obtain cs where cs: "list_all (\<lambda>c. quiet (snd c)) cs" "d2 = run_calls sha cs d"
        using work [of d] w by auto
      show ?thesis
      proof (cases f)
        case None
        obtain cs' where "list_all (\<lambda>c. quiet (snd c)) cs'" "db1 = run_calls sha cs' d2"
          using work_done_calls [of "clock 0" i d2 sha] b Pair Inr w None by (auto simp: run_body_def)
        then show ?thesis using that [of "cs @ cs'"] cs Pair by simp
      next
        case (Some cls)
        then show ?thesis using that [of cs] b Pair Inr w cs by (simp add: run_body_def)
      qed
    qed
  qed
  then have calls: "(executor_step sha)\<^sup>*\<^sup>* ?ex1 (ex\<lparr>ex_db := db1\<rparr>)"
    using call_steps [of cs sha ?ex1] by simp
  have "executor_step sha (ex\<lparr>ex_db := db1\<rparr>) (release_item i (end_item later clock i failed db1) (ex\<lparr>ex_db := db1\<rparr>))"
    using executor_step.Finish [of i "ex\<lparr>ex_db := db1\<rparr>"] i by simp
  moreover have "release_item i (end_item later clock i failed db1) (ex\<lparr>ex_db := db1\<rparr>) = finish_item later work clock i ex"
    unfolding finish_item_def run_item_def b release_item_def by (simp cong: sum.case_cong)
  ultimately show ?thesis
    using start calls by (simp add: converse_rtranclp_into_rtranclp rtranclp.rtrancl_into_rtrancl)
qed

lemma retry_each_steps: "retry_each clock n rs ex = Inr ex' \<Longrightarrow> (executor_step sha)\<^sup>*\<^sup>* ex ex'"
proof (induction clock n rs ex rule: retry_each.induct)
  case (2 clock n r rs ex)
  show ?case
  proof (cases "resubmit_recovery (op_operation_id r) (op_kind r) (op_scope r) (clock n) True ex")
    case (Inl e)
    then show ?thesis using 2 by (auto split: if_splits)
  next
    case (Inr x)
    obtain ex1 d where x: "x = (ex1, d)" by (cases x)
    then have "executor_step sha ex ex1" using Inr by (auto intro: executor_step.Resubmit)
    moreover have "(executor_step sha)\<^sup>*\<^sup>* ex1 ex'"
      using 2(2) [OF Inr x [symmetric]] 2(3) Inr x by simp
    ultimately show ?thesis by (rule converse_rtranclp_into_rtranclp)
  qed
qed simp


section \<open>Properties\<close>


lemma example_executor:
  "new_executor 1 2 later clock (run_calls sha [(\<lambda>_. example_time, Claim example_id example_fingerprint)] empty_db) =
   Inr \<lparr>ex_db = claimed_db, ex_free = 2, ex_queued = [], ex_executing = [], ex_idle = 1, ex_closed = False\<rparr>"
proof -
  have "run_calls sha [(\<lambda>_. example_time, Claim example_id example_fingerprint)] empty_db = claimed_db"
    using example_claim by (simp add: commit_call_def forget_def claimed_db_def)
  moreover have "operation_dispatches claimed_db = []"
    by (simp add: claimed_db_def empty_db_def)
  ultimately show ?thesis
    by (simp add: new_executor_def recover_startup_def list_operation_dispatches_def order_desc_def ret_def)
qed

lemma example_submit:
  "submit example_id ''app.deploy'' ''app-demo'' example_time
     \<lparr>ex_db = claimed_db, ex_free = 2, ex_queued = [], ex_executing = [], ex_idle = 1, ex_closed = False\<rparr> =
   Inr (\<lparr>ex_db = enqueued example_id ''app.deploy'' ''app-demo'' example_time claimed_db, ex_free = 1,
          ex_queued = [example_id], ex_executing = [], ex_idle = 1, ex_closed = False\<rparr>,
        dispatch_row example_id ''app.deploy'' ''app-demo'' example_time)"
  by (simp add: submit_def example_enqueue)


text \<open>How an item ends when its work left a foreground operation.\<close>

lemma set_status_eq:
  assumes "schema_ok db" "\<not> in_transaction db" "get_operation_dispatch i db = Inr (Some d)" "dp_active d"
    and st: "st \<in> {''running'', ''finished'', ''recovery_required''}"
  shows "\<exists>db' d'. set_operation_dispatch_status i st err now db = Inr (db', d') \<and>
    get_operation_dispatch i db' = Inr (Some d') \<and> dp_status d' = st \<and> operations db' = operations db"
proof -
  let ?P = "\<lambda>x. dp_operation_id x = i"
  let ?f = "\<lambda>x. x\<lparr>dp_status := st, dp_updated_at := now, dp_safe_error := summary_of err\<rparr>"
  let ?db = "db\<lparr>operation_dispatches := update_where ?P ?f (operation_dispatches db)\<rparr>"
  have d: "uuid_re i" "find_where ?P (operation_dispatches db) = Some d"
    using assms(3) by (auto simp: get_dispatch_Inr)
  have ok: "dispatches_ok (operation_dispatches db) (idempotency_requests db)"
    using assms(1) by (rule schema_okD)
  have same: "r = d" if "r \<in> set (operation_dispatches db)" "?P r" for r
    using find_where_SomeD [OF d(2)] dpl.by_key_unique [OF ok that(1)] that(2) by simp
  have "dispatches_ok (update_where ?P ?f (operation_dispatches db)) (idempotency_requests db)"
    using st same assms(4) by (intro dpl.table_update ok) (auto simp: dispatch_row_ok_def summary_of_ok)
  then have schema: "schema_ok (db\<lparr>in_transaction := True, operation_dispatches := update_where ?P ?f (operation_dispatches db)\<rparr>)"
    using assms(1) by (simp add: schema_ok_def)
  have count: "rowcount ?P (operation_dispatches db) = 1"
    using dpl.rowcount_key [OF ok, of i "\<lambda>_. True"] find_where_SomeD [OF d(2)] by auto
  have found: "find_where ?P (update_where ?P ?f (operation_dispatches db)) = Some (?f d)"
    using d(2) find_where_SomeD [OF d(2)] by (simp add: find_update_where)
  have "db\<lparr>in_transaction := True, operation_dispatches := x, in_transaction := False\<rparr> = db\<lparr>operation_dispatches := x\<rparr>" for x
    using assms(2) by (cases db) simp
  moreover have "uuid ''operation_id'' i = Inr i"
    using d(1) by (simp add: uuid_Inr)
  ultimately have "set_operation_dispatch_status i st err now db = Inr (?db, ?f d)"
    unfolding set_operation_dispatch_status_def Let_def
    using st assms(2) schema count found
    by (auto simp: then_read_def transaction_def execute_def read_back_def get_operation_dispatch_def)
  then show ?thesis using found d(1) by (auto simp: get_dispatch_Inr)
qed


lemma mark_recovery_eq:
  assumes "schema_ok db" "\<not> in_transaction db" "uuid_re i" "get_operation i db = Some r" "op_unfinished r"
  shows "\<exists>db'. mark_recovery_required i err None now db = Inr (db', finish_row ''recovery_required'' (Some err) None None now r) \<and>
    schema_ok db' \<and> \<not> in_transaction db' \<and> operation_dispatches db' = operation_dispatches db \<and>
    get_operation i db' = Some (finish_row ''recovery_required'' (Some err) None None now r)"
proof -
  let ?f = "finish_row ''recovery_required'' (Some err) None None now"
  let ?db = "db\<lparr>operations := update_where (\<lambda>r. op_operation_id r = i \<and> op_unfinished r) ?f (operations db)\<rparr>"
  have "schema_ok ?db"
    using operation_row [OF assms(1)]
    by (intro update_unfinished_schema assms(1)) (auto simp: operation_row_ok_def summary_of_ok)
  then have "finish_operation i ''recovery_required'' (Some err) None None now db = Inr (?db, ?f r)"
    unfolding finish_operation_Inr [OF assms(1)] using assms by (auto simp: optional_check_def)
  moreover have "get_operation i ?db = Some (?f r)"
    using assms(4,5) get_operation_id [OF assms(4)] by (simp add: get_operation_update)
  ultimately show ?thesis
    using \<open>schema_ok ?db\<close> assms(2) by (simp add: mark_recovery_required_def)
qed


lemma run_settle_foreground:
  assumes "schema_ok db" "\<not> in_transaction db" "get_operation_dispatch i db = Inr (Some d)" "dp_active d"
    and "get_operation i db = Some r" "\<not> op_finishing r"
  shows "\<exists>db' d'. run_settle later clock i db = (db', Inr ()) \<and> get_operation i db' = Some r \<and>
    get_operation_dispatch i db' = Inr (Some d') \<and>
    dp_status d' = (if op_status r = ''recovery_required'' then ''recovery_required'' else ''finished'')"
proof -
  define st where "st = (if op_status r = ''recovery_required'' then ''recovery_required'' else ''finished'')"
  have "st \<in> {''running'', ''finished'', ''recovery_required''}"
    by (simp add: st_def)
  then obtain db' d' where "set_operation_dispatch_status i st None (clock 1) db = Inr (db', d')"
      "get_operation_dispatch i db' = Inr (Some d')" "operations db' = operations db" "dp_status d' = st"
    using set_status_eq [OF assms(1-4)] by blast
  then show ?thesis
    using assms(5,6) by (auto simp: run_settle_def seq_def ret_def run_op_def get_operation_def st_def)
qed

text \<open>
  C33: an item always ends with a settled dispatch when its operation is in the foreground lane: whatever
  its work did and raised, the worker survives; an operation whose work raised while it was running now
  needs recovery and so does its dispatch, and the dispatch of any other operation is finished.
\<close>

theorem foreground_item_settles:
  assumes "schema_ok db" "\<not> in_transaction db" "get_operation_dispatch i db = Inr (Some d)" "dp_active d"
    and "get_operation i db = Some r" "\<not> op_finishing r"
  shows "\<exists>db' r' d'. end_item later clock i failed db = (db', Inr ()) \<and>
    get_operation i db' = Some r' \<and> get_operation_dispatch i db' = Inr (Some d') \<and>
    op_status r' = (if failed \<noteq> None \<and> op_status r = ''running'' then ''recovery_required'' else op_status r) \<and>
    dp_status d' = (if op_status r' = ''recovery_required'' then ''recovery_required'' else ''finished'')"
proof (cases "failed \<noteq> None \<and> op_status r = ''running''")
  case True
  then obtain cls where cls: "failed = Some cls" "op_status r = ''running''" by auto
  have "op_unfinished r" using cls(2) by (simp add: op_unfinished_def unfinished_statuses_def)
  moreover have "uuid_re i" using assms(3) by (simp add: get_dispatch_Inr)
  ultimately obtain db1 where m:
      "mark_recovery_required i (Raised cls) None (clock 1 0) db =
         Inr (db1, finish_row ''recovery_required'' (Some (Raised cls)) None None (clock 1 0) r)"
      "schema_ok db1" "\<not> in_transaction db1" "operation_dispatches db1 = operation_dispatches db"
      "get_operation i db1 = Some (finish_row ''recovery_required'' (Some (Raised cls)) None None (clock 1 0) r)"
    using mark_recovery_eq [OF assms(1,2) _ assms(5)] by blast
  have "get_operation_dispatch i db1 = Inr (Some d)"
    using assms(3) m(4) by (simp add: get_dispatch_Inr)
  with run_settle_foreground [OF m(2,3) _ assms(4) m(5), of later "clock 2"] assms(6)
  obtain db' d' where s: "run_settle later (clock 2) i db1 = (db', Inr ())"
      "get_operation i db' = Some (finish_row ''recovery_required'' (Some (Raised cls)) None None (clock 1 0) r)"
      "get_operation_dispatch i db' = Inr (Some d')" "dp_status d' = ''recovery_required''"
    by auto
  then have "end_item later clock i failed db = (db', Inr ())"
    using cls assms(5,6) m(1) by (simp add: end_item_def run_failed_def seq_def run_op_def ret_def)
  then show ?thesis
    using s(2-4) True
    by (intro exI [of _ db'] exI [of _ d'] exI [of _ "finish_row ''recovery_required'' (Some (Raised cls)) None None (clock 1 0) r"]) simp
next
  case False
  then have "(case failed of None \<Rightarrow> ret () db | Some cls \<Rightarrow> run_failed (clock 1) i cls db) = (db, Inr ())"
    using assms(5) by (auto simp: run_failed_def ret_def split: option.splits)
  then show ?thesis
    using run_settle_foreground [OF assms, of later "clock 2"] False by (fastforce simp: end_item_def)
qed


definition running_db :: db where
  "running_db = (enqueued example_id ''app.deploy'' ''app-demo'' example_time claimed_db)\<lparr>operations := [example_operation]\<rparr>"

lemma example_running:
  "schema_ok running_db" "\<not> in_transaction running_db"
  "get_operation_dispatch example_id running_db = Inr (Some (dispatch_row example_id ''app.deploy'' ''app-demo'' example_time))"
  "dp_active (dispatch_row example_id ''app.deploy'' ''app-demo'' example_time)"
  "get_operation example_id running_db = Some example_operation" "\<not> op_finishing example_operation"
  "op_status example_operation = ''running''"
  by code_simp+

theorem foreground_item_settles_witness:
  "\<exists>db d. end_item (\<lambda>_. []) (\<lambda>_ _. example_time) example_id (Some ''RuntimeError'') running_db = (db, Inr ()) \<and>
     get_operation_dispatch example_id db = Inr (Some d) \<and> dp_status d = ''recovery_required''"
  using foreground_item_settles [OF example_running(1-6), of "\<lambda>_. []" "\<lambda>_ _. example_time" "Some ''RuntimeError''"]
    example_running(7) by auto

lemma map_of_by_key: "map_of xs k = map_option snd (find (\<lambda>x. fst x = k) xs)"
  by (induction xs) auto

lemma find_filter: "find P xs = (case filter P xs of [] \<Rightarrow> None | x # _ \<Rightarrow> Some x)"
  by (induction xs) auto

text \<open>Sorting is stable, so a lookup in the stored references is the lookup in the given ones.\<close>

lemma sorted_refs_get: "dict_get (sorted_refs refs) k = map_option json_sorted (dict_get refs k)"
proof -
  have "map_of (sort_key fst xs) k = map_of xs k" for xs :: jdict
    by (simp add: map_of_by_key find_filter sort_key_stable)
  then show ?thesis
    unfolding sorted_refs_def by (simp add: map_of_map)
qed

lemma schedule_Inr:
  assumes "schedule later i err now db = Inr (db', again)"
    and "get_operation i db = Some r" "op_finishing r" "op_unfinished r"
    and "retry_state (op_refs r) = Inr retry" "retry_attempts retry = Inr n"
  shows "\<exists>next_at. next_retry later n = Inr next_at \<and> again = (next_at \<noteq> None) \<and>
    get_operation i db' = Some (r\<lparr>op_status := (if next_at = None then ''recovery_required'' else ''running''),
      op_refs := sorted_refs (dict_merge (op_refs r) [(''finishing_retry'', JObj
        (dict_put ''next_at'' (next_at_json next_at) (dict_put ''attempts'' (JInt n) retry)))]),
      op_safe_error := Some (safe_summary err), op_updated_at := now\<rparr>)"
proof -
  have "op_status r \<notin> {''succeeded'', ''failed''}"
    using assms(4) by (auto simp: op_unfinished_def unfinished_statuses_def)
  then show ?thesis
    using assms(1-3,5,6) get_operation_id [OF assms(2)]
    unfolding schedule_def transaction_Inr
    by (auto simp: rbind_eq_Inr execute_Inr Let_def refs_json_Inr get_operation_update split del: if_split)
qed

text \<open>
  Finishing work is retried a bounded number of times: scheduling an unfinished finishing operation
  after its \<open>n\<close>-th automatic attempt either sets the time of the next attempt, by the delay of that
  attempt, and leaves the operation running, when \<open>n\<close> is below five; or hands the operation to a person:
  it needs recovery and has no next attempt, so the retry thread does not select it.
\<close>

theorem retry_budget:
  assumes "schedule later i err now db = Inr (db', again)"
    and "get_operation i db = Some r" "op_finishing r" "op_unfinished r"
    and "retry_state (op_refs r) = Inr retry" "retry_attempts retry = Inr n" "0 \<le> n"
  shows "again = (n < 5) \<and>
    (\<exists>r'. get_operation i db' = Some r' \<and> op_status r' = (if n < 5 then ''running'' else ''recovery_required'') \<and>
       next_at_of r' = (if n < 5 then Some (later (RETRY_DELAYS ! nat n)) else None))"
proof -
  obtain next_at where n: "next_retry later n = Inr next_at" "again = (next_at \<noteq> None)"
    and r': "get_operation i db' = Some (r\<lparr>op_status := (if next_at = None then ''recovery_required'' else ''running''),
      op_refs := sorted_refs (dict_merge (op_refs r) [(''finishing_retry'', JObj
        (dict_put ''next_at'' (next_at_json next_at) (dict_put ''attempts'' (JInt n) retry)))]),
      op_safe_error := Some (safe_summary err), op_updated_at := now\<rparr>)"
    using schedule_Inr [OF assms(1-6)] by blast
  have next_at: "next_at = (if n < 5 then Some (later (RETRY_DELAYS ! nat n)) else None)"
    using n(1) assms(7) by (auto simp: next_retry_def split: if_splits)
  show ?thesis
    unfolding r' n(2) next_at
    by (simp add: next_at_of_def sorted_refs_get dict_get_merge sorted_refs_obj next_at_json_def del: json_sorted.simps(2))
qed


definition accepted_operation :: operation where
  "accepted_operation = example_operation\<lparr>op_finishing := True\<rparr>"

lemma example_schedule:
  "\<exists>db again. schedule (\<lambda>_. example_time) example_id (Note ''stopped'') example_time (empty_db\<lparr>operations := [accepted_operation]\<rparr>) =
     Inr (db, again)"
proof -
  have "case schedule (\<lambda>_. example_time) example_id (Note ''stopped'') example_time (empty_db\<lparr>operations := [accepted_operation]\<rparr>) of
      Inl _ \<Rightarrow> False | Inr _ \<Rightarrow> True"
    by code_simp
  then show ?thesis by (auto split: sum.splits)
qed

lemma example_retry:
  "get_operation example_id (empty_db\<lparr>operations := [accepted_operation]\<rparr>) = Some accepted_operation"
  "op_finishing accepted_operation" "op_unfinished accepted_operation"
  "retry_state (op_refs accepted_operation) = Inr []" "retry_attempts [] = Inr 0"
  by code_simp+

theorem retry_budget_witness:
  "\<exists>db r. schedule (\<lambda>_. example_time) example_id (Note ''stopped'') example_time
       (empty_db\<lparr>operations := [accepted_operation]\<rparr>) = Inr (db, True) \<and>
     get_operation example_id db = Some r \<and> op_status r = ''running'' \<and> next_at_of r = Some example_time"
  using example_schedule retry_budget [OF _ example_retry] by fastforce

end
