(* ===== verification/Lane_Refinement.thy ===== *)
theory Lane_Refinement
  imports Executor_Runs
begin

text \<open>
  What the operation journal promises, without its tables: for each scope a foreground lane and a
  finishing lane, each free or held by one operation. The calls of the controller on the database
  implement this specification: whatever they do, the lanes move by acquiring a free foreground lane,
  moving to the free finishing lane of the same scope, and releasing.
\<close>

section \<open>The specification\<close>

type_synonym lanes = "string \<times> bool \<Rightarrow> string option"

definition acquire :: "string \<Rightarrow> string \<Rightarrow> lanes \<Rightarrow> lanes option" where
  "acquire i s L = (if L (s, False) = None then Some (L((s, False) \<mapsto> i)) else None)"

definition move_to_finishing :: "string \<Rightarrow> lanes \<Rightarrow> lanes option" where
  "move_to_finishing s L =
     (case L (s, False) of None \<Rightarrow> None
      | Some i \<Rightarrow> if L (s, True) = None then Some (L((s, False) := None, (s, True) \<mapsto> i)) else None)"

definition release :: "string \<Rightarrow> bool \<Rightarrow> lanes \<Rightarrow> lanes option" where
  "release s lane L = (if L (s, lane) = None then None else Some (L((s, lane) := None)))"

inductive lane_step :: "lanes \<Rightarrow> lanes \<Rightarrow> bool" where
  Acquire: "acquire i s L = Some L' \<Longrightarrow> (\<forall>x. L x \<noteq> Some i) \<Longrightarrow> lane_step L L'"
| Move: "move_to_finishing s L = Some L' \<Longrightarrow> lane_step L L'"
| Release: "release s lane L = Some L' \<Longrightarrow> lane_step L L'"

inductive_cases lane_stepE: "lane_step L L'"

section \<open>The lanes of a database\<close>

definition lanes_of :: "db \<Rightarrow> lanes" where
  "lanes_of db = (\<lambda>(s, lane). map_option op_operation_id
     (if lane then get_finishing_operation s db else get_unfinished_operation s db))"

lemma lanes_of_holder: "lanes_of db (s, lane) = map_option op_operation_id (opl.holder s lane (operations db))"
  by (simp add: lanes_of_def get_finishing_operation_def get_unfinished_operation_def opl.holder_def)

lemma lanes_of_cong: "operations d' = operations d \<Longrightarrow> lanes_of d' = lanes_of d"
  by (auto simp: fun_eq_iff lanes_of_holder)

lemma lanes_of_iff:
  assumes "schema_ok db"
  shows "lanes_of db (s, lane) = Some i \<longleftrightarrow>
    (\<exists>r \<in> set (operations db). op_operation_id r = i \<and> op_scope r = s \<and> op_unfinished r \<and> op_finishing r = lane)"
  unfolding lanes_of_holder using opl.holder_iff [OF schema_okD(3) [OF assms], of s lane] by fastforce

lemma lanes_eqI: "(\<And>s lane i. L (s, lane) = Some i \<longleftrightarrow> L' (s, lane) = Some i) \<Longrightarrow> L = L'" for L :: lanes
proof (rule ext)
  fix x
  assume "\<And>s lane i. L (s, lane) = Some i \<longleftrightarrow> L' (s, lane) = Some i"
  then show "L x = L' x" by (cases x; cases "L x"; cases "L' x") (metis, metis, auto)
qed

text \<open>An update of one row that keeps its scope moves its lane forward, if at all.\<close>

lemma lane_update:
  assumes ok: "schema_ok d" "schema_ok d'"
    and d': "operations d' = update_where P f (operations d)"
    and P: "\<And>r. P r \<Longrightarrow> op_operation_id r = i"
    and f: "\<And>r. op_operation_id (f r) = op_operation_id r" "\<And>r. op_scope (f r) = op_scope r"
      "\<And>r. r \<in> set (operations d) \<Longrightarrow> P r \<Longrightarrow> op_unfinished (f r) \<Longrightarrow> op_unfinished r"
      "\<And>r. op_finishing r \<Longrightarrow> op_finishing (f r)"
  shows "lane_step\<^sup>*\<^sup>* (lanes_of d) (lanes_of d')"
proof (cases "\<exists>r \<in> set (operations d). P r \<and> op_unfinished r")
  case False
  then have "\<not> op_unfinished (f r)" if "r \<in> set (operations d)" "P r" for r
    using f(3) that by auto
  then have "lanes_of d' = lanes_of d"
    using False
    by (intro lanes_eqI) (auto simp: lanes_of_iff [OF ok(1)] lanes_of_iff [OF ok(2)] d' set_update_where image_iff)
  then show ?thesis by simp
next
  case True
  then obtain r where r: "r \<in> set (operations d)" "P r" "op_unfinished r" by blast
  have i: "op_operation_id r = i" using P r(2) .
  have only: "x = r" if "x \<in> set (operations d)" "op_operation_id x = i" for x
    using opl.by_key_unique [OF schema_okD(3) [OF ok(1)] that(1) r(1)] that(2) i by simp
  have rows: "set (operations d') = insert (f r) (set (operations d) - {r})"
  proof -
    have "P x \<longleftrightarrow> x = r" if "x \<in> set (operations d)" for x
      using only [OF that] P r(2) by blast
    then have "set (operations d') = (\<lambda>x. if x = r then f r else x) ` set (operations d)"
      unfolding d' update_where_def set_map by (intro image_cong) auto
    then show ?thesis using r(1) by force
  qed
  have other: "op_operation_id x \<noteq> i" if "x \<in> set (operations d) - {r}" for x
    using only that by blast
  let ?others = "\<lambda>s lane j. \<exists>x \<in> set (operations d) - {r}. op_operation_id x = j \<and> op_scope x = s \<and> op_unfinished x \<and> op_finishing x = lane"
  have bex: "(\<exists>x \<in> set (operations d). Q x) \<longleftrightarrow> Q r \<or> (\<exists>x \<in> set (operations d) - {r}. Q x)" for Q
    using r(1) by blast
  have no_other: "\<not> ?others s lane i" for s lane
    using other by blast
  have old: "lanes_of d (s, lane) = Some j \<longleftrightarrow>
      (if j = i then (s, lane) = (op_scope r, op_finishing r) else ?others s lane j)" for s lane j
  proof -
    have "lanes_of d (s, lane) = Some j \<longleftrightarrow> (j = i \<and> s = op_scope r \<and> lane = op_finishing r) \<or> ?others s lane j"
      unfolding lanes_of_iff [OF ok(1)] bex using r(3) i by auto
    then show ?thesis
      using no_other [of s lane] by (cases "j = i") (simp_all only: simp_thms if_True if_False prod.inject)
  qed
  have new: "lanes_of d' (s, lane) = Some j \<longleftrightarrow>
      (if j = i then op_unfinished (f r) \<and> (s, lane) = (op_scope r, op_finishing (f r)) else ?others s lane j)" for s lane j
  proof -
    have "lanes_of d' (s, lane) = Some j \<longleftrightarrow>
        (j = i \<and> op_unfinished (f r) \<and> s = op_scope r \<and> lane = op_finishing (f r)) \<or> ?others s lane j"
      unfolding lanes_of_iff [OF ok(2)] rows using i f(1,2) [of r] by auto
    then show ?thesis
      using no_other [of s lane] by (cases "j = i") (simp_all only: simp_thms if_True if_False prod.inject)
  qed
  have held: "lanes_of d (op_scope r, op_finishing r) = Some i"
    by (simp add: old)
  have alone: "x = r" if "x \<in> set (operations d)" "op_unfinished x" "op_scope x = op_scope r" "op_finishing x = op_finishing r" for x
    using opl.by_lane_unique [OF schema_okD(3) [OF ok(1)] that(1) r(1) that(2) r(3) that(3,4)] .
  consider "\<not> op_unfinished (f r)" | "op_unfinished (f r)" "op_finishing (f r) = op_finishing r" |
      "op_unfinished (f r)" "\<not> op_finishing r" "op_finishing (f r)"
    using f(4) [of r] by blast
  then show ?thesis
  proof cases
    case 1
    have "lanes_of d' = (lanes_of d)((op_scope r, op_finishing r) := None)"
      using 1 held alone by (intro lanes_eqI) (auto simp: new old split: if_splits)
    then have "release (op_scope r) (op_finishing r) (lanes_of d) = Some (lanes_of d')"
      using held by (simp add: release_def)
    then show ?thesis by (blast intro: lane_step.Release)
  next
    case 2
    have "lanes_of d' = lanes_of d"
      using 2 by (intro lanes_eqI) (simp add: new old)
    then show ?thesis by simp
  next
    case 3
    have fin: "lanes_of d' (op_scope r, True) = Some i"
      using 3 by (simp add: new)
    have free: "lanes_of d (op_scope r, True) = None"
    proof (rule ccontr)
      assume "lanes_of d (op_scope r, True) \<noteq> None"
      then obtain j where j: "lanes_of d (op_scope r, True) = Some j" by blast
      then have "j \<noteq> i" using 3(2) by (auto simp: old)
      then have "lanes_of d' (op_scope r, True) = Some j" using j by (simp add: new old)
      with fin \<open>j \<noteq> i\<close> show False by simp
    qed
    have "\<not> op_finishing x" if "x \<in> set (operations d)" "op_unfinished x" "op_scope x = op_scope r" for x
      using free lanes_of_iff [OF ok(1), of "op_scope r" True] that by auto
    then have "lanes_of d' = (lanes_of d)((op_scope r, False) := None, (op_scope r, True) \<mapsto> i)"
      using 3 alone by (intro lanes_eqI) (auto simp: new old split: if_splits)
    then have "move_to_finishing (op_scope r) (lanes_of d) = Some (lanes_of d')"
      using held 3(2) free by (simp add: move_to_finishing_def)
    then show ?thesis by (blast intro: lane_step.Move)
  qed
qed


section \<open>Simulation\<close>

definition lane_refines :: "db \<Rightarrow> db \<Rightarrow> bool" where
  "lane_refines d d' \<longleftrightarrow> (schema_ok d \<longrightarrow> schema_ok d' \<and> lane_step\<^sup>*\<^sup>* (lanes_of d) (lanes_of d'))"

lemma lanes_of_flag [simp]: "lanes_of (d\<lparr>in_transaction := b\<rparr>) = lanes_of d"
  by (rule lanes_of_cong) simp

interpretation ln: handler_relation lane_refines
  by unfold_locales (auto simp: lane_refines_def)

lemma ln_same: "schema_ok d' \<Longrightarrow> operations d' = operations d \<Longrightarrow> lane_refines d d'"
  by (simp add: lane_refines_def lanes_of_cong [of d' d])

lemma ln_update:
  assumes "schema_ok d'" "operations d' = update_where P f (operations d)" "\<And>r. P r \<Longrightarrow> op_operation_id r = i"
    "\<And>r. op_operation_id (f r) = op_operation_id r" "\<And>r. op_scope (f r) = op_scope r"
    "\<And>r. schema_ok d \<Longrightarrow> r \<in> set (operations d) \<Longrightarrow> P r \<Longrightarrow> op_unfinished (f r) \<Longrightarrow> op_unfinished r"
    "\<And>r. op_finishing r \<Longrightarrow> op_finishing (f r)"
  shows "lane_refines d d'"
  unfolding lane_refines_def using assms(1) lane_update [OF _ assms(1-5) _ assms(7)] assms(6) by blast

lemma ln_update_unfinished:
  assumes "\<And>r. op_operation_id (f r) = op_operation_id r" "\<And>r. op_scope (f r) = op_scope r"
    "\<And>r. op_finishing (f r) = op_finishing r"
  shows "ln.outcomes d (update_unfinished i f d)"
  unfolding ln.outcomes_def update_unfinished_Inr using assms
  by (auto intro!: ln_update [where P = "\<lambda>r. op_operation_id r = i \<and> op_unfinished r" and f = f and i = i])

lemma ln_finish: "ln.outcomes db (finish_operation i s e p c now db)"
  unfolding finish_operation_def read_operation_def
  by (intro ln.steps ln_update_unfinished) simp_all

lemma ln_settle:
  "ln.outcomes db (mark_succeeded i cl now db)" "ln.outcomes db (mark_recovery_required i err p now db)"
  "ln.outcomes db (mark_failed i e cl now db)" "ln.outcomes db (record_finishing_failure i e now db)"
  unfolding mark_succeeded_def mark_recovery_required_def mark_failed_def record_finishing_failure_def
  by (intro ln.steps ln_finish)+

lemma ln_renew: "ln.outcomes db (renew_operation_deadline i dl now db)"
  unfolding renew_operation_deadline_def read_operation_def
  by (intro ln.steps ln_update_unfinished) simp_all

lemma ln_checkpoint: "ln.outcomes db (checkpoint_operation i cp now db)"
  unfolding checkpoint_operation_def read_operation_def
  by (intro ln.steps ln_update_unfinished) simp_all

lemma ln_append:
  assumes "schema_ok d" "schema_ok d'" "operations d' = operations d @ [r]"
    and "op_unfinished r" "\<not> op_finishing r"
  shows "lane_step\<^sup>*\<^sup>* (lanes_of d) (lanes_of d')"
proof -
  have new: "x \<noteq> r \<and> op_operation_id x \<noteq> op_operation_id r \<and> (op_scope x = op_scope r \<and> op_unfinished x \<longrightarrow> op_finishing x)"
    if "x \<in> set (operations d)" for x
  proof -
    have "primary_key op_operation_id (operations d @ [r])"
      using opl.key_unique [OF schema_okD(3) [OF assms(2)]] assms(3) by simp
    then have "op_operation_id x \<noteq> op_operation_id r"
      using that by (auto simp: unique_on_def image_iff)
    then show ?thesis
      using opl.by_lane_unique [OF schema_okD(3) [OF assms(2)], of x r] that assms(3-5) by auto
  qed
  have "lanes_of d (op_scope r, False) = None"
    using new lanes_of_iff [OF assms(1), of "op_scope r" False] by (cases "lanes_of d (op_scope r, False)") auto
  moreover have "lanes_of d' = (lanes_of d)((op_scope r, False) \<mapsto> op_operation_id r)"
    using calculation assms(4,5) new
    by (intro lanes_eqI) (auto simp: lanes_of_iff [OF assms(1)] lanes_of_iff [OF assms(2)] assms(3))
  moreover have "\<forall>x. lanes_of d x \<noteq> Some (op_operation_id r)"
    using new lanes_of_iff [OF assms(1)] by auto
  ultimately have "lane_step (lanes_of d) (lanes_of d')"
    by (intro lane_step.Acquire [of "op_operation_id r" "op_scope r"]) (simp_all add: acquire_def)
  then show ?thesis by simp
qed

lemma ln_begin: "ln.outcomes db (begin_operation i k s ph dl refs now db)"
  unfolding ln.outcomes_def lane_refines_def
proof (intro allI impI)
  fix d' r
  assume b: "begin_operation i k s ph dl refs now db = Inr (d', r)" and ok: "schema_ok db"
  then have "schema_ok d'" "operations d' = operations db @ [r]" "op_unfinished r" "\<not> op_finishing r"
    unfolding begin_operation_Inr [OF ok] by auto
  then show "schema_ok d' \<and> lane_step\<^sup>*\<^sup>* (lanes_of db) (lanes_of d')"
    using ln_append [OF ok] by blast
qed


lemma ln_mark_finishing: "ln.outcomes db (mark_operation_finishing i w db)"
proof -
  have "lane_refines d (d2 :: db)" if
    "schema_ok d2" "operations d2 = update_where (\<lambda>r. op_operation_id r = i)
       (\<lambda>r. r\<lparr>op_finishing := True, op_cleanup_state := ''pending''\<rparr>) (operations d)" for d d2
    using that by (intro ln_update [OF that, of i]) (auto simp: op_unfinished_def)
  then show ?thesis
    unfolding mark_operation_finishing_def by (intro ln.steps) (simp_all add: execute_Inr)
qed

lemma ln_refs: "set_refs i refs d = Inr d' \<Longrightarrow> lane_refines d d'"
  unfolding set_refs_def execute_Inr
  by (intro ln_update [where P = "\<lambda>r. op_operation_id r = i" and f = "\<lambda>r. r\<lparr>op_refs := refs\<rparr>" and i = i])
     (auto simp: op_unfinished_def)

lemma ln_schedule_row:
  assumes "get_operation i d = Some r" "op_status r \<notin> {''succeeded'', ''failed''}"
    and "schema_ok d'" "operations d' = update_where (\<lambda>x. op_operation_id x = i) f (operations d)"
    and "\<And>r. op_operation_id (f r) = op_operation_id r" "\<And>r. op_scope (f r) = op_scope r" "\<And>r. op_finishing (f r) = op_finishing r"
  shows "lane_refines d d'"
proof (rule ln_update [OF assms(3,4), of i])
  fix x
  assume x: "schema_ok d" "x \<in> set (operations d)" "op_operation_id x = i"
  have "x = r"
    using opl.by_key_unique [OF schema_okD(3) [OF x(1)] x(2), of r] get_operation_id [OF assms(1)] x(3) by simp
  then show "op_unfinished x"
    using assms(2) operation_row [OF x(1,2)] by (auto simp: op_unfinished_def unfinished_statuses_def operation_row_ok_def)
qed (simp_all add: assms)

lemma ln_schedule: "ln.outcomes db (schedule later i err now db)"
proof -
  have row: "lane_refines d d1"
    if "get_operation i d = Some r" "\<not> (\<not> op_finishing r \<or> op_status r \<in> {''succeeded'', ''failed''})"
      "execute (d\<lparr>operations := update_where (\<lambda>x. op_operation_id x = i)
         (\<lambda>x. x\<lparr>op_status := (if next_at = None then ''recovery_required'' else ''running''), op_refs := refs,
                 op_safe_error := Some (safe_summary err), op_updated_at := now\<rparr>) (operations d)\<rparr>) = Inr d1"
    for d d1 r refs and next_at :: "string option"
  proof -
    have "schema_ok d1" and d1: "operations d1 = update_where (\<lambda>x. op_operation_id x = i)
         (\<lambda>x. x\<lparr>op_status := (if next_at = None then ''recovery_required'' else ''running''), op_refs := refs,
                 op_safe_error := Some (safe_summary err), op_updated_at := now\<rparr>) (operations d)"
      using that(3) by (simp_all add: execute_Inr)
    then show ?thesis using that(2) by (intro ln_schedule_row [OF that(1) _ _ d1]) simp_all
  qed
  show ?thesis
    unfolding schedule_def Let_def
    by (intro ln.steps ln.refl_R) (rule row; assumption)+
qed

lemmas ln_simps = execute_Inr rbind_eq_Inr set_request_result_def

lemma ln_requests:
  "ln.outcomes db (claim_idempotency_request i fp now db)"
  "ln.outcomes db (complete_idempotency_request i k r now db)"
  unfolding claim_idempotency_request_def complete_idempotency_request_def
  by (intro ln.steps; simp add: ln_simps ln.refl_R ln_same)+

lemma ln_enqueue: "ln.outcomes db (enqueue_operation_dispatch i k s now db)"
  unfolding enqueue_operation_dispatch_def
  by (intro ln.steps; simp add: ln_simps ln.refl_R ln_same)

lemma ln_dispatch_status: "ln.outcomes db (set_operation_dispatch_status i st err now db)"
  unfolding set_operation_dispatch_status_def Let_def
  by (intro ln.steps; simp add: ln_simps ln.refl_R ln_same)

lemma ln_requeue: "ln.outcomes db (requeue_recovery_dispatch i k s now automatic db)"
proof -
  have row: "lane_refines d d2"
    if "(if fin then rbind (requeue_retry old now automatic) (\<lambda>retry.
           rbind (refs_json (dict_merge old [(''finishing_retry'', JObj retry)])) (\<lambda>refs. set_refs j refs d)) else Inr d) = Inr d1"
      "execute (d1\<lparr>operation_dispatches := ds\<rparr>) = Inr d2" for d d1 d2 fin old ds j
  proof -
    have "lane_refines d d1"
      using that(1) ln_refs by (auto simp: rbind_eq_Inr ln.refl_R split: if_splits)
    moreover have "lane_refines d1 d2"
      using that(2) by (simp add: execute_Inr ln_same)
    ultimately show ?thesis by (rule ln.trans_R)
  qed
  show ?thesis
    unfolding requeue_recovery_dispatch_def Let_def
    by (intro ln.steps) (rule row; assumption)+
qed

lemma ln_tables:
  "ln.outcomes db (put_default_builder_flavor f db)"
  "ln.outcomes db (put_application_builder_flavor i fl now db)"
  "ln.outcomes db (put_image_selection r i n c h now db)"
  "ln.outcomes db (advance_environment_revision i ver now db)"
  "ln.outcomes db (create_deployment_attempt sha at now db)"
  unfolding put_default_builder_flavor_def put_application_builder_flavor_def put_image_selection_def
    advance_environment_revision_def create_deployment_attempt_def Let_def
  by (intro ln.steps; simp add: ln_simps ln.refl_R ln_same)+

lemma ln_runtime: "ln.outcomes db (set_application_runtime i running w v now within db)"
  unfolding set_application_runtime_def set_runtime_statements_def Let_def
  by (intro ln.steps; simp add: ln_simps update_attempts_Inr ln.refl_R ln_same)

lemma ln_put: "ln.outcomes db (put_application ai now within db)"
  unfolding put_application_def put_application_statements_def Let_def
  by (intro ln.steps; simp add: ln_simps split: option.splits if_splits; auto simp: execute_Inr intro: ln_same)

lemma ln_checkpoint_attempt: "ln.outcomes db (checkpoint_deployment_attempt sha i ev now w db)"
  unfolding checkpoint_deployment_attempt_def checkpoint_attempt_statements_def Let_def
  by (intro ln.steps; simp add: ln_simps update_attempts_Inr ln.refl_R ln_same)

lemma ln_resources:
  "ln.outcomes db (rename_managed_resource i l now db)" "ln.outcomes db (set_managed_resource_lifecycle i st now db)"
  "ln.outcomes db (delete_managed_resource i ty n db)" "ln.outcomes db (put_storage_usage i u b db)" "ln.outcomes db (put_storage_host_usage u db)"
  "ln.outcomes db (put_storage_limits i q u b now db)" "ln.outcomes db (set_storage_instance i inst port m db)"
  "ln.outcomes db (set_environment_keys i own ks db)"
  unfolding rename_managed_resource_def set_managed_resource_lifecycle_def delete_managed_resource_def put_storage_usage_def
    put_storage_host_usage_def put_storage_limits_def set_storage_instance_def set_environment_keys_def update_resource_def
    Let_def
  by (intro ln.steps; simp add: ln_simps ln.refl_R ln_same)+

lemma ln_retire: "retire_application i now a d = Inr d' \<Longrightarrow> schema_ok d' \<and> operations d' = operations d"
  by (auto simp: retire_application_def execute_Inr rbind_eq_Inr Let_def)

lemma ln_deletion: "ln.outcomes db (complete_application_deletion i j now db)"
proof -
  have row: "lane_refines d d2"
    if "retire_application a now app d = Inr d1"
      "execute (d1\<lparr>operations := update_where (\<lambda>r. op_operation_id r = k \<and> op_unfinished r) f (operations d1)\<rparr>) = Inr d2"
      "\<And>r. op_operation_id (f r) = op_operation_id r" "\<And>r. op_scope (f r) = op_scope r" "\<And>r. op_finishing (f r) = op_finishing r"
    for a d d1 d2 k f app
    using that ln_retire [OF that(1)]
    by (intro ln_update [where P = "\<lambda>r. op_operation_id r = k \<and> op_unfinished r" and f = f and i = k]) (auto simp: execute_Inr)
  show ?thesis
    unfolding complete_application_deletion_def Let_def
    by (intro ln.steps; (erule (1) row)?; simp?)
qed

lemma ln_put_resource: "ln.outcomes db (put_managed_resource i fresh now db)"
  unfolding put_managed_resource_def Let_def
  by (intro ln.steps; simp add: ln_simps ln.refl_R ln_same)

lemma ln_accept: "ln.outcomes db (accept_healthy_deployment sha helper route acc clock db)"
proof -
  have "ln.outcomes d (acceptance_statements sha acc clock d)" for d
    unfolding acceptance_statements_def
    by (intro ln.of_chain ln_put ln_checkpoint_attempt ln.of_option ln.of_if ln_mark_finishing ln.of_return ln.refl_R)
  then show ?thesis
    unfolding accept_healthy_deployment_def by (intro ln.steps)
qed

lemma ln_accept_enabled: "ln.outcomes db (accept_enabled i j w v now db)"
  unfolding accept_enabled_def by (intro ln.of_transaction ln.of_chain ln_runtime ln_mark_finishing)

lemma ln_updates:
  "ln.outcomes db (replace_saved_job i job h v db)" "ln.outcomes db (mark_usage_failed i db)"
  "ln.outcomes db (mark_migration_copying i db)" "ln.outcomes db (mark_migration_aborted i db)"
  "ln.outcomes db (restore_resource_columns i c db)"
  unfolding replace_saved_job_def mark_usage_failed_def mark_migration_copying_def mark_migration_aborted_def
    restore_resource_columns_def
  by (intro ln.steps; simp add: ln_simps update_attempts_Inr ln_same)+


lemmas ln_all = ln_settle ln_renew ln_checkpoint ln_begin ln_mark_finishing ln_schedule ln_requests ln_enqueue ln_dispatch_status
  ln_requeue ln_tables ln_runtime ln_put ln_checkpoint_attempt ln_resources ln_deletion ln_put_resource ln_accept
  ln_accept_enabled ln_updates

lemma ln_perform: "perform sha clock c db = Inr db' \<Longrightarrow> lane_refines db db'"
proof (cases c)
  case (Create_Attempt document i)
  assume "perform sha clock c db = Inr db'"
  then show ?thesis
    using Create_Attempt ln.of_forget [OF ln_tables(5)] by (auto simp: rbind_eq_Inr)
qed (simp, erule ln.of_forget [rotated], rule ln_all)+

lemma ln_run: "lane_refines db (run_calls sha cs db)"
proof (induction cs arbitrary: db)
  case (Cons c cs)
  have "lane_refines db (commit_call sha c db)"
    using ln_perform by (auto simp: commit_call_def ln.refl_R split: sum.split)
  then show ?case using Cons by (auto intro: ln.trans_R)
qed (simp add: ln.refl_R)


end
