(* ===== verification/Login_Limits.thy ===== *)
theory Login_Limits
  imports Platform_Prelude
begin

text \<open>
  The process-local limits of the management broker on sign-in (\<open>management/broker/local_auth_limits.py\<close>):
  attempts per known account in a window of a minute, and failures per remembered device in a window of
  an hour. Times are elements of an ordered ring, where the code has floating-point seconds; a table is
  the list of its rows in the order of the \<open>OrderedDict\<close>.
\<close>

section \<open>Operations\<close>

definition CAPACITY :: nat where "CAPACITY = 4096"
definition ACCOUNT_ATTEMPTS :: nat where "ACCOUNT_ATTEMPTS = 12"
definition ACCOUNT_WINDOW :: "'t :: linordered_idom" where "ACCOUNT_WINDOW = 60"
definition DEVICE_FAILURES :: nat where "DEVICE_FAILURES = 20"
definition DEVICE_WINDOW :: "'t :: linordered_idom" where "DEVICE_WINDOW = 3600"

type_synonym account_key = "string \<times> int"
type_synonym device_key = "string \<times> int \<times> string"

text \<open>The \<open>while\<close> loop that drops expired times from the left of a deque.\<close>

fun pop_expired :: "'t :: linordered_idom \<Rightarrow> 't list \<Rightarrow> 't list" where
  "pop_expired cutoff [] = []"
| "pop_expired cutoff (t # ts) = (if t \<le> cutoff then pop_expired cutoff ts else t # ts)"

text \<open>\<open>OrderedDict\<close>: assignment to a key, and \<open>move_to_end\<close>.\<close>

definition move_to_end :: "'k \<Rightarrow> 'v \<Rightarrow> ('k \<times> 'v) list \<Rightarrow> ('k \<times> 'v) list" where
  "move_to_end key v rows = filter (\<lambda>kv. fst kv \<noteq> key) rows @ [(key, v)]"

definition change_row :: "'k \<Rightarrow> ('v \<Rightarrow> 'v) \<Rightarrow> ('k \<times> 'v) list \<Rightarrow> ('k \<times> 'v) list" where
  "change_row key f rows = map (\<lambda>(k, v). (k, if k = key then f v else v)) rows"

record 't account_window =
  aw_starts :: "'t list"
  aw_active :: bool

record 't known_account_limits =
  ka_capacity :: nat
  ka_accounts :: "(account_key \<times> 't account_window) list"

definition purge_accounts ::
  "'t :: linordered_idom \<Rightarrow> (account_key \<times> 't account_window) list \<Rightarrow> (account_key \<times> 't account_window) list" where
  "purge_accounts now rows =
     filter (\<lambda>(_, w). aw_active w \<or> aw_starts w \<noteq> [])
       (map (\<lambda>(k, w). (k, w\<lparr>aw_starts := pop_expired (now - ACCOUNT_WINDOW) (aw_starts w)\<rparr>)) rows)"

text \<open>
  Entering and leaving \<open>KnownAccountLimits.reserve\<close>. The row of a request in flight is active, so it is
  never purged: leaving finds it under its key.
\<close>

definition reserve_account ::
  "account_key \<Rightarrow> 't :: linordered_idom \<Rightarrow> 't known_account_limits \<Rightarrow> 't known_account_limits \<times> unit result" where
  "reserve_account key now st =
     (let rows = purge_accounts now (ka_accounts st);
          refused = (\<lambda>e. (st\<lparr>ka_accounts := rows\<rparr>, Inl e));
          admitted = (\<lambda>row. (st\<lparr>ka_accounts := move_to_end key
             (row\<lparr>aw_active := True, aw_starts := aw_starts row @ [now]\<rparr>) rows\<rparr>, Inr ()))
      in case map_of rows key of
           None \<Rightarrow>
             if length rows \<ge> ka_capacity st
             then refused (HashCapacityError ''known-account admission capacity unavailable'')
             else admitted \<lparr>aw_starts = [], aw_active = False\<rparr>
         | Some row \<Rightarrow>
             if aw_active row then refused (HashCapacityError ''known-account request already in flight'')
             else if length (aw_starts row) \<ge> ACCOUNT_ATTEMPTS
             then refused (HttpError 429 ''RATE_LIMITED'' ''Please wait before trying sign-in again.'')
             else admitted row)"

definition release_account :: "account_key \<Rightarrow> 't known_account_limits \<Rightarrow> 't known_account_limits" where
  "release_account key st = st\<lparr>ka_accounts := change_row key (\<lambda>w. w\<lparr>aw_active := False\<rparr>) (ka_accounts st)\<rparr>"

record 't device_window =
  dw_failures :: "'t list"
  dw_pending :: int

record 't device_failure_limits =
  dl_capacity :: nat
  dl_devices :: "(device_key \<times> 't device_window) list"

text \<open>A reservation with a row refers to the row under its key, which pending requests keep there.\<close>

datatype device_reservation = Untracked | Denied | Tracked device_key

definition exempt :: "device_reservation \<Rightarrow> bool" where
  "exempt r = (case r of Tracked _ \<Rightarrow> True | _ \<Rightarrow> False)"

definition purge_devices ::
  "'t :: linordered_idom \<Rightarrow> (device_key \<times> 't device_window) list \<Rightarrow> (device_key \<times> 't device_window) list" where
  "purge_devices now rows =
     filter (\<lambda>(_, w). dw_pending w \<noteq> 0 \<or> dw_failures w \<noteq> [])
       (map (\<lambda>(k, w). (k, w\<lparr>dw_failures := pop_expired (now - DEVICE_WINDOW) (dw_failures w)\<rparr>)) rows)"

definition reserve_device ::
  "device_key \<Rightarrow> 't :: linordered_idom \<Rightarrow> 't device_failure_limits \<Rightarrow> 't device_failure_limits \<times> device_reservation" where
  "reserve_device key now st =
     (let rows = purge_devices now (dl_devices st);
          row = (case map_of rows key of None \<Rightarrow> \<lparr>dw_failures = [], dw_pending = 0\<rparr> | Some w \<Rightarrow> w);
          stored = (if map_of rows key = None then rows @ [(key, row)] else rows)
      in if map_of rows key = None \<and> length rows \<ge> dl_capacity st then (st\<lparr>dl_devices := rows\<rparr>, Untracked)
         else if int (length (dw_failures row)) + dw_pending row \<ge> int DEVICE_FAILURES
         then (st\<lparr>dl_devices := stored\<rparr>, Denied)
         else (st\<lparr>dl_devices := move_to_end key (row\<lparr>dw_pending := dw_pending row + 1\<rparr>) stored\<rparr>, Tracked key))"

definition finish_device ::
  "device_reservation \<Rightarrow> bool \<Rightarrow> 't \<Rightarrow> 't device_failure_limits \<Rightarrow> 't device_failure_limits" where
  "finish_device r failed now st =
     (case r of
        Tracked key \<Rightarrow>
          st\<lparr>dl_devices := change_row key
            (\<lambda>w. w\<lparr>dw_pending := dw_pending w - 1,
                    dw_failures := (if failed then dw_failures w @ [now] else dw_failures w)\<rparr>) (dl_devices st)\<rparr>
      | _ \<Rightarrow> st)"

section \<open>Windows\<close>

lemma pop_expired_filter: "sorted ts \<Longrightarrow> pop_expired c ts = filter (\<lambda>t. c < t) ts"
proof (induction ts)
  case (Cons t ts)
  then show ?case by (cases "t \<le> c") (auto simp: filter_id_conv intro!: filter_True [symmetric])
qed simp

text \<open>A history of times in which no window of the given width holds more than \<open>limit\<close> of them.\<close>

locale sliding_window =
  fixes width :: "'t :: linordered_idom" and limit :: nat
  assumes width_nonneg: "0 \<le> width"
begin

definition within :: "'t \<Rightarrow> 't list \<Rightarrow> 't list" where
  "within T ts = filter (\<lambda>t. T - width < t \<and> t \<le> T) ts"

definition bounded :: "'t list \<Rightarrow> bool" where
  "bounded ts \<longleftrightarrow> (\<forall>T. length (within T ts) \<le> limit)"

lemma bounded_Nil: "bounded []"
  by (simp add: bounded_def within_def)

lemma bounded_append:
  assumes "bounded ts" "\<forall>t \<in> set ts. t \<le> now" "length (filter (\<lambda>t. now - width < t) ts) < limit"
  shows "bounded (ts @ [now])"
  unfolding bounded_def
proof
  fix T
  show "length (within T (ts @ [now])) \<le> limit"
  proof (cases "now \<le> T")
    case True
    have "within T ts = filter (\<lambda>t. T - width < t \<and> t \<le> T) (filter (\<lambda>t. now - width < t) ts)"
      using True by (auto simp: within_def intro!: filter_cong)
    then have "length (within T ts) \<le> length (filter (\<lambda>t. now - width < t) ts)"
      by (metis length_filter_le)
    then show ?thesis using assms(3) by (simp add: within_def)
  next
    case False
    then have "within T (ts @ [now]) = within T ts" by (simp add: within_def)
    then show ?thesis using assms(1) by (simp add: bounded_def)
  qed
qed

end

interpretation aw: sliding_window ACCOUNT_WINDOW ACCOUNT_ATTEMPTS
  by unfold_locales (simp add: ACCOUNT_WINDOW_def)

interpretation dw: sliding_window DEVICE_WINDOW DEVICE_FAILURES
  by unfold_locales (simp add: DEVICE_WINDOW_def)


section \<open>Tables\<close>

text \<open>The times a table keeps for a key, none for a key it does not have.\<close>

definition times_of :: "('w \<Rightarrow> 't list) \<Rightarrow> ('k \<times> 'w) list \<Rightarrow> 'k \<Rightarrow> 't list" where
  "times_of sel rows k = (case map_of rows k of None \<Rightarrow> [] | Some w \<Rightarrow> sel w)"

lemma times_purge:
  assumes "distinct (map fst rows)" "\<And>w. sel (upd w) = g (sel w)" "\<And>w. \<not> keep w \<Longrightarrow> sel w = []" "g [] = []"
  shows "times_of sel (filter (\<lambda>(_, w). keep w) (map (\<lambda>(k, w). (k, upd w)) rows)) k = g (times_of sel rows k)"
  using assms(1)
proof (induction rows)
  case (Cons kv rows)
  obtain k' w where kv: "kv = (k', w)" by (cases kv)
  have absent: "map_of (filter (\<lambda>(_, w). keep w) (map (\<lambda>(k, w). (k, upd w)) rows)) k' = None"
    using Cons.prems kv by (force simp: map_of_eq_None_iff)
  show ?case
    using Cons kv assms(2) assms(3) [of "upd w"] absent by (auto simp: times_of_def)
qed (simp add: times_of_def assms(4))

lemma distinct_purge:
  "distinct (map fst rows) \<Longrightarrow> distinct (map fst (filter (\<lambda>(_, w). keep w) (map (\<lambda>(k, w). (k, upd w)) rows)))"
  by (induction rows) (auto simp: image_iff)

lemma map_of_move: "map_of (move_to_end key v rows) = (map_of rows)(key \<mapsto> v)"
  by (rule ext) (induction rows, auto simp: move_to_end_def)

lemma distinct_move: "distinct (map fst rows) \<Longrightarrow> distinct (map fst (move_to_end key v rows))"
  by (induction rows) (auto simp: move_to_end_def)

lemma length_move:
  "distinct (map fst rows) \<Longrightarrow>
   length (move_to_end key v rows) = (if map_of rows key = None then Suc (length rows) else length rows)"
  by (induction rows) (force simp: move_to_end_def map_of_eq_None_iff)+

lemma map_of_change: "map_of (change_row key f rows) k = (if k = key then map_option f (map_of rows k) else map_of rows k)"
  by (induction rows) (auto simp: change_row_def)

lemma keys_change [simp]: "map fst (change_row key f rows) = map fst rows" "length (change_row key f rows) = length rows"
  by (induction rows) (auto simp: change_row_def)

text \<open>A table that has dropped nothing still in the window: what it keeps agrees with the history.\<close>

definition covers :: "'t :: linordered_idom \<Rightarrow> 't list \<Rightarrow> 't list \<Rightarrow> bool" where
  "covers c kept hist \<longleftrightarrow> sorted kept \<and> filter (\<lambda>t. c < t) kept = filter (\<lambda>t. c < t) hist"

lemma covers_later: "covers c kept hist \<Longrightarrow> c \<le> c' \<Longrightarrow> covers c' kept hist"
proof -
  assume a: "covers c kept hist" "c \<le> c'"
  have "filter (\<lambda>t. c' < t) (filter (\<lambda>t. c < t) xs) = filter (\<lambda>t. c' < t) xs" for xs
    using a(2) by (auto intro!: filter_cong)
  then show ?thesis using a(1) unfolding covers_def by metis
qed

lemma covers_pop: "covers c kept hist \<Longrightarrow> c \<le> c' \<Longrightarrow> covers c' (pop_expired c' kept) hist"
  using covers_later [of c kept hist c'] sorted_wrt_filter [of "(\<le>)" kept "\<lambda>t. c' < t"]
  by (simp add: covers_def pop_expired_filter)

lemma covers_count: "covers c kept hist \<Longrightarrow> length (filter (\<lambda>t. c < t) hist) \<le> length kept"
  by (metis covers_def length_filter_le)

lemma covers_append: "covers c kept hist \<Longrightarrow> \<forall>t \<in> set kept. t \<le> now \<Longrightarrow> covers c (kept @ [now]) (hist @ [now])"
  by (auto simp: covers_def sorted_append)


section \<open>Sign-in attempts of an account\<close>

datatype 't account_event = Enter account_key 't | Leave account_key

fun account_step :: "'t :: linordered_idom account_event \<Rightarrow> 't known_account_limits \<times> (account_key \<times> 't) list \<Rightarrow>
    't known_account_limits \<times> (account_key \<times> 't) list" where
  "account_step (Enter k now) (st, hist) =
     (case reserve_account k now st of (st', Inl _) \<Rightarrow> (st', hist) | (st', Inr _) \<Rightarrow> (st', hist @ [(k, now)]))"
| "account_step (Leave k) (st, hist) = (release_account k st, hist)"

definition new_account_limits :: "nat \<Rightarrow> 't known_account_limits" where
  "new_account_limits capacity = \<lparr>ka_capacity = capacity, ka_accounts = []\<rparr>"

definition attempts :: "'k \<Rightarrow> ('k \<times> 't) list \<Rightarrow> 't list" where
  "attempts k hist = map snd (filter (\<lambda>x. fst x = k) hist)"

lemma attempts_append [simp]: "attempts k (hist @ [(k', t)]) = attempts k hist @ (if k' = k then [t] else [])"
  by (simp add: attempts_def)

definition window_inv :: "'t :: linordered_idom \<Rightarrow> nat \<Rightarrow> 't \<Rightarrow> 't list \<Rightarrow> 't list \<Rightarrow> bool" where
  "window_inv width limit now kept hist \<longleftrightarrow>
     covers (now - width) kept hist \<and> (\<forall>t \<in> set kept \<union> set hist. t \<le> now) \<and> sliding_window.bounded width limit hist"

definition account_inv :: "'t :: linordered_idom \<Rightarrow> 't known_account_limits \<times> (account_key \<times> 't) list \<Rightarrow> bool" where
  "account_inv now x \<longleftrightarrow>
     distinct (map fst (ka_accounts (fst x))) \<and> length (ka_accounts (fst x)) \<le> ka_capacity (fst x) \<and>
     (\<forall>k. window_inv ACCOUNT_WINDOW ACCOUNT_ATTEMPTS now (times_of aw_starts (ka_accounts (fst x)) k) (attempts k (snd x)))"

lemma set_pop_expired: "set (pop_expired c ts) \<subseteq> set ts"
  by (induction ts) auto

lemma window_later:
  "window_inv width limit now kept hist \<Longrightarrow> now \<le> now' \<Longrightarrow> window_inv width limit now' kept hist"
  unfolding window_inv_def by (auto elim!: covers_later intro: order_trans)

lemma window_pop:
  "window_inv width limit now kept hist \<Longrightarrow> now \<le> now' \<Longrightarrow>
   window_inv width limit now' (pop_expired (now' - width) kept) hist"
  using set_pop_expired [of "now' - width" kept]
  unfolding window_inv_def by (auto elim!: covers_pop intro: order_trans)

lemma window_admit:
  assumes "window_inv width limit now kept hist" "length kept < limit" "0 \<le> width"
  shows "window_inv width limit now (kept @ [now]) (hist @ [now])"
proof -
  have c: "covers (now - width) kept hist" using assms(1) by (simp add: window_inv_def)
  have "length (filter (\<lambda>t. now - width < t) hist) < limit"
    using covers_count [OF c] assms(2) by simp
  then have "sliding_window.bounded width limit (hist @ [now])"
    using assms(1) by (intro sliding_window.bounded_append) (auto simp: window_inv_def sliding_window_def assms(3))
  then show ?thesis using assms(1) covers_append [OF c] by (auto simp: window_inv_def)
qed

lemma purge_accounts_times:
  assumes "distinct (map fst rows)"
  shows "times_of aw_starts (purge_accounts now rows) k = pop_expired (now - ACCOUNT_WINDOW) (times_of aw_starts rows k)"
  unfolding purge_accounts_def by (rule times_purge [OF assms]) auto

lemma account_inv_purge:
  assumes "account_inv now (st, hist)" "now \<le> now'"
  shows "account_inv now' (st\<lparr>ka_accounts := purge_accounts now' (ka_accounts st)\<rparr>, hist)"
proof -
  have d: "distinct (map fst (ka_accounts st))" using assms(1) by (simp add: account_inv_def)
  have "length (purge_accounts now' (ka_accounts st)) \<le> length (ka_accounts st)"
    unfolding purge_accounts_def by (rule order_trans [OF length_filter_le]) simp
  moreover have "distinct (map fst (purge_accounts now' (ka_accounts st)))"
    unfolding purge_accounts_def by (rule distinct_purge [OF d])
  ultimately show ?thesis
    using assms(1) window_pop [OF _ assms(2)] by (auto simp: account_inv_def purge_accounts_times [OF d])
qed

lemma account_inv_admit:
  assumes "account_inv now (st, hist)" "length (times_of aw_starts (ka_accounts st) k) < ACCOUNT_ATTEMPTS"
    and "map_of (ka_accounts st) k = None \<Longrightarrow> length (ka_accounts st) < ka_capacity st"
    and "aw_starts row = times_of aw_starts (ka_accounts st) k @ [now]"
  shows "account_inv now (st\<lparr>ka_accounts := move_to_end k row (ka_accounts st)\<rparr>, hist @ [(k, now)])"
proof -
  have d: "distinct (map fst (ka_accounts st))" using assms(1) by (simp add: account_inv_def)
  have t: "times_of aw_starts (move_to_end k row (ka_accounts st)) j =
      (if j = k then times_of aw_starts (ka_accounts st) k @ [now] else times_of aw_starts (ka_accounts st) j)" for j
    using assms(4) by (simp add: times_of_def map_of_move)
  show ?thesis
    using assms(1-3) window_admit [OF _ assms(2)] distinct_move [OF d] length_move [OF d, of k row]
    by (auto simp: account_inv_def t ACCOUNT_WINDOW_def)
qed

lemma account_inv_enter:
  assumes "account_inv now (st, hist)" "now \<le> now'"
  shows "account_inv now' (account_step (Enter k now') (st, hist))"
proof -
  let ?st = "st\<lparr>ka_accounts := purge_accounts now' (ka_accounts st)\<rparr>"
  note inv = account_inv_purge [OF assms]
  show ?thesis
  proof (cases "map_of (purge_accounts now' (ka_accounts st)) k")
    case None
    then show ?thesis
      using inv account_inv_admit [OF inv, of k "\<lparr>aw_starts = [now'], aw_active = True\<rparr>"]
      by (auto simp: reserve_account_def Let_def times_of_def ACCOUNT_ATTEMPTS_def)
  next
    case (Some row)
    then show ?thesis
      using inv account_inv_admit [OF inv, of k "row\<lparr>aw_active := True, aw_starts := aw_starts row @ [now']\<rparr>"]
      by (auto simp: reserve_account_def Let_def times_of_def)
  qed
qed

lemma account_inv_leave:
  assumes "account_inv now (st, hist)"
  shows "account_inv now (account_step (Leave k) (st, hist))"
proof -
  have "times_of aw_starts (change_row k (\<lambda>w. w\<lparr>aw_active := False\<rparr>) rows) j = times_of aw_starts rows j"
    for rows :: "(account_key \<times> 'a account_window) list" and j
    by (auto simp: times_of_def map_of_change split: option.split)
  then show ?thesis using assms by (simp add: account_inv_def release_account_def)
qed


fun account_times :: "'t account_event list \<Rightarrow> 't list" where
  "account_times [] = []"
| "account_times (Enter _ t # es) = t # account_times es"
| "account_times (Leave _ # es) = account_times es"

lemma account_inv_run:
  "account_inv now x \<Longrightarrow> sorted (now # account_times es) \<Longrightarrow> \<exists>now'. account_inv now' (fold account_step es x)"
proof (induction es arbitrary: now x)
  case (Cons e es)
  obtain st hist where x: "x = (st, hist)" by (cases x)
  show ?case
  proof (cases e)
    case (Enter k t)
    then have "account_inv t (account_step e x)"
      using Cons.prems account_inv_enter [of now st hist t k] x by simp
    then show ?thesis using Cons Enter by simp
  next
    case (Leave k)
    then have "account_inv now (account_step e x)"
      using Cons.prems account_inv_leave [of now st hist k] x by simp
    then show ?thesis using Cons Leave by simp
  qed
qed auto

lemma account_capacity: "ka_capacity (fst (fold account_step es x)) = ka_capacity (fst x)"
proof (induction es arbitrary: x)
  case (Cons e es)
  have "ka_capacity (fst (account_step e x)) = ka_capacity (fst x)"
    by (cases e; cases x) (auto simp: reserve_account_def release_account_def Let_def split: option.split)
  then show ?case using Cons by simp
qed simp

lemma sorted_bounded_below: "sorted ts \<Longrightarrow> \<exists>now. sorted (now # ts)"
  by (cases ts) auto

lemma window_inv_Nil: "0 \<le> width \<Longrightarrow> window_inv width limit now [] []"
  by (simp add: window_inv_def covers_def sliding_window.bounded_Nil sliding_window_def)



section \<open>Failures of a device\<close>

datatype 't device_event = Reserve device_key 't | Finish device_key bool 't

text \<open>
  A run of requests: the state, the reservations in progress, and the history of failures of exempt
  requests. A request finishes the reservation it made, once.
\<close>

fun device_step :: "'t :: linordered_idom device_event \<Rightarrow> 't device_failure_limits \<times> device_key list \<times> (device_key \<times> 't) list \<Rightarrow>
    't device_failure_limits \<times> device_key list \<times> (device_key \<times> 't) list" where
  "device_step (Reserve k now) (st, out, hist) =
     (case reserve_device k now st of (st', r) \<Rightarrow> (st', (if exempt r then k # out else out), hist))"
| "device_step (Finish k failed now) (st, out, hist) =
     (if k \<in> set out
      then (finish_device (Tracked k) failed now st, remove1 k out, if failed then hist @ [(k, now)] else hist)
      else (st, out, hist))"

definition new_device_limits :: "nat \<Rightarrow> 't device_failure_limits" where
  "new_device_limits capacity = \<lparr>dl_capacity = capacity, dl_devices = []\<rparr>"

definition pending_of :: "(device_key \<times> 't device_window) list \<Rightarrow> device_key \<Rightarrow> int" where
  "pending_of rows k = (case map_of rows k of None \<Rightarrow> 0 | Some w \<Rightarrow> dw_pending w)"

definition device_ok ::
  "'t :: linordered_idom \<Rightarrow> (device_key \<times> 't device_window) list \<Rightarrow> device_key list \<Rightarrow> (device_key \<times> 't) list \<Rightarrow> device_key \<Rightarrow> bool" where
  "device_ok now rows out hist k \<longleftrightarrow>
     window_inv DEVICE_WINDOW DEVICE_FAILURES now (times_of dw_failures rows k) (attempts k hist) \<and>
     pending_of rows k = int (count_list out k) \<and>
     length (times_of dw_failures rows k) + count_list out k \<le> DEVICE_FAILURES"

definition device_inv ::
  "'t :: linordered_idom \<Rightarrow> 't device_failure_limits \<times> device_key list \<times> (device_key \<times> 't) list \<Rightarrow> bool" where
  "device_inv now x = (case x of (st, out, hist) \<Rightarrow>
     distinct (map fst (dl_devices st)) \<and> length (dl_devices st) \<le> dl_capacity st \<and>
     (\<forall>k. device_ok now (dl_devices st) out hist k))"

lemma device_invD: "device_inv now (st, out, hist) \<Longrightarrow> device_ok now (dl_devices st) out hist k"
  unfolding device_inv_def by blast

lemma purge_devices_times:
  assumes "distinct (map fst rows)"
  shows "times_of dw_failures (purge_devices now rows) k = pop_expired (now - DEVICE_WINDOW) (times_of dw_failures rows k)"
  unfolding purge_devices_def by (rule times_purge [OF assms]) auto

lemma purge_devices_pending:
  "distinct (map fst rows) \<Longrightarrow> pending_of (purge_devices now rows) k = pending_of rows k"
proof (induction rows)
  case (Cons kv rows)
  obtain k' w where kv: "kv = (k', w)" by (cases kv)
  have "map_of (purge_devices now rows) k' = None"
    using Cons.prems kv by (force simp: purge_devices_def map_of_eq_None_iff)
  then show ?case
    using Cons kv by (auto simp: pending_of_def purge_devices_def split: if_splits)
qed (simp add: pending_of_def purge_devices_def)

lemma length_pop_expired: "length (pop_expired c ts) \<le> length ts"
  by (induction ts) auto

lemma device_inv_purge:
  assumes "device_inv now (st, out, hist)" "now \<le> now'"
  shows "device_inv now' (st\<lparr>dl_devices := purge_devices now' (dl_devices st)\<rparr>, out, hist)"
proof -
  have d: "distinct (map fst (dl_devices st))" using assms(1) by (simp add: device_inv_def)
  have "length (purge_devices now' (dl_devices st)) \<le> length (dl_devices st)"
    unfolding purge_devices_def by (rule order_trans [OF length_filter_le]) simp
  moreover have "distinct (map fst (purge_devices now' (dl_devices st)))"
    unfolding purge_devices_def by (rule distinct_purge [OF d])
  moreover have "device_ok now' (purge_devices now' (dl_devices st)) out hist k" for k
  proof -
    have ok: "device_ok now (dl_devices st) out hist k" using assms(1) by (rule device_invD)
    then have "length (pop_expired (now' - DEVICE_WINDOW) (times_of dw_failures (dl_devices st) k)) + count_list out k \<le> DEVICE_FAILURES"
      using length_pop_expired [of "now' - DEVICE_WINDOW" "times_of dw_failures (dl_devices st) k"]
      unfolding device_ok_def by linarith
    then show ?thesis
      using ok window_pop [OF _ assms(2)]
      unfolding device_ok_def purge_devices_times [OF d] purge_devices_pending [OF d] by blast
  qed
  ultimately show ?thesis
    using assms(1) by (simp add: device_inv_def)
qed

lemma device_inv_reserve:
  assumes "device_inv now (st, out, hist)" "now \<le> now'"
  shows "device_inv now' (device_step (Reserve k now') (st, out, hist))"
proof -
  let ?rows = "purge_devices now' (dl_devices st)"
  define row where "row = (case map_of ?rows k of None \<Rightarrow> \<lparr>dw_failures = [], dw_pending = 0\<rparr> | Some w \<Rightarrow> w)"
  have inv: "device_inv now' (st\<lparr>dl_devices := ?rows\<rparr>, out, hist)"
    by (rule device_inv_purge [OF assms])
  then have d: "distinct (map fst ?rows)" and ok: "\<And>j. device_ok now' ?rows out hist j"
    and cap: "length ?rows \<le> dl_capacity st"
    by (auto simp: device_inv_def)
  have row: "dw_failures row = times_of dw_failures ?rows k" "dw_pending row = pending_of ?rows k"
    by (auto simp: row_def times_of_def pending_of_def split: option.split)
  have full: "int (length (dw_failures row)) + dw_pending row \<ge> int DEVICE_FAILURES \<longleftrightarrow>
      length (dw_failures row) + count_list out k \<ge> DEVICE_FAILURES"
    using ok [of k] by (auto simp: device_ok_def row)
  have fresh: "map_of ?rows k = None \<Longrightarrow> \<not> int (length (dw_failures row)) + dw_pending row \<ge> int DEVICE_FAILURES"
    by (simp add: row_def DEVICE_FAILURES_def)
  let ?new = "row\<lparr>dw_pending := dw_pending row + 1\<rparr>"
  have move: "move_to_end k v (?rows @ [(k, w)]) = move_to_end k v ?rows" for v w
    by (simp add: move_to_end_def)
  have step: "device_step (Reserve k now') (st, out, hist) =
      (if map_of ?rows k = None \<and> length ?rows \<ge> dl_capacity st \<or> length (dw_failures row) + count_list out k \<ge> DEVICE_FAILURES
       then (st\<lparr>dl_devices := ?rows\<rparr>, out, hist)
       else (st\<lparr>dl_devices := move_to_end k ?new ?rows\<rparr>, k # out, hist))"
    using fresh full unfolding device_step.simps reserve_device_def Let_def row_def [symmetric]
    by (simp add: exempt_def move)
  have "device_ok now' (move_to_end k ?new ?rows) (k # out) hist j"
    if "\<not> length (dw_failures row) + count_list out k \<ge> DEVICE_FAILURES" for j
  proof (cases "j = k")
    case True
    then show ?thesis
      using ok [of k] that row by (simp add: device_ok_def times_of_def pending_of_def map_of_move)
  next
    case False
    then show ?thesis
      using ok [of j] by (simp add: device_ok_def times_of_def pending_of_def map_of_move)
  qed
  then show ?thesis
    unfolding step using inv d cap length_move [OF d, of k ?new] distinct_move [OF d]
    by (auto simp: device_inv_def)
qed

lemma device_inv_finish:
  assumes "device_inv now (st, out, hist)" "now \<le> now'"
  shows "device_inv now' (device_step (Finish k failed now') (st, out, hist))"
proof (cases "k \<in> set out")
  case True
  let ?f = "\<lambda>w. w\<lparr>dw_pending := dw_pending w - 1, dw_failures := (if failed then dw_failures w @ [now'] else dw_failures w)\<rparr>"
  have ok: "device_ok now (dl_devices st) out hist j" for j
    using assms(1) by (rule device_invD)
  have pos: "0 < count_list out k"
    using True count_list_0_iff [of out k] by (cases "count_list out k") auto
  then obtain w where w: "map_of (dl_devices st) k = Some w"
    using ok [of k] by (auto simp: device_ok_def pending_of_def split: option.splits)
  have "device_ok now' (change_row k ?f (dl_devices st)) (remove1 k out) (if failed then hist @ [(k, now')] else hist) j" for j
  proof (cases "j = k")
    case True
    have win: "window_inv DEVICE_WINDOW DEVICE_FAILURES now' (dw_failures w) (attempts k hist)"
      using ok [of k] window_later [OF _ assms(2)] w by (simp add: device_ok_def times_of_def)
    have "length (dw_failures w) < DEVICE_FAILURES"
      using ok [of k] pos w by (simp add: device_ok_def times_of_def)
    then have "window_inv DEVICE_WINDOW DEVICE_FAILURES now' (dw_failures w @ [now']) (attempts k hist @ [now'])"
      by (intro window_admit win) (simp_all add: DEVICE_WINDOW_def)
    then show ?thesis
      using True ok [of k] win w pos
      by (auto simp: device_ok_def times_of_def pending_of_def map_of_change count_list_remove1)
  next
    case False
    then show ?thesis
      using ok [of j] window_later [OF _ assms(2)]
      by (auto simp: device_ok_def times_of_def pending_of_def map_of_change attempts_def count_list_remove1)
  qed
  then show ?thesis
    using assms(1) True by (simp add: device_inv_def finish_device_def)
next
  case False
  have "device_ok now' (dl_devices st) out hist j" for j
    using device_invD [OF assms(1), of j] window_later [OF _ assms(2)] by (auto simp: device_ok_def)
  then show ?thesis using assms(1) False by (simp add: device_inv_def)
qed


fun device_time :: "'t device_event \<Rightarrow> 't" where
  "device_time (Reserve _ t) = t"
| "device_time (Finish _ _ t) = t"

lemma device_inv_run:
  "device_inv now x \<Longrightarrow> sorted (now # map device_time es) \<Longrightarrow> \<exists>now'. device_inv now' (fold device_step es x)"
proof (induction es arbitrary: now x)
  case (Cons e es)
  obtain st out hist where x: "x = (st, out, hist)" by (cases x)
  have "now \<le> device_time e" using Cons.prems(2) by simp
  then have "device_inv (device_time e) (device_step e x)"
    using Cons.prems(1) device_inv_reserve device_inv_finish by (cases e) (auto simp: x simp del: device_step.simps)
  then show ?case using Cons by simp
qed auto

lemma device_capacity: "dl_capacity (fst (fold device_step es x)) = dl_capacity (fst x)"
proof (induction es arbitrary: x)
  case (Cons e es)
  have "dl_capacity (fst (device_step e x)) = dl_capacity (fst x)"
    by (cases e; cases x) (auto simp: reserve_device_def finish_device_def Let_def)
  then show ?case using Cons by simp
qed simp

text \<open>
  Failures on a remembered device are limited: however its requests overlap, and whenever they
  finish, in any window of an hour at most twenty of the requests that were exempt from the account's
  password budget fail on the same device; and the table of devices never grows beyond its capacity.
\<close>

theorem device_failures_bounded:
  assumes "sorted (map device_time es)" "fold device_step es (new_device_limits capacity, [], []) = (st, out, hist)"
  shows "length (filter (\<lambda>t. T - 3600 < t \<and> t \<le> T) (attempts k hist)) \<le> 20 \<and> length (dl_devices st) \<le> capacity"
proof -
  obtain now where "sorted (now # map device_time es)"
    using sorted_bounded_below [OF assms(1)] by blast
  moreover have "device_inv now (new_device_limits capacity, [], [])"
    by (simp add: device_inv_def device_ok_def new_device_limits_def times_of_def pending_of_def attempts_def window_inv_Nil DEVICE_WINDOW_def)
  ultimately obtain now' where inv: "device_inv now' (st, out, hist)"
    using device_inv_run assms(2) by metis
  moreover have "dl_capacity st = capacity"
    using device_capacity [of es "(new_device_limits capacity, [], [])"] assms(2) by (simp add: new_device_limits_def)
  ultimately have "dw.bounded (attempts k hist)" "length (dl_devices st) \<le> capacity"
    using device_invD [OF inv, of k] by (auto simp: device_inv_def device_ok_def window_inv_def)
  then show ?thesis
    unfolding dw.bounded_def dw.within_def by (simp add: DEVICE_WINDOW_def DEVICE_FAILURES_def)
qed

abbreviation example_device :: device_key where
  "example_device \<equiv> (''ada'', 1, ''laptop'')"

theorem device_failures_bounded_witness:
  "let r = fold device_step [Reserve example_device 0, Reserve example_device 1, Finish example_device True (2 :: int)]
         (new_device_limits 2, [], [])
   in snd r = ([example_device], [(example_device, 2)]) \<and> length (dl_devices (fst r)) \<le> 2 \<and>
      length (filter (\<lambda>t. 2 - 3600 < t \<and> t \<le> 2) (attempts example_device (snd (snd r)))) \<le> 20"
proof -
  let ?es = "[Reserve example_device 0, Reserve example_device 1, Finish example_device True (2 :: int)]"
  let ?r = "fold device_step ?es (new_device_limits 2, [], [])"
  have "sorted (map device_time ?es)" by simp
  from device_failures_bounded [OF this, of 2 "fst ?r" "fst (snd ?r)" "snd (snd ?r)" 2 example_device]
  have "length (filter (\<lambda>t. 2 - 3600 < t \<and> t \<le> 2) (attempts example_device (snd (snd ?r)))) \<le> 20 \<and> length (dl_devices (fst ?r)) \<le> 2"
    by (simp only: prod.collapse simp_thms)
  moreover have "snd ?r = ([example_device], [(example_device, 2)])"
    by code_simp
  ultimately show ?thesis unfolding Let_def by blast
qed

end
