(* ===== verification/Calendar.thy ===== *)
theory Calendar
  imports Platform_Prelude
begin

text \<open>
  The part of Python's \<open>datetime\<close> the platform uses for backup names: \<open>strptime\<close> with
  \<open>%Y%m%dT%H%M%SZ\<close>, comparison, and subtraction of days. An aware time is the number of
  microseconds since the start of year 1 in UTC, as \<open>datetime\<close> itself computes it through ordinals.
\<close>

definition leap_year :: "int \<Rightarrow> bool" where
  "leap_year y \<longleftrightarrow> y mod 4 = 0 \<and> (y mod 100 \<noteq> 0 \<or> y mod 400 = 0)"

definition days_in_month :: "int \<Rightarrow> int \<Rightarrow> int" where
  "days_in_month y m =
     (if m = 2 then (if leap_year y then 29 else 28) else if m \<in> {4, 6, 9, 11} then 30 else 31)"

definition days_before_year :: "int \<Rightarrow> int" where
  "days_before_year y = (y - 1) * 365 + (y - 1) div 4 - (y - 1) div 100 + (y - 1) div 400"

definition days_before_month :: "int \<Rightarrow> int \<Rightarrow> int" where
  "days_before_month y m = sum_list (map (days_in_month y) [1..m - 1])"

definition microseconds :: int where
  "microseconds = 1000000"

text \<open>The microseconds from the start of year 1; \<open>datetime\<close> raises where a field is out of range.\<close>

definition datetime_of :: "int \<Rightarrow> int \<Rightarrow> int \<Rightarrow> int \<Rightarrow> int \<Rightarrow> int \<Rightarrow> int" where
  "datetime_of y m d hh mm ss =
     ((((days_before_year y + days_before_month y m + (d - 1)) * 24 + hh) * 60 + mm) * 60 + ss) * microseconds"

definition datetime_ok :: "int \<Rightarrow> int \<Rightarrow> int \<Rightarrow> int \<Rightarrow> int \<Rightarrow> int \<Rightarrow> bool" where
  "datetime_ok y m d hh mm ss \<longleftrightarrow> 1 \<le> y \<and> y \<le> 9999 \<and> 1 \<le> m \<and> m \<le> 12 \<and> 1 \<le> d \<and> d \<le> days_in_month y m \<and>
     0 \<le> hh \<and> hh \<le> 23 \<and> 0 \<le> mm \<and> mm \<le> 59 \<and> 0 \<le> ss \<and> ss \<le> 59"

text \<open>\<open>[0-9]{8}T[0-9]{6}Z\<close>\<close>

definition timestamp_re :: "string \<Rightarrow> bool" where
  "timestamp_re s \<longleftrightarrow> length s = 16 \<and> list_all is_digit (take 8 s) \<and> s ! 8 = CHR ''T'' \<and>
     list_all is_digit (take 6 (drop 9 s)) \<and> s ! 15 = CHR ''Z''"

definition field :: "nat \<Rightarrow> nat \<Rightarrow> string \<Rightarrow> int" where
  "field start len s = digits_value (take len (drop start s))"

text \<open>\<open>datetime.strptime(s, "%Y%m%dT%H%M%SZ")\<close> on such a text; \<open>None\<close> where it raises \<open>ValueError\<close>.\<close>

definition strptime :: "string \<Rightarrow> int option" where
  "strptime s =
     (let y = field 0 4 s; m = field 4 2 s; d = field 6 2 s; hh = field 9 2 s; mm = field 11 2 s; ss = field 13 2 s
      in if datetime_ok y m d hh mm ss then Some (datetime_of y m d hh mm ss) else None)"

text \<open>\<open>now - timedelta(days=days)\<close>, which raises before year 1.\<close>

definition minus_days :: "int \<Rightarrow> int \<Rightarrow> int result" where
  "minus_days now days =
     (let t = now - days * 86400 * microseconds in if t < 0 then Inl OverflowError else Inr t)"

section \<open>Later fields, later times\<close>

lemma days_in_month_pos: "28 \<le> days_in_month y m" "days_in_month y m \<le> 31"
  by (auto simp: days_in_month_def)

lemma days_before_month_step: "1 \<le> m \<Longrightarrow> days_before_month y (m + 1) = days_before_month y m + days_in_month y m"
  by (simp add: days_before_month_def upto_rec2)

lemma days_before_month_mono:
  assumes "1 \<le> m" "m < m'"
  shows "days_before_month y m + days_in_month y m \<le> days_before_month y m'"
  using assms(2)
proof (induction m' rule: int_gr_induct)
  case base
  then show ?case using days_before_month_step [OF assms(1)] by simp
next
  case (step i)
  then show ?case using days_before_month_step [of i y] days_in_month_pos(1) [of y i] assms(1) by simp
qed

lemma days_in_year: "days_before_month y 12 + days_in_month y 12 = (if leap_year y then 366 else 365)"
proof -
  have "[1..12 - 1] = [1, 2, 3, 4, 5, 6, 7, 8, 9, 10, 11 :: int]" by code_simp
  then show ?thesis by (simp add: days_before_month_def days_in_month_def)
qed

lemma div_step:
  assumes "(0 :: int) < n"
  shows "y div n = (y - 1) div n + (if y mod n = 0 then 1 else 0)"
proof -
  define q r where "q = (y - 1) div n" and "r = (y - 1) mod n"
  have y: "y = q * n + (r + 1)" and r: "0 \<le> r" "r < n"
    using assms by (simp_all add: q_def r_def)
  show ?thesis
  proof (cases "r + 1 = n")
    case True
    then have "y = (q + 1) * n" using y by (simp add: algebra_simps)
    then have "y div n = q + 1" "y mod n = 0" using assms by simp_all
    then show ?thesis by (simp add: q_def)
  next
    case False
    then have "y div n = q" "y mod n = r + 1"
      using y r by (auto simp: int_div_pos_eq int_mod_pos_eq)
    then show ?thesis using r by (simp add: q_def)
  qed
qed

lemma leap_count:
  "(R \<Longrightarrow> Q) \<Longrightarrow> (Q \<Longrightarrow> P) \<Longrightarrow> a = a' + (if P then 1 else 0) \<Longrightarrow> b = b' + (if Q then 1 else 0) \<Longrightarrow>
   c = c' + (if R then 1 else 0) \<Longrightarrow> a - b + c = a' - b' + c' + (if P \<and> (\<not> Q \<or> R) then 1 else 0)" for a b c :: int
  by (cases P; cases Q; cases R; simp)

lemma leap_days:
  "(y :: int) div 4 - y div 100 + y div 400 = (y - 1) div 4 - (y - 1) div 100 + (y - 1) div 400 + (if leap_year y then 1 else 0)"
  unfolding leap_year_def
proof (rule leap_count)
  show "y mod 400 = 0 \<Longrightarrow> y mod 100 = 0" "y mod 100 = 0 \<Longrightarrow> y mod 4 = 0"
    using dvd_trans [of 100 400 y] dvd_trans [of 4 100 y] by (simp_all add: mod_eq_0_iff_dvd)
qed (rule div_step, simp)+

lemma days_before_year_step: "days_before_year (y + 1) = days_before_year y + (if leap_year y then 366 else 365)"
proof -
  have "days_before_year (y + 1) = y * 365 + (y div 4 - y div 100 + y div 400)"
    by (simp add: days_before_year_def)
  also have "\<dots> = days_before_year y + 365 + (if leap_year y then 1 else 0)"
    unfolding leap_days [of y] by (simp add: days_before_year_def algebra_simps)
  finally show ?thesis by simp
qed

lemma days_before_year_mono: "y < y' \<Longrightarrow> days_before_year y + (if leap_year y then 366 else 365) \<le> days_before_year y'"
proof (induction y' rule: int_gr_induct)
  case base
  then show ?case using days_before_year_step [of y] by simp
next
  case (step i)
  then show ?case using days_before_year_step [of i] by (auto split: if_splits)
qed

lemma month_end: "1 \<le> m \<Longrightarrow> m \<le> 12 \<Longrightarrow> days_before_month y m + days_in_month y m \<le> (if leap_year y then 366 else 365)"
  using days_before_month_mono [of m 12 y] days_in_year [of y] days_in_month_pos(1) [of y 12]
  by (cases "m = 12") auto

lemma days_before_month_nonneg: "1 \<le> m \<Longrightarrow> 0 \<le> days_before_month y m"
  using days_before_month_mono [of 1 m y] days_in_month_pos(1) [of y 1]
  by (cases "m = 1") (auto simp: days_before_month_def)

lemma date_mono:
  assumes "1 \<le> m" "m \<le> 12" "1 \<le> d" "d \<le> days_in_month y m" "1 \<le> m'" "1 \<le> d'"
    and "y < y' \<or> y = y' \<and> (m < m' \<or> m = m' \<and> d < d')"
  shows "days_before_year y + days_before_month y m + d < days_before_year y' + days_before_month y' m' + d'"
  using assms(7)
proof (elim disjE conjE)
  assume "y < y'"
  then show ?thesis
    using days_before_year_mono [of y y'] month_end [OF assms(1,2), of y] days_before_month_nonneg [OF assms(5), of y'] assms(4,6)
    by linarith
next
  assume "y = y'" "m < m'"
  then show ?thesis using days_before_month_mono [OF assms(1), of m' y] assms(4,6) by simp
qed simp


text \<open>The order of timestamps as texts is the order of the times they name.\<close>

lemma append_less: "length a = length a' \<Longrightarrow> a @ b < a' @ b' \<longleftrightarrow> a < a' \<or> a = a' \<and> b < b'" for a :: string
  by (induction a a' rule: list_induct2) auto

lemma digits_value_snoc: "digits_value (s @ [c]) = digits_value s * 10 + (int (of_char c) - 48)"
  by (simp add: digits_value_def)

lemma digit_bounds: "is_digit c \<Longrightarrow> 48 \<le> (of_char c :: nat) \<and> of_char c \<le> (57 :: nat)"
  by (simp add: is_digit_def less_eq_char_def)

lemma digits_value_less:
  "length s = length t \<Longrightarrow> list_all is_digit s \<Longrightarrow> list_all is_digit t \<Longrightarrow> s < t \<Longrightarrow> digits_value s < digits_value t"
proof (induction s arbitrary: t rule: rev_induct)
  case (snoc c s)
  obtain t' d where t: "t = t' @ [d]" using snoc.prems(1) by (cases t rule: rev_cases) auto
  have len: "length s = length t'" using snoc.prems(1) t by simp
  have dig: "48 \<le> (of_char c :: nat)" "of_char c \<le> (57 :: nat)" "48 \<le> (of_char d :: nat)" "of_char d \<le> (57 :: nat)"
    using snoc.prems(2,3) digit_bounds by (auto simp: t)
  from snoc.prems(4) consider "s < t'" | "s = t'" "c < d"
    using append_less [OF len, of "[c]" "[d]"] t by auto
  then show ?case
  proof cases
    case 1
    then have "digits_value s < digits_value t'"
      using snoc.IH [OF len] snoc.prems(2,3) t by simp
    then show ?thesis using dig by (simp add: t digits_value_snoc)
  next
    case 2
    then show ?thesis by (simp add: t digits_value_snoc less_char_def)
  qed
qed simp

lemma timestamp_parts:
  assumes "timestamp_re s"
  obtains a b c d e f where "s = a @ b @ c @ ''T'' @ d @ e @ f @ ''Z''"
    "length a = 4" "length b = 2" "length c = 2" "length d = 2" "length e = 2" "length f = 2"
    "list_all is_digit (a @ b @ c @ d @ e @ f)"
    "strptime s = (if datetime_ok (digits_value a) (digits_value b) (digits_value c) (digits_value d) (digits_value e) (digits_value f)
       then Some (datetime_of (digits_value a) (digits_value b) (digits_value c) (digits_value d) (digits_value e) (digits_value f)) else None)"
proof -
  have len: "length s = 16" using assms by (simp add: timestamp_re_def)
  obtain x0 x1 x2 x3 x4 x5 x6 x7 x8 x9 x10 x11 x12 x13 x14 x15 where
    s: "s = [x0, x1, x2, x3, x4, x5, x6, x7, x8, x9, x10, x11, x12, x13, x14, x15]"
    using len by (auto simp: length_Suc_conv numeral_eq_Suc)
  show ?thesis
    by (rule that [of "[x0, x1, x2, x3]" "[x4, x5]" "[x6, x7]" "[x9, x10]" "[x11, x12]" "[x13, x14]"])
       (use assms in \<open>simp_all add: s timestamp_re_def strptime_def field_def Let_def\<close>)
qed

lemma clock_mono:
  fixes D :: int
  assumes "D < D' \<or> D = D' \<and> (hh < hh' \<or> hh = hh' \<and> (mm < mm' \<or> mm = mm' \<and> ss < ss'))"
    and "hh \<le> 23" "0 \<le> hh'" "mm \<le> 59" "0 \<le> mm'" "ss \<le> 59" "0 \<le> ss'"
  shows "(((D - 1) * 24 + hh) * 60 + mm) * 60 + ss < (((D' - 1) * 24 + hh') * 60 + mm') * 60 + ss'"
proof -
  consider "D + 1 \<le> D'" | "D = D'" "hh + 1 \<le> hh'" | "D = D'" "hh = hh'" "mm + 1 \<le> mm'" | "D = D'" "hh = hh'" "mm = mm'" "ss + 1 \<le> ss'"
    using assms(1) by (metis zless_imp_add1_zle)
  then show ?thesis using assms(2-) by cases simp_all
qed

lemma datetime_mono:
  assumes "datetime_ok y m d hh mm ss" "datetime_ok y' m' d' hh' mm' ss'"
    and "y < y' \<or> y = y' \<and> (m < m' \<or> m = m' \<and> (d < d' \<or> d = d' \<and> (hh < hh' \<or> hh = hh' \<and> (mm < mm' \<or> mm = mm' \<and> ss < ss'))))"
  shows "datetime_of y m d hh mm ss < datetime_of y' m' d' hh' mm' ss'"
proof -
  define D D' where "D = days_before_year y + days_before_month y m + d" and "D' = days_before_year y' + days_before_month y' m' + d'"
  have "D < D' \<or> D = D' \<and> (hh < hh' \<or> hh = hh' \<and> (mm < mm' \<or> mm = mm' \<and> ss < ss'))"
    using assms date_mono [of m d y m' d' y'] unfolding D_def D'_def datetime_ok_def by blast
  then have "(((D - 1) * 24 + hh) * 60 + mm) * 60 + ss < (((D' - 1) * 24 + hh') * 60 + mm') * 60 + ss'"
    by (rule clock_mono) (use assms(1,2) in \<open>simp_all add: datetime_ok_def\<close>)
  then show ?thesis
    by (simp add: datetime_of_def microseconds_def D_def D'_def algebra_simps)
qed

lemma strptime_mono:
  assumes "timestamp_re s" "timestamp_re t" "strptime s = Some x" "strptime t = Some y" "s < t"
  shows "x < y"
proof -
  note v = digits_value_less
  obtain a b c d e f where s: "s = a @ b @ c @ ''T'' @ d @ e @ f @ ''Z''"
    and ls: "length a = 4" "length b = 2" "length c = 2" "length d = 2" "length e = 2" "length f = 2"
    and ds: "list_all is_digit (a @ b @ c @ d @ e @ f)"
    and ps: "strptime s = (if datetime_ok (digits_value a) (digits_value b) (digits_value c) (digits_value d) (digits_value e) (digits_value f)
       then Some (datetime_of (digits_value a) (digits_value b) (digits_value c) (digits_value d) (digits_value e) (digits_value f)) else None)"
    by (rule timestamp_parts [OF assms(1)])
  obtain a' b' c' d' e' f' where t: "t = a' @ b' @ c' @ ''T'' @ d' @ e' @ f' @ ''Z''"
    and lt: "length a' = 4" "length b' = 2" "length c' = 2" "length d' = 2" "length e' = 2" "length f' = 2"
    and dt: "list_all is_digit (a' @ b' @ c' @ d' @ e' @ f')"
    and pt: "strptime t = (if datetime_ok (digits_value a') (digits_value b') (digits_value c') (digits_value d') (digits_value e') (digits_value f')
       then Some (datetime_of (digits_value a') (digits_value b') (digits_value c') (digits_value d') (digits_value e') (digits_value f')) else None)"
    by (rule timestamp_parts [OF assms(2)])
  have "a < a' \<or> a = a' \<and> (b < b' \<or> b = b' \<and> (c < c' \<or> c = c' \<and> (d < d' \<or> d = d' \<and> (e < e' \<or> e = e' \<and> f < f'))))"
    using assms(5) ls lt unfolding s t by (simp add: append_less)
  then have "digits_value a < digits_value a' \<or> digits_value a = digits_value a' \<and>
      (digits_value b < digits_value b' \<or> digits_value b = digits_value b' \<and>
      (digits_value c < digits_value c' \<or> digits_value c = digits_value c' \<and>
      (digits_value d < digits_value d' \<or> digits_value d = digits_value d' \<and>
      (digits_value e < digits_value e' \<or> digits_value e = digits_value e' \<and> digits_value f < digits_value f'))))"
    using v [of a a'] v [of b b'] v [of c c'] v [of d d'] v [of e e'] v [of f f'] ls lt ds dt by auto
  then show ?thesis
    using assms(3,4) ps pt datetime_mono by (auto split: if_splits)
qed

end
