(* ===== verification/Backup_Retention.thy ===== *)
theory Backup_Retention
  imports Calendar Json_Values "HOL-Library.Multiset"
begin

text \<open>
  Retention of encrypted backups (\<open>backup_retention.py\<close>): which of the sets of files in a backup
  directory are removed after a new backup, and in which order their files go. A directory is the list
  of its entries with what \<open>os.stat\<close> and \<open>json.loads\<close> report of each; an ignored entry is the pair of
  its name and the reason in the log line. Removals are the sequence of \<open>unlink\<close> calls. Failing system
  calls and other processes that change the directory meanwhile are not modelled.
\<close>

section \<open>Sets of files\<close>

definition RETENTION_DAYS :: int where "RETENTION_DAYS = 14"
definition MINIMUM_KEPT :: int where "MINIMUM_KEPT = 3"
definition SUFFIXES :: "string list" where "SUFFIXES = [[], ''.sha256'', ''.manifest'']"
definition EXPECTED :: "string list" where "EXPECTED = [''.staging'']"
definition MAXIMUM_MANIFEST_BYTES :: int where "MAXIMUM_MANIFEST_BYTES = 65536"

text \<open>A direct entry: a regular file or not, owned by the current user or not, its size, and the
  document its content parses to, \<open>None\<close> where \<open>decode\<close> or \<open>json.loads\<close> raise \<open>ValueError\<close>.\<close>

record entry =
  en_regular :: bool
  en_owned :: bool
  en_size :: int
  en_document :: "json option"

type_synonym directory = "(string \<times> entry) list"

record backup_root =
  br_directory :: bool
  br_owned :: bool
  br_entries :: directory

record retention_result =
  rr_removed :: nat
  rr_kept :: nat
  rr_ignored :: "(string \<times> string) list"

record backup_set =
  bs_name :: string
  bs_created :: int
  bs_present :: "string list"
  bs_unsafe :: bool
  bs_manifest :: "jdict option"

definition committed :: "backup_set \<Rightarrow> bool" where
  "committed b \<longleftrightarrow> ''.manifest'' \<in> set (bs_present b)"

definition complete :: "backup_set \<Rightarrow> bool" where
  "complete b \<longleftrightarrow> \<not> bs_unsafe b \<and> set (bs_present b) = set SUFFIXES \<and>
     (case bs_manifest b of None \<Rightarrow> False | Some m \<Rightarrow> dict_get m ''name'' = Some (JStr (bs_name b)))"

text \<open>The groups \<open>name\<close>, \<open>timestamp\<close> and \<open>suffix\<close> of \<open>_pattern(series, extension)\<close> on a whole name.\<close>

definition pattern_match :: "string \<Rightarrow> string \<Rightarrow> string \<Rightarrow> (string \<times> string \<times> string) option" where
  "pattern_match series extension entry =
     (let prefix = series @ ''-'';
          timestamp = take 16 (drop (length prefix) entry);
          rest = drop (length prefix + 16) entry;
          suffix = drop (length extension) rest
      in if starts_with prefix entry \<and> timestamp_re timestamp \<and> starts_with extension rest \<and>
            suffix \<in> {[], ''.sha256'', ''.manifest''}
         then Some (prefix @ timestamp @ extension, timestamp, suffix) else None)"

definition open_root :: "backup_root \<Rightarrow> directory result" where
  "open_root root =
     (if \<not> br_directory root then Inl (RetentionError ''backup-root-unavailable'')
      else if \<not> br_owned root then Inl (RetentionError ''backup-root-not-owned'')
      else Inr (br_entries root))"

definition read_manifest :: "directory \<Rightarrow> string \<Rightarrow> jdict option" where
  "read_manifest directory name =
     (case map_of directory name of
        None \<Rightarrow> None
      | Some e \<Rightarrow>
          if \<not> en_regular e \<or> en_size e > MAXIMUM_MANIFEST_BYTES then None
          else (case en_document e of Some (JObj m) \<Rightarrow> Some m | _ \<Rightarrow> None))"

section \<open>Scanning\<close>

text \<open>The dictionaries of sets found so far, one per pattern, and the ignored entries.\<close>

type_synonym sets = "(string \<times> backup_set) list"

definition add_member :: "string \<Rightarrow> bool \<Rightarrow> backup_set \<Rightarrow> backup_set" where
  "add_member suffix safe b =
     b\<lparr>bs_unsafe := (bs_unsafe b \<or> \<not> safe), bs_present := List.insert suffix (bs_present b)\<rparr>"

definition scan_match ::
  "string \<Rightarrow> entry \<Rightarrow> (string \<times> string \<times> string) \<Rightarrow> sets \<Rightarrow> (string \<times> string) list \<Rightarrow> sets \<times> (string \<times> string) list" where
  "scan_match entry e match sets ignored =
     (case match of (name, timestamp, suffix) \<Rightarrow>
        case strptime timestamp of
          None \<Rightarrow> (sets, ignored @ [(entry, ''invalid timestamp'')])
        | Some created \<Rightarrow>
            let safe = en_regular e \<and> en_owned e;
                old = (case map_of sets name of
                         None \<Rightarrow> \<lparr>bs_name = name, bs_created = created, bs_present = [], bs_unsafe = False, bs_manifest = None\<rparr>
                       | Some b \<Rightarrow> b)
            in (dict_put name (add_member suffix safe old) sets,
                if safe then ignored else ignored @ [(entry, ''not a direct current-user-owned file'')]))"

fun scan_entries ::
  "(string \<times> string) \<Rightarrow> (string \<times> string) option \<Rightarrow> directory \<Rightarrow> sets \<times> sets \<times> (string \<times> string) list \<Rightarrow>
   sets \<times> sets \<times> (string \<times> string) list" where
  "scan_entries p q [] acc = acc"
| "scan_entries p q ((entry, e) # es) (backups, keys, ignored) =
     scan_entries p q es
       (if entry \<in> set EXPECTED then (backups, keys, ignored)
        else case pattern_match (fst p) (snd p) entry of
          Some match \<Rightarrow> (case scan_match entry e match backups ignored of (s, i) \<Rightarrow> (s, keys, i))
        | None \<Rightarrow>
            (case Option.bind q (\<lambda>(series, extension). pattern_match series extension entry) of
               Some match \<Rightarrow> (case scan_match entry e match keys ignored of (s, i) \<Rightarrow> (backups, s, i))
             | None \<Rightarrow> (backups, keys, ignored @ [(entry, ''unexpected entry'')])))"

text \<open>The manifests of committed, safe sets.\<close>

definition load_manifest :: "directory \<Rightarrow> backup_set \<Rightarrow> backup_set" where
  "load_manifest directory b =
     (if committed b \<and> \<not> bs_unsafe b then b\<lparr>bs_manifest := read_manifest directory (bs_name b @ ''.manifest'')\<rparr> else b)"

definition incomplete_notes :: "backup_set list \<Rightarrow> (string \<times> string) list" where
  "incomplete_notes bs =
     map (\<lambda>b. (bs_name b, ''committed set is incomplete'')) (filter (\<lambda>b. committed b \<and> \<not> bs_unsafe b \<and> \<not> complete b) bs)"

definition scan ::
  "directory \<Rightarrow> (string \<times> string) \<Rightarrow> (string \<times> string) option \<Rightarrow>
   backup_set list \<times> backup_set list \<times> (string \<times> string) list" where
  "scan directory p q =
     (case scan_entries p q (sort_key fst directory) ([], [], []) of (backups, keys, ignored) \<Rightarrow>
        let bs = map (load_manifest directory \<circ> snd) backups; ks = map (load_manifest directory \<circ> snd) keys
        in (bs, ks, ignored @ incomplete_notes bs @ incomplete_notes ks))"

section \<open>Pruning\<close>

text \<open>The \<open>unlink\<close> calls of \<open>_remove\<close>: the manifest goes first.\<close>

definition remove_set :: "backup_set \<Rightarrow> string list" where
  "remove_set b = map (\<lambda>suffix. bs_name b @ suffix) (filter (\<lambda>suffix. suffix \<in> set (bs_present b)) (rev SUFFIXES))"

definition expired_backup :: "int \<Rightarrow> string list \<Rightarrow> backup_set \<Rightarrow> bool" where
  "expired_backup cutoff floor b \<longleftrightarrow>
     \<not> (bs_unsafe b \<or> bs_name b \<in> set floor \<or> bs_created b \<ge> cutoff) \<and> (complete b \<or> \<not> committed b)"

definition source_keys :: "backup_set \<Rightarrow> json list" where
  "source_keys b =
     (case bs_manifest b of None \<Rightarrow> []
      | Some m \<Rightarrow> [case dict_get m ''sourceKeys'' of None \<Rightarrow> JNull | Some v \<Rightarrow> v])"

definition expired_key :: "int \<Rightarrow> json list \<Rightarrow> int list \<Rightarrow> backup_set \<Rightarrow> bool" where
  "expired_key cutoff referenced paired a \<longleftrightarrow>
     \<not> (bs_unsafe a \<or> JStr (bs_name a) \<in> set referenced \<or> bs_created a \<in> set paired \<or> bs_created a \<ge> cutoff) \<and>
     (complete a \<or> \<not> committed a)"

text \<open>The deploy-key archives that go after the backups in \<open>gone\<close>; manifests with a list or an object as
  \<open>sourceKeys\<close> cannot be put in a set.\<close>

definition expired_keys :: "int \<Rightarrow> backup_set list \<Rightarrow> backup_set list \<Rightarrow> backup_set list \<Rightarrow> backup_set list result" where
  "expired_keys cutoff backups gone keys =
     (let remaining = filter (\<lambda>b. b \<notin> set gone) backups;
          referenced = concat (map source_keys remaining)
      in if \<not> list_all hashable referenced then Inl TypeError
         else Inr (filter (expired_key cutoff referenced (map bs_created remaining)) (sort_key bs_name keys)))"

text \<open>The \<open>unlink\<close> calls made, and the result or the exception.\<close>

definition prune ::
  "backup_root \<Rightarrow> string \<Rightarrow> string \<Rightarrow> bool \<Rightarrow> int \<Rightarrow> string option \<Rightarrow> int \<Rightarrow> int \<Rightarrow> string list \<times> retention_result result" where
  "prune root series keep aware now key_series days minimum =
     (if days < 0 \<or> minimum < 1 \<or> \<not> aware
      then ([], Inl (ValueError ''retention needs a non-negative age, a positive floor and aware time''))
      else case minus_days now days of Inl e \<Rightarrow> ([], Inl e) | Inr cutoff \<Rightarrow>
      case open_root root of Inl e \<Rightarrow> ([], Inl e) | Inr directory \<Rightarrow>
      case scan directory (series, ''.sqlite3.age'') (map_option (\<lambda>s. (s, ''.tar.age'')) key_series) of (backups, keys, ignored) \<Rightarrow>
        let newest = rev (sort_key bs_name (filter complete backups)) in
        if keep \<notin> set (map bs_name newest) then ([], Inl (RetentionError ''new-backup-not-committed''))
        else
          let floor = map bs_name (take (nat minimum) newest) @ [keep];
              gone = filter (expired_backup cutoff floor) (sort_key bs_name backups);
              unlinks = concat (map remove_set gone)
          in case (if key_series = None then Inr [] else expired_keys cutoff backups gone keys) of
               Inl e \<Rightarrow> (unlinks, Inl e)
             | Inr archives \<Rightarrow>
                 (unlinks @ concat (map remove_set archives),
                  Inr \<lparr>rr_removed = length gone + length archives,
                       rr_kept = length (filter complete (filter (\<lambda>b. b \<notin> set gone) backups)) +
                                 length (filter complete (filter (\<lambda>a. a \<notin> set archives) keys)),
                       rr_ignored = ignored\<rparr>))"

definition unlink_all :: "string list \<Rightarrow> directory \<Rightarrow> directory" where
  "unlink_all names directory = filter (\<lambda>e. fst e \<notin> set names) directory"

text \<open>\<open>prune_after_commit\<close>: the policy with its defaults; an exception that is not caught leaves it.\<close>

definition prune_after_commit ::
  "backup_root \<Rightarrow> string \<Rightarrow> string \<Rightarrow> bool \<Rightarrow> int \<Rightarrow> string option \<Rightarrow> string list \<times> bool result" where
  "prune_after_commit root series keep aware now key_series =
     (case prune root series keep aware now key_series RETENTION_DAYS MINIMUM_KEPT of
        (us, Inl (RetentionError _)) \<Rightarrow> (us, Inr False)
      | (us, Inl e) \<Rightarrow> (us, Inl e)
      | (us, Inr _) \<Rightarrow> (us, Inr True))"

text \<open>A directory with an old backup and its keys, a newer one with its keys, and the staging directory.\<close>

definition example_file :: "json option \<Rightarrow> entry" where
  "example_file doc = \<lparr>en_regular = True, en_owned = True, en_size = 100, en_document = doc\<rparr>"

definition example_set :: "string \<Rightarrow> jdict \<Rightarrow> directory" where
  "example_set name v =
     [(name, example_file None), (name @ ''.sha256'', example_file None),
      (name @ ''.manifest'', example_file (Some (JObj ((''name'', JStr name) # v))))]"

definition example_root :: backup_root where
  "example_root = \<lparr>br_directory = True, br_owned = True, br_entries =
     (''.staging'', (example_file None)\<lparr>en_regular := False\<rparr>) #
     example_set ''db-20240101T000000Z.sqlite3.age'' [(''sourceKeys'', JStr ''keys-20240101T000001Z.tar.age'')] @
     example_set ''db-20240301T000000Z.sqlite3.age'' [(''sourceKeys'', JStr ''keys-20240102T000000Z.tar.age'')] @
     example_set ''keys-20240101T000001Z.tar.age'' [] @ example_set ''keys-20240102T000000Z.tar.age'' []\<rparr>"

lemma example_prune:
  "fst (prune example_root ''db'' ''db-20240301T000000Z.sqlite3.age'' True 63844891200000000 (Some ''keys'') 14 1) =
     [''db-20240101T000000Z.sqlite3.age.manifest'', ''db-20240101T000000Z.sqlite3.age.sha256'', ''db-20240101T000000Z.sqlite3.age'',
      ''keys-20240101T000001Z.tar.age.manifest'', ''keys-20240101T000001Z.tar.age.sha256'', ''keys-20240101T000001Z.tar.age'']"
  by code_simp

section \<open>What a scan finds\<close>

text \<open>A matcher splits the name of an entry into the name of its set, a timestamp of the set and a suffix.\<close>

definition safe_entry :: "entry \<Rightarrow> bool" where
  "safe_entry e \<longleftrightarrow> en_regular e \<and> en_owned e"

definition scan_step ::
  "(string \<Rightarrow> (string \<times> string \<times> string) option) \<Rightarrow> string \<times> entry \<Rightarrow> sets \<Rightarrow> sets" where
  "scan_step m f sets = (case m (fst f) of None \<Rightarrow> sets | Some match \<Rightarrow> fst (scan_match (fst f) (snd f) match sets []))"

definition backup_matcher :: "string \<times> string \<Rightarrow> string \<Rightarrow> (string \<times> string \<times> string) option" where
  "backup_matcher p entry = (if entry \<in> set EXPECTED then None else pattern_match (fst p) (snd p) entry)"

definition key_matcher ::
  "string \<times> string \<Rightarrow> (string \<times> string) option \<Rightarrow> string \<Rightarrow> (string \<times> string \<times> string) option" where
  "key_matcher p q entry =
     (if entry \<in> set EXPECTED \<or> pattern_match (fst p) (snd p) entry \<noteq> None then None
      else Option.bind q (\<lambda>(series, extension). pattern_match series extension entry))"

lemma scan_match_fst: "fst (scan_match entry e match sets ignored) = fst (scan_match entry e match sets [])"
  by (simp add: scan_match_def Let_def split: prod.splits option.splits)

lemma scan_entries_step:
  "\<exists>I'. scan_entries p q (f # es) (B, K, I) =
     scan_entries p q es (scan_step (backup_matcher p) f B, scan_step (key_matcher p q) f K, I')"
proof -
  obtain entry e where f: "f = (entry, e)" by force
  define acc where "acc =
    (if entry \<in> set EXPECTED then (B, K, I)
     else case pattern_match (fst p) (snd p) entry of
       Some match \<Rightarrow> (case scan_match entry e match B I of (s, i) \<Rightarrow> (s, K, i))
     | None \<Rightarrow>
         (case Option.bind q (\<lambda>(series, extension). pattern_match series extension entry) of
            Some match \<Rightarrow> (case scan_match entry e match K I of (s, i) \<Rightarrow> (B, s, i))
          | None \<Rightarrow> (B, K, I @ [(entry, ''unexpected entry'')])))"
  have "fst acc = scan_step (backup_matcher p) f B" "fst (snd acc) = scan_step (key_matcher p q) f K"
    unfolding acc_def scan_step_def backup_matcher_def key_matcher_def f
    by (simp_all add: case_prod_beta scan_match_fst [of _ _ _ _ I] split: option.split)
  then have "acc = (scan_step (backup_matcher p) f B, scan_step (key_matcher p q) f K, snd (snd acc))"
    by (metis prod.collapse)
  moreover have "scan_entries p q (f # es) (B, K, I) = scan_entries p q es acc"
    by (simp add: f acc_def)
  ultimately show ?thesis by metis
qed

lemma scan_entries_fold:
  "\<exists>I'. scan_entries p q es (B, K, I) = (fold (scan_step (backup_matcher p)) es B, fold (scan_step (key_matcher p q)) es K, I')"
proof (induction es arbitrary: B K I)
  case (Cons f es)
  then show ?case using scan_entries_step [of p q f es B K I] by fastforce
qed simp

text \<open>The members of a set among the entries seen.\<close>

definition member :: "(string \<Rightarrow> (string \<times> string \<times> string) option) \<Rightarrow> directory \<Rightarrow> string \<Rightarrow> string \<Rightarrow> entry \<Rightarrow> bool" where
  "member m es name suffix e \<longleftrightarrow>
     (\<exists>entry timestamp. (entry, e) \<in> set es \<and> m entry = Some (name, timestamp, suffix) \<and> strptime timestamp \<noteq> None)"

definition described :: "(string \<Rightarrow> (string \<times> string \<times> string) option) \<Rightarrow> directory \<Rightarrow> string \<Rightarrow> backup_set \<Rightarrow> bool" where
  "described m es name b \<longleftrightarrow> bs_name b = name \<and> bs_manifest b = None \<and>
     set (bs_present b) = {suffix. \<exists>e. member m es name suffix e} \<and>
     (bs_unsafe b \<longleftrightarrow> (\<exists>suffix e. member m es name suffix e \<and> \<not> safe_entry e)) \<and>
     (\<exists>entry e timestamp suffix. (entry, e) \<in> set es \<and> m entry = Some (name, timestamp, suffix) \<and> strptime timestamp = Some (bs_created b))"

definition found :: "(string \<Rightarrow> (string \<times> string \<times> string) option) \<Rightarrow> directory \<Rightarrow> string \<Rightarrow> backup_set option \<Rightarrow> bool" where
  "found m es name ob = (case ob of None \<Rightarrow> (\<forall>suffix e. \<not> member m es name suffix e) | Some b \<Rightarrow> described m es name b)"

definition sets_of :: "(string \<Rightarrow> (string \<times> string \<times> string) option) \<Rightarrow> directory \<Rightarrow> backup_set list" where
  "sets_of m d = map (load_manifest d \<circ> snd) (fold (scan_step m) (sort_key fst d) [])"

definition complete_in :: "(string \<Rightarrow> (string \<times> string \<times> string) option) \<Rightarrow> directory \<Rightarrow> string \<Rightarrow> bool" where
  "complete_in m d name \<longleftrightarrow> (\<forall>suffix \<in> set SUFFIXES. \<exists>e. member m d name suffix e \<and> safe_entry e) \<and>
     (\<exists>v. read_manifest d (name @ ''.manifest'') = Some v \<and> dict_get v ''name'' = Some (JStr name))"

locale set_matcher =
  fixes m :: "string \<Rightarrow> (string \<times> string \<times> string) option"
  assumes parts: "m entry = Some (name, timestamp, suffix) \<Longrightarrow> entry = name @ suffix \<and> suffix \<in> set SUFFIXES"
    and stamp: "m entry = Some (name, timestamp, suffix) \<Longrightarrow> m entry' = Some (name, timestamp', suffix') \<Longrightarrow> timestamp' = timestamp"
begin

lemma member_snoc:
  "member m (es @ [f]) name suffix e \<longleftrightarrow> member m es name suffix e \<or>
     (e = snd f \<and> (\<exists>timestamp. m (fst f) = Some (name, timestamp, suffix) \<and> strptime timestamp \<noteq> None))"
  by (cases f) (auto simp: member_def)

lemma found_other:
  assumes "found m es name ob" and "\<And>suffix e. member m (es @ [f]) name suffix e \<longleftrightarrow> member m es name suffix e"
  shows "found m (es @ [f]) name ob"
  using assms by (cases ob) (auto simp: found_def described_def)

lemma found_step:
  assumes "found m es name (map_of sets name)"
  shows "found m (es @ [f]) name (map_of (scan_step m f sets) name)"
proof -
  obtain entry e where f: "f = (entry, e)" by force
  consider (hit) timestamp suffix created where "m entry = Some (name, timestamp, suffix)" "strptime timestamp = Some created"
    | (miss) "\<And>timestamp suffix. m entry = Some (name, timestamp, suffix) \<Longrightarrow> strptime timestamp = None"
    by fastforce
  then show ?thesis
  proof cases
    case hit
    have same: "timestamp' = timestamp" if "m entry' = Some (name, timestamp', suffix')" for entry' timestamp' suffix'
      by (rule stamp [OF hit(1) that])
    have new: "member m (es @ [f]) name s x \<longleftrightarrow> member m es name s x \<or> x = e \<and> s = suffix" for s x
      unfolding member_snoc using hit by (auto simp: f)
    have here: "\<exists>entry' e' timestamp' suffix'. (entry', e') \<in> set (es @ [f]) \<and> m entry' = Some (name, timestamp', suffix') \<and> strptime timestamp' = Some created"
    proof -
      have "(entry, e) \<in> set (es @ [f])" by (simp add: f)
      then show ?thesis using hit by blast
    qed
    show ?thesis
    proof (cases "map_of sets name")
      case None
      then show ?thesis using assms hit here
        by (auto simp: found_def described_def scan_step_def scan_match_def f Let_def add_member_def safe_entry_def new [unfolded f])
    next
      case (Some b)
      then have b: "described m es name b" using assms by (simp add: found_def)
      have created: "bs_created b = created"
      proof -
        obtain entry' timestamp' suffix' where "m entry' = Some (name, timestamp', suffix')" "strptime timestamp' = Some (bs_created b)"
          using b unfolding described_def by blast
        then show ?thesis using same hit(2) by simp
      qed
      have "described m (es @ [f]) name (add_member suffix (en_regular e \<and> en_owned e) b)"
        unfolding described_def
      proof (intro conjI)
        show "set (bs_present (add_member suffix (en_regular e \<and> en_owned e) b)) = {s. \<exists>x. member m (es @ [f]) name s x}"
          using b unfolding new by (auto simp: add_member_def described_def)
        show "bs_unsafe (add_member suffix (en_regular e \<and> en_owned e) b) \<longleftrightarrow> (\<exists>s x. member m (es @ [f]) name s x \<and> \<not> safe_entry x)"
        proof -
          have "bs_unsafe b \<longleftrightarrow> (\<exists>s x. member m es name s x \<and> \<not> safe_entry x)" using b by (simp add: described_def)
          then show ?thesis unfolding new add_member_def by (simp add: safe_entry_def) blast
        qed
      qed (use b here in \<open>simp_all add: add_member_def described_def created\<close>)
      then show ?thesis using Some hit
        by (simp add: found_def scan_step_def scan_match_def f Let_def)
    qed
  next
    case miss
    have "map_of (scan_step m f sets) name = map_of sets name"
      using miss by (auto simp: scan_step_def scan_match_def f Let_def split: option.splits prod.splits)
    moreover have "member m (es @ [f]) name s x \<longleftrightarrow> member m es name s x" for s x
      unfolding member_snoc using miss by (auto simp: f)
    ultimately show ?thesis using found_other [OF assms] by simp
  qed
qed

lemma found_all: "found m es name (map_of (fold (scan_step m) es []) name)"
proof (induction es rule: rev_induct)
  case Nil
  show ?case by (simp add: found_def member_def)
next
  case (snoc f es)
  then show ?case using found_step by simp
qed

lemma distinct_scan_step: "distinct (map fst sets) \<Longrightarrow> distinct (map fst (scan_step m f sets))"
  by (auto simp: scan_step_def scan_match_def Let_def distinct_dict_put split: option.split prod.split)

lemma distinct_scan: "distinct (map fst (fold (scan_step m) es []))"
  by (induction es rule: rev_induct) (auto intro: distinct_scan_step)

lemma member_sorted: "member m (sort_key fst d) = member m d"
  by (intro ext) (simp add: member_def)

lemma described_sorted: "described m (sort_key fst d) name b \<longleftrightarrow> described m d name b"
  by (simp add: described_def member_sorted)

lemma in_sets_of:
  "b \<in> set (sets_of m d) \<longleftrightarrow> (\<exists>c. map_of (fold (scan_step m) (sort_key fst d) []) (bs_name b) = Some c \<and> described m d (bs_name b) c \<and> b = load_manifest d c)"
  (is "_ \<longleftrightarrow> (\<exists>c. map_of ?sets _ = Some c \<and> _)")
proof
  assume "b \<in> set (sets_of m d)"
  then obtain name c where c: "(name, c) \<in> set ?sets" "b = load_manifest d c" by (auto simp: sets_of_def)
  then have "map_of ?sets name = Some c" using distinct_scan by simp
  moreover have "described m d name c"
    using found_all [of "sort_key fst d" name] calculation by (simp add: found_def described_sorted)
  moreover have "bs_name b = name" using calculation(2) c(2) by (simp add: described_def load_manifest_def)
  ultimately show "\<exists>c. map_of ?sets (bs_name b) = Some c \<and> described m d (bs_name b) c \<and> b = load_manifest d c" using c by blast
next
  assume "\<exists>c. map_of ?sets (bs_name b) = Some c \<and> described m d (bs_name b) c \<and> b = load_manifest d c"
  then show "b \<in> set (sets_of m d)" by (force simp: sets_of_def dest: map_of_SomeD)
qed

lemma member_unique:
  "distinct (map fst d) \<Longrightarrow> member m d name suffix e \<Longrightarrow> member m d name suffix e' \<Longrightarrow> e' = e"
  using parts by (fastforce simp: member_def dest: eq_key_imp_eq_value)

lemma described_complete:
  assumes "distinct (map fst d)" "described m d name b"
  shows "complete (load_manifest d b) \<longleftrightarrow> complete_in m d name"
proof
  assume c: "complete (load_manifest d b)"
  then have "set (bs_present b) = set SUFFIXES" "\<not> bs_unsafe b"
    and v: "\<exists>v. read_manifest d (name @ ''.manifest'') = Some v \<and> dict_get v ''name'' = Some (JStr name)"
    using assms(2) by (auto simp: complete_def load_manifest_def described_def split: if_splits option.splits)
  then show "complete_in m d name"
    using assms(2) unfolding complete_in_def described_def by blast
next
  assume c: "complete_in m d name"
  have "set (bs_present b) = set SUFFIXES"
  proof -
    have "suffix \<in> set SUFFIXES" if "member m d name suffix e" for suffix e
      using that parts unfolding member_def by blast
    then show ?thesis using c assms(2) unfolding complete_in_def described_def by blast
  qed
  moreover have "\<not> bs_unsafe b"
  proof
    assume "bs_unsafe b"
    then obtain suffix e where e: "member m d name suffix e" "\<not> safe_entry e"
      using assms(2) by (auto simp: described_def)
    then have "suffix \<in> set SUFFIXES" using parts unfolding member_def by blast
    then obtain e' where "member m d name suffix e'" "safe_entry e'" using c unfolding complete_in_def by blast
    then show False using member_unique [OF assms(1) e(1)] e(2) by blast
  qed
  moreover have "bs_name b = name" using assms(2) by (simp add: described_def)
  moreover obtain v where "read_manifest d (name @ ''.manifest'') = Some v" "dict_get v ''name'' = Some (JStr name)"
    using c unfolding complete_in_def by blast
  ultimately show "complete (load_manifest d b)"
    by (simp add: complete_def load_manifest_def committed_def SUFFIXES_def)
qed

lemma complete_sets:
  assumes "distinct (map fst d)"
  shows "b \<in> set (sets_of m d) \<Longrightarrow> complete b \<longleftrightarrow> complete_in m d (bs_name b)"
    and "complete_in m d name \<Longrightarrow> \<exists>b \<in> set (sets_of m d). bs_name b = name \<and> complete b"
proof -
  show "b \<in> set (sets_of m d) \<Longrightarrow> complete b \<longleftrightarrow> complete_in m d (bs_name b)"
    using described_complete [OF assms] unfolding in_sets_of by blast
  show "\<exists>b \<in> set (sets_of m d). bs_name b = name \<and> complete b" if c: "complete_in m d name"
  proof -
    have "\<exists>e. member m d name [] e" using c by (auto simp: complete_in_def SUFFIXES_def)
    then obtain b where b: "map_of (fold (scan_step m) (sort_key fst d) []) name = Some b" "described m d name b"
      using found_all [of "sort_key fst d" name]
      by (cases "map_of (fold (scan_step m) (sort_key fst d) []) name") (auto simp: found_def described_sorted member_sorted)
    moreover have name: "bs_name (load_manifest d b) = name" using b(2) by (simp add: described_def load_manifest_def)
    ultimately have "load_manifest d b \<in> set (sets_of m d)" unfolding in_sets_of by blast
    then show ?thesis using described_complete [OF assms b(2)] c name by blast
  qed
qed

lemma complete_after_unlink:
  assumes "distinct (map fst d)"
  shows "complete_in m (unlink_all us d) name \<longleftrightarrow> complete_in m d name \<and> (\<forall>suffix \<in> set SUFFIXES. name @ suffix \<notin> set us)"
proof -
  have mem: "member m (unlink_all us d) name suffix e \<longleftrightarrow> member m d name suffix e \<and> name @ suffix \<notin> set us" for suffix e
    using parts unfolding member_def unlink_all_def by fastforce
  have "map_of (unlink_all us d) x = (if x \<in> set us then None else map_of d x)" for x
    by (induction d) (auto simp: unlink_all_def)
  then have man: "read_manifest (unlink_all us d) x = (if x \<in> set us then None else read_manifest d x)" for x
    by (simp add: read_manifest_def)
  show ?thesis unfolding complete_in_def mem man by (auto simp: SUFFIXES_def)
qed

end

lemma pattern_match_parts:
  assumes "pattern_match series extension entry = Some (name, timestamp, suffix)"
  shows "entry = name @ suffix \<and> suffix \<in> set SUFFIXES \<and> name = series @ ''-'' @ timestamp @ extension \<and>
    length timestamp = 16"
proof -
  define n where "n = length series + 1"
  have m: "take n entry = series @ ''-''" "timestamp = take 16 (drop n entry)" "length timestamp = 16"
    "take (length extension) (drop (n + 16) entry) = extension" "suffix = drop (length extension) (drop (n + 16) entry)"
    "name = series @ ''-'' @ timestamp @ extension" "suffix \<in> set SUFFIXES"
    using assms by (auto simp: pattern_match_def Let_def n_def timestamp_re_def SUFFIXES_def split: if_splits)
  have "entry = take n entry @ take 16 (drop n entry) @ take (length extension) (drop 16 (drop n entry)) @ drop (length extension) (drop 16 (drop n entry))"
    by (simp only: append_take_drop_id)
  also have "drop 16 (drop n entry) = drop (n + 16) entry" by (simp add: add.commute)
  finally have "entry = (series @ ''-'') @ timestamp @ extension @ suffix" using m by simp
  then show ?thesis using m by simp
qed

interpretation bk: set_matcher "backup_matcher p" for p
proof
  show "entry = name @ suffix \<and> suffix \<in> set SUFFIXES" if "backup_matcher p entry = Some (name, timestamp, suffix)" for entry name timestamp suffix
    using that pattern_match_parts by (auto simp: backup_matcher_def split: if_splits)
  show "timestamp' = timestamp"
    if "backup_matcher p entry = Some (name, timestamp, suffix)" "backup_matcher p entry' = Some (name, timestamp', suffix')"
    for entry entry' name timestamp timestamp' suffix suffix'
    using that pattern_match_parts [of "fst p" "snd p" entry name timestamp suffix]
      pattern_match_parts [of "fst p" "snd p" entry' name timestamp' suffix']
    by (auto simp: backup_matcher_def split: if_splits)
qed

lemma key_matcher_pattern:
  "key_matcher p q entry = Some match \<Longrightarrow> \<exists>series extension. q = Some (series, extension) \<and> pattern_match series extension entry = Some match"
  by (auto simp: key_matcher_def Option.bind_eq_Some_conv split: if_splits)

interpretation ky: set_matcher "key_matcher p q" for p q
proof
  show "entry = name @ suffix \<and> suffix \<in> set SUFFIXES" if "key_matcher p q entry = Some (name, timestamp, suffix)" for entry name timestamp suffix
    using key_matcher_pattern [OF that] pattern_match_parts by blast
  show "timestamp' = timestamp"
    if m: "key_matcher p q entry = Some (name, timestamp, suffix)" "key_matcher p q entry' = Some (name, timestamp', suffix')"
    for entry entry' name timestamp timestamp' suffix suffix'
  proof -
    obtain series extension where "pattern_match series extension entry = Some (name, timestamp, suffix)"
      "pattern_match series extension entry' = Some (name, timestamp', suffix')"
      using key_matcher_pattern [OF m(1)] key_matcher_pattern [OF m(2)] by auto
    from this [THEN pattern_match_parts] show ?thesis by simp
  qed
qed

lemma scan_sets:
  "fst (scan d p q) = sets_of (backup_matcher p) d" "fst (snd (scan d p q)) = sets_of (key_matcher p q) d"
  using scan_entries_fold [of p q "sort_key fst d" "[]" "[]" "[]"]
  by (auto simp: scan_def sets_of_def Let_def)

text \<open>The names of the complete backups of a series in a directory.\<close>

definition complete_backups :: "string \<Rightarrow> directory \<Rightarrow> string list" where
  "complete_backups series d = map bs_name (filter complete (fst (scan d (series, ''.sqlite3.age'') None)))"

lemma complete_backups_iff:
  "distinct (map fst d) \<Longrightarrow> name \<in> set (complete_backups series d) \<longleftrightarrow> complete_in (backup_matcher (series, ''.sqlite3.age'')) d name"
  using bk.complete_sets [of d] unfolding complete_backups_def scan_sets by (simp add: image_iff) blast

lemma sort_names: "map f (sort_key f xs) = sort (map f xs)"
  by (rule properties_for_sort [symmetric]) simp_all

section \<open>What pruning removes\<close>

lemma remove_set_names: "u \<in> set (remove_set b) \<Longrightarrow> \<exists>suffix \<in> set (bs_present b). suffix \<in> set SUFFIXES \<and> u = bs_name b @ suffix"
  by (auto simp: remove_set_def)

lemma prune_cases:
  assumes "us = fst (prune root series keep aware now key_series days minimum)"
  obtains (nothing) "us = []"
  | (plan) cutoff gone archives p q floor where "p = (series, ''.sqlite3.age'')" "q = map_option (\<lambda>s. (s, ''.tar.age'')) key_series"
    "minus_days now days = Inr cutoff" "us = concat (map remove_set gone) @ concat (map remove_set archives)"
    "keep \<in> set (complete_backups series (br_entries root))"
    "floor = take (nat minimum) (rev (sort (complete_backups series (br_entries root)))) @ [keep]"
    "gone = filter (expired_backup cutoff floor) (sort_key bs_name (sets_of (backup_matcher p) (br_entries root)))"
    "archives = [] \<or> expired_keys cutoff (sets_of (backup_matcher p) (br_entries root)) gone (sets_of (key_matcher p q) (br_entries root)) = Inr archives"
proof -
  define d p q where "d = br_entries root" and "p = (series, ''.sqlite3.age'')" and "q = map_option (\<lambda>s. (s, ''.tar.age'')) key_series"
  define backups keys where "backups = sets_of (backup_matcher p) d" and "keys = sets_of (key_matcher p q) d"
  define newest where "newest = rev (sort_key bs_name (filter complete backups))"
  define floor where "floor = map bs_name (take (nat minimum) newest) @ [keep]"
  have newest: "map bs_name newest = rev (sort (complete_backups series d))"
    by (simp add: newest_def backups_def p_def complete_backups_def scan_sets sort_names flip: rev_map)
  have scan: "\<exists>ignored. scan d p q = (backups, keys, ignored)"
    using scan_sets [of d p q] by (metis backups_def keys_def prod.collapse)
  show ?thesis
  proof (cases "us = []")
    case False
    then obtain cutoff where cutoff: "minus_days now days = Inr cutoff" and root: "open_root root = Inr d"
      and keep: "keep \<in> set (map bs_name newest)"
      using assms scan by (auto simp: prune_def open_root_def d_def p_def q_def newest_def Let_def split: sum.splits if_splits)
    define gone where "gone = filter (expired_backup cutoff floor) (sort_key bs_name backups)"
    have "us = (case (if key_series = None then Inr [] else expired_keys cutoff backups gone keys) of
        Inl e \<Rightarrow> concat (map remove_set gone) | Inr archives \<Rightarrow> concat (map remove_set gone) @ concat (map remove_set archives))"
      using False cutoff root keep scan unfolding assms prune_def gone_def floor_def newest_def
      by (auto simp: p_def q_def Let_def split: sum.splits if_splits)
    then have "\<exists>archives. us = concat (map remove_set gone) @ concat (map remove_set archives) \<and>
        (archives = [] \<or> expired_keys cutoff backups gone keys = Inr archives)"
      by (cases "key_series = None"; cases "expired_keys cutoff backups gone keys") (auto intro: exI [of _ "[]"])
    then obtain archives where a: "us = concat (map remove_set gone) @ concat (map remove_set archives)"
      "archives = [] \<or> expired_keys cutoff backups gone keys = Inr archives" by blast
    show ?thesis
    proof (rule plan [OF p_def q_def cutoff a(1)])
      show "keep \<in> set (complete_backups series (br_entries root))" using keep newest by (simp add: d_def)
      show "floor = take (nat minimum) (rev (sort (complete_backups series (br_entries root)))) @ [keep]"
        unfolding floor_def newest [unfolded d_def, symmetric] by (simp add: take_map)
    qed (use a(2) in \<open>simp_all add: gone_def backups_def keys_def d_def\<close>)
  qed (rule nothing)
qed

context set_matcher
begin

lemma complete_manifest:
  assumes "b \<in> set (sets_of m d)" "complete b"
  shows "bs_manifest b = read_manifest d (bs_name b @ ''.manifest'')"
proof -
  obtain c where c: "described m d (bs_name b) c" "b = load_manifest d c"
    using assms(1) unfolding in_sets_of by blast
  have "bs_manifest b \<noteq> None" using assms(2) by (auto simp: complete_def split: option.splits)
  then have "committed c \<and> \<not> bs_unsafe c"
    using c(1) unfolding c(2) load_manifest_def described_def by (simp split: if_splits)
  then show ?thesis using c(2) by (simp add: load_manifest_def)
qed

lemma removed_file:
  assumes "b \<in> set (sets_of m d)" "\<not> bs_unsafe b" "u \<in> set (remove_set b)"
  obtains e timestamp suffix where "(u, e) \<in> set d" "safe_entry e" "m u = Some (bs_name b, timestamp, suffix)"
    "strptime timestamp = Some (bs_created b)" "u = bs_name b @ suffix" "suffix \<in> set SUFFIXES"
proof -
  obtain c where c: "described m d (bs_name b) c" "b = load_manifest d c"
    using assms(1) unfolding in_sets_of by blast
  have same: "bs_present b = bs_present c" "bs_unsafe b = bs_unsafe c" "bs_created b = bs_created c"
    by (simp_all add: c(2) load_manifest_def)
  obtain suffix where u: "suffix \<in> set (bs_present c)" "u = bs_name b @ suffix"
    using remove_set_names [OF assms(3)] same(1) by auto
  then obtain e where e: "member m d (bs_name b) suffix e" using c(1) unfolding described_def by blast
  then obtain timestamp where m: "(u, e) \<in> set d" "m u = Some (bs_name b, timestamp, suffix)" "suffix \<in> set SUFFIXES"
    using parts u(2) unfolding member_def by blast
  have "safe_entry e" using e assms(2) same(2) c(1) unfolding described_def by blast
  moreover have "strptime timestamp = Some (bs_created b)"
    using stamp [OF m(2)] c(1) same(3) unfolding described_def by metis
  ultimately show thesis using that m u(2) by blast
qed

end

text \<open>
  C35: pruning removes nothing but expired backups. Every file it unlinks is a regular file of the current
  user in the directory whose name matches the backup pattern or the deploy-key pattern with a valid
  timestamp older than the cutoff, and it is not a file of the backup just written nor of one of the
  newest backups that are always kept.
\<close>

theorem prune_removes_expired:
  assumes "u \<in> set (fst (prune root series keep aware now key_series days minimum))"
  shows "\<exists>e name timestamp suffix created.
    (u, e) \<in> set (br_entries root) \<and> en_regular e \<and> en_owned e \<and>
    strptime timestamp = Some created \<and> created < now - days * 86400 * 1000000 \<and>
    (pattern_match series ''.sqlite3.age'' u = Some (name, timestamp, suffix) \<and> name \<noteq> keep \<and>
       name \<notin> set (take (nat minimum) (rev (sort (complete_backups series (br_entries root))))) \<or>
     (\<exists>s. key_series = Some s \<and> pattern_match s ''.tar.age'' u = Some (name, timestamp, suffix) \<and>
       pattern_match series ''.sqlite3.age'' u = None))"
proof -
  define us where "us = fst (prune root series keep aware now key_series days minimum)"
  have u: "u \<in> set us" using assms by (simp add: us_def)
  from us_def show ?thesis
  proof (cases rule: prune_cases)
    case nothing
    then show ?thesis using u by simp
  next
    case (plan cutoff gone archives p q floor)
    have cutoff: "cutoff = now - days * 86400 * 1000000"
      using plan(3) by (simp add: minus_days_def microseconds_def Let_def split: if_splits)
    from u plan(4) consider b where "b \<in> set gone" "u \<in> set (remove_set b)" | a where "a \<in> set archives" "u \<in> set (remove_set a)"
      by auto
    then show ?thesis
    proof cases
      case 1
      then have b: "b \<in> set (sets_of (backup_matcher p) (br_entries root))" "expired_backup cutoff floor b"
        by (auto simp: plan(7))
      then have "\<not> bs_unsafe b" "bs_name b \<notin> set floor" "bs_created b < cutoff" by (auto simp: expired_backup_def)
      then show ?thesis
      proof (cases rule: bk.removed_file [OF b(1) \<open>\<not> bs_unsafe b\<close> 1(2)])
        case (1 e timestamp suffix)
        show ?thesis
          by (rule exI [of _ e], rule exI [of _ "bs_name b"], rule exI [of _ timestamp], rule exI [of _ suffix], rule exI [of _ "bs_created b"])
             (use 1 \<open>bs_name b \<notin> set floor\<close> \<open>bs_created b < cutoff\<close> in \<open>simp add: backup_matcher_def plan(1,6) cutoff safe_entry_def split: if_splits\<close>)
      qed
    next
      case 2
      then have a: "a \<in> set (sets_of (key_matcher p q) (br_entries root))" "\<not> bs_unsafe a" "bs_created a < cutoff"
        using plan(8) by (auto simp: expired_keys_def expired_key_def Let_def split: if_splits)
      then show ?thesis
      proof (cases rule: ky.removed_file [OF a(1,2) 2(2)])
        case (1 e timestamp suffix)
        show ?thesis
          by (rule exI [of _ e], rule exI [of _ "bs_name a"], rule exI [of _ timestamp], rule exI [of _ suffix], rule exI [of _ "bs_created a"])
             (use 1 a(3) in \<open>auto simp: key_matcher_def plan(1,2) cutoff safe_entry_def Option.bind_eq_Some_conv simp del: not_None_eq split: if_splits\<close>)
      qed
    qed
  qed
qed

theorem prune_removes_expired_witness:
  "\<exists>e name timestamp suffix created.
    (''keys-20240101T000001Z.tar.age.sha256'', e) \<in> set (br_entries example_root) \<and> en_regular e \<and> en_owned e \<and>
    strptime timestamp = Some created \<and> created < 63844891200000000 - 14 * 86400 * 1000000 \<and>
    (pattern_match ''db'' ''.sqlite3.age'' ''keys-20240101T000001Z.tar.age.sha256'' = Some (name, timestamp, suffix) \<and> name \<noteq> ''db-20240301T000000Z.sqlite3.age'' \<and>
       name \<notin> set (take (nat 1) (rev (sort (complete_backups ''db'' (br_entries example_root))))) \<or>
     (\<exists>s. Some ''keys'' = Some s \<and> pattern_match s ''.tar.age'' ''keys-20240101T000001Z.tar.age.sha256'' = Some (name, timestamp, suffix) \<and>
       pattern_match ''db'' ''.sqlite3.age'' ''keys-20240101T000001Z.tar.age.sha256'' = None))"
  by (rule prune_removes_expired [where keep = "''db-20240301T000000Z.sqlite3.age''" and aware = True]) (simp add: example_prune)

section \<open>Interrupted removals\<close>

text \<open>A sequence of removals is guarded when each file goes after the file that guards it.\<close>

definition guarded :: "(string \<Rightarrow> string \<Rightarrow> bool) \<Rightarrow> string list \<Rightarrow> bool" where
  "guarded G us \<longleftrightarrow> (\<forall>n. \<forall>u \<in> set (take n us). \<forall>g. G u g \<longrightarrow> g \<in> set (take n us))"

lemma guarded_append: "guarded G us \<Longrightarrow> guarded G vs \<Longrightarrow> guarded G (us @ vs)"
  by (simp add: guarded_def) blast

lemma guarded_concat: "(\<And>us. us \<in> set uss \<Longrightarrow> guarded G us) \<Longrightarrow> guarded G (concat uss)"
  by (induction uss) (auto simp: guarded_append, simp add: guarded_def)

lemma guarded_vacuous: "(\<And>u g. u \<in> set us \<Longrightarrow> \<not> G u g) \<Longrightarrow> guarded G us"
  by (auto simp: guarded_def dest: in_set_takeD)

lemma complete_remove_set:
  "complete b \<Longrightarrow> remove_set b = [bs_name b @ ''.manifest'', bs_name b @ ''.sha256'', bs_name b]"
  by (simp add: complete_def remove_set_def SUFFIXES_def)

lemma guarded_head: "(\<And>u g. u \<in> set (h # us) \<Longrightarrow> G u g \<Longrightarrow> g = h) \<Longrightarrow> guarded G (h # us)"
  unfolding guarded_def by (metis in_set_takeD list.set_intros(1) take_Cons' take_eq_Nil2 list.distinct(1) empty_iff list.set(1))

text \<open>The manifest of a complete backup guards its files.\<close>

definition manifest_of :: "string \<times> string \<Rightarrow> directory \<Rightarrow> string \<Rightarrow> string \<Rightarrow> bool" where
  "manifest_of p d u g \<longleftrightarrow>
     (\<exists>name suffix. suffix \<in> set SUFFIXES \<and> u = name @ suffix \<and> g = name @ ''.manifest'' \<and> complete_in (backup_matcher p) d name)"

lemma manifest_of_matched:
  "manifest_of p d u g \<Longrightarrow> \<exists>name timestamp suffix. backup_matcher p u = Some (name, timestamp, suffix) \<and>
     g = name @ ''.manifest'' \<and> complete_in (backup_matcher p) d name"
  using bk.parts unfolding manifest_of_def complete_in_def member_def by metis

lemma matchers_disjoint: "key_matcher p q u = Some match \<Longrightarrow> backup_matcher p u = None"
  by (simp add: key_matcher_def backup_matcher_def del: not_None_eq split: if_splits)

lemma removals_guarded:
  assumes d: "distinct (map fst d)"
    and gone: "\<And>b. b \<in> set gone \<Longrightarrow> b \<in> set (sets_of (backup_matcher p) d) \<and> \<not> bs_unsafe b"
    and archives: "\<And>a. a \<in> set archives \<Longrightarrow> a \<in> set (sets_of (key_matcher p q) d) \<and> \<not> bs_unsafe a"
  shows "guarded (manifest_of p d) (concat (map remove_set gone) @ concat (map remove_set archives))"
proof (intro guarded_append guarded_concat)
  fix us assume "us \<in> set (map remove_set gone)"
  then obtain b where us: "us = remove_set b" and b: "b \<in> set gone" by auto
  have name: "g = bs_name b @ ''.manifest'' \<and> complete_in (backup_matcher p) d (bs_name b)"
    if u: "u \<in> set (remove_set b)" "manifest_of p d u g" for u g
  proof (rule bk.removed_file [OF _ _ u(1)])
    show "b \<in> set (sets_of (backup_matcher p) d)" "\<not> bs_unsafe b" using gone [OF b] by simp_all
    fix timestamp suffix assume "backup_matcher p u = Some (bs_name b, timestamp, suffix)"
    then show ?thesis using manifest_of_matched [OF u(2)] by auto
  qed
  show "guarded (manifest_of p d) us"
  proof (cases "complete b")
    case True
    show ?thesis using name unfolding us complete_remove_set [OF True] by (intro guarded_head) blast
  next
    case False
    then have "\<not> complete_in (backup_matcher p) d (bs_name b)" using bk.complete_sets(1) [OF d] gone [OF b] by blast
    then show ?thesis unfolding us using name by (intro guarded_vacuous) blast
  qed
next
  fix us assume "us \<in> set (map remove_set archives)"
  then obtain a where us: "us = remove_set a" and a: "a \<in> set archives" by auto
  show "guarded (manifest_of p d) us"
  proof (rule guarded_vacuous)
    fix u g assume u: "u \<in> set us"
    show "\<not> manifest_of p d u g"
    proof (rule ky.removed_file [of a p q d u])
      fix timestamp suffix assume "key_matcher p q u = Some (bs_name a, timestamp, suffix)"
      then have "backup_matcher p u = None" by (rule matchers_disjoint)
      then show ?thesis using manifest_of_matched [of p d u g] by auto
    qed (use u us archives [OF a] in simp_all)
  qed
qed

lemma complete_removed:
  assumes "complete_in (backup_matcher p) d name" "name @ suffix \<in> set (concat (map remove_set gone) @ concat (map remove_set archives))"
    and "suffix \<in> set SUFFIXES"
    and gone: "\<And>b. b \<in> set gone \<Longrightarrow> b \<in> set (sets_of (backup_matcher p) d) \<and> \<not> bs_unsafe b"
    and archives: "\<And>a. a \<in> set archives \<Longrightarrow> a \<in> set (sets_of (key_matcher p q) d) \<and> \<not> bs_unsafe a"
  shows "\<exists>b \<in> set gone. bs_name b = name"
proof -
  obtain timestamp where m: "backup_matcher p (name @ suffix) = Some (name, timestamp, suffix)"
    using assms(1,3) bk.parts unfolding complete_in_def member_def by metis
  from assms(2) consider b where "b \<in> set gone" "name @ suffix \<in> set (remove_set b)"
    | a where "a \<in> set archives" "name @ suffix \<in> set (remove_set a)" by auto
  then show ?thesis
  proof cases
    case 1
    have "bs_name b = name"
    proof (rule bk.removed_file [of b p d "name @ suffix"])
      fix timestamp' suffix' assume "backup_matcher p (name @ suffix) = Some (bs_name b, timestamp', suffix')"
      then show ?thesis using m by simp
    qed (use gone [OF 1(1)] 1(2) in simp_all)
    then show ?thesis using 1(1) by blast
  next
    case 2
    have False
    proof (rule ky.removed_file [of a p q d "name @ suffix"])
      fix timestamp' suffix' assume "key_matcher p q (name @ suffix) = Some (bs_name a, timestamp', suffix')"
      then have "backup_matcher p (name @ suffix) = None" by (rule matchers_disjoint)
      then show False using m by simp
    qed (use archives [OF 2(1)] 2(2) in simp_all)
    then show ?thesis ..
  qed
qed

text \<open>
  C34: an interrupted removal never leaves a damaged backup that looks committed. After any number of the
  removals that pruning makes, a complete backup whose manifest is still there is still complete; the
  newest backups, up to the minimum, are all still complete; and so is the backup just written whenever
  anything is removed at all.
\<close>

theorem interrupted_prune_safe:
  assumes "distinct (map fst (br_entries root))"
    and "us = fst (prune root series keep aware now key_series days minimum)"
    and "left = unlink_all (take n us) (br_entries root)"
  shows "(\<forall>name \<in> set (complete_backups series (br_entries root)).
      name @ ''.manifest'' \<in> fst ` set left \<longrightarrow> name \<in> set (complete_backups series left)) \<and>
    set (take (nat minimum) (rev (sort (complete_backups series (br_entries root))))) \<subseteq> set (complete_backups series left) \<and>
    (us \<noteq> [] \<longrightarrow> keep \<in> set (complete_backups series left))"
proof -
  define d p where "d = br_entries root" and "p = (series, ''.sqlite3.age'')"
  have d: "distinct (map fst d)" "distinct (map fst left)"
    using assms(1) by (simp_all add: d_def assms(3) unlink_all_def distinct_map_filter)
  have before: "name \<in> set (complete_backups series d) \<longleftrightarrow> complete_in (backup_matcher p) d name" for name
    using complete_backups_iff [OF d(1)] by (simp add: p_def)
  have after: "name \<in> set (complete_backups series left) \<longleftrightarrow>
      name \<in> set (complete_backups series d) \<and> (\<forall>suffix \<in> set SUFFIXES. name @ suffix \<notin> set (take n us))" for name
    unfolding before using complete_backups_iff [OF d(2)] bk.complete_after_unlink [OF d(1)]
    by (simp add: p_def assms(3) d_def)
  from assms(2) show ?thesis
  proof (cases rule: prune_cases)
    case nothing
    then have none: "us = []" by simp
    have same: "set (complete_backups series left) = set (complete_backups series (br_entries root))"
      using after by (auto simp: d_def none)
    show ?thesis unfolding same by (auto simp: none dest: in_set_takeD)
  next
    case (plan cutoff gone archives p' q floor)
    have p': "p' = p" by (simp add: plan(1) p_def)
    have gone: "b \<in> set gone \<Longrightarrow> b \<in> set (sets_of (backup_matcher p) d) \<and> \<not> bs_unsafe b \<and> bs_name b \<notin> set floor" for b
      by (auto simp: plan(7) p' d_def expired_backup_def)
    have archives: "a \<in> set archives \<Longrightarrow> a \<in> set (sets_of (key_matcher p q) d) \<and> \<not> bs_unsafe a" for a
      using plan(8) by (auto simp: p' d_def expired_keys_def expired_key_def Let_def split: if_splits)
    have guarded: "guarded (manifest_of p d) us"
      unfolding plan(4) using removals_guarded [OF d(1)] gone archives by blast
    have manifest: "name \<in> set (complete_backups series left)"
      if "name \<in> set (complete_backups series d)" "name @ ''.manifest'' \<notin> set (take n us)" for name
    proof -
      have "name @ suffix \<notin> set (take n us)" if s: "suffix \<in> set SUFFIXES" for suffix
      proof
        assume "name @ suffix \<in> set (take n us)"
        moreover have "manifest_of p d (name @ suffix) (name @ ''.manifest'')"
          using s \<open>name \<in> set (complete_backups series d)\<close> unfolding before manifest_of_def by blast
        ultimately show False using guarded \<open>name @ ''.manifest'' \<notin> set (take n us)\<close> unfolding guarded_def by blast
      qed
      then show ?thesis unfolding after using that(1) by blast
    qed
    have floor: "name @ ''.manifest'' \<notin> set (take n us)"
      if "name \<in> set floor" "name \<in> set (complete_backups series d)" for name
    proof
      assume "name @ ''.manifest'' \<in> set (take n us)"
      then have "name @ ''.manifest'' \<in> set us" by (rule in_set_takeD)
      then have "\<exists>b \<in> set gone. bs_name b = name"
        unfolding plan(4) by (rule complete_removed [OF that(2) [unfolded before]]) (use gone archives in \<open>auto simp: SUFFIXES_def\<close>)
      then show False using gone that(1) by blast
    qed
    show ?thesis
    proof (intro conjI ballI impI subsetI)
      fix name assume "name \<in> set (complete_backups series (br_entries root))" "name @ ''.manifest'' \<in> fst ` set left"
      then show "name \<in> set (complete_backups series left)"
        using manifest by (auto simp: assms(3) unlink_all_def d_def)
    next
      fix name assume "name \<in> set (take (nat minimum) (rev (sort (complete_backups series (br_entries root)))))"
      then have "name \<in> set floor" "name \<in> set (complete_backups series d)"
        by (auto simp: plan(6) d_def dest: in_set_takeD)
      then show "name \<in> set (complete_backups series left)" using manifest floor by blast
    next
      have "keep \<in> set floor" "keep \<in> set (complete_backups series d)" using plan(5,6) by (simp_all add: d_def)
      then show "keep \<in> set (complete_backups series left)" using manifest floor by blast
    qed
  qed
qed

theorem interrupted_prune_safe_witness:
  "\<exists>us left. us = fst (prune example_root ''db'' ''db-20240301T000000Z.sqlite3.age'' True 63844891200000000 (Some ''keys'') 14 1) \<and>
    left = unlink_all (take 2 us) (br_entries example_root) \<and> us \<noteq> [] \<and>
    complete_backups ''db'' (br_entries example_root) = [''db-20240101T000000Z.sqlite3.age'', ''db-20240301T000000Z.sqlite3.age''] \<and>
    ''db-20240301T000000Z.sqlite3.age'' \<in> set (complete_backups ''db'' left)"
proof -
  define us where "us = fst (prune example_root ''db'' ''db-20240301T000000Z.sqlite3.age'' True 63844891200000000 (Some ''keys'') 14 1)"
  define left where "left = unlink_all (take 2 us) (br_entries example_root)"
  have "distinct (map fst (br_entries example_root))" by code_simp
  from interrupted_prune_safe [OF this us_def left_def]
  have "us \<noteq> [] \<longrightarrow> ''db-20240301T000000Z.sqlite3.age'' \<in> set (complete_backups ''db'' left)" by blast
  moreover have "us \<noteq> []" unfolding us_def example_prune by simp
  moreover have "complete_backups ''db'' (br_entries example_root) = [''db-20240101T000000Z.sqlite3.age'', ''db-20240301T000000Z.sqlite3.age'']"
    by code_simp
  ultimately show ?thesis using us_def left_def by blast
qed

section \<open>Deploy-key archives\<close>

lemma extensions_disjoint:
  assumes "pattern_match s ''.sqlite3.age'' u = Some x"
  shows "pattern_match s' ''.tar.age'' u = None"
proof (rule ccontr)
  obtain name timestamp suffix where x: "x = (name, timestamp, suffix)" by (cases x)
  assume "pattern_match s' ''.tar.age'' u \<noteq> None"
  then obtain name' timestamp' suffix' where "pattern_match s' ''.tar.age'' u = Some (name', timestamp', suffix')" by force
  from pattern_match_parts [OF this] pattern_match_parts [OF assms [unfolded x]]
  have s: "suffix \<in> set SUFFIXES" "suffix' \<in> set SUFFIXES"
    and "(s @ ''-'' @ timestamp @ ''.sqlite3.age'') @ suffix = (s' @ ''-'' @ timestamp' @ ''.tar.age'') @ suffix'" by auto
  then have "rev suffix @ rev ''.sqlite3.age'' @ rev (s @ ''-'' @ timestamp) = rev suffix' @ rev ''.tar.age'' @ rev (s' @ ''-'' @ timestamp')"
    by (metis append.assoc rev_append)
  then show False using s by (auto simp: SUFFIXES_def)
qed

lemma pattern_match_suffix:
  assumes "pattern_match s ext name = Some (name, timestamp, [])" "suffix \<in> set SUFFIXES"
  shows "pattern_match s ext (name @ suffix) = Some (name, timestamp, suffix)"
proof -
  have name: "name = s @ ''-'' @ timestamp @ ext" "length timestamp = 16"
    using pattern_match_parts [OF assms(1)] by simp_all
  have "timestamp_re timestamp" using assms(1) name by (auto simp: pattern_match_def Let_def split: if_splits)
  moreover have "drop (length ext + 17) (CHR ''-'' # timestamp @ ext @ suffix) = suffix" using name(2) by (simp add: drop_Cons')
  ultimately show ?thesis using name assms(2) by (simp add: pattern_match_def Let_def SUFFIXES_def)
qed

text \<open>
  C36: pruning keeps the deploy-key archive of every backup that remains: when the manifest of a backup
  that is still complete after all removals names an archive of the key series as its \<open>sourceKeys\<close>, no file of that
  archive is removed.
\<close>

theorem referenced_keys_kept:
  assumes "distinct (map fst (br_entries root))"
    and "us = fst (prune root series keep aware now (Some ks) days minimum)"
    and "name \<in> set (complete_backups series (unlink_all us (br_entries root)))"
    and "read_manifest (br_entries root) (name @ ''.manifest'') = Some v" "dict_get v ''sourceKeys'' = Some (JStr archive)"
    and "pattern_match ks ''.tar.age'' archive = Some (archive, timestamp, [])"
  shows "\<forall>suffix \<in> set SUFFIXES. archive @ suffix \<notin> set us"
proof (intro ballI notI)
  fix suffix assume s: "suffix \<in> set SUFFIXES" and u: "archive @ suffix \<in> set us"
  define d where "d = br_entries root"
  have tar: "pattern_match ks ''.tar.age'' (archive @ suffix) = Some (archive, timestamp, suffix)"
    by (rule pattern_match_suffix [OF assms(6) s])
  from assms(2) show False
  proof (cases rule: prune_cases)
    case nothing
    then show False using u by simp
  next
    case (plan cutoff gone archives p q floor)
    have left: "distinct (map fst (unlink_all us d))" using assms(1) by (simp add: unlink_all_def d_def distinct_map_filter)
    have name: "complete_in (backup_matcher p) d name" "\<forall>suffix \<in> set SUFFIXES. name @ suffix \<notin> set us"
      using assms(3) complete_backups_iff [OF left, of name series] bk.complete_after_unlink [OF assms(1)] by (simp_all add: d_def plan(1))
    obtain b where b: "b \<in> set (sets_of (backup_matcher p) d)" "bs_name b = name" "complete b"
      using bk.complete_sets(2) [OF assms(1)] name(1) unfolding d_def by blast
    have "b \<notin> set gone"
    proof
      assume "b \<in> set gone"
      then have "name \<in> set us" unfolding plan(4) using complete_remove_set [OF b(3)] b(2) by fastforce
      then show False using name(2) by (force simp: SUFFIXES_def)
    qed
    have "bs_manifest b = Some v"
      using bk.complete_manifest [OF b(1,3)] b(2) assms(4) by (simp add: d_def)
    then have keys: "source_keys b = [JStr archive]" using assms(5) by (simp add: source_keys_def)
    from u plan(4) consider c where "c \<in> set gone" "archive @ suffix \<in> set (remove_set c)"
      | a where "a \<in> set archives" "archive @ suffix \<in> set (remove_set a)" by auto
    then show False
    proof cases
      case 1
      then have c: "c \<in> set (sets_of (backup_matcher p) d)" "\<not> bs_unsafe c" by (auto simp: plan(7) d_def expired_backup_def)
      then obtain x where "pattern_match series ''.sqlite3.age'' (archive @ suffix) = Some x"
        by (rule bk.removed_file [OF _ _ 1(2)]) (auto simp: backup_matcher_def plan(1) split: if_splits)
      then show False using extensions_disjoint tar by fastforce
    next
      case 2
      then have k: "expired_keys cutoff (sets_of (backup_matcher p) d) gone (sets_of (key_matcher p q) d) = Inr archives"
        using plan(8) by (auto simp: d_def)
      then have a: "a \<in> set (sets_of (key_matcher p q) d)" "\<not> bs_unsafe a"
        "\<forall>x \<in> set (sets_of (backup_matcher p) d). x \<in> set gone \<or> JStr (bs_name a) \<notin> set (source_keys x)"
        using 2(1) by (auto simp: expired_keys_def expired_key_def Let_def split: if_splits)
      then have other: "bs_name a \<noteq> archive" using b(1) keys \<open>b \<notin> set gone\<close> by fastforce
      show False
      proof (rule ky.removed_file [OF a(1,2) 2(2)])
        fix timestamp' suffix' assume "key_matcher p q (archive @ suffix) = Some (bs_name a, timestamp', suffix')"
        then show False using key_matcher_pattern [of p q "archive @ suffix"] tar other by (auto simp: plan(2))
      qed
    qed
  qed
qed

theorem referenced_keys_kept_witness:
  "''keys-20240102T000000Z.tar.age.manifest'' \<notin>
     set (fst (prune example_root ''db'' ''db-20240301T000000Z.sqlite3.age'' True 63844891200000000 (Some ''keys'') 14 1))"
proof -
  define us where "us = fst (prune example_root ''db'' ''db-20240301T000000Z.sqlite3.age'' True 63844891200000000 (Some ''keys'') 14 1)"
  have "\<forall>suffix \<in> set SUFFIXES. ''keys-20240102T000000Z.tar.age'' @ suffix \<notin> set us"
  proof (rule referenced_keys_kept [OF _ us_def, where name = "''db-20240301T000000Z.sqlite3.age''"])
    show "distinct (map fst (br_entries example_root))" by code_simp
    show "''db-20240301T000000Z.sqlite3.age'' \<in> set (complete_backups ''db'' (unlink_all us (br_entries example_root)))"
      unfolding us_def example_prune by code_simp
    show "read_manifest (br_entries example_root) (''db-20240301T000000Z.sqlite3.age'' @ ''.manifest'') =
        Some [(''name'', JStr ''db-20240301T000000Z.sqlite3.age''), (''sourceKeys'', JStr ''keys-20240102T000000Z.tar.age'')]"
      by code_simp
    show "pattern_match ''keys'' ''.tar.age'' ''keys-20240102T000000Z.tar.age'' = Some (''keys-20240102T000000Z.tar.age'', ''20240102T000000Z'', [])"
      by code_simp
  qed simp
  then show ?thesis unfolding us_def by (simp add: SUFFIXES_def)
qed

end
