(* ===== verification/Dashboard_Sources.thy ===== *)
theory Dashboard_Sources
  imports Validation Runtime_Text Json_Values
begin

text \<open>
  The records the operator dashboard keeps of the platform and the parsers that admit them
  (\<open>dashboard/sources.py\<close>): remote output is a JSON document, and every field is kept only with the
  type and the spelling the parser allows. The document is what \<open>json.loads\<close> gives; two things it
  leaves open are arguments: \<open>F\<close>, what the code asks of Python's numbers and of \<open>str\<close>, and \<open>B\<close>, whether a host in
  square brackets is an address literal. The ellipsis that ends a cut text
  is written as the code point \<open>0x85\<close>, which no printable text contains.
\<close>

section \<open>Records\<close>

record image_record =
  im_role :: string
  im_display_name :: "string option"
  im_source_commit :: "string option"
  im_selected_at :: "string option"

record application_record =
  ap_application_id :: string
  ap_slug :: string
  ap_enabled :: bool
  ap_active_deployment_id :: "string option"
  ap_url :: "string option"
  ap_worker_flavor :: "string option"
  ap_cpu_mhz :: "int option"
  ap_memory_mib :: "int option"
  ap_created_at :: "string option"
  ap_updated_at :: "string option"
  ap_deleted_at :: "string option"

record deployment_record =
  dr_deployment_id :: string
  dr_application_id :: string
  dr_status :: string
  dr_source_commit :: "string option"
  dr_requested_ref :: "string option"
  dr_repository :: "string option"
  dr_runtime :: "string option"
  dr_port :: "int option"
  dr_health_path :: "string option"
  dr_configuration_revision :: "int option"
  dr_image_digest :: "string option"
  dr_safe_error :: "string option"
  dr_cleanup_state :: "string option"
  dr_requested_at :: "string option"
  dr_updated_at :: "string option"
  dr_accepted_at :: "string option"
  dr_last_healthy_at :: "string option"

text \<open>The documents \<open>storage_usage\<close> and \<open>storage_write_block\<close> return.\<close>

record storage_usage_record =
  us_counters :: "(string \<times> int option) list"
  us_measured_at :: "string option"
  us_stale :: bool

record write_block_record =
  wb_blocked :: bool
  wb_reason :: "string option"
  wb_since :: "string option"

record storage_record =
  sr_resource_id :: string
  sr_application_id :: string
  sr_resource_type :: string
  sr_name :: string
  sr_display_label :: "string option"
  sr_lifecycle_state :: string
  sr_quotas :: "(string \<times> int) list"
  sr_last_verified_at :: "string option"
  sr_usage :: storage_usage_record
  sr_write_block :: write_block_record

record operation_record =
  or_operation_id :: string
  or_kind :: string
  or_scope :: string
  or_status :: string
  or_phase :: "string option"
  or_started_at :: "string option"
  or_updated_at :: "string option"
  or_deadline_at :: "string option"
  or_safe_error :: "string option"
  or_cleanup_state :: "string option"

record health_report =
  he_checked_at :: "string option"
  he_healthy :: bool
  he_checks :: jdict
  he_error :: "string option"

record storage_host_record =
  sh_measured_at :: string
  sh_stale :: bool
  sh_cpu_count :: int
  sh_load_average :: "json list"
  sh_memory :: "int \<times> int"
  sh_data_volume :: "int \<times> int"
  sh_postgres_connections :: "int \<times> int"
  sh_mongo_connections :: "int \<times> int"
  sh_containers :: "(string \<times> int \<times> int) list"

record admin_reads =
  rd_api_version :: "int option"
  rd_features :: "string list"
  rd_images :: "image_record list"
  rd_applications :: "application_record list"
  rd_deployments :: "deployment_record list"
  rd_deployments_truncated :: bool
  rd_storage :: "storage_record list"
  rd_operations :: "operation_record list"
  rd_operations_truncated :: bool
  rd_controller_units :: "(string \<times> string) list option"
  rd_health :: "health_report option"
  rd_health_error :: "string option"
  rd_section_errors :: "(string \<times> string) list"
  rd_storage_host :: "storage_host_record option"

record host_record =
  ho_role :: string
  ho_image :: "image_record option"
  ho_available :: bool
  ho_state :: string
  ho_checked_at :: "string option"

record operator_reads =
  op_hosts :: "host_record list"
  op_operations :: "operation_record list"

record probe =
  pr_url :: string
  pr_checked_at :: string
  pr_status :: "int option"
  pr_latency_ms :: "int option"
  pr_marker :: "string option"
  pr_body_ok :: "bool option"
  pr_error :: "string option"

section \<open>Fields\<close>

text \<open>Python's \<open>float\<close>, a number given by its \<open>repr\<close>: \<open>x < 0\<close>, \<open>int(x)\<close> (\<open>None\<close> where it raises
  \<open>OverflowError\<close>), \<open>0 <= x < 1_000_000\<close>, \<open>format(x, ".1f")\<close> of any number, and \<open>str(x)\<close> of a value.\<close>

record python_ops =
  py_negative :: "string \<Rightarrow> bool"
  py_int :: "string \<Rightarrow> int option"
  py_load :: "string \<Rightarrow> bool"
  py_fixed1 :: "json \<Rightarrow> string"
  py_str :: "json \<Rightarrow> string"

definition IMAGE_ROLES :: "string list" where
  "IMAGE_ROLES = [''admin'', ''ingress'', ''storage'', ''worker'', ''builder'']"

definition DEPLOYMENT_STATUSES :: "string list" where
  "DEPLOYMENT_STATUSES = [''queued'', ''building'', ''deploying'', ''succeeded'', ''failed'', ''recovery_required'']"
definition OPERATION_STATUSES :: "string list" where
  "OPERATION_STATUSES = [''running'', ''succeeded'', ''failed'', ''recovery_required'']"
definition RESOURCE_TYPES :: "string list" where
  "RESOURCE_TYPES = [''postgres'', ''mongo'', ''s3'']"
definition RESOURCE_STATES :: "string list" where
  "RESOURCE_STATES = [''creating'', ''active'', ''removing'', ''recovery_required'']"
definition HOST_STATES :: "string list" where
  "HOST_STATES = [''active'', ''building'', ''error'', ''missing'', ''stopped'', ''unknown'']"
definition RUNTIMES :: "string list" where
  "RUNTIMES = [''bun'', ''node'']"
definition QUOTA_KEYS :: "string list" where
  "QUOTA_KEYS = [''sizeBytes'', ''connections'', ''memoryBytes'', ''cpuMillicores'', ''s3Bytes'', ''s3Objects'']"

definition KIND_re :: "string \<Rightarrow> bool" where
  "KIND_re = matches_head_rest is_lower (\<lambda>c. lower_alnum c \<or> c \<in> set ''.-'') 63"
definition PHASE_re :: "string \<Rightarrow> bool" where
  "PHASE_re = matches_head_rest is_lower (\<lambda>c. lower_alnum c \<or> c \<in> set ''_.:-'') 63"
definition SCOPE_re :: "string \<Rightarrow> bool" where
  "SCOPE_re s \<longleftrightarrow> s = ''infrastructure'' \<or>
     starts_with ''app-'' s \<and> matches_exact (\<lambda>c. is_hex c \<or> c = CHR ''-'') 36 (drop 4 s)"
definition STATE_WORD_re :: "string \<Rightarrow> bool" where
  "STATE_WORD_re = matches_head_rest is_lower (\<lambda>c. is_lower c \<or> c \<in> set ''_-'') 31"
definition DISPLAY_NAME_re :: "string \<Rightarrow> bool" where
  "DISPLAY_NAME_re = matches_head_rest is_alnum (\<lambda>c. is_alnum c \<or> c \<in> set ''._:-'') 127"
definition FEATURE_re :: "string \<Rightarrow> bool" where
  "FEATURE_re = matches_head_rest is_lower (\<lambda>c. lower_alnum c \<or> c = CHR ''-'') 63"
definition ERROR_NAME_re :: "string \<Rightarrow> bool" where
  "ERROR_NAME_re = matches_head_rest (\<lambda>c. is_lower c \<or> is_upper c) is_alnum 63"
definition ERROR_CODE_re :: "string \<Rightarrow> bool" where
  "ERROR_CODE_re = matches_head_rest is_upper (\<lambda>c. is_upper c \<or> is_digit c \<or> c = CHR ''_'') 63"
definition STORAGE_NAME_re :: "string \<Rightarrow> bool" where
  "STORAGE_NAME_re = matches_head_rest is_lower (\<lambda>c. lower_alnum c \<or> c = CHR ''-'') 39"

text \<open>\<open>(\d{4}-\d\d-\d\dT\d\d:\d\d:\d\d)(?:\.\d{1,6})?(?:Z|\+00:00)\<close>\<close>

definition iso_seconds :: "string \<Rightarrow> bool" where
  "iso_seconds s \<longleftrightarrow> length s = 19 \<and>
     list_all is_digit (take 4 s @ take 2 (drop 5 s) @ take 2 (drop 8 s) @ take 2 (drop 11 s) @ take 2 (drop 14 s) @ drop 17 s) \<and>
     s ! 4 = CHR ''-'' \<and> s ! 7 = CHR ''-'' \<and> s ! 10 = CHR ''T'' \<and> s ! 13 = CHR '':'' \<and> s ! 16 = CHR '':''"

definition iso_rest :: "string \<Rightarrow> bool" where
  "iso_rest s \<longleftrightarrow> s \<in> {''Z'', ''+00:00''} \<or>
     (starts_with ''.'' s \<and>
      (let digits = takeWhile is_digit (drop 1 s)
       in 1 \<le> length digits \<and> length digits \<le> 6 \<and> drop (length digits) (drop 1 s) \<in> {''Z'', ''+00:00''}))"

definition timestamp :: "json \<Rightarrow> string option" where
  "timestamp value =
     (case value of
        JStr s \<Rightarrow> if length s > 40 then None
                  else if iso_seconds (take 19 s) \<and> iso_rest (drop 19 s) then Some (take 19 s @ ''Z'') else None
      | _ \<Rightarrow> None)"

text \<open>\<open>str.isprintable\<close> and \<open>" ".join(s.split())\<close> on the 8-bit code points.\<close>

definition is_printable :: "char \<Rightarrow> bool" where
  "is_printable c \<longleftrightarrow>
     (let n = of_char c :: nat in 32 \<le> n \<and> n \<le> 126 \<or> 161 \<le> n \<and> n \<noteq> 173)"

fun words_from :: "string \<Rightarrow> string \<Rightarrow> string list" where
  "words_from w [] = (if w = [] then [] else [rev w])"
| "words_from w (c # s) =
     (if is_space c then (if w = [] then words_from [] s else rev w # words_from [] s) else words_from (c # w) s)"

definition split_words :: "string \<Rightarrow> string list" where
  "split_words s = words_from [] s"

definition safe_text :: "json \<Rightarrow> nat \<Rightarrow> string option" where
  "safe_text value maximum =
     (case value of
        JStr s \<Rightarrow>
          (let printable = map (\<lambda>c. if is_printable c then c else CHR '' '') s;
               cleaned = join_with '' '' (split_words (redact_text [] printable))
           in if cleaned = [] then None
              else Some (if length cleaned \<le> maximum then cleaned
                         else rev (dropWhile is_space (rev (take (maximum - 1) cleaned))) @ [CHR 0x85]))
      | _ \<Rightarrow> None)"

definition match :: "(string \<Rightarrow> bool) \<Rightarrow> json \<Rightarrow> string option" where
  "match pattern value = (case value of JStr s \<Rightarrow> if pattern s then Some s else None | _ \<Rightarrow> None)"

definition member_of :: "json \<Rightarrow> string list \<Rightarrow> string option" where
  "member_of value allowed = match (\<lambda>s. s \<in> set allowed) value"

definition accepted :: "(string \<Rightarrow> string result) \<Rightarrow> json \<Rightarrow> string option" where
  "accepted f value = (case value of JStr s \<Rightarrow> (case f s of Inl _ \<Rightarrow> None | Inr x \<Rightarrow> Some x) | _ \<Rightarrow> None)"

definition uuid_of :: "json \<Rightarrow> string option" where
  "uuid_of = accepted (uuid ''value'')"

definition commit_of :: "json \<Rightarrow> string option" where
  "commit_of = accepted commit"

definition integer_of :: "int \<Rightarrow> int \<Rightarrow> json \<Rightarrow> int option" where
  "integer_of minimum maximum value =
     (case value of JInt i \<Rightarrow> if minimum \<le> i \<and> i \<le> maximum then Some i else None | _ \<Rightarrow> None)"

definition natural :: "json \<Rightarrow> int option" where
  "natural = integer_of 0 (2 ^ 53)"

definition https_url :: "json \<Rightarrow> string option" where
  "https_url =
     match (\<lambda>s. length s \<le> 512 \<and> starts_with ''https://'' s \<and> list_all (\<lambda>c. \<not> is_space c \<and> is_printable c) s)"

text \<open>The mapping a value is, or the empty one.\<close>

definition mapping_of :: "json \<Rightarrow> jdict" where
  "mapping_of value = (case value of JObj d \<Rightarrow> d | _ \<Rightarrow> [])"

section \<open>Record parsers\<close>

text \<open>Each parser gives \<open>None\<close> for a value it drops, or raises.\<close>

definition image_of :: "string option \<Rightarrow> json \<Rightarrow> image_record option" where
  "image_of role value =
     (case value of
        JObj d \<Rightarrow>
          (case (case role of Some r \<Rightarrow> JStr r | None \<Rightarrow> jget d ''role'') of
             JStr r \<Rightarrow>
               if r \<notin> set IMAGE_ROLES then None
               else Some \<lparr>im_role = r, im_display_name = match DISPLAY_NAME_re (jget d ''displayName''),
                      im_source_commit = commit_of (jget d ''sourceCommit''), im_selected_at = timestamp (jget d ''selectedAt'')\<rparr>
           | _ \<Rightarrow> None)
      | _ \<Rightarrow> None)"

definition application_of :: "json \<Rightarrow> application_record option" where
  "application_of value =
     (case value of
        JObj d \<Rightarrow>
          (case (accepted slug (jget d ''slug''), uuid_of (jget d ''applicationId''), jget d ''enabled'') of
             (Some s, Some identifier, JBool enabled) \<Rightarrow>
               (let sizing = mapping_of (jget d ''sizing'')
                in Some \<lparr>ap_application_id = identifier, ap_slug = s, ap_enabled = enabled,
                      ap_active_deployment_id = uuid_of (jget d ''activeDeploymentId''), ap_url = https_url (jget d ''url''),
                      ap_worker_flavor = match flavor_re (jget sizing ''workerFlavor''),
                      ap_cpu_mhz = integer_of 1 (2 ^ 53) (jget sizing ''cpuMHz''),
                      ap_memory_mib = integer_of 1 (2 ^ 53) (jget sizing ''memoryMiB''),
                      ap_created_at = timestamp (jget d ''createdAt''), ap_updated_at = timestamp (jget d ''updatedAt''),
                      ap_deleted_at = timestamp (jget d ''deletedAt'')\<rparr>)
           | _ \<Rightarrow> None)
      | _ \<Rightarrow> None)"

text \<open>\<open>repository_url\<close> lets a \<open>ValueError\<close> of \<open>urlsplit\<close> pass, which the parser does not catch.\<close>

definition repository_of :: "(string \<Rightarrow> bool) \<Rightarrow> json \<Rightarrow> string option result" where
  "repository_of B value =
     (case value of
        JStr s \<Rightarrow> (case repository_url B s of Inr r \<Rightarrow> Inr (Some r) | Inl (ValidationError _) \<Rightarrow> Inr None | Inl e \<Rightarrow> Inl e)
      | _ \<Rightarrow> Inr None)"

definition deployment_of :: "(string \<Rightarrow> bool) \<Rightarrow> json \<Rightarrow> deployment_record option result" where
  "deployment_of B value =
     (case value of
        JObj d \<Rightarrow>
          (case (uuid_of (jget d ''deploymentId''), uuid_of (jget d ''applicationId''), member_of (jget d ''status'') DEPLOYMENT_STATUSES) of
             (Some identifier, Some application_id, Some status) \<Rightarrow>
               (let configuration = mapping_of (jget d ''configuration'');
                    build = mapping_of (jget configuration ''build'');
                    settings = mapping_of (jget configuration ''runtime'')
                in rbind (repository_of B (jget d ''sourceRepository'')) (\<lambda>repository.
                     Inr (Some \<lparr>dr_deployment_id = identifier, dr_application_id = application_id, dr_status = status,
                       dr_source_commit = commit_of (jget d ''repositoryCommit''),
                       dr_requested_ref = safe_text (jget d ''requestedRef'') 128, dr_repository = repository,
                       dr_runtime = member_of (jget build ''runtime'') RUNTIMES,
                       dr_port = integer_of 1 65535 (jget settings ''port''),
                       dr_health_path = accepted health_path (jget settings ''healthPath''),
                       dr_configuration_revision = natural (jget d ''configurationRevision''),
                       dr_image_digest = match oci_digest_re (jget d ''imageDigest''),
                       dr_safe_error = safe_text (jget d ''safeError'') 600,
                       dr_cleanup_state = match STATE_WORD_re (jget d ''cleanupState''),
                       dr_requested_at = timestamp (jget d ''requestedAt''), dr_updated_at = timestamp (jget d ''updatedAt''),
                       dr_accepted_at = timestamp (jget d ''acceptedAt''), dr_last_healthy_at = timestamp (jget d ''lastHealthyAt'')\<rparr>)))
           | _ \<Rightarrow> Inr None)
      | _ \<Rightarrow> Inr None)"

definition storage_usage :: "json \<Rightarrow> storage_usage_record" where
  "storage_usage value =
     (let raw = mapping_of value
      in \<lparr>us_counters = map (\<lambda>key. (key, natural (jget raw key)))
             [''usedBytes'', ''objectCount'', ''currentConnections'', ''instanceMemoryBytes'', ''cpuTimeMilliseconds''],
          us_measured_at = timestamp (jget raw ''measuredAt''), us_stale = (jget raw ''stale'' \<noteq> JBool False)\<rparr>)"

definition storage_write_block :: "json \<Rightarrow> write_block_record" where
  "storage_write_block value =
     (let raw = mapping_of value
      in \<lparr>wb_blocked = (jget raw ''blocked'' = JBool True),
          wb_reason = (if jget raw ''reason'' = JStr ''size_limit_exceeded'' then Some ''size_limit_exceeded'' else None),
          wb_since = timestamp (jget raw ''since'')\<rparr>)"

definition int_pair :: "jdict \<Rightarrow> string \<Rightarrow> string \<Rightarrow> string \<Rightarrow> (int \<times> int) option" where
  "int_pair d key first second =
     (case jget d key of
        JObj raw \<Rightarrow> (case (natural (jget raw first), natural (jget raw second)) of (Some a, Some b) \<Rightarrow> Some (a, b) | _ \<Rightarrow> None)
      | _ \<Rightarrow> None)"

fun load_ok :: "python_ops \<Rightarrow> json \<Rightarrow> bool" where
  "load_ok F (JInt n) = (0 \<le> n \<and> n < 1000000)"
| "load_ok F (JFloat x) = py_load F x"
| "load_ok F _ = False"

definition container_of :: "json \<Rightarrow> (string \<times> int \<times> int) option" where
  "container_of value =
     (case value of
        JObj raw \<Rightarrow>
          (case (match DISPLAY_NAME_re (jget raw ''name''), natural (jget raw ''usedBytes''), natural (jget raw ''limitBytes'')) of
             (Some name, Some used, Some limit) \<Rightarrow> Some (name, used, limit) | _ \<Rightarrow> None)
      | _ \<Rightarrow> None)"

definition storage_host_of :: "python_ops \<Rightarrow> json \<Rightarrow> storage_host_record option" where
  "storage_host_of F value =
     (case value of
        JObj d \<Rightarrow>
          (case (timestamp (jget d ''measuredAt''), integer_of 1 (2 ^ 53) (jget d ''cpuCount''), jget d ''loadAverage'') of
             (Some measured, Some cpu, JArr load) \<Rightarrow>
               if length load \<noteq> 3 \<or> \<not> list_all (load_ok F) load then None
               else (case (int_pair d ''memory'' ''totalBytes'' ''availableBytes'', int_pair d ''dataVolume'' ''totalBytes'' ''usedBytes'',
                           int_pair d ''postgresConnections'' ''current'' ''limit'', int_pair d ''mongoConnections'' ''current'' ''limit'') of
                       (Some memory, Some volume, Some postgres, Some mongo) \<Rightarrow>
                         Some \<lparr>sh_measured_at = measured, sh_stale = (jget d ''stale'' \<noteq> JBool False), sh_cpu_count = cpu,
                           sh_load_average = load, sh_memory = memory, sh_data_volume = volume,
                           sh_postgres_connections = postgres, sh_mongo_connections = mongo,
                           sh_containers = (case jget d ''containers'' of JArr raws \<Rightarrow> List.map_filter container_of raws | _ \<Rightarrow> [])\<rparr>
                     | _ \<Rightarrow> None)
           | _ \<Rightarrow> None)
      | _ \<Rightarrow> None)"

definition storage_of :: "json \<Rightarrow> storage_record option" where
  "storage_of value =
     (case value of
        JObj d \<Rightarrow>
          (case (uuid_of (jget d ''resourceId''), uuid_of (jget d ''applicationId''), member_of (jget d ''type'') RESOURCE_TYPES,
                 member_of (jget d ''lifecycleState'') RESOURCE_STATES, match STORAGE_NAME_re (jget d ''name'')) of
             (Some identifier, Some application_id, Some kind, Some state, Some name) \<Rightarrow>
               (let raw = mapping_of (jget d ''quotas'')
                in Some \<lparr>sr_resource_id = identifier, sr_application_id = application_id, sr_resource_type = kind, sr_name = name,
                      sr_display_label = safe_text (jget d ''displayLabel'') 80, sr_lifecycle_state = state,
                      sr_quotas = List.map_filter (\<lambda>key. map_option (\<lambda>q. (key, q)) (natural (jget raw key))) QUOTA_KEYS,
                      sr_last_verified_at = timestamp (jget d ''lastVerifiedAt''),
                      sr_usage = storage_usage (jget d ''usage''), sr_write_block = storage_write_block (jget d ''writeBlock'')\<rparr>)
           | _ \<Rightarrow> None)
      | _ \<Rightarrow> None)"

definition operation_of :: "json \<Rightarrow> operation_record option" where
  "operation_of value =
     (case value of
        JObj d \<Rightarrow>
          (case (uuid_of (jget d ''operationId''), match KIND_re (jget d ''kind''), match SCOPE_re (jget d ''scope''),
                 member_of (jget d ''status'') OPERATION_STATUSES) of
             (Some identifier, Some kind, Some scope, Some status) \<Rightarrow>
               Some \<lparr>or_operation_id = identifier, or_kind = kind, or_scope = scope, or_status = status,
                 or_phase = match PHASE_re (jget d ''phase''), or_started_at = timestamp (jget d ''startedAt''),
                 or_updated_at = timestamp (jget d ''updatedAt''), or_deadline_at = timestamp (jget d ''deadlineAt''),
                 or_safe_error = safe_text (jget d ''safeError'') 600, or_cleanup_state = match STATE_WORD_re (jget d ''cleanupState'')\<rparr>
           | _ \<Rightarrow> None)
      | _ \<Rightarrow> None)"

text \<open>\<open>s[:1].upper() + s[1:]\<close>; the texts it is applied to begin with an ASCII character.\<close>

definition upper_char :: "char \<Rightarrow> char" where
  "upper_char c = (if is_lower c then char_of (of_char c - (32 :: nat)) else c)"

definition upper_first :: "string \<Rightarrow> string" where
  "upper_first s = map upper_char (take 1 s) @ drop 1 s"

definition health_report_of :: "json \<Rightarrow> health_report option" where
  "health_report_of value =
     (case value of
        JObj d \<Rightarrow>
          (case jget d ''healthy'' of
             JBool healthy \<Rightarrow>
               Some \<lparr>he_checked_at = timestamp (jget d ''checked_at''), he_healthy = healthy,
                 he_checks = mapping_of (jget d ''checks''),
                 he_error = map_option (\<lambda>e. if starts_with ''RuntimeError: '' e then upper_first (drop 14 e) else e)
                              (safe_text (jget d ''error'') 400)\<rparr>
           | _ \<Rightarrow> None)
      | _ \<Rightarrow> None)"

section \<open>The admin read\<close>

definition reader_error :: "jdict \<Rightarrow> string" where
  "reader_error sect =
     (let name = (case match ERROR_NAME_re (jget sect ''error'') of Some n \<Rightarrow> n | None \<Rightarrow> ''UnknownError'');
          readable = (case dict_get
             [(''ConnectionRefusedError'', ''the controller socket refused the connection''),
              (''FileNotFoundError'', ''the controller socket is absent''),
              (''PermissionError'', ''the controller socket rejected the operator identity''),
              (''TimeoutError'', ''the controller did not answer in time''),
              (''ResponseTooLarge'', ''the controller response exceeded its limit''),
              (''InvalidJson'', ''the controller returned malformed JSON'')] name of
             Some r \<Rightarrow> r | None \<Rightarrow> ''the admin read failed ('' @ name @ '')'')
      in case integer_of 100 599 (jget sect ''status'') of
           None \<Rightarrow> readable | Some status \<Rightarrow> readable @ '' (HTTP '' @ int_text status @ '')'')"

text \<open>Python's \<open>==\<close> of a decoded number with a small integer; \<open>True\<close> equals 1.\<close>

fun equals_int :: "json \<Rightarrow> int \<Rightarrow> bool" where
  "equals_int (JInt i) n = (i = n)"
| "equals_int (JFloat x) n = (x = int_text n @ ''.0'')"
| "equals_int (JBool b) n = (n = (if b then 1 else 0))"
| "equals_int _ n = False"

text \<open>A section of the envelope: its body, or why it is missing.\<close>

definition section_of :: "jdict \<Rightarrow> string \<Rightarrow> string + json" where
  "section_of document key =
     (case jget document key of
        JObj sect \<Rightarrow>
          if dict_get sect ''error'' \<noteq> None then Inl (reader_error sect)
          else if \<not> equals_int (jget sect ''status'') 200 then
            (let code = (case jget sect ''body'' of
                    JObj body \<Rightarrow> (case jget body ''error'' of JObj e \<Rightarrow> match ERROR_CODE_re (jget e ''code'') | _ \<Rightarrow> None)
                  | _ \<Rightarrow> None);
                 summary = ''the controller returned HTTP '' @
                   (case natural (jget sect ''status'') of Some n \<Rightarrow> (if n = 0 then ''error'' else int_text n) | None \<Rightarrow> ''error'')
             in Inl (case code of None \<Rightarrow> summary | Some c \<Rightarrow> summary @ '' ('' @ c @ '')''))
          else Inr (jget sect ''body'')
      | _ \<Rightarrow> Inl ''the admin read omitted this section'')"

definition parse_record :: "('a \<Rightarrow> 'b option result) \<Rightarrow> 'a \<Rightarrow> 'b option" where
  "parse_record parser raw = (case parser raw of Inl _ \<Rightarrow> None | Inr x \<Rightarrow> x)"

text \<open>The records of a section, whether it was truncated, and the errors so far.\<close>

definition items_of ::
  "jdict \<Rightarrow> string \<Rightarrow> (json \<Rightarrow> 'a option result) \<Rightarrow> (string \<times> string) list \<Rightarrow> 'a list \<times> bool \<times> (string \<times> string) list" where
  "items_of document key parser errors =
     (case section_of document key of
        Inl e \<Rightarrow> ([], False, dict_put key e errors)
      | Inr (JObj body) \<Rightarrow>
          (case jget body ''items'' of
             JArr raws \<Rightarrow> (List.map_filter (parse_record parser) raws, jget body ''truncated'' = JBool True, errors)
           | _ \<Rightarrow> ([], False, dict_put key ''the controller returned an unexpected list shape'' errors))
      | Inr _ \<Rightarrow> ([], False, dict_put key ''the controller returned an unexpected list shape'' errors))"

definition health_of :: "json \<Rightarrow> health_report option \<times> string option" where
  "health_of sect =
     (case sect of
        JObj d \<Rightarrow>
          (case dict_get d ''body'' of
             Some body \<Rightarrow> (case health_report_of body of
                 None \<Rightarrow> (None, Some ''the platform-health snapshot is malformed'') | Some h \<Rightarrow> (Some h, None))
           | None \<Rightarrow>
               (None, Some (case jget d ''error'' of
                  JStr name \<Rightarrow>
                    (case dict_get
                       [(''Missing'', ''the platform-health timer has not written a snapshot yet''),
                        (''PermissionError'', ''the platform-health snapshot is not readable by the operator''),
                        (''TooLarge'', ''the platform-health snapshot exceeded its limit''),
                        (''InvalidJson'', ''the platform-health snapshot is malformed'')] name of
                       Some e \<Rightarrow> e | None \<Rightarrow> ''the platform-health snapshot could not be read'')
                | _ \<Rightarrow> ''the platform-health snapshot could not be read'')))
      | _ \<Rightarrow> (None, Some ''the platform-health snapshot could not be read''))"

definition units_of :: "json \<Rightarrow> (string \<times> string) list option" where
  "units_of sect =
     (case sect of
        JObj d \<Rightarrow>
          (case jget d ''states'' of
             JObj states \<Rightarrow>
               Some (List.map_filter (\<lambda>name. map_option (\<lambda>s. (name, s)) (match STATE_WORD_re (jget states name))) [''controller'', ''readiness''])
           | _ \<Rightarrow> None)
      | _ \<Rightarrow> None)"

definition status_of :: "python_ops \<Rightarrow> jdict \<Rightarrow> (string \<times> string) list \<Rightarrow> storage_host_record option \<times> (string \<times> string) list" where
  "status_of F document errors =
     (case section_of document ''status'' of
        Inl e \<Rightarrow> (None, dict_put ''status'' e errors)
      | Inr (JObj status) \<Rightarrow>
          (let host = storage_host_of F (jget status ''storageHost'')
           in (host,
               if dict_get status ''storageHost'' = None \<or> jget status ''storageHost'' \<noteq> JNull \<and> host = None
               then dict_put ''status'' ''the controller returned an unexpected storage host shape'' errors else errors))
      | Inr _ \<Rightarrow> (None, dict_put ''status'' ''the controller returned an unexpected storage host shape'' errors))"

definition READER_VERSION :: int where "READER_VERSION = 1"

text \<open>\<open>payload\<close> is the object the bytes decode to, \<open>None\<close> where decoding raises \<open>ProtocolError\<close>.\<close>

definition parse_admin_reads :: "python_ops \<Rightarrow> (string \<Rightarrow> bool) \<Rightarrow> jdict option \<Rightarrow> admin_reads result" where
  "parse_admin_reads F B payload =
     (case payload of
        None \<Rightarrow> Inl (SourceError ''the admin reader returned malformed output'')
      | Some document \<Rightarrow>
          if \<not> equals_int (jget document ''version'') READER_VERSION
          then Inl (SourceError ''the admin reader reported an unsupported version'')
          else
            let capabilities = section_of document ''capabilities'';
                errors = (case capabilities of Inl e \<Rightarrow> [(''capabilities'', e)] | Inr _ \<Rightarrow> []);
                caps = (case capabilities of Inr (JObj d) \<Rightarrow> d | _ \<Rightarrow> []);
                (images, _, errors) = items_of document ''images'' (\<lambda>v. Inr (image_of None v)) errors;
                (applications, _, errors) = items_of document ''applications'' (\<lambda>v. Inr (application_of v)) errors;
                (deployments, deployments_truncated, errors) = items_of document ''deployments'' (deployment_of B) errors;
                (storage, _, errors) = items_of document ''storage'' (\<lambda>v. Inr (storage_of v)) errors;
                (operations, operations_truncated, errors) = items_of document ''operations'' (\<lambda>v. Inr (operation_of v)) errors;
                units = units_of (jget document ''units'');
                errors = (if units = None then dict_put ''units'' ''systemd unit state was unavailable'' errors else errors);
                (health, health_error) = health_of (jget document ''health'');
                (storage_host, errors) = status_of F document errors
            in Inr \<lparr>rd_api_version = integer_of 1 1000 (jget caps ''apiVersion''),
                 rd_features = (case jget caps ''features'' of JArr fs \<Rightarrow> List.map_filter (match FEATURE_re) fs | _ \<Rightarrow> []),
                 rd_images = images, rd_applications = applications, rd_deployments = deployments,
                 rd_deployments_truncated = deployments_truncated, rd_storage = storage, rd_operations = operations,
                 rd_operations_truncated = operations_truncated, rd_controller_units = units, rd_health = health,
                 rd_health_error = health_error, rd_section_errors = errors, rd_storage_host = storage_host\<rparr>)"

definition parse_operator_reads :: "jdict list \<Rightarrow> json list \<Rightarrow> operator_reads" where
  "parse_operator_reads roles operations =
     \<lparr>op_hosts = List.map_filter
        (\<lambda>item. case jget item ''role'' of
             JStr role \<Rightarrow>
               if role \<notin> set IMAGE_ROLES then None
               else (let live = mapping_of (jget item ''live'')
                     in Some \<lparr>ho_role = role, ho_image = image_of (Some role) (jget item ''image''),
                          ho_available = (jget live ''available'' = JBool True),
                          ho_state = (case member_of (jget live ''state'') HOST_STATES of Some s \<Rightarrow> s | None \<Rightarrow> ''unknown''),
                          ho_checked_at = timestamp (jget live ''checkedAt'')\<rparr>)
           | _ \<Rightarrow> None) roles,
      op_operations = List.map_filter operation_of operations\<rparr>"

section \<open>What the parsers admit\<close>

text \<open>The vocabulary the rest of the dashboard relies on.\<close>

definition operation_ok :: "operation_record \<Rightarrow> bool" where
  "operation_ok r \<longleftrightarrow> or_status r \<in> set OPERATION_STATUSES"

definition deployment_ok :: "deployment_record \<Rightarrow> bool" where
  "deployment_ok r \<longleftrightarrow> dr_status r \<in> set DEPLOYMENT_STATUSES \<and>
     (case dr_health_path r of Some p \<Rightarrow> health_path p = Inr p | None \<Rightarrow> True)"

definition storage_ok :: "storage_record \<Rightarrow> bool" where
  "storage_ok r \<longleftrightarrow> sr_resource_type r \<in> set RESOURCE_TYPES \<and> sr_lifecycle_state r \<in> set RESOURCE_STATES"

definition application_ok :: "application_record \<Rightarrow> bool" where
  "application_ok r \<longleftrightarrow> slug (ap_slug r) = Inr (ap_slug r)"

definition reads_ok :: "admin_reads \<Rightarrow> bool" where
  "reads_ok r \<longleftrightarrow> list_all application_ok (rd_applications r) \<and> list_all deployment_ok (rd_deployments r) \<and>
     list_all storage_ok (rd_storage r) \<and> list_all operation_ok (rd_operations r)"

definition operator_ok :: "operator_reads \<Rightarrow> bool" where
  "operator_ok r \<longleftrightarrow> list_all operation_ok (op_operations r)"

lemma in_map_filter: "x \<in> set (List.map_filter f xs) \<longleftrightarrow> (\<exists>a \<in> set xs. f a = Some x)"
  by (induction xs) (auto simp: List.map_filter_simps split: option.split)

lemma match_SomeD: "match P v = Some s \<Longrightarrow> P s"
  by (auto simp: match_def split: json.splits if_splits)

lemma member_of_SomeD: "member_of v allowed = Some s \<Longrightarrow> s \<in> set allowed"
  by (auto simp: member_of_def dest: match_SomeD)

lemma accepted_SomeD:
  assumes "accepted f v = Some s" and "\<And>x y. f x = Inr y \<Longrightarrow> y = x"
  shows "f s = Inr s"
proof -
  obtain x where "f x = Inr s" using assms(1) by (auto simp: accepted_def split: json.splits sum.splits)
  then show ?thesis using assms(2) by blast
qed

lemma slug_same: "slug x = Inr y \<Longrightarrow> y = x"
  by (auto simp: slug_def split: if_splits)

lemma operation_of_ok: "operation_of v = Some r \<Longrightarrow> operation_ok r"
  by (auto simp: operation_of_def operation_ok_def dest: member_of_SomeD split: json.splits option.splits)

lemma storage_of_ok: "storage_of v = Some r \<Longrightarrow> storage_ok r"
  by (auto simp: storage_of_def storage_ok_def Let_def dest: member_of_SomeD split: json.splits option.splits)

lemma application_of_ok: "application_of v = Some r \<Longrightarrow> application_ok r"
  by (auto simp: application_of_def application_ok_def Let_def dest: accepted_SomeD [OF _ slug_same] split: json.splits option.splits)

lemma deployment_of_ok:
  assumes "deployment_of B v = Inr (Some r)"
  shows "deployment_ok r"
proof -
  obtain d where "v = JObj d" using assms by (auto simp: deployment_of_def split: json.splits)
  then obtain build settings repository status where
    "member_of (jget d ''status'') DEPLOYMENT_STATUSES = Some status" "dr_status r = status"
    "dr_health_path r = accepted health_path (jget settings ''healthPath'')"
    using assms by (auto simp: deployment_of_def Let_def result_simps split: option.splits)
  then show ?thesis
    by (auto simp: deployment_ok_def dest: member_of_SomeD accepted_SomeD [OF _ health_path_same] split: option.splits)
qed

lemma items_of_parsed:
  assumes "items_of document key parser errors = (xs, t, es)" "x \<in> set xs"
  shows "\<exists>raw. parser raw = Inr (Some x)"
proof -
  obtain raw where "parse_record parser raw = Some x"
    using assms by (auto simp: items_of_def in_map_filter split: sum.splits json.splits)
  then show ?thesis by (cases "parser raw") (auto simp: parse_record_def)
qed

lemma items_of_all:
  assumes "items_of document key parser errors = (xs, t, es)" "\<And>raw x. parser raw = Inr (Some x) \<Longrightarrow> P x"
  shows "list_all P xs"
  using items_of_parsed [OF assms(1)] assms(2) by (auto simp: list_all_iff)

lemma parse_admin_reads_ok:
  assumes "parse_admin_reads F B payload = Inr r"
  shows "reads_ok r"
proof -
  obtain document e1 e2 e3 e4 e5 e6 e7 e8 t1 t2 t3 t4 where
    "items_of document ''applications'' (\<lambda>v. Inr (application_of v)) e1 = (rd_applications r, t1, e2)"
    "items_of document ''deployments'' (deployment_of B) e3 = (rd_deployments r, t2, e4)"
    "items_of document ''storage'' (\<lambda>v. Inr (storage_of v)) e5 = (rd_storage r, t3, e6)"
    "items_of document ''operations'' (\<lambda>v. Inr (operation_of v)) e7 = (rd_operations r, t4, e8)"
    using assms unfolding parse_admin_reads_def Let_def
    by (auto simp: case_prod_beta prod_eq_iff split: option.splits if_splits)
  then show ?thesis
    unfolding reads_ok_def
    using items_of_all [where P = application_ok] items_of_all [where P = deployment_ok] items_of_all [where P = storage_ok]
      items_of_all [where P = operation_ok] application_of_ok deployment_of_ok storage_of_ok operation_of_ok
    by (metis Inr_inject)
qed

lemma parse_operator_reads_ok: "operator_ok (parse_operator_reads roles operations)"
  by (auto simp: operator_ok_def parse_operator_reads_def list_all_iff in_map_filter operation_of_ok)

end
