(* ===== verification/Dashboard_Model.thy ===== *)
theory Dashboard_Model
  imports Dashboard_Sources Calendar
begin

text \<open>
  The projection from evidence to the snapshot the dashboard serves (\<open>dashboard/model.py\<close>), one
  definition per function. The documents it builds are records with the fields of the source's
  dictionaries; statuses, tones and outcomes are the source's words. A lookup that raises \<open>KeyError\<close> and
  an \<open>int\<close> that raises \<open>OverflowError\<close> are results. \<open>F\<close> is what the code asks of Python's numbers and \<open>str\<close>.
\<close>

section \<open>Vocabulary\<close>

definition HEALTH_SNAPSHOT_STALE_SECONDS :: int where "HEALTH_SNAPSHOT_STALE_SECONDS = 900"
definition RECENT_OPERATIONS :: nat where "RECENT_OPERATIONS = 30"
definition APPLICATION_HISTORY :: nat where "APPLICATION_HISTORY = 6"
definition TONES :: "string list" where "TONES = [''critical'', ''warning'', ''info'', ''neutral'', ''good'']"

definition ROLES :: "(string \<times> string \<times> string \<times> string) list" where
  "ROLES =
     [(''admin'', ''Admin'', ''persistent'', ''Nomad control, controller, helper, monitoring, and backups''),
      (''ingress'', ''Ingress'', ''persistent'', ''Public HTTPS entry and routing to healthy applications''),
      (''storage'', ''Storage'', ''persistent'', ''PostgreSQL, MongoDB, Garage S3, and the image registry''),
      (''worker'', ''Worker'', ''replaceable'', ''One dedicated Nomad worker per running application''),
      (''builder'', ''Builder'', ''single-use'', ''Disposable rootless BuildKit host for one source build'')]"

definition LIFETIMES :: "(string \<times> string) list" where
  "LIFETIMES = [(''persistent'', ''Persistent''), (''replaceable'', ''Replaceable''), (''single-use'', ''Single use'')]"

definition HOST_STATE_LABELS :: "(string \<times> string \<times> string) list" where
  "HOST_STATE_LABELS =
     [(''active'', ''Active'', ''good''), (''building'', ''Building'', ''info''), (''stopped'', ''Stopped'', ''critical''),
      (''error'', ''Error'', ''critical''), (''missing'', ''Missing'', ''critical'')]"

definition HEALTH_CHECKS :: "(string \<times> string \<times> string) list" where
  "HEALTH_CHECKS =
     [(''openstack'', ''OpenStack servers'', ''critical''), (''public_ingress'', ''Public ingress'', ''critical''),
      (''managed_services'', ''Managed services'', ''critical''), (''nomad'', ''Nomad cluster'', ''critical''),
      (''backup'', ''Encrypted backups'', ''warning''), (''offsite_recovery'', ''Off-site recovery'', ''warning'')]"

definition KIND_LABELS :: "(string \<times> string) list" where
  "KIND_LABELS =
     [(''app.deploy'', ''Deployment''), (''app.enable'', ''Enable''), (''app.disable'', ''Disable''), (''app.delete'', ''Deletion''),
      (''app.env.set'', ''Environment update''), (''app.env.unset'', ''Environment removal''), (''app.env.import'', ''Environment import''),
      (''app.fixed-ip'', ''Fixed IPv4 change''), (''app.public-ip'', ''Public IPv4 change''),
      (''storage.create'', ''Storage creation''), (''storage.verify'', ''Storage verification''), (''storage.rotate'', ''Credential rotation''),
      (''storage.remove'', ''Storage removal''), (''storage.limits.set'', ''Storage limits change''),
      (''storage.postgres.repair'', ''PostgreSQL settings repair''), (''infra.image.set'', ''Image selection''),
      (''infra.image.prune.plan'', ''Image prune plan''), (''infra.image.prune.apply'', ''Image prune''),
      (''infra.start'', ''Host start''), (''infra.stop'', ''Host stop''), (''infra.reboot'', ''Host reboot''), (''infra.replace'', ''Host replacement'')]"

definition ACTIVE_VERBS :: "(string \<times> string) list" where
  "ACTIVE_VERBS = [(''app.deploy'', ''Deploying''), (''app.enable'', ''Starting''), (''app.disable'', ''Stopping''), (''app.delete'', ''Deleting'')]"

definition OPERATION_STATUS_LABELS :: "(string \<times> string \<times> string) list" where
  "OPERATION_STATUS_LABELS =
     [(''running'', ''Running'', ''info''), (''succeeded'', ''Succeeded'', ''good''), (''failed'', ''Failed'', ''critical''),
      (''recovery_required'', ''Needs recovery'', ''warning'')]"

definition DEPLOYMENT_STATUS_LABELS :: "(string \<times> string \<times> string) list" where
  "DEPLOYMENT_STATUS_LABELS =
     [(''queued'', ''Queued'', ''info''), (''building'', ''Building'', ''info''), (''deploying'', ''Deploying'', ''info''),
      (''succeeded'', ''Succeeded'', ''good''), (''failed'', ''Failed'', ''critical''), (''recovery_required'', ''Needs recovery'', ''warning'')]"

definition RESOURCE_STATE_LABELS :: "(string \<times> string \<times> string) list" where
  "RESOURCE_STATE_LABELS =
     [(''active'', ''Active'', ''good''), (''creating'', ''Creating'', ''info''), (''removing'', ''Removing'', ''info''),
      (''recovery_required'', ''Needs recovery'', ''warning'')]"

definition RESOURCE_TYPE_LABELS :: "(string \<times> string) list" where
  "RESOURCE_TYPE_LABELS = [(''postgres'', ''PostgreSQL''), (''mongo'', ''MongoDB''), (''s3'', ''S3'')]"

definition CONTROLLER_SECTIONS :: "string list" where
  "CONTROLLER_SECTIONS = [''capabilities'', ''images'', ''applications'', ''deployments'', ''storage'', ''status'', ''operations'']"

definition RECORD_SECTIONS :: "string list" where
  "RECORD_SECTIONS = tl CONTROLLER_SECTIONS"

text \<open>\<open>d[k]\<close>, \<open>x or y\<close> for an optional text, and \<open>f"{x}"\<close> of an optional value.\<close>

definition lookup_key :: "(string \<times> 'v) list \<Rightarrow> string \<Rightarrow> 'v result" where
  "lookup_key d k = (case dict_get d k of None \<Rightarrow> Inl (KeyError k) | Some v \<Rightarrow> Inr v)"

definition or_else :: "string option \<Rightarrow> string \<Rightarrow> string" where
  "or_else s d = (case s of Some t \<Rightarrow> if t = [] then d else t | None \<Rightarrow> d)"

definition opt_text :: "string option \<Rightarrow> string" where
  "opt_text s = (case s of Some t \<Rightarrow> t | None \<Rightarrow> ''None'')"

definition opt_int_text :: "int option \<Rightarrow> string" where
  "opt_int_text i = opt_text (map_option int_text i)"

section \<open>Evidence\<close>

record 'a observed =
  ob_value :: "'a option"
  ob_ok :: bool
  ob_observed_at :: "string option"
  ob_error :: "string option"

record platform_config =
  pf_project_name :: string
  pf_namespace :: string
  pf_domain :: string
  pf_region :: string
  pf_document :: json

text \<open>\<open>PlatformConfig.get\<close>: one value by its dotted name.\<close>

fun get_path :: "json \<Rightarrow> string list \<Rightarrow> json option" where
  "get_path v [] = Some v"
| "get_path (JObj d) (c # cs) = (case dict_get d c of None \<Rightarrow> None | Some v \<Rightarrow> get_path v cs)"
| "get_path _ (c # cs) = None"

definition platform_get :: "platform_config \<Rightarrow> string \<Rightarrow> json result" where
  "platform_get platform name =
     (case get_path (pf_document platform) (split_char (CHR ''.'') name) of
        None \<Rightarrow> Inl (KeyError name) | Some v \<Rightarrow> Inr v)"

record evidence =
  ev_platform :: platform_config
  ev_generated_at :: string
  ev_admin :: "admin_reads observed"
  ev_operator :: "operator_reads observed"
  ev_ingress :: "probe list"
  ev_routes :: "(string \<times> probe) list"
  ev_history :: "(string \<times> (string \<times> string) list) list"
  ev_release :: "string option"
  ev_admin_sections :: "(string \<times> string) list"

record check =
  ck_key :: string
  ck_label :: string
  ck_state :: string
  ck_tone :: string
  ck_detail :: string

record status_model =
  st_key :: string
  st_label :: string
  st_tone :: string

definition status :: "string \<Rightarrow> string \<Rightarrow> string \<Rightarrow> status_model" where
  "status key label tone = \<lparr>st_key = key, st_label = label, st_tone = tone\<rparr>"

record signal_model =
  sg_label :: string
  sg_value :: string
  sg_tone :: string
  sg_detail :: "string option"

definition signal :: "string \<Rightarrow> string \<Rightarrow> string \<Rightarrow> string option \<Rightarrow> signal_model" where
  "signal label v tone detail = \<lparr>sg_label = label, sg_value = v, sg_tone = tone, sg_detail = detail\<rparr>"

section \<open>Small functions\<close>

definition tone_index :: "string \<Rightarrow> nat" where
  "tone_index tone = length (takeWhile (\<lambda>t. t \<noteq> tone) TONES)"

definition worst :: "string list \<Rightarrow> string option" where
  "worst tones =
     (let ranked = filter (\<lambda>t. t \<in> set TONES) tones
      in if ranked = [] then None else Some (hd (sort_key tone_index ranked)))"

text \<open>\<open>strptime(value, "%Y-%m-%dT%H:%M:%SZ")\<close>: letters match in either case, the fields after the year
  have one or two digits, and a day may have a space for its first digit.\<close>

definition two_digits :: "string \<Rightarrow> int option" where
  "two_digits s = (if s \<noteq> [] \<and> length s \<le> 2 \<and> list_all is_digit s then Some (digits_value s) else None)"

definition day_digits :: "string \<Rightarrow> int option" where
  "day_digits s = (case s of [a, b] \<Rightarrow> if a = CHR '' '' then two_digits [b] else two_digits s | _ \<Rightarrow> two_digits s)"

definition parse_time :: "string \<Rightarrow> int option" where
  "parse_time s =
     (case split_char (CHR ''-'') s of
        [year, month, rest] \<Rightarrow>
          (case split_char (CHR ''T'') (map (\<lambda>c. if c = CHR ''t'' then CHR ''T'' else c) rest) of
             [day, clock] \<Rightarrow>
               (case split_char (CHR '':'') clock of
                  [hour, minute, second] \<Rightarrow>
                    (case (two_digits month, day_digits day, two_digits hour, two_digits minute, two_digits (butlast second)) of
                       (Some m, Some d, Some hh, Some mm, Some ss) \<Rightarrow>
                         if matches_exact is_digit 4 year \<and> second \<noteq> [] \<and> last second \<in> {CHR ''Z'', CHR ''z''} \<and>
                            datetime_ok (digits_value year) m d hh mm ss
                         then Some (datetime_of (digits_value year) m d hh mm ss) else None
                     | _ \<Rightarrow> None)
                | _ \<Rightarrow> None)
           | _ \<Rightarrow> None)
      | _ \<Rightarrow> None)"

definition age_seconds :: "string option \<Rightarrow> string \<Rightarrow> int option" where
  "age_seconds value now =
     (case (Option.bind value parse_time, parse_time now) of
        (Some then_, Some current) \<Rightarrow> Some (max 0 ((current - then_) div microseconds))
      | _ \<Rightarrow> None)"

definition plural :: "int \<Rightarrow> string \<Rightarrow> string" where
  "plural count singular = int_text count @ '' '' @ (if count = 1 then singular else singular @ ''s'')"

definition humanize :: "string option \<Rightarrow> string option" where
  "humanize identifier =
     (case identifier of
        None \<Rightarrow> None
      | Some s \<Rightarrow>
          let t = join_with '' '' (split_words (map (\<lambda>c. if c \<in> set ''_-.:'' then CHR '' '' else c) s))
          in if t = [] then None else Some (upper_first t))"

definition kind_label :: "string \<Rightarrow> string" where
  "kind_label kind =
     (case dict_get KIND_LABELS kind of
        Some known \<Rightarrow> known
      | None \<Rightarrow>
          (let rest = (if CHR ''.'' \<in> set kind then drop 1 (dropWhile (\<lambda>c. c \<noteq> CHR ''.'') kind) else kind)
           in case humanize (Some rest) of Some h \<Rightarrow> h | None \<Rightarrow> kind))"

record image_model =
  ig_name :: "string option"
  ig_commit :: "string option"
  ig_selected_at :: "string option"

definition image_model_of :: "image_record option \<Rightarrow> image_model option" where
  "image_model_of r =
     map_option (\<lambda>i. \<lparr>ig_name = im_display_name i, ig_commit = im_source_commit i, ig_selected_at = im_selected_at i\<rparr>) r"

text \<open>\<open>_number\<close>, and \<open>int\<close> of a number.\<close>

definition number :: "python_ops \<Rightarrow> json \<Rightarrow> json option" where
  "number F value =
     (case value of
        JInt i \<Rightarrow> if i < 0 then None else Some value
      | JFloat x \<Rightarrow> if py_negative F x then None else Some value
      | _ \<Rightarrow> None)"

definition int_of_number :: "python_ops \<Rightarrow> json \<Rightarrow> int result" where
  "int_of_number F value =
     (case value of
        JInt i \<Rightarrow> Inr i
      | JFloat x \<Rightarrow> (case py_int F x of Some i \<Rightarrow> Inr i | None \<Rightarrow> Inl OverflowError)
      | _ \<Rightarrow> Inl TypeError)"

section \<open>Health checks\<close>

definition check_detail :: "python_ops \<Rightarrow> string \<Rightarrow> json \<Rightarrow> string result" where
  "check_detail F key value =
     (let details = mapping_of value in
      if key = ''openstack'' then
        (case (number F (jget details ''core_active''), number F (jget details ''workers_active'')) of
           (Some core, Some workers) \<Rightarrow>
             rbind (int_of_number F core) (\<lambda>c. rbind (int_of_number F workers) (\<lambda>w.
               Inr (plural c ''core host'' @ '' and '' @ plural w ''worker'' @ '' active'')))
         | _ \<Rightarrow> Inr ''Passed'')
      else if key = ''public_ingress'' then Inr ''Platform and wildcard health routes answered OK''
      else if key = ''managed_services'' then Inr ''PostgreSQL, MongoDB, Garage, and the registry responded''
      else if key = ''nomad'' then
        (case number F (jget details ''ready_clients'') of
           Some ready \<Rightarrow> rbind (int_of_number F ready) (\<lambda>r. Inr (''Raft healthy with '' @ plural r ''ready client''))
         | None \<Rightarrow> Inr ''Passed'')
      else if key = ''backup'' then
        (case number F (jget details ''age_hours'') of
           Some age \<Rightarrow> Inr (''Newest encrypted set is '' @ py_fixed1 F age @ '' h old'') | None \<Rightarrow> Inr ''Passed'')
      else if key = ''offsite_recovery'' then
        (case number F (jget details ''ageHours'') of
           Some age \<Rightarrow> Inr (''Verified off-site bundle exported '' @ py_fixed1 F age @ '' h ago'') | None \<Rightarrow> Inr ''Passed'')
      else Inr ''Passed'')"

text \<open>The loop over the checks; \<open>halted\<close> is set by the first failure.\<close>

fun check_results ::
  "python_ops \<Rightarrow> health_report \<Rightarrow> bool \<Rightarrow> string option \<Rightarrow> bool \<Rightarrow> (string \<times> string \<times> string) list \<Rightarrow> check list result" where
  "check_results F report stale failed halted [] = Inr []"
| "check_results F report stale failed halted ((key, label, failure_tone) # rest) =
     (case (dict_get (he_checks report) key, halted) of
        (Some v, False) \<Rightarrow>
          rbind (check_detail F key v) (\<lambda>detail.
          rbind (check_results F report stale failed halted rest) (\<lambda>cs.
            Inr (\<lparr>ck_key = key, ck_label = label, ck_state = ''passed'', ck_tone = (if stale then ''neutral'' else ''good''), ck_detail = detail\<rparr> # cs)))
      | _ \<Rightarrow>
          if Some key = failed then
            rbind (check_results F report stale failed True rest) (\<lambda>cs.
              Inr (\<lparr>ck_key = key, ck_label = label, ck_state = ''failed'', ck_tone = (if stale then ''neutral'' else failure_tone),
                    ck_detail = or_else (he_error report) ''The check failed''\<rparr> # cs))
          else
            rbind (check_results F report stale failed halted rest) (\<lambda>cs.
              Inr (\<lparr>ck_key = key, ck_label = label, ck_state = ''not-run'', ck_tone = ''neutral'',
                    ck_detail = (if halted then ''Skipped after an earlier check failed'' else ''Not reported'')\<rparr> # cs)))"

definition health_checks :: "python_ops \<Rightarrow> health_report option \<Rightarrow> string option \<Rightarrow> bool \<Rightarrow> check list result" where
  "health_checks F report unavailable stale =
     (case report of
        None \<Rightarrow>
          (let reason = or_else unavailable ''The platform-health snapshot is unavailable''
           in Inr (map (\<lambda>(key, label, _). \<lparr>ck_key = key, ck_label = label, ck_state = ''unavailable'', ck_tone = ''neutral'', ck_detail = reason\<rparr>)
                     HEALTH_CHECKS))
      | Some r \<Rightarrow>
          (let failed = (if he_healthy r then None
                 else map_option fst (List.find (\<lambda>(key, _). dict_get (he_checks r) key = None) HEALTH_CHECKS))
           in check_results F r stale failed False HEALTH_CHECKS))"

definition check_signal :: "string \<Rightarrow> check option \<Rightarrow> signal_model" where
  "check_signal label c =
     (case c of
        None \<Rightarrow> signal label ''Unknown'' ''neutral'' (Some ''No platform-health evidence'')
      | Some k \<Rightarrow>
          signal label
            (if ck_state k = ''passed'' \<and> ck_tone k = ''neutral'' then ''Last seen healthy''
             else if ck_state k = ''passed'' then ''Healthy''
             else if ck_state k = ''failed'' then ''Failing''
             else if ck_state k = ''not-run'' then ''Not checked''
             else ''Unknown'')
            (ck_tone k) (Some (ck_detail k)))"

definition health_count :: "python_ops \<Rightarrow> admin_reads option \<Rightarrow> string \<Rightarrow> string \<Rightarrow> int option result" where
  "health_count F reads chk name =
     (case Option.bind reads rd_health of
        None \<Rightarrow> Inr None
      | Some h \<Rightarrow>
          (case jget (he_checks h) chk of
             JObj details \<Rightarrow> (case number F (jget details name) of
                 None \<Rightarrow> Inr None | Some v \<Rightarrow> rbind (int_of_number F v) (\<lambda>i. Inr (Some i)))
           | _ \<Rightarrow> Inr None))"

definition counted :: "signal_model \<Rightarrow> int option \<Rightarrow> string \<Rightarrow> signal_model" where
  "counted s count noun =
     (case count of
        Some n \<Rightarrow> if sg_value s = ''Healthy'' then s\<lparr>sg_value := int_text n @ '' '' @ noun\<rparr> else s
      | None \<Rightarrow> s)"

section \<open>Signals\<close>

definition server_signal :: "host_record option \<Rightarrow> 'a observed \<Rightarrow> signal_model" where
  "server_signal host operator =
     (case host of
        Some h \<Rightarrow>
          if \<not> ho_available h
          then signal ''Server'' ''Unknown'' ''neutral''
                 (if \<not> ob_ok operator then ob_error operator else Some ''The provider did not report this server'')
          else
            (let (label, tone) = (case dict_get HOST_STATE_LABELS (ho_state h) of Some lt \<Rightarrow> lt | None \<Rightarrow> (''Unknown'', ''neutral''))
             in if \<not> ob_ok operator
                then signal ''Server'' (''Last seen '' @ map lower_char label) ''neutral''
                       (Some (''Provider unavailable now: '' @ opt_text (ob_error operator)))
                else signal ''Server'' label tone (Some (''Nova reports '' @ map upper_char (ho_state h))))
      | None \<Rightarrow>
          signal ''Server'' ''Unknown'' ''neutral''
            (if \<not> ob_ok operator then ob_error operator else Some ''The provider did not report this server''))"

definition route_probe_signal :: "string \<Rightarrow> probe option \<Rightarrow> signal_model" where
  "route_probe_signal label p =
     (case p of
        None \<Rightarrow> signal label ''Not checked'' ''neutral'' None
      | Some q \<Rightarrow>
          (case pr_status q of
             None \<Rightarrow> signal label (upper_first (or_else (pr_error q) ''unreachable'')) ''critical'' (Some (pr_url q))
           | Some code \<Rightarrow>
               if code = 200 \<and> pr_body_ok q = Some True
               then signal label (''OK '' @ [CHR 0xB7] @ '' '' @ opt_int_text (pr_latency_ms q) @ '' ms'') ''good'' (Some (pr_url q))
               else signal label (if code \<noteq> 200 then ''HTTP '' @ int_text code else ''Unexpected response'') ''critical'' (Some (pr_url q))))"

definition role_status :: "string \<Rightarrow> signal_model list \<Rightarrow> status_model" where
  "role_status role signals =
     (let tones = map sg_tone signals; all_good = (tones \<noteq> [] \<and> list_all (\<lambda>t. t = ''good'') tones) in
      if role = ''builder'' \<and> ''info'' \<in> set tones then status ''building'' ''Building'' ''info''
      else if role = ''builder'' \<and> all_good then status ''idle'' ''Idle'' ''neutral''
      else if worst tones = Some ''critical'' then status ''failing'' ''Failing'' ''critical''
      else if worst tones = Some ''warning'' then status ''degraded'' ''Degraded'' ''warning''
      else if worst tones = Some ''info'' then status ''changing'' ''Changing'' ''info''
      else if all_good then status ''operational'' ''Operational'' ''good''
      else status ''unverified'' ''Unverified'' ''neutral'')"

definition capitalize :: "string \<Rightarrow> string" where
  "capitalize s = map upper_char (take 1 s) @ map lower_char (drop 1 s)"

definition api_signal :: "admin_reads observed \<Rightarrow> signal_model" where
  "api_signal admin =
     (case ob_value admin of
        Some reads \<Rightarrow>
          if \<not> ob_ok admin
          then signal ''Controller API'' ''Unreachable'' ''critical'' (Some (or_else (ob_error admin) ''The admin read has not completed''))
          else
            (case filter (\<lambda>s. dict_get (rd_section_errors reads) s \<noteq> None) CONTROLLER_SECTIONS of
               first # others \<Rightarrow>
                 (let failed = first # others; error = the (dict_get (rd_section_errors reads) first)
                  in if length failed = length CONTROLLER_SECTIONS
                     then signal ''Controller API'' ''Not responding'' ''critical'' (Some error)
                     else signal ''Controller API'' ''Partially responding'' ''warning''
                            (Some (''The '' @ join_with '', '' failed @ '' read failed: '' @ error)))
             | [] \<Rightarrow>
                 signal ''Controller API''
                   (''Responding '' @ [CHR 0xB7] @ '' '' @ (case rd_api_version reads of Some v \<Rightarrow> ''v'' @ int_text v | None \<Rightarrow> ''responding''))
                   ''good'' (let features = join_with '', '' (rd_features reads) in if features = [] then None else Some features))
      | None \<Rightarrow> signal ''Controller API'' ''Unreachable'' ''critical'' (Some (or_else (ob_error admin) ''The admin read has not completed'')))"

definition units_signal :: "admin_reads observed \<Rightarrow> signal_model" where
  "units_signal admin =
     (case Option.bind (ob_value admin) rd_controller_units of
        None \<Rightarrow> signal ''Controller service'' ''Unknown'' ''neutral'' (Some ''systemd state unknown'')
      | Some units \<Rightarrow>
          (let controller = (case dict_get units ''controller'' of Some s \<Rightarrow> s | None \<Rightarrow> ''unknown'');
               readiness = (case dict_get units ''readiness'' of Some s \<Rightarrow> s | None \<Rightarrow> ''unknown'');
               detail = Some (''controller '' @ controller @ '' '' @ [CHR 0xB7] @ '' readiness '' @ readiness)
           in if \<not> ob_ok admin then signal ''Controller service'' (''Last seen '' @ controller) ''neutral'' detail
              else if controller = ''active'' \<and> readiness = ''active'' then signal ''Controller service'' ''Active'' ''good'' detail
              else signal ''Controller service'' (if controller \<noteq> ''active'' then capitalize controller else ''Not ready'') ''critical'' detail))"

definition admin_signals :: "admin_reads observed \<Rightarrow> signal_model list" where
  "admin_signals admin = [api_signal admin, units_signal admin]"

section \<open>Operations, routes, deployments and storage\<close>

record operation_model =
  om_id :: string
  om_kind :: string
  om_label :: string
  om_plane :: string
  om_application_id :: "string option"
  om_subject :: string
  om_status :: status_model
  om_phase :: "string option"
  om_started_at :: "string option"
  om_updated_at :: "string option"
  om_deadline_at :: "string option"
  om_error :: "string option"
  om_cleanup_state :: "string option"

definition scope_application :: "string \<Rightarrow> string option" where
  "scope_application scope = (if starts_with ''app-'' scope then Some (drop 4 scope) else None)"

definition operation_model_of :: "operation_record \<Rightarrow> (string \<times> string) list \<Rightarrow> string \<Rightarrow> operation_model result" where
  "operation_model_of r slugs plane =
     rbind (lookup_key OPERATION_STATUS_LABELS (or_status r)) (\<lambda>(label, tone).
       Inr \<lparr>om_id = or_operation_id r, om_kind = or_kind r, om_label = kind_label (or_kind r), om_plane = plane,
         om_application_id = scope_application (or_scope r),
         om_subject = (case scope_application (or_scope r) of
             None \<Rightarrow> ''Infrastructure''
           | Some a \<Rightarrow> (case dict_get slugs a of Some s \<Rightarrow> s | None \<Rightarrow> ''Application '' @ take 8 a)),
         om_status = status (or_status r) label tone, om_phase = humanize (or_phase r), om_started_at = or_started_at r,
         om_updated_at = or_updated_at r, om_deadline_at = or_deadline_at r, om_error = or_safe_error r,
         om_cleanup_state = humanize (or_cleanup_state r)\<rparr>)"

definition route_outcome :: "probe \<Rightarrow> string \<Rightarrow> string \<Rightarrow> string \<times> string" where
  "route_outcome p deployment_id application_id =
     (case pr_status p of
        None \<Rightarrow> (''unreachable'', ''critical'')
      | Some code \<Rightarrow>
          if \<not> (200 \<le> code \<and> code < 300) then (''http-error'', ''critical'')
          else if pr_marker p \<in> {Some deployment_id, Some application_id} then (''serving'', ''good'')
          else (''wrong-deployment'', ''warning''))"

record route_model =
  rt_outcome :: string
  rt_tone :: string
  rt_summary :: string
  rt_detail :: string
  rt_url :: "string option"
  rt_http_status :: "int option"
  rt_latency_ms :: "int option"
  rt_checked_at :: "string option"

definition unchecked_route :: "string \<Rightarrow> route_model" where
  "unchecked_route reason =
     \<lparr>rt_outcome = ''not-checked'', rt_tone = ''neutral'', rt_summary = ''Not checked'', rt_detail = reason, rt_url = None,
      rt_http_status = None, rt_latency_ms = None, rt_checked_at = None\<rparr>"

definition route_text :: "string \<Rightarrow> probe \<Rightarrow> string \<times> string" where
  "route_text outcome p =
     (let http = ''HTTP '' @ opt_int_text (pr_status p) in
      if outcome = ''unreachable'' then
        (let summary = upper_first (or_else (pr_error p) ''connection failed'') in (summary, summary @ '' while requesting the health path''))
      else if outcome = ''http-error'' then (http, ''The health path returned '' @ http)
      else if outcome = ''serving'' then (http, ''The accepted deployment answered its health path'')
      else (http @ '' '' @ [CHR 0xB7] @ '' unverified'',
            case pr_marker p of
              None \<Rightarrow> ''The response did not carry the deployment marker''
            | Some m \<Rightarrow> ''Deployment '' @ take 8 m @ '' answered instead of the accepted deployment''))"

definition route_model_of :: "application_record \<Rightarrow> deployment_record option \<Rightarrow> probe option \<Rightarrow> bool \<Rightarrow> route_model" where
  "route_model_of application deployment p deployments_truncated =
     (if ap_deleted_at application \<noteq> None then unchecked_route ''The application is deleted''
      else if \<not> ap_enabled application then unchecked_route ''Stopped applications have no public route to check''
      else if ap_active_deployment_id application = None then unchecked_route ''No deployment has been accepted yet''
      else case deployment of
        None \<Rightarrow> unchecked_route (if deployments_truncated then ''The accepted deployment is older than the recent deployment window''
                                 else ''The accepted deployment record is unavailable'')
      | Some d \<Rightarrow>
          (case p of
             None \<Rightarrow> unchecked_route ''The accepted deployment has no recorded health path''
           | Some q \<Rightarrow>
               (let (outcome, tone) = route_outcome q (dr_deployment_id d) (ap_application_id application);
                    (summary, detail) = route_text outcome q
                in \<lparr>rt_outcome = outcome, rt_tone = tone, rt_summary = summary, rt_detail = detail, rt_url = Some (pr_url q),
                    rt_http_status = pr_status q, rt_latency_ms = pr_latency_ms q, rt_checked_at = Some (pr_checked_at q)\<rparr>)))"

definition application_status :: "application_record \<Rightarrow> operation_record option \<Rightarrow> route_model \<Rightarrow> bool \<Rightarrow> status_model" where
  "application_status application op route pending_recovery =
     (let running = (case op of Some r \<Rightarrow> or_status r = ''running'' | None \<Rightarrow> False);
          recovery = (pending_recovery \<or> (case op of Some r \<Rightarrow> or_status r = ''recovery_required'' | None \<Rightarrow> False)) in
      if ap_deleted_at application \<noteq> None then status ''deleted'' ''Deleted'' ''neutral''
      else if running then
        (let kind = or_kind (the op)
         in status ''changing''
              (case dict_get ACTIVE_VERBS kind of
                 Some verb \<Rightarrow> verb
               | None \<Rightarrow> if starts_with ''storage.'' kind then ''Updating storage'' else ''Updating'') ''info'')
      else if \<not> ap_enabled application then
        (if recovery then status ''needs-recovery'' ''Needs recovery'' ''warning'' else status ''stopped'' ''Stopped'' ''neutral'')
      else if ap_active_deployment_id application = None then
        (if recovery then status ''needs-recovery'' ''Needs recovery'' ''warning'' else status ''not-deployed'' ''Not deployed'' ''warning'')
      else if rt_outcome route \<in> {''unreachable'', ''http-error''} then status ''failing'' ''Failing'' ''critical''
      else if recovery then status ''needs-recovery'' ''Needs recovery'' ''warning''
      else if rt_outcome route = ''wrong-deployment'' then status ''unverified'' ''Unverified'' ''warning''
      else if rt_outcome route = ''not-checked'' then status ''unknown'' ''Unknown'' ''neutral''
      else status ''serving'' ''Serving'' ''good'')"

record deployment_model =
  dm_id :: string
  dm_status :: status_model
  dm_commit :: "string option"
  dm_commit_url :: "string option"
  dm_ref :: "string option"
  dm_repository :: "string option"
  dm_runtime :: "string option"
  dm_port :: "int option"
  dm_health_path :: "string option"
  dm_configuration_revision :: "int option"
  dm_image_digest :: "string option"
  dm_error :: "string option"
  dm_cleanup_state :: "string option"
  dm_requested_at :: "string option"
  dm_updated_at :: "string option"
  dm_accepted_at :: "string option"
  dm_last_healthy_at :: "string option"

definition deployment_model_of :: "deployment_record \<Rightarrow> deployment_model result" where
  "deployment_model_of r =
     rbind (lookup_key DEPLOYMENT_STATUS_LABELS (dr_status r)) (\<lambda>(label, tone).
       Inr \<lparr>dm_id = dr_deployment_id r, dm_status = status (dr_status r) label tone, dm_commit = dr_source_commit r,
         dm_commit_url = (case (dr_repository r, dr_source_commit r) of
             (Some repository, Some c) \<Rightarrow> Some (repository @ ''/commit/'' @ c) | _ \<Rightarrow> None),
         dm_ref = dr_requested_ref r, dm_repository = dr_repository r,
         dm_runtime = dict_get [(''bun'', ''Bun''), (''node'', ''Node.js'')] (case dr_runtime r of Some x \<Rightarrow> x | None \<Rightarrow> []),
         dm_port = dr_port r, dm_health_path = dr_health_path r, dm_configuration_revision = dr_configuration_revision r,
         dm_image_digest = dr_image_digest r, dm_error = dr_safe_error r, dm_cleanup_state = humanize (dr_cleanup_state r),
         dm_requested_at = dr_requested_at r, dm_updated_at = dr_updated_at r, dm_accepted_at = dr_accepted_at r,
         dm_last_healthy_at = dr_last_healthy_at r\<rparr>)"

record storage_model =
  sm_id :: string
  sm_type :: string
  sm_type_label :: string
  sm_name :: string
  sm_label :: "string option"
  sm_status :: status_model
  sm_quotas :: "(string \<times> int) list"
  sm_usage :: storage_usage_record
  sm_write_block :: write_block_record
  sm_last_verified_at :: "string option"

definition storage_model_of :: "storage_record \<Rightarrow> string \<Rightarrow> bool \<Rightarrow> storage_model result" where
  "storage_model_of r now stale =
     rbind (lookup_key RESOURCE_STATE_LABELS (sr_lifecycle_state r)) (\<lambda>(label, tone).
       let usage = sr_usage r; age = age_seconds (us_measured_at usage) now in
       rbind (lookup_key RESOURCE_TYPE_LABELS (sr_resource_type r)) (\<lambda>type_label.
         Inr \<lparr>sm_id = sr_resource_id r, sm_type = sr_resource_type r, sm_type_label = type_label, sm_name = sr_name r,
           sm_label = sr_display_label r, sm_status = status (sr_lifecycle_state r) label tone, sm_quotas = sr_quotas r,
           sm_usage = usage\<lparr>us_stale := us_stale usage \<or> stale \<or> (case age of None \<Rightarrow> True | Some a \<Rightarrow> a > 900)\<rparr>,
           sm_write_block = sr_write_block r, sm_last_verified_at = sr_last_verified_at r\<rparr>))"

section \<open>Applications\<close>

record application_model =
  am_id :: string
  am_slug :: string
  am_url :: "string option"
  am_enabled :: bool
  am_status :: status_model
  am_recovery_note :: "string option"
  am_route :: route_model
  am_checks :: "(string \<times> string) list"
  am_deployment :: "deployment_model option"
  am_attempts :: "deployment_model list"
  am_operation :: "operation_model option"
  am_flavor :: "string option"
  am_cpu_mhz :: "int option"
  am_memory_mib :: "int option"
  am_storage :: "storage_model list"
  am_created_at :: "string option"
  am_updated_at :: "string option"
  am_deleted_at :: "string option"

text \<open>A model of something that may be absent.\<close>

definition rmap_option :: "('a \<Rightarrow> 'b result) \<Rightarrow> 'a option \<Rightarrow> 'b option result" where
  "rmap_option f x = (case x of None \<Rightarrow> Inr None | Some a \<Rightarrow> rbind (f a) (\<lambda>b. Inr (Some b)))"

text \<open>The operation that makes an application busy, the first in the order given, and its note otherwise.\<close>

definition active_operation :: "operation_record list \<Rightarrow> string \<Rightarrow> operation_record option" where
  "active_operation operations application_id =
     List.find (\<lambda>r. or_status r \<in> {''running'', ''recovery_required''} \<and> scope_application (or_scope r) = Some application_id) operations"

definition recovery_note ::
  "operation_record option \<Rightarrow> deployment_record list \<Rightarrow> storage_record list \<Rightarrow> string option result" where
  "recovery_note op history resources =
     (if op \<noteq> None then Inr None
      else case history of
        d # _ \<Rightarrow>
          if dr_status d = ''recovery_required''
          then Inr (Some ''A deployment attempt needs recovery; resume it with its original request and key'')
          else rmap_option (\<lambda>r. rbind (lookup_key RESOURCE_TYPE_LABELS (sr_resource_type r)) (\<lambda>l. Inr (l @ '' storage needs recovery'')))
                 (List.find (\<lambda>r. sr_lifecycle_state r = ''recovery_required'') resources)
      | [] \<Rightarrow> rmap_option (\<lambda>r. rbind (lookup_key RESOURCE_TYPE_LABELS (sr_resource_type r)) (\<lambda>l. Inr (l @ '' storage needs recovery'')))
                 (List.find (\<lambda>r. sr_lifecycle_state r = ''recovery_required'') resources))"

text \<open>A dictionary built from a list keeps the last value of a key.\<close>

definition last_where :: "('a \<Rightarrow> bool) \<Rightarrow> 'a list \<Rightarrow> 'a option" where
  "last_where P xs = List.find P (rev xs)"

definition active_deployment :: "admin_reads \<Rightarrow> application_record \<Rightarrow> deployment_record option" where
  "active_deployment reads application =
     Option.bind (ap_active_deployment_id application) (\<lambda>i. last_where (\<lambda>d. dr_deployment_id d = i) (rd_deployments reads))"

definition application_route :: "evidence \<Rightarrow> admin_reads \<Rightarrow> application_record \<Rightarrow> route_model" where
  "application_route ev reads application =
     route_model_of application (active_deployment reads application) (dict_get (ev_routes ev) (ap_application_id application))
       (rd_deployments_truncated reads)"

definition application_model_of ::
  "evidence \<Rightarrow> admin_reads \<Rightarrow> operation_record list \<Rightarrow> application_record \<Rightarrow> application_model result" where
  "application_model_of ev reads operations application =
     (let i = ap_application_id application;
          deployment = active_deployment reads application;
          route = application_route ev reads application;
          op = active_operation operations i;
          history = filter (\<lambda>d. dr_application_id d = i) (rd_deployments reads);
          resources = filter (\<lambda>r. sr_application_id r = i) (rd_storage reads)
      in rbind (recovery_note op history resources) (\<lambda>note.
         rbind (rmap_option deployment_model_of deployment) (\<lambda>dm.
         rbind (rmap deployment_model_of (take APPLICATION_HISTORY history)) (\<lambda>attempts.
         rbind (rmap_option (\<lambda>r. operation_model_of r [(i, ap_slug application)] ''hosted'') op) (\<lambda>om.
         rbind (rmap (\<lambda>r. storage_model_of r (ev_generated_at ev)
                        (\<not> ob_ok (ev_admin ev) \<or> dict_get (rd_section_errors reads) ''storage'' \<noteq> None)) resources) (\<lambda>storage.
           Inr \<lparr>am_id = i, am_slug = ap_slug application, am_url = ap_url application, am_enabled = ap_enabled application,
             am_status = application_status application op route (note \<noteq> None), am_recovery_note = note, am_route = route,
             am_checks = (case dict_get (ev_history ev) i of Some h \<Rightarrow> h | None \<Rightarrow> []), am_deployment = dm, am_attempts = attempts,
             am_operation = om, am_flavor = ap_worker_flavor application, am_cpu_mhz = ap_cpu_mhz application,
             am_memory_mib = ap_memory_mib application, am_storage = storage, am_created_at = ap_created_at application,
             am_updated_at = ap_updated_at application, am_deleted_at = ap_deleted_at application\<rparr>))))))"

definition application_models :: "evidence \<Rightarrow> operation_record list \<Rightarrow> application_model list result" where
  "application_models ev operations =
     (case ob_value (ev_admin ev) of
        None \<Rightarrow> Inr []
      | Some reads \<Rightarrow> rmap (application_model_of ev reads operations) (rd_applications reads))"

section \<open>Roles\<close>

record role_model =
  rm_role :: string
  rm_name :: string
  rm_lifetime :: string
  rm_lifetime_label :: string
  rm_summary :: string
  rm_status :: status_model
  rm_signals :: "signal_model list"
  rm_facts :: "(string \<times> string) list"
  rm_image :: "image_model option"

text \<open>The arguments of \<open>_roles\<close>.\<close>

record role_input =
  ri_evidence :: evidence
  ri_checks :: "check list"
  ri_operations :: "operation_record list"
  ri_applications :: "application_model list"

definition find_check :: "check list \<Rightarrow> string \<Rightarrow> check option" where
  "find_check checks key = last_where (\<lambda>c. ck_key c = key) checks"

definition role_host :: "evidence \<Rightarrow> string \<Rightarrow> host_record option" where
  "role_host ev role = Option.bind (ob_value (ev_operator ev)) (\<lambda>r. last_where (\<lambda>h. ho_role h = role) (op_hosts r))"

definition role_image :: "evidence \<Rightarrow> string \<Rightarrow> image_record option" where
  "role_image ev role =
     (let img = Option.bind (role_host ev role) ho_image;
          hosted = Option.bind (ob_value (ev_admin ev)) (\<lambda>r. last_where (\<lambda>i. im_role i = role) (rd_images r))
      in if img = None \<or> role \<in> {''worker'', ''builder''} then (case hosted of Some i \<Rightarrow> Some i | None \<Rightarrow> img) else img)"

definition ingress_probe :: "evidence \<Rightarrow> string \<Rightarrow> probe option" where
  "ingress_probe ev url = last_where (\<lambda>p. pr_url p = url) (ev_ingress ev)"

definition platform_route :: "evidence \<Rightarrow> string" where
  "platform_route ev = ''https://'' @ pf_domain (ev_platform ev) @ ''/healthz''"

definition wildcard_route :: "evidence \<Rightarrow> string" where
  "wildcard_route ev = ''https://wildcard-health.'' @ pf_domain (ev_platform ev) @ ''/healthz''"

definition worker_signals :: "python_ops \<Rightarrow> role_input \<Rightarrow> signal_model list result" where
  "worker_signals F ri =
     (let reads = ob_value (ev_admin (ri_evidence ri)); openstack = find_check (ri_checks ri) ''openstack'';
          blind = (case openstack of Some c \<Rightarrow> ck_state c = ''failed'' \<and> \<not> contains ''worker'' (map lower_char (ck_detail c)) | None \<Rightarrow> False)
      in rbind (if blind then Inr (signal ''Servers'' ''Not checked'' ''neutral'' (map_option ck_detail openstack))
                else rbind (health_count F reads ''openstack'' ''workers_active'') (\<lambda>n.
                  Inr (counted (check_signal ''Servers'' openstack) n ''active''))) (\<lambda>servers.
         rbind (health_count F reads ''nomad'' ''ready_clients'') (\<lambda>n.
           Inr [servers, counted (check_signal ''Nomad clients'' (find_check (ri_checks ri) ''nomad'')) n ''ready''])))"

definition builder_signals :: "role_input \<Rightarrow> signal_model list" where
  "builder_signals ri =
     (let builds = filter (\<lambda>r. or_status r = ''running'' \<and> starts_with ''build'' (case or_phase r of Some p \<Rightarrow> p | None \<Rightarrow> [])) (ri_operations ri)
      in if ob_value (ev_admin (ri_evidence ri)) = None
         then [signal ''Builds'' ''Unknown'' ''neutral'' (ob_error (ev_admin (ri_evidence ri)))]
         else if builds \<noteq> []
         then [signal ''Builds'' (int_text (int (length builds)) @ '' in progress'') ''info''
                 (Some (plural (int (length (remdups (map or_scope builds)))) ''application'' @ '' building''))]
         else [signal ''Builds'' ''None in progress'' ''good'' None])"

definition nomad_signal :: "role_input \<Rightarrow> signal_model" where
  "nomad_signal ri =
     (let s = check_signal ''Nomad'' (find_check (ri_checks ri) ''nomad'')
      in if sg_value s = ''Healthy'' then s\<lparr>sg_value := ''Raft healthy''\<rparr> else s)"

definition role_signals :: "python_ops \<Rightarrow> role_input \<Rightarrow> string \<Rightarrow> signal_model list result" where
  "role_signals F ri role =
     (let ev = ri_evidence ri; server = server_signal (role_host ev role) (ev_operator ev) in
      if role = ''admin'' then Inr (server # admin_signals (ev_admin ev) @ [nomad_signal ri])
      else if role = ''ingress'' then
        Inr [server, route_probe_signal ''Platform route'' (ingress_probe ev (platform_route ev)),
             route_probe_signal ''Wildcard route'' (ingress_probe ev (wildcard_route ev))]
      else if role = ''storage'' then
        Inr [server, check_signal ''Managed services'' (find_check (ri_checks ri) ''managed_services'')]
      else if role = ''worker'' then worker_signals F ri
      else if role = ''builder'' then Inr (builder_signals ri)
      else Inr [])"

definition ingress_mode :: "python_ops \<Rightarrow> platform_config \<Rightarrow> string" where
  "ingress_mode F platform =
     (let mode = (case platform_get platform ''publicIngress.mode'' of Inl _ \<Rightarrow> ''unknown'' | Inr (JStr s) \<Rightarrow> s | Inr v \<Rightarrow> py_str F v)
      in case dict_get [(''tunnel'', ''Cloudflare tunnel''), (''direct'', ''Direct'')] mode of Some l \<Rightarrow> l | None \<Rightarrow> capitalize mode)"

definition storage_fact :: "evidence \<Rightarrow> string" where
  "storage_fact ev =
     (let resources = (case ob_value (ev_admin ev) of None \<Rightarrow> [] | Some r \<Rightarrow> rd_storage r);
          described = List.map_filter (\<lambda>(kind, label).
            let n = length (filter (\<lambda>r. sr_resource_type r = kind) resources)
            in if n = 0 then None else Some (int_text (int n) @ [CHR 0xA0] @ label)) RESOURCE_TYPE_LABELS;
          s = join_with ('' '' @ [CHR 0xB7] @ '' '') described
      in if s = [] then ''None'' else s)"

definition role_facts :: "python_ops \<Rightarrow> role_input \<Rightarrow> string \<Rightarrow> (string \<times> string) list" where
  "role_facts F ri role =
     (if role = ''ingress'' then [(''Mode'', ingress_mode F (ev_platform (ri_evidence ri)))]
      else if role = ''storage'' then [(''Resources'', storage_fact (ri_evidence ri))]
      else if role = ''worker'' then
        [(''Running apps'', int_text (int (length (filter (\<lambda>a. am_enabled a \<and> am_deployment a \<noteq> None) (ri_applications ri)))))]
      else [])"

definition role_model_of :: "python_ops \<Rightarrow> role_input \<Rightarrow> string \<Rightarrow> role_model result" where
  "role_model_of F ri role =
     (let (name, lifetime, summary) = (case dict_get ROLES role of Some x \<Rightarrow> x | None \<Rightarrow> (capitalize role, ''persistent'', []))
      in rbind (role_signals F ri role) (\<lambda>signals.
         rbind (lookup_key LIFETIMES lifetime) (\<lambda>lifetime_label.
           Inr \<lparr>rm_role = role, rm_name = name, rm_lifetime = lifetime, rm_lifetime_label = lifetime_label, rm_summary = summary,
             rm_status = role_status role signals, rm_signals = signals, rm_facts = role_facts F ri role,
             rm_image = image_model_of (role_image (ri_evidence ri) role)\<rparr>)))"

definition role_models :: "python_ops \<Rightarrow> role_input \<Rightarrow> role_model list result" where
  "role_models F ri = rmap (role_model_of F ri) IMAGE_ROLES"

section \<open>Issues\<close>

record issue =
  is_tone :: string
  is_scope :: string
  is_target :: string
  is_subject :: string
  is_summary :: string
  is_detail :: "string option"

definition issue :: "string \<Rightarrow> string \<Rightarrow> string \<Rightarrow> string \<Rightarrow> string \<Rightarrow> string option \<Rightarrow> issue" where
  "issue tone scope target subject summary detail =
     \<lparr>is_tone = tone, is_scope = scope, is_target = target, is_subject = subject, is_summary = summary, is_detail = detail\<rparr>"

definition alerting :: "string \<Rightarrow> bool" where
  "alerting tone \<longleftrightarrow> tone \<in> {''critical'', ''warning''}"

definition role_issues :: "role_model \<Rightarrow> issue list" where
  "role_issues r =
     map (\<lambda>s. issue (sg_tone s) ''role'' (rm_role r) (rm_name r) (sg_label s @ '': '' @ sg_value s) (sg_detail s))
       (filter (\<lambda>s. alerting (sg_tone s)) (rm_signals r))"

definition write_blocked :: "storage_model \<Rightarrow> bool" where
  "write_blocked s \<longleftrightarrow> wb_blocked (sm_write_block s)"

definition application_issues :: "application_model \<Rightarrow> issue list" where
  "application_issues a =
     map (\<lambda>s. issue ''warning'' ''application'' (am_id a) (am_slug a) (sm_type_label s @ '' writes paused'')
            (Some ''Size limit exceeded. Reads and deletes remain available; deleting enough data restores writes automatically.''))
       (filter write_blocked (am_storage a)) @
     (if \<not> alerting (st_tone (am_status a)) then []
      else
        [issue (st_tone (am_status a)) ''application'' (am_id a) (am_slug a) (st_label (am_status a))
           (if st_key (am_status a) = ''needs-recovery'' then
              (case am_operation a of
                 Some op \<Rightarrow> Some (or_else (om_error op) (om_label op @ '' is waiting for recovery''))
               | None \<Rightarrow> am_recovery_note a)
            else if st_key (am_status a) = ''not-deployed'' then Some ''The application is enabled but has no accepted deployment''
            else Some (rt_detail (am_route a)))])"

definition check_issues :: "check \<Rightarrow> issue list" where
  "check_issues c =
     (if ck_key c \<in> {''backup'', ''offsite_recovery''} \<and> ck_state c = ''failed''
      then [issue (if ck_tone c \<noteq> ''neutral'' then ck_tone c else ''warning'') ''platform'' (ck_key c) (ck_label c) ''Check failed'' (Some (ck_detail c))]
      else [])"

definition health_issues :: "evidence \<Rightarrow> int option \<Rightarrow> issue list" where
  "health_issues ev stale_age =
     (case ob_value (ev_admin ev) of
        Some reads \<Rightarrow>
          if \<not> ob_ok (ev_admin ev) then []
          else if rd_health reads = None
          then [issue ''warning'' ''platform'' ''health'' ''Platform health'' ''Snapshot unavailable'' (rd_health_error reads)]
          else (case stale_age of
                  Some age \<Rightarrow> [issue ''warning'' ''platform'' ''health'' ''Platform health'' ''Snapshot is stale''
                     (Some (''The five-minute health timer last reported '' @ int_text (age div 60) @ '' minutes ago''))]
                | None \<Rightarrow> [])
      | None \<Rightarrow> [])"

definition provider_issues :: "evidence \<Rightarrow> issue list" where
  "provider_issues ev =
     (let unreported = (case ob_value (ev_operator ev) of
            Some r \<Rightarrow> if \<not> ob_ok (ev_operator ev) then []
                      else map ho_role (filter (\<lambda>h. ho_role h \<in> {''admin'', ''ingress'', ''storage''} \<and> \<not> ho_available h) (op_hosts r))
          | None \<Rightarrow> [])
      in (if unreported \<noteq> []
          then [issue ''warning'' ''platform'' ''provider'' ''OpenStack'' ''Server state unavailable''
                  (Some (''No provider observation for '' @ join_with '', '' unreported))] else []) @
         (if \<not> ob_ok (ev_operator ev)
          then [issue ''warning'' ''platform'' ''provider'' ''OpenStack'' ''Provider observation unavailable'' (ob_error (ev_operator ev))] else []))"

definition issues_of ::
  "role_model list \<Rightarrow> application_model list \<Rightarrow> check list \<Rightarrow> evidence \<Rightarrow> int option \<Rightarrow> issue list" where
  "issues_of roles applications checks ev stale_age =
     sort_key (tone_index \<circ> is_tone)
       (concat (map role_issues roles) @ concat (map application_issues applications) @ concat (map check_issues checks) @
        health_issues ev stale_age @ provider_issues ev)"

section \<open>Summary and snapshot\<close>

record summary_model =
  su_tone :: string
  su_headline :: string
  su_detail :: string
  su_roles_total :: nat
  su_roles_healthy :: nat
  su_applications_total :: nat
  su_applications_serving :: nat
  su_applications_attention :: nat
  su_applications_changing :: nat
  su_applications_stopped :: nat
  su_operations_running :: nat
  su_operations_recovery :: nat
  su_backup_age_hours :: "json option"
  su_backup_tone :: string
  su_backup_state :: "string option"
  su_backup_offsite :: "string option"

definition count_where :: "('a \<Rightarrow> bool) \<Rightarrow> 'a list \<Rightarrow> nat" where
  "count_where P xs = length (filter P xs)"

definition headline ::
  "bool \<Rightarrow> nat \<Rightarrow> nat \<Rightarrow> nat \<Rightarrow> nat \<Rightarrow> nat \<Rightarrow> string \<times> string \<times> string" where
  "headline observed critical warnings unverified roles visible =
     (if \<not> observed then (''neutral'', ''Status unavailable'', ''No platform source has answered yet'')
      else if critical \<noteq> 0 then
        (''critical'', ''Disruption detected'',
         plural (int critical) ''critical issue'' @ (if warnings \<noteq> 0 then '' and '' @ plural (int warnings) ''warning'' else []))
      else if warnings \<noteq> 0 then (''warning'', ''Needs attention'', plural (int warnings) ''warning'')
      else if unverified \<noteq> 0 then
        (''neutral'', ''No issues detected'', plural (int unverified) ''item'' @ '' could not be fully verified'')
      else (''good'', ''All systems operational'', plural (int roles) ''role'' @ '' and '' @ plural (int visible) ''application'' @ '' verified''))"

definition summary_of ::
  "python_ops \<Rightarrow> evidence \<Rightarrow> role_model list \<Rightarrow> application_model list \<Rightarrow> operation_model list \<Rightarrow> issue list \<Rightarrow> check list \<Rightarrow> summary_model" where
  "summary_of F ev roles applications operations issues checks =
     (let visible = filter (\<lambda>a. am_deleted_at a = None) applications;
          critical = count_where (\<lambda>i. is_tone i = ''critical'') issues;
          warnings = count_where (\<lambda>i. is_tone i = ''warning'') issues;
          unverified = count_where (\<lambda>r. st_key (rm_status r) = ''unverified'') roles + count_where (\<lambda>a. st_key (am_status a) = ''unknown'') visible;
          observed = (ob_value (ev_admin ev) \<noteq> None \<or> ob_value (ev_operator ev) \<noteq> None);
          (tone, head, detail) = headline observed critical warnings unverified (length roles) (length visible);
          backup = find_check checks ''backup''; offsite = find_check checks ''offsite_recovery''
      in \<lparr>su_tone = tone, su_headline = head, su_detail = detail, su_roles_total = length roles,
          su_roles_healthy = count_where (\<lambda>r. st_tone (rm_status r) \<in> {''good'', ''info''} \<or> st_key (rm_status r) = ''idle'') roles,
          su_applications_total = length visible,
          su_applications_serving = count_where (\<lambda>a. st_key (am_status a) = ''serving'') visible,
          su_applications_attention = count_where (\<lambda>a. alerting (st_tone (am_status a)) \<or> list_ex write_blocked (am_storage a)) visible,
          su_applications_changing = count_where (\<lambda>a. st_tone (am_status a) = ''info'') visible,
          su_applications_stopped = count_where (\<lambda>a. st_key (am_status a) = ''stopped'') visible,
          su_operations_running = count_where (\<lambda>op. st_key (om_status op) = ''running'') operations,
          su_operations_recovery = count_where (\<lambda>op. st_key (om_status op) = ''recovery_required'') operations,
          su_backup_age_hours = Option.bind (Option.bind (ob_value (ev_admin ev)) rd_health)
            (\<lambda>h. case jget (he_checks h) ''backup'' of JObj raw \<Rightarrow> number F (jget raw ''age_hours'') | _ \<Rightarrow> None),
          su_backup_tone = (case backup of None \<Rightarrow> ''neutral'' | Some c \<Rightarrow> ck_tone c),
          su_backup_state = map_option ck_state backup, su_backup_offsite = map_option ck_state offsite\<rparr>)"

record source_model =
  so_key :: string
  so_label :: string
  so_ok :: bool
  so_observed_at :: "string option"
  so_error :: "string option"

definition source_of :: "string \<Rightarrow> string \<Rightarrow> 'a observed \<Rightarrow> source_model" where
  "source_of key label observed =
     \<lparr>so_key = key, so_label = label, so_ok = ob_ok observed, so_observed_at = ob_observed_at observed,
      so_error = (if ob_ok observed then None else ob_error observed)\<rparr>"

definition controller_source :: "evidence \<Rightarrow> source_model" where
  "controller_source ev =
     (let source = source_of ''controller'' ''Controller'' (ev_admin ev) in
      case ob_value (ev_admin ev) of
        None \<Rightarrow> source
      | Some reads \<Rightarrow>
          if \<not> ob_ok (ev_admin ev) then source
          else (case filter (\<lambda>s. dict_get (rd_section_errors reads) s \<noteq> None) RECORD_SECTIONS of
              [] \<Rightarrow> source
            | first # others \<Rightarrow>
                (let failed = first # others; successes = List.map_filter (dict_get (ev_admin_sections ev)) failed
                 in source\<lparr>so_ok := False, so_observed_at := (if successes = [] then None else Some (foldl min (hd successes) (tl successes))),
                      so_error := Some (''the '' @ join_with '', '' failed @ '' read failed: '' @ the (dict_get (rd_section_errors reads) first))\<rparr>)))"

definition routes_source :: "evidence \<Rightarrow> source_model" where
  "routes_source ev =
     (let probes = ev_ingress ev @ map snd (ev_routes ev); answered = filter (\<lambda>p. pr_status p \<noteq> None) probes; times = map pr_checked_at probes
      in \<lparr>so_key = ''routes'', so_label = ''Public routes'', so_ok = (answered \<noteq> [] \<or> probes = []),
          so_observed_at = (if times = [] then None else Some (foldl max (hd times) (tl times))),
          so_error = (if answered \<noteq> [] \<or> probes = [] then None
                      else Some ''no public route answered; check the operator host's network and DNS'')\<rparr>)"

definition health_source :: "evidence \<Rightarrow> health_report option \<Rightarrow> bool \<Rightarrow> source_model" where
  "health_source ev health stale =
     \<lparr>so_key = ''health'', so_label = ''Health timer'', so_ok = (health \<noteq> None \<and> \<not> stale), so_observed_at = Option.bind health he_checked_at,
      so_error = (case ob_value (ev_admin ev) of
          None \<Rightarrow> Some (or_else (ob_error (ev_admin ev)) ''no admin read has completed'') | Some reads \<Rightarrow> rd_health_error reads)\<rparr>"

record platform_model =
  pm_name :: string
  pm_organization :: "string option"
  pm_domain :: string
  pm_region :: string
  pm_namespace :: string
  pm_api_version :: "int option"
  pm_features :: "string list"
  pm_release :: "string option"

definition inventory :: "platform_config \<Rightarrow> string \<Rightarrow> string option" where
  "inventory platform name =
     (case platform_get platform name of Inr (JStr s) \<Rightarrow> if s = [] then None else Some s | _ \<Rightarrow> None)"

definition platform_model_of :: "evidence \<Rightarrow> platform_model" where
  "platform_model_of ev =
     (let platform = ev_platform ev; reads = ob_value (ev_admin ev)
      in \<lparr>pm_name = (case inventory platform ''displayName'' of Some n \<Rightarrow> n | None \<Rightarrow> pf_project_name platform),
          pm_organization = inventory platform ''organization'', pm_domain = pf_domain platform, pm_region = pf_region platform,
          pm_namespace = pf_namespace platform, pm_api_version = Option.bind reads rd_api_version,
          pm_features = (case reads of None \<Rightarrow> [] | Some r \<Rightarrow> rd_features r), pm_release = ev_release ev\<rparr>)"

definition host_model_of :: "evidence \<Rightarrow> storage_host_record option" where
  "host_model_of ev =
     (case ob_value (ev_admin ev) of
        None \<Rightarrow> None
      | Some reads \<Rightarrow>
          map_option (\<lambda>host.
            let age = age_seconds (Some (sh_measured_at host)) (ev_generated_at ev)
            in host\<lparr>sh_stale := sh_stale host \<or> (case age of None \<Rightarrow> True | Some a \<Rightarrow> a > 900) \<or> \<not> ob_ok (ev_admin ev) \<or>
                 dict_get (rd_section_errors reads) ''status'' \<noteq> None\<rparr>) (rd_storage_host reads))"

record snapshot =
  sn_generated_at :: string
  sn_platform :: platform_model
  sn_summary :: summary_model
  sn_issues :: "issue list"
  sn_roles :: "role_model list"
  sn_storage_host :: "storage_host_record option"
  sn_applications :: "application_model list"
  sn_operations :: "operation_model list"
  sn_operations_truncated :: bool
  sn_checked_at :: "string option"
  sn_checks_stale :: bool
  sn_checks_available :: bool
  sn_checks :: "check list"
  sn_sources :: "source_model list"

text \<open>The operations of both planes, newest first: by time of the last update and identifier, descending,
  equal keys in the order given.\<close>

definition operator_operations :: "evidence \<Rightarrow> operation_record list" where
  "operator_operations ev =
     (let hosted = (case ob_value (ev_admin ev) of None \<Rightarrow> [] | Some r \<Rightarrow> rd_operations r);
          others = (case ob_value (ev_operator ev) of None \<Rightarrow> [] | Some r \<Rightarrow> op_operations r)
      in filter (\<lambda>r. or_operation_id r \<notin> set (map or_operation_id hosted)) others)"

definition ordered_operations :: "evidence \<Rightarrow> operation_record list" where
  "ordered_operations ev =
     (let hosted = (case ob_value (ev_admin ev) of None \<Rightarrow> [] | Some r \<Rightarrow> rd_operations r)
      in rev (sort_key (\<lambda>r. case or_updated_at r of Some t \<Rightarrow> t | None \<Rightarrow> [])
                (sort_key or_operation_id (rev (hosted @ operator_operations ev)))))"

definition health_age :: "evidence \<Rightarrow> int option" where
  "health_age ev =
     Option.bind (Option.bind (ob_value (ev_admin ev)) rd_health) (\<lambda>h. age_seconds (he_checked_at h) (ev_generated_at ev))"

definition health_stale :: "evidence \<Rightarrow> bool" where
  "health_stale ev = (case health_age ev of None \<Rightarrow> False | Some age \<Rightarrow> age > HEALTH_SNAPSHOT_STALE_SECONDS)"

definition build_snapshot :: "python_ops \<Rightarrow> evidence \<Rightarrow> snapshot result" where
  "build_snapshot F ev =
     (let reads = ob_value (ev_admin ev); health = Option.bind reads rd_health; stale = health_stale ev;
          ordered = ordered_operations ev; operator_ids = map or_operation_id (operator_operations ev)
      in rbind (health_checks F health (Option.bind reads rd_health_error) stale) (\<lambda>checks.
         rbind (application_models ev ordered) (\<lambda>applications.
         rbind (rmap (\<lambda>r. operation_model_of r (rev (map (\<lambda>a. (am_id a, am_slug a)) applications))
                        (if or_operation_id r \<in> set operator_ids then ''operator'' else ''hosted'')) ordered) (\<lambda>operations.
         rbind (role_models F \<lparr>ri_evidence = ev, ri_checks = checks, ri_operations = ordered, ri_applications = applications\<rparr>) (\<lambda>roles.
           let active = filter (\<lambda>op. st_key (om_status op) \<in> {''running'', ''recovery_required''}) operations;
               recent = take (RECENT_OPERATIONS - length active) (filter (\<lambda>op. st_key (om_status op) \<in> {''succeeded'', ''failed''}) operations);
               issues = issues_of roles applications checks ev (if stale then health_age ev else None)
           in Inr \<lparr>sn_generated_at = ev_generated_at ev, sn_platform = platform_model_of ev,
                sn_summary = summary_of F ev roles applications operations issues checks, sn_issues = issues, sn_roles = roles,
                sn_storage_host = host_model_of ev, sn_applications = applications, sn_operations = active @ recent,
                sn_operations_truncated = (case reads of None \<Rightarrow> False | Some r \<Rightarrow> rd_operations_truncated r),
                sn_checked_at = Option.bind health he_checked_at, sn_checks_stale = stale, sn_checks_available = (health \<noteq> None),
                sn_checks = checks,
                sn_sources = [controller_source ev, source_of ''provider'' ''OpenStack'' (ev_operator ev), health_source ev health stale,
                  routes_source ev]\<rparr>)))))"

end
