(* ===== verification/Dashboard_Guarantees.thy ===== *)
theory Dashboard_Guarantees
  imports Dashboard_Model
begin

text \<open>
  What the snapshot of \<open>Dashboard_Model\<close> promises: it is built from every evidence the parsers admit, and
  its summary calls the platform operational only on complete evidence. The last section shows how the
  projection reads a health report that was stopped by storage alarms.
\<close>

section \<open>Every snapshot is built\<close>

text \<open>The counts of a health report that \<open>int\<close> converts.\<close>

definition count_finite :: "python_ops \<Rightarrow> json \<Rightarrow> bool" where
  "count_finite F v = (case number F v of None \<Rightarrow> True | Some n \<Rightarrow> (case int_of_number F n of Inl _ \<Rightarrow> False | Inr _ \<Rightarrow> True))"

definition health_finite :: "python_ops \<Rightarrow> health_report \<Rightarrow> bool" where
  "health_finite F h \<longleftrightarrow>
     list_all (\<lambda>(chk, name). count_finite F (jget (mapping_of (jget (he_checks h) chk)) name))
       [(''openstack'', ''core_active''), (''openstack'', ''workers_active''), (''nomad'', ''ready_clients'')]"

lemma rmap_total: "(\<And>x. x \<in> set xs \<Longrightarrow> \<exists>y. f x = Inr y) \<Longrightarrow> \<exists>ys. rmap f xs = Inr ys"
proof (induction xs)
  case (Cons a xs)
  obtain y ys where "f a = Inr y" "rmap f xs = Inr ys" using Cons by (metis list.set_intros)
  then show ?case by simp
qed simp

lemma lookup_key_total: "k \<in> fst ` set d \<Longrightarrow> \<exists>v. lookup_key d k = Inr v"
  by (cases "dict_get d k") (auto simp: lookup_key_def map_of_eq_None_iff)

lemma operation_model_total: "operation_ok r \<Longrightarrow> \<exists>m. operation_model_of r slugs plane = Inr m"
  using lookup_key_total [of "or_status r" OPERATION_STATUS_LABELS]
  by (auto simp: operation_model_of_def operation_ok_def OPERATION_STATUSES_def OPERATION_STATUS_LABELS_def)

lemma deployment_model_total: "deployment_ok r \<Longrightarrow> \<exists>m. deployment_model_of r = Inr m"
  using lookup_key_total [of "dr_status r" DEPLOYMENT_STATUS_LABELS]
  by (auto simp: deployment_model_of_def deployment_ok_def DEPLOYMENT_STATUSES_def DEPLOYMENT_STATUS_LABELS_def)

lemma resource_label_total: "storage_ok r \<Longrightarrow> \<exists>l. lookup_key RESOURCE_TYPE_LABELS (sr_resource_type r) = Inr l"
  by (rule lookup_key_total) (auto simp: storage_ok_def RESOURCE_TYPES_def RESOURCE_TYPE_LABELS_def)

lemma storage_model_total: "storage_ok r \<Longrightarrow> \<exists>m. storage_model_of r now stale = Inr m"
  using lookup_key_total [of "sr_lifecycle_state r" RESOURCE_STATE_LABELS] resource_label_total [of r]
  by (auto simp: storage_model_of_def storage_ok_def RESOURCE_STATES_def RESOURCE_STATE_LABELS_def Let_def)

lemma rmap_option_total: "(\<And>x. o' = Some x \<Longrightarrow> \<exists>y. f x = Inr y) \<Longrightarrow> \<exists>y. rmap_option f o' = Inr y"
  by (cases o') (auto simp: rmap_option_def)

lemma find_in: "List.find P xs = Some x \<Longrightarrow> x \<in> set xs"
  by (auto simp: find_Some_iff)

lemma recovery_note_total: "list_all storage_ok resources \<Longrightarrow> \<exists>n. recovery_note op history resources = Inr n"
proof -
  assume ok: "list_all storage_ok resources"
  have "\<exists>n. rmap_option (\<lambda>r. rbind (lookup_key RESOURCE_TYPE_LABELS (sr_resource_type r)) (\<lambda>l. Inr (l @ '' storage needs recovery'')))
      (List.find (\<lambda>r. sr_lifecycle_state r = ''recovery_required'') resources) = Inr n"
  proof (rule rmap_option_total)
    fix r assume "List.find (\<lambda>r. sr_lifecycle_state r = ''recovery_required'') resources = Some r"
    then have "storage_ok r" using ok find_in by (fastforce simp: list_all_iff)
    then show "\<exists>y. rbind (lookup_key RESOURCE_TYPE_LABELS (sr_resource_type r)) (\<lambda>l. Inr (l @ '' storage needs recovery'')) = Inr y"
      using resource_label_total by fastforce
  qed
  then show ?thesis by (cases history) (auto simp: recovery_note_def)
qed

lemma last_where_in: "last_where P xs = Some x \<Longrightarrow> x \<in> set xs \<and> P x"
  by (auto simp: last_where_def find_Some_iff) (metis nth_mem rev_rev_ident set_rev length_rev)

lemma application_model_total:
  assumes "reads_ok reads" "list_all operation_ok operations"
  shows "\<exists>m. application_model_of ev reads operations a = Inr m"
proof -
  let ?i = "ap_application_id a"
  have d: "\<And>x. x \<in> set (rd_deployments reads) \<Longrightarrow> deployment_ok x" and s: "\<And>x. x \<in> set (rd_storage reads) \<Longrightarrow> storage_ok x"
    using assms(1) by (auto simp: reads_ok_def list_all_iff)
  obtain n where "recovery_note (active_operation operations ?i) (filter (\<lambda>d. dr_application_id d = ?i) (rd_deployments reads))
      (filter (\<lambda>r. sr_application_id r = ?i) (rd_storage reads)) = Inr n"
    using recovery_note_total s by (metis (no_types, lifting) filter_is_subset list_all_iff subsetD)
  moreover obtain dm where "rmap_option deployment_model_of (active_deployment reads a) = Inr dm"
  proof -
    have "x \<in> set (rd_deployments reads)" if "active_deployment reads a = Some x" for x
      using that last_where_in by (fastforce simp: active_deployment_def Option.bind_eq_Some_conv)
    then show ?thesis using that rmap_option_total deployment_model_total d by metis
  qed
  moreover obtain ds where "rmap deployment_model_of (take APPLICATION_HISTORY (filter (\<lambda>d. dr_application_id d = ?i) (rd_deployments reads))) = Inr ds"
  proof -
    have "\<exists>ds. rmap deployment_model_of (take APPLICATION_HISTORY (filter (\<lambda>d. dr_application_id d = ?i) (rd_deployments reads))) = Inr ds"
      by (rule rmap_total, rule deployment_model_total, rule d) (auto dest: in_set_takeD)
    then show ?thesis using that by blast
  qed
  moreover obtain om where "rmap_option (\<lambda>r. operation_model_of r [(?i, ap_slug a)] ''hosted'') (active_operation operations ?i) = Inr om"
    using rmap_option_total [of "active_operation operations ?i" "\<lambda>r. operation_model_of r [(?i, ap_slug a)] ''hosted''"]
      operation_model_total assms(2) find_in by (fastforce simp: active_operation_def list_all_iff)
  moreover obtain ss where "rmap (\<lambda>r. storage_model_of r (ev_generated_at ev) (\<not> ob_ok (ev_admin ev) \<or> dict_get (rd_section_errors reads) ''storage'' \<noteq> None))
      (filter (\<lambda>r. sr_application_id r = ?i) (rd_storage reads)) = Inr ss"
    using rmap_total [of "filter (\<lambda>r. sr_application_id r = ?i) (rd_storage reads)"] storage_model_total s by fastforce
  ultimately show ?thesis unfolding application_model_of_def Let_def by simp
qed

lemma int_of_number_total: "count_finite F v \<Longrightarrow> number F v = Some n \<Longrightarrow> \<exists>i. int_of_number F n = Inr i"
  by (auto simp: count_finite_def split: sum.splits)

lemma check_detail_total:
  assumes "health_finite F h" "dict_get (he_checks h) key = Some v"
  shows "\<exists>d. check_detail F key v = Inr d"
proof -
  have v: "jget (he_checks h) key = v" using assms(2) by (simp add: jget_def)
  have int: "\<exists>i. int_of_number F n = Inr i" if "number F (jget (mapping_of v) name) = Some n"
    "(key, name) \<in> {(''openstack'', ''core_active''), (''openstack'', ''workers_active''), (''nomad'', ''ready_clients'')}" for name n
    using int_of_number_total [OF _ that(1)] assms(1) v that(2) by (auto simp: health_finite_def)
  show ?thesis
  proof (cases "key = ''openstack''")
    case True
    then show ?thesis using int [of "''core_active''"] int [of "''workers_active''"]
      by (cases "number F (jget (mapping_of v) ''core_active'')"; cases "number F (jget (mapping_of v) ''workers_active'')")
         (auto simp: check_detail_def)
  next
    case other: False
    show ?thesis
    proof (cases "key = ''nomad''")
      case True
      then show ?thesis using int [of "''ready_clients''"]
        by (cases "number F (jget (mapping_of v) ''ready_clients'')") (auto simp: check_detail_def)
    next
      case False
      then show ?thesis using other by (simp add: check_detail_def Let_def split: option.split)
    qed
  qed
qed

lemma check_results_total: "health_finite F h \<Longrightarrow> \<exists>cs. check_results F h stale failed halted ks = Inr cs"
proof (induction ks arbitrary: halted)
  case (Cons k ks)
  obtain key label tone where k: "k = (key, label, tone)" by (cases k)
  obtain cs cs' where "check_results F h stale failed halted ks = Inr cs" "check_results F h stale failed True ks = Inr cs'"
    using Cons by metis
  then show ?case using check_detail_total [OF Cons.prems, of key]
    by (fastforce simp: k split: option.splits bool.splits)
qed simp

lemma health_count_total:
  "(\<And>r h. reads = Some r \<Longrightarrow> rd_health r = Some h \<Longrightarrow> count_finite F (jget (mapping_of (jget (he_checks h) chk)) name)) \<Longrightarrow>
   \<exists>n. health_count F reads chk name = Inr n"
proof (cases "Option.bind reads rd_health")
  case (Some h)
  assume finite: "\<And>r h. reads = Some r \<Longrightarrow> rd_health r = Some h \<Longrightarrow> count_finite F (jget (mapping_of (jget (he_checks h) chk)) name)"
  have "count_finite F (jget (mapping_of (jget (he_checks h) chk)) name)"
    using finite Some by (auto simp: Option.bind_eq_Some_conv)
  then show ?thesis using Some
    by (auto simp: health_count_def mapping_of_def split: option.split json.splits dest!: int_of_number_total)
qed (simp add: health_count_def)

lemma role_model_total:
  assumes "\<And>r h. ob_value (ev_admin (ri_evidence ri)) = Some r \<Longrightarrow> rd_health r = Some h \<Longrightarrow> health_finite F h" "role \<in> set IMAGE_ROLES"
  shows "\<exists>m. role_model_of F ri role = Inr m"
proof -
  have "\<exists>n. health_count F (ob_value (ev_admin (ri_evidence ri))) ''openstack'' ''workers_active'' = Inr n"
    "\<exists>n. health_count F (ob_value (ev_admin (ri_evidence ri))) ''nomad'' ''ready_clients'' = Inr n"
    by (rule health_count_total, use assms(1) in \<open>auto simp: health_finite_def\<close>)+
  then have "\<exists>s. worker_signals F ri = Inr s" by (auto simp: worker_signals_def Let_def)
  then have "\<exists>s. role_signals F ri role = Inr s" by (auto simp: role_signals_def Let_def)
  moreover have "\<exists>name lifetime summary l. (case dict_get ROLES role of Some x \<Rightarrow> x | None \<Rightarrow> (capitalize role, ''persistent'', [])) = (name, lifetime, summary) \<and>
      lookup_key LIFETIMES lifetime = Inr l"
    using assms(2) by (auto simp: IMAGE_ROLES_def ROLES_def LIFETIMES_def lookup_key_def)
  ultimately show ?thesis by (auto simp: role_model_of_def Let_def)
qed

lemma build_snapshot_total:
  assumes "\<And>r. ob_value (ev_admin ev) = Some r \<Longrightarrow> reads_ok r \<and> (\<forall>h. rd_health r = Some h \<longrightarrow> health_finite F h)"
    and "\<And>r. ob_value (ev_operator ev) = Some r \<Longrightarrow> operator_ok r"
  shows "\<exists>s. build_snapshot F ev = Inr s"
proof -
  have ops: "list_all operation_ok (ordered_operations ev)"
  proof -
    have "operation_ok r" if "ob_value (ev_admin ev) = Some x" "r \<in> set (rd_operations x)" for r x
      using assms(1) that by (auto simp: reads_ok_def list_all_iff)
    moreover have "operation_ok r" if "ob_value (ev_operator ev) = Some x" "r \<in> set (op_operations x)" for r x
      using assms(2) that by (auto simp: operator_ok_def list_all_iff)
    ultimately show ?thesis
      by (cases "ob_value (ev_admin ev)"; cases "ob_value (ev_operator ev)")
         (auto simp: ordered_operations_def operator_operations_def Let_def list_all_iff)
  qed
  obtain cs where "health_checks F (Option.bind (ob_value (ev_admin ev)) rd_health) (Option.bind (ob_value (ev_admin ev)) rd_health_error) (health_stale ev) = Inr cs"
    using assms(1) check_results_total by (fastforce simp: health_checks_def Let_def Option.bind_eq_Some_conv split: option.splits)
  moreover obtain as where "application_models ev (ordered_operations ev) = Inr as"
  proof (cases "ob_value (ev_admin ev)")
    case (Some r)
    then have "\<exists>as. rmap (application_model_of ev r (ordered_operations ev)) (rd_applications r) = Inr as"
      using application_model_total [OF _ ops] assms(1) by (intro rmap_total) blast
    then show ?thesis using that Some by (auto simp: application_models_def)
  qed (simp add: application_models_def)
  moreover obtain os where "rmap (\<lambda>r. operation_model_of r (rev (map (\<lambda>a. (am_id a, am_slug a)) as))
      (if or_operation_id r \<in> set (map or_operation_id (operator_operations ev)) then ''operator'' else ''hosted'')) (ordered_operations ev) = Inr os"
  proof -
    have "\<exists>os. rmap (\<lambda>r. operation_model_of r (rev (map (\<lambda>a. (am_id a, am_slug a)) as))
      (if or_operation_id r \<in> set (map or_operation_id (operator_operations ev)) then ''operator'' else ''hosted'')) (ordered_operations ev) = Inr os"
      using ops by (intro rmap_total operation_model_total) (simp add: list_all_iff)
    then show ?thesis using that by blast
  qed
  moreover obtain rs where "role_models F \<lparr>ri_evidence = ev, ri_checks = cs, ri_operations = ordered_operations ev, ri_applications = as\<rparr> = Inr rs"
  proof -
    have "\<exists>rs. role_models F \<lparr>ri_evidence = ev, ri_checks = cs, ri_operations = ordered_operations ev, ri_applications = as\<rparr> = Inr rs"
      unfolding role_models_def by (intro rmap_total role_model_total) (use assms(1) in simp_all)
    then show ?thesis using that by blast
  qed
  ultimately show ?thesis unfolding build_snapshot_def Let_def by simp
qed

section \<open>What a good summary means\<close>

lemma check_results_keys: "check_results F h stale failed halted ks = Inr cs \<Longrightarrow> map ck_key cs = map fst ks"
  by (induction ks arbitrary: halted cs) (auto simp: result_simps split: option.splits bool.splits if_splits)

lemma check_results_tones:
  assumes "check_results F h stale failed halted ks = Inr cs" "c \<in> set cs"
  shows "\<exists>key label tone. (key, label, tone) \<in> set ks \<and> ck_key c = key \<and>
    (ck_state c = ''passed'' \<and> ck_tone c = (if stale then ''neutral'' else ''good'') \<or>
     ck_state c = ''failed'' \<and> ck_tone c = (if stale then ''neutral'' else tone) \<or>
     ck_state c = ''not-run'' \<and> ck_tone c = ''neutral'')"
  using assms
proof (induction ks arbitrary: halted cs)
  case (Cons k ks)
  obtain key label tone where k: "k = (key, label, tone)" by (cases k)
  from Cons.prems(1) obtain halted' c0 cs0 where cs: "cs = c0 # cs0" "check_results F h stale failed halted' ks = Inr cs0"
    and c0: "ck_key c0 = key" "ck_state c0 = ''passed'' \<and> ck_tone c0 = (if stale then ''neutral'' else ''good'') \<or>
     ck_state c0 = ''failed'' \<and> ck_tone c0 = (if stale then ''neutral'' else tone) \<or>
     ck_state c0 = ''not-run'' \<and> ck_tone c0 = ''neutral''"
    by (auto simp: k result_simps split: option.splits bool.splits if_splits)
  show ?case
  proof (cases "c = c0")
    case True
    then show ?thesis
      by (rule_tac x = key in exI, rule_tac x = label in exI, rule_tac x = tone in exI) (use c0 k in auto)
  next
    case False
    then have "c \<in> set cs0" using Cons.prems(2) cs(1) by simp
    from Cons.IH [OF cs(2) this] show ?thesis by (meson list.set_intros(2))
  qed
qed simp

lemma check_results_halted: "check_results F h stale failed True ks = Inr cs \<Longrightarrow> c \<in> set cs \<Longrightarrow> ck_state c \<noteq> ''passed''"
  by (induction ks arbitrary: cs) (auto simp: result_simps split: option.splits if_splits)

lemma check_results_order:
  assumes "check_results F h stale failed halted ks = Inr cs" "i < j" "j < length cs" "ck_state (cs ! i) = ''failed''"
  shows "ck_state (cs ! j) \<noteq> ''passed''"
  using assms
proof (induction ks arbitrary: halted cs i j)
  case (Cons k ks)
  obtain key label tone where k: "k = (key, label, tone)" by (cases k)
  from Cons.prems(1) obtain halted' c0 cs0 where cs: "cs = c0 # cs0" "check_results F h stale failed halted' ks = Inr cs0"
    and c0: "ck_state c0 = ''failed'' \<longrightarrow> halted'"
    by (auto simp: k result_simps split: option.splits bool.splits if_splits)
  obtain j' where j: "j = Suc j'" "j' < length cs0" using Cons.prems(2,3) cs(1) by (cases j) auto
  show ?case
  proof (cases i)
    case 0
    then have "halted'" using Cons.prems(4) cs(1) c0 by simp
    then show ?thesis using check_results_halted [of F h stale failed ks cs0] cs j by (auto simp: in_set_conv_nth)
  next
    case (Suc i')
    then show ?thesis using Cons.IH [OF cs(2), of i' j'] Cons.prems(2,4) cs(1) j by simp
  qed
qed simp

definition quiet :: "string \<Rightarrow> bool" where
  "quiet tone \<longleftrightarrow> \<not> alerting tone"

lemma summary_good:
  assumes "su_tone (summary_of F ev roles applications operations issues checks) = ''good''"
  shows "i \<in> set issues \<Longrightarrow> quiet (is_tone i)"
    and "r \<in> set roles \<Longrightarrow> st_key (rm_status r) \<noteq> ''unverified''"
    and "a \<in> set applications \<Longrightarrow> am_deleted_at a = None \<Longrightarrow> st_key (am_status a) \<noteq> ''unknown''"
  using assms
  by (auto simp: summary_of_def headline_def Let_def count_where_def quiet_def alerting_def filter_empty_conv split: if_splits prod.splits)

lemma role_issue_quiet: "r \<in> set roles \<Longrightarrow> s \<in> set (rm_signals r) \<Longrightarrow> (\<And>i. i \<in> set (issues_of roles as cs ev age) \<Longrightarrow> quiet (is_tone i)) \<Longrightarrow> quiet (sg_tone s)"
proof (rule ccontr)
  assume r: "r \<in> set roles" "s \<in> set (rm_signals r)" and q: "\<And>i. i \<in> set (issues_of roles as cs ev age) \<Longrightarrow> quiet (is_tone i)" and s: "\<not> quiet (sg_tone s)"
  then have "issue (sg_tone s) ''role'' (rm_role r) (rm_name r) (sg_label s @ '': '' @ sg_value s) (sg_detail s) \<in> set (issues_of roles as cs ev age)"
    by (auto simp: issues_of_def role_issues_def quiet_def)
  from q [OF this] show False using s by (simp add: issue_def)
qed

lemma application_issue_quiet:
  assumes "a \<in> set as" "\<And>i. i \<in> set (issues_of roles as cs ev age) \<Longrightarrow> quiet (is_tone i)"
  shows "quiet (st_tone (am_status a))"
proof (rule ccontr)
  assume a: "\<not> quiet (st_tone (am_status a))"
  then have "\<exists>i \<in> set (application_issues a). is_tone i = st_tone (am_status a)"
    unfolding application_issues_def quiet_def by (simp add: issue_def bex_Un)
  then obtain i where i: "i \<in> set (application_issues a)" "is_tone i = st_tone (am_status a)" by blast
  then have "i \<in> set (issues_of roles as cs ev age)" using assms(1) by (auto simp: issues_of_def)
  then show False using assms(2) a i(2) by fastforce
qed

lemma platform_issues_quiet:
  assumes "\<And>i. i \<in> set (issues_of roles as cs ev age) \<Longrightarrow> quiet (is_tone i)"
  shows "check_issues c \<noteq> [] \<Longrightarrow> c \<in> set cs \<Longrightarrow> quiet (if ck_tone c \<noteq> ''neutral'' then ck_tone c else ''warning'')"
    and "ob_ok (ev_operator ev)"
proof -
  have *: "quiet (is_tone i)" if "i \<in> set (check_issues c) \<and> c \<in> set cs \<or> i \<in> set (provider_issues ev)" for i c
    using assms that by (auto simp: issues_of_def)
  show "check_issues c \<noteq> [] \<Longrightarrow> c \<in> set cs \<Longrightarrow> quiet (if ck_tone c \<noteq> ''neutral'' then ck_tone c else ''warning'')"
    using * [of "hd (check_issues c)" c] by (auto simp: check_issues_def issue_def split: if_splits)
  show "ob_ok (ev_operator ev)"
  proof (rule ccontr)
    assume no: "\<not> ob_ok (ev_operator ev)"
    then have "issue ''warning'' ''platform'' ''provider'' ''OpenStack'' ''Provider observation unavailable'' (ob_error (ev_operator ev)) \<in> set (provider_issues ev)"
      by (simp add: provider_issues_def Let_def)
    then show False using * by (fastforce simp: issue_def quiet_def alerting_def)
  qed
qed

lemma rmap_in: "rmap f xs = Inr ys \<Longrightarrow> x \<in> set xs \<Longrightarrow> \<exists>y \<in> set ys. f x = Inr y"
  by (induction xs arbitrary: ys) (auto simp: result_simps)

lemma worst_in: "worst tones = Some t \<Longrightarrow> t \<in> set tones"
proof -
  assume w: "worst tones = Some t"
  define ranked where "ranked = sort_key tone_index (filter (\<lambda>t. t \<in> set TONES) tones)"
  have "set ranked \<subseteq> set tones" by (auto simp: ranked_def)
  moreover have "ranked \<noteq> []" "t = hd ranked"
    using w by (auto simp: worst_def Let_def ranked_def filter_empty_conv split: if_splits simp flip: set_empty)
  ultimately show ?thesis by auto
qed

lemma role_status_verified:
  assumes "st_key (role_status role sigs) \<noteq> ''unverified''" "role \<noteq> ''builder''"
    and "\<And>s. s \<in> set sigs \<Longrightarrow> quiet (sg_tone s) \<and> sg_tone s \<noteq> ''info''"
  shows "list_all (\<lambda>s. sg_tone s = ''good'') sigs"
proof -
  have "worst (map sg_tone sigs) \<notin> {Some ''critical'', Some ''warning'', Some ''info''}"
    using worst_in [of "map sg_tone sigs"] assms(3) by (fastforce simp: quiet_def alerting_def)
  then show ?thesis
    using assms(1,2) by (auto simp: role_status_def Let_def status_def list_all_iff split: if_splits)
qed

lemma health_check_tones:
  assumes "health_checks F report u stale = Inr cs" "c \<in> set cs"
  shows "ck_tone c \<noteq> ''info''" and "ck_tone c = ''good'' \<Longrightarrow> ck_state c = ''passed'' \<and> \<not> stale \<and> report \<noteq> None"
    and "ck_state c = ''failed'' \<Longrightarrow> ck_key c \<in> {''backup'', ''offsite_recovery''} \<Longrightarrow> ck_tone c \<in> {''neutral'', ''warning''}"
proof -
  have "ck_tone c \<noteq> ''info'' \<and> (ck_tone c = ''good'' \<longrightarrow> ck_state c = ''passed'' \<and> \<not> stale \<and> report \<noteq> None) \<and>
    (ck_state c = ''failed'' \<longrightarrow> ck_key c \<in> {''backup'', ''offsite_recovery''} \<longrightarrow> ck_tone c \<in> {''neutral'', ''warning''})"
  proof (cases report)
    case None
    then show ?thesis using assms by (auto simp: health_checks_def HEALTH_CHECKS_def Let_def)
  next
    case (Some h)
    then obtain failed where "check_results F h stale failed False HEALTH_CHECKS = Inr cs"
      using assms(1) by (auto simp: health_checks_def Let_def)
    from check_results_tones [OF this assms(2)] show ?thesis
      using Some by (auto simp: HEALTH_CHECKS_def split: if_splits)
  qed
  then show "ck_tone c \<noteq> ''info''" and "ck_tone c = ''good'' \<Longrightarrow> ck_state c = ''passed'' \<and> \<not> stale \<and> report \<noteq> None"
    and "ck_state c = ''failed'' \<Longrightarrow> ck_key c \<in> {''backup'', ''offsite_recovery''} \<Longrightarrow> ck_tone c \<in> {''neutral'', ''warning''}" by blast+
qed

lemma find_check_in: "find_check cs key = Some c \<Longrightarrow> c \<in> set cs \<and> ck_key c = key"
  by (auto simp: find_check_def dest: last_where_in)

lemma check_signal_tone: "sg_tone (check_signal label c) = (case c of None \<Rightarrow> ''neutral'' | Some k \<Rightarrow> ck_tone k)"
  by (simp add: check_signal_def signal_def split: option.split)

lemma counted_tone [simp]: "sg_tone (counted s n noun) = sg_tone s"
  by (simp add: counted_def split: option.split)

lemma worker_good:
  assumes cs: "health_checks F report u stale = Inr (ri_checks ri)"
    and "worker_signals F ri = Inr sigs" "st_key (role_status ''worker'' sigs) \<noteq> ''unverified''"
    and "\<And>s. s \<in> set sigs \<Longrightarrow> quiet (sg_tone s)"
  obtains c where "find_check (ri_checks ri) ''nomad'' = Some c" "ck_state c = ''passed''" "\<not> stale" "report \<noteq> None"
proof -
  obtain servers n where sigs: "sigs = [servers, counted (check_signal ''Nomad clients'' (find_check (ri_checks ri) ''nomad'')) n ''ready'']"
    and servers: "sg_tone servers = ''neutral'' \<or> (\<exists>n. servers = counted (check_signal ''Servers'' (find_check (ri_checks ri) ''openstack'')) n ''active'')"
    using assms(2) by (auto simp: worker_signals_def Let_def result_simps signal_def split: if_splits)
  have not_info: "sg_tone (check_signal label (find_check (ri_checks ri) key)) \<noteq> ''info''" for label key
    using health_check_tones(1) [OF cs] find_check_in by (auto simp: check_signal_tone split: option.split)
  have "list_all (\<lambda>s. sg_tone s = ''good'') sigs"
    by (rule role_status_verified [OF assms(3)]) (use assms(4) not_info servers in \<open>auto simp: sigs\<close>)
  then obtain c where c: "find_check (ri_checks ri) ''nomad'' = Some c" "ck_tone c = ''good''"
    by (auto simp: sigs check_signal_tone split: option.splits)
  then show thesis using that health_check_tones(2) [OF cs _ c(2)] find_check_in by blast
qed

lemma no_failed_check:
  assumes cs: "health_checks F report u stale = Inr cs" and nomad: "find_check cs ''nomad'' = Some c0" "ck_state c0 = ''passed''"
    and "\<And>c. c \<in> set cs \<Longrightarrow> check_issues c = []"
    and c: "c \<in> set cs"
  shows "ck_state c \<noteq> ''failed''"
proof
  assume failed: "ck_state c = ''failed''"
  obtain h fl where h: "check_results F h stale fl False HEALTH_CHECKS = Inr cs"
    using cs nomad find_check_in by (cases report) (fastforce simp: health_checks_def Let_def HEALTH_CHECKS_def)+
  have keys: "map ck_key cs = [''openstack'', ''public_ingress'', ''managed_services'', ''nomad'', ''backup'', ''offsite_recovery'']"
    using check_results_keys [OF h] by (simp add: HEALTH_CHECKS_def)
  have "length (map ck_key cs) = 6" unfolding keys by simp
  then have len: "length cs = 6" by simp
  have key: "ck_key (cs ! i) = [''openstack'', ''public_ingress'', ''managed_services'', ''nomad'', ''backup'', ''offsite_recovery''] ! i" if "i < 6" for i
    using nth_map [of i cs ck_key] len that unfolding keys by simp
  obtain i where i: "i < 6" "cs ! i = c" using c len by (auto simp: in_set_conv_nth)
  obtain j where j: "j < 6" "cs ! j = c0" using find_check_in [OF nomad(1)] len by (auto simp: in_set_conv_nth)
  have "j = 3" using key [OF j(1)] j find_check_in [OF nomad(1)] by (auto simp: less_Suc_eq numeral_eq_Suc)
  have "ck_key c \<notin> {''backup'', ''offsite_recovery''}" using assms(4) [OF c] failed by (auto simp: check_issues_def)
  then have "i < 4" using key [OF i(1)] i by (auto simp: less_Suc_eq numeral_eq_Suc)
  moreover have "i \<noteq> 3" using i(2) j(2) \<open>j = 3\<close> failed nomad(2) by auto
  ultimately show False
    using check_results_order [OF h, of i 3] len failed i(2) j(2) \<open>j = 3\<close> nomad(2) by simp
qed

lemma api_quiet:
  assumes "quiet (sg_tone (api_signal admin))"
  shows "ob_ok admin" and "\<exists>reads. ob_value admin = Some reads \<and> (\<forall>sec \<in> set CONTROLLER_SECTIONS. dict_get (rd_section_errors reads) sec = None)"
  using assms by (auto simp: api_signal_def signal_def quiet_def alerting_def filter_empty_conv Let_def split: option.splits if_splits list.splits)

lemma probe_quiet:
  assumes "quiet (sg_tone (route_probe_signal label (Some p)))"
  shows "pr_status p = Some 200 \<and> pr_body_ok p = Some True"
  using assms by (auto simp: route_probe_signal_def signal_def quiet_def alerting_def split: option.splits if_splits)

lemma application_served:
  assumes "quiet (st_tone (application_status a op route note))" "st_key (application_status a op route note) \<noteq> ''unknown''"
    and "ap_deleted_at a = None" "ap_enabled a" "\<not> (\<exists>r. op = Some r \<and> or_status r = ''running'')"
  shows "rt_outcome route \<notin> {''unreachable'', ''http-error'', ''wrong-deployment'', ''not-checked''}"
  using assms by (auto simp: application_status_def Let_def status_def quiet_def alerting_def split: if_splits option.splits)

lemma route_served:
  assumes "rt_outcome (route_model_of a d p t) \<notin> {''unreachable'', ''http-error'', ''wrong-deployment'', ''not-checked''}"
  shows "\<exists>dep q code. d = Some dep \<and> p = Some q \<and> pr_status q = Some code \<and> 200 \<le> code \<and> code < 300 \<and>
    pr_marker q \<in> {Some (dr_deployment_id dep), Some (ap_application_id a)}"
  using assms
  by (auto simp: route_model_of_def unchecked_route_def route_outcome_def Let_def case_prod_beta split: if_splits option.splits)

lemma applications_served:
  assumes "application_models ev ops = Inr apps" "ob_value (ev_admin ev) = Some reads"
    and "\<And>m. m \<in> set apps \<Longrightarrow> quiet (st_tone (am_status m))"
    and "\<And>m. m \<in> set apps \<Longrightarrow> am_deleted_at m = None \<Longrightarrow> st_key (am_status m) \<noteq> ''unknown''"
    and a: "a \<in> set (rd_applications reads)" "ap_enabled a \<and> ap_deleted_at a = None"
  shows "(\<exists>r \<in> set ops. or_status r = ''running'' \<and> scope_application (or_scope r) = Some (ap_application_id a)) \<or>
    (\<exists>d p code. active_deployment reads a = Some d \<and> dict_get (ev_routes ev) (ap_application_id a) = Some p \<and>
       pr_status p = Some code \<and> 200 \<le> code \<and> code < 300 \<and> pr_marker p \<in> {Some (dr_deployment_id d), Some (ap_application_id a)})"
proof -
  obtain m recov where m: "m \<in> set apps" "am_deleted_at m = None"
    "am_status m = application_status a (active_operation ops (ap_application_id a)) (application_route ev reads a) recov"
    using rmap_in [of "application_model_of ev reads ops" _ _ a] assms(1,2) a
    by (fastforce simp: application_models_def application_model_of_def Let_def result_simps)
  show ?thesis
  proof (cases "\<exists>r. active_operation ops (ap_application_id a) = Some r \<and> or_status r = ''running''")
    case True
    then show ?thesis unfolding active_operation_def by (blast dest: find_where_SomeD)
  next
    case False
    then show ?thesis
      using route_served application_served [of a _ "application_route ev reads a" recov] assms(3) [OF m(1)] assms(4) [OF m(1,2)] m(3) a(2)
      unfolding application_route_def by metis
  qed
qed

lemma role_models_signals:
  assumes "role_models F ri = Inr roles" "role \<in> set IMAGE_ROLES"
  obtains r sigs where "r \<in> set roles" "role_signals F ri role = Inr sigs" "rm_signals r = sigs" "rm_status r = role_status role sigs"
  using rmap_in [OF assms(1) [unfolded role_models_def] assms(2)]
  by (auto simp: role_model_of_def result_simps split: prod.splits)

text \<open>
  C37: the dashboard never reports missing evidence as health. When the summary says that all systems are
  operational, then the last admin read succeeded with every controller section, the provider answered,
  the health report exists, is not stale and lists no failed check, both ingress routes answered
  correctly wherever they were probed, and every enabled application either has a running operation or
  was seen serving: its accepted deployment is known and its route answered with a success status and
  the marker of that deployment or application.
\<close>

theorem operational_means_verified:
  assumes "build_snapshot F ev = Inr s" "su_tone (sn_summary s) = ''good''"
  shows "\<exists>reads health. ob_ok (ev_admin ev) \<and> ob_value (ev_admin ev) = Some reads \<and>
    (\<forall>sec \<in> set CONTROLLER_SECTIONS. dict_get (rd_section_errors reads) sec = None) \<and>
    ob_ok (ev_operator ev) \<and> rd_health reads = Some health \<and> \<not> health_stale ev \<and>
    (\<forall>c \<in> set (sn_checks s). ck_state c \<noteq> ''failed'') \<and>
    (\<forall>url \<in> {platform_route ev, wildcard_route ev}. \<forall>p. ingress_probe ev url = Some p \<longrightarrow>
       pr_status p = Some 200 \<and> pr_body_ok p = Some True) \<and>
    (\<forall>a \<in> set (rd_applications reads). ap_enabled a \<and> ap_deleted_at a = None \<longrightarrow>
       (\<exists>r \<in> set (ordered_operations ev). or_status r = ''running'' \<and> scope_application (or_scope r) = Some (ap_application_id a)) \<or>
       (\<exists>d p code. active_deployment reads a = Some d \<and> dict_get (ev_routes ev) (ap_application_id a) = Some p \<and>
          pr_status p = Some code \<and> 200 \<le> code \<and> code < 300 \<and> pr_marker p \<in> {Some (dr_deployment_id d), Some (ap_application_id a)}))"
proof -
  define reads0 stale where "reads0 = ob_value (ev_admin ev)" and "stale = health_stale ev"
  obtain checks apps ops roles where
    cs: "health_checks F (Option.bind reads0 rd_health) (Option.bind reads0 rd_health_error) stale = Inr checks"
    and apps: "application_models ev (ordered_operations ev) = Inr apps"
    and roles: "role_models F \<lparr>ri_evidence = ev, ri_checks = checks, ri_operations = ordered_operations ev, ri_applications = apps\<rparr> = Inr roles"
    and s: "sn_checks s = checks" "sn_summary s = summary_of F ev roles apps ops (issues_of roles apps checks ev (if stale then health_age ev else None)) checks"
    using assms(1) unfolding build_snapshot_def Let_def reads0_def stale_def by (auto simp: result_simps)
  define ri where "ri = \<lparr>ri_evidence = ev, ri_checks = checks, ri_operations = ordered_operations ev, ri_applications = apps\<rparr>"
  note good = summary_good [OF assms(2) [unfolded s(2)]]
  have quiet_signal: "quiet (sg_tone x)" if "r \<in> set roles" "x \<in> set (rm_signals r)" for r x
    by (rule role_issue_quiet [OF that], erule good(1))
  have quiet_app: "quiet (st_tone (am_status m))" if "m \<in> set apps" for m
    by (rule application_issue_quiet [OF that], erule good(1))
  have provider: "ob_ok (ev_operator ev)" by (rule platform_issues_quiet(2), erule good(1))
  have sig: "quiet (sg_tone x)" if "role \<in> set IMAGE_ROLES" "role_signals F ri role = Inr sigs" "x \<in> set sigs" for role sigs x
    using role_models_signals [OF roles [folded ri_def] that(1)] that(2,3) quiet_signal by (metis Inr_inject)
  have "quiet (sg_tone (api_signal (ev_admin ev)))"
    using sig [of "''admin''"] by (simp add: IMAGE_ROLES_def role_signals_def ri_def admin_signals_def Let_def)
  from api_quiet [OF this] obtain reads where admin: "ob_ok (ev_admin ev)" "ob_value (ev_admin ev) = Some reads"
    "\<forall>sec \<in> set CONTROLLER_SECTIONS. dict_get (rd_section_errors reads) sec = None" by blast
  obtain sigs where w: "worker_signals F ri = Inr sigs" "st_key (role_status ''worker'' sigs) \<noteq> ''unverified''"
  proof (rule role_models_signals [OF roles [folded ri_def], of "''worker''"])
    fix r sigs assume "r \<in> set roles" "role_signals F ri ''worker'' = Inr sigs" "rm_status r = role_status ''worker'' sigs"
    then show ?thesis using that good(2) [of r] by (simp add: role_signals_def Let_def)
  qed (simp add: IMAGE_ROLES_def)
  have "quiet (sg_tone x)" if "x \<in> set sigs" for x
    using sig [of "''worker''" sigs x] w(1) that by (simp add: IMAGE_ROLES_def role_signals_def Let_def)
  with worker_good [of F _ _ stale ri, unfolded ri_def role_input.simps, OF cs w [unfolded ri_def]]
  obtain c where nomad: "find_check checks ''nomad'' = Some c" "ck_state c = ''passed''" "\<not> stale" "Option.bind reads0 rd_health \<noteq> None"
    by blast
  then obtain health where health: "rd_health reads = Some health" using admin(2) by (auto simp: reads0_def)
  have "check_issues x = []" if "x \<in> set checks" for x
  proof (rule ccontr)
    assume "check_issues x \<noteq> []"
    then have "quiet (if ck_tone x \<noteq> ''neutral'' then ck_tone x else ''warning'')"
      by (rule platform_issues_quiet(1) [rotated]) (use that in assumption, erule good(1))
    then show False using \<open>check_issues x \<noteq> []\<close> health_check_tones(3) [OF cs that]
      by (auto simp: check_issues_def quiet_def alerting_def split: if_splits)
  qed
  note failed = no_failed_check [OF cs nomad(1,2) this]
  have "quiet (sg_tone (route_probe_signal ''Platform route'' (ingress_probe ev (platform_route ev))))"
    "quiet (sg_tone (route_probe_signal ''Wildcard route'' (ingress_probe ev (wildcard_route ev))))"
    using sig [of "''ingress''"] by (simp_all add: IMAGE_ROLES_def role_signals_def ri_def Let_def)
  then have ingress: "pr_status p = Some 200 \<and> pr_body_ok p = Some True"
    if "url \<in> {platform_route ev, wildcard_route ev}" "ingress_probe ev url = Some p" for url p
    using that probe_quiet by fastforce
  note served = applications_served [OF apps admin(2) quiet_app good(3)]
  show ?thesis
    using admin provider health nomad(3) failed ingress served unfolding stale_def s(1) by blast
qed

text \<open>One application served by its accepted deployment, everything else observed and healthy.\<close>

definition example_ops :: python_ops where
  "example_ops = \<lparr>py_negative = \<lambda>_. False, py_int = \<lambda>_. None, py_load = \<lambda>_. True, py_fixed1 = \<lambda>_. ''0.0'', py_str = \<lambda>_. []\<rparr>"

definition example_application :: application_record where
  "example_application = \<lparr>ap_application_id = ''a1'', ap_slug = ''shop'', ap_enabled = True, ap_active_deployment_id = Some ''d1'',
     ap_url = None, ap_worker_flavor = None, ap_cpu_mhz = None, ap_memory_mib = None, ap_created_at = None, ap_updated_at = None, ap_deleted_at = None\<rparr>"

definition example_deployment :: deployment_record where
  "example_deployment = \<lparr>dr_deployment_id = ''d1'', dr_application_id = ''a1'', dr_status = ''succeeded'', dr_source_commit = None,
     dr_requested_ref = None, dr_repository = None, dr_runtime = None, dr_port = None, dr_health_path = Some ''/health'',
     dr_configuration_revision = None, dr_image_digest = None, dr_safe_error = None, dr_cleanup_state = None, dr_requested_at = None,
     dr_updated_at = None, dr_accepted_at = None, dr_last_healthy_at = None\<rparr>"

definition example_health :: health_report where
  "example_health = \<lparr>he_checked_at = Some ''2024-01-01T00:00:00Z'', he_healthy = True,
     he_checks = map (\<lambda>(key, _). (key, JStr ''healthy'')) HEALTH_CHECKS, he_error = None\<rparr>"

definition example_reads :: admin_reads where
  "example_reads = \<lparr>rd_api_version = Some 1, rd_features = [], rd_images = [], rd_applications = [example_application],
     rd_deployments = [example_deployment], rd_deployments_truncated = False, rd_storage = [], rd_operations = [],
     rd_operations_truncated = False, rd_controller_units = Some [(''controller'', ''active''), (''readiness'', ''active'')],
     rd_health = Some example_health, rd_health_error = None, rd_section_errors = [], rd_storage_host = None\<rparr>"

definition example_probe :: "string \<Rightarrow> probe" where
  "example_probe url = \<lparr>pr_url = url, pr_checked_at = ''2024-01-01T00:00:00Z'', pr_status = Some 200, pr_latency_ms = Some 5,
     pr_marker = Some ''d1'', pr_body_ok = Some True, pr_error = None\<rparr>"

definition example_evidence :: evidence where
  "example_evidence = \<lparr>ev_platform = \<lparr>pf_project_name = ''p'', pf_namespace = ''n'', pf_domain = ''example.org'', pf_region = ''r'', pf_document = JObj []\<rparr>,
     ev_generated_at = ''2024-01-01T00:01:00Z'',
     ev_admin = \<lparr>ob_value = Some example_reads, ob_ok = True, ob_observed_at = Some ''2024-01-01T00:01:00Z'', ob_error = None\<rparr>,
     ev_operator = \<lparr>ob_value = Some \<lparr>op_hosts = map (\<lambda>r. \<lparr>ho_role = r, ho_image = None, ho_available = True, ho_state = ''active'', ho_checked_at = None\<rparr>)
         [''admin'', ''ingress'', ''storage''], op_operations = []\<rparr>, ob_ok = True, ob_observed_at = None, ob_error = None\<rparr>,
     ev_ingress = [example_probe ''https://example.org/healthz'', example_probe ''https://wildcard-health.example.org/healthz''],
     ev_routes = [(''a1'', example_probe ''https://shop.example.org/health'')], ev_history = [], ev_release = None, ev_admin_sections = []\<rparr>"

theorem operational_means_verified_witness:
  "\<exists>s. build_snapshot example_ops example_evidence = Inr s \<and> su_tone (sn_summary s) = ''good'' \<and> ob_ok (ev_admin example_evidence)"
proof -
  have "case build_snapshot example_ops example_evidence of Inr s \<Rightarrow> su_tone (sn_summary s) = ''good'' | Inl _ \<Rightarrow> False" by code_simp
  then obtain s where s: "build_snapshot example_ops example_evidence = Inr s" "su_tone (sn_summary s) = ''good''"
    by (cases "build_snapshot example_ops example_evidence") auto
  then show ?thesis using operational_means_verified [OF s] by blast
qed

section \<open>A degraded service\<close>

text \<open>
  C39: a degraded managed service is shown as healthy. When storage alarms stop the health run,
  \<open>check_platform.py\<close> records an entry for \<open>managed_services\<close> before it raises, and the dashboard takes the first missing
  entry for the failed check: whatever \<open>managed_services\<close> records, it is reported as passed, and the
  failure is reported for \<open>nomad\<close>.
\<close>

theorem degraded_services_shown_healthy:
  assumes "\<not> he_healthy h" "health_finite F h"
    and "list_all (\<lambda>key. dict_get (he_checks h) key \<noteq> None) [''openstack'', ''public_ingress'', ''managed_services'']"
    and "dict_get (he_checks h) ''nomad'' = None"
  shows "\<exists>checks services nomad. health_checks F (Some h) unavailable False = Inr checks \<and>
    services \<in> set checks \<and> ck_key services = ''managed_services'' \<and> ck_state services = ''passed'' \<and> ck_tone services = ''good'' \<and>
    nomad \<in> set checks \<and> ck_key nomad = ''nomad'' \<and> ck_state nomad = ''failed'' \<and>
    ck_detail nomad = or_else (he_error h) ''The check failed''"
proof -
  obtain checks where cs: "health_checks F (Some h) unavailable False = Inr checks"
    using check_results_total [OF assms(2)] unfolding health_checks_def Let_def option.case by metis
  obtain v1 v2 v3 where v: "dict_get (he_checks h) ''openstack'' = Some v1" "dict_get (he_checks h) ''public_ingress'' = Some v2"
    "dict_get (he_checks h) ''managed_services'' = Some v3" using assms(3) by auto
  define tail where "tail = drop 4 HEALTH_CHECKS"
  have split: "HEALTH_CHECKS = (''openstack'', ''OpenStack servers'', ''critical'') # (''public_ingress'', ''Public ingress'', ''critical'') #
      (''managed_services'', ''Managed services'', ''critical'') # (''nomad'', ''Nomad cluster'', ''critical'') # tail"
    by (simp add: HEALTH_CHECKS_def tail_def)
  have "check_results F h False (Some ''nomad'') False HEALTH_CHECKS = Inr checks"
    using cs assms(1,4) v unfolding health_checks_def Let_def option.case by (simp add: split)
  then obtain d1 d2 d3 rest where "checks =
      \<lparr>ck_key = ''openstack'', ck_label = ''OpenStack servers'', ck_state = ''passed'', ck_tone = ''good'', ck_detail = d1\<rparr> #
      \<lparr>ck_key = ''public_ingress'', ck_label = ''Public ingress'', ck_state = ''passed'', ck_tone = ''good'', ck_detail = d2\<rparr> #
      \<lparr>ck_key = ''managed_services'', ck_label = ''Managed services'', ck_state = ''passed'', ck_tone = ''good'', ck_detail = d3\<rparr> #
      \<lparr>ck_key = ''nomad'', ck_label = ''Nomad cluster'', ck_state = ''failed'', ck_tone = ''critical'',
        ck_detail = or_else (he_error h) ''The check failed''\<rparr> # rest"
    unfolding split by (auto simp: v assms(4) rbind_eq_Inr)
  then show ?thesis using cs by force
qed

theorem degraded_services_shown_healthy_witness:
  "\<exists>checks services nomad. health_checks example_ops
      (Some \<lparr>he_checked_at = None, he_healthy = False,
         he_checks = [(''openstack'', JStr ''healthy''), (''public_ingress'', JStr ''healthy''), (''managed_services'', JObj [(''state'', JStr ''degraded'')])],
         he_error = Some ''Managed storage alarms: disk''\<rparr>) None False = Inr checks \<and>
    services \<in> set checks \<and> ck_key services = ''managed_services'' \<and> ck_state services = ''passed'' \<and> ck_tone services = ''good'' \<and>
    nomad \<in> set checks \<and> ck_key nomad = ''nomad'' \<and> ck_state nomad = ''failed'' \<and> ck_detail nomad = ''Managed storage alarms: disk''"
  using degraded_services_shown_healthy [where F = example_ops and unavailable = None and h =
    "\<lparr>he_checked_at = None, he_healthy = False,
       he_checks = [(''openstack'', JStr ''healthy''), (''public_ingress'', JStr ''healthy''), (''managed_services'', JObj [(''state'', JStr ''degraded'')])],
       he_error = Some ''Managed storage alarms: disk''\<rparr>"]
  by (simp add: or_else_def health_finite_def count_finite_def number_def jget_def mapping_of_def)

end
