(* ===== verification/Dashboard_Service.thy ===== *)
theory Dashboard_Service
  imports Dashboard_Guarantees
begin

text \<open>
  The collector of the dashboard (\<open>dashboard/service.py\<close>): the last observation of each source, the
  history of route probes, and the refresh that combines new reads with what is kept of the old ones.
  The outcome of the reads and probes of one refresh is its input, with the times the clock gave; the
  probes run in threads, and their results are read only by application. \<open>refresh\<close> of the service is its
  two critical sections, around a collection.
\<close>

section \<open>Collector\<close>

definition HISTORY_LENGTH :: nat where "HISTORY_LENGTH = 24"

definition CARRIED_SECTIONS :: "string list" where
  "CARRIED_SECTIONS = [''capabilities'', ''images'', ''applications'', ''deployments'', ''storage'', ''status'', ''operations'']"

text \<open>The fields of a section, copied from the previous reads.\<close>

definition carry_fields :: "string \<Rightarrow> admin_reads \<Rightarrow> admin_reads \<Rightarrow> admin_reads" where
  "carry_fields sec previous current =
     (if sec = ''capabilities'' then current\<lparr>rd_api_version := rd_api_version previous, rd_features := rd_features previous\<rparr>
      else if sec = ''images'' then current\<lparr>rd_images := rd_images previous\<rparr>
      else if sec = ''applications'' then current\<lparr>rd_applications := rd_applications previous\<rparr>
      else if sec = ''deployments'' then
        current\<lparr>rd_deployments := rd_deployments previous, rd_deployments_truncated := rd_deployments_truncated previous\<rparr>
      else if sec = ''storage'' then current\<lparr>rd_storage := rd_storage previous\<rparr>
      else if sec = ''status'' then current\<lparr>rd_storage_host := rd_storage_host previous\<rparr>
      else if sec = ''operations'' then
        current\<lparr>rd_operations := rd_operations previous, rd_operations_truncated := rd_operations_truncated previous\<rparr>
      else current)"

text \<open>Why a read failed: a \<open>SourceError\<close> with its text, or another exception by its class.\<close>

datatype read_failure = Source_Failure string | Other_Failure string

fun failure :: "read_failure \<Rightarrow> string \<Rightarrow> string" where
  "failure (Source_Failure s) label = s"
| "failure (Other_Failure cls) label = ''the '' @ label @ '' read failed unexpectedly ('' @ cls @ '')''"

record collector =
  co_platform :: platform_config
  co_release :: "string option"
  co_admin :: "admin_reads observed"
  co_operator :: "operator_reads observed"
  co_history :: "(string \<times> (string \<times> string) list) list"
  co_section_success :: "(string \<times> string) list"

definition unobserved :: "'a observed" where
  "unobserved = \<lparr>ob_value = None, ob_ok = False, ob_observed_at = None, ob_error = None\<rparr>"

definition new_collector :: "platform_config \<Rightarrow> string option \<Rightarrow> collector" where
  "new_collector platform release =
     \<lparr>co_platform = platform, co_release = release, co_admin = unobserved, co_operator = unobserved, co_history = [], co_section_success = []\<rparr>"

definition observe :: "'a observed \<Rightarrow> read_failure + 'a \<Rightarrow> string \<Rightarrow> string \<Rightarrow> 'a observed" where
  "observe previous outcome label now =
     (case outcome of
        Inl e \<Rightarrow> \<lparr>ob_value = ob_value previous, ob_ok = False, ob_observed_at = ob_observed_at previous, ob_error = Some (failure e label)\<rparr>
      | Inr v \<Rightarrow> \<lparr>ob_value = Some v, ob_ok = True, ob_observed_at = Some now, ob_error = None\<rparr>)"

text \<open>The carried reads, and the times at which sections last succeeded.\<close>

definition carry_reads :: "admin_reads option \<Rightarrow> admin_reads \<Rightarrow> admin_reads" where
  "carry_reads previous current =
     (case previous of
        None \<Rightarrow> current
      | Some p \<Rightarrow> fold (\<lambda>sec r. if dict_get (rd_section_errors current) sec \<noteq> None then carry_fields sec p r else r) CARRIED_SECTIONS current)"

definition section_times :: "admin_reads \<Rightarrow> string \<Rightarrow> (string \<times> string) list \<Rightarrow> (string \<times> string) list" where
  "section_times current at stamps =
     fold (\<lambda>sec ts. if dict_get (rd_section_errors current) sec = None then dict_put sec at ts else ts) CARRIED_SECTIONS stamps"

definition carry_forward ::
  "admin_reads option \<Rightarrow> admin_reads observed \<Rightarrow> (string \<times> string) list \<Rightarrow> admin_reads observed \<times> (string \<times> string) list" where
  "carry_forward previous observed stamps =
     (case (ob_value observed, ob_observed_at observed) of
        (Some current, Some at) \<Rightarrow>
          if \<not> ob_ok observed then (observed, stamps)
          else (observed\<lparr>ob_value := Some (carry_reads previous current)\<rparr>, section_times current at stamps)
      | _ \<Rightarrow> (observed, stamps))"

section \<open>Routes\<close>

text \<open>\<open>sources.route_url\<close>\<close>

definition route_url :: "platform_config \<Rightarrow> string \<Rightarrow> string \<Rightarrow> string result" where
  "route_url platform s path =
     rbind (slug s) (\<lambda>s. rbind (health_path path) (\<lambda>p. Inr (''https://'' @ s @ ''.'' @ pf_domain platform @ p)))"

fun route_targets_of ::
  "platform_config \<Rightarrow> admin_reads \<Rightarrow> application_record list \<Rightarrow> (string \<times> string \<times> string) list \<Rightarrow> (string \<times> string \<times> string) list result" where
  "route_targets_of platform reads [] targets = Inr targets"
| "route_targets_of platform reads (a # as) targets =
     (if ap_deleted_at a \<noteq> None \<or> \<not> ap_enabled a then route_targets_of platform reads as targets
      else case active_deployment reads a of
        None \<Rightarrow> route_targets_of platform reads as targets
      | Some d \<Rightarrow>
          (case dr_health_path d of
             None \<Rightarrow> route_targets_of platform reads as targets
           | Some path \<Rightarrow>
               rbind (route_url platform (ap_slug a) path) (\<lambda>url.
                 route_targets_of platform reads as (dict_put (ap_application_id a) (url, dr_deployment_id d) targets))))"

definition route_targets :: "platform_config \<Rightarrow> admin_reads option \<Rightarrow> (string \<times> string \<times> string) list result" where
  "route_targets platform reads = (case reads of None \<Rightarrow> Inr [] | Some r \<Rightarrow> route_targets_of platform r (rd_applications r) [])"

definition probe_routes :: "(string \<Rightarrow> probe) \<Rightarrow> (string \<times> string \<times> string) list \<Rightarrow> (string \<times> probe) list" where
  "probe_routes probe targets = map (\<lambda>(i, url, _). (i, probe url)) targets"

text \<open>\<open>deque(maxlen=HISTORY_LENGTH)\<close>: an append drops from the left.\<close>

definition bounded_append :: "'a \<Rightarrow> 'a list \<Rightarrow> 'a list" where
  "bounded_append x xs = (let ys = xs @ [x] in drop (length ys - HISTORY_LENGTH) ys)"

definition remember ::
  "(string \<times> probe) list \<Rightarrow> (string \<times> string \<times> string) list \<Rightarrow> bool \<Rightarrow> (string \<times> (string \<times> string) list) list \<Rightarrow> (string \<times> (string \<times> string) list) list" where
  "remember routes targets prune history =
     (let noted = fold (\<lambda>(i, p) h.
            let tone = snd (route_outcome p (case dict_get targets i of Some (_, d) \<Rightarrow> d | None \<Rightarrow> []) i);
                old = (case dict_get h i of Some x \<Rightarrow> x | None \<Rightarrow> [])
            in dict_put i (bounded_append (pr_checked_at p, tone) old) h) routes history
      in if prune then filter (\<lambda>(i, _). i \<in> set (map fst targets)) noted else noted)"

section \<open>One refresh\<close>

record refresh_input =
  ri_admin :: "read_failure + admin_reads"
  ri_operator :: "read_failure + operator_reads"
  ri_ingress :: "probe list"
  ri_probe :: "string \<Rightarrow> probe"
  ri_admin_at :: string
  ri_operator_at :: string
  ri_generated_at :: string

definition collect :: "python_ops \<Rightarrow> collector \<Rightarrow> refresh_input \<Rightarrow> collector \<times> snapshot result" where
  "collect F c i =
     (let (admin, stamps) = carry_forward (ob_value (co_admin c)) (observe (co_admin c) (ri_admin i) ''controller'' (ri_admin_at i)) (co_section_success c);
          c1 = c\<lparr>co_admin := admin, co_section_success := stamps\<rparr>
      in case route_targets (co_platform c) (ob_value admin) of
           Inl e \<Rightarrow> (c1, Inl e)
         | Inr targets \<Rightarrow>
             (let routes = probe_routes (ri_probe i) targets;
                  operator = observe (co_operator c) (ri_operator i) ''operator state'' (ri_operator_at i);
                  fresh = (ob_ok admin \<and> (case ob_value admin of Some r \<Rightarrow> dict_get (rd_section_errors r) ''applications'' = None | None \<Rightarrow> False));
                  c2 = c1\<lparr>co_operator := operator, co_history := remember routes targets fresh (co_history c)\<rparr>
              in (c2, build_snapshot F
                   \<lparr>ev_platform = co_platform c, ev_generated_at = ri_generated_at i, ev_admin = admin, ev_operator = operator,
                    ev_ingress = ri_ingress i, ev_routes = routes, ev_history = co_history c2, ev_release = co_release c,
                    ev_admin_sections = stamps\<rparr>)))"

section \<open>The refresh loop\<close>

text \<open>The state \<open>DashboardService\<close> guards with its lock; \<open>'d\<close> is the served document.\<close>

record ('t, 'd) dashboard_service =
  ds_snapshot :: 'd
  ds_refreshing :: bool
  ds_started_at :: "string option"
  ds_completed_at :: "string option"
  ds_error :: "string option"
  ds_last_start :: "'t option"

definition new_service :: "'d \<Rightarrow> ('t, 'd) dashboard_service" where
  "new_service initial =
     \<lparr>ds_snapshot = initial, ds_refreshing = False, ds_started_at = None, ds_completed_at = None, ds_error = None, ds_last_start = None\<rparr>"

definition begin_refresh :: "'t \<Rightarrow> string \<Rightarrow> ('t, 'd) dashboard_service \<Rightarrow> ('t, 'd) dashboard_service option" where
  "begin_refresh clock now s =
     (if ds_refreshing s then None else Some (s\<lparr>ds_refreshing := True, ds_last_start := Some clock, ds_started_at := Some now\<rparr>))"

text \<open>The end of a refresh: the collected document, or the class of the exception.\<close>

definition end_refresh :: "string + 'd \<Rightarrow> string \<Rightarrow> ('t, 'd) dashboard_service \<Rightarrow> ('t, 'd) dashboard_service" where
  "end_refresh outcome now s =
     (case outcome of
        Inr d \<Rightarrow> s\<lparr>ds_snapshot := d, ds_error := None, ds_completed_at := Some now, ds_refreshing := False\<rparr>
      | Inl cls \<Rightarrow> s\<lparr>ds_error := Some (''The last refresh failed unexpectedly ('' @ cls @ '')''), ds_completed_at := Some now, ds_refreshing := False\<rparr>)"

definition MINIMUM_MANUAL_REFRESH_SECONDS :: "'t :: linordered_idom" where
  "MINIMUM_MANUAL_REFRESH_SECONDS = 10"

definition request_refresh :: "'t :: linordered_idom \<Rightarrow> ('t, 'd) dashboard_service \<Rightarrow> bool" where
  "request_refresh clock s \<longleftrightarrow>
     \<not> (ds_refreshing s \<or> (case ds_last_start s of Some t \<Rightarrow> clock - t < MINIMUM_MANUAL_REFRESH_SECONDS | None \<Rightarrow> False))"

section \<open>Every refresh gives a snapshot\<close>

definition admin_ok :: "python_ops \<Rightarrow> admin_reads \<Rightarrow> bool" where
  "admin_ok F r \<longleftrightarrow> reads_ok r \<and> (case rd_health r of Some h \<Rightarrow> health_finite F h | None \<Rightarrow> True)"

definition collector_ok :: "python_ops \<Rightarrow> collector \<Rightarrow> bool" where
  "collector_ok F c \<longleftrightarrow> (case ob_value (co_admin c) of Some r \<Rightarrow> admin_ok F r | None \<Rightarrow> True) \<and>
     (case ob_value (co_operator c) of Some r \<Rightarrow> operator_ok r | None \<Rightarrow> True)"

text \<open>Reads come from the parsers, and the counts of a health report are finite numbers.\<close>

definition input_parsed :: "python_ops \<Rightarrow> (string \<Rightarrow> bool) \<Rightarrow> refresh_input \<Rightarrow> bool" where
  "input_parsed F B i \<longleftrightarrow>
     (\<forall>r. ri_admin i = Inr r \<longrightarrow> (\<exists>payload. parse_admin_reads F B payload = Inr r) \<and> (\<forall>h. rd_health r = Some h \<longrightarrow> health_finite F h)) \<and>
     (\<forall>r. ri_operator i = Inr r \<longrightarrow> (\<exists>roles operations. r = parse_operator_reads roles operations))"

inductive collector_run :: "python_ops \<Rightarrow> (string \<Rightarrow> bool) \<Rightarrow> collector \<Rightarrow> bool" for F B where
  fresh: "collector_run F B (new_collector platform release)"
| refreshed: "collector_run F B c \<Longrightarrow> input_parsed F B i \<Longrightarrow> collector_run F B (fst (collect F c i))"

lemma carry_fields_ok:
  "reads_ok p \<Longrightarrow> reads_ok r \<Longrightarrow> reads_ok (carry_fields sec p r)"
  "rd_health (carry_fields sec p r) = rd_health r"
  by (auto simp: carry_fields_def reads_ok_def)

lemma carry_fold_ok:
  "reads_ok p \<Longrightarrow> reads_ok r \<Longrightarrow> reads_ok (fold (\<lambda>sec r. if Q sec then carry_fields sec p r else r) secs r) \<and>
     rd_health (fold (\<lambda>sec r. if Q sec then carry_fields sec p r else r) secs r) = rd_health r"
  by (induction secs arbitrary: r) (auto simp: carry_fields_ok)

lemma carry_reads_ok:
  assumes "admin_ok F r" "\<And>p. previous = Some p \<Longrightarrow> admin_ok F p"
  shows "admin_ok F (carry_reads previous r)"
proof (cases previous)
  case (Some p)
  then show ?thesis using assms carry_fold_ok [of p r] by (simp add: carry_reads_def admin_ok_def)
qed (simp add: carry_reads_def assms(1))

lemma route_targets_total:
  assumes "reads_ok r" "set as \<subseteq> set (rd_applications r)"
  shows "\<exists>ts. route_targets_of platform r as targets = Inr ts"
  using assms(2)
proof (induction as arbitrary: targets)
  case (Cons a as)
  have url: "\<exists>url. route_url platform (ap_slug a) path = Inr url" if d: "active_deployment r a = Some d" "dr_health_path d = Some path" for d path
  proof -
    have "deployment_ok d" "application_ok a"
      using assms(1) Cons.prems d(1) last_where_in
      by (fastforce simp: reads_ok_def list_all_iff active_deployment_def Option.bind_eq_Some_conv)+
    then show ?thesis using d(2) by (simp add: route_url_def deployment_ok_def application_ok_def)
  qed
  show ?case using Cons url by (auto split: option.split) (metis rbind_simps(2))
qed simp

lemma observe_ok:
  "(\<And>v. outcome = Inr v \<Longrightarrow> P v) \<Longrightarrow> (\<And>v. ob_value previous = Some v \<Longrightarrow> P v) \<Longrightarrow>
   ob_value (observe previous outcome label now) = Some v \<Longrightarrow> P v"
  by (auto simp: observe_def split: sum.splits)

lemma carry_forward_ok:
  assumes "\<And>r. ob_value observed = Some r \<Longrightarrow> admin_ok F r" "\<And>p. previous = Some p \<Longrightarrow> admin_ok F p"
    and "ob_value (fst (carry_forward previous observed stamps)) = Some r"
  shows "admin_ok F r"
  using assms carry_reads_ok [of F _ previous] by (auto simp: carry_forward_def split: option.splits if_splits)

lemma collect_ok:
  assumes "collector_ok F c" "input_parsed F B i"
  shows "collector_ok F (fst (collect F c i)) \<and> (\<exists>s. snd (collect F c i) = Inr s)"
proof -
  define cf where "cf = carry_forward (ob_value (co_admin c)) (observe (co_admin c) (ri_admin i) ''controller'' (ri_admin_at i)) (co_section_success c)"
  have parsed: "admin_ok F r" if "ri_admin i = Inr r" for r
    using assms(2) that parse_admin_reads_ok by (fastforce simp: input_parsed_def admin_ok_def split: option.split)
  have old: "admin_ok F r" if "ob_value (co_admin c) = Some r" for r using assms(1) that by (simp add: collector_ok_def)
  have admin: "admin_ok F r" if "ob_value (fst cf) = Some r" for r
    by (rule carry_forward_ok [OF _ old that [unfolded cf_def]]) (rule observe_ok [of "ri_admin i" "admin_ok F", OF parsed old])
  have op: "operator_ok r" if "ob_value (observe (co_operator c) (ri_operator i) ''operator state'' (ri_operator_at i)) = Some r" for r
    using assms that by (auto simp: observe_def input_parsed_def collector_ok_def parse_operator_reads_ok split: sum.splits)
  obtain targets where targets: "route_targets (co_platform c) (ob_value (fst cf)) = Inr targets"
    using route_targets_total admin by (fastforce simp: route_targets_def admin_ok_def split: option.split)
  have snap: "\<exists>s. build_snapshot F ev = Inr s" if "ev_admin ev = fst cf"
    "ev_operator ev = observe (co_operator c) (ri_operator i) ''operator state'' (ri_operator_at i)" for ev
    by (rule build_snapshot_total) (use that admin op in \<open>fastforce simp: admin_ok_def split: option.splits\<close>)+
  show ?thesis
    using targets snap admin op unfolding collect_def cf_def [symmetric] collector_ok_def
    by (simp add: case_prod_beta Let_def split: option.split)
qed

lemma collector_run_ok: "collector_run F B c \<Longrightarrow> collector_ok F c"
proof (induction rule: collector_run.induct)
  case (fresh platform release)
  show ?case by (simp add: collector_ok_def new_collector_def unobserved_def)
next
  case (refreshed c i)
  then show ?case using collect_ok by blast
qed



end
