(* ===== verification/Worker_Sizing.thy ===== *)
theory Worker_Sizing
  imports Deployment_Config Deployment_Acceptance
begin

text \<open>
  Sizing and reuse of workers: the budgets of \<open>controller/sizing.py\<close> and its reviewed plans, the retained
  primary ports of \<open>controller/fixed_ip_service.py\<close>, the checks of \<open>controller/worker_reuse.py\<close> before an
  accepted worker is used again, and the worker lookups of \<open>controller/storage_capacity.py\<close>. The observation of a
  flavor, the privileged helper and \<open>uuid.uuid5\<close> are arguments.
\<close>

section \<open>Budgets\<close>

definition CPU_RESERVE_MHZ :: int where "CPU_RESERVE_MHZ = 200"
definition MEMORY_RESERVE_MIB :: int where "MEMORY_RESERVE_MIB = 512"
definition RESERVE_PERCENT :: int where "RESERVE_PERCENT = 10"

definition reserve :: "int \<Rightarrow> int \<Rightarrow> int" where
  "reserve amount minimum = max minimum ((amount * RESERVE_PERCENT + 99) div 100)"

text \<open>\<open>type(v) is int\<close>: a Boolean is none.\<close>

definition exact_int :: "json \<Rightarrow> int option" where
  "exact_int v = (case v of JInt i \<Rightarrow> Some i | _ \<Rightarrow> None)"

definition capacity_budget :: "json \<Rightarrow> json \<Rightarrow> json \<Rightarrow> json \<Rightarrow> (int \<times> int) result" where
  "capacity_budget cpu memory reserved_cpu reserved_memory =
     (case (exact_int cpu, exact_int memory, exact_int reserved_cpu, exact_int reserved_memory) of
        (Some c, Some m, Some rc, Some rm) \<Rightarrow>
          if c < 0 \<or> m < 0 \<or> rc < 0 \<or> rm < 0 then Inl (ValidationError ''worker capacity must contain non-negative integers'')
          else
            let available_cpu = c - max (reserve c CPU_RESERVE_MHZ) rc;
                available_memory = m - max (reserve m MEMORY_RESERVE_MIB) rm
            in if available_cpu < 100 \<or> available_memory < 64
               then Inl (ValidationError ''worker capacity cannot accommodate the OS/service reserve'')
               else Inr (available_cpu, available_memory)
      | _ \<Rightarrow> Inl (ValidationError ''worker capacity must contain non-negative integers''))"

definition worker_budget :: "jdict \<Rightarrow> string \<Rightarrow> string \<Rightarrow> (int \<times> int) result" where
  "worker_budget capacity server_id flavor =
     (if jget capacity ''serverId'' \<noteq> JStr server_id \<or> jget capacity ''flavorName'' \<noteq> JStr flavor
      then Inl (ValidationError ''worker capacity identity or flavor drifted'')
      else
        case (exact_int (jget capacity ''cpuMHz''), exact_int (jget capacity ''memoryMiB'')) of
          (Some cpu, Some memory) \<Rightarrow>
            if cpu < 100 \<or> memory < 64 then Inl (ValidationError ''worker allocatable capacity is malformed'')
            else Inr (cpu, memory)
        | _ \<Rightarrow> Inl (ValidationError ''worker allocatable capacity is malformed''))"

definition allocation_budget :: "int \<Rightarrow> int \<Rightarrow> int \<times> int" where
  "allocation_budget cpu memory = (max 100 (cpu div 200 * 100), max 64 ((memory - 32) div 128 * 128))"

section \<open>Sizing plans\<close>

record flavor =
  fl_flavor_id :: string
  fl_name :: string
  fl_vcpus :: int
  fl_ram_mib :: int
  fl_disk_gib :: int

definition flavor_projection :: "flavor \<Rightarrow> jdict" where
  "flavor_projection f =
     [(''flavor_id'', JStr (fl_flavor_id f)), (''name'', JStr (fl_name f)), (''vcpus'', JInt (fl_vcpus f)),
      (''ram_mib'', JInt (fl_ram_mib f)), (''disk_gib'', JInt (fl_disk_gib f))]"

definition optional_text :: "string option \<Rightarrow> json" where
  "optional_text v = (case v of None \<Rightarrow> JNull | Some s \<Rightarrow> JStr s)"

definition sizing_projection :: "string \<Rightarrow> application \<Rightarrow> active_deployment option \<Rightarrow> flavor \<Rightarrow> jdict" where
  "sizing_projection application_id application active flavor =
     [(''applicationId'', JStr application_id),
      (''deploymentId'', optional_text (map_option act_deployment_id active)),
      (''activation'', JStr ''enable-after-healthy-acceptance''),
      (''current'', JObj [(''enabled'', JBool (app_desired_running application)), (''flavor'', JStr (app_worker_flavor application)),
         (''cpuMHz'', JInt (app_scheduler_cpu_mhz application)), (''memoryMiB'', JInt (app_scheduler_memory_mib application))]),
      (''flavor'', JObj (flavor_projection flavor)),
      (''allocation'', JStr ''measured-worker-capacity-minus-reserve''),
      (''reserve'', JObj [(''cpuMHzMinimum'', JInt CPU_RESERVE_MHZ), (''memoryMiBMinimum'', JInt MEMORY_RESERVE_MIB),
         (''percentMinimum'', JInt RESERVE_PERCENT)])]"

text \<open>
  The rows are read when the plan is prepared, the flavor when it is probed; \<open>observe\<close> stands for
  \<open>openstack.observe_flavor_capacity\<close>.
\<close>

definition plan :: "(string \<Rightarrow> string) \<Rightarrow> (string \<Rightarrow> flavor result) \<Rightarrow> string \<Rightarrow> string \<Rightarrow> db \<Rightarrow> jdict result" where
  "plan sha observe application_id ref db =
     (case get_application application_id db of
        None \<Rightarrow> Inl (ValidationError ''application does not exist'')
      | Some application \<Rightarrow>
          rbind (flavor_reference ref) (\<lambda>reference.
          rbind (observe reference) (\<lambda>flavor.
          if fl_ram_mib flavor < MEMORY_RESERVE_MIB + 64
          then Inl (ValidationError ''flavor cannot accommodate the OS/service reserve'')
          else
            let projection = sizing_projection application_id application (get_active_deployment application_id db) flavor
            in rbind (request_fingerprint sha projection) (\<lambda>fingerprint.
               Inr (dict_merge projection [(''fingerprint'', JStr fingerprint)])))))"

definition validate_plan ::
  "(string \<Rightarrow> string) \<Rightarrow> (string \<Rightarrow> flavor result) \<Rightarrow> string \<Rightarrow> json \<Rightarrow> db \<Rightarrow> jdict result" where
  "validate_plan sha observe application_id value db =
     (case value of
        JObj d \<Rightarrow>
          (case jget d ''flavor'' of
             JObj f \<Rightarrow>
               rbind (on_text flavor_reference ''flavor must be 1-255 letters, digits, dots, underscores or hyphens'' (jget f ''flavor_id'')) (\<lambda>reference.
               rbind (plan sha observe application_id reference db) (\<lambda>fresh.
               rbind (request_fingerprint sha d) (\<lambda>given.
               rbind (request_fingerprint sha fresh) (\<lambda>current.
               if given \<noteq> current then Inl (ValidationError ''sizing plan drifted; obtain and review a fresh plan'')
               else Inr fresh))))
           | _ \<Rightarrow> Inl (ValidationError ''sizing plan must be an exact plan response''))
      | _ \<Rightarrow> Inl (ValidationError ''sizing plan must be an exact plan response''))"

section \<open>Retained primary ports\<close>

record fixed_port =
  fp_application_id :: string
  fp_port_id :: "string option"
  fp_record :: jdict

definition get_fixed_port :: "fixed_port list \<Rightarrow> string \<Rightarrow> jdict option" where
  "get_fixed_port ports application_id = map_option fp_record (find_where (\<lambda>p. fp_application_id p = application_id) ports)"

definition text_or_null :: "json \<Rightarrow> string option result" where
  "text_or_null v = (case v of JNull \<Rightarrow> Inr None | JStr s \<Rightarrow> Inr (Some s) | _ \<Rightarrow> Inl IntegrityError)"

text \<open>The table keeps one row per application, and one application per port.\<close>

definition save_fixed_port :: "jdict \<Rightarrow> fixed_port list \<Rightarrow> fixed_port list result" where
  "save_fixed_port rec ports =
     rbind (dict_index rec ''application_id'') (\<lambda>a.
     rbind (dict_index rec ''port_id'') (\<lambda>p.
     case a of
       JStr application_id \<Rightarrow>
         rbind (text_or_null p) (\<lambda>port_id.
         if port_id \<noteq> None \<and> list_ex (\<lambda>r. fp_port_id r = port_id \<and> fp_application_id r \<noteq> application_id) ports
         then Inl IntegrityError
         else Inr (upsert (\<lambda>r. fp_application_id r = application_id) (\<lambda>r. r\<lparr>fp_port_id := port_id, fp_record := rec\<rparr>)
                     \<lparr>fp_application_id = application_id, fp_port_id = port_id, fp_record = rec\<rparr> ports))
     | _ \<Rightarrow> Inl IntegrityError))"

definition forget_fixed_port :: "string \<Rightarrow> fixed_port list \<Rightarrow> fixed_port list" where
  "forget_fixed_port application_id ports = delete_where (\<lambda>r. fp_application_id r = application_id) ports"

definition helper_identity :: "jdict \<Rightarrow> jdict result" where
  "helper_identity rec =
     rbind (dict_index rec ''phase'') (\<lambda>phase.
     if phase \<noteq> JStr ''reserved'' then Inl (RecoveryRequired ''finish retained primary port reservation/release first'')
     else
       rbind (dict_index rec ''port_id'') (\<lambda>port_id.
       if port_id = JNull then Inl (RecoveryRequired ''finish retained primary port reservation/release first'')
       else Inr (filter (\<lambda>(k, _). k \<notin> {''phase'', ''worker_slot_id'', ''worker_create_pending''}) rec)))"

section \<open>Worker slots of a job\<close>

definition quote_line :: "string \<Rightarrow> string \<Rightarrow> string" where
  "quote_line key v = key @ [CHR 0x22] @ v @ [CHR 0x22, CHR 0x0A]"

definition placement_prefix :: string where
  "placement_prefix = quote_line ''    attribute = '' ''${meta.application_id}'' @ quote_line ''    operator  = '' ''='' @
     ''    value     = '' @ [CHR 0x22]"

definition match_placement :: "string \<Rightarrow> string option" where
  "match_placement s =
     (let rest = drop (length placement_prefix) s; v = take 36 rest
      in if starts_with placement_prefix s \<and> matches_exact (\<lambda>c. is_hex c \<or> c = CHR ''-'') 36 v \<and>
            starts_with [CHR 0x22] (drop 36 rest)
         then Some v else None)"

text \<open>\<open>re.findall\<close>: the matches from left to right, without overlap.\<close>

fun find_placements :: "string \<Rightarrow> string list" where
  "find_placements [] = []"
| "find_placements (c # s) =
     (case match_placement (c # s) of
        None \<Rightarrow> find_placements s
      | Some v \<Rightarrow> v # find_placements (drop (length placement_prefix + 36) s))"

definition nomad_placement_id :: "string \<Rightarrow> string result" where
  "nomad_placement_id nomad_job =
     rbind (bounded_text ''Nomad job'' 262144 nomad_job) (\<lambda>job.
     case find_placements job of
       [v] \<Rightarrow> uuid ''Nomad placement ID'' v
     | _ \<Rightarrow> Inl (ValidationError ''Nomad job placement identity was missing or ambiguous''))"

definition deployment_worker_ids :: "(string \<Rightarrow> string \<Rightarrow> string) \<Rightarrow> string \<Rightarrow> string list result" where
  "deployment_worker_ids uuid5 application_id =
     rbind (uuid ''application ID'' application_id) (\<lambda>namespace.
     Inr [uuid5 namespace ''stable'', uuid5 namespace ''candidate''])"

section \<open>Reuse of the accepted worker\<close>

definition check_retained :: "jdict option \<Rightarrow> string \<Rightarrow> application \<Rightarrow> unit result" where
  "check_retained retained slot current =
     (case retained of
        None \<Rightarrow> Inr ()
      | Some rec \<Rightarrow>
          let refused = Inl (ValidationError ''worker reuse requires the already-attached retained primary port'')
          in rbind (helper_identity rec) (\<lambda>_.
             rbind (dict_index rec ''worker_create_pending'') (\<lambda>pending.
             if json_true pending then refused
             else
               rbind (dict_index rec ''worker_slot_id'') (\<lambda>worker_slot.
               if worker_slot \<noteq> JStr slot then refused
               else
                 rbind (dict_index rec ''port_id'') (\<lambda>port_id.
                 if port_id \<noteq> optional_text (app_worker_port_id current) then refused else Inr ())))))"

definition required_uuid :: "string \<Rightarrow> string option \<Rightarrow> string result" where
  "required_uuid field v =
     (case v of None \<Rightarrow> Inl (ValidationError (field @ '' must be a canonical UUID'')) | Some s \<Rightarrow> uuid field s)"

definition required_text :: "string \<Rightarrow> int \<Rightarrow> string option \<Rightarrow> string result" where
  "required_text field maximum v =
     (case v of None \<Rightarrow> Inl (ValidationError (field @ '' must be text without NUL bytes'')) | Some s \<Rightarrow> bounded_text field maximum s)"

definition identity ::
  "(string \<Rightarrow> string) \<Rightarrow> (string \<Rightarrow> string \<Rightarrow> string) \<Rightarrow> fixed_port list \<Rightarrow> string \<Rightarrow> db \<Rightarrow> jdict result" where
  "identity sha uuid5 ports application_id db =
     rbind (get_deployment sha application_id db) (\<lambda>deployment.
     case (get_application application_id db, deployment) of
       (Some current, Some dep) \<Rightarrow>
         if app_worker_server_id current = None
         then Inl (ValidationError ''worker reuse requires an accepted deployment and an existing worker'')
         else
           rbind (nomad_placement_id (dep_nomad_job dep)) (\<lambda>slot.
           rbind (deployment_worker_ids uuid5 application_id) (\<lambda>slots.
           if slot \<notin> set (application_id # slots)
           then Inl (ValidationError ''accepted worker placement is outside the application slots'')
           else
             rbind (check_retained (get_fixed_port ports application_id) slot current) (\<lambda>_.
             rbind (required_uuid ''accepted worker server UUID'' (app_worker_server_id current)) (\<lambda>server_id.
             rbind (required_text ''accepted worker name'' 128 (app_worker_server_name current)) (\<lambda>server_name.
             rbind (required_uuid ''accepted worker port UUID'' (app_worker_port_id current)) (\<lambda>port_id.
             rbind (required_text ''accepted worker port name'' 128 (app_worker_port_name current)) (\<lambda>port_name.
             Inr [(''slot_id'', JStr slot), (''server_id'', JStr server_id), (''server_name'', JStr server_name),
                  (''port_id'', JStr port_id), (''port_name'', JStr port_name), (''flavor'', JStr (app_worker_flavor current)),
                  (''cpu_mhz'', JInt (app_scheduler_cpu_mhz current)), (''memory_mib'', JInt (app_scheduler_memory_mib current))])))))))
     | _ \<Rightarrow> Inl (ValidationError ''worker reuse requires an accepted deployment and an existing worker''))"

definition observed_fields :: "(string \<times> string) list" where
  "observed_fields = [(''serverId'', ''server_id''), (''serverName'', ''server_name''), (''portId'', ''port_id''),
     (''portName'', ''port_name''), (''flavorName'', ''flavor'')]"

text \<open>The closure \<open>probe\<close>: \<open>selected\<close> is a result of \<open>identity\<close>, \<open>worker\<close> the answer of the helper.\<close>

definition probe_worker :: "jdict option \<Rightarrow> jdict \<Rightarrow> jdict \<Rightarrow> jdict result" where
  "probe_worker expected selected worker =
     (if jget worker ''ready'' \<noteq> JBool True \<or> jget worker ''absent'' = JBool True \<or>
         list_ex (\<lambda>(k, f). jget worker k \<noteq> jget selected f) observed_fields
      then Inl (ApplicationError ''exact reused worker readiness or identity was not confirmed'')
      else
        rbind (on_text (uuid ''reused worker image UUID'') ''reused worker image UUID must be a canonical UUID'' (jget worker ''imageId'')) (\<lambda>image.
        let pinned = dict_put ''image_id'' (JStr image) selected
        in if expected \<noteq> None \<and> set (the expected) \<noteq> set pinned then Inl (ApplicationError ''reused worker image drifted'')
           else
             (case (jget selected ''server_id'', jget selected ''flavor'', jget selected ''cpu_mhz'', jget selected ''memory_mib'') of
                (JStr server_id, JStr flavor, JInt cpu_mhz, JInt memory_mib) \<Rightarrow>
                  rbind (worker_budget worker server_id flavor) (\<lambda>(cpu, memory).
                  if cpu_mhz > cpu \<or> memory_mib > memory
                  then Inl (ApplicationError ''pinned allocation exceeds reused worker capacity after reserve'')
                  else Inr pinned)
              | _ \<Rightarrow> Inl TypeError)))"

definition observe ::
  "(string \<Rightarrow> string) \<Rightarrow> (string \<Rightarrow> string \<Rightarrow> string) \<Rightarrow> fixed_port list \<Rightarrow> (jdict \<Rightarrow> jdict result) \<Rightarrow> jdict option \<Rightarrow> string \<Rightarrow> db \<Rightarrow>
   jdict result" where
  "observe sha uuid5 ports helper expected application_id db =
     rbind (identity sha uuid5 ports application_id db) (\<lambda>selected.
     if expected \<noteq> None \<and> list_ex (\<lambda>(k, v). jget (the expected) k \<noteq> v) selected
     then Inl (ApplicationError ''reused worker identity or allocation drifted'')
     else
       case get_application application_id db of
         None \<Rightarrow> Inl AssertionError
       | Some current \<Rightarrow>
           let arguments = [(''applicationId'', jget selected ''slot_id''), (''slug'', JStr (app_slug current)),
                            (''acceptedServerId'', jget selected ''server_id'')]
           in rbind (case get_fixed_port ports application_id of
                       None \<Rightarrow> Inr arguments
                     | Some rec \<Rightarrow> rbind (helper_identity rec) (\<lambda>port. Inr (dict_put ''retainedPort'' (JObj port) arguments))) (\<lambda>args.
              rbind (helper args) (probe_worker expected selected)))"

definition direct_route :: "jdict \<Rightarrow> bool result" where
  "direct_route refs =
     (case dict_get refs ''direct_reuse'' of
        None \<Rightarrow> Inr False
      | Some (JBool selected) \<Rightarrow>
          if selected \<and> list_ex (\<lambda>k. jget refs k \<noteq> JBool True)
               [''reuse_worker'', ''maintenance'', ''maintenance_quiesced'', ''maintenance_stopped'']
          then Inl (ApplicationError ''direct reuse requires confirmed predecessor stop'')
          else Inr selected
      | Some _ \<Rightarrow> Inl (ApplicationError ''direct reuse requires confirmed predecessor stop''))"

record deployment_worker =
  dw_server_id :: json
  dw_server_name :: json
  dw_port_id :: json
  dw_port_name :: json
  dw_refs :: jdict

definition prepared :: "jdict \<Rightarrow> jdict \<Rightarrow> deployment_worker result" where
  "prepared rec refs =
     rbind (dict_index rec ''server_id'') (\<lambda>server_id.
     rbind (dict_index rec ''server_name'') (\<lambda>server_name.
     rbind (dict_index rec ''port_id'') (\<lambda>port_id.
     rbind (dict_index rec ''port_name'') (\<lambda>port_name.
     rbind (dict_index rec ''slot_id'') (\<lambda>slot_id.
     Inr \<lparr>dw_server_id = server_id, dw_server_name = server_name, dw_port_id = port_id, dw_port_name = port_name,
          dw_refs = dict_merge refs [(''worker_application_id'', slot_id), (''worker_server_id'', server_id),
            (''worker_server_name'', server_name), (''worker_port_id'', port_id), (''worker_port_name'', port_name)]\<rparr>)))))"

section \<open>Metadata for the storage helper\<close>

definition retained_worker :: "fixed_port list \<Rightarrow> string \<Rightarrow> (json \<times> json) option result" where
  "retained_worker ports application_id =
     (case get_fixed_port ports application_id of
        None \<Rightarrow> Inr None
      | Some rec \<Rightarrow>
          rbind (dict_index rec ''worker_slot_id'') (\<lambda>slot.
          rbind (dict_index rec ''address'') (\<lambda>address. Inr (Some (slot, address)))))"

definition workload_job :: "(string \<Rightarrow> string) \<Rightarrow> string \<Rightarrow> db \<Rightarrow> string option result" where
  "workload_job sha application_id db =
     rbind (get_deployment sha application_id db) (\<lambda>deployment.
     case (get_application application_id db, deployment) of
       (Some application, Some dep) \<Rightarrow>
         if \<not> app_desired_running application then Inr None
         else rbind (nomad_job_id (dep_nomad_job dep) (app_slug application)) (\<lambda>j. Inr (Some j))
     | _ \<Rightarrow> Inr None)"

definition resource_quotas :: "managed_resource \<Rightarrow> (string \<times> int) list" where
  "resource_quotas r =
     (if res_resource_type r = ''s3'' then [(''s3Bytes'', or_zero (res_s3_bytes r)), (''s3Objects'', or_zero (res_s3_objects r))]
      else [(''connections'', or_default (res_postgres_connections r) (or_default (res_mongo_connections r) 10)),
            (''sizeBytes'', or_zero (res_measured_target_bytes r)), (''memoryBytes'', or_default (res_memory_bytes r) 536870912),
            (''cpuMillicores'', or_default (res_cpu_millicores r) 500)])"

record helper_metadata =
  hm_resourceId :: "string option"
  hm_stagedInstanceId :: "string option"
  hm_reservations :: disk_reservation
  hm_workloadJobId :: "string option"
  hm_retainedWorker :: "(json \<times> json) option"
  hm_instanceId :: "string option"
  hm_instanceQuotas :: "(string \<times> int) list option"
  hm_workerIds :: "string list"

definition helper_metadata_of ::
  "(string \<Rightarrow> string) \<Rightarrow> (string \<Rightarrow> string \<Rightarrow> string) \<Rightarrow> fixed_port list \<Rightarrow> string \<Rightarrow> managed_resource option \<Rightarrow> db \<Rightarrow>
   helper_metadata result" where
  "helper_metadata_of sha uuid5 ports application_id resource db =
     rbind (disk_reservations db) (\<lambda>reservations.
     rbind (workload_job sha application_id db) (\<lambda>job.
     rbind (retained_worker ports application_id) (\<lambda>retained.
     rbind (deployment_worker_ids uuid5 application_id) (\<lambda>slots.
     Inr \<lparr>hm_resourceId = map_option res_resource_id resource,
          hm_stagedInstanceId = (case resource of None \<Rightarrow> None
            | Some r \<Rightarrow> if res_instance_id r = None \<and> res_migration_state r = Some ''aborted'' then Some (res_resource_id r) else None),
          hm_reservations = reservations, hm_workloadJobId = job, hm_retainedWorker = retained,
          hm_instanceId = (case resource of None \<Rightarrow> None | Some r \<Rightarrow> res_instance_id r),
          hm_instanceQuotas = (case resource of None \<Rightarrow> None
            | Some r \<Rightarrow> if res_resource_type r = ''s3'' then None else Some (resource_quotas r)),
          hm_workerIds = application_id # slots\<rparr>))))"

section \<open>What the budgets leave\<close>

lemma capacity_budget_Inr:
  assumes "capacity_budget cpu memory reserved_cpu reserved_memory = Inr (c, m)"
  obtains C M where "cpu = JInt C" "memory = JInt M" "100 \<le> c" "64 \<le> m"
    "c + reserve C CPU_RESERVE_MHZ \<le> C" "m + reserve M MEMORY_RESERVE_MIB \<le> M"
  using assms
  by (auto simp: capacity_budget_def exact_int_def Let_def split: option.splits json.splits if_splits)

lemma reserve_share: "minimum \<le> reserve amount minimum" "amount \<le> 10 * reserve amount minimum"
  unfolding reserve_def RESERVE_PERCENT_def by linarith+

text \<open>
  An allocation taken from the measured capacity of one worker fits its siblings. The budget leaves the
  system at least the minimum and a tenth of the measured capacity, and what is allocated of it is admitted
  on every other worker of the flavor whose budget has at least half the processor share and at most 32 MiB
  less memory.
\<close>

theorem sized_allocation_fits:
  assumes "capacity_budget cpu memory reserved_cpu reserved_memory = Inr (c, m)" "200 \<le> c" "96 \<le> m"
    and "worker_budget capacity server_id flavor = Inr (c', m')" "c \<le> 2 * c'" "m \<le> m' + 32"
  shows "(\<exists>C M. cpu = JInt C \<and> memory = JInt M \<and> c + 200 \<le> C \<and> m + 512 \<le> M \<and> 10 * c \<le> 9 * C \<and> 10 * m \<le> 9 * M) \<and>
    100 \<le> fst (allocation_budget c m) \<and> fst (allocation_budget c m) \<le> c' \<and>
    64 \<le> snd (allocation_budget c m) \<and> snd (allocation_budget c m) \<le> m'"
proof -
  obtain C M where b: "cpu = JInt C" "memory = JInt M" "c + reserve C CPU_RESERVE_MHZ \<le> C" "m + reserve M MEMORY_RESERVE_MIB \<le> M"
    using capacity_budget_Inr [OF assms(1)] by blast
  have "c + 200 \<le> C" "10 * c \<le> 9 * C" "m + 512 \<le> M" "10 * m \<le> 9 * M"
    using b(3,4) reserve_share [where minimum = CPU_RESERVE_MHZ and amount = C]
      reserve_share [where minimum = MEMORY_RESERVE_MIB and amount = M]
    by (simp_all add: CPU_RESERVE_MHZ_def MEMORY_RESERVE_MIB_def)
  moreover have "max 100 (c div 200 * 100) \<le> c'" "max 64 ((m - 32) div 128 * 128) \<le> m'"
    using assms(2,3,5,6) by (auto simp: max_def)
  ultimately show ?thesis using b(1,2) by (auto simp: allocation_budget_def)
qed

theorem sized_allocation_fits_witness:
  "fst (allocation_budget 1800 1536) \<le> 1000 \<and> snd (allocation_budget 1800 1536) \<le> 1504"
proof -
  have "capacity_budget (JInt 2000) (JInt 2048) (JInt 0) (JInt 0) = Inr (1800, 1536)" by code_simp
  moreover have "worker_budget [(''serverId'', JStr ''s''), (''flavorName'', JStr ''f''), (''cpuMHz'', JInt 1000), (''memoryMiB'', JInt 1504)]
      ''s'' ''f'' = Inr (1000, 1504)" by code_simp
  ultimately show ?thesis using sized_allocation_fits [of _ _ _ _ 1800 1536 _ _ _ 1000 1504] by auto
qed

section \<open>Retained ports\<close>

lemma saved_port_found:
  assumes "save_fixed_port rec ports = Inr ports'"
  shows "\<exists>a. dict_get rec ''application_id'' = Some (JStr a) \<and> get_fixed_port ports' a = Some rec \<and>
    (\<forall>b. b \<noteq> a \<longrightarrow> get_fixed_port ports' b = get_fixed_port ports b)"
proof -
  obtain a port_id where a: "dict_get rec ''application_id'' = Some (JStr a)"
      and p: "ports' = upsert (\<lambda>r. fp_application_id r = a) (\<lambda>r. r\<lparr>fp_port_id := port_id, fp_record := rec\<rparr>)
        \<lparr>fp_application_id = a, fp_port_id = port_id, fp_record = rec\<rparr> ports"
    using assms by (auto simp: save_fixed_port_def dict_index_def rbind_eq_Inr split: option.splits json.splits if_splits)
  have found: "find_where (\<lambda>r. fp_application_id r = b) ports' =
      (if b = a then (case find_where (\<lambda>r. fp_application_id r = a) ports of
           None \<Rightarrow> Some \<lparr>fp_application_id = a, fp_port_id = port_id, fp_record = rec\<rparr>
         | Some r \<Rightarrow> Some (r\<lparr>fp_port_id := port_id, fp_record := rec\<rparr>))
       else find_where (\<lambda>r. fp_application_id r = b) ports)" for b
  proof -
    let ?f = "\<lambda>r. r\<lparr>fp_port_id := port_id, fp_record := rec\<rparr>"
    have u: "find_where (\<lambda>r. fp_application_id r = b) (update_where (\<lambda>r. fp_application_id r = a) ?f ports) =
        map_option (\<lambda>r. if fp_application_id r = a then ?f r else r) (find_where (\<lambda>r. fp_application_id r = b) ports)"
      by (rule find_update_where) simp
    show ?thesis
    proof (cases "list_ex (\<lambda>r. fp_application_id r = a) ports")
      case True
      then have "find_where (\<lambda>r. fp_application_id r = a) ports \<noteq> None" by (simp add: find_where_None)
      then show ?thesis
        unfolding p upsert_def if_P [OF True] u
        by (cases "find_where (\<lambda>r. fp_application_id r = b) ports") (auto dest: find_where_SomeD)
    next
      case False
      then have "find_where (\<lambda>r. fp_application_id r = a) ports = None" by (simp add: find_where_None)
      then show ?thesis
        unfolding p upsert_def if_not_P [OF False] find_where_append by (auto split: option.split)
    qed
  qed
  show ?thesis
    using a by (auto simp: get_fixed_port_def found split: option.splits)
qed

lemma forgotten_port_absent: "get_fixed_port (forget_fixed_port a ports) a = None"
  by (auto simp: get_fixed_port_def forget_fixed_port_def delete_where_def find_None_iff)

section \<open>A reused worker\<close>

lemma direct_route_stopped:
  assumes "direct_route refs = Inr True" "k \<in> {''reuse_worker'', ''maintenance'', ''maintenance_quiesced'', ''maintenance_stopped''}"
  shows "jget refs k = JBool True"
  using assms by (auto simp: direct_route_def split: option.splits json.splits if_splits)

text \<open>The record of the worker an application and its accepted deployment name.\<close>

definition accepted_worker ::
  "(string \<Rightarrow> string \<Rightarrow> string) \<Rightarrow> string \<Rightarrow> application \<Rightarrow> deployment \<Rightarrow> jdict \<Rightarrow> bool" where
  "accepted_worker uuid5 application_id current dep selected \<longleftrightarrow>
     (\<exists>slot. nomad_placement_id (dep_nomad_job dep) = Inr slot \<and>
        slot \<in> {application_id, uuid5 application_id ''stable'', uuid5 application_id ''candidate''} \<and>
        jget selected ''slot_id'' = JStr slot) \<and>
     app_worker_server_id current \<noteq> None \<and> app_worker_port_id current \<noteq> None \<and>
     jget selected ''server_id'' = optional_text (app_worker_server_id current) \<and>
     jget selected ''server_name'' = optional_text (app_worker_server_name current) \<and>
     jget selected ''port_id'' = optional_text (app_worker_port_id current) \<and>
     jget selected ''port_name'' = optional_text (app_worker_port_name current) \<and>
     jget selected ''flavor'' = JStr (app_worker_flavor current) \<and>
     jget selected ''cpu_mhz'' = JInt (app_scheduler_cpu_mhz current) \<and>
     jget selected ''memory_mib'' = JInt (app_scheduler_memory_mib current)"

lemma required_Inr:
  "required_uuid field v = Inr s \<Longrightarrow> v = Some s" "required_text field n v = Inr s \<Longrightarrow> v = Some s"
  by (auto simp: required_uuid_def required_text_def uuid_def bounded_text_def split: option.splits if_splits)

lemma identity_Inr:
  assumes "identity sha uuid5 ports application_id db = Inr selected"
  obtains current dep where "get_application application_id db = Some current"
    "get_deployment sha application_id db = Inr (Some dep)" "accepted_worker uuid5 application_id current dep selected"
proof -
  obtain current dep where c: "get_application application_id db = Some current"
      "get_deployment sha application_id db = Inr (Some dep)"
    using assms by (auto simp: identity_def rbind_eq_Inr split: option.splits)
  obtain slot slots server_id server_name port_id port_name where
      "nomad_placement_id (dep_nomad_job dep) = Inr slot" "deployment_worker_ids uuid5 application_id = Inr slots"
      "slot \<in> set (application_id # slots)"
      "required_uuid ''accepted worker server UUID'' (app_worker_server_id current) = Inr server_id"
      "required_text ''accepted worker name'' 128 (app_worker_server_name current) = Inr server_name"
      "required_uuid ''accepted worker port UUID'' (app_worker_port_id current) = Inr port_id"
      "required_text ''accepted worker port name'' 128 (app_worker_port_name current) = Inr port_name"
      "selected = [(''slot_id'', JStr slot), (''server_id'', JStr server_id), (''server_name'', JStr server_name),
          (''port_id'', JStr port_id), (''port_name'', JStr port_name), (''flavor'', JStr (app_worker_flavor current)),
          (''cpu_mhz'', JInt (app_scheduler_cpu_mhz current)), (''memory_mib'', JInt (app_scheduler_memory_mib current))]"
    using assms unfolding identity_def c by (simp only: rbind_simps option.case prod.case) (auto simp: rbind_eq_Inr split: if_splits)
  moreover from this have "set slots = {uuid5 application_id ''stable'', uuid5 application_id ''candidate''}"
    by (auto simp: deployment_worker_ids_def uuid_def split: if_splits)
  ultimately have "accepted_worker uuid5 application_id current dep selected"
    unfolding accepted_worker_def by (auto simp: jget_def optional_text_def dest!: required_Inr)
  then show thesis using that c by blast
qed

lemma probe_worker_Inr:
  assumes "probe_worker expected selected worker = Inr pinned"
    and "jget selected ''cpu_mhz'' = JInt cpu_mhz" "jget selected ''memory_mib'' = JInt memory_mib"
  shows "jget worker ''ready'' = JBool True \<and> jget worker ''absent'' \<noteq> JBool True \<and>
    (\<forall>(k, f) \<in> set observed_fields. jget worker k = jget selected f) \<and>
    (\<exists>cpu memory. jget worker ''cpuMHz'' = JInt cpu \<and> jget worker ''memoryMiB'' = JInt memory \<and> cpu_mhz \<le> cpu \<and> memory_mib \<le> memory) \<and>
    (\<exists>image. jget worker ''imageId'' = JStr image \<and> pinned = dict_put ''image_id'' (JStr image) selected) \<and>
    (\<forall>e. expected = Some e \<longrightarrow> set e = set pinned)"
proof -
  have ready: "jget worker ''ready'' = JBool True" "jget worker ''absent'' \<noteq> JBool True"
      "\<not> list_ex (\<lambda>(k, f). jget worker k \<noteq> jget selected f) observed_fields"
    using assms(1) by (auto simp: probe_worker_def split: if_splits)
  then obtain image server_id flavor cpu memory where
      "on_text (uuid ''reused worker image UUID'') ''reused worker image UUID must be a canonical UUID'' (jget worker ''imageId'') = Inr image"
      "worker_budget worker server_id flavor = Inr (cpu, memory)" "\<not> (cpu_mhz > cpu \<or> memory_mib > memory)"
      "pinned = dict_put ''image_id'' (JStr image) selected" "expected = None \<or> set (the expected) = set pinned"
    using assms by (auto simp: probe_worker_def rbind_eq_Inr Let_def split: if_splits json.splits)
  then show ?thesis
    using ready
    by (auto simp: on_text_def uuid_def worker_budget_def exact_int_def list_ex_iff split: json.splits if_splits option.splits)
qed

text \<open>
  C16: a worker is reused only when it is exactly the accepted one and still large enough. The helper was asked
  for the server the application records; it reported it ready with the recorded server, port, names and
  flavor; the slot in the accepted job belongs to the application; the pinned allocation fits the reported
  capacity; and where an earlier observation was pinned, nothing of it has changed.
\<close>

theorem reused_worker_verified:
  assumes "observe sha uuid5 ports helper expected application_id db = Inr pinned"
  shows "\<exists>current dep selected args worker image cpu memory.
    get_application application_id db = Some current \<and> get_deployment sha application_id db = Inr (Some dep) \<and>
    accepted_worker uuid5 application_id current dep selected \<and>
    helper args = Inr worker \<and> jget args ''acceptedServerId'' = optional_text (app_worker_server_id current) \<and>
    jget worker ''ready'' = JBool True \<and> jget worker ''serverId'' = optional_text (app_worker_server_id current) \<and>
    jget worker ''portId'' = optional_text (app_worker_port_id current) \<and>
    jget worker ''flavorName'' = JStr (app_worker_flavor current) \<and>
    jget worker ''cpuMHz'' = JInt cpu \<and> app_scheduler_cpu_mhz current \<le> cpu \<and>
    jget worker ''memoryMiB'' = JInt memory \<and> app_scheduler_memory_mib current \<le> memory \<and>
    pinned = dict_put ''image_id'' (JStr image) selected \<and> (\<forall>e. expected = Some e \<longrightarrow> set e = set pinned)"
proof -
  obtain selected where s: "identity sha uuid5 ports application_id db = Inr selected"
    using assms by (auto simp: observe_def rbind_eq_Inr)
  obtain current dep where c: "get_application application_id db = Some current"
      "get_deployment sha application_id db = Inr (Some dep)" "accepted_worker uuid5 application_id current dep selected"
    using identity_Inr [OF s] .
  let ?arguments = "[(''applicationId'', jget selected ''slot_id''), (''slug'', JStr (app_slug current)),
    (''acceptedServerId'', jget selected ''server_id'')]"
  obtain args worker where a: "args = ?arguments \<or> (\<exists>port. args = dict_put ''retainedPort'' port ?arguments)"
      "helper args = Inr worker" "probe_worker expected selected worker = Inr pinned"
    using assms unfolding observe_def s rbind_simps c(1) Let_def
    by (simp split: if_splits) (auto simp: rbind_eq_Inr split: option.splits)
  have "jget args ''acceptedServerId'' = jget selected ''server_id''"
    using a(1) by (auto simp: jget_def)
  then show ?thesis
    using probe_worker_Inr [OF a(3), of "app_scheduler_cpu_mhz current" "app_scheduler_memory_mib current"] a(2) c
    unfolding accepted_worker_def observed_fields_def by fastforce
qed

definition reuse_db :: db where
  "reuse_db = empty_db\<lparr>
     applications := [\<lparr>app_application_id = example_id, app_slug = ''shop'', app_repository_url = None, app_desired_running = True,
       app_url = None, app_worker_server_id = Some example_id, app_worker_server_name = Some ''worker'',
       app_worker_port_id = Some example_id, app_worker_port_name = Some ''port'', app_worker_flavor = ''m1'',
       app_scheduler_cpu_mhz = 500, app_scheduler_memory_mib = 256, app_created_at = [], app_updated_at = [], app_builder_flavor = None\<rparr>],
     deployment_attempts := [\<lparr>at_deployment_id = example_id, at_application_id = example_id, at_status = ''succeeded'',
       at_snapshot_kind = ''legacy'', at_source_commit = [], at_requested_ref = [], at_configuration_revision = 1,
       at_configuration_json = JNull, at_configuration_sha256 = [], at_environment_revision = 0, at_idempotency_request_id = example_id,
       at_recipe_hash = Some [], at_image_digest = Some [], at_nomad_job = Some (placement_prefix @ example_id @ [CHR 0x22]),
       at_nomad_job_sha256 = Some [], at_nomad_version = Some 1, at_health_path = Some [], at_application_port = Some 3000,
       at_build_log_path = Some [], at_safe_error = None, at_cleanup_state = None, at_requested_at = [], at_updated_at = [],
       at_accepted_at = Some [], at_last_healthy_at = Some []\<rparr>],
     active_deployments := [\<lparr>act_application_id = example_id, act_deployment_id = example_id, act_lifecycle_state = ''healthy'', act_updated_at = []\<rparr>]\<rparr>"

definition reuse_worker :: jdict where
  "reuse_worker = [(''ready'', JBool True), (''serverId'', JStr example_id), (''serverName'', JStr ''worker''), (''portId'', JStr example_id),
     (''portName'', JStr ''port''), (''flavorName'', JStr ''m1''), (''imageId'', JStr example_id), (''cpuMHz'', JInt 1000), (''memoryMiB'', JInt 512)]"

lemma example_observe:
  "observe (\<lambda>s. s) (\<lambda>_ s. s) [] (\<lambda>_. Inr reuse_worker) None example_id reuse_db =
     Inr [(''slot_id'', JStr example_id), (''server_id'', JStr example_id), (''server_name'', JStr ''worker''), (''port_id'', JStr example_id),
       (''port_name'', JStr ''port''), (''flavor'', JStr ''m1''), (''cpu_mhz'', JInt 500), (''memory_mib'', JInt 256), (''image_id'', JStr example_id)]"
  by code_simp

theorem reused_worker_verified_witness:
  "\<exists>current cpu. get_application example_id reuse_db = Some current \<and> jget reuse_worker ''cpuMHz'' = JInt cpu \<and>
     app_scheduler_cpu_mhz current \<le> cpu"
  using reused_worker_verified [OF example_observe] by auto

end
