(* ===== verification/Broker_Journal.thy ===== *)
theory Broker_Journal
  imports Complex_Main Json_Values Calendar
begin

text \<open>
  The journal of the management broker (\<open>management/broker/journal.py\<close>): intents recorded for users, their
  dispatch to the controller under a lease, the settlement of replies, and the view of an intent. A dispatch
  is three steps, because the code holds no transaction during the exchange: \<open>claim_intent\<close> (the first
  transaction), \<open>exchange\<close> (the request and what its reply means), and \<open>settle\<close> (the second transaction).
  Times are rational numbers, where the code has floating-point seconds; the columns \<open>body\<close>, \<open>operation\<close> and
  \<open>details\<close> hold canonical JSON objects and are modelled by the documents they hold.
\<close>

section \<open>Tables\<close>

record user =
  us_id :: string
  us_issuer :: string
  us_subject :: string
  us_username :: string
  us_display_name :: string
  us_enabled :: int
  us_created :: rat
  us_last_login :: rat
  us_role :: string
  us_generation :: int
  us_status :: string

record intent =
  it_id :: string
  it_user_id :: string
  it_app_id :: "string option"
  it_kind :: string
  it_client_key :: string
  it_controller_key :: string
  it_fingerprint :: string
  it_method :: string
  it_path :: string
  it_body :: jdict
  it_state :: string
  it_operation_id :: "string option"
  it_operation :: "jdict option"
  it_safe_error :: "string option"
  it_created :: rat
  it_updated :: rat
  it_attempts :: nat
  it_next_retry :: rat
  it_lease :: rat

record broker_app =
  ba_id :: string
  ba_user_id :: string
  ba_slug :: string
  ba_lifecycle :: string
  ba_revision :: int
  ba_created :: rat
  ba_create_intent :: string

record broker_configuration =
  cf_app_id :: string
  cf_revision :: int
  cf_repository :: string
  cf_branch :: string
  cf_configuration :: string
  cf_sha256 :: string

record audit_row =
  au_user_id :: "string option"
  au_app_id :: "string option"
  au_intent_id :: "string option"
  au_action :: string
  au_created :: rat

record admin_audit_row =
  aa_actor_id :: "string option"
  aa_target_id :: "string option"
  aa_action :: string
  aa_details :: jdict
  aa_created :: rat

record observation =
  ob_app_id :: string
  ob_body :: string
  ob_updated :: rat

record app_member =
  mb_app_id :: string
  mb_user_id :: string
  mb_added_by :: "string option"
  mb_created :: rat

record broker_quota =
  qt_user_id :: string
  qt_apps :: int
  qt_concurrent :: int

record broker_db =
  bt_users :: "user list"
  bt_intents :: "intent list"
  bt_apps :: "broker_app list"
  bt_configurations :: "broker_configuration list"
  bt_audit :: "audit_row list"
  bt_admin_audit :: "admin_audit_row list"
  bt_observations :: "observation list"
  bt_app_members :: "app_member list"
  bt_quotas :: "broker_quota list"

definition env_kinds :: "string list" where
  "env_kinds = [''env_set'', ''env_delete'']"

definition reviewed_kinds :: "string list" where
  "reviewed_kinds = [''default_builder_size'', ''storage_limits'', ''app_delete'']"

definition with_intents :: "(intent list \<Rightarrow> intent list) \<Rightarrow> broker_db \<Rightarrow> broker_db" where
  "with_intents f db = db\<lparr>bt_intents := f (bt_intents db)\<rparr>"

definition with_apps :: "(broker_app list \<Rightarrow> broker_app list) \<Rightarrow> broker_db \<Rightarrow> broker_db" where
  "with_apps f db = db\<lparr>bt_apps := f (bt_apps db)\<rparr>"

definition insert_audit :: "audit_row \<Rightarrow> broker_db \<Rightarrow> broker_db" where
  "insert_audit row db = db\<lparr>bt_audit := bt_audit db @ [row]\<rparr>"

text \<open>\<open>accounts.audit\<close>\<close>

definition admin_audit ::
  "string option \<Rightarrow> string option \<Rightarrow> string \<Rightarrow> jdict \<Rightarrow> rat \<Rightarrow> broker_db \<Rightarrow> broker_db" where
  "admin_audit actor target action details now db =
     db\<lparr>bt_admin_audit := bt_admin_audit db @
        [\<lparr>aa_actor_id = actor, aa_target_id = target, aa_action = action, aa_details = details, aa_created = now\<rparr>]\<rparr>"

section \<open>Guidance\<close>

definition error_code_re :: "string \<Rightarrow> bool" where
  "error_code_re = matches_head_rest is_upper (\<lambda>c. is_upper c \<or> is_digit c \<or> c = CHR ''_'') 63"

definition controller_error_code :: "json \<Rightarrow> string option" where
  "controller_error_code v = (case v of JStr s \<Rightarrow> if error_code_re s then Some s else None | _ \<Rightarrow> None)"

definition BUILD_GUIDANCE :: string where
  "BUILD_GUIDANCE = ''The build couldn't use this commit; its build output says why. Check that the commit is pushed to GitHub (a private repository needs the app's deploy key), that the repository root contains package.json, each package directory contains its runtime lockfile, and build/start scripts are defined in the root package.json.''"

definition HEALTH_GUIDANCE :: string where
  "HEALTH_GUIDANCE = ''Check that the health path returns HTTP 2xx with a body of at most 4 KB; use a small endpoint such as /health rather than a full HTML page.''"

definition BUSY_GUIDANCE :: string where
  "BUSY_GUIDANCE = ''The platform is busy with maintenance. Try again in a few minutes.''"

definition ENVIRONMENT_GUIDANCE :: string where
  "ENVIRONMENT_GUIDANCE = ''Your app wasn't healthy with this change, so the previous values were restored. Check the app's logs for the error, then correct the value and save it again.''"

definition RUNTIME_GUIDANCE :: string where
  "RUNTIME_GUIDANCE = ''The build couldn't look up the Node.js or Bun version this commit asks for. Try deploying again in a few minutes.''"

definition deploy_failure_guidance :: "string \<Rightarrow> string \<Rightarrow> json \<Rightarrow> json \<Rightarrow> string option" where
  "deploy_failure_guidance kind state given_code given_phase =
     (if kind \<noteq> ''deploy'' \<or> state \<notin> {''failed'', ''blocked''} then None
      else
        let code = controller_error_code given_code;
            phase = (case given_phase of JStr s \<Rightarrow> Some s | _ \<Rightarrow> None)
        in if state = ''failed'' \<and> (code = Some ''PLATFORM_BUSY'' \<or> phase = Some ''platform_busy'') then Some BUSY_GUIDANCE
           else if state = ''failed'' \<and> code = Some ''RUNTIME_UNAVAILABLE'' then Some RUNTIME_GUIDANCE
           else if code \<in> Some ` {''BUILD_REJECTED'', ''BUILD_FAILED'', ''SOURCE_REJECTED'', ''INVALID_BUILD_CONFIGURATION''} \<or>
                   phase = Some ''build_rejected'' then Some BUILD_GUIDANCE
           else if code \<in> Some ` {''CANDIDATE_UNHEALTHY'', ''PUBLIC_HEALTH_FAILED'', ''PUBLIC_HEALTH_TIMEOUT'',
                                  ''HEALTH_CHECK_FAILED'', ''HEALTH_CHECK_TIMEOUT'', ''HEALTH_TIMEOUT''} then Some HEALTH_GUIDANCE
           else if code \<in> Some ` {''DEADLINE_EXCEEDED'', ''DEADLINE_EXPIRED''} \<and>
                   phase \<in> Some ` {''worker_ready'', ''job_submitted'', ''verifying''} then Some HEALTH_GUIDANCE
           else None)"

definition attention_guidance :: "string \<Rightarrow> string \<Rightarrow> bool \<Rightarrow> string option" where
  "attention_guidance kind state can_resume =
     (if state \<notin> {''blocked'', ''unknown''} then None
      else if kind \<in> set env_kinds
      then Some ''The person who started this environment edit must enter the value again in Settings.''
      else
        let change = (if kind = ''deploy'' then ''deployment'' else ''change'')
        in if \<not> can_resume then Some (''Ask staff to resume this '' @ change @ ''.'')
           else if state = ''blocked'' then Some (''Resume this '' @ change @ '' to finish it.'')
           else Some (''Resume this '' @ change @ '' to check its outcome.''))"

section \<open>Recording and resuming\<close>

text \<open>
  \<open>Broker.record\<close> after its checks of the session: the intent is stored as prepared with a fresh identifier.
  A body of app administration carries the mark that its dispatch has to be authorised again.
\<close>

definition portal_admin :: "jdict \<Rightarrow> bool" where
  "portal_admin body \<longleftrightarrow> dict_get body ''_portalAdmin'' = Some (JBool True)"

definition null_or :: "string option \<Rightarrow> json" where
  "null_or v = (case v of None \<Rightarrow> JNull | Some s \<Rightarrow> JStr s)"

definition touch_observations :: "string option \<Rightarrow> broker_db \<Rightarrow> broker_db" where
  "touch_observations app db =
     db\<lparr>bt_observations := update_where (\<lambda>r. Some (ob_app_id r) = app) (\<lambda>r. r\<lparr>ob_updated := 0\<rparr>) (bt_observations db)\<rparr>"

definition record_intent ::
  "bool \<Rightarrow> string \<Rightarrow> string \<Rightarrow> string option \<Rightarrow> string \<Rightarrow> string \<Rightarrow> string \<Rightarrow> string \<Rightarrow> string \<Rightarrow> jdict \<Rightarrow> string \<Rightarrow> rat \<Rightarrow>
   broker_db \<Rightarrow> broker_db result" where
  "record_intent administered identifier usr app kind key fingerprint mthd path body controller_key now db =
     (let stored = (if administered then dict_put ''_portalAdmin'' (JBool True) body else body);
          row = \<lparr>it_id = identifier, it_user_id = usr, it_app_id = app, it_kind = kind, it_client_key = key,
             it_controller_key = controller_key, it_fingerprint = fingerprint, it_method = mthd, it_path = path,
             it_body = stored, it_state = ''prepared'', it_operation_id = None, it_operation = None,
             it_safe_error = None, it_created = now, it_updated = now, it_attempts = 0, it_next_retry = 0, it_lease = 0\<rparr>
      in if list_ex (\<lambda>r. it_id r = identifier \<or> it_controller_key r = controller_key \<or>
                          it_user_id r = usr \<and> it_client_key r = key) (bt_intents db) \<or>
            \<not> list_ex (\<lambda>u. us_id u = usr) (bt_users db)
         then Inl IntegrityError
         else
           let db1 = insert_audit \<lparr>au_user_id = Some usr, au_app_id = app, au_intent_id = Some identifier, au_action = kind, au_created = now\<rparr>
                       (with_intents (\<lambda>rows. rows @ [row]) db)
           in Inr (case app of
                     None \<Rightarrow> db1
                   | Some a \<Rightarrow>
                       let db2 = touch_observations app db1
                       in if administered
                          then admin_audit (Some usr)
                                 (map_option ba_user_id (find_where (\<lambda>r. ba_id r = a) (bt_apps db))) (''app_'' @ kind)
                                 [(''applicationId'', JStr a), (''intentId'', JStr identifier)] now db2
                          else db2))"

text \<open>\<open>Broker.existing\<close>: the intent a user's request key already belongs to.\<close>

definition existing :: "string \<Rightarrow> string \<Rightarrow> string \<Rightarrow> broker_db \<Rightarrow> intent option result" where
  "existing usr key fingerprint db =
     (case find_where (\<lambda>r. it_user_id r = usr \<and> it_client_key r = key) (bt_intents db) of
        None \<Rightarrow> Inr None
      | Some r \<Rightarrow> if it_fingerprint r \<noteq> fingerprint
                  then Inl (HttpError 409 ''IDEMPOTENCY_CONFLICT'' ''This request key already belongs to a different action.'')
                  else Inr (Some r))"

text \<open>
  The transaction of \<open>Broker.resume\<close> once the actor was authorised for the row: a blocked or unknown intent
  is prepared again. The lease of a dispatch that is still out stays.
\<close>

definition resume_intent :: "string \<Rightarrow> bool \<Rightarrow> rat \<Rightarrow> string \<Rightarrow> broker_db \<Rightarrow> broker_db result" where
  "resume_intent actor privileged now identifier db =
     (case find_where (\<lambda>r. it_id r = identifier) (bt_intents db) of
        None \<Rightarrow> Inl (HttpError 404 ''NOT_FOUND'' ''Operation not found.'')
      | Some row \<Rightarrow>
          if list_ex (\<lambda>a. Some (ba_id a) = it_app_id row \<and> ba_lifecycle a = ''deleted'') (bt_apps db)
          then Inl (HttpError 410 ''APPLICATION_DELETED'' ''This application was deleted by an administrator.'')
          else if it_kind row \<in> set env_kinds
          then Inl (HttpError 409 ''ENV_RESUBMIT_REQUIRED''
                 ''The person who started this environment edit must enter the same value again in Environment variables.'')
          else if it_state row \<in> {''blocked'', ''unknown''}
          then
            let db1 = insert_audit \<lparr>au_user_id = Some actor, au_app_id = it_app_id row, au_intent_id = Some identifier,
                                     au_action = ''resume'', au_created = now\<rparr>
                  (with_intents (update_where (\<lambda>r. it_id r = identifier)
                     (\<lambda>r. r\<lparr>it_state := ''prepared'', it_next_retry := 0\<rparr>)) db)
            in Inr (if privileged
                    then admin_audit (Some actor) (Some (it_user_id row)) ''app_resume''
                           [(''applicationId'', null_or (it_app_id row)), (''intentId'', JStr identifier)] now db1
                    else db1)
          else Inr db)"

section \<open>The limit on unfinished changes\<close>

text \<open>
  \<open>operation_quota\<close>: an application takes one change at a time, and a user at most the configured number over
  all applications. A deployment that only finishes in the background does not count.
\<close>

definition UNLIMITED_ROLES :: "string list" where
  "UNLIMITED_ROLES = [''staff'', ''admin'']"

definition unlimited :: "broker_db \<Rightarrow> string \<Rightarrow> bool" where
  "unlimited db usr =
     (case find_where (\<lambda>u. us_id u = usr) (bt_users db) of None \<Rightarrow> False | Some u \<Rightarrow> us_role u \<in> set UNLIMITED_ROLES)"

definition quota_kinds :: "string list" where
  "quota_kinds = [''deploy'', ''storage_create'', ''storage_verify'', ''storage_rotate'', ''storage_delete'', ''storage_limits'',
     ''env_set'', ''env_delete'', ''app_enable'', ''app_disable'', ''app_restart'', ''app_delete'']"

definition finishing_only :: "intent \<Rightarrow> bool" where
  "finishing_only r \<longleftrightarrow>
     it_kind r \<in> {''deploy'', ''app_enable''} \<and> it_state r \<in> {''accepted'', ''blocked''} \<and>
     (case it_operation r of None \<Rightarrow> False | Some d \<Rightarrow> jget d ''finishing'' \<in> {JBool True, JInt 1})"

definition holds_change :: "intent \<Rightarrow> bool" where
  "holds_change r \<longleftrightarrow>
     it_kind r \<in> set quota_kinds \<and> it_state r \<notin> {''succeeded'', ''failed''} \<and> \<not> finishing_only r"

definition operation_quota :: "int \<Rightarrow> string \<Rightarrow> string \<Rightarrow> broker_db \<Rightarrow> unit result" where
  "operation_quota concurrency_limit usr app db =
     (case find_where (\<lambda>r. it_app_id r = Some app \<and> holds_change r) (bt_intents db) of
        Some current \<Rightarrow>
          Inl (HttpError 409 ''APP_BUSY''
            (if it_state current \<in> {''blocked'', ''unknown''} \<and> it_kind current = ''deploy''
             then ''Finish the previous deployment in the app's Overview before trying again.''
             else if it_state current \<in> {''blocked'', ''unknown''}
             then ''Finish the previous change in the app's Overview before trying again.''
             else ''Check the change in the app's Overview before trying again.''))
      | None \<Rightarrow>
          if unlimited db usr then Inr ()
          else if int (length (filter (\<lambda>r. it_user_id r = usr \<and> holds_change r) (bt_intents db))) \<ge>
                  (case find_where (\<lambda>q. qt_user_id q = usr) (bt_quotas db) of None \<Rightarrow> concurrency_limit | Some q \<Rightarrow> qt_concurrent q)
          then Inl (HttpError 409 ''QUOTA_EXCEEDED'' ''Wait for your current operation to finish.'')
          else Inr ())"

section \<open>Retiring an application\<close>

definition retire_app :: "string \<Rightarrow> rat \<Rightarrow> broker_db \<Rightarrow> broker_db" where
  "retire_app app now db =
     with_intents (update_where (\<lambda>r. it_app_id r = Some app \<and> it_kind r \<noteq> ''app_delete'' \<and>
                                    it_state r \<in> {''prepared'', ''unknown'', ''blocked''})
        (\<lambda>r. r\<lparr>it_state := ''failed'', it_safe_error := Some ''This application was deleted by an administrator.'',
                it_updated := now, it_lease := 0\<rparr>))
       ((with_apps (update_where (\<lambda>a. ba_id a = app) (\<lambda>a. a\<lparr>ba_lifecycle := ''deleted'', ba_revision := 0\<rparr>)) db)
          \<lparr>bt_app_members := delete_where (\<lambda>r. mb_app_id r = app) (bt_app_members db),
           bt_configurations := delete_where (\<lambda>r. cf_app_id r = app) (bt_configurations db),
           bt_observations := delete_where (\<lambda>r. ob_app_id r = app) (bt_observations db)\<rparr>)"

section \<open>Dispatch\<close>

subsection \<open>The first transaction\<close>

text \<open>The user whose authority a reviewed intent needs: the last one who resumed it, or its author.\<close>

definition responsible :: "intent \<Rightarrow> broker_db \<Rightarrow> string option" where
  "responsible row db =
     (case find_where (\<lambda>a. au_intent_id a = Some (it_id row) \<and> au_action a = ''resume'') (rev (bt_audit db)) of
        None \<Rightarrow> Some (it_user_id row)
      | Some a \<Rightarrow> au_user_id a)"

definition needs_authority :: "intent \<Rightarrow> bool" where
  "needs_authority row \<longleftrightarrow>
     (portal_admin (it_body row) \<or> it_kind row \<in> set reviewed_kinds) \<and> it_state row \<noteq> ''accepted''"

definition authorised :: "intent \<Rightarrow> broker_db \<Rightarrow> bool" where
  "authorised row db =
     (case find_where (\<lambda>u. Some (us_id u) = responsible row db) (bt_users db) of
        None \<Rightarrow> False
      | Some actor \<Rightarrow>
          us_role actor \<in> (if it_kind row \<in> set reviewed_kinds then {''admin''} else {''staff'', ''admin''}) \<and>
          us_enabled actor \<noteq> 0 \<and> us_status actor = ''active'')"

definition claimable :: "rat \<Rightarrow> json option \<Rightarrow> intent \<Rightarrow> bool" where
  "claimable now secret_body row \<longleftrightarrow>
     (it_state row \<in> {''prepared'', ''unknown'', ''accepted''} \<or>
        it_kind row \<in> set env_kinds \<and> it_state row = ''blocked'' \<and> secret_body \<noteq> None) \<and>
     it_lease row \<le> now \<and>
     \<not> (it_kind row \<in> set env_kinds \<and> it_state row \<noteq> ''accepted'' \<and> secret_body = None)"

text \<open>The dispatched row is the one read before the update, as in \<open>intent = dict(row)\<close>.\<close>

definition claim_intent :: "rat \<Rightarrow> rat \<Rightarrow> string \<Rightarrow> json option \<Rightarrow> broker_db \<Rightarrow> intent option \<times> broker_db" where
  "claim_intent timeout now identifier secret_body db =
     (case find_where (\<lambda>r. it_id r = identifier) (bt_intents db) of
        None \<Rightarrow> (None, db)
      | Some row \<Rightarrow>
          if \<not> claimable now secret_body row then (None, db)
          else if needs_authority row \<and> \<not> authorised row db
          then (None, with_intents (update_where (\<lambda>r. it_id r = identifier)
                  (\<lambda>r. r\<lparr>it_state := ''blocked'', it_safe_error := Some ''Admin review required.''\<rparr>)) db)
          else (Some row, with_intents (update_where (\<lambda>r. it_id r = identifier)
                  (\<lambda>r. r\<lparr>it_lease := now + timeout + 5, it_attempts := it_attempts r + 1\<rparr>)) db))"

subsection \<open>The exchange\<close>

definition controller_body :: "intent \<Rightarrow> jdict result" where
  "controller_body i =
     (let body = filter (\<lambda>(k, _). k \<noteq> ''_portalAdmin'') (it_body i)
      in if it_kind i \<noteq> ''storage_limits'' then Inr body
         else if dict_get body ''resourceId'' = None then Inl (KeyError ''resourceId'')
         else Inr (filter (\<lambda>(k, _). k \<noteq> ''resourceId'') body))"

record controller_request =
  cr_method :: string
  cr_path :: string
  cr_body :: "json option"
  cr_key :: "string option"

text \<open>The operation to poll: set, and not the empty text.\<close>

definition polled :: "intent \<Rightarrow> string option" where
  "polled i = (if it_state i = ''accepted'' \<and> it_operation_id i \<noteq> Some [] then it_operation_id i else None)"

definition admission_request :: "intent \<Rightarrow> jdict \<Rightarrow> json option \<Rightarrow> controller_request" where
  "admission_request i body secret_body =
     \<lparr>cr_method = it_method i, cr_path = it_path i,
      cr_body = (if it_kind i \<in> set env_kinds then secret_body else Some (JObj body)),
      cr_key = Some (it_controller_key i)\<rparr>"

text \<open>\<open>ProjectClient.request\<close> refuses a path outside the project interface before it opens a connection.\<close>

definition project_request :: "rat \<Rightarrow> controller_request \<Rightarrow> controller_request result" where
  "project_request timeout r =
     (if \<not> starts_with ''/v1/'' (cr_path r) \<or> starts_with ''/v1/admin/'' (cr_path r) \<or>
         CHR 0x0D \<in> set (cr_path r) \<or> CHR 0x0A \<in> set (cr_path r)
      then Inl (ValueError ''invalid project request'')
      else if \<not> (0 < timeout \<and> timeout \<le> 35) then Inl (ValueError ''invalid project timeout'')
      else Inr r)"

definition request_of :: "rat \<Rightarrow> intent \<Rightarrow> json option \<Rightarrow> controller_request result" where
  "request_of timeout i secret_body =
     rbind (controller_body i) (\<lambda>body.
     project_request timeout
       (case polled i of
          Some op_id \<Rightarrow> \<lparr>cr_method = ''GET'', cr_path = ''/v1/operations/'' @ op_id, cr_body = None, cr_key = None\<rparr>
        | None \<Rightarrow> admission_request i body secret_body))"

text \<open>What \<open>ProjectClient.request\<close> gives: a status with a JSON object, or \<open>ControllerUnavailable\<close>.\<close>

datatype reply = Unavailable | Reply int jdict

record outcome =
  oc_state :: string
  oc_operation_id :: "string option"
  oc_operation :: "jdict option"
  oc_error :: "string option"

text \<open>The outcome while the reply tells nothing: nothing was learned, and the intent is tried again.\<close>

definition undecided :: "intent \<Rightarrow> outcome" where
  "undecided i = \<lparr>oc_state = (if polled i \<noteq> None then ''accepted'' else ''unknown''),
     oc_operation_id = it_operation_id i, oc_operation = it_operation i, oc_error = None\<rparr>"

definition expected_scope :: "intent \<Rightarrow> string" where
  "expected_scope i =
     (if it_kind i = ''default_builder_size'' then ''infrastructure''
      else ''app-'' @ (case it_app_id i of None \<Rightarrow> ''None'' | Some a \<Rightarrow> a))"

definition LIMITS_NOT_SAVED :: string where
  "LIMITS_NOT_SAVED = ''The limits could not be saved. Reload the current limits and try again.''"

definition failed_operation_error :: "string \<Rightarrow> string option \<Rightarrow> string" where
  "failed_operation_error kind code =
     (if kind = ''storage_limits'' then LIMITS_NOT_SAVED
      else if kind \<in> set env_kinds \<and> code = Some ''ENVIRONMENT_UNHEALTHY'' then ENVIRONMENT_GUIDANCE
      else ''The controller rejected this operation. Review its status before retrying.'')"

definition finishing_evidence :: "intent \<Rightarrow> jdict \<Rightarrow> bool result" where
  "finishing_evidence i result =
     (if it_kind i \<in> {''deploy'', ''app_enable''} \<and> jget result ''finishing'' = JBool True
      then in_texts (jget result ''phase'') [''deployment_healthy'', ''predecessor_cleanup'', ''accepted'']
      else Inr False)"

definition operation_evidence :: "bool \<Rightarrow> jdict \<Rightarrow> jdict" where
  "operation_evidence finishing result =
     map (\<lambda>k. (k, jget result k)) [''operationId'', ''status'', ''phase'', ''cleanupState'', ''updatedAt''] @
     (if finishing then [(''finishing'', JBool True)] else []) @
     (case controller_error_code (jget result ''errorCode'') of
        None \<Rightarrow> [] | Some code \<Rightarrow> [(''controllerErrorCode'', JStr code)])"

text \<open>The state an operation's status gives the intent. An uncertain cleanup keeps it blocked.\<close>

definition operation_state :: "json \<Rightarrow> string" where
  "operation_state status =
     (if status = JStr ''running'' then ''accepted''
      else if status = JStr ''recovery_required'' then ''blocked''
      else case status of JStr s \<Rightarrow> s | _ \<Rightarrow> [])"

definition operation_outcome :: "intent \<Rightarrow> bool \<Rightarrow> jdict \<Rightarrow> outcome result" where
  "operation_outcome i finishing result =
     (let code = controller_error_code (jget result ''errorCode'');
          state = operation_state (jget result ''status'');
          error = (if state = ''blocked'' then attention_guidance (it_kind i) state True
                   else if state = ''failed'' then Some (failed_operation_error (it_kind i) code) else None);
          decided = \<lparr>oc_state = state, oc_operation_id = it_operation_id i,
                     oc_operation = Some (operation_evidence finishing result), oc_error = error\<rparr>
      in if state \<in> {''succeeded'', ''failed''}
         then rbind (in_texts (jget result ''cleanupState'') [''confirmed'', ''not_required'']) (\<lambda>clean.
              Inr (if clean then decided
                   else decided\<lparr>oc_state := ''blocked'', oc_error := attention_guidance (it_kind i) ''blocked'' True\<rparr>))
         else Inr decided)"

definition poll_outcome :: "intent \<Rightarrow> string \<Rightarrow> int \<Rightarrow> jdict \<Rightarrow> outcome result" where
  "poll_outcome i op_id status result =
     (if status \<noteq> 200 \<or> jget result ''operationId'' \<noteq> JStr op_id then Inr (undecided i)
      else
        rbind (in_texts (jget result ''status'') [''running'', ''succeeded'', ''failed'', ''recovery_required'']) (\<lambda>known.
        if \<not> known \<or> jget result ''scope'' \<noteq> JStr (expected_scope i) then Inr (undecided i)
        else rbind (finishing_evidence i result) (\<lambda>finishing. operation_outcome i finishing result)))"

definition rejected_error :: "string \<Rightarrow> int \<Rightarrow> string" where
  "rejected_error kind status =
     (if kind = ''app_restart'' \<and> status = 404 then ''Restart is not available yet. Ask an admin to update the platform.''
      else if kind \<in> {''builder_size'', ''default_builder_size''} \<and> status = 404
      then ''Sizes are not available yet. Ask an admin to update the platform.''
      else if kind = ''storage_limits'' then LIMITS_NOT_SAVED
      else ''The request was rejected. The slug may be unavailable or the input invalid.'')"

definition error_detail :: "jdict \<Rightarrow> json" where
  "error_detail result = (case jget result ''error'' of JObj d \<Rightarrow> jget d ''code'' | _ \<Rightarrow> JNull)"

definition admission_outcome :: "intent \<Rightarrow> int \<Rightarrow> jdict \<Rightarrow> outcome" where
  "admission_outcome i status result =
     (if status = 201 \<and> it_kind i = ''create_app''
      then if null_or (it_app_id i) \<noteq> jget result ''applicationId'' then undecided i
           else (undecided i)\<lparr>oc_state := ''succeeded''\<rparr>
      else if status = 202
      then if jget result ''operationId'' \<noteq> JStr (it_controller_key i) then undecided i
           else (undecided i)\<lparr>oc_state := ''accepted'', oc_operation_id := Some (it_controller_key i)\<rparr>
      else if status = 503 \<and> it_kind i = ''storage_limits'' \<and> error_detail result = JStr ''INSTANCE_MANAGER_UNAVAILABLE''
      then (undecided i)\<lparr>oc_state := ''unknown'',
             oc_operation := Some [(''controllerErrorCode'', JStr ''INSTANCE_MANAGER_UNAVAILABLE'')],
             oc_error := Some ''The storage service is temporarily unavailable. This change will retry automatically.''\<rparr>
      else if status \<in> {400, 404, 409, 413, 415, 422}
      then
        let code = controller_error_code (error_detail result);
            rejected = (undecided i)\<lparr>oc_operation := map_option (\<lambda>c. [(''controllerErrorCode'', JStr c)]) code\<rparr>
        in if code \<in> Some ` {''RECOVERY_REQUIRED'', ''UNFINISHED_OPERATION'', ''OPERATION_CONFLICT''}
           then rejected\<lparr>oc_state := ''blocked'', oc_error := attention_guidance (it_kind i) ''blocked'' True\<rparr>
           else rejected\<lparr>oc_state := ''failed'', oc_error := Some (rejected_error (it_kind i) status)\<rparr>
      else undecided i)"

definition exchange :: "intent \<Rightarrow> reply \<Rightarrow> outcome result" where
  "exchange i answer =
     (case answer of
        Unavailable \<Rightarrow> Inr (undecided i)
      | Reply status result \<Rightarrow>
          (case polled i of
             Some op_id \<Rightarrow> poll_outcome i op_id status result
           | None \<Rightarrow> Inr (admission_outcome i status result)))"

subsection \<open>The second transaction\<close>

definition retry_delay :: "nat \<Rightarrow> rat" where
  "retry_delay attempts = min 10 (1 / 2 * 2 ^ min attempts 4)"

text \<open>The rows of \<open>admin_audit\<close> a settled intent leaves.\<close>

definition settled_audit :: "intent \<Rightarrow> string \<Rightarrow> jdict \<Rightarrow> rat \<Rightarrow> broker_db \<Rightarrow> broker_db result" where
  "settled_audit i state body now db =
     (if it_kind i = ''app_delete''
      then Inr (admin_audit (Some (it_user_id i)) None (''app_delete_'' @ state)
                  [(''applicationId'', null_or (it_app_id i)), (''intentId'', JStr (it_id i))] now db)
      else if it_kind i = ''storage_limits''
      then let parts = split_char CHR ''/'' (it_path i)
           in if length parts \<le> 3 then Inl IndexError
              else Inr (admin_audit (Some (it_user_id i)) None (''storage_limits_'' @ state)
                     (dict_merge [(''intentId'', JStr (it_id i)), (''resourceId'', JStr (parts ! 3))] body) now db)
      else if it_kind i = ''default_builder_size''
      then (case (dict_get body ''flavor'', dict_get body ''expectedFlavor'') of
              (None, _) \<Rightarrow> Inl (KeyError ''flavor'')
            | (_, None) \<Rightarrow> Inl (KeyError ''expectedFlavor'')
            | (Some flavor, Some expected) \<Rightarrow>
                Inr (admin_audit (Some (it_user_id i)) None (''default_builder_size_'' @ state)
                  [(''intentId'', JStr (it_id i)), (''flavor'', flavor), (''expectedFlavor'', expected)] now db))
      else Inr db)"

definition settled_row :: "intent \<Rightarrow> outcome \<Rightarrow> rat \<Rightarrow> intent \<Rightarrow> intent" where
  "settled_row i out now r =
     r\<lparr>it_state := oc_state out, it_operation_id := oc_operation_id out, it_operation := oc_operation out,
       it_safe_error := oc_error out, it_updated := now, it_next_retry := now + retry_delay (it_attempts i), it_lease := 0\<rparr>"

definition settle_lifecycle :: "intent \<Rightarrow> outcome \<Rightarrow> broker_db \<Rightarrow> broker_db" where
  "settle_lifecycle i out db =
     (let put = (\<lambda>lifecycle. with_apps (update_where (\<lambda>a. Some (ba_id a) = it_app_id i) (\<lambda>a. a\<lparr>ba_lifecycle := lifecycle\<rparr>)) db)
      in if it_kind i = ''create_app'' \<and> oc_state out = ''succeeded'' then put ''ready''
         else if it_kind i = ''create_app'' \<and> oc_state out = ''failed'' then put ''rejected''
         else db)"

definition settle_retired :: "intent \<Rightarrow> outcome \<Rightarrow> rat \<Rightarrow> broker_db \<Rightarrow> broker_db" where
  "settle_retired i out now db =
     (if it_kind i = ''app_delete'' \<and> oc_state out = ''succeeded''
      then (case it_app_id i of None \<Rightarrow> db | Some app \<Rightarrow> retire_app app now db) else db)"

definition settle :: "intent \<Rightarrow> jdict \<Rightarrow> outcome \<Rightarrow> rat \<Rightarrow> broker_db \<Rightarrow> broker_db result" where
  "settle i body out now db =
     (let db1 = settle_lifecycle i out (settle_retired i out now (touch_observations (it_app_id i)
                  (with_intents (update_where (\<lambda>r. it_id r = it_id i) (settled_row i out now)) db)))
      in if oc_state out \<in> {''succeeded'', ''failed'', ''blocked''} \<and> oc_state out \<noteq> it_state i
         then settled_audit i (oc_state out) body now
                (insert_audit \<lparr>au_user_id = Some (it_user_id i), au_app_id = it_app_id i, au_intent_id = Some (it_id i),
                               au_action = oc_state out, au_created = now\<rparr> db1)
         else Inr db1)"

text \<open>The application \<open>on_deleted\<close> is called for.\<close>

definition deleted_notice :: "intent \<Rightarrow> outcome \<Rightarrow> string option" where
  "deleted_notice i out =
     (if it_kind i = ''app_delete'' \<and> oc_state out = ''succeeded'' then it_app_id i else None)"

subsection \<open>The whole dispatch\<close>

text \<open>
  A dispatch without interference between its steps, against a controller that answers each request at the
  given times. An exception ends it after the steps that were committed.
\<close>

definition dispatch ::
  "(controller_request \<Rightarrow> reply) \<Rightarrow> rat \<Rightarrow> rat \<Rightarrow> rat \<Rightarrow> string \<Rightarrow> json option \<Rightarrow> broker_db \<Rightarrow> broker_db \<times> string option result" where
  "dispatch peer timeout claimed settled identifier secret_body db =
     (case claim_intent timeout claimed identifier secret_body db of
        (None, db1) \<Rightarrow> (db1, Inr None)
      | (Some i, db1) \<Rightarrow>
          (case rbind (request_of timeout i secret_body) (\<lambda>r.
                rbind (exchange i (peer r)) (\<lambda>out.
                rbind (controller_body i) (\<lambda>body.
                rbind (settle i body out settled db1) (\<lambda>db2.
                Inr (db2, deleted_notice i out))))) of
             Inl e \<Rightarrow> (db1, Inl e)
           | Inr (db2, notice) \<Rightarrow> (db2, Inr notice)))"

section \<open>Reconciliation\<close>

definition intent_due :: "rat \<Rightarrow> broker_db \<Rightarrow> intent \<Rightarrow> bool" where
  "intent_due now db r \<longleftrightarrow>
     it_state r \<in> {''prepared'', ''unknown'', ''accepted''} \<and>
     (it_kind r \<notin> set env_kinds \<or> it_state r = ''accepted'') \<and>
     it_next_retry r \<le> now \<and> it_lease r \<le> now \<and>
     list_ex (\<lambda>u. us_id u = it_user_id r \<and> (us_enabled u = 1 \<or> it_state r = ''accepted'')) (bt_users db)"

definition due_intents :: "rat \<Rightarrow> broker_db \<Rightarrow> string list" where
  "due_intents now db = map it_id (take 4 (sort_key it_created (filter (intent_due now db) (bt_intents db))))"

text \<open>One dispatch per due intent; \<open>reconcile\<close> reports an exception and goes on with the next.\<close>

fun dispatch_all ::
  "(controller_request \<Rightarrow> reply) \<Rightarrow> rat \<Rightarrow> (string \<Rightarrow> rat \<times> rat) \<Rightarrow> string list \<Rightarrow> broker_db \<Rightarrow> broker_db" where
  "dispatch_all peer timeout clock [] db = db"
| "dispatch_all peer timeout clock (i # rest) db =
     dispatch_all peer timeout clock rest (fst (dispatch peer timeout (fst (clock i)) (snd (clock i)) i None db))"

definition reconcile_intents ::
  "(controller_request \<Rightarrow> reply) \<Rightarrow> rat \<Rightarrow> rat \<Rightarrow> (string \<Rightarrow> rat \<times> rat) \<Rightarrow> broker_db \<Rightarrow> broker_db" where
  "reconcile_intents peer timeout now clock db = dispatch_all peer timeout clock (due_intents now db) db"

text \<open>The writing transaction of \<open>observe_deleted\<close>, for the owner read before.\<close>

definition retire_missing :: "string \<Rightarrow> string \<Rightarrow> rat \<Rightarrow> broker_db \<Rightarrow> broker_db" where
  "retire_missing app owner now db =
     (if list_ex (\<lambda>a. ba_id a = app \<and> ba_lifecycle a = ''ready'') (bt_apps db)
      then insert_audit \<lparr>au_user_id = Some owner, au_app_id = Some app, au_intent_id = None,
                         au_action = ''app_deleted_by_administrator'', au_created = now\<rparr> (retire_app app now db)
      else db)"

definition not_found_evidence :: "reply \<Rightarrow> bool" where
  "not_found_evidence answer =
     (case answer of Unavailable \<Rightarrow> False
      | Reply status result \<Rightarrow> status = 404 \<and> error_detail result = JStr ''APPLICATION_NOT_FOUND'')"

definition observe_deleted ::
  "(controller_request \<Rightarrow> reply) \<Rightarrow> rat \<Rightarrow> string \<Rightarrow> bool \<Rightarrow> broker_db \<Rightarrow> broker_db \<times> bool" where
  "observe_deleted peer now app missing db =
     (case find_where (\<lambda>a. ba_id a = app) (bt_apps db) of
        None \<Rightarrow> (db, False)
      | Some row \<Rightarrow>
          if ba_lifecycle row \<noteq> ''ready'' then (db, ba_lifecycle row = ''deleted'')
          else if missing \<or> not_found_evidence (peer \<lparr>cr_method = ''GET'',
                    cr_path = ''/v1/applications/'' @ app @ ''/environment'', cr_body = None, cr_key = None\<rparr>)
          then (retire_missing app (ba_user_id row) now db, True)
          else (db, False))"

text \<open>The scan of ready applications, four at a time in the order of creation, with its cursor.\<close>

type_synonym cursor = "(rat \<times> string) option"

definition after_cursor :: "cursor \<Rightarrow> broker_app \<Rightarrow> bool" where
  "after_cursor c a =
     (case c of None \<Rightarrow> True
      | Some (created, i) \<Rightarrow> ba_created a > created \<or> ba_created a = created \<and> ba_id a > i)"

definition scan_rows :: "cursor \<Rightarrow> broker_db \<Rightarrow> broker_app list" where
  "scan_rows c db =
     take 4 (sort_key ba_created (sort_key ba_id
       (filter (\<lambda>a. ba_lifecycle a = ''ready'' \<and> after_cursor c a) (bt_apps db))))"

definition next_cursor :: "broker_app list \<Rightarrow> cursor" where
  "next_cursor rows =
     (if length rows = 4 then Some (ba_created (List.last rows), ba_id (List.last rows)) else None)"

definition reconcile_apps ::
  "(controller_request \<Rightarrow> reply) \<Rightarrow> rat \<Rightarrow> cursor \<Rightarrow> broker_db \<Rightarrow> broker_db \<times> cursor" where
  "reconcile_apps peer now c db =
     (let rows = scan_rows c db
      in (fold (\<lambda>a db. fst (observe_deleted peer now (ba_id a) False db)) rows db, next_cursor rows))"

section \<open>The view of an intent\<close>

text \<open>
  \<open>utc\<close> on a stored time: the nearest microsecond (ties to even) since 1970 as a UTC timestamp, \<open>None\<close> where
  \<open>datetime\<close> has no such year. \<open>ord2ymd\<close> is the calendar date of \<open>datetime\<close> for a day counted from the start
  of year 1.
\<close>

definition round_half_even :: "rat \<Rightarrow> int" where
  "round_half_even x =
     (let f = \<lfloor>x\<rfloor>; r = x - of_int f
      in if r < 1 / 2 \<or> r = 1 / 2 \<and> even f then f else f + 1)"

definition ord2ymd :: "int \<Rightarrow> int \<times> int \<times> int" where
  "ord2ymd n =
     (let n400 = n div 146097; r400 = n mod 146097; n100 = r400 div 36524; r100 = r400 mod 36524;
          n4 = r100 div 1461; r4 = r100 mod 1461; n1 = r4 div 365; r1 = r4 mod 365;
          y = n400 * 400 + 1 + n100 * 100 + n4 * 4 + n1
      in if n1 = 4 \<or> n100 = 4 then (y - 1, 12, 31)
         else
           let m = (r1 + 50) div 32;
               m' = (if days_before_month y m > r1 then m - 1 else m)
           in (y, m', r1 - days_before_month y m' + 1))"

definition padded :: "nat \<Rightarrow> int \<Rightarrow> string" where
  "padded width v = (let s = int_text v in replicate (width - length s) (CHR ''0'') @ s)"

definition EPOCH :: int where
  "EPOCH = datetime_of 1970 1 1 0 0 0"

definition utc :: "rat \<Rightarrow> string option" where
  "utc value =
     (let t = EPOCH + round_half_even (value * 1000000); secs = t div microseconds; (y, m, d) = ord2ymd (secs div 86400)
      in if t < 0 \<or> y > 9999 then None
         else Some (padded 4 y @ ''-'' @ padded 2 m @ ''-'' @ padded 2 d @ ''T'' @ padded 2 (secs mod 86400 div 3600) @ '':'' @
                padded 2 (secs mod 3600 div 60) @ '':'' @ padded 2 (secs mod 60) @ ''.'' @ padded 6 (t mod microseconds) @ ''Z''))"

definition can_resume :: "intent \<Rightarrow> bool \<Rightarrow> bool \<Rightarrow> bool" where
  "can_resume row diagnostic admin \<longleftrightarrow>
     it_kind row \<notin> set env_kinds \<and> (it_kind row \<noteq> ''app_delete'' \<or> admin) \<and>
     it_state row \<in> {''blocked'', ''unknown''} \<and> (\<not> portal_admin (it_body row) \<or> diagnostic)"

definition awaits_resubmit :: "intent \<Rightarrow> bool" where
  "awaits_resubmit row \<longleftrightarrow> it_kind row \<in> set env_kinds \<and> it_state row \<in> {''prepared'', ''unknown'', ''blocked''}"

definition intent_model :: "intent \<Rightarrow> bool \<Rightarrow> string option \<Rightarrow> bool \<Rightarrow> jdict" where
  "intent_model row diagnostic viewer admin =
     (let code = (case it_operation row of None \<Rightarrow> None
                  | Some d \<Rightarrow> controller_error_code (jget d ''controllerErrorCode''));
          operation = map_option (filter (\<lambda>(k, _). k \<noteq> ''controllerErrorCode'')) (it_operation row);
          phase = (case operation of None \<Rightarrow> JNull | Some d \<Rightarrow> jget d ''phase'');
          resumable = can_resume row diagnostic admin;
          own = (case viewer of None \<Rightarrow> True | Some v \<Rightarrow> it_user_id row = v)
      in [(''intentId'', JStr (it_id row)), (''appId'', null_or (it_app_id row)), (''kind'', JStr (it_kind row)),
          (''state'', JStr (it_state row)), (''operationId'', null_or (it_operation_id row)),
          (''operation'', case operation of None \<Rightarrow> JNull | Some [] \<Rightarrow> JNull | Some d \<Rightarrow> JObj d),
          (''statusUrl'', JStr (''/api/v1/intents/'' @ it_id row)),
          (''safeError'', null_or
             (case attention_guidance (it_kind row) (it_state row) resumable of
                Some s \<Rightarrow> Some s
              | None \<Rightarrow> (case deploy_failure_guidance (it_kind row) (it_state row) (null_or code) phase of
                          Some s \<Rightarrow> Some s | None \<Rightarrow> it_safe_error row))),
          (''createdAt'', null_or (utc (it_created row))), (''updatedAt'', null_or (utc (it_updated row))),
          (''commit'', if it_kind row = ''deploy'' then jget (it_body row) ''commit'' else JNull),
          (''names'', if it_kind row \<in> set env_kinds
                     then (case dict_get (it_body row) ''names'' of None \<Rightarrow> JArr [] | Some v \<Rightarrow> v) else JArr []),
          (''retryKey'', if awaits_resubmit row \<and> own then JStr (it_client_key row) else JNull),
          (''canResume'', JBool resumable),
          (''requiresResubmit'', JBool (awaits_resubmit row \<and> own))] @
         (if diagnostic then [(''controllerErrorCode'', null_or code)] else []))"

end
