(* ===== verification/Broker_Runs.thy ===== *)
theory Broker_Runs
  imports Broker_Journal Controller_Runs
begin

text \<open>
  Runs of the broker: threads interleave between the two transactions of a dispatch, so a state is the
  database, the dispatches that were claimed and not settled, and the log of requests sent to the controller.
  The theory shows what no interleaving breaks: an intent is sent as one request under one key, and not
  twice within a lease; what a settled state is evidence of; that reconciliation gets through what is due;
  and how a late reply revives an intent of a deleted application.
\<close>

section \<open>Steps\<close>

record broker =
  br_db :: broker_db
  br_flight :: "(intent \<times> json option) list"
  br_sent :: "(string \<times> controller_request) list"

datatype label = Recorded string | Resumed string | Claimed string rat | Passed string | Settled string | Abandoned | Retired string | Other

text \<open>
  One step of some thread. \<open>recorded_local\<close> is a change the broker makes itself, whose intent is stored as succeeded in
  the transaction that records it. \<open>pass\<close> is a dispatch that ends in its first transaction. \<open>abandon\<close> is an exception
  between the transactions, a rollback of the second, or the end of the process. \<open>other\<close> stands for every
  other transaction of the broker, none of which writes the table of intents.
\<close>

inductive broker_step :: "rat \<Rightarrow> broker \<Rightarrow> label \<Rightarrow> broker \<Rightarrow> bool" for timeout where
  recorded: "record_intent adm i usr app kind key fp m p body ck now (br_db s) = Inr db \<Longrightarrow>
    broker_step timeout s (Recorded i) (s\<lparr>br_db := db\<rparr>)"
| recorded_local: "record_intent adm i usr app kind key fp m p body ck now (br_db s) = Inr db \<Longrightarrow>
    broker_step timeout s (Recorded i)
      (s\<lparr>br_db := with_intents (update_where (\<lambda>r. it_id r = i) (\<lambda>r. r\<lparr>it_state := ''succeeded''\<rparr>)) db\<rparr>)"
| resume: "resume_intent actor privileged now i (br_db s) = Inr db \<Longrightarrow>
    broker_step timeout s (Resumed i) (s\<lparr>br_db := db\<rparr>)"
| claim: "claim_intent timeout now i secret (br_db s) = (Some row, db) \<Longrightarrow>
    broker_step timeout s (Claimed i now)
      (s\<lparr>br_db := db, br_flight := (row, secret) # br_flight s,
         br_sent := br_sent s @ (case request_of timeout row secret of Inl _ \<Rightarrow> [] | Inr q \<Rightarrow> [(i, q)])\<rparr>)"
| pass: "claim_intent timeout now i secret (br_db s) = (None, db) \<Longrightarrow>
    broker_step timeout s (Passed i) (s\<lparr>br_db := db\<rparr>)"
| settle: "(row, secret) \<in> set (br_flight s) \<Longrightarrow> request_of timeout row secret = Inr q \<Longrightarrow>
    exchange row answer = Inr out \<Longrightarrow> controller_body row = Inr body \<Longrightarrow>
    settle row body out now (br_db s) = Inr db \<Longrightarrow>
    broker_step timeout s (Settled (it_id row)) (s\<lparr>br_db := db, br_flight := remove1 (row, secret) (br_flight s)\<rparr>)"
| abandon: "broker_step timeout s Abandoned (s\<lparr>br_flight := remove1 (row, secret) (br_flight s)\<rparr>)"
| retire: "broker_step timeout s (Retired app) (s\<lparr>br_db := retire_missing app owner now (br_db s)\<rparr>)"
| other: "bt_intents db = bt_intents (br_db s) \<Longrightarrow> broker_step timeout s Other (s\<lparr>br_db := db\<rparr>)"

inductive broker_run :: "rat \<Rightarrow> broker \<Rightarrow> label list \<Rightarrow> broker \<Rightarrow> bool" for timeout where
  done_run: "broker_run timeout s [] s"
| more_run: "broker_run timeout s ls s' \<Longrightarrow> broker_step timeout s' l s'' \<Longrightarrow> broker_run timeout s (ls @ [l]) s''"

inductive_cases claim_stepE: "broker_step timeout s (Claimed i t) s'"

definition new_broker :: "broker_db \<Rightarrow> broker" where
  "new_broker db = \<lparr>br_db = db\<lparr>bt_intents := []\<rparr>, br_flight = [], br_sent = []\<rparr>"

section \<open>What every step keeps of an intent\<close>

definition intent_kept :: "intent \<Rightarrow> intent \<Rightarrow> bool" where
  "intent_kept r r' \<longleftrightarrow>
     it_id r' = it_id r \<and> it_user_id r' = it_user_id r \<and> it_app_id r' = it_app_id r \<and> it_kind r' = it_kind r \<and>
     it_client_key r' = it_client_key r \<and> it_controller_key r' = it_controller_key r \<and>
     it_fingerprint r' = it_fingerprint r \<and> it_method r' = it_method r \<and> it_path r' = it_path r \<and>
     it_body r' = it_body r \<and> it_created r' = it_created r"

interpretation itk: row_guarantee intent_kept
  by unfold_locales (auto simp: intent_kept_def)

text \<open>
  The intents after an operation: the rows of before in their order, changed by a function that keeps what
  identifies an intent, and possibly one new row at the end under a fresh identifier and key.
\<close>

definition fresh_for :: "intent list \<Rightarrow> intent list \<Rightarrow> bool" where
  "fresh_for rows new \<longleftrightarrow>
     length new \<le> 1 \<and> (\<forall>n \<in> set new. \<forall>r \<in> set rows. it_id r \<noteq> it_id n \<and> it_controller_key r \<noteq> it_controller_key n)"

definition intents_step :: "intent list \<Rightarrow> intent list \<Rightarrow> bool" where
  "intents_step rows rows' \<longleftrightarrow>
     (\<exists>f new. rows' = map f rows @ new \<and> (\<forall>r. intent_kept r (f r)) \<and> fresh_for rows new)"

lemma intents_step_refl: "intents_step rows rows"
  unfolding intents_step_def fresh_for_def by (rule exI [of _ "\<lambda>r. r"], rule exI [of _ "[]"]) (simp add: itk.K_refl)

lemma intents_step_update:
  assumes "\<And>r. intent_kept r (f r)"
  shows "intents_step rows (update_where P f rows)"
  unfolding intents_step_def fresh_for_def update_where_def
  by (rule exI [of _ "\<lambda>r. if P r then f r else r"], rule exI [of _ "[]"]) (simp add: itk.K_refl assms)

lemma intents_step_then:
  assumes "intents_step a b" "\<And>r. intent_kept r (f r)"
  shows "intents_step a (update_where P f b)"
proof -
  obtain g new where g: "b = map g a @ new" "\<And>r. intent_kept r (g r)" "fresh_for a new"
    using assms(1) by (auto simp: intents_step_def)
  let ?h = "\<lambda>r. if P r then f r else r"
  have h: "intent_kept r (?h r)" for r by (simp add: assms(2) itk.K_refl)
  have "update_where P f b = map (?h \<circ> g) a @ map ?h new" by (simp add: g(1) update_where_def)
  moreover have "intent_kept r ((?h \<circ> g) r)" for r using itk.K_trans [OF g(2) h] by simp
  moreover have "fresh_for a (map ?h new)"
  proof -
    have "it_id (?h r) = it_id r" "it_controller_key (?h r) = it_controller_key r" for r
      using h [of r] unfolding intent_kept_def by blast+
    then show ?thesis using g(3) unfolding fresh_for_def set_map length_map by (simp only: ball_simps) blast
  qed
  ultimately show ?thesis unfolding intents_step_def by blast
qed

lemma bt_intents_simps [simp]:
  "bt_intents (with_intents f db) = f (bt_intents db)" "bt_intents (with_apps g db) = bt_intents db"
  "bt_intents (insert_audit a db) = bt_intents db" "bt_intents (admin_audit x y z d now db) = bt_intents db"
  "bt_intents (touch_observations app db) = bt_intents db" "bt_users (with_intents f db) = bt_users db"
  by (simp_all add: with_intents_def with_apps_def insert_audit_def admin_audit_def touch_observations_def)

lemma record_intents:
  assumes "record_intent adm i usr app kind key fp m p body ck now db = Inr db'"
  obtains row where "bt_intents db' = bt_intents db @ [row]" "it_id row = i" "fresh_for (bt_intents db) [row]"
proof -
  have "\<exists>row. bt_intents db' = bt_intents db @ [row] \<and> it_id row = i \<and> it_controller_key row = ck \<and>
      (\<forall>r \<in> set (bt_intents db). it_id r \<noteq> i \<and> it_controller_key r \<noteq> ck)"
    using assms unfolding record_intent_def Let_def if_Inl_eq_Inr
    by (auto simp: list_ex_iff split: option.splits)
  then show thesis using that by (auto simp: fresh_for_def)
qed

lemma resume_intents:
  assumes "resume_intent actor privileged now i db = Inr db'"
  shows "bt_intents db' = bt_intents db \<or>
    (\<exists>row \<in> set (bt_intents db). it_id row = i \<and> it_state row \<in> {''blocked'', ''unknown''} \<and>
       find_where (\<lambda>r. it_id r = i) (bt_intents db) = Some row) \<and>
    bt_intents db' = update_where (\<lambda>r. it_id r = i) (\<lambda>r. r\<lparr>it_state := ''prepared'', it_next_retry := 0\<rparr>) (bt_intents db)"
proof (cases "find_where (\<lambda>r. it_id r = i) (bt_intents db)")
  case None
  then show ?thesis using assms by (simp add: resume_intent_def)
next
  case (Some row)
  then show ?thesis
    using assms find_where_SomeD [OF Some]
    by (auto simp: resume_intent_def Let_def result_simps split: if_splits)
qed

lemma retire_intents:
  "bt_intents (retire_app app now db) =
     update_where (\<lambda>r. it_app_id r = Some app \<and> it_kind r \<noteq> ''app_delete'' \<and> it_state r \<in> {''prepared'', ''unknown'', ''blocked''})
       (\<lambda>r. r\<lparr>it_state := ''failed'', it_safe_error := Some ''This application was deleted by an administrator.'',
               it_updated := now, it_lease := 0\<rparr>) (bt_intents db)"
  by (simp add: retire_app_def with_apps_def)

lemma claim_Some:
  assumes "claim_intent timeout now i secret db = (Some row, db')"
  shows "find_where (\<lambda>r. it_id r = i) (bt_intents db) = Some row" "claimable now secret row"
    "needs_authority row \<Longrightarrow> authorised row db"
    "bt_intents db' = update_where (\<lambda>r. it_id r = i)
       (\<lambda>r. r\<lparr>it_lease := now + timeout + 5, it_attempts := it_attempts r + 1\<rparr>) (bt_intents db)"
    "bt_users db' = bt_users db"
  using assms by (auto simp: claim_intent_def split: option.splits if_splits)

lemma claim_None:
  assumes "claim_intent timeout now i secret db = (None, db')"
  shows "bt_intents db' = bt_intents db \<or>
    bt_intents db' = update_where (\<lambda>r. it_id r = i)
      (\<lambda>r. r\<lparr>it_state := ''blocked'', it_safe_error := Some ''Admin review required.''\<rparr>) (bt_intents db) \<and>
    (\<exists>row. find_where (\<lambda>r. it_id r = i) (bt_intents db) = Some row \<and> claimable now secret row)"
  using assms by (auto simp: claim_intent_def split: option.splits if_splits)

lemma settle_intents:
  assumes "settle i body out now db = Inr db'"
  defines "written \<equiv> with_intents (update_where (\<lambda>r. it_id r = it_id i) (settled_row i out now)) db"
  shows "bt_intents db' = bt_intents (settle_retired i out now written)"
proof -
  have a: "settled_audit i st body now x = Inr y \<Longrightarrow> bt_intents y = bt_intents x" for st x y
    by (auto simp: settled_audit_def Let_def split: if_splits option.splits)
  have l: "bt_intents (settle_lifecycle i out x) = bt_intents x" for x
    by (simp add: settle_lifecycle_def Let_def)
  have t: "bt_intents (settle_retired i out now (touch_observations app x)) = bt_intents (settle_retired i out now x)" for app x
    by (simp add: settle_retired_def retire_intents split: option.split)
  show ?thesis
    using assms(1) unfolding settle_def Let_def written_def
    by (auto simp: l t dest!: a split: if_splits)
qed

lemma kept_updates:
  "intent_kept r (settled_row i out now r)"
  "intent_kept r (r\<lparr>it_state := st, it_next_retry := t\<rparr>)"
  "intent_kept r (r\<lparr>it_lease := t, it_attempts := n\<rparr>)"
  "intent_kept r (r\<lparr>it_state := st, it_safe_error := e\<rparr>)"
  "intent_kept r (r\<lparr>it_state := st, it_safe_error := e, it_updated := t, it_lease := t'\<rparr>)"
  "intent_kept r (r\<lparr>it_state := st\<rparr>)"
  by (simp_all add: intent_kept_def settled_row_def)

lemma retire_intents_step:
  assumes "intents_step rows (bt_intents db)"
  shows "intents_step rows (bt_intents (retire_app app now db))"
  unfolding retire_intents by (rule intents_step_then [OF assms kept_updates(5)])

lemma settle_intents_step:
  assumes "settle i body out now db = Inr db'"
  shows "intents_step (bt_intents db) (bt_intents db')"
proof -
  have w: "intents_step (bt_intents db) (bt_intents (with_intents (update_where (\<lambda>r. it_id r = it_id i) (settled_row i out now)) db))"
    unfolding bt_intents_simps by (rule intents_step_update [OF kept_updates(1)])
  show ?thesis
    unfolding settle_intents [OF assms] settle_retired_def
    using w by (auto split: option.splits intro: retire_intents_step)
qed

lemma broker_step_intents:
  assumes "broker_step timeout s l s'"
  shows "intents_step (bt_intents (br_db s)) (bt_intents (br_db s'))"
  using assms
proof (cases rule: broker_step.cases)
  case (recorded adm i usr app kind key fp m p body ck now db)
  then obtain row where r: "bt_intents db = bt_intents (br_db s) @ [row]" "fresh_for (bt_intents (br_db s)) [row]"
    using record_intents by blast
  have "intents_step (bt_intents (br_db s)) (bt_intents (br_db s) @ [row])"
    unfolding intents_step_def by (rule exI [of _ "\<lambda>r. r"], rule exI [of _ "[row]"]) (simp add: itk.K_refl r(2))
  then show ?thesis using recorded r(1) by simp
next
  case (recorded_local adm i usr app kind key fp m p body ck now db)
  then obtain row where r: "bt_intents db = bt_intents (br_db s) @ [row]" "fresh_for (bt_intents (br_db s)) [row]"
    using record_intents by blast
  have "intents_step (bt_intents (br_db s)) (bt_intents (br_db s) @ [row])"
    unfolding intents_step_def by (rule exI [of _ "\<lambda>r. r"], rule exI [of _ "[row]"]) (simp add: itk.K_refl r(2))
  then show ?thesis using recorded_local r(1) by (simp add: intents_step_then kept_updates(6))
next
  case (resume actor privileged now i db)
  show ?thesis
    using resume_intents [OF resume(3)] resume(2) by (auto simp: intents_step_refl intents_step_update kept_updates(2))
next
  case (claim now i secret row db)
  then show ?thesis using claim_Some(4) [OF claim(3)] by (simp add: intents_step_update kept_updates(3))
next
  case (pass now i secret db)
  then show ?thesis using claim_None [OF pass(3)] by (auto simp: intents_step_refl intents_step_update kept_updates(4))
next
  case (settle row secret q answer out body now db)
  then show ?thesis using settle_intents_step [OF settle(7)] by simp
next
  case (retire app owner now)
  then show ?thesis
    by (auto simp: retire_missing_def intents_step_refl intro: retire_intents_step)
qed (simp_all add: intents_step_refl)

section \<open>One request per intent\<close>

text \<open>What is fixed of the request an intent is admitted with.\<close>

definition sends :: "intent \<Rightarrow> controller_request \<Rightarrow> bool" where
  "sends r q \<longleftrightarrow> cr_key q = None \<or>
     cr_key q = Some (it_controller_key r) \<and> cr_method q = it_method r \<and> cr_path q = it_path r \<and>
     (it_kind r \<in> set env_kinds \<or> (\<exists>body. controller_body r = Inr body \<and> cr_body q = Some (JObj body)))"

definition journal_inv :: "broker \<Rightarrow> bool" where
  "journal_inv s \<longleftrightarrow>
     distinct (map it_id (bt_intents (br_db s))) \<and> distinct (map it_controller_key (bt_intents (br_db s))) \<and>
     (\<forall>(row, secret) \<in> set (br_flight s). \<exists>r \<in> set (bt_intents (br_db s)). intent_kept row r) \<and>
     (\<forall>(i, q) \<in> set (br_sent s). \<exists>r \<in> set (bt_intents (br_db s)). it_id r = i \<and> sends r q)"

lemma kept_sends: "intent_kept r r' \<Longrightarrow> sends r' q = sends r q"
  by (simp add: intent_kept_def sends_def controller_body_def)

lemma request_sends: "request_of timeout row secret = Inr q \<Longrightarrow> sends row q"
  by (auto simp: request_of_def project_request_def sends_def admission_request_def result_simps
      split: option.splits if_splits)

lemma intents_step_distinct:
  assumes "intents_step rows rows'" "distinct (map it_id rows)" "distinct (map it_controller_key rows)"
  shows "distinct (map it_id rows')" "distinct (map it_controller_key rows')"
proof -
  obtain f new where f: "rows' = map f rows @ new" "\<And>r. intent_kept r (f r)" "fresh_for rows new"
    using assms(1) by (auto simp: intents_step_def)
  have k: "it_id \<circ> f = it_id" "it_controller_key \<circ> f = it_controller_key"
    using f(2) by (auto simp: intent_kept_def)
  have n: "length new \<le> 1" "\<forall>n \<in> set new. \<forall>r \<in> set rows. it_id r \<noteq> it_id n \<and> it_controller_key r \<noteq> it_controller_key n"
    using f(3) unfolding fresh_for_def by blast+
  from n(1) have "new = [] \<or> (\<exists>x. new = [x])" by (cases new) auto
  then show "distinct (map it_id rows')" "distinct (map it_controller_key rows')"
    using n(2) assms(2,3) unfolding f(1) map_append map_map k by auto
qed

lemma intents_step_succ:
  assumes "intents_step rows rows'" "r \<in> set rows"
  obtains r' where "r' \<in> set rows'" "intent_kept r r'"
proof -
  obtain f new where "rows' = map f rows @ new" "\<And>r. intent_kept r (f r)" using assms(1) by (auto simp: intents_step_def)
  then show thesis using that [of "f r"] assms(2) by simp
qed

lemma journal_inv_step:
  assumes "broker_step timeout s l s'" "journal_inv s"
  shows "journal_inv s'"
proof -
  let ?rows = "bt_intents (br_db s)" and ?rows' = "bt_intents (br_db s')"
  note st = broker_step_intents [OF assms(1)]
  have d: "distinct (map it_id ?rows')" "distinct (map it_controller_key ?rows')"
    using intents_step_distinct [OF st] assms(2) by (auto simp: journal_inv_def)
  have old: "\<exists>r' \<in> set ?rows'. intent_kept row r'" if "\<exists>r \<in> set ?rows. intent_kept row r" for row
  proof -
    obtain r where r: "r \<in> set ?rows" "intent_kept row r" using \<open>\<exists>r \<in> set ?rows. intent_kept row r\<close> by blast
    show ?thesis by (rule intents_step_succ [OF st r(1)]) (use itk.K_trans [OF r(2)] in blast)
  qed
  have sent: "\<exists>r' \<in> set ?rows'. it_id r' = i \<and> sends r' q" if "\<exists>r \<in> set ?rows. it_id r = i \<and> sends r q" for i q
  proof -
    obtain r where r: "r \<in> set ?rows" "it_id r = i" "sends r q" using \<open>\<exists>r \<in> set ?rows. it_id r = i \<and> sends r q\<close> by blast
    obtain r' where r': "r' \<in> set ?rows'" "intent_kept r r'" using intents_step_succ [OF st r(1)] by blast
    then have "it_id r' = i" "sends r' q" using r kept_sends [of r r' q] by (auto simp: intent_kept_def)
    then show ?thesis using r'(1) by blast
  qed
  have fl: "(row, secret) \<in> set (br_flight s) \<or> (\<exists>r \<in> set ?rows. intent_kept row r)"
    if "(row, secret) \<in> set (br_flight s')" for row secret
    using assms(1) that
  proof (cases rule: broker_step.cases)
    case (claim now i secret' row' db)
    then show ?thesis
      using that find_where_SomeD [OF claim_Some(1) [OF claim(3)]] itk.K_refl by auto
  qed (use notin_set_remove1 in fastforce)+
  have se: "(i, q) \<in> set (br_sent s) \<or> (\<exists>r \<in> set ?rows. it_id r = i \<and> sends r q)"
    if "(i, q) \<in> set (br_sent s')" for i q
    using assms(1) that
  proof (cases rule: broker_step.cases)
    case (claim now i' secret' row' db)
    then show ?thesis
      using that find_where_SomeD [OF claim_Some(1) [OF claim(3)]] request_sends [of timeout row' secret' q]
      by (auto split: sum.splits)
  qed simp_all
  have inv: "\<And>row secret. (row, secret) \<in> set (br_flight s) \<Longrightarrow> \<exists>r \<in> set ?rows. intent_kept row r"
      "\<And>i q. (i, q) \<in> set (br_sent s) \<Longrightarrow> \<exists>r \<in> set ?rows. it_id r = i \<and> sends r q"
    using assms(2) unfolding journal_inv_def by fast+
  have "\<exists>r \<in> set ?rows'. intent_kept row r" if "(row, secret) \<in> set (br_flight s')" for row secret
    by (rule old) (use fl [OF that] inv(1) in blast)
  moreover have "\<exists>r \<in> set ?rows'. it_id r = i \<and> sends r q" if "(i, q) \<in> set (br_sent s')" for i q
    by (rule sent) (use se [OF that] inv(2) in blast)
  ultimately show ?thesis using d unfolding journal_inv_def by fast
qed

lemma journal_inv_run:
  assumes "broker_run timeout (new_broker db) ls s"
  shows "journal_inv s"
proof -
  have "broker_run timeout s0 ls s \<Longrightarrow> journal_inv s0 \<Longrightarrow> journal_inv s" for s0
    by (induction rule: broker_run.induct) (auto intro: journal_inv_step)
  then show ?thesis using assms by (simp add: journal_inv_def new_broker_def)
qed

lemma same_intent:
  assumes "journal_inv s" "r \<in> set (bt_intents (br_db s))" "r' \<in> set (bt_intents (br_db s))"
    "it_id r = it_id r' \<or> it_controller_key r = it_controller_key r'"
  shows "r = r'"
  using assms unfolding journal_inv_def by (auto simp: distinct_map inj_on_def)

lemma sent_row:
  assumes "journal_inv s" "(i, q) \<in> set (br_sent s)"
  obtains r where "r \<in> set (bt_intents (br_db s))" "it_id r = i" "sends r q"
  using assms unfolding journal_inv_def by fast


section \<open>The lease\<close>

abbreviation row_of :: "string \<Rightarrow> broker_db \<Rightarrow> intent option" where
  "row_of i db \<equiv> find_where (\<lambda>r. it_id r = i) (bt_intents db)"

text \<open>The intent was claimed at \<open>t\<close> and cannot be claimed before the lease ends.\<close>

definition leased :: "rat \<Rightarrow> rat \<Rightarrow> intent \<Rightarrow> bool" where
  "leased timeout t r \<longleftrightarrow> t + timeout + 5 \<le> it_lease r \<or> it_state r \<in> {''failed'', ''succeeded''}"

definition lease_held :: "rat \<Rightarrow> string \<Rightarrow> rat \<Rightarrow> broker_db \<Rightarrow> bool" where
  "lease_held timeout i t db \<longleftrightarrow> (\<exists>r. row_of i db = Some r \<and> leased timeout t r)"

lemma row_of_id: "row_of i db = Some r \<Longrightarrow> it_id r = i"
  using find_where_SomeD by fastforce

lemma find_update_id:
  assumes "\<And>r. intent_kept r (f r)"
  shows "find_where (\<lambda>r. it_id r = i) (update_where P f rows) =
    map_option (\<lambda>r. if P r then f r else r) (find_where (\<lambda>r. it_id r = i) rows)"
  by (rule find_update_where) (use assms in \<open>simp add: intent_kept_def\<close>)

lemma lease_held_update:
  assumes "lease_held timeout i t db" "bt_intents db' = update_where P f (bt_intents db)"
    and "\<And>r. intent_kept r (f r)"
    and "\<And>r. row_of i db = Some r \<Longrightarrow> it_id r = i \<Longrightarrow> P r \<Longrightarrow> leased timeout t r \<Longrightarrow> leased timeout t (f r)"
  shows "lease_held timeout i t db'"
proof -
  obtain r where r: "row_of i db = Some r" "leased timeout t r" using assms(1) by (auto simp: lease_held_def)
  have "row_of i db' = Some (if P r then f r else r)"
    unfolding assms(2) find_update_id [OF assms(3)] r(1) by simp
  moreover have "leased timeout t (if P r then f r else r)" using r assms(4) row_of_id [OF r(1)] by simp
  ultimately show ?thesis unfolding lease_held_def by blast
qed

lemma leased_not_claimable: "leased timeout t r \<Longrightarrow> claimable now secret r \<Longrightarrow> t + timeout + 5 \<le> now"
  by (auto simp: leased_def claimable_def)

lemma lease_held_same: "lease_held timeout i t db \<Longrightarrow> bt_intents db' = bt_intents db \<Longrightarrow> lease_held timeout i t db'"
  by (simp add: lease_held_def)

lemma record_lease:
  assumes "record_intent adm j usr app kind key fp m p body ck now db = Inr db'" "lease_held timeout i t db"
  shows "lease_held timeout i t db'"
proof -
  obtain row where "bt_intents db' = bt_intents db @ [row]" using record_intents [OF assms(1)] by blast
  then show ?thesis using assms(2) by (auto simp: lease_held_def find_where_append)
qed

lemma resume_lease:
  assumes "resume_intent actor privileged now j db = Inr db'" "lease_held timeout i t db"
  shows "lease_held timeout i t db'"
proof (cases "bt_intents db' = bt_intents db")
  case True
  then show ?thesis by (rule lease_held_same [OF assms(2)])
next
  case False
  then obtain row where row: "row_of j db = Some row" "it_state row \<in> {''blocked'', ''unknown''}"
      and u: "bt_intents db' = update_where (\<lambda>r. it_id r = j) (\<lambda>r. r\<lparr>it_state := ''prepared'', it_next_retry := 0\<rparr>) (bt_intents db)"
    using resume_intents [OF assms(1)] by blast
  show ?thesis
    by (rule lease_held_update [OF assms(2) u kept_updates(2)]) (use row in \<open>auto simp: leased_def\<close>)
qed

lemma claim_lease:
  assumes "claim_intent timeout now j secret db = (Some row, db')" "lease_held timeout i t db" "0 < timeout"
  shows "lease_held timeout i t db'"
proof (rule lease_held_update [OF assms(2) claim_Some(4) [OF assms(1)] kept_updates(3)])
  fix x
  assume x: "row_of i db = Some x" "it_id x = i" "it_id x = j" "leased timeout t x"
  then have "row = x" using claim_Some(1) [OF assms(1)] by simp
  then have "t + timeout + 5 \<le> now" using leased_not_claimable [OF x(4)] claim_Some(2) [OF assms(1)] by simp
  then show "leased timeout t (x\<lparr>it_lease := now + timeout + 5, it_attempts := it_attempts x + 1\<rparr>)"
    using assms(3) by (simp add: leased_def)
qed

lemma pass_lease:
  assumes "claim_intent timeout now j secret db = (None, db')" "lease_held timeout i t db"
  shows "lease_held timeout i t db'"
proof (cases "bt_intents db' = bt_intents db")
  case True
  then show ?thesis by (rule lease_held_same [OF assms(2)])
next
  case False
  then obtain row where row: "row_of j db = Some row" "claimable now secret row"
      and u: "bt_intents db' = update_where (\<lambda>r. it_id r = j)
        (\<lambda>r. r\<lparr>it_state := ''blocked'', it_safe_error := Some ''Admin review required.''\<rparr>) (bt_intents db)"
    using claim_None [OF assms(1)] by blast
  show ?thesis
    by (rule lease_held_update [OF assms(2) u kept_updates(4)]) (use row in \<open>auto simp: leased_def claimable_def\<close>)
qed

lemma retire_lease: "lease_held timeout i t db \<Longrightarrow> lease_held timeout i t (retire_app app now db)"
  by (erule lease_held_update [OF _ retire_intents kept_updates(5)]) (simp add: leased_def)

lemma settle_lease:
  assumes "settle row body out now db = Inr db'" "lease_held timeout i t db" "it_id row \<noteq> i"
  shows "lease_held timeout i t db'"
proof -
  let ?w = "with_intents (update_where (\<lambda>r. it_id r = it_id row) (settled_row row out now)) db"
  have w: "lease_held timeout i t ?w"
    by (rule lease_held_update [OF assms(2), where P = "\<lambda>r. it_id r = it_id row" and f = "settled_row row out now"])
      (use assms(3) in \<open>auto simp: kept_updates(1)\<close>)
  have "lease_held timeout i t (settle_retired row out now ?w)"
    using w retire_lease [OF w] by (auto simp: settle_retired_def split: option.split)
  then show ?thesis by (rule lease_held_same) (rule settle_intents [OF assms(1)])
qed

lemma lease_held_step:
  assumes "broker_step timeout s l s'" "lease_held timeout i t (br_db s)" "l \<noteq> Settled i" "0 < timeout"
  shows "lease_held timeout i t (br_db s')"
  using assms(1)
proof (cases rule: broker_step.cases)
  case (recorded adm j usr app kind key fp m p body ck now db)
  then show ?thesis using record_lease [OF _ assms(2)] by simp
next
  case (recorded_local adm j usr app kind key fp m p body ck now db)
  have "lease_held timeout i t db" by (rule record_lease [OF recorded_local(3) assms(2)])
  then have "lease_held timeout i t (with_intents (update_where (\<lambda>r. it_id r = j) (\<lambda>r. r\<lparr>it_state := ''succeeded''\<rparr>)) db)"
    by (rule lease_held_update [where P = "\<lambda>r. it_id r = j" and f = "\<lambda>r. r\<lparr>it_state := ''succeeded''\<rparr>"])
      (simp_all add: kept_updates(6) leased_def)
  then show ?thesis using recorded_local by simp
next
  case (retire app owner now)
  then show ?thesis
    using retire_lease [OF assms(2), of app now] assms(2) by (auto simp: retire_missing_def elim: lease_held_same)
next
  case (other db)
  then show ?thesis using lease_held_same [OF assms(2)] by simp
qed (use assms(2-4) resume_lease claim_lease pass_lease settle_lease in \<open>auto\<close>)

lemma lease_held_run:
  assumes "broker_run timeout s ls s'" "lease_held timeout i t (br_db s)" "Settled i \<notin> set ls" "0 < timeout"
  shows "lease_held timeout i t (br_db s')"
  using assms by (induction rule: broker_run.induct) (auto intro: lease_held_step)

text \<open>
  C7: a lease excludes a second dispatch. After an intent was claimed, whatever the other threads do, it is
  claimed again no earlier than five seconds past the timeout of the client, unless the outcome of a
  dispatch of this intent was stored in between.
\<close>

theorem lease_excludes_second_dispatch:
  assumes "broker_step timeout s (Claimed i t) s1" "broker_run timeout s1 ls s2" "Settled i \<notin> set ls"
    and "broker_step timeout s2 (Claimed i t') s3" "0 < timeout"
  shows "t + timeout + 5 \<le> t'"
proof -
  obtain secret row db where c: "claim_intent timeout t i secret (br_db s) = (Some row, db)" "br_db s1 = db"
    using assms(1) by (auto elim!: claim_stepE)
  have "row_of i db = Some (row\<lparr>it_lease := t + timeout + 5, it_attempts := it_attempts row + 1\<rparr>)"
    unfolding claim_Some(4) [OF c(1)] find_update_id [OF kept_updates(3)]
    unfolding claim_Some(1) [OF c(1)] using row_of_id [OF claim_Some(1) [OF c(1)]] by simp
  then have "lease_held timeout i t (br_db s1)" using c(2) by (auto simp: lease_held_def leased_def)
  then have h: "lease_held timeout i t (br_db s2)" using lease_held_run [OF assms(2)] assms(3,5) by blast
  obtain secret' row' db' where c': "claim_intent timeout t' i secret' (br_db s2) = (Some row', db')"
    using assms(4) by (auto elim!: claim_stepE)
  show ?thesis
    using h claim_Some(1,2) [OF c'] leased_not_claimable by (auto simp: lease_held_def)
qed

section \<open>Evidence\<close>

text \<open>The reply is the evidence of the polled operation with the given status, with its cleanup certain.\<close>

definition operation_settled :: "intent \<Rightarrow> string \<Rightarrow> int \<Rightarrow> jdict \<Rightarrow> bool" where
  "operation_settled i status code result \<longleftrightarrow>
     code = 200 \<and> polled i \<noteq> None \<and> jget result ''operationId'' = JStr (the (polled i)) \<and>
     jget result ''scope'' = JStr (expected_scope i) \<and> jget result ''status'' = JStr status \<and>
     jget result ''cleanupState'' \<in> {JStr ''confirmed'', JStr ''not_required''}"

lemma undecided_state: "oc_state (undecided i) \<in> {''accepted'', ''unknown''}"
  by (simp add: undecided_def)

lemma operation_outcome_settled:
  assumes "operation_outcome i finishing result = Inr out" "oc_state out \<in> {''succeeded'', ''failed''}"
  shows "operation_state (jget result ''status'') = oc_state out \<and>
    jget result ''cleanupState'' \<in> {JStr ''confirmed'', JStr ''not_required''}"
proof (cases "operation_state (jget result ''status'') \<in> {''succeeded'', ''failed''}")
  case True
  then show ?thesis
    using assms unfolding operation_outcome_def Let_def if_P [OF True] in_texts_def
    by (cases "hashable (jget result ''cleanupState'')") (auto split: if_splits)
next
  case False
  then show ?thesis
    using assms unfolding operation_outcome_def Let_def if_not_P [OF False] by auto
qed

lemma poll_settled:
  assumes "poll_outcome i op_id code result = Inr out" "polled i = Some op_id" "oc_state out \<in> {''succeeded'', ''failed''}"
  shows "operation_settled i (oc_state out) code result"
proof -
  let ?status = "jget result ''status''"
  have u: "out \<noteq> undecided i" using assms(3) undecided_state [of i] by auto
  then have c: "code = 200" "jget result ''operationId'' = JStr op_id"
    using assms(1) by (auto simp: poll_outcome_def split: if_splits)
  have b: "rbind (in_texts ?status [''running'', ''succeeded'', ''failed'', ''recovery_required'']) (\<lambda>known.
      if \<not> known \<or> jget result ''scope'' \<noteq> JStr (expected_scope i) then Inr (undecided i)
      else rbind (finishing_evidence i result) (\<lambda>finishing. operation_outcome i finishing result)) = Inr out"
    using assms(1) c by (simp add: poll_outcome_def)
  then obtain known finishing where k: "in_texts ?status [''running'', ''succeeded'', ''failed'', ''recovery_required''] = Inr known"
      "known" "jget result ''scope'' = JStr (expected_scope i)" "operation_outcome i finishing result = Inr out"
    using u by (auto simp: rbind_eq_Inr split: if_splits)
  note s = operation_outcome_settled [OF k(4) assms(3)]
  have "?status = JStr (oc_state out)"
    using k(1,2) s assms(3) by (auto simp: in_texts_def operation_state_def split: if_splits)
  then show ?thesis using c k(3) s assms(2) by (simp add: operation_settled_def)
qed

lemma admission_settled:
  "oc_state (admission_outcome i code result) = ''succeeded'' \<Longrightarrow>
     code = 201 \<and> it_kind i = ''create_app'' \<and> jget result ''applicationId'' = null_or (it_app_id i)"
  "oc_state (admission_outcome i code result) = ''failed'' \<Longrightarrow>
     code \<in> {400, 404, 409, 413, 415, 422} \<and>
     controller_error_code (error_detail result) \<notin> Some ` {''RECOVERY_REQUIRED'', ''UNFINISHED_OPERATION'', ''OPERATION_CONFLICT''}"
  using undecided_state [of i] by (auto simp: admission_outcome_def Let_def split: if_splits)


section \<open>Reconciliation\<close>

definition due_row :: "rat \<Rightarrow> broker_db \<Rightarrow> string \<Rightarrow> bool" where
  "due_row now db i \<longleftrightarrow> (\<exists>r. row_of i db = Some r \<and> intent_due now db r)"

text \<open>A change after which no intent is due that was not due before.\<close>

definition calms :: "rat \<Rightarrow> broker_db \<Rightarrow> broker_db \<Rightarrow> bool" where
  "calms now db db' \<longleftrightarrow> bt_users db' = bt_users db \<and> map it_id (bt_intents db') = map it_id (bt_intents db) \<and>
     (\<forall>i. due_row now db' i \<longrightarrow> due_row now db i)"

lemma calms_refl: "calms now db db"
  by (simp add: calms_def)

lemma calms_trans: "calms now a b \<Longrightarrow> calms now b c \<Longrightarrow> calms now a c"
  by (simp add: calms_def)

lemma due_same: "bt_users db' = bt_users db \<Longrightarrow> intent_due now db' r = intent_due now db r"
  by (simp add: intent_due_def)

lemma calms_same:
  assumes "bt_users db' = bt_users db" "bt_intents db' = bt_intents db"
  shows "calms now db db'"
  unfolding calms_def due_row_def due_same [OF assms(1)] assms by simp

lemma calms_update:
  assumes "bt_users db' = bt_users db" "bt_intents db' = update_where P f (bt_intents db)"
    and "\<And>r. intent_kept r (f r)" and "\<And>r. \<not> intent_due now db (f r)"
  shows "calms now db db'"
proof -
  have row: "row_of i db' = map_option (\<lambda>r. if P r then f r else r) (row_of i db)" for i
    unfolding assms(2) by (rule find_update_id [OF assms(3)])
  have "due_row now db i" if d: "due_row now db' i" for i
  proof -
    obtain r where r: "row_of i db = Some r" "intent_due now db (if P r then f r else r)"
      using d unfolding due_row_def row due_same [OF assms(1)] by auto
    then have "intent_due now db r" using assms(4) [of r] by (simp split: if_splits)
    then show ?thesis using r(1) unfolding due_row_def by blast
  qed
  moreover have "map it_id (bt_intents db') = map it_id (bt_intents db)"
    unfolding assms(2) by (rule map_update_where) (use assms(3) in \<open>simp add: intent_kept_def\<close>)
  ultimately show ?thesis using assms(1) by (simp add: calms_def)
qed

lemma bt_users_simps [simp]:
  "bt_users (with_apps g db) = bt_users db" "bt_users (insert_audit a db) = bt_users db"
  "bt_users (admin_audit x y z d now db) = bt_users db" "bt_users (touch_observations app db) = bt_users db"
  "bt_users (retire_app a0 now db) = bt_users db"
  by (simp_all add: with_apps_def insert_audit_def admin_audit_def touch_observations_def retire_app_def)

lemma settle_users: "settle i body out now db = Inr db' \<Longrightarrow> bt_users db' = bt_users db"
  by (auto simp: settle_def Let_def settled_audit_def settle_lifecycle_def settle_retired_def
      split: if_splits option.splits)

lemma retry_delay_pos: "0 < retry_delay n"
  by (simp add: retry_delay_def)

lemma settle_calms:
  assumes "settle i body out later db = Inr db'" "now \<le> later"
  shows "calms now db db'"
proof -
  let ?w = "with_intents (update_where (\<lambda>r. it_id r = it_id i) (settled_row i out later)) db"
  have w: "calms now db ?w"
    by (rule calms_update [where P = "\<lambda>r. it_id r = it_id i" and f = "settled_row i out later"])
      (use retry_delay_pos [of "it_attempts i"] assms(2) in \<open>simp_all add: intent_kept_def intent_due_def settled_row_def\<close>)
  have r: "calms now ?w (retire_app app later ?w)" for app
    by (rule calms_update [OF _ retire_intents kept_updates(5)]) (simp_all add: intent_due_def)
  have "calms now ?w (settle_retired i out later ?w)"
    using r calms_refl by (auto simp: settle_retired_def split: option.split)
  moreover have "calms now (settle_retired i out later ?w) db'"
    by (rule calms_same)
      (use settle_users [OF assms(1)] settle_intents [OF assms(1)] in \<open>auto simp: settle_retired_def split: option.split\<close>)
  ultimately show ?thesis using w calms_trans by blast
qed

lemma claim_calms:
  assumes "claim_intent timeout later i None db = (found, db')" "now \<le> later" "0 < timeout"
  shows "calms now db db' \<and> \<not> due_row now db' i"
proof (cases "row_of i db")
  case None
  then show ?thesis using assms(1) by (simp add: claim_intent_def calms_refl due_row_def)
next
  case (Some row)
  let ?blocked = "\<lambda>r. r\<lparr>it_state := ''blocked'', it_safe_error := Some ''Admin review required.''\<rparr>"
  let ?claimed = "\<lambda>r. r\<lparr>it_lease := later + timeout + 5, it_attempts := it_attempts r + 1\<rparr>"
  have nd: "\<not> intent_due now db (?blocked r)" "\<not> intent_due now db (?claimed r)" for r
    using assms(2,3) by (simp_all add: intent_due_def)
  have upd: "calms now db d \<and> \<not> due_row now d i"
    if "bt_users d = bt_users db" "bt_intents d = update_where (\<lambda>r. it_id r = i) f (bt_intents db)"
      "\<And>r. intent_kept r (f r)" "\<And>r. \<not> intent_due now db (f r)" for d f
  proof -
    have "row_of i d = Some (f row)"
      unfolding that(2) find_update_id [OF that(3)] Some using row_of_id [OF Some] by simp
    then show ?thesis
      using calms_update [OF that(1-3), of now] that(4) by (simp add: due_row_def due_same [OF that(1)])
  qed
  consider "db' = db" "\<not> claimable later None row" | "db' = with_intents (update_where (\<lambda>r. it_id r = i) ?blocked) db"
      | "db' = with_intents (update_where (\<lambda>r. it_id r = i) ?claimed) db"
    using assms(1) Some by (auto simp: claim_intent_def split: if_splits)
  then show ?thesis
  proof cases
    case 1
    then have "\<not> intent_due now db row" using assms(2) by (auto simp: intent_due_def claimable_def)
    then show ?thesis using 1 Some by (simp add: calms_refl due_row_def)
  next
    case 2
    show ?thesis by (rule upd [of _ ?blocked]) (use nd(1) in \<open>simp_all add: 2 kept_updates\<close>)
  next
    case 3
    show ?thesis by (rule upd [of _ ?claimed]) (use nd(2) in \<open>simp_all add: 3 kept_updates\<close>)
  qed
qed

lemma dispatch_calms:
  fixes peer i db
  assumes "now \<le> claimed" "now \<le> settled" "0 < timeout"
  defines "db' \<equiv> fst (dispatch peer timeout claimed settled i None db)"
  shows "calms now db db' \<and> \<not> due_row now db' i"
proof -
  obtain found db1 where c: "claim_intent timeout claimed i None db = (found, db1)" by (cases "claim_intent timeout claimed i None db")
  note cc = claim_calms [OF c assms(1,3)]
  have "db' = db1 \<or> (\<exists>row body out. settle row body out settled db1 = Inr db')"
    unfolding db'_def dispatch_def c
    by (auto simp: result_simps split: option.split sum.split)
  then show ?thesis
  proof
    assume "\<exists>row body out. settle row body out settled db1 = Inr db'"
    then have "calms now db1 db'" using settle_calms assms(2) by blast
    then show ?thesis using cc calms_trans by (auto simp: calms_def)
  qed (use cc in simp)
qed

lemma dispatch_all_calms:
  assumes "\<And>i. now \<le> fst (clock i)" "\<And>i. now \<le> snd (clock i)" "0 < timeout"
  shows "calms now db (dispatch_all peer timeout clock is db) \<and>
    (\<forall>i \<in> set is. \<not> due_row now (dispatch_all peer timeout clock is db) i)"
proof (induction "is" arbitrary: db)
  case (Cons i rest)
  let ?d = "fst (dispatch peer timeout (fst (clock i)) (snd (clock i)) i None db)"
  have d: "calms now db ?d" "\<not> due_row now ?d i" using dispatch_calms [OF assms(1) assms(2) assms(3)] by blast+
  show ?case using Cons.IH [of ?d] d calms_trans [OF d(1)] by (auto simp: calms_def)
qed (simp add: calms_refl)

lemma find_distinct: "distinct (map key rows) \<Longrightarrow> r \<in> set rows \<Longrightarrow> find_where (\<lambda>x. key x = key r) rows = Some r"
  by (induction rows) (auto simp: image_iff)

lemma due_intents_rows:
  assumes "distinct (map it_id (bt_intents db))"
  shows "{i. due_row now db i} = it_id ` set (filter (intent_due now db) (bt_intents db))"
proof -
  have "row_of (it_id r) db = Some r" if "r \<in> set (bt_intents db)" for r
    using find_distinct [OF assms that] .
  then show ?thesis
    by (auto simp: due_row_def image_iff dest: find_where_SomeD)
qed

text \<open>
  C8: reconciliation gets through the intents that are due. A pass at some time, whatever the controller
  answers and whatever exceptions are raised, makes none of the due intents it picked due at that time again
  and no other one due, and it picks four of them or all if there are fewer: no intent is starved by others.
\<close>

theorem reconcile_progress:
  assumes "distinct (map it_id (bt_intents db))" "\<And>i. now \<le> fst (clock i)" "\<And>i. now \<le> snd (clock i)" "0 < timeout"
  shows "{i. due_row now (reconcile_intents peer timeout now clock db) i} \<subseteq>
      {i. due_row now db i} - set (due_intents now db) \<and>
    set (due_intents now db) \<subseteq> {i. due_row now db i} \<and>
    card (set (due_intents now db)) = min 4 (card {i. due_row now db i})"
proof -
  let ?d = "filter (intent_due now db) (bt_intents db)"
  note rows = due_intents_rows [OF assms(1), of now]
  have d: "distinct (map it_id ?d)" using assms(1) by (rule distinct_map_filter)
  have "distinct (map it_id (sort_key it_created ?d))"
    using d by (simp add: distinct_map)
  then have "distinct (due_intents now db)" unfolding due_intents_def take_map [symmetric] by (rule distinct_take)
  then have "card (set (due_intents now db)) = length (due_intents now db)" by (rule distinct_card)
  also have "\<dots> = min 4 (length ?d)" by (simp add: due_intents_def)
  finally have "card (set (due_intents now db)) = min 4 (length ?d)" .
  moreover have "length ?d = card {i. due_row now db i}"
    using distinct_card [OF d] unfolding rows by simp
  moreover have "set (due_intents now db) \<subseteq> {i. due_row now db i}"
    unfolding rows due_intents_def using set_take_subset by fastforce
  ultimately show ?thesis
    using dispatch_all_calms [OF assms(2-4), where db = db and peer = peer and ?is = "due_intents now db"]
    by (auto simp: reconcile_intents_def calms_def)
qed

section \<open>A late reply\<close>

lemma conflict_outcome:
  assumes "polled r = None" "error_detail result = JStr ''OPERATION_CONFLICT''"
  shows "exchange r (Reply 409 result) = Inr (undecided r\<lparr>oc_operation := Some [(''controllerErrorCode'', JStr ''OPERATION_CONFLICT'')],
    oc_state := ''blocked'', oc_error := attention_guidance (it_kind r) ''blocked'' True\<rparr>)"
proof -
  have "controller_error_code (JStr ''OPERATION_CONFLICT'') = Some ''OPERATION_CONFLICT''" by code_simp
  then show ?thesis
    using assms by (simp add: exchange_def admission_outcome_def Let_def)
qed

text \<open>A deployment that is blocked without an operation in its finishing phase holds its user's quota.\<close>

lemma blocked_holds_quota:
  assumes "r \<in> set (bt_intents db)" "it_kind r = ''deploy''" "it_state r = ''blocked''"
    and "it_operation r = Some [(''controllerErrorCode'', c)]"
    and "\<not> unlimited db (it_user_id r)" "\<not> list_ex (\<lambda>q. qt_user_id q = it_user_id r) (bt_quotas db)"
  shows "\<exists>e. operation_quota 1 (it_user_id r) app db = Inl e"
proof -
  have "holds_change r" using assms(2-4) by (simp add: holds_change_def quota_kinds_def finishing_only_def jget_def)
  then have "filter (\<lambda>x. it_user_id x = it_user_id r \<and> holds_change x) (bt_intents db) \<noteq> []"
    using assms(1) by (auto simp: filter_empty_conv)
  then have "1 \<le> length (filter (\<lambda>x. it_user_id x = it_user_id r \<and> holds_change x) (bt_intents db))"
    by (cases "filter (\<lambda>x. it_user_id x = it_user_id r \<and> holds_change x) (bt_intents db)") auto
  moreover have "find_where (\<lambda>q. qt_user_id q = it_user_id r) (bt_quotas db) = None" using assms(6) by (simp add: find_where_None)
  ultimately show ?thesis
    using assms(5) by (auto simp: operation_quota_def split: option.splits)
qed

lemma settle_deploy:
  assumes "it_kind r = ''deploy''"
  shows "\<exists>db'. settle r body out later db = Inr db' \<and> bt_apps db' = bt_apps db \<and> bt_users db' = bt_users db \<and>
    bt_quotas db' = bt_quotas db \<and> bt_intents db' = update_where (\<lambda>x. it_id x = it_id r) (settled_row r out later) (bt_intents db)"
  using assms
  by (simp add: settle_def Let_def settled_audit_def settle_lifecycle_def settle_retired_def
      insert_audit_def touch_observations_def with_intents_def)

lemma retired_row:
  assumes "row_of i db = Some r"
  obtains r' where "row_of i (retire_missing app owner now db) = Some r'" "intent_kept r r'"
proof (cases "bt_intents (retire_missing app owner now db) = bt_intents (retire_app app now db)")
  case True
  then show thesis
    using that assms kept_updates(5) itk.K_refl
    unfolding True retire_intents find_update_id [OF kept_updates(5)] assms by (auto split: if_splits)
next
  case False
  then have "bt_intents (retire_missing app owner now db) = bt_intents db" by (auto simp: retire_missing_def)
  then show thesis using that assms itk.K_refl by simp
qed

lemma deleted_apps:
  assumes "list_ex (\<lambda>a. ba_id a = app \<and> ba_lifecycle a = ''ready'') apps"
  shows "list_ex (\<lambda>a. ba_id a = app \<and> ba_lifecycle a = ''deleted'')
    (update_where (\<lambda>a. ba_id a = app) (\<lambda>a. a\<lparr>ba_lifecycle := ''deleted'', ba_revision := 0\<rparr>) apps)"
  using assms by (induction apps) (auto simp: update_where_def)

text \<open>
  C9: a reply that arrives after the application was found deleted revives its intent. A deployment is out
  when the application is retired, which fails its intent; the reply that another operation was running is
  then stored over it. The intent is blocked for good: resuming it is refused because the application is
  deleted, no dispatch takes it up, and it holds the quota of its user, who with the default limit of one
  change can start no further one on any application.
\<close>

theorem late_reply_revives_intent:
  assumes "claim_intent timeout t i None db0 = (Some r, db)" "it_kind r = ''deploy''" "it_state r \<in> {''prepared'', ''unknown''}"
    and "it_app_id r = Some app" "list_ex (\<lambda>a. ba_id a = app \<and> ba_lifecycle a = ''ready'') (bt_apps db)"
    and "error_detail result = JStr ''OPERATION_CONFLICT''"
    and "\<not> unlimited db (it_user_id r)" "\<not> list_ex (\<lambda>q. qt_user_id q = it_user_id r) (bt_quotas db)"
  shows "\<exists>out db'. exchange r (Reply 409 result) = Inr out \<and>
    settle r body out later (retire_missing app owner now db) = Inr db' \<and>
    map_option it_state (row_of i (retire_missing app owner now db)) = Some ''failed'' \<and>
    map_option it_state (row_of i db') = Some ''blocked'' \<and>
    (\<forall>actor privileged t'. resume_intent actor privileged t' i db' =
       Inl (HttpError 410 ''APPLICATION_DELETED'' ''This application was deleted by an administrator.'')) \<and>
    (\<forall>t' secret. claim_intent timeout t' i secret db' = (None, db')) \<and>
    (\<forall>other. \<exists>e. operation_quota 1 (it_user_id r) other db' = Inl e)"
proof -
  let ?gone = "retire_missing app owner now db"
  let ?out = "undecided r\<lparr>oc_operation := Some [(''controllerErrorCode'', JStr ''OPERATION_CONFLICT'')],
    oc_state := ''blocked'', oc_error := attention_guidance (it_kind r) ''blocked'' True\<rparr>"
  have i: "it_id r = i" using row_of_id [OF claim_Some(1) [OF assms(1)]] .
  have "polled r = None" using assms(3) by (auto simp: polled_def)
  note ex = conflict_outcome [OF this assms(6)]
  let ?r0 = "r\<lparr>it_lease := t + timeout + 5, it_attempts := it_attempts r + 1\<rparr>"
  have r0: "row_of i db = Some ?r0"
    unfolding claim_Some(4) [OF assms(1)] find_update_id [OF kept_updates(3)] claim_Some(1) [OF assms(1)] using i by simp
  have gone: "bt_intents ?gone = bt_intents (retire_app app now db)" "bt_users ?gone = bt_users db"
      "bt_quotas ?gone = bt_quotas db" "list_ex (\<lambda>a. ba_id a = app \<and> ba_lifecycle a = ''deleted'') (bt_apps ?gone)"
    using assms(5) deleted_apps [of app "bt_apps db"]
    by (simp_all add: retire_missing_def retire_app_def insert_audit_def with_intents_def with_apps_def)
  have failed: "map_option it_state (row_of i ?gone) = Some ''failed''"
    unfolding gone(1) retire_intents find_update_id [OF kept_updates(5)] r0 using assms(2-4) by auto
  obtain r1 where r1: "row_of i ?gone = Some r1" "intent_kept ?r0 r1" using retired_row [OF r0] by blast
  obtain db' where s: "settle r body ?out later ?gone = Inr db'" "bt_apps db' = bt_apps ?gone" "bt_users db' = bt_users ?gone"
      "bt_quotas db' = bt_quotas ?gone"
      "bt_intents db' = update_where (\<lambda>x. it_id x = it_id r) (settled_row r ?out later) (bt_intents ?gone)"
    using settle_deploy [OF assms(2)] by blast
  let ?r2 = "settled_row r ?out later r1"
  have r2: "row_of i db' = Some ?r2"
    unfolding s(5) find_update_id [OF kept_updates(1)] r1(1) using r1(2) i by (simp add: intent_kept_def)
  have f: "it_state ?r2 = ''blocked''" "it_operation ?r2 = Some [(''controllerErrorCode'', JStr ''OPERATION_CONFLICT'')]"
      "it_kind ?r2 = ''deploy''" "it_app_id ?r2 = Some app" "it_user_id ?r2 = it_user_id r"
    using r1(2) assms(2,4) by (simp_all add: settled_row_def intent_kept_def)
  have "resume_intent actor privileged t' i db' =
       Inl (HttpError 410 ''APPLICATION_DELETED'' ''This application was deleted by an administrator.'')" for actor privileged t'
    using gone(4) f(4) by (auto simp: resume_intent_def r2 s(2) list_ex_iff)
  moreover have "claim_intent timeout t' i secret db' = (None, db')" for t' secret
    using f by (simp add: claim_intent_def r2 claimable_def env_kinds_def)
  moreover have "\<exists>e. operation_quota 1 (it_user_id r) other db' = Inl e" for other
    using blocked_holds_quota [of ?r2 db' _ other] find_where_SomeD [OF r2] f assms(7,8) gone(2,3) s(3,4)
    by (simp add: unlimited_def)
  ultimately show ?thesis using ex s(1) failed r2 f(1) by auto
qed

section \<open>The controller's side\<close>

text \<open>
  How the controller binds a request to its idempotency key (\<open>Request.idempotency_key\<close> of \<open>controller/http.py\<close>,
  \<open>_fingerprint\<close> and \<open>_claim\<close> of \<open>controller/api.py\<close>), for a request the broker sent.
\<close>

definition idempotency_key_re :: "string \<Rightarrow> bool" where
  "idempotency_key_re s \<longleftrightarrow>
     (case split_char (CHR ''-'') s of
        [a, b, c, d, e] \<Rightarrow>
          matches_exact is_hex 8 a \<and> matches_exact is_hex 4 b \<and>
          matches_exact is_hex 4 c \<and> hd c \<in> set ''12345'' \<and>
          matches_exact is_hex 4 d \<and> hd d \<in> set ''89ab'' \<and> matches_exact is_hex 12 e
      | _ \<Rightarrow> False)"

definition idempotency_key :: "string option \<Rightarrow> string result" where
  "idempotency_key header =
     (case header of
        Some v \<Rightarrow> if idempotency_key_re v then Inr v
                   else Inl (HttpError 400 ''INVALID_IDEMPOTENCY_KEY'' ''Idempotency-Key must be a canonical UUID'')
      | None \<Rightarrow> Inl (HttpError 400 ''INVALID_IDEMPOTENCY_KEY'' ''Idempotency-Key must be a canonical UUID''))"

definition api_fingerprint :: "(string \<Rightarrow> string) \<Rightarrow> controller_request \<Rightarrow> string result" where
  "api_fingerprint sha q =
     request_fingerprint sha [(''method'', JStr (cr_method q)), (''path'', JStr (cr_path q)),
       (''body'', case cr_body q of None \<Rightarrow> JNull | Some b \<Rightarrow> b)]"

definition api_claim ::
  "(string \<Rightarrow> string) \<Rightarrow> controller_request \<Rightarrow> string \<Rightarrow> db \<Rightarrow> (db \<times> idempotency_request) result" where
  "api_claim sha q now db =
     rbind (idempotency_key (cr_key q)) (\<lambda>key.
     rbind (api_fingerprint sha q) (\<lambda>fingerprint.
     claim_idempotency_request key fingerprint now db))"

lemma claim_again:
  assumes "claim_idempotency_request i fp now (run_calls sha cs empty_db) = Inr (db', r)"
  shows "\<exists>r'. claim_idempotency_request i fp later (run_calls sha ds db') = Inr (run_calls sha ds db', r') \<and> request_kept r r'"
proof -
  have c: "uuid_re i" "sha256_hex_re fp" "\<not> in_transaction db'" "get_idempotency_request i db' = Inr (Some r)"
      "rq_request_fingerprint r = fp"
    using claim_Inr [OF assms] by auto
  obtain r' where r': "get_idempotency_request i (run_calls sha ds db') = Inr (Some r')" "request_kept r r'"
    using later_request [OF claim_inv [OF run_inv assms] c(4), of ds] by blast
  then show ?thesis
    using claim_existing [OF c(1,2) run_idle [OF c(3)] r'(1)] c(5) by (auto simp: request_kept_def)
qed

lemma api_claim_again:
  assumes "api_claim sha q now (run_calls sha cs empty_db) = Inr (db', r)"
  shows "\<exists>r'. api_claim sha q later (run_calls sha ds db') = Inr (run_calls sha ds db', r') \<and> request_kept r r'"
  using assms claim_again by (fastforce simp: api_claim_def rbind_eq_Inr)

lemma same_admission:
  assumes "journal_inv s" "(i, q) \<in> set (br_sent s)" "(i, q') \<in> set (br_sent s)" "cr_key q \<noteq> None" "cr_key q' \<noteq> None"
    and "r \<in> set (bt_intents (br_db s))" "it_id r = i" "it_kind r \<notin> set env_kinds"
  shows "q = q'"
proof -
  obtain a where a: "a \<in> set (bt_intents (br_db s))" "it_id a = i" "sends a q" using sent_row [OF assms(1,2)] .
  obtain b where b: "b \<in> set (bt_intents (br_db s))" "it_id b = i" "sends b q'" using sent_row [OF assms(1,3)] .
  have "a = r" "b = r" using same_intent [OF assms(1)] a b assms(6,7) by blast+
  then show ?thesis using a(3) b(3) assms(4,5,8) by (cases q; cases q') (auto simp: sends_def)
qed

section \<open>An example\<close>

definition example_user :: user where
  "example_user = \<lparr>us_id = ''user'', us_issuer = ''local'', us_subject = ''user'', us_username = ''user'',
     us_display_name = ''User'', us_enabled = 1, us_created = 0, us_last_login = 0, us_role = ''owner'',
     us_generation = 1, us_status = ''active''\<rparr>"

definition example_broker_db :: broker_db where
  "example_broker_db = \<lparr>bt_users = [example_user], bt_intents = [],
     bt_apps = [\<lparr>ba_id = ''app'', ba_user_id = ''user'', ba_slug = ''app'', ba_lifecycle = ''ready'', ba_revision = 1,
                  ba_created = 0, ba_create_intent = ''creation''\<rparr>],
     bt_configurations = [], bt_audit = [], bt_admin_audit = [], bt_observations = [], bt_app_members = [], bt_quotas = []\<rparr>"

definition example_intent :: intent where
  "example_intent = \<lparr>it_id = ''intent'', it_user_id = ''user'', it_app_id = Some ''app'', it_kind = ''deploy'',
     it_client_key = ''key'', it_controller_key = example_id, it_fingerprint = ''print'',
     it_method = ''POST'', it_path = ''/v1/applications/app/deployments'', it_body = [(''commit'', JStr ''abc'')],
     it_state = ''prepared'', it_operation_id = None, it_operation = None, it_safe_error = None,
     it_created = 0, it_updated = 0, it_attempts = 0, it_next_retry = 0, it_lease = 0\<rparr>"

definition example_request :: controller_request where
  "example_request = \<lparr>cr_method = ''POST'', cr_path = ''/v1/applications/app/deployments'',
     cr_body = Some (JObj [(''commit'', JStr ''abc'')]), cr_key = Some example_id\<rparr>"

definition example_recorded :: broker_db where
  "example_recorded = insert_audit \<lparr>au_user_id = Some ''user'', au_app_id = Some ''app'', au_intent_id = Some ''intent'',
     au_action = ''deploy'', au_created = 0\<rparr> (example_broker_db\<lparr>bt_intents := [example_intent]\<rparr>)"

text \<open>The intent after its first and its second claim, at the times 1 and 100.\<close>

definition example_claimed :: "rat \<Rightarrow> nat \<Rightarrow> broker_db" where
  "example_claimed t n = example_recorded\<lparr>bt_intents := [example_intent\<lparr>it_lease := t + 10, it_attempts := n\<rparr>]\<rparr>"

lemmas example_defs = example_user_def example_broker_db_def example_intent_def example_request_def example_recorded_def example_claimed_def

lemma example_record:
  "record_intent False ''intent'' ''user'' (Some ''app'') ''deploy'' ''key'' ''print'' ''POST'' ''/v1/applications/app/deployments''
     [(''commit'', JStr ''abc'')] example_id 0 (br_db (new_broker example_broker_db)) = Inr example_recorded"
  by (simp add: new_broker_def record_intent_def example_defs insert_audit_def with_intents_def touch_observations_def update_where_def)

lemma example_first_claim: "claim_intent 5 1 ''intent'' None example_recorded = (Some example_intent, example_claimed 1 1)"
  by (simp add: claim_intent_def claimable_def needs_authority_def portal_admin_def reviewed_kinds_def env_kinds_def
      example_defs insert_audit_def with_intents_def update_where_def)

lemma example_second_claim:
  "claim_intent 5 100 ''intent'' None (example_claimed 1 1) =
     (Some (example_intent\<lparr>it_lease := 11, it_attempts := 1\<rparr>), example_claimed 100 2)"
  by (simp add: claim_intent_def claimable_def needs_authority_def portal_admin_def reviewed_kinds_def env_kinds_def
      example_defs insert_audit_def with_intents_def update_where_def numeral_2_eq_2)

lemma example_request_of:
  "request_of 5 (example_intent\<lparr>it_lease := l, it_attempts := n\<rparr>) None = Inr example_request"
  "request_of 5 example_intent None = Inr example_request"
  by (simp_all add: request_of_def project_request_def controller_body_def polled_def admission_request_def env_kinds_def
      example_intent_def example_request_def)

definition example_start :: broker where
  "example_start = \<lparr>br_db = example_recorded, br_flight = [], br_sent = []\<rparr>"

definition example_out :: broker where
  "example_out = \<lparr>br_db = example_claimed 1 1, br_flight = [(example_intent, None)], br_sent = [(''intent'', example_request)]\<rparr>"

definition example_again :: broker where
  "example_again = \<lparr>br_db = example_claimed 100 2,
     br_flight = [(example_intent\<lparr>it_lease := 11, it_attempts := 1\<rparr>, None), (example_intent, None)],
     br_sent = [(''intent'', example_request), (''intent'', example_request)]\<rparr>"

lemma example_steps:
  "broker_step 5 (new_broker example_broker_db) (Recorded ''intent'') example_start"
  "broker_step 5 example_start (Claimed ''intent'' 1) example_out"
  "broker_step 5 example_out (Claimed ''intent'' 100) example_again"
proof -
  show "broker_step 5 (new_broker example_broker_db) (Recorded ''intent'') example_start"
    using broker_step.recorded [OF example_record, of 5] by (simp add: example_start_def new_broker_def)
  show "broker_step 5 example_start (Claimed ''intent'' 1) example_out"
    using broker_step.claim [of 5 1 "''intent''" None example_start] example_first_claim
    by (simp add: example_start_def example_out_def example_request_of)
  show "broker_step 5 example_out (Claimed ''intent'' 100) example_again"
    using broker_step.claim [of 5 100 "''intent''" None example_out] example_second_claim
    by (simp add: example_out_def example_again_def example_request_of)
qed

lemma example_run: "broker_run 5 (new_broker example_broker_db) [Recorded ''intent'', Claimed ''intent'' 1, Claimed ''intent'' 100] example_again"
  using more_run [OF more_run [OF more_run [OF done_run example_steps(1)] example_steps(2)] example_steps(3)] by simp


theorem lease_excludes_second_dispatch_witness:
  "\<exists>s1 s2. broker_step 5 example_start (Claimed ''intent'' 1) s1 \<and> broker_step 5 s1 (Claimed ''intent'' 100) s2 \<and> 1 + 5 + 5 \<le> (100 :: rat)"
  using lease_excludes_second_dispatch [OF example_steps(2) done_run _ example_steps(3)] example_steps(2,3) by fastforce


theorem reconcile_progress_witness:
  "card (set (due_intents 1 example_recorded)) = 1 \<and>
   {i. due_row 1 (reconcile_intents (\<lambda>_. Unavailable) 5 1 (\<lambda>_. (1, 2)) example_recorded) i} = {}"
proof -
  have d: "due_intents 1 example_recorded = [''intent'']"
    by (simp add: due_intents_def intent_due_def env_kinds_def example_defs insert_audit_def)
  have "{i. due_row 1 example_recorded i} = {''intent''}"
    by (subst due_intents_rows) (auto simp: intent_due_def env_kinds_def example_defs insert_audit_def)
  moreover have "distinct (map it_id (bt_intents example_recorded))" by (simp add: example_defs insert_audit_def)
  ultimately show ?thesis
    using reconcile_progress [of example_recorded 1 "\<lambda>_. (1, 2)" 5 "\<lambda>_. Unavailable"] d by auto
qed

theorem late_reply_revives_intent_witness:
  "\<exists>out db'. settle example_intent [] out 3 (retire_missing ''app'' ''user'' 2 (example_claimed 1 1)) = Inr db' \<and>
     map_option it_state (row_of ''intent'' db') = Some ''blocked'' \<and>
     (\<exists>e. operation_quota 1 ''user'' ''another'' db' = Inl e)"
proof -
  have f: "it_kind example_intent = ''deploy''" "it_state example_intent \<in> {''prepared'', ''unknown''}"
      "it_app_id example_intent = Some ''app''" "it_user_id example_intent = ''user''"
      "list_ex (\<lambda>a. ba_id a = ''app'' \<and> ba_lifecycle a = ''ready'') (bt_apps (example_claimed 1 1))"
      "\<not> unlimited (example_claimed 1 1) ''user''" "\<not> list_ex (\<lambda>q. qt_user_id q = ''user'') (bt_quotas (example_claimed 1 1))"
    by (simp_all add: example_defs insert_audit_def unlimited_def UNLIMITED_ROLES_def)
  have "error_detail [(''error'', JObj [(''code'', JStr ''OPERATION_CONFLICT'')])] = JStr ''OPERATION_CONFLICT''"
    by (simp add: error_detail_def jget_def)
  from late_reply_revives_intent [OF example_first_claim f(1-3,5) this, unfolded f(4), OF f(6,7),
      where body = "[]" and later = 3 and owner = "''user''" and now = 2]
  show ?thesis by blast
qed

end
