(* ===== verification/Broker_Sign_In.thy ===== *)
theory Broker_Sign_In
  imports Broker_Journal Login_Limits Validation
begin

text \<open>
  Sign-in to the management broker with a local account: password hashes and one-time codes
  (\<open>management/broker/local_security.py\<close>), recognised browsers (\<open>known_device.py\<close>), the account-wide budgets
  and the deciding transaction of \<open>local_auth.py\<close>, sessions (\<open>mint\<close>, \<open>session_row\<close> and the end of \<open>login\<close> in
  \<open>auth.py\<close>), and the changes of an account that revoke them (\<open>accounts.py\<close>). The primitives of \<open>hashlib\<close>,
  \<open>hmac\<close> and \<open>base64\<close> are arguments: \<open>scrypt\<close>, the keyed signature \<open>sign\<close>, and \<open>hotp\<close>, the HMAC-SHA1 digest
  of a counter under a base32 secret. The in-memory limits that run before the transaction are those of
  \<open>Login_Limits\<close>.
\<close>

section \<open>Passwords\<close>

text \<open>\<open>int(s)\<close>: optional sign, digits in groups joined by single underscores, surrounding white space.\<close>

definition white :: "char \<Rightarrow> bool" where
  "white c \<longleftrightarrow> c \<in> set [CHR 0x20, CHR 0x09, CHR 0x0A, CHR 0x0B, CHR 0x0C, CHR 0x0D]"

text \<open>What \<open>str.isspace\<close> accepts of the first 256 code points.\<close>

definition uni_white :: "char \<Rightarrow> bool" where
  "uni_white c \<longleftrightarrow> white c \<or> c \<in> set [CHR 0x1C, CHR 0x1D, CHR 0x1E, CHR 0x1F, CHR 0x85, CHR 0xA0]"

definition trim_white :: "string \<Rightarrow> string" where
  "trim_white s = rev (dropWhile uni_white (rev (dropWhile uni_white s)))"

definition unsigned_int :: "string \<Rightarrow> int option" where
  "unsigned_int s =
     (let groups = split_char (CHR ''_'') s
      in if list_all (\<lambda>g. g \<noteq> [] \<and> list_all is_digit g) groups then Some (digits_value (concat groups)) else None)"

definition python_int :: "string \<Rightarrow> int option" where
  "python_int s =
     (case trim_white s of
        [] \<Rightarrow> None
      | c # r \<Rightarrow> if c = CHR ''-'' then map_option uminus (unsigned_int r)
                 else if c = CHR ''+'' then unsigned_int r else unsigned_int (c # r))"

type_synonym octets = "int list"

definition hex_value :: "char \<Rightarrow> int option" where
  "hex_value c =
     (if is_digit c then Some (int (of_char c) - 48)
      else if CHR ''a'' \<le> c \<and> c \<le> CHR ''f'' then Some (int (of_char c) - 87)
      else if CHR ''A'' \<le> c \<and> c \<le> CHR ''F'' then Some (int (of_char c) - 55) else None)"

text \<open>\<open>bytes.fromhex\<close>, which skips white space between bytes, and \<open>bytes.hex\<close>.\<close>

fun fromhex :: "string \<Rightarrow> octets option" where
  "fromhex [] = Some []"
| "fromhex [c] = (if white c then Some [] else None)"
| "fromhex (c # d # s) =
     (if white c then fromhex (d # s)
      else case (hex_value c, hex_value d) of
             (Some a, Some b) \<Rightarrow> map_option (\<lambda>bs. (16 * a + b) # bs) (fromhex s)
           | _ \<Rightarrow> None)"

definition hex_of :: "octets \<Rightarrow> string" where
  "hex_of bs = concat (map (\<lambda>b. [hex_char (nat (b div 16)), hex_char (nat (b mod 16))]) bs)"

definition SCRYPT_N :: int where "SCRYPT_N = 32768"
definition SCRYPT_R :: int where "SCRYPT_R = 8"
definition SCRYPT_P :: int where "SCRYPT_P = 3"

text \<open>\<open>scrypt value salt n p\<close>: 64 bytes at block size 8.\<close>

type_synonym scrypt = "string \<Rightarrow> octets \<Rightarrow> int \<Rightarrow> int \<Rightarrow> octets"

definition hash_password :: "scrypt \<Rightarrow> octets \<Rightarrow> int \<Rightarrow> int \<Rightarrow> string \<Rightarrow> string result" where
  "hash_password scrypt salt n p v =
     (if n \<notin> {8192, 16384, 32768} \<or> \<not> (1 \<le> p \<and> p \<le> 10) then Inl (ValueError ''unsupported password cost'')
      else Inr (join_with ''$'' [''scrypt'', int_text n, int_text SCRYPT_R, int_text p, hex_of salt, hex_of (scrypt v salt n p)]))"

definition verify_password :: "scrypt \<Rightarrow> string \<Rightarrow> string \<Rightarrow> bool \<times> bool" where
  "verify_password scrypt v encoded =
     (if utf8_len v > 1024 then (False, False)
      else
        case split_char (CHR ''$'') encoded of
          [kind, ns, rs, ps, salt_hex, key_hex] \<Rightarrow>
            (case (python_int ns, python_int rs, python_int ps) of
               (Some n, Some r, Some p) \<Rightarrow>
                 if kind \<noteq> ''scrypt'' \<or> n \<notin> {8192, 16384, 32768} \<or> r \<noteq> 8 \<or> \<not> (1 \<le> p \<and> p \<le> 10) \<or>
                    length salt_hex \<noteq> 32 \<or> length key_hex \<noteq> 128
                 then (False, False)
                 else
                   (case (fromhex salt_hex, fromhex key_hex) of
                      (Some salt, Some stored) \<Rightarrow>
                        let valid = (scrypt v salt n p = stored)
                        in (valid, valid \<and> (n, r, p) \<noteq> (SCRYPT_N, SCRYPT_R, SCRYPT_P))
                    | _ \<Rightarrow> (False, False))
             | _ \<Rightarrow> (False, False))
        | _ \<Rightarrow> (False, False))"

section \<open>One-time codes\<close>

type_synonym hotp = "string \<Rightarrow> int \<Rightarrow> octets option"

definition totp_code :: "hotp \<Rightarrow> string \<Rightarrow> int \<Rightarrow> string option" where
  "totp_code hotp secret counter =
     map_option (\<lambda>digest.
       let offset = nat (List.last digest mod 16); b = (\<lambda>k. digest ! (offset + k));
           number = (((b 0 * 256 + b 1) * 256 + b 2) * 256 + b 3) mod 2147483648
       in padded 6 (number mod 1000000)) (hotp secret counter)"

definition code_re :: "string \<Rightarrow> bool" where
  "code_re s \<longleftrightarrow> matches_exact is_digit 6 s"

text \<open>The loop of \<open>verify_totp\<close>: the last candidate that matches and is new; \<open>None\<close> inside on an exception.\<close>

fun match_totp :: "hotp \<Rightarrow> string \<Rightarrow> string \<Rightarrow> int \<Rightarrow> int list \<Rightarrow> int option \<Rightarrow> int option option" where
  "match_totp hotp secret code last_counter [] matched = Some matched"
| "match_totp hotp secret code last_counter (c # cs) matched =
     (if c < 0 then match_totp hotp secret code last_counter cs matched
      else case totp_code hotp secret c of
             None \<Rightarrow> None
           | Some expected \<Rightarrow>
               match_totp hotp secret code last_counter cs (if expected = code \<and> c > last_counter then Some c else matched))"

definition verify_totp :: "hotp \<Rightarrow> string \<Rightarrow> json \<Rightarrow> rat \<Rightarrow> int \<Rightarrow> int option" where
  "verify_totp hotp secret given now last_counter =
     (case given of
        JStr code \<Rightarrow>
          if \<not> code_re code then None
          else
            let counter = \<lfloor>now / 30\<rfloor>
            in (case match_totp hotp secret code last_counter [counter - 1, counter, counter + 1] None of
                  None \<Rightarrow> None | Some matched \<Rightarrow> matched)
      | _ \<Rightarrow> None)"

section \<open>Recognised browsers\<close>

definition LIFETIME :: int where "LIFETIME = 90 * 86400"

definition user_re :: "string \<Rightarrow> bool" where
  "user_re s \<longleftrightarrow>
     (case split_char (CHR ''-'') s of
        [a, b, c, d, e] \<Rightarrow>
          matches_exact is_hex 8 a \<and> matches_exact is_hex 4 b \<and> matches_exact is_hex 4 c \<and> hd c \<in> set ''12345'' \<and>
          matches_exact is_hex 4 d \<and> hd d \<in> set ''89ab'' \<and> matches_exact is_hex 12 e
      | _ \<Rightarrow> False)"

definition digits_between :: "nat \<Rightarrow> string \<Rightarrow> bool" where
  "digits_between n s \<longleftrightarrow> list_all is_digit s \<and> 1 \<le> length s \<and> length s \<le> n"

definition mac_re :: "string \<Rightarrow> bool" where
  "mac_re = matches_exact (\<lambda>c. is_alnum c \<or> c = CHR ''_'' \<or> c = CHR ''-'') 43"

definition token_fields :: "string list \<Rightarrow> bool" where
  "token_fields parts =
     (case parts of
        [v, u, g, e, m] \<Rightarrow> v = ''1'' \<and> user_re u \<and> digits_between 19 g \<and> digits_between 12 e \<and> mac_re m
      | [v, u, g, e, d, m] \<Rightarrow>
          v = ''2'' \<and> user_re u \<and> digits_between 19 g \<and> digits_between 12 e \<and> matches_exact is_hex 32 d \<and> mac_re m
      | _ \<Rightarrow> False)"

text \<open>\<open>TOKEN\<close>: no field contains a dot, so the match is that of the parts between the dots.\<close>

definition token_re :: "string \<Rightarrow> bool" where
  "token_re s \<longleftrightarrow> token_fields (split_char (CHR ''.'') s)"

definition device_id :: "string option \<Rightarrow> string option" where
  "device_id token =
     (case token of
        Some s \<Rightarrow> if token_re s \<and> starts_with ''2.'' s then Some (split_char (CHR ''.'') s ! 4) else None
      | None \<Rightarrow> None)"

type_synonym signer = "string \<Rightarrow> string"

definition device_valid :: "signer \<Rightarrow> string option \<Rightarrow> user option \<Rightarrow> rat \<Rightarrow> bool" where
  "device_valid sign token usr now =
     (case (token, usr) of
        (Some s, Some u) \<Rightarrow>
          token_re s \<and> us_issuer u = ''local'' \<and>
          (let parts = split_char (CHR ''.'') s
           in sign (join_with ''.'' (butlast parts)) = List.last parts \<and>
              parts ! 1 = us_id u \<and> digits_value (parts ! 2) = us_generation u \<and>
              now < of_int (digits_value (parts ! 3)) \<and> of_int (digits_value (parts ! 3)) \<le> now + of_int LIFETIME)
      | _ \<Rightarrow> False)"

text \<open>\<open>fresh\<close> is what \<open>secrets.token_hex(16)\<close> gives; \<open>int(now)\<close> truncates, and times are not negative.\<close>

definition issue_device :: "signer \<Rightarrow> string \<Rightarrow> user \<Rightarrow> rat \<Rightarrow> string option \<Rightarrow> string" where
  "issue_device sign fresh u now previous =
     (let kept = (if device_valid sign previous (Some u) now then device_id previous else None);
          identifier = (case kept of Some (c # cs) \<Rightarrow> c # cs | _ \<Rightarrow> fresh);
          payload = join_with ''.'' [''2'', us_id u, int_text (us_generation u), int_text (\<lfloor>now\<rfloor> + LIFETIME), identifier]
      in payload @ ''.'' @ sign payload)"

section \<open>Accounts\<close>

record local_account =
  la_user_id :: string
  la_password_hash :: "string option"
  la_totp_secret :: "string option"
  la_totp_confirmed :: bool
  la_last_counter :: int
  la_totp_streak :: int
  la_totp_blocked_until :: rat

record auth_failure =
  af_user_id :: string
  af_kind :: string
  af_created :: rat

record session =
  se_token :: string
  se_user_id :: string
  se_created :: rat
  se_last_used :: rat
  se_expires :: rat
  se_kind :: string
  se_generation :: int
  se_reauthenticated_at :: rat

record account_token =
  tk_id :: string
  tk_token_hash :: string
  tk_user_id :: string
  tk_generation :: int
  tk_purpose :: string
  tk_expires :: rat
  tk_created :: rat
  tk_failures :: int

record enrollment =
  en_token_hash :: string
  en_user_id :: string
  en_generation :: int
  en_binder_hash :: string
  en_purpose :: string
  en_secret :: "string option"
  en_password_hash :: "string option"
  en_expires :: rat
  en_failures :: int

record auth_db =
  ad_users :: "user list"
  ad_accounts :: "local_account list"
  ad_failures :: "auth_failure list"
  ad_sessions :: "session list"
  ad_tokens :: "account_token list"
  ad_enrollments :: "enrollment list"
  ad_used_tokens :: "(string \<times> string \<times> rat) list"
  ad_valid_after :: rat
  ad_audit :: "audit_row list"
  ad_admin_audit :: "admin_audit_row list"

type_synonym account = "user \<times> local_account"

definition account :: "auth_db \<Rightarrow> string \<Rightarrow> account option" where
  "account db name =
     (case find_where (\<lambda>u. us_issuer u = ''local'' \<and> us_username u = name \<and>
                           list_ex (\<lambda>a. la_user_id a = us_id u) (ad_accounts db)) (ad_users db) of
        None \<Rightarrow> None
      | Some u \<Rightarrow> map_option (Pair u) (find_where (\<lambda>a. la_user_id a = us_id u) (ad_accounts db)))"

definition PASSWORD_FAILURES :: nat where "PASSWORD_FAILURES = 20"
definition TOTP_FAILURES :: nat where "TOTP_FAILURES = 10"
definition WINDOW_SECONDS :: rat where "WINDOW_SECONDS = 3600"
definition TOTP_BACKOFF_SECONDS :: rat where "TOTP_BACKOFF_SECONDS = 30"
definition MAX_TOTP_BACKOFF_SECONDS :: rat where "MAX_TOTP_BACKOFF_SECONDS = 3600"

definition failure_count :: "auth_db \<Rightarrow> string \<Rightarrow> string \<Rightarrow> rat \<Rightarrow> nat" where
  "failure_count db usr kind now =
     length (filter (\<lambda>f. af_user_id f = usr \<and> af_kind f = kind \<and> af_created f > now - WINDOW_SECONDS) (ad_failures db))"

definition blocked :: "auth_db \<Rightarrow> account option \<Rightarrow> bool \<Rightarrow> rat \<Rightarrow> bool" where
  "blocked db acct recognized now =
     (case acct of
        None \<Rightarrow> True
      | Some (u, a) \<Rightarrow>
          us_enabled u = 0 \<or> us_status u \<noteq> ''active'' \<or> la_password_hash a \<in> {None, Some []} \<or>
          la_totp_blocked_until a > now \<or> failure_count db (us_id u) ''totp'' now \<ge> TOTP_FAILURES \<or>
          \<not> recognized \<and> failure_count db (us_id u) ''password'' now \<ge> PASSWORD_FAILURES)"

definition failure :: "string \<Rightarrow> string \<Rightarrow> rat \<Rightarrow> auth_db \<Rightarrow> auth_db" where
  "failure usr kind now db =
     (let db1 = db\<lparr>ad_failures := delete_where (\<lambda>f. af_user_id f = usr \<and> af_created f \<le> now - WINDOW_SECONDS) (ad_failures db)\<rparr>;
          maximum = (if kind = ''password'' then PASSWORD_FAILURES else TOTP_FAILURES)
      in if failure_count db1 usr kind now < maximum
         then db1\<lparr>ad_failures := ad_failures db1 @ [\<lparr>af_user_id = usr, af_kind = kind, af_created = now\<rparr>]\<rparr>
         else db1)"

definition with_account :: "string \<Rightarrow> (local_account \<Rightarrow> local_account) \<Rightarrow> auth_db \<Rightarrow> auth_db" where
  "with_account usr f db = db\<lparr>ad_accounts := update_where (\<lambda>a. la_user_id a = usr) f (ad_accounts db)\<rparr>"

definition backoff :: "int \<Rightarrow> rat" where
  "backoff streak = min MAX_TOTP_BACKOFF_SECONDS (TOTP_BACKOFF_SECONDS * 2 ^ nat (min (streak - 1) 7))"

section \<open>The deciding transaction\<close>

text \<open>
  What \<open>authenticate\<close> has in hand when it opens the writing transaction: the account it read first, whether
  that reading was denied, the hash it verified against and with what result, the code and the device token
  of the request, and whether the device is exempt from the account's password budget.
\<close>

record attempt =
  tr_username :: string
  tr_user :: "account option"
  tr_denied :: bool
  tr_encoded :: string
  tr_valid :: bool
  tr_code :: json
  tr_device :: "string option"
  tr_exempt :: bool

definition eligible :: "signer \<Rightarrow> attempt \<Rightarrow> rat \<Rightarrow> auth_db \<Rightarrow> account option" where
  "eligible sign t now db =
     (case (account db (tr_username t), tr_user t) of
        (Some (u, a), Some (u0, a0)) \<Rightarrow>
          if \<not> tr_denied t \<and> us_generation u = us_generation u0 \<and> la_password_hash a = Some (tr_encoded t) \<and>
             \<not> blocked db (Some (u, a)) (device_valid sign (tr_device t) (Some u) now \<and> tr_exempt t) now
          then Some (u, a) else None
      | _ \<Rightarrow> None)"

text \<open>How the attempt ended: which budget it was charged to, or the account and the counter it was admitted with.\<close>

datatype verdict = Refused | Wrong_Password | Wrong_Code | Admitted account "int option"

definition factor :: "local_account \<Rightarrow> string option" where
  "factor a = (if la_totp_confirmed a \<and> la_totp_secret a \<noteq> Some [] then la_totp_secret a else None)"

definition judge :: "signer \<Rightarrow> hotp \<Rightarrow> attempt \<Rightarrow> rat \<Rightarrow> auth_db \<Rightarrow> verdict" where
  "judge sign hotp t now db =
     (case eligible sign t now db of
        None \<Rightarrow> Refused
      | Some (u, a) \<Rightarrow>
          if \<not> tr_valid t then Wrong_Password
          else
            case factor a of
              Some secret \<Rightarrow>
                (case verify_totp hotp secret (tr_code t) now (la_last_counter a) of
                   None \<Rightarrow> Wrong_Code | Some counter \<Rightarrow> Admitted (u, a) (Some counter))
            | None \<Rightarrow> if us_role u = ''admin'' then Refused else Admitted (u, a) None)"

definition decide :: "signer \<Rightarrow> hotp \<Rightarrow> attempt \<Rightarrow> rat \<Rightarrow> auth_db \<Rightarrow> auth_db \<times> account result" where
  "decide sign hotp t now db =
     (let invalid = Inl (HttpError 401 ''INVALID_CREDENTIALS'' ''Username, password or authentication code is incorrect.'')
      in case judge sign hotp t now db of
           Refused \<Rightarrow> (db, invalid)
         | Wrong_Password \<Rightarrow>
             (case eligible sign t now db of
                Some (u, a) \<Rightarrow> (failure (us_id u) ''password'' now db, invalid) | None \<Rightarrow> (db, invalid))
         | Wrong_Code \<Rightarrow>
             (case eligible sign t now db of
                Some (u, a) \<Rightarrow>
                  let streak = min (la_totp_streak a + 1) 32
                  in (with_account (us_id u) (\<lambda>r. r\<lparr>la_totp_streak := streak, la_totp_blocked_until := now + backoff streak\<rparr>)
                        (failure (us_id u) ''totp'' now db), invalid)
              | None \<Rightarrow> (db, invalid))
         | Admitted (u, a) counter \<Rightarrow>
             (with_account (us_id u) (\<lambda>r. r\<lparr>la_last_counter := (case counter of None \<Rightarrow> la_last_counter r | Some c \<Rightarrow> c),
                                           la_totp_streak := 0, la_totp_blocked_until := 0\<rparr>) db, Inr (u, a)))"

text \<open>The rehash of a password stored at an older cost, in its own transaction.\<close>

definition upgrade_hash :: "attempt \<Rightarrow> account \<Rightarrow> string \<Rightarrow> auth_db \<Rightarrow> auth_db result" where
  "upgrade_hash t verified replacement db =
     (case account db (tr_username t) of
        Some (u, a) \<Rightarrow>
          if us_generation u \<noteq> us_generation (fst verified) \<or> la_password_hash a \<noteq> Some (tr_encoded t) \<or>
             us_enabled u = 0 \<or> us_status u \<noteq> ''active''
          then Inl (HttpError 401 ''INVALID_CREDENTIALS'' ''Username, password or authentication code is incorrect.'')
          else Inr (with_account (us_id (fst verified)) (\<lambda>r. r\<lparr>la_password_hash := Some replacement\<rparr>) db)
      | None \<Rightarrow> Inl (HttpError 401 ''INVALID_CREDENTIALS'' ''Username, password or authentication code is incorrect.''))"

section \<open>Sessions\<close>

definition ABSOLUTE_SECONDS :: rat where "ABSOLUTE_SECONDS = 3600"
definition IDLE_SECONDS :: rat where "IDLE_SECONDS = 600"
definition ADMIN_IDLE_SECONDS :: rat where "ADMIN_IDLE_SECONDS = 900"

text \<open>
  \<open>mint\<close>: \<open>old\<close> is the digest of the session cookie the request came with, \<open>token\<close> the digest of the new one. The
  time of the proof is recorded for step-up.
\<close>

definition mint :: "rat \<Rightarrow> string option \<Rightarrow> string \<Rightarrow> user \<Rightarrow> bool \<Rightarrow> rat option \<Rightarrow> rat \<Rightarrow> auth_db \<Rightarrow> auth_db" where
  "mint absolute_seconds old token u reauthenticated proof_at now db =
     (let lifetime = (if us_role u = ''owner'' then absolute_seconds else min ABSOLUTE_SECONDS absolute_seconds);
          kept = (case old of None \<Rightarrow> ad_sessions db | Some prior \<Rightarrow> delete_where (\<lambda>s. se_token s = prior) (ad_sessions db));
          row = \<lparr>se_token = token, se_user_id = us_id u, se_created = now, se_last_used = now, se_expires = now + lifetime,
                 se_kind = us_role u, se_generation = us_generation u,
                 se_reauthenticated_at = (if \<not> reauthenticated then 0 else case proof_at of None \<Rightarrow> now | Some p \<Rightarrow> min now p)\<rparr>
      in db\<lparr>ad_sessions := kept @ [row],
            ad_users := update_where (\<lambda>x. us_id x = us_id u) (\<lambda>x. x\<lparr>us_last_login := now\<rparr>) (ad_users db),
            ad_audit := ad_audit db @ [\<lparr>au_user_id = Some (us_id u), au_app_id = None, au_intent_id = None,
                                        au_action = ''sign_in'', au_created = now\<rparr>]\<rparr>)"

text \<open>The last transaction of \<open>login\<close>, for the account that was verified.\<close>

definition finish_login :: "rat \<Rightarrow> string option \<Rightarrow> string \<Rightarrow> user \<Rightarrow> rat \<Rightarrow> auth_db \<Rightarrow> auth_db result" where
  "finish_login absolute_seconds old token verified now db =
     (case find_where (\<lambda>u. us_issuer u = ''local'' \<and> us_subject u = us_subject verified) (ad_users db) of
        None \<Rightarrow> Inl (HttpError 401 ''INVALID_CREDENTIALS'' ''Username, password or authentication code is incorrect.'')
      | Some row \<Rightarrow>
          if us_enabled row = 0 \<or> us_status row \<noteq> ''active''
          then Inl (HttpError 403 ''ACCOUNT_DISABLED'' ''Your portal account is disabled. Contact course staff.'')
          else if us_generation row \<noteq> us_generation verified
          then Inl (HttpError 401 ''INVALID_CREDENTIALS'' ''Username, password or authentication code is incorrect.'')
          else Inr (mint absolute_seconds old token row (us_role row = ''admin'') None now db))"

definition session_row :: "rat \<Rightarrow> string \<Rightarrow> rat \<Rightarrow> string option \<Rightarrow> auth_db \<Rightarrow> (user \<times> session) result" where
  "session_row idle_seconds sid now kind db =
     (case find_where (\<lambda>s. se_token s = sid \<and> list_ex (\<lambda>u. us_id u = se_user_id s) (ad_users db)) (ad_sessions db) of
        None \<Rightarrow> Inl (HttpError 401 ''SESSION_EXPIRED'' ''Sign in to continue.'')
      | Some s \<Rightarrow>
          (case find_where (\<lambda>u. us_id u = se_user_id s) (ad_users db) of
             None \<Rightarrow> Inl (HttpError 401 ''SESSION_EXPIRED'' ''Sign in to continue.'')
           | Some u \<Rightarrow>
               let idle = (if se_kind s = ''owner'' then idle_seconds
                           else min (if se_kind s = ''admin'' then ADMIN_IDLE_SECONDS else IDLE_SECONDS) idle_seconds)
               in if se_expires s \<le> now \<or> se_last_used s + idle \<le> now \<or> us_generation u \<noteq> se_generation s \<or> us_role u \<noteq> se_kind s
                  then Inl (HttpError 401 ''SESSION_EXPIRED'' ''Sign in to continue.'')
                  else if us_enabled u = 0 \<or> us_status u \<noteq> ''active''
                  then Inl (HttpError 403 ''ACCOUNT_DISABLED'' ''This account is disabled.'')
                  else if se_kind s = ''admin'' \<and>
                    (us_issuer u \<noteq> ''local'' \<or> \<not> list_ex (\<lambda>a. la_user_id a = us_id u \<and> la_totp_confirmed a) (ad_accounts db))
                  then Inl (HttpError 401 ''SESSION_EXPIRED'' ''Sign in to continue.'')
                  else if kind = Some ''staff'' \<and> se_kind s \<notin> {''staff'', ''admin''} \<or> kind = Some ''admin'' \<and> se_kind s \<noteq> ''admin''
                  then Inl (HttpError 403 ''ACCESS_DENIED'' ''This session cannot access this view.'')
                  else Inr (u, s)))"

section \<open>Changes of an account\<close>

definition with_user :: "string \<Rightarrow> (user \<Rightarrow> user) \<Rightarrow> auth_db \<Rightarrow> auth_db" where
  "with_user usr f db = db\<lparr>ad_users := update_where (\<lambda>u. us_id u = usr) f (ad_users db)\<rparr>"

definition security_change :: "string \<Rightarrow> auth_db \<Rightarrow> auth_db" where
  "security_change usr db =
     with_account usr (\<lambda>a. a\<lparr>la_totp_streak := 0, la_totp_blocked_until := 0\<rparr>)
       ((with_user usr (\<lambda>u. u\<lparr>us_generation := us_generation u + 1\<rparr>) db)
          \<lparr>ad_sessions := delete_where (\<lambda>s. se_user_id s = usr) (ad_sessions db),
           ad_tokens := delete_where (\<lambda>t. tk_user_id t = usr) (ad_tokens db),
           ad_enrollments := delete_where (\<lambda>e. en_user_id e = usr) (ad_enrollments db),
           ad_failures := delete_where (\<lambda>f. af_user_id f = usr) (ad_failures db)\<rparr>)"

definition checked_actor :: "rat \<Rightarrow> string \<Rightarrow> bool \<Rightarrow> string \<Rightarrow> rat \<Rightarrow> auth_db \<Rightarrow> user result" where
  "checked_actor idle_seconds sid step_up kind now db =
     rbind (session_row idle_seconds sid now (Some kind) db) (\<lambda>(u, s).
     if step_up \<and> se_reauthenticated_at s + 300 \<le> now
     then Inl (HttpError 403 ''STEP_UP_REQUIRED'' ''Re-enter your password and a fresh authentication code.'')
     else Inr u)"

definition target :: "string \<Rightarrow> auth_db \<Rightarrow> user result" where
  "target identifier db =
     rbind (uuid ''UUID'' identifier) (\<lambda>checked.
     case find_where (\<lambda>u. us_id u = checked) (ad_users db) of
       None \<Rightarrow> Inl (HttpError 404 ''NOT_FOUND'' ''Account not found.'')
     | Some u \<Rightarrow> Inr u)"

text \<open>\<open>Accounts.link\<close>, with the identifier and the hash of the fresh token.\<close>

definition link_token :: "string \<Rightarrow> string \<Rightarrow> string \<Rightarrow> string \<Rightarrow> rat \<Rightarrow> auth_db \<Rightarrow> auth_db result" where
  "link_token identifier token_hash usr purpose now db =
     (case find_where (\<lambda>u. us_id u = usr) (ad_users db) of
        None \<Rightarrow> Inl TypeError
      | Some u \<Rightarrow>
          if list_ex (\<lambda>t. tk_id t = identifier \<or> tk_token_hash t = token_hash) (ad_tokens db) then Inl IntegrityError
          else Inr (db\<lparr>ad_tokens := ad_tokens db @
          [\<lparr>tk_id = identifier, tk_token_hash = token_hash, tk_user_id = usr, tk_generation = us_generation u,
            tk_purpose = purpose, tk_expires = now + 72 * 3600, tk_created = now, tk_failures = 0\<rparr>]\<rparr>))"

definition account_actions :: "string list" where
  "account_actions = [''role'', ''enabled'', ''revoke-sessions'', ''password-reset'', ''totp-reset'', ''invite'']"

text \<open>The edits of \<open>Accounts.change\<close> before the change of generation, with the details they audit.\<close>

definition edit_account :: "string \<Rightarrow> json \<Rightarrow> user \<Rightarrow> auth_db \<Rightarrow> (auth_db \<times> jdict) result" where
  "edit_account action v u db =
     (if action = ''role''
      then (case v of
              JStr role \<Rightarrow>
                if role \<notin> {''owner'', ''staff'', ''admin''} \<or> role = ''admin'' \<and> us_issuer u \<noteq> ''local''
                then Inl (HttpError 400 ''INVALID_ROLE'' ''Only a local account can be an admin.'')
                else Inr (with_user (us_id u) (\<lambda>x. x\<lparr>us_role := role\<rparr>) db,
                       [(''previousRole'', JStr (us_role u)), (''role'', JStr role)])
            | _ \<Rightarrow> Inl (HttpError 400 ''INVALID_ROLE'' ''Only a local account can be an admin.''))
      else if action = ''enabled''
      then (case v of
              JBool b \<Rightarrow> Inr (with_user (us_id u) (\<lambda>x. x\<lparr>us_enabled := (if b then 1 else 0)\<rparr>) db, [(''enabled'', JBool b)])
            | _ \<Rightarrow> Inl (HttpError 400 ''INVALID_FIELD'' ''Enabled must be boolean.''))
      else if v \<noteq> JNull then Inl (HttpError 400 ''INVALID_FIELD'' ''This action accepts no value.'')
      else Inr (db, []))"

definition reset_account :: "string \<Rightarrow> string \<Rightarrow> auth_db \<Rightarrow> auth_db" where
  "reset_account action usr db =
     (if action = ''password-reset''
      then with_user usr (\<lambda>u. u\<lparr>us_status := ''pending''\<rparr>) (with_account usr (\<lambda>a. a\<lparr>la_password_hash := None\<rparr>) db)
      else if action = ''totp-reset''
      then with_user usr (\<lambda>u. u\<lparr>us_status := ''pending''\<rparr>)
             (with_account usr (\<lambda>a. a\<lparr>la_totp_secret := None, la_totp_confirmed := False, la_last_counter := - 1\<rparr>) db)
      else db)"

definition link_purpose :: "string \<Rightarrow> bool \<Rightarrow> local_account option \<Rightarrow> string option" where
  "link_purpose action need_enrollment factor_row =
     (if action \<in> {''password-reset'', ''totp-reset'', ''invite''} then Some action
      else if need_enrollment \<and> factor_row \<noteq> None \<and> la_password_hash (the factor_row) \<in> {None, Some []} then Some ''invite''
      else if need_enrollment then Some ''totp-reset''
      else None)"

text \<open>An admin without a confirmed second factor has to enroll one before signing in.\<close>

definition need_enrollment :: "string \<Rightarrow> auth_db \<Rightarrow> bool" where
  "need_enrollment usr db =
     (let factor_row = find_where (\<lambda>a. la_user_id a = usr) (ad_accounts db)
      in us_role (the (find_where (\<lambda>x. us_id x = usr) (ad_users db))) = ''admin'' \<and>
         \<not> (factor_row \<noteq> None \<and> la_totp_confirmed (the factor_row)))"

definition set_pending :: "string \<Rightarrow> auth_db \<Rightarrow> auth_db" where
  "set_pending usr db = (if need_enrollment usr db then with_user usr (\<lambda>x. x\<lparr>us_status := ''pending''\<rparr>) db else db)"

definition issue_link :: "string \<Rightarrow> string \<Rightarrow> string \<Rightarrow> string \<Rightarrow> rat \<Rightarrow> auth_db \<Rightarrow> auth_db result" where
  "issue_link action token_id token_hash usr now db =
     (case link_purpose action (need_enrollment usr db) (find_where (\<lambda>a. la_user_id a = usr) (ad_accounts db)) of
        None \<Rightarrow> Inr (set_pending usr db)
      | Some purpose \<Rightarrow> link_token token_id token_hash usr purpose now (set_pending usr db))"

definition change_account ::
  "rat \<Rightarrow> string \<Rightarrow> string \<Rightarrow> string \<Rightarrow> json \<Rightarrow> string \<Rightarrow> string \<Rightarrow> rat \<Rightarrow> auth_db \<Rightarrow> auth_db result" where
  "change_account idle_seconds sid usr action v token_id token_hash now db =
     (if action \<notin> set account_actions then Inl (HttpError 400 ''INVALID_FIELD'' ''Unknown account action.'')
      else
        rbind (checked_actor idle_seconds sid True ''admin'' now db) (\<lambda>actor.
        rbind (target usr db) (\<lambda>u.
            rbind (edit_account action v u db) (\<lambda>(db1, details).
            if action \<in> {''password-reset'', ''totp-reset'', ''invite''} \<and> us_issuer u \<noteq> ''local''
            then Inl (HttpError 400 ''INVALID_FIELD'' ''Commons credentials are managed outside the portal.'')
            else if action = ''invite'' \<and> us_status u \<noteq> ''pending''
            then Inl (HttpError 400 ''INVALID_FIELD'' ''Only a pending account can be invited.'')
            else
              let db2 = reset_account action usr (security_change usr db1);
                  latest = the (find_where (\<lambda>x. us_id x = usr) (ad_users db2))
              in rbind (issue_link action token_id token_hash usr now db2) (\<lambda>db3.
                 Inr (db3\<lparr>ad_admin_audit := ad_admin_audit db3 @
                   [\<lparr>aa_actor_id = Some (us_id actor), aa_target_id = Some usr, aa_action = action,
                     aa_details = details @ [(''generation'', JInt (us_generation latest))], aa_created = now\<rparr>]\<rparr>))))))"

section \<open>One-time codes are used once\<close>

lemma match_totp_bound:
  assumes "match_totp hotp secret code lc cs matched = Some (Some c)"
  shows "matched = Some c \<or> c \<in> set cs \<and> lc < c \<and> totp_code hotp secret c = Some code"
  using assms
  by (induction hotp secret code lc cs matched rule: match_totp.induct) (auto split: if_splits option.splits)

lemma verify_totp_sound:
  assumes "verify_totp hotp secret given now lc = Some c"
  shows "lc < c \<and> \<bar>c - \<lfloor>now / 30\<rfloor>\<bar> \<le> 1 \<and> (\<exists>code. given = JStr code \<and> totp_code hotp secret c = Some code)"
proof -
  obtain code where code: "given = JStr code"
      "match_totp hotp secret code lc [\<lfloor>now / 30\<rfloor> - 1, \<lfloor>now / 30\<rfloor>, \<lfloor>now / 30\<rfloor> + 1] None = Some (Some c)"
    using assms by (auto simp: verify_totp_def Let_def split: json.splits if_splits option.splits)
  from match_totp_bound [OF code(2)] show ?thesis using code(1) by auto
qed

abbreviation account_of :: "string \<Rightarrow> auth_db \<Rightarrow> local_account option" where
  "account_of usr db \<equiv> find_where (\<lambda>a. la_user_id a = usr) (ad_accounts db)"

lemma eligible_account: "eligible sign t now db = Some (u, a) \<Longrightarrow> account_of (us_id u) db = Some a"
  by (auto simp: eligible_def account_def split: option.splits if_splits)

lemma eligible_budget:
  assumes "eligible sign t now db = Some (u, a)"
  shows "failure_count db (us_id u) ''totp'' now < TOTP_FAILURES"
    "device_valid sign (tr_device t) (Some u) now \<and> tr_exempt t \<or> failure_count db (us_id u) ''password'' now < PASSWORD_FAILURES"
  using assms by (auto simp: eligible_def blocked_def split: option.splits if_splits prod.splits)

text \<open>What an attempt leaves in the history of a run.\<close>

datatype trace = Bad_Code string rat | Bad_Password string rat | Used string int

definition traces :: "signer \<Rightarrow> hotp \<Rightarrow> attempt \<Rightarrow> rat \<Rightarrow> auth_db \<Rightarrow> trace list" where
  "traces sign hotp t now db =
     (case (judge sign hotp t now db, eligible sign t now db) of
        (Wrong_Code, Some (u, a)) \<Rightarrow> [Bad_Code (us_id u) now]
      | (Wrong_Password, Some (u, a)) \<Rightarrow>
          if device_valid sign (tr_device t) (Some u) now \<and> tr_exempt t then [] else [Bad_Password (us_id u) now]
      | (Admitted (u, a) (Some c), _) \<Rightarrow> [Used (us_id u) c]
      | _ \<Rightarrow> [])"

text \<open>
  Runs of sign-in attempts at times that do not go back, with any other transactions in between that keep
  the recorded failures and lower no counter: none but a change of an account deletes failures, and none but
  a change of the second factor lowers a counter.
\<close>

inductive sign_in_run :: "signer \<Rightarrow> hotp \<Rightarrow> auth_db \<Rightarrow> trace list \<Rightarrow> rat \<Rightarrow> auth_db \<Rightarrow> bool" for sign hotp db0 where
  start: "sign_in_run sign hotp db0 [] t db0"
| attempt: "sign_in_run sign hotp db0 h t db \<Longrightarrow> t \<le> now \<Longrightarrow> decide sign hotp a now db = (db', r) \<Longrightarrow>
    sign_in_run sign hotp db0 (h @ traces sign hotp a now db) now db'"
| other: "sign_in_run sign hotp db0 h t db \<Longrightarrow> ad_failures db' = ad_failures db \<Longrightarrow>
    (\<And>usr a. account_of usr db = Some a \<Longrightarrow> \<exists>a'. account_of usr db' = Some a' \<and> la_last_counter a \<le> la_last_counter a') \<Longrightarrow>
    sign_in_run sign hotp db0 h t db'"

definition used_counters :: "string \<Rightarrow> trace list \<Rightarrow> int list" where
  "used_counters usr h = concat (map (\<lambda>x. case x of Used v c \<Rightarrow> if v = usr then [c] else [] | _ \<Rightarrow> []) h)"

lemma account_of_with:
  "(\<And>a. la_user_id (f a) = la_user_id a) \<Longrightarrow> account_of v (with_account usr f db) =
     map_option (\<lambda>a. if la_user_id a = usr then f a else a) (account_of v db)"
  unfolding with_account_def by (simp, rule find_update_where) simp

lemma failure_accounts [simp]: "ad_accounts (failure usr kind now db) = ad_accounts db" "ad_users (failure usr kind now db) = ad_users db"
  by (simp_all add: failure_def Let_def)

lemma account_of_id: "account_of usr db = Some a \<Longrightarrow> la_user_id a = usr"
  using find_where_SomeD by fastforce

lemma judge_Admitted:
  assumes "judge sign hotp a now db = Admitted (u, acct) counter"
  shows "account_of (us_id u) db = Some acct" "\<And>c. counter = Some c \<Longrightarrow> la_last_counter acct < c"
proof -
  have e: "eligible sign a now db = Some (u, acct)"
    using assms by (auto simp: judge_def split: option.splits if_splits)
  show "account_of (us_id u) db = Some acct" by (rule eligible_account [OF e])
  show "la_last_counter acct < c" if "counter = Some c" for c
    using assms e that by (auto simp: judge_def dest: verify_totp_sound split: option.splits if_splits)
qed

text \<open>An attempt lowers no counter, and raises that of an account it admits to the counter it used.\<close>

lemma decide_counter:
  assumes "account_of usr db = Some acct"
  shows "\<exists>acct'. account_of usr (fst (decide sign hotp a now db)) = Some acct' \<and>
    (\<forall>c \<in> set (la_last_counter acct # used_counters usr (traces sign hotp a now db)). c \<le> la_last_counter acct') \<and>
    (\<forall>c \<in> set (used_counters usr (traces sign hotp a now db)). la_last_counter acct < c)"
proof (cases "judge sign hotp a now db")
  case (Admitted ua counter)
  obtain u acct0 where ua: "ua = (u, acct0)" by (cases ua)
  note adm = judge_Admitted [OF Admitted [unfolded ua]]
  have "la_user_id acct = usr" using account_of_id [OF assms] .
  then show ?thesis
    using adm assms unfolding decide_def Let_def Admitted ua
    by (auto simp: traces_def Admitted ua used_counters_def account_of_with split: option.splits)
next
  case Wrong_Code
  then show ?thesis using assms
    by (auto simp: decide_def Let_def traces_def used_counters_def account_of_with split: option.splits)
qed (use assms in \<open>auto simp: decide_def Let_def traces_def used_counters_def split: option.splits\<close>)

lemma used_account:
  "c \<in> set (used_counters usr (traces sign hotp a now db)) \<Longrightarrow> \<exists>acct. account_of usr db = Some acct"
  by (auto simp: traces_def used_counters_def dest: judge_Admitted(1) split: verdict.splits option.splits if_splits prod.splits)

lemma used_append: "used_counters usr (h @ h') = used_counters usr h @ used_counters usr h'"
  by (simp add: used_counters_def)

lemma used_single: "sorted_wrt (<) (used_counters usr (traces sign hotp a now db))"
  by (auto simp: traces_def used_counters_def split: verdict.splits option.splits if_splits prod.splits)

lemma used_counters_run:
  assumes "sign_in_run sign hotp db0 h t db"
  shows "sorted_wrt (<) (used_counters usr h) \<and>
    (\<forall>c \<in> set (used_counters usr h). \<exists>acct. account_of usr db = Some acct \<and> c \<le> la_last_counter acct)"
  using assms
proof (induction rule: sign_in_run.induct)
  case (start t)
  then show ?case by (simp add: used_counters_def)
next
  case (attempt h t db now a db' r)
  let ?u = "used_counters usr (traces sign hotp a now db)"
  have db': "db' = fst (decide sign hotp a now db)" using attempt.hyps(3) by simp
  show ?case
  proof (cases "account_of usr db")
    case None
    have "?u = []" using used_account [of _ usr sign hotp a now db] None by (cases ?u) auto
    then show ?thesis using attempt.IH None by (auto simp: used_append)
  next
    case (Some acct)
    obtain acct' where acct': "account_of usr db' = Some acct'"
        "\<forall>c \<in> set (la_last_counter acct # ?u). c \<le> la_last_counter acct'" "\<forall>c \<in> set ?u. la_last_counter acct < c"
      using decide_counter [OF Some, of sign hotp a now] db' by auto
    have old: "c \<le> la_last_counter acct" if "c \<in> set (used_counters usr h)" for c
      using attempt.IH Some that by auto
    have "c < c'" if "c \<in> set (used_counters usr h)" "c' \<in> set ?u" for c c'
      using old [OF that(1)] acct'(3) that(2) by fastforce
    then have "sorted_wrt (<) (used_counters usr (h @ traces sign hotp a now db))"
      using attempt.IH used_single [of usr sign hotp a now db] by (auto simp: used_append sorted_wrt_append)
    moreover have "c \<le> la_last_counter acct'" if "c \<in> set (used_counters usr h) \<union> set ?u" for c
      using that old acct'(2) by fastforce
    ultimately show ?thesis using acct'(1) by (auto simp: used_append)
  qed
next
  case (other h t db db')
  then show ?case by (metis order_trans)
qed

text \<open>
  C10: a one-time code is accepted at most once. In any run of sign-in attempts, concurrent ones included since
  each decides in one writing transaction, the counters that admitted sign-ins of a user strictly increase, so
  that no counter is used twice and none after a later one; the counter of each lies within one step of
  its time.
\<close>
theorem codes_single_use:
  assumes "sign_in_run sign hotp db0 h t db"
  shows "sorted_wrt (<) (used_counters usr h) \<and>
    (\<forall>a now db' u acct secret. decide sign hotp a now db = (db', Inr (u, acct)) \<and> factor acct = Some secret \<longrightarrow>
      (\<exists>c code. tr_code a = JStr code \<and> totp_code hotp secret c = Some code \<and> \<bar>c - \<lfloor>now / 30\<rfloor>\<bar> \<le> 1 \<and>
        (\<forall>c' \<in> set (used_counters (us_id u) h). c' < c)))"
proof (intro conjI allI impI)
  show "sorted_wrt (<) (used_counters usr h)" using used_counters_run [OF assms] by simp
  fix a now db' u acct secret
  assume d: "decide sign hotp a now db = (db', Inr (u, acct)) \<and> factor acct = Some secret"
  then obtain counter where j: "judge sign hotp a now db = Admitted (u, acct) counter"
    by (auto simp: decide_def Let_def split: verdict.splits option.splits prod.splits)
  then obtain c where c: "verify_totp hotp secret (tr_code a) now (la_last_counter acct) = Some c"
    using d by (fastforce simp: judge_def split: option.splits if_splits)
  have "c' < c" if "c' \<in> set (used_counters (us_id u) h)" for c'
    using used_counters_run [OF assms, of "us_id u"] judge_Admitted(1) [OF j] verify_totp_sound [OF c] that by fastforce
  then show "\<exists>c code. tr_code a = JStr code \<and> totp_code hotp secret c = Some code \<and> \<bar>c - \<lfloor>now / 30\<rfloor>\<bar> \<le> 1 \<and>
      (\<forall>c' \<in> set (used_counters (us_id u) h). c' < c)"
    using verify_totp_sound [OF c] by blast
qed

text \<open>A user with a second factor, who signs in with the code of the current step.\<close>

definition example_user_id :: string where
  "example_user_id = ''00000000-0000-4000-8000-000000000001''"

definition example_user :: user where
  "example_user = \<lparr>us_id = example_user_id, us_issuer = ''local'', us_subject = ''s'', us_username = ''ann'', us_display_name = ''Ann'',
     us_enabled = 1, us_created = 0, us_last_login = 0, us_role = ''admin'', us_generation = 1, us_status = ''active''\<rparr>"

definition example_factor :: local_account where
  "example_factor = \<lparr>la_user_id = example_user_id, la_password_hash = Some ''h'', la_totp_secret = Some ''k'', la_totp_confirmed = True,
     la_last_counter = - 1, la_totp_streak = 0, la_totp_blocked_until = 0\<rparr>"

definition example_auth :: auth_db where
  "example_auth = \<lparr>ad_users = [example_user], ad_accounts = [example_factor], ad_failures = [],
     ad_sessions = [\<lparr>se_token = ''sid'', se_user_id = example_user_id, se_created = 0, se_last_used = 0, se_expires = 3600,
                     se_kind = ''admin'', se_generation = 1, se_reauthenticated_at = 0\<rparr>],
     ad_tokens = [], ad_enrollments = [], ad_used_tokens = [], ad_valid_after = 0, ad_audit = [], ad_admin_audit = []\<rparr>"

definition example_attempt :: "string \<Rightarrow> attempt" where
  "example_attempt code = \<lparr>tr_username = ''ann'', tr_user = Some (example_user, example_factor), tr_denied = False,
     tr_encoded = ''h'', tr_valid = True, tr_code = JStr code, tr_device = None, tr_exempt = False\<rparr>"

text \<open>A digest of 20 bytes whose code is the counter, for small counters.\<close>

definition example_hotp :: hotp where
  "example_hotp secret counter = Some (replicate 2 0 @ [0, counter] @ replicate 16 0)"

definition admitted_db :: auth_db where
  "admitted_db = example_auth\<lparr>ad_accounts := [example_factor\<lparr>la_last_counter := 3\<rparr>]\<rparr>"

lemma example_judge:
  "judge (\<lambda>p. p) example_hotp (example_attempt ''000003'') 100 example_auth = Admitted (example_user, example_factor) (Some 3)"
  by code_simp

lemma example_decide:
  "decide (\<lambda>p. p) example_hotp (example_attempt ''000003'') 100 example_auth = (admitted_db, Inr (example_user, example_factor))"
  by code_simp

lemma example_again:
  "decide (\<lambda>p. p) example_hotp (example_attempt ''000004'') 105 admitted_db =
     (admitted_db\<lparr>ad_accounts := [example_factor\<lparr>la_last_counter := 4\<rparr>]\<rparr>, Inr (example_user, example_factor\<lparr>la_last_counter := 3\<rparr>))"
  by code_simp

lemma example_sign_in:
  "sign_in_run (\<lambda>p. p) example_hotp example_auth ([] @ traces (\<lambda>p. p) example_hotp (example_attempt ''000003'') 100 example_auth) 100 admitted_db"
  using example_decide by (intro sign_in_run.attempt [where t = 0] sign_in_run.start) simp_all

theorem codes_single_use_witness:
  "\<exists>h. used_counters example_user_id h = [3] \<and>
     (\<exists>c code. JStr ''000004'' = JStr code \<and> totp_code example_hotp ''k'' c = Some code \<and> (\<forall>c' \<in> set (used_counters example_user_id h). c' < c))"
proof -
  let ?h = "[] @ traces (\<lambda>p. p) example_hotp (example_attempt ''000003'') 100 example_auth"
  have "used_counters example_user_id ?h = [3]"
    by (simp add: traces_def example_judge used_counters_def) (simp add: example_user_def)
  moreover have "factor (example_factor\<lparr>la_last_counter := 3\<rparr>) = Some ''k''" by code_simp
  ultimately show ?thesis
    using codes_single_use [OF example_sign_in, of "example_user_id"] example_again
    by (fastforce simp: example_attempt_def example_user_def)
qed

section \<open>Guesses in a window\<close>

definition budget :: "string \<Rightarrow> nat" where
  "budget kind = (if kind = ''password'' then PASSWORD_FAILURES else TOTP_FAILURES)"

definition stored_times :: "string \<Rightarrow> string \<Rightarrow> auth_db \<Rightarrow> rat list" where
  "stored_times usr kind db = map af_created (filter (\<lambda>f. af_user_id f = usr \<and> af_kind f = kind) (ad_failures db))"

definition guess_times :: "string \<Rightarrow> string \<Rightarrow> trace list \<Rightarrow> rat list" where
  "guess_times usr kind h =
     concat (map (\<lambda>x. case x of
        Bad_Code v t \<Rightarrow> if v = usr \<and> kind = ''totp'' then [t] else []
      | Bad_Password v t \<Rightarrow> if v = usr \<and> kind = ''password'' then [t] else []
      | Used _ _ \<Rightarrow> []) h)"

lemma guess_append: "guess_times usr kind (h @ h') = guess_times usr kind h @ guess_times usr kind h'"
  by (simp add: guess_times_def)

lemma stored_with [simp]: "stored_times usr kind (with_account v f db) = stored_times usr kind db"
  by (simp add: stored_times_def with_account_def)

lemma failure_count_stored: "failure_count db usr kind now = length (filter (\<lambda>x. now - WINDOW_SECONDS < x) (stored_times usr kind db))"
  by (simp add: failure_count_def stored_times_def filter_map o_def conj_commute conj_left_commute)

abbreviation kept_failures :: "string \<Rightarrow> rat \<Rightarrow> auth_db \<Rightarrow> auth_failure list" where
  "kept_failures v now db \<equiv> delete_where (\<lambda>f. af_user_id f = v \<and> af_created f \<le> now - WINDOW_SECONDS) (ad_failures db)"

lemma kept_in_window:
  assumes "now - WINDOW_SECONDS \<le> c"
  shows "filter ((<) c) (map af_created (filter (\<lambda>f. af_user_id f = usr \<and> af_kind f = kind) (kept_failures v now db))) =
    filter ((<) c) (stored_times usr kind db)"
  using assms unfolding stored_times_def delete_where_def filter_map filter_filter o_def
  by (auto intro!: arg_cong [where f = "map af_created"] filter_cong)

lemma failure_rows:
  "ad_failures (failure v k now db) = kept_failures v now db @
     (if failure_count db v k now < budget k then [\<lparr>af_user_id = v, af_kind = k, af_created = now\<rparr>] else [])"
proof -
  have "failure_count (db\<lparr>ad_failures := kept_failures v now db\<rparr>) v k now = failure_count db v k now"
    unfolding failure_count_def delete_where_def by (auto intro!: arg_cong [where f = length] filter_cong)
  then show ?thesis by (simp add: failure_def Let_def budget_def)
qed

lemma stored_failure:
  assumes "now - WINDOW_SECONDS \<le> c"
  shows "filter ((<) c) (stored_times usr kind (failure v k now db)) = filter ((<) c) (stored_times usr kind db) @
    (if failure_count db v k now < budget k \<and> usr = v \<and> kind = k \<and> c < now then [now] else [])"
  using kept_in_window [OF assms, of usr kind v db]
  by (auto simp: stored_times_def [of usr kind "failure v k now db"] failure_rows)

text \<open>A wrong guess is charged only below the budget of its kind, and what the table keeps covers it.\<close>

lemma guess_step:
  shows "guess_times usr kind (traces sign hotp a now db) \<in> {[], [now]}"
    and "guess_times usr kind (traces sign hotp a now db) = [now] \<Longrightarrow> failure_count db usr kind now < budget kind"
    and "now - WINDOW_SECONDS \<le> c \<Longrightarrow>
      length (filter ((<) c) (stored_times usr kind db)) + length (filter ((<) c) (guess_times usr kind (traces sign hotp a now db)))
        \<le> length (filter ((<) c) (stored_times usr kind (fst (decide sign hotp a now db))))"
proof -
  show "guess_times usr kind (traces sign hotp a now db) \<in> {[], [now]}"
    by (auto simp: guess_times_def traces_def split: verdict.splits option.splits if_splits prod.splits)
  show "failure_count db usr kind now < budget kind" if "guess_times usr kind (traces sign hotp a now db) = [now]"
    using that by (auto simp: guess_times_def traces_def budget_def dest: eligible_budget split: verdict.splits option.splits if_splits prod.splits)
  show "length (filter ((<) c) (stored_times usr kind db)) + length (filter ((<) c) (guess_times usr kind (traces sign hotp a now db)))
      \<le> length (filter ((<) c) (stored_times usr kind (fst (decide sign hotp a now db))))" if "now - WINDOW_SECONDS \<le> c"
    using eligible_budget [of sign a now db]
    by (auto simp: guess_times_def traces_def decide_def Let_def stored_failure [OF that] budget_def
        split: verdict.splits option.splits prod.splits)
qed

interpretation gw: sliding_window WINDOW_SECONDS "budget kind" for kind
  by unfold_locales (simp add: WINDOW_SECONDS_def)

definition guess_inv :: "string \<Rightarrow> rat \<Rightarrow> rat list \<Rightarrow> rat list \<Rightarrow> bool" where
  "guess_inv kind t hist kept \<longleftrightarrow> (\<forall>x \<in> set hist. x \<le> t) \<and> gw.bounded kind hist \<and>
     (\<forall>c \<ge> t - WINDOW_SECONDS. length (filter ((<) c) hist) \<le> length (filter ((<) c) kept))"

lemma guess_inv_run:
  assumes "sign_in_run sign hotp db0 h t db" "ad_failures db0 = []"
  shows "guess_inv kind t (guess_times usr kind h) (stored_times usr kind db)"
  using assms
proof (induction rule: sign_in_run.induct)
  case (start t)
  then show ?case by (simp add: guess_inv_def guess_times_def gw.bounded_Nil)
next
  case (attempt h t db now a db' r)
  let ?g = "guess_times usr kind (traces sign hotp a now db)" and ?h = "guess_times usr kind h"
  have db': "db' = fst (decide sign hotp a now db)" using attempt.hyps(3) by simp
  have inv: "\<forall>x \<in> set ?h. x \<le> now" "gw.bounded kind ?h"
      "\<forall>c \<ge> now - WINDOW_SECONDS. length (filter ((<) c) ?h) \<le> length (filter ((<) c) (stored_times usr kind db))"
    using attempt.IH [OF attempt.prems] attempt.hyps(2) by (force simp: guess_inv_def)+
  have "gw.bounded kind (?h @ ?g)"
  proof (cases "?g = []")
    case False
    then have g: "?g = [now]" using guess_step(1) [of usr kind sign hotp a now db] by simp
    then show ?thesis
      using gw.bounded_append [OF inv(2,1)] inv(3) guess_step(2) [OF g]
      by (simp add: failure_count_stored) (meson le_less_trans order_refl)
  qed (simp add: inv(2))
  moreover have "\<forall>x \<in> set (?h @ ?g). x \<le> now"
    using inv(1) guess_step(1) [of usr kind sign hotp a now db] by auto
  moreover have "length (filter ((<) c) (?h @ ?g)) \<le> length (filter ((<) c) (stored_times usr kind db'))"
    if "now - WINDOW_SECONDS \<le> c" for c
    using inv(3) guess_step(3) [OF that, of usr kind db sign hotp a] that unfolding db' by fastforce
  ultimately show ?case by (simp add: guess_inv_def guess_append)
next
  case (other h t db db')
  then show ?case by (simp add: stored_times_def)
qed


lemma example_wrong:
  "judge (\<lambda>p. p) example_hotp (example_attempt ''000009'') 100 example_auth = Wrong_Code"
  "eligible (\<lambda>p. p) (example_attempt ''000009'') 100 example_auth = Some (example_user, example_factor)"
  by code_simp+


section \<open>Revocation\<close>

text \<open>Edits of the row of one user that keep its keys and raise its generation by \<open>n\<close>.\<close>

definition bumped :: "string \<Rightarrow> int \<Rightarrow> user list \<Rightarrow> user list \<Rightarrow> bool" where
  "bumped usr n us us' \<longleftrightarrow> (\<exists>h. us' = update_where (\<lambda>u. us_id u = usr) h us \<and>
     (\<forall>x. us_id (h x) = us_id x \<and> us_issuer (h x) = us_issuer x \<and> us_subject (h x) = us_subject x \<and>
          us_generation (h x) = us_generation x + n))"

lemma bumped_refl: "bumped usr 0 us us"
  unfolding bumped_def update_where_def by (rule exI [of _ "\<lambda>x. x"]) simp

lemma bumped_update:
  "(\<And>x. us_id (h x) = us_id x \<and> us_issuer (h x) = us_issuer x \<and> us_subject (h x) = us_subject x \<and>
     us_generation (h x) = us_generation x + n) \<Longrightarrow> bumped usr n us (update_where (\<lambda>u. us_id u = usr) h us)"
  unfolding bumped_def by blast

lemma bumped_trans:
  assumes "bumped usr n us us'" "bumped usr m us' us''"
  shows "bumped usr (n + m) us us''"
proof -
  obtain h g where h: "us' = update_where (\<lambda>u. us_id u = usr) h us" "us'' = update_where (\<lambda>u. us_id u = usr) g us'"
      "\<forall>x. us_id (h x) = us_id x \<and> us_issuer (h x) = us_issuer x \<and> us_subject (h x) = us_subject x \<and> us_generation (h x) = us_generation x + n"
      "\<forall>x. us_id (g x) = us_id x \<and> us_issuer (g x) = us_issuer x \<and> us_subject (g x) = us_subject x \<and> us_generation (g x) = us_generation x + m"
    using assms unfolding bumped_def by metis
  have "us'' = update_where (\<lambda>u. us_id u = usr) (\<lambda>x. g (h x)) us"
    unfolding h(1,2) update_where_def using h(3) by (induction us) auto
  then show ?thesis unfolding bumped_def using h(3,4) by (intro exI [of _ "\<lambda>x. g (h x)"]) simp
qed

lemma with_account_rows [simp]:
  "ad_users (with_account usr f db) = ad_users db" "ad_sessions (with_account usr f db) = ad_sessions db"
  by (simp_all add: with_account_def)

lemma with_user_rows [simp]:
  "ad_users (with_user usr f db) = update_where (\<lambda>u. us_id u = usr) f (ad_users db)"
  "ad_sessions (with_user usr f db) = ad_sessions db"
  by (simp_all add: with_user_def)

lemma edit_account_rows:
  assumes "edit_account action v u db = Inr (db', details)"
  shows "bumped (us_id u) 0 (ad_users db) (ad_users db')" "ad_sessions db' = ad_sessions db"
  using assms
  by (auto simp: edit_account_def intro!: bumped_update bumped_refl split: if_splits json.splits)

lemma security_change_rows:
  "bumped usr 1 (ad_users db) (ad_users (security_change usr db))"
  "ad_sessions (security_change usr db) = delete_where (\<lambda>s. se_user_id s = usr) (ad_sessions db)"
  by (simp_all add: security_change_def bumped_update)

lemma reset_account_rows:
  "bumped usr 0 (ad_users db) (ad_users (reset_account action usr db))"
  "ad_sessions (reset_account action usr db) = ad_sessions db"
  by (simp_all add: reset_account_def bumped_update bumped_refl)

lemma link_token_rows:
  "link_token i th usr purpose now db = Inr db' \<Longrightarrow> ad_users db' = ad_users db \<and> ad_sessions db' = ad_sessions db"
  by (auto simp: link_token_def split: option.splits if_splits)

lemma set_pending_rows:
  "bumped usr 0 (ad_users db) (ad_users (set_pending usr db))" "ad_sessions (set_pending usr db) = ad_sessions db"
  by (simp_all add: set_pending_def bumped_update bumped_refl)

lemma issue_link_rows:
  assumes "issue_link action i th usr now db = Inr db'"
  shows "bumped usr 0 (ad_users db) (ad_users db') \<and> ad_sessions db' = ad_sessions db"
  using assms set_pending_rows [of usr db] unfolding issue_link_def
  by (auto dest!: link_token_rows split: option.splits)

lemma target_Inr: "target usr db = Inr u \<Longrightarrow> find_where (\<lambda>u. us_id u = usr) (ad_users db) = Some u \<and> uuid_re usr"
  by (auto simp: target_def uuid_def rbind_def split: if_splits option.splits)

lemma change_accountE:
  assumes "change_account idle sid usr action v tid th now db = Inr db'"
  obtains u db1 details db3 audit where "find_where (\<lambda>u. us_id u = usr) (ad_users db) = Some u"
    "edit_account action v u db = Inr (db1, details)" "action \<in> set account_actions"
    "issue_link action tid th usr now (reset_account action usr (security_change usr db1)) = Inr db3"
    "db' = db3\<lparr>ad_admin_audit := audit\<rparr>"
proof -
  obtain actor u db1 details where *: "action \<in> set account_actions" "target usr db = Inr u" "edit_account action v u db = Inr (db1, details)"
    using assms unfolding change_account_def by (auto simp: rbind_eq_Inr split: if_splits)
  then have "\<exists>db3 audit. issue_link action tid th usr now (reset_account action usr (security_change usr db1)) = Inr db3 \<and>
      db' = db3\<lparr>ad_admin_audit := audit\<rparr>"
    using assms unfolding change_account_def by (auto simp: rbind_eq_Inr Let_def split: if_splits)
  then show thesis using * target_Inr [OF *(2)] that by blast
qed

lemma change_account_rows:
  assumes "change_account idle sid usr action v tid th now db = Inr db'"
  shows "bumped usr 1 (ad_users db) (ad_users db') \<and>
    ad_sessions db' = delete_where (\<lambda>s. se_user_id s = usr) (ad_sessions db)"
proof -
  obtain u db1 details db3 where u: "find_where (\<lambda>u. us_id u = usr) (ad_users db) = Some u"
    and e: "edit_account action v u db = Inr (db1, details)"
    and l: "issue_link action tid th usr now (reset_account action usr (security_change usr db1)) = Inr db3"
    and d: "ad_users db' = ad_users db3" "ad_sessions db' = ad_sessions db3"
    by (rule change_accountE [OF assms]) simp
  have id: "us_id u = usr" using find_where_SomeD [OF u] by simp
  have "bumped usr (0 + (1 + (0 + 0))) (ad_users db) (ad_users db3)"
    using issue_link_rows [OF l]
    by (intro bumped_trans [OF edit_account_rows(1) [OF e, unfolded id]] bumped_trans [OF security_change_rows(1)]
        bumped_trans [OF reset_account_rows(1) [where action = action]]) simp
  then show ?thesis
    using d issue_link_rows [OF l] edit_account_rows(2) [OF e] by (simp add: reset_account_rows(2) security_change_rows(2))
qed

lemma bumped_user:
  assumes "bumped usr n us us'" "u \<in> set us" "us_id u = usr"
  obtains u' where "u' \<in> set us'" "us_id u' = usr" "us_issuer u' = us_issuer u" "us_subject u' = us_subject u"
    "us_generation u' = us_generation u + n"
proof -
  obtain h where "us' = update_where (\<lambda>u. us_id u = usr) h us"
      "\<forall>x. us_id (h x) = us_id x \<and> us_issuer (h x) = us_issuer x \<and> us_subject (h x) = us_subject x \<and> us_generation (h x) = us_generation x + n"
    using assms(1) unfolding bumped_def by blast
  then show ?thesis using assms(2,3) that [of "h u"] by (auto simp: set_update_where)
qed

lemma bumped_subject:
  assumes "bumped usr n us us'" "u \<in> set us" "us_id u = usr" "r \<in> set us'" "us_issuer r = us_issuer u" "us_subject r = us_subject u"
    and unique: "\<And>x. x \<in> set us \<Longrightarrow> us_issuer x = us_issuer u \<Longrightarrow> us_subject x = us_subject u \<Longrightarrow> x = u"
  shows "us_generation r = us_generation u + n"
proof -
  obtain h where h: "us' = update_where (\<lambda>u. us_id u = usr) h us"
      "\<forall>x. us_id (h x) = us_id x \<and> us_issuer (h x) = us_issuer x \<and> us_subject (h x) = us_subject x \<and> us_generation (h x) = us_generation x + n"
    using assms(1) unfolding bumped_def by blast
  from assms(4) [unfolded h(1)] show ?thesis
  proof (cases rule: in_update_whereE)
    case (1 x)
    then have "x = u" using unique [of x] h(2) assms(5,6) by simp
    then show ?thesis using 1 h(2) by simp
  next
    case 2
    then show ?thesis using unique [of r] assms(3,5,6) by simp
  qed
qed


lemma example_change:
  "\<exists>db'. change_account 3600 ''sid'' example_user_id ''revoke-sessions'' JNull ''t'' ''h'' 100 example_auth = Inr db'"
proof -
  have "(case change_account 3600 ''sid'' example_user_id ''revoke-sessions'' JNull ''t'' ''h'' 100 example_auth of Inl _ \<Rightarrow> False | Inr _ \<Rightarrow> True)"
    by code_simp
  then show ?thesis by (auto split: sum.splits)
qed


section \<open>Password hashes\<close>

lemma hex_value_char: "0 \<le> d \<Longrightarrow> d < 16 \<Longrightarrow> hex_value (hex_char (nat d)) = Some d \<and> \<not> white (hex_char (nat d)) \<and> hex_char (nat d) \<noteq> CHR ''$''"
proof -
  have "list_all (\<lambda>k. hex_value (hex_char (nat k)) = Some k \<and> \<not> white (hex_char (nat k)) \<and> hex_char (nat k) \<noteq> CHR ''$'') [0 .. 15]"
    by code_simp
  then show "0 \<le> d \<Longrightarrow> d < 16 \<Longrightarrow> ?thesis" by (simp add: list_all_iff)
qed

abbreviation octets_ok :: "octets \<Rightarrow> bool" where
  "octets_ok \<equiv> list_all (\<lambda>b. 0 \<le> b \<and> b < 256)"

lemma hex_digits:
  assumes "0 \<le> b" "b < (256 :: int)"
  shows "0 \<le> b div 16" "b div 16 < 16" "0 \<le> b mod 16" "b mod 16 < 16" "16 * (b div 16) + b mod 16 = b"
  using assms by auto

lemma fromhex_hex_of: "octets_ok bs \<Longrightarrow> fromhex (hex_of bs) = Some bs"
proof (induction bs)
  case (Cons b bs)
  then show ?case using hex_value_char [OF hex_digits(1,2)] hex_value_char [OF hex_digits(3,4)] hex_digits(5) [of b]
    by (simp add: hex_of_def)
qed (simp add: hex_of_def)

lemma hex_of_plain: "octets_ok bs \<Longrightarrow> CHR ''$'' \<notin> set (hex_of bs)"
  using hex_value_char [OF hex_digits(1,2)] hex_value_char [OF hex_digits(3,4)] by (induction bs) (force simp: hex_of_def)+

lemma length_hex_of: "length (hex_of bs) = 2 * length bs"
  by (induction bs) (simp_all add: hex_of_def)

lemma cost_text:
  assumes "n \<in> {8192, 16384, 32768}" "1 \<le> p" "p \<le> 10"
  shows "python_int (int_text n) = Some n \<and> CHR ''$'' \<notin> set (int_text n)" "python_int (int_text p) = Some p \<and> CHR ''$'' \<notin> set (int_text p)"
proof -
  have "list_all (\<lambda>k. python_int (int_text k) = Some k \<and> CHR ''$'' \<notin> set (int_text k)) ([8192, 16384, 32768] @ [1 .. 10])"
    by code_simp
  then show "python_int (int_text n) = Some n \<and> CHR ''$'' \<notin> set (int_text n)" "python_int (int_text p) = Some p \<and> CHR ''$'' \<notin> set (int_text p)"
    using assms by (auto simp: list_all_iff)
qed

text \<open>
  C15: a stored password verifies exactly the passwords with the same key. What \<open>hash_password\<close> writes at an
  admitted cost is read back by \<open>verify_password\<close> with its salt and cost: a password of at most 1024 bytes is
  accepted if and only if \<open>scrypt\<close> gives the stored key, and a rehash is asked for if and only if it is
  accepted and the cost is not the current one. For \<open>scrypt\<close> it is assumed that a key has 64 bytes.
\<close>
theorem password_hash_roundtrip:
  assumes "hash_password scrypt salt n p v = Inr encoded" "octets_ok salt" "length salt = 16"
    and "\<And>w. octets_ok (scrypt w salt n p) \<and> length (scrypt w salt n p) = 64"
  shows "verify_password scrypt w encoded =
    (let valid = utf8_len w \<le> 1024 \<and> scrypt w salt n p = scrypt v salt n p in (valid, valid \<and> (n, p) \<noteq> (SCRYPT_N, SCRYPT_P)))"
proof -
  let ?parts = "[''scrypt'', int_text n, int_text SCRYPT_R, int_text p, hex_of salt, hex_of (scrypt v salt n p)]"
  have cost: "n \<in> {8192, 16384, 32768}" "1 \<le> p" "p \<le> 10" and encoded: "encoded = join_with [CHR ''$''] ?parts"
    using assms(1) by (auto simp: hash_password_def split: if_splits)
  have r: "python_int (int_text SCRYPT_R) = Some 8" "CHR ''$'' \<notin> set (int_text SCRYPT_R)" by code_simp+
  have "split_char (CHR ''$'') encoded = ?parts"
    unfolding encoded using r cost_text [OF cost] hex_of_plain assms(2,4) by (intro split_join) auto
  then show ?thesis
    using r cost cost_text [OF cost] fromhex_hex_of assms(2-4)
    by (auto simp: verify_password_def Let_def length_hex_of SCRYPT_R_def)
qed

theorem password_hash_roundtrip_witness:
  "\<exists>encoded. hash_password (\<lambda>w s n p. replicate 64 (int (length w) mod 256)) (replicate 16 7) 16384 1 ''correct'' = Inr encoded \<and>
     verify_password (\<lambda>w s n p. replicate 64 (int (length w) mod 256)) ''correct'' encoded = (True, True) \<and>
     verify_password (\<lambda>w s n p. replicate 64 (int (length w) mod 256)) ''wrong'' encoded = (False, False)"
proof -
  let ?scrypt = "\<lambda>w s n p. replicate 64 (int (length w) mod 256)"
  obtain encoded where e: "hash_password ?scrypt (replicate 16 7) 16384 1 ''correct'' = Inr encoded"
    by (simp add: hash_password_def)
  have "verify_password ?scrypt w encoded =
      (let valid = utf8_len w \<le> 1024 \<and> ?scrypt w (replicate 16 7) 16384 1 = ?scrypt ''correct'' (replicate 16 7) 16384 1
       in (valid, valid \<and> (16384, 1) \<noteq> (SCRYPT_N, SCRYPT_P)))" for w
    by (rule password_hash_roundtrip [OF e]) (simp_all add: list_all_iff)
  moreover have "utf8_len ''correct'' \<le> 1024" "utf8_len ''wrong'' \<le> 1024" by code_simp+
  ultimately show ?thesis using e by (simp add: SCRYPT_N_def)
qed

end
