(* ===== verification/Broker_Enrollment.thy ===== *)
theory Broker_Enrollment
  imports Broker_Sign_In
begin

text \<open>
  Enrollment of local accounts in the management broker (\<open>management/broker/accounts.py\<close>, the checks of
  \<open>local_security.py\<close> and \<open>bootstrap.py\<close>): one-time links, the two transactions of \<open>enroll\<close>, \<open>finish\<close> and
  \<open>create\<close>. Between the transactions of \<open>enroll\<close> the password is hashed and any other transaction may run, so
  the second one works with what the first has read. The theory shows that no interleaving makes an admin
  active without a confirmed second factor, and that a link is used once.
\<close>

section \<open>Fields\<close>

definition name_char :: "char \<Rightarrow> bool" where
  "name_char c \<longleftrightarrow> is_lower c \<or> is_digit c \<or> c \<in> set ''._-''"

text \<open>\<open>local_security.username\<close>; the dash of the message is a hyphen here.\<close>

definition username :: "json \<Rightarrow> string result" where
  "username v =
     (case v of
        JStr s \<Rightarrow>
          if s \<noteq> [] \<and> is_lower (hd s) \<and> list_all name_char (tl s) \<and> 3 \<le> length s \<and> length s \<le> 32 then Inr s
          else Inl (ValueError ''local username must be 3-32 lowercase letters, digits, dots, underscores or hyphens'')
      | _ \<Rightarrow> Inl (ValueError ''local username must be 3-32 lowercase letters, digits, dots, underscores or hyphens''))"

text \<open>\<open>str.casefold\<close> on the first 256 code points; what it gives for the micro sign is outside them and kept.\<close>

definition casefold :: "string \<Rightarrow> string" where
  "casefold s = concat (map (\<lambda>c.
     if is_upper c \<or> CHR 0xC0 \<le> c \<and> c \<le> CHR 0xDE \<and> c \<noteq> CHR 0xD7 then [char_of (of_char c + 32 :: nat)]
     else if c = CHR 0xDF then ''ss'' else [c]) s)"

definition password :: "json \<Rightarrow> string \<Rightarrow> string result" where
  "password v name =
     (case v of
        JStr s \<Rightarrow>
          if length s < 12 \<or> utf8_len s > 1024
          then Inl (ValueError ''password must contain at least 12 characters and at most 1024 UTF-8 bytes'')
          else if contains (casefold name) (casefold s) then Inl (ValueError ''password cannot contain the username'')
          else Inr s
      | _ \<Rightarrow> Inl (ValueError ''password must contain at least 12 characters and at most 1024 UTF-8 bytes''))"

text \<open>\<open>common.text\<close>\<close>

definition bounded_name :: "nat \<Rightarrow> json \<Rightarrow> string result" where
  "bounded_name maximum v =
     (case v of
        JStr s \<Rightarrow>
          if s = [] \<or> utf8_len s > maximum \<or> list_ex (\<lambda>c. of_char c < (32 :: nat) \<or> of_char c = (127 :: nat)) s
          then Inl (ValueError ''invalid text'') else Inr s
      | _ \<Rightarrow> Inl (ValueError ''invalid text''))"

text \<open>\<open>sha\<close> is the hexadecimal SHA-256 digest.\<close>

type_synonym sha = "string \<Rightarrow> string"

definition token_hash :: "sha \<Rightarrow> json \<Rightarrow> string result" where
  "token_hash sha v =
     (case v of
        JStr s \<Rightarrow> if mac_re s then Inr (sha s) else Inl (ValueError ''invalid one-time token'')
      | _ \<Rightarrow> Inl (ValueError ''invalid one-time token''))"

section \<open>Links\<close>

text \<open>
  \<open>bootstrap.read\<close>: the document the operator has left for the broker. \<open>file\<close> is its content, an error where
  the file is missing or its owner, mode or size is wrong; \<open>realm\<close> is the digest of the portal it is for, and
  \<open>number\<close> the value of an integer or floating-point number.
\<close>

definition split_link :: "string \<Rightarrow> (string \<times> string) option" where
  "split_link s = (case split_char (CHR ''.'') s of [a, b] \<Rightarrow> if length s \<le> 80 then Some (a, b) else None | _ \<Rightarrow> None)"

definition number :: "(string \<Rightarrow> rat) \<Rightarrow> json \<Rightarrow> rat option" where
  "number float v = (case v of JInt i \<Rightarrow> Some (of_int i) | JFloat s \<Rightarrow> Some (float s) | _ \<Rightarrow> None)"

definition document_fields :: "string list" where
  "document_fields = [''format'', ''id'', ''tokenHash'', ''created'', ''expires'', ''realm'']"

definition read_document :: "sha \<Rightarrow> (string \<Rightarrow> rat) \<Rightarrow> string \<Rightarrow> json result \<Rightarrow> string \<Rightarrow> rat \<Rightarrow> rat \<Rightarrow> (string \<times> rat) result" where
  "read_document sha float realm file link now valid_after =
     (case split_link link of
        None \<Rightarrow> Inl (ValueError ''invalid enrollment token'')
      | Some (identifier, token) \<Rightarrow>
          rbind (uuid ''UUID'' identifier) (\<lambda>_.
          rbind (token_hash sha (JStr token)) (\<lambda>supplied.
          rbind file (\<lambda>content.
          case content of
            JObj body \<Rightarrow>
              if dict_keys body \<noteq> set document_fields then Inl (ValueError ''invalid enrollment file'')
              else if jget body ''format'' \<noteq> JStr ''openstack-platform-admin-enrollment-v1'' \<or>
                jget body ''id'' \<noteq> JStr identifier \<or> jget body ''realm'' \<noteq> JStr realm
              then Inl (ValueError ''invalid enrollment binding'')
              else
                (case (number float (jget body ''created''), number float (jget body ''expires'')) of
                   (Some created, Some expires) \<Rightarrow>
                     if \<not> (valid_after < created \<and> created \<le> now) \<or> \<not> (now < expires \<and> expires \<le> created + 86400)
                     then Inl (ValueError ''expired enrollment token'')
                     else if jget body ''tokenHash'' \<noteq> JStr supplied \<or> length supplied \<noteq> 64
                     then Inl (ValueError ''invalid enrollment token'')
                     else Inr (identifier, expires)
                 | _ \<Rightarrow> Inl (ValueError ''expired enrollment token''))
          | _ \<Rightarrow> Inl (ValueError ''invalid enrollment file'')))))"

text \<open>What \<open>resolve_token\<close> gives, for an account or, with no user, for the first admin.\<close>

record resolved =
  rt_id :: string
  rt_purpose :: string
  rt_user :: "user option"

type_synonym bootstrap = "string \<Rightarrow> rat \<Rightarrow> rat \<Rightarrow> (string \<times> rat) result"

definition resolve_token :: "sha \<Rightarrow> bootstrap \<Rightarrow> json \<Rightarrow> rat \<Rightarrow> auth_db \<Rightarrow> resolved result" where
  "resolve_token sha bootstrap v now db =
     (case v of
        JStr s \<Rightarrow>
          (case split_link s of
             None \<Rightarrow> Inl (ValueError ''invalid token'')
           | Some (identifier, token) \<Rightarrow>
               rbind (uuid ''UUID'' identifier) (\<lambda>_.
               if list_ex (\<lambda>t. fst t = identifier) (ad_used_tokens db) then Inl (ValueError ''consumed token'')
               else
                 case find_where (\<lambda>t. tk_id t = identifier) (ad_tokens db) of
                   Some row \<Rightarrow>
                     rbind (target (tk_user_id row) db) (\<lambda>u.
                     if tk_failures row \<ge> 5 \<or> tk_expires row \<le> now \<or> tk_generation row \<noteq> us_generation u
                     then Inl (ValueError ''invalid account token'')
                     else
                       rbind (token_hash sha (JStr token)) (\<lambda>h.
                       if tk_token_hash row \<noteq> h \<or> us_issuer u \<noteq> ''local'' then Inl (ValueError ''invalid account token'')
                       else Inr \<lparr>rt_id = identifier, rt_purpose = tk_purpose row, rt_user = Some u\<rparr>))
                 | None \<Rightarrow>
                     rbind (bootstrap s now (ad_valid_after db)) (\<lambda>(document_id, _).
                     Inr \<lparr>rt_id = document_id, rt_purpose = ''bootstrap'', rt_user = None\<rparr>)))
      | _ \<Rightarrow> Inl (ValueError ''invalid token''))"

section \<open>The transactions of an enrollment\<close>

definition enroll_error :: "error \<Rightarrow> error" where
  "enroll_error e =
     (case e of
        HashCapacityError _ \<Rightarrow> HttpError 503 ''AUTH_UNAVAILABLE'' ''Enrollment is temporarily unavailable.''
      | IntegrityError \<Rightarrow> HttpError 409 ''ACCOUNT_UNAVAILABLE'' ''Choose another local username.''
      | ValueError _ \<Rightarrow> HttpError 403 ''TOKEN_INVALID'' ''The link or enrollment fields are invalid.''
      | ValidationError _ \<Rightarrow> HttpError 403 ''TOKEN_INVALID'' ''The link or enrollment fields are invalid.''
      | _ \<Rightarrow> e)"

definition enroll_fields_ok :: "jdict \<Rightarrow> bool" where
  "enroll_fields_ok body \<longleftrightarrow>
     {''csrfToken'', ''token'', ''password''} \<subseteq> dict_keys body \<and>
     dict_keys body \<subseteq> {''csrfToken'', ''token'', ''password'', ''username'', ''displayName'', ''totpEnabled'', ''totp'', ''role''}"

text \<open>What the first transaction has read when the second one starts.\<close>

record plan =
  ep_body :: jdict
  ep_id :: string
  ep_name :: string
  ep_role :: string
  ep_purpose :: string
  ep_prior :: "local_account option"
  ep_password :: "string option"
  ep_counter :: "int option"

definition prior_confirmed :: "plan \<Rightarrow> bool" where
  "prior_confirmed p = (case ep_prior p of None \<Rightarrow> False | Some a \<Rightarrow> la_totp_confirmed a)"

text \<open>\<open>verify_totp\<close> answers \<open>None\<close> for an account without a secret: the decoder raises a \<open>TypeError\<close>.\<close>

definition verify_factor :: "hotp \<Rightarrow> local_account \<Rightarrow> json \<Rightarrow> rat \<Rightarrow> int option" where
  "verify_factor hotp a code now =
     (case la_totp_secret a of None \<Rightarrow> None | Some secret \<Rightarrow> verify_totp hotp secret code now (la_last_counter a))"

definition caught :: "'a result \<Rightarrow> 'a result" where
  "caught m = (case m of Inl e \<Rightarrow> Inl (enroll_error e) | Inr x \<Rightarrow> Inr x)"

text \<open>
  The first transaction of \<open>enroll\<close>. A wrong code is counted on the link; the result then has no plan, and the
  response is that a fresh code is required. \<open>now\<close> is the clock of the transaction.
\<close>

definition enroll_begin :: "sha \<Rightarrow> hotp \<Rightarrow> bootstrap \<Rightarrow> jdict \<Rightarrow> rat \<Rightarrow> auth_db \<Rightarrow> (auth_db \<times> plan option) result" where
  "enroll_begin sha hotp bootstrap body now db =
     (if \<not> enroll_fields_ok body then Inl (HttpError 400 ''INVALID_REQUEST'' ''Invalid enrollment fields.'')
      else
        caught (
        rbind (resolve_token sha bootstrap (jget body ''token'') now db) (\<lambda>t.
        rbind (case rt_user t of None \<Rightarrow> username (jget body ''username'') | Some u \<Rightarrow> Inr (us_username u)) (\<lambda>name.
        rbind (if rt_purpose t \<noteq> ''totp-reset'' then rbind (password (jget body ''password'') name) (\<lambda>s. Inr (Some s)) else Inr None) (\<lambda>supplied.
        let prior = (case rt_user t of None \<Rightarrow> None | Some u \<Rightarrow> account_of (us_id u) db);
            p = \<lparr>ep_body = body, ep_id = rt_id t, ep_name = name,
                 ep_role = (case rt_user t of None \<Rightarrow> ''admin'' | Some u \<Rightarrow> us_role u), ep_purpose = rt_purpose t,
                 ep_prior = prior, ep_password = supplied, ep_counter = None\<rparr>
        in (case (rt_user t, prior) of
              (Some u, Some a) \<Rightarrow>
                if rt_purpose t = ''password-reset'' \<and> la_totp_confirmed a
                then (case verify_factor hotp a (jget body ''totp'') now of
                        None \<Rightarrow> Inr (db\<lparr>ad_tokens := update_where (\<lambda>k. tk_id k = rt_id t)
                                   (\<lambda>k. k\<lparr>tk_failures := min (tk_failures k + 1) 5\<rparr>) (ad_tokens db)\<rparr>, None)
                      | Some c \<Rightarrow> Inr (with_account (us_id u) (\<lambda>r. r\<lparr>la_last_counter := c\<rparr>) db, Some (p\<lparr>ep_counter := Some c\<rparr>)))
                else Inr (db, Some p)
            | _ \<Rightarrow> Inr (db, Some p)))))))"

definition totp_selected :: "jdict \<Rightarrow> bool result" where
  "totp_selected body =
     (case dict_get body ''totpEnabled'' of
        None \<Rightarrow> Inr False | Some (JBool b) \<Rightarrow> Inr b | Some _ \<Rightarrow> Inl (ValueError ''invalid TOTP selection''))"

definition enroll_factor :: "plan \<Rightarrow> bool \<Rightarrow> bool" where
  "enroll_factor p selected \<longleftrightarrow>
     ep_purpose p \<in> {''bootstrap'', ''totp-reset''} \<or>
     ep_purpose p \<in> {''invite'', ''password-reset''} \<and> (ep_role p = ''admin'' \<or> selected) \<and>
     \<not> (ep_purpose p = ''password-reset'' \<and> prior_confirmed p)"

text \<open>A local account that has to enroll: the rows the schema gives it, under its unique keys.\<close>

definition insert_local :: "string \<Rightarrow> string \<Rightarrow> string \<Rightarrow> string \<Rightarrow> string \<Rightarrow> rat \<Rightarrow> auth_db \<Rightarrow> (user \<times> auth_db) result" where
  "insert_local identifier subject name display role now db =
     (let u = \<lparr>us_id = identifier, us_issuer = ''local'', us_subject = subject, us_username = name, us_display_name = display,
               us_enabled = 1, us_created = now, us_last_login = 0, us_role = role, us_generation = 1, us_status = ''pending''\<rparr>;
          a = \<lparr>la_user_id = identifier, la_password_hash = None, la_totp_secret = None, la_totp_confirmed = False,
               la_last_counter = - 1, la_totp_streak = 0, la_totp_blocked_until = 0\<rparr>
      in if list_ex (\<lambda>x. us_id x = identifier \<or> us_issuer x = ''local'' \<and>
              (us_subject x = subject \<or> map lower_char (us_username x) = map lower_char name)) (ad_users db) \<or>
            list_ex (\<lambda>x. la_user_id x = identifier) (ad_accounts db)
         then Inl IntegrityError
         else Inr (u, db\<lparr>ad_users := ad_users db @ [u], ad_accounts := ad_accounts db @ [a]\<rparr>))"

text \<open>Fresh values: identifiers of a new user, the handle of the enrollment and the secret of a factor.\<close>

record fresh =
  fr_user_id :: string
  fr_subject :: string
  fr_handle :: string
  fr_secret :: string

definition unchanged_factor :: "plan \<Rightarrow> user \<Rightarrow> auth_db \<Rightarrow> unit result" where
  "unchanged_factor p u db =
     (if ep_purpose p = ''password-reset'' \<and> prior_confirmed p
      then (case account_of (us_id u) db of
              None \<Rightarrow> Inl TypeError
            | Some latest \<Rightarrow>
                if la_totp_secret latest \<noteq> la_totp_secret (the (ep_prior p)) \<or> Some (la_last_counter latest) \<noteq> ep_counter p
                then Inl (HttpError 403 ''TOKEN_INVALID'' ''This enrollment is unavailable.'')
                else Inr ())
      else Inr ())"

definition enrolled_user :: "fresh \<Rightarrow> plan \<Rightarrow> resolved \<Rightarrow> rat \<Rightarrow> auth_db \<Rightarrow> (user \<times> auth_db) result" where
  "enrolled_user f p t now db =
     (case rt_user t of
        Some u \<Rightarrow> Inr (u, db)
      | None \<Rightarrow>
          rbind (bounded_name 256 (case dict_get (ep_body p) ''displayName'' of None \<Rightarrow> JStr (ep_name p) | Some d \<Rightarrow> d)) (\<lambda>display.
          insert_local (fr_user_id f) (fr_subject f) (ep_name p) display ''admin'' now db))"

text \<open>
  The rest of \<open>enroll\<close>: the choice of a factor, the hash of the password, and the second transaction.
  \<open>browser\<close> is the digest that binds the enrollment to a browser, \<open>hashed\<close> the hashing of a password with a fresh salt.
\<close>

definition enroll_store ::
  "sha \<Rightarrow> bootstrap \<Rightarrow> (string \<Rightarrow> string result) \<Rightarrow> fresh \<Rightarrow> string \<Rightarrow> plan \<Rightarrow> rat \<Rightarrow> auth_db \<Rightarrow> auth_db result" where
  "enroll_store sha bootstrap hashed f browser p now db =
     caught (
     rbind (totp_selected (ep_body p)) (\<lambda>selected.
     rbind (case ep_password p of None \<Rightarrow> Inr None | Some s \<Rightarrow> rbind (hashed s) (\<lambda>h. Inr (Some h))) (\<lambda>encoded.
     rbind (resolve_token sha bootstrap (jget (ep_body p) ''token'') now db) (\<lambda>t.
     rbind (enrolled_user f p t now db) (\<lambda>(u, db1).
     rbind (unchanged_factor p u db1) (\<lambda>_.
     rbind (token_hash sha (JStr (fr_handle f))) (\<lambda>handle.
     let kept = delete_where (\<lambda>e. en_expires e \<le> now) (ad_enrollments db1);
         row = \<lparr>en_token_hash = handle, en_user_id = us_id u, en_generation = us_generation u, en_binder_hash = browser,
                en_purpose = ep_purpose p, en_secret = (if enroll_factor p selected then Some (fr_secret f) else None),
                en_password_hash = encoded, en_expires = now + 600, en_failures = 0\<rparr>
     in if list_ex (\<lambda>x. fst x = rt_id t) (ad_used_tokens db1) \<or> list_ex (\<lambda>e. en_token_hash e = handle) kept
        then Inl IntegrityError
        else Inr (db1\<lparr>ad_used_tokens := ad_used_tokens db1 @ [(rt_id t, ep_purpose p, now)],
                      ad_tokens := delete_where (\<lambda>k. tk_id k = rt_id t) (ad_tokens db1),
                      ad_enrollments := kept @ [row],
                      ad_admin_audit := ad_admin_audit db1 @
                        [\<lparr>aa_actor_id = None, aa_target_id = Some (us_id u), aa_action = ''enrollment_started'',
                          aa_details = [(''purpose'', JStr (ep_purpose p))], aa_created = now\<rparr>]\<rparr>))))))))"

section \<open>Completion\<close>

text \<open>
  The code a completion needs: \<open>None\<close> when it is wrong, \<open>Some None\<close> when none is needed. A code for an enrollment
  without a new secret has to be one of the confirmed factor.
\<close>

definition completion_code :: "hotp \<Rightarrow> enrollment \<Rightarrow> json \<Rightarrow> rat \<Rightarrow> auth_db \<Rightarrow> int option option" where
  "completion_code hotp row totp now db =
     (case en_secret row of
        Some (c # cs) \<Rightarrow> map_option Some (verify_totp hotp (c # cs) totp now (- 1))
      | _ \<Rightarrow>
          if json_true totp
          then (case account_of (en_user_id row) db of
                  Some a \<Rightarrow> if la_totp_confirmed a then map_option Some (verify_factor hotp a totp now) else None
                | None \<Rightarrow> None)
          else Some None)"

text \<open>The updates of a completed enrollment, before the change of generation.\<close>

definition enroll_account :: "enrollment \<Rightarrow> int option \<Rightarrow> local_account \<Rightarrow> local_account" where
  "enroll_account row counter a =
     (let a1 = (if counter \<noteq> None then a\<lparr>la_last_counter := the counter\<rparr> else a);
          a2 = (if en_password_hash row \<noteq> None then a1\<lparr>la_password_hash := en_password_hash row\<rparr> else a1)
      in if en_secret row \<notin> {None, Some []} then a2\<lparr>la_totp_secret := en_secret row, la_totp_confirmed := True\<rparr> else a2)"

definition complete_enrollment :: "enrollment \<Rightarrow> int option \<Rightarrow> auth_db \<Rightarrow> auth_db" where
  "complete_enrollment row counter db =
     (let db1 = with_account (en_user_id row) (enroll_account row counter) db;
          db2 = (if en_purpose row \<in> {''bootstrap'', ''invite'', ''totp-reset'', ''password-reset''}
                 then with_user (en_user_id row) (\<lambda>u. u\<lparr>us_status := ''active''\<rparr>) db1 else db1)
      in security_change (en_user_id row) db2)"

datatype completion = Code_Rejected | To_Sign_In | Signed_In

text \<open>\<open>old\<close> and \<open>token\<close> are the digests of the session cookies, as for \<open>mint\<close>.\<close>

definition finish_enrollment ::
  "sha \<Rightarrow> hotp \<Rightarrow> rat \<Rightarrow> string option \<Rightarrow> string \<Rightarrow> string \<Rightarrow> json \<Rightarrow> json \<Rightarrow> rat \<Rightarrow> auth_db \<Rightarrow> (auth_db \<times> completion) result" where
  "finish_enrollment sha hotp absolute_seconds old token browser handle totp now db =
     (case token_hash sha handle of
        Inl _ \<Rightarrow> Inl (HttpError 403 ''TOKEN_INVALID'' ''This enrollment is unavailable.'')
      | Inr h \<Rightarrow>
          (case find_where (\<lambda>e. en_token_hash e = h) (ad_enrollments db) of
             None \<Rightarrow> Inl (HttpError 403 ''TOKEN_INVALID'' ''This enrollment is unavailable or expired.'')
           | Some row \<Rightarrow>
               if en_expires row \<le> now \<or> en_failures row \<ge> 5 \<or> en_binder_hash row \<noteq> browser
               then Inl (HttpError 403 ''TOKEN_INVALID'' ''This enrollment is unavailable or expired.'')
               else
                 rbind (target (en_user_id row) db) (\<lambda>u.
                 if us_generation u \<noteq> en_generation row
                 then Inl (HttpError 403 ''TOKEN_INVALID'' ''This enrollment is unavailable.'')
                 else
                   case completion_code hotp row totp now db of
                     None \<Rightarrow>
                       Inr (db\<lparr>ad_enrollments := update_where (\<lambda>e. en_token_hash e = h)
                                 (\<lambda>e. e\<lparr>en_failures := en_failures e + 1\<rparr>) (ad_enrollments db)\<rparr>, Code_Rejected)
                   | Some counter \<Rightarrow>
                       if us_role u = ''admin'' \<and> en_purpose row \<noteq> ''password-reset'' \<and> counter = None
                       then Inl (HttpError 401 ''INVALID_CREDENTIALS'' ''Admin accounts require authentication-code enrollment.'')
                       else
                         let db1 = complete_enrollment row counter db;
                             db2 = db1\<lparr>ad_admin_audit := ad_admin_audit db1 @
                               [\<lparr>aa_actor_id = None, aa_target_id = Some (us_id u), aa_action = ''enrollment_completed'',
                                 aa_details = [(''purpose'', JStr (en_purpose row)), (''generation'', JInt (us_generation u + 1))],
                                 aa_created = now\<rparr>]\<rparr>
                         in rbind (target (us_id u) db2) (\<lambda>latest.
                            if en_purpose row = ''totp-reset'' \<or> us_enabled latest = 0 then Inr (db2, To_Sign_In)
                            else Inr (mint absolute_seconds old token latest (us_role latest = ''admin'' \<and> counter \<noteq> None)
                                        (if counter \<noteq> None then Some now else None) now db2, Signed_In)))))"

text \<open>\<open>Accounts.create\<close>, with the rows it inserts and the link it issues in one transaction.\<close>

definition invite_local ::
  "fresh \<Rightarrow> string \<Rightarrow> string \<Rightarrow> string \<Rightarrow> string \<Rightarrow> string \<Rightarrow> rat \<Rightarrow> auth_db \<Rightarrow> (user \<times> auth_db) result" where
  "invite_local f name display role token_id hash now db =
     rbind (insert_local (fr_user_id f) (fr_subject f) name display role now db) (\<lambda>(u, db1).
     rbind (link_token token_id hash (us_id u) ''invite'' now db1) (\<lambda>db2. Inr (u, db2)))"

definition create_account ::
  "rat \<Rightarrow> string \<Rightarrow> json \<Rightarrow> json \<Rightarrow> json \<Rightarrow> fresh \<Rightarrow> string \<Rightarrow> string \<Rightarrow> rat \<Rightarrow> auth_db \<Rightarrow> auth_db result" where
  "create_account idle_seconds sid name display role f token_id hash now db =
     (case (username name, bounded_name 256 display) of
        (Inr nm, Inr shown) \<Rightarrow>
          if role \<notin> JStr ` {''owner'', ''staff'', ''admin''} then Inl (HttpError 400 ''INVALID_ROLE'' ''Invalid role.'')
          else
            rbind (checked_actor idle_seconds sid True ''admin'' now db) (\<lambda>actor.
            case invite_local f nm shown (case role of JStr r \<Rightarrow> r | _ \<Rightarrow> []) token_id hash now db of
              Inl e \<Rightarrow> Inl (if e = IntegrityError then HttpError 409 ''ACCOUNT_UNAVAILABLE'' ''This local username is unavailable.'' else e)
            | Inr (u, db2) \<Rightarrow>
                Inr (db2\<lparr>ad_admin_audit := ad_admin_audit db2 @
                  [\<lparr>aa_actor_id = Some (us_id actor), aa_target_id = Some (us_id u), aa_action = ''account_invited'',
                    aa_details = [(''role'', role)], aa_created = now\<rparr>]\<rparr>))
      | _ \<Rightarrow> Inl (HttpError 400 ''INVALID_FIELD'' ''Invalid local account name.''))"

text \<open>The transaction of \<open>reauthenticate\<close>, for the account that was verified.\<close>

definition reauthenticate :: "rat \<Rightarrow> string \<Rightarrow> user \<Rightarrow> user \<Rightarrow> rat \<Rightarrow> auth_db \<Rightarrow> auth_db result" where
  "reauthenticate idle_seconds sid u verified now db =
     rbind (session_row idle_seconds sid now (Some ''admin'') db) (\<lambda>(current, _).
     if us_generation current \<noteq> us_generation verified then Inl (HttpError 401 ''SESSION_EXPIRED'' ''Sign in to continue.'')
     else Inr (db\<lparr>ad_sessions := update_where (\<lambda>s. se_token s = sid) (\<lambda>s. s\<lparr>se_reauthenticated_at := now\<rparr>) (ad_sessions db),
                  ad_admin_audit := ad_admin_audit db @
                    [\<lparr>aa_actor_id = Some (us_id u), aa_target_id = Some (us_id u), aa_action = ''step_up'',
                      aa_details = [], aa_created = now\<rparr>]\<rparr>))"

section \<open>What enrollment depends on\<close>

abbreviation user_of :: "string \<Rightarrow> auth_db \<Rightarrow> user option" where
  "user_of i db \<equiv> find_where (\<lambda>u. us_id u = i) (ad_users db)"

definition confirmed :: "string \<Rightarrow> auth_db \<Rightarrow> bool option" where
  "confirmed i db = map_option la_totp_confirmed (account_of i db)"

text \<open>
  Whether a user is local, the role, status and generation, and whether a second factor is confirmed, if there is a
  local account at all.
\<close>

type_synonym standing = "bool \<times> string \<times> string \<times> int \<times> bool option"

definition standing :: "string \<Rightarrow> auth_db \<Rightarrow> standing option" where
  "standing i db = map_option (\<lambda>u. (us_issuer u = ''local'', us_role u, us_status u, us_generation u, confirmed i db)) (user_of i db)"

lemma standing_same:
  "ad_users db' = ad_users db \<Longrightarrow> ad_accounts db' = ad_accounts db \<Longrightarrow> standing i db' = standing i db"
  by (simp add: standing_def confirmed_def)

lemma user_of_with:
  "(\<And>u. us_id (f u) = us_id u) \<Longrightarrow> user_of i (with_user v f db) = map_option (\<lambda>u. if us_id u = v then f u else u) (user_of i db)"
  unfolding with_user_def by (simp, rule find_update_where) simp

lemma user_of_id: "user_of i db = Some u \<Longrightarrow> us_id u = i"
  using find_where_SomeD by fastforce

lemma confirmed_with:
  assumes "\<And>a. la_user_id (f a) = la_user_id a"
  shows "confirmed i (with_account v f db) =
     map_option (\<lambda>a. la_totp_confirmed (if i = v then f a else a)) (account_of i db)"
proof (cases "account_of i db")
  case None
  then show ?thesis by (simp add: confirmed_def account_of_with [of f, OF assms])
next
  case (Some a)
  then show ?thesis using account_of_id [OF Some] by (simp add: confirmed_def account_of_with [of f, OF assms])
qed

lemma confirmed_with_user [simp]: "confirmed i (with_user v f db) = confirmed i db"
  by (simp add: confirmed_def with_user_def)

lemma standing_with_account:
  assumes "\<And>a. la_user_id (f a) = la_user_id a" "\<And>a. i = v \<Longrightarrow> account_of i db = Some a \<Longrightarrow> la_totp_confirmed (f a) = la_totp_confirmed a"
  shows "standing i (with_account v f db) = standing i db"
proof -
  have "confirmed i (with_account v f db) = confirmed i db"
    unfolding confirmed_with [of f, OF assms(1)] using assms(2) by (cases "account_of i db") (auto simp: confirmed_def)
  then show ?thesis by (simp add: standing_def)
qed

lemma standing_with_user:
  assumes "\<And>u. us_id (f u) = us_id u"
  shows "standing i (with_user v f db) =
    (if i = v then map_option (\<lambda>u. (us_issuer (f u) = ''local'', us_role (f u), us_status (f u), us_generation (f u), confirmed i db)) (user_of i db)
     else standing i db)"
  using user_of_id [of i db] unfolding standing_def user_of_with [of f, OF assms] by (auto simp: option.map_comp o_def intro!: option.map_cong)

lemma standing_security_change:
  "standing i (security_change v db) =
     (if i = v then map_option (\<lambda>(l, r, s, g, c). (l, r, s, g + 1, c)) (standing i db) else standing i db)"
proof -
  let ?up = "with_user v (\<lambda>u. u\<lparr>us_generation := us_generation u + 1\<rparr>) db"
  have "standing i (security_change v db) = standing i ?up"
    unfolding security_change_def by (subst standing_with_account) (auto intro: standing_same)
  also have "\<dots> = (if i = v then map_option (\<lambda>(l, r, s, g, c). (l, r, s, g + 1, c)) (standing i db) else standing i db)"
    by (subst standing_with_user) (simp_all add: standing_def option.map_comp o_def)
  finally show ?thesis .
qed

lemma security_change_tables:
  "ad_tokens (security_change v db) = delete_where (\<lambda>t. tk_user_id t = v) (ad_tokens db)"
  "ad_enrollments (security_change v db) = delete_where (\<lambda>e. en_user_id e = v) (ad_enrollments db)"
  "ad_used_tokens (security_change v db) = ad_used_tokens db"
  by (simp_all add: security_change_def with_account_def with_user_def)

section \<open>The invariant\<close>

record enroll_state =
  es_db :: auth_db
  es_plans :: "plan list"

definition linked_plan :: "string set \<Rightarrow> plan \<Rightarrow> bool" where
  "linked_plan boots p \<longleftrightarrow>
     (\<exists>s r. jget (ep_body p) ''token'' = JStr s \<and> split_link s = Some (ep_id p, r)) \<and>
     (ep_purpose p = ''password-reset'' \<longrightarrow> ep_id p \<notin> boots)"

definition standing_ok :: "standing option \<Rightarrow> bool" where
  "standing_ok st \<longleftrightarrow> (\<forall>l r s g c. st = Some (l, r, s, g, c) \<longrightarrow> (l \<longrightarrow> c \<noteq> None) \<and> (r = ''admin'' \<and> s = ''active'' \<longrightarrow> c = Some True))"

text \<open>
  An enrollment that would complete without a code is one of an account that has a factor, as long as it is not
  stale; what a plan has read of an account holds while its link resolves.
\<close>

definition enrollment_ok :: "auth_db \<Rightarrow> enrollment \<Rightarrow> bool" where
  "enrollment_ok db e \<longleftrightarrow> (\<exists>r st g c. standing (en_user_id e) db = Some (True, r, st, g, c) \<and>
     (en_purpose e = ''password-reset'' \<and> en_secret e \<in> {None, Some []} \<and> g = en_generation e \<and> r = ''admin'' \<longrightarrow> c = Some True))"

definition plan_ok :: "string \<Rightarrow> string \<Rightarrow> bool option \<Rightarrow> plan \<Rightarrow> bool" where
  "plan_ok r purpose c p \<longleftrightarrow> ep_role p = r \<and> ep_purpose p = purpose \<and> (prior_confirmed p \<longrightarrow> c = Some True)"

definition token_ok :: "string set \<Rightarrow> plan list \<Rightarrow> auth_db \<Rightarrow> account_token \<Rightarrow> bool" where
  "token_ok boots plans db k \<longleftrightarrow> tk_id k \<notin> boots \<and> (\<exists>l r st g c. standing (tk_user_id k) db = Some (l, r, st, g, c) \<and>
     (g = tk_generation k \<longrightarrow> (\<forall>p \<in> set plans. ep_id p = tk_id k \<longrightarrow> plan_ok r (tk_purpose k) c p)))"

definition enroll_inv :: "string set \<Rightarrow> enroll_state \<Rightarrow> bool" where
  "enroll_inv boots s \<longleftrightarrow>
     (\<forall>i. standing_ok (standing i (es_db s))) \<and> (\<forall>e \<in> set (ad_enrollments (es_db s)). enrollment_ok (es_db s) e) \<and>
     (\<forall>k \<in> set (ad_tokens (es_db s)). token_ok boots (es_plans s) (es_db s) k) \<and> distinct (map tk_id (ad_tokens (es_db s))) \<and> (\<forall>p \<in> set (es_plans s). linked_plan boots p)"

definition token_key :: "account_token \<Rightarrow> string \<times> string \<times> int \<times> string" where
  "token_key k = (tk_id k, tk_user_id k, tk_generation k, tk_purpose k)"

definition enrollment_key :: "enrollment \<Rightarrow> string \<times> int \<times> string \<times> string option" where
  "enrollment_key e = (en_user_id e, en_generation e, en_purpose e, en_secret e)"

lemma token_ok_key: "token_key k = token_key k' \<Longrightarrow> standing (tk_user_id k) db' = standing (tk_user_id k) db \<Longrightarrow>
    token_ok boots plans db k \<Longrightarrow> token_ok boots plans db' k'"
  by (simp add: token_ok_def token_key_def)

lemma enrollment_ok_key: "enrollment_key e = enrollment_key e' \<Longrightarrow> standing (en_user_id e) db' = standing (en_user_id e) db \<Longrightarrow>
    enrollment_ok db e \<Longrightarrow> enrollment_ok db' e'"
  by (simp add: enrollment_ok_def enrollment_key_def)

text \<open>Transactions that change the standing of nobody and add no link and no enrollment.\<close>

definition quiet :: "auth_db \<Rightarrow> auth_db \<Rightarrow> bool" where
  "quiet db db' \<longleftrightarrow> (\<forall>i. standing i db' = standing i db) \<and> map token_key (ad_tokens db') = map token_key (ad_tokens db) \<and>
     map enrollment_key (ad_enrollments db') = map enrollment_key (ad_enrollments db)"

lemma same_keys: "map key xs' = map key xs \<Longrightarrow> x' \<in> set xs' \<Longrightarrow> \<exists>x \<in> set xs. key x = key x'"
  by (metis (no_types, lifting) in_set_conv_nth length_map nth_map)

lemma token_ids:
  assumes "map token_key ks' = map token_key ks"
  shows "map tk_id ks' = map tk_id ks"
proof -
  have "map fst (map token_key ks') = map fst (map token_key ks)" using assms by (simp only:)
  then show ?thesis by (simp add: token_key_def o_def)
qed

lemma inv_quiet:
  assumes "enroll_inv boots s" "quiet (es_db s) db'"
  shows "enroll_inv boots (s\<lparr>es_db := db'\<rparr>)"
proof -
  have st: "standing i db' = standing i (es_db s)" for i using assms(2) by (simp add: quiet_def)
  have keys: "map token_key (ad_tokens db') = map token_key (ad_tokens (es_db s))"
      "map enrollment_key (ad_enrollments db') = map enrollment_key (ad_enrollments (es_db s))"
    using assms(2) by (simp_all add: quiet_def)
  have "enrollment_ok db' e'" if e': "e' \<in> set (ad_enrollments db')" for e'
    using same_keys [OF keys(2) e'] assms(1) st enrollment_ok_key unfolding enroll_inv_def by blast
  moreover have "token_ok boots (es_plans s) db' k'" if k': "k' \<in> set (ad_tokens db')" for k'
    using same_keys [OF keys(1) k'] assms(1) st token_ok_key unfolding enroll_inv_def by blast
  ultimately show ?thesis using assms(1) st token_ids [OF keys(1)] by (simp add: enroll_inv_def)
qed

text \<open>
  A change of one account: its links and enrollments are gone, but for a link under a fresh identifier, and the
  other accounts are as they were.
\<close>

lemma inv_rotate:
  assumes inv: "enroll_inv boots s" and others: "\<And>j. j \<noteq> i \<Longrightarrow> standing j db' = standing j (es_db s)"
    and i: "standing_ok (standing i db')" "standing i db' \<noteq> None"
    and enrollments: "set (ad_enrollments db') \<subseteq> {e \<in> set (ad_enrollments (es_db s)). en_user_id e \<noteq> i}"
    and tokens: "set (ad_tokens db') \<subseteq> {k \<in> set (ad_tokens (es_db s)). tk_user_id k \<noteq> i} \<union>
      {k. tk_user_id k = i \<and> tk_id k \<notin> boots \<union> ep_id ` set (es_plans s)}"
    and ids: "distinct (map tk_id (ad_tokens db'))"
  shows "enroll_inv boots (s\<lparr>es_db := db'\<rparr>)"
proof -
  have "standing_ok (standing j db')" for j
    using inv others i(1) by (cases "j = i") (simp_all add: enroll_inv_def)
  moreover have "enrollment_ok db' e" if "e \<in> set (ad_enrollments db')" for e
    using that enrollments inv others enrollment_ok_key [of e e db' "es_db s"] unfolding enroll_inv_def by blast
  moreover have "token_ok boots (es_plans s) db' k" if k: "k \<in> set (ad_tokens db')" for k
  proof (cases "tk_user_id k = i")
    case True
    then have "tk_id k \<notin> boots" "\<forall>p \<in> set (es_plans s). ep_id p \<noteq> tk_id k" using tokens k by force+
    moreover obtain l r st g c where "standing i db' = Some (l, r, st, g, c)" using i(2) by (metis not_None_eq prod_cases5)
    ultimately show ?thesis using True by (auto simp: token_ok_def)
  next
    case False
    then have "k \<in> set (ad_tokens (es_db s))" using tokens k by blast
    then show ?thesis using inv others [OF False] token_ok_key [of k k] unfolding enroll_inv_def by blast
  qed
  ultimately show ?thesis using inv ids by (simp add: enroll_inv_def)
qed

section \<open>Quiet transactions\<close>

lemma quiet_same:
  "ad_users db' = ad_users db \<Longrightarrow> ad_accounts db' = ad_accounts db \<Longrightarrow> ad_tokens db' = ad_tokens db \<Longrightarrow>
   ad_enrollments db' = ad_enrollments db \<Longrightarrow> quiet db db'"
  unfolding quiet_def by (simp add: standing_same [of db' db])

lemma quiet_refl: "quiet db db"
  by (simp add: quiet_def)

lemma quiet_trans: "quiet db db' \<Longrightarrow> quiet db' db'' \<Longrightarrow> quiet db db''"
  by (simp add: quiet_def)

lemma quiet_with_account:
  assumes "\<And>a. la_user_id (f a) = la_user_id a" "\<And>a. la_totp_confirmed (f a) = la_totp_confirmed a"
  shows "quiet db (with_account v f db)"
  using assms by (simp add: quiet_def standing_with_account) (simp add: with_account_def)

lemma quiet_failure: "quiet db (failure usr kind now db)"
  by (rule quiet_same) (simp_all add: failure_def Let_def)

lemma quiet_decide:
  assumes "decide sign hotp a now db = (db', r)"
  shows "quiet db db'"
proof (cases "judge sign hotp a now db")
  case Refused
  then show ?thesis using assms by (simp add: decide_def quiet_refl)
next
  case Wrong_Password
  then show ?thesis
    using assms by (cases "eligible sign a now db") (auto simp: decide_def Let_def quiet_refl quiet_failure)
next
  case Wrong_Code
  have "quiet db (with_account v (\<lambda>r. r\<lparr>la_totp_streak := n, la_totp_blocked_until := b\<rparr>) (failure v kind now db))" for v n b kind
    by (rule quiet_trans [OF quiet_failure quiet_with_account]) simp_all
  then show ?thesis
    using assms Wrong_Code by (cases "eligible sign a now db") (auto simp: decide_def Let_def quiet_refl)
next
  case (Admitted ua counter)
  obtain u acct where "ua = (u, acct)" by (cases ua)
  then show ?thesis using assms Admitted by (auto simp: decide_def Let_def intro!: quiet_with_account)
qed

lemma quiet_upgrade: "upgrade_hash t verified replacement db = Inr db' \<Longrightarrow> quiet db db'"
  by (auto simp: upgrade_hash_def split: option.splits if_splits intro!: quiet_with_account)

lemma quiet_mint: "quiet db (mint absolute_seconds old token u re proof_at now db)"
proof -
  have "standing i (mint absolute_seconds old token u re proof_at now db) = standing i (with_user (us_id u) (\<lambda>x. x\<lparr>us_last_login := now\<rparr>) db)" for i
    by (rule standing_same) (simp_all add: mint_def Let_def with_user_def)
  then have "standing i (mint absolute_seconds old token u re proof_at now db) = standing i db" for i
    by (simp only:) (subst standing_with_user, simp_all add: standing_def)
  then show ?thesis by (simp add: quiet_def) (simp add: mint_def Let_def)
qed

lemma mint_used: "ad_used_tokens (mint absolute_seconds old token u re proof_at now db) = ad_used_tokens db"
  by (simp add: mint_def Let_def)

lemma quiet_login: "finish_login absolute_seconds old token verified now db = Inr db' \<Longrightarrow> quiet db db'"
  by (auto simp: finish_login_def quiet_mint split: option.splits if_splits)

lemma quiet_step_up: "reauthenticate idle sid u verified now db = Inr db' \<Longrightarrow> quiet db db'"
  by (auto simp: reauthenticate_def rbind_eq_Inr intro!: quiet_same split: if_splits)

lemma keys_update: "(\<And>x. key (f x) = key x) \<Longrightarrow> map key (update_where P f rows) = map key rows"
  by (simp add: update_where_def)

lemma caught_Inr [simp]: "caught m = Inr x \<longleftrightarrow> m = Inr x"
  by (simp add: caught_def split: sum.splits)

lemma resolve_tokenE:
  assumes "resolve_token sha bootstrap v now db = Inr t"
  obtains (link) s r k u where "v = JStr s" "split_link s = Some (rt_id t, r)" "k \<in> set (ad_tokens db)" "tk_id k = rt_id t"
      "tk_purpose k = rt_purpose t" "rt_user t = Some u" "user_of (tk_user_id k) db = Some u" "us_generation u = tk_generation k"
      "us_issuer u = ''local''"
    | (document) s i r x where "v = JStr s" "split_link s = Some (i, r)" "bootstrap s now (ad_valid_after db) = Inr (rt_id t, x)"
      "rt_purpose t = ''bootstrap''" "rt_user t = None"
proof -
  obtain s i r where s: "v = JStr s" "split_link s = Some (i, r)"
    using assms by (auto simp: resolve_token_def split: json.splits option.splits)
  show thesis
  proof (cases "find_where (\<lambda>t. tk_id t = i) (ad_tokens db)")
    case None
    then show thesis using assms s document by (auto simp: resolve_token_def rbind_eq_Inr split: if_splits)
  next
    case (Some k)
    then obtain u where "target (tk_user_id k) db = Inr u" "us_generation u = tk_generation k" "us_issuer u = ''local''"
        "t = \<lparr>rt_id = i, rt_purpose = tk_purpose k, rt_user = Some u\<rparr>"
      using assms s by (auto simp: resolve_token_def rbind_eq_Inr split: if_splits)
    then show thesis using s link [of s r k u] find_where_SomeD [OF Some] target_Inr by fastforce
  qed
qed

section \<open>Changes of an account\<close>

lemma edit_account_tables:
  assumes "edit_account action v u db = Inr (db', details)"
  shows "ad_accounts db' = ad_accounts db \<and> ad_tokens db' = ad_tokens db \<and> ad_enrollments db' = ad_enrollments db \<and>
    ad_used_tokens db' = ad_used_tokens db"
  using assms by (auto simp: edit_account_def with_user_def split: if_splits json.splits)

lemma edit_account_others:
  assumes "edit_account action v u db = Inr (db', details)" "j \<noteq> us_id u"
  shows "standing j db' = standing j db"
proof -
  consider "db' = db" | role where "db' = with_user (us_id u) (\<lambda>x. x\<lparr>us_role := role\<rparr>) db"
    | n where "db' = with_user (us_id u) (\<lambda>x. x\<lparr>us_enabled := n\<rparr>) db"
    using assms(1) by (auto simp: edit_account_def split: if_splits json.splits)
  then show ?thesis using assms(2) by cases (simp_all add: standing_with_user)
qed

lemma reset_account_tables:
  "ad_tokens (reset_account action v db) = ad_tokens db \<and> ad_enrollments (reset_account action v db) = ad_enrollments db \<and>
   ad_used_tokens (reset_account action v db) = ad_used_tokens db"
  by (simp add: reset_account_def with_user_def with_account_def)

lemma reset_account_others: "j \<noteq> v \<Longrightarrow> standing j (reset_account action v db) = standing j db"
  by (simp add: reset_account_def standing_with_user standing_with_account)

lemma set_pending_tables:
  "ad_accounts (set_pending v db) = ad_accounts db \<and> ad_tokens (set_pending v db) = ad_tokens db \<and>
   ad_enrollments (set_pending v db) = ad_enrollments db \<and> ad_used_tokens (set_pending v db) = ad_used_tokens db"
  by (simp add: set_pending_def with_user_def)

lemma set_pending_others: "j \<noteq> v \<Longrightarrow> standing j (set_pending v db) = standing j db"
  by (simp add: set_pending_def standing_with_user)

lemma set_pending_ok:
  assumes u: "user_of v db = Some u" and local: "us_issuer u = ''local'' \<Longrightarrow> confirmed v db \<noteq> None"
  shows "standing_ok (standing v (set_pending v db)) \<and> standing v (set_pending v db) \<noteq> None"
proof -
  have need: "need_enrollment v db \<longleftrightarrow> us_role u = ''admin'' \<and> confirmed v db \<noteq> Some True"
    using u by (auto simp: need_enrollment_def Let_def confirmed_def)
  have "standing v (with_user v (\<lambda>x. x\<lparr>us_status := ''pending''\<rparr>) db) =
      Some (us_issuer u = ''local'', us_role u, ''pending'', us_generation u, confirmed v db)"
    by (subst standing_with_user) (simp_all add: u)
  moreover have "standing v db = Some (us_issuer u = ''local'', us_role u, us_status u, us_generation u, confirmed v db)"
    by (simp add: standing_def u)
  ultimately show ?thesis using need local by (auto simp: set_pending_def standing_ok_def)
qed

lemma issue_linkE:
  assumes "issue_link action tid th v now db = Inr db'"
  obtains ks where "db' = (set_pending v db)\<lparr>ad_tokens := ad_tokens db @ ks\<rparr>" "\<forall>k \<in> set ks. tk_user_id k = v \<and> tk_id k = tid"
    "distinct (map tk_id (ad_tokens db)) \<longrightarrow> distinct (map tk_id (ad_tokens db @ ks))"
proof (cases "link_purpose action (need_enrollment v db) (account_of v db)")
  case None
  then show thesis using assms that [of "[]"] set_pending_tables [of v db] by (simp add: issue_link_def)
next
  case (Some purpose)
  then obtain k where "db' = (set_pending v db)\<lparr>ad_tokens := ad_tokens (set_pending v db) @ [k]\<rparr>" "tk_user_id k = v" "tk_id k = tid"
      "\<not> list_ex (\<lambda>t. tk_id t = tid) (ad_tokens (set_pending v db))"
    using assms by (auto simp: issue_link_def link_token_def list_ex_iff split: option.splits if_splits)
  then show thesis using that [of "[k]"] set_pending_tables [of v db] by (simp add: list_ex_iff image_iff) metis
qed

lemma bumped_found:
  assumes "bumped v n us us'" "find_where (\<lambda>u. us_id u = i) us = Some u"
  obtains u' where "find_where (\<lambda>u. us_id u = i) us' = Some u'" "us_issuer u' = us_issuer u"
  using assms unfolding bumped_def by (auto simp: find_update_where)

lemma confirmed_security_change: "confirmed i (security_change v db) = confirmed i db"
  unfolding security_change_def by (subst confirmed_with) (auto simp: confirmed_def with_user_def)

lemma confirmed_reset: "confirmed i (reset_account action v db) = None \<longleftrightarrow> confirmed i db = None"
  by (simp add: reset_account_def confirmed_with) (simp add: confirmed_def)

lemma inv_change:
  assumes inv: "enroll_inv boots s" and c: "change_account idle sid v action x tid th now (es_db s) = Inr db'"
    and fresh: "tid \<notin> boots \<union> ep_id ` set (es_plans s)"
  shows "enroll_inv boots (s\<lparr>es_db := db'\<rparr>)"
proof -
  obtain u db1 details db3 audit where u: "user_of v (es_db s) = Some u"
    and e: "edit_account action x u (es_db s) = Inr (db1, details)"
    and l: "issue_link action tid th v now (reset_account action v (security_change v db1)) = Inr db3"
    and db': "db' = db3\<lparr>ad_admin_audit := audit\<rparr>"
    by (rule change_accountE [OF c])
  let ?db2 = "reset_account action v (security_change v db1)"
  obtain ks where db3: "db3 = (set_pending v ?db2)\<lparr>ad_tokens := ad_tokens ?db2 @ ks\<rparr>"
      "\<forall>k \<in> set ks. tk_user_id k = v \<and> tk_id k = tid"
      "distinct (map tk_id (ad_tokens ?db2)) \<longrightarrow> distinct (map tk_id (ad_tokens ?db2 @ ks))"
    by (rule issue_linkE [OF l])
  have st: "standing j db' = standing j (set_pending v ?db2)" for j
    unfolding db' db3(1) by (rule standing_same) simp_all
  have "us_id u = v" by (rule user_of_id [OF u])
  then have others: "standing j db' = standing j (es_db s)" if "j \<noteq> v" for j
    using that edit_account_others [OF e] by (simp add: st set_pending_others reset_account_others standing_security_change)
  have "bumped v (0 + (1 + 0)) (ad_users (es_db s)) (ad_users ?db2)"
    using edit_account_rows(1) [OF e] \<open>us_id u = v\<close>
    by (metis bumped_trans security_change_rows(1) reset_account_rows(1))
  then obtain u2 where u2: "user_of v ?db2 = Some u2" "us_issuer u2 = us_issuer u" using u by (rule bumped_found)
  have "confirmed v (es_db s) \<noteq> None" if "us_issuer u = ''local''"
    using inv u that by (fastforce simp: enroll_inv_def standing_ok_def standing_def)
  moreover have "confirmed v db1 = confirmed v (es_db s)" using edit_account_tables [OF e] by (simp add: confirmed_def)
  ultimately have "confirmed v ?db2 \<noteq> None" if "us_issuer u2 = ''local''"
    using that u2(2) by (simp add: confirmed_reset confirmed_security_change)
  then have i: "standing_ok (standing v db')" "standing v db' \<noteq> None" using set_pending_ok [OF u2(1)] st by simp_all
  note tables = edit_account_tables [OF e] reset_account_tables [of action v "security_change v db1"]
    set_pending_tables [of v ?db2] security_change_tables [of v db1]
  have "ad_tokens ?db2 = delete_where (\<lambda>t. tk_user_id t = v) (ad_tokens (es_db s))" using tables by simp
  then have ids: "distinct (map tk_id (ad_tokens db'))"
    using db3(3) inv unfolding db' db3(1) by (simp add: enroll_inv_def delete_where_def distinct_map_filter)
  have "ad_enrollments db' = delete_where (\<lambda>e. en_user_id e = v) (ad_enrollments (es_db s))"
      "ad_tokens db' = delete_where (\<lambda>t. tk_user_id t = v) (ad_tokens (es_db s)) @ ks"
    unfolding db' db3(1) using tables by simp_all
  then show ?thesis
    using db3(2) fresh ids by (intro inv_rotate [OF inv others i]) (auto simp: delete_where_def)
qed

section \<open>Completing an enrollment\<close>

lemma finish_enrollmentE:
  assumes "finish_enrollment sha hotp absolute_seconds old token browser handle totp now db = Inr (db', r)"
  obtains (rejected) h where "db' = db\<lparr>ad_enrollments := update_where (\<lambda>e. en_token_hash e = h)
      (\<lambda>e. e\<lparr>en_failures := en_failures e + 1\<rparr>) (ad_enrollments db)\<rparr>"
    | (completed) row u counter audit where "row \<in> set (ad_enrollments db)" "user_of (en_user_id row) db = Some u"
      "us_generation u = en_generation row" "completion_code hotp row totp now db = Some counter"
      "us_role u = ''admin'' \<Longrightarrow> en_purpose row = ''password-reset'' \<or> counter \<noteq> None"
      "quiet ((complete_enrollment row counter db)\<lparr>ad_admin_audit := audit\<rparr>) db'"
      "ad_used_tokens db' = ad_used_tokens (complete_enrollment row counter db)"
proof -
  obtain h row where row: "find_where (\<lambda>e. en_token_hash e = h) (ad_enrollments db) = Some row" "token_hash sha handle = Inr h"
    using assms by (auto simp: finish_enrollment_def split: sum.splits option.splits)
  then obtain u where u: "target (en_user_id row) db = Inr u" "us_generation u = en_generation row"
    using assms by (auto simp: finish_enrollment_def rbind_eq_Inr split: if_splits)
  show thesis
  proof (cases "completion_code hotp row totp now db")
    case None
    then show thesis using assms row u rejected [of h] by (auto simp: finish_enrollment_def split: if_splits)
  next
    case (Some counter)
    let ?db1 = "complete_enrollment row counter db"
    let ?audit = "ad_admin_audit ?db1 @
      [\<lparr>aa_actor_id = None, aa_target_id = Some (us_id u), aa_action = ''enrollment_completed'',
        aa_details = [(''purpose'', JStr (en_purpose row)), (''generation'', JInt (us_generation u + 1))], aa_created = now\<rparr>]"
    have g: "us_role u = ''admin'' \<Longrightarrow> en_purpose row = ''password-reset'' \<or> counter \<noteq> None"
      using assms row u Some by (auto simp: finish_enrollment_def split: if_splits)
    have "\<exists>latest re pr. db' = ?db1\<lparr>ad_admin_audit := ?audit\<rparr> \<or>
        db' = mint absolute_seconds old token latest re pr now (?db1\<lparr>ad_admin_audit := ?audit\<rparr>)"
      using assms row u Some by (auto simp: finish_enrollment_def Let_def rbind_eq_Inr split: if_splits)
    then have "quiet (?db1\<lparr>ad_admin_audit := ?audit\<rparr>) db' \<and> ad_used_tokens db' = ad_used_tokens ?db1"
      by (elim exE disjE) (simp_all add: quiet_refl quiet_mint mint_used)
    then show thesis using completed [of row u counter ?audit] find_where_SomeD [OF row(1)] target_Inr [OF u(1)] u(2) Some g by blast
  qed
qed

lemma complete_enrollment_tables:
  "ad_tokens (complete_enrollment row counter db) = delete_where (\<lambda>t. tk_user_id t = en_user_id row) (ad_tokens db)"
  "ad_enrollments (complete_enrollment row counter db) = delete_where (\<lambda>e. en_user_id e = en_user_id row) (ad_enrollments db)"
  "ad_used_tokens (complete_enrollment row counter db) = ad_used_tokens db"
  by (simp_all add: complete_enrollment_def Let_def security_change_tables with_user_def with_account_def)

lemma enroll_account_fields:
  "la_user_id (enroll_account row counter a) = la_user_id a"
  "la_totp_confirmed (enroll_account row counter a) \<longleftrightarrow> en_secret row \<notin> {None, Some []} \<or> la_totp_confirmed a"
  by (auto simp: enroll_account_def Let_def)

lemma complete_enrollment_others:
  "j \<noteq> en_user_id row \<Longrightarrow> standing j (complete_enrollment row counter db) = standing j db"
  by (simp add: complete_enrollment_def Let_def standing_security_change standing_with_user standing_with_account enroll_account_fields)

lemma complete_enrollment_standing:
  assumes "user_of (en_user_id row) db = Some u"
  obtains st where "standing (en_user_id row) (complete_enrollment row counter db) =
    Some (us_issuer u = ''local'', us_role u, st, us_generation u + 1,
      map_option (\<lambda>c. en_secret row \<notin> {None, Some []} \<or> c) (confirmed (en_user_id row) db))"
proof -
  let ?i = "en_user_id row"
  let ?db1 = "with_account ?i (enroll_account row counter) db"
  have c: "confirmed ?i ?db1 = map_option (\<lambda>c. en_secret row \<notin> {None, Some []} \<or> c) (confirmed ?i db)"
    by (subst confirmed_with) (simp_all add: enroll_account_fields confirmed_def option.map_comp o_def)
  have u: "user_of ?i ?db1 = Some u" using assms by simp
  have "standing ?i (with_user ?i (\<lambda>u. u\<lparr>us_status := ''active''\<rparr>) ?db1) =
      Some (us_issuer u = ''local'', us_role u, ''active'', us_generation u, confirmed ?i ?db1)"
    by (subst standing_with_user) (use u in simp_all)
  moreover have "standing ?i ?db1 = Some (us_issuer u = ''local'', us_role u, us_status u, us_generation u, confirmed ?i ?db1)"
    using u by (simp add: standing_def)
  ultimately have "\<exists>st. standing ?i (if P then with_user ?i (\<lambda>u. u\<lparr>us_status := ''active''\<rparr>) ?db1 else ?db1) =
      Some (us_issuer u = ''local'', us_role u, st, us_generation u, confirmed ?i ?db1)" for P
    by (cases P) simp_all
  then show thesis
    using that c unfolding complete_enrollment_def Let_def standing_security_change by fastforce
qed

lemma inv_complete:
  assumes inv: "enroll_inv boots s"
    and f: "finish_enrollment sha hotp absolute_seconds old token browser handle totp now (es_db s) = Inr (db', r)"
  shows "enroll_inv boots (s\<lparr>es_db := db'\<rparr>)"
  using f
proof (cases rule: finish_enrollmentE)
  case (rejected h)
  have "standing i db' = standing i (es_db s)" for i unfolding rejected by (rule standing_same) simp_all
  then have "quiet (es_db s) db'"
    by (simp add: quiet_def) (simp add: rejected keys_update enrollment_key_def)
  then show ?thesis by (rule inv_quiet [OF inv])
next
  case (completed row u counter audit)
  let ?i = "en_user_id row" and ?db1 = "complete_enrollment row counter (es_db s)"
  obtain st where st: "standing ?i ?db1 = Some (us_issuer u = ''local'', us_role u, st, us_generation u + 1,
      map_option (\<lambda>c. en_secret row \<notin> {None, Some []} \<or> c) (confirmed ?i (es_db s)))"
    using complete_enrollment_standing [OF completed(2)] .
  have old: "standing ?i (es_db s) = Some (us_issuer u = ''local'', us_role u, us_status u, us_generation u, confirmed ?i (es_db s))"
    using completed(2) by (simp add: standing_def)
  have e: "enrollment_ok (es_db s) row" using inv completed(1) by (simp add: enroll_inv_def)
  then have "us_issuer u = ''local''" using old by (auto simp: enrollment_ok_def)
  then obtain c where c: "confirmed ?i (es_db s) = Some c"
    using inv old by (fastforce simp: enroll_inv_def standing_ok_def)
  have "en_secret row \<notin> {None, Some []} \<or> c" if admin: "us_role u = ''admin''"
  proof (cases counter)
    case None
    then have "en_purpose row = ''password-reset''" using completed(5) admin by simp
    then show ?thesis using e old c completed(3) admin by (auto simp: enrollment_ok_def)
  next
    case (Some n)
    then show ?thesis using completed(4) c
      by (auto simp: completion_code_def confirmed_def split: option.splits list.splits if_splits)
  qed
  then have ok: "standing_ok (standing ?i ?db1)" "standing ?i ?db1 \<noteq> None" using st c by (auto simp: standing_ok_def)
  have "distinct (map tk_id (ad_tokens ?db1))"
    using inv by (simp add: complete_enrollment_tables delete_where_def enroll_inv_def distinct_map_filter)
  then have "enroll_inv boots (s\<lparr>es_db := ?db1\<rparr>)"
    by (intro inv_rotate [OF inv complete_enrollment_others ok]) (auto simp: complete_enrollment_tables delete_where_def)
  moreover have "quiet ?db1 db'" by (rule quiet_trans [OF quiet_same completed(6)]) simp_all
  ultimately show ?thesis using inv_quiet [of boots "s\<lparr>es_db := ?db1\<rparr>" db'] by simp
qed

section \<open>Starting an enrollment\<close>

lemma enroll_beginE:
  assumes "enroll_begin sha hotp bootstrap body now db = Inr (db', po)"
  obtains t name supplied n where "resolve_token sha bootstrap (jget body ''token'') now db = Inr t" "quiet db db'"
    "ad_used_tokens db' = ad_used_tokens db"
    "\<forall>p. po = Some p \<longrightarrow> p = \<lparr>ep_body = body, ep_id = rt_id t, ep_name = name,
       ep_role = (case rt_user t of None \<Rightarrow> ''admin'' | Some u \<Rightarrow> us_role u), ep_purpose = rt_purpose t,
       ep_prior = (case rt_user t of None \<Rightarrow> None | Some u \<Rightarrow> account_of (us_id u) db), ep_password = supplied, ep_counter = n\<rparr>"
proof -
  have fields: "enroll_fields_ok body" using assms by (simp add: enroll_begin_def split: if_splits)
  obtain t name supplied where t: "resolve_token sha bootstrap (jget body ''token'') now db = Inr t"
      "(case rt_user t of None \<Rightarrow> username (jget body ''username'') | Some u \<Rightarrow> Inr (us_username u)) = Inr name"
      "(if rt_purpose t \<noteq> ''totp-reset'' then rbind (password (jget body ''password'') name) (\<lambda>s. Inr (Some s)) else Inr None) = Inr supplied"
    using assms unfolding enroll_begin_def by (simp only: fields simp_thms if_False caught_Inr rbind_eq_Inr) blast
  let ?p = "\<lparr>ep_body = body, ep_id = rt_id t, ep_name = name,
     ep_role = (case rt_user t of None \<Rightarrow> ''admin'' | Some u \<Rightarrow> us_role u), ep_purpose = rt_purpose t,
     ep_prior = (case rt_user t of None \<Rightarrow> None | Some u \<Rightarrow> account_of (us_id u) db), ep_password = supplied, ep_counter = None\<rparr>"
  have failed: "quiet db (db\<lparr>ad_tokens := update_where P (\<lambda>k. k\<lparr>tk_failures := min (tk_failures k + 1) 5\<rparr>) (ad_tokens db)\<rparr>)" for P
  proof -
    have "standing i (db\<lparr>ad_tokens := ks\<rparr>) = standing i db" for i ks by (rule standing_same) simp_all
    then show ?thesis by (simp add: quiet_def keys_update token_key_def)
  qed
  have passed: "quiet db (with_account v (\<lambda>r. r\<lparr>la_last_counter := c\<rparr>) db)" for v c
    by (rule quiet_with_account) simp_all
  have "(db' = db \<or> (\<exists>v c. db' = with_account v (\<lambda>r. r\<lparr>la_last_counter := c\<rparr>) db) \<or>
        (\<exists>P. db' = db\<lparr>ad_tokens := update_where P (\<lambda>k. k\<lparr>tk_failures := min (tk_failures k + 1) 5\<rparr>) (ad_tokens db)\<rparr>)) \<and>
      (\<exists>n. \<forall>p. po = Some p \<longrightarrow> p = ?p\<lparr>ep_counter := n\<rparr>)"
    using assms t fields
    by (cases "rt_user t"; cases "case rt_user t of None \<Rightarrow> None | Some u \<Rightarrow> account_of (us_id u) db")
      (auto simp: enroll_begin_def Let_def split: if_splits option.splits)
  then obtain n where n: "\<forall>p. po = Some p \<longrightarrow> p = ?p\<lparr>ep_counter := n\<rparr>"
    and db': "db' = db \<or> (\<exists>v c. db' = with_account v (\<lambda>r. r\<lparr>la_last_counter := c\<rparr>) db) \<or>
        (\<exists>P. db' = db\<lparr>ad_tokens := update_where P (\<lambda>k. k\<lparr>tk_failures := min (tk_failures k + 1) 5\<rparr>) (ad_tokens db)\<rparr>)"
    by blast
  have "quiet db db'" using db' failed passed quiet_refl by blast
  moreover have "ad_used_tokens db' = ad_used_tokens db" using db' by (auto simp: with_account_def)
  ultimately show thesis using that [OF t(1), of name supplied n] n by simp
qed

text \<open>The documents of the operator have identifiers of their own.\<close>

definition document_ids :: "string set \<Rightarrow> json result \<Rightarrow> bool" where
  "document_ids boots file \<longleftrightarrow> (\<forall>body i. file = Inr (JObj body) \<and> jget body ''id'' = JStr i \<longrightarrow> i \<in> boots)"

lemma read_document_id:
  assumes "read_document sha float realm file link now va = Inr (i, x)" "document_ids boots file"
  shows "i \<in> boots \<and> (\<exists>r. split_link link = Some (i, r))"
proof -
  obtain j r where j: "split_link link = Some (j, r)"
    using assms(1) by (auto simp: read_document_def split: option.splits)
  then obtain h content where f: "file = Inr content" "token_hash sha (JStr r) = Inr h"
    using assms(1) by (auto simp: read_document_def rbind_eq_Inr)
  then obtain body where body: "content = JObj body" using assms(1) j by (cases content) (auto simp: read_document_def rbind_eq_Inr)
  then have "jget body ''id'' = JStr j" "i = j"
    using assms(1) j f by (auto simp: read_document_def rbind_eq_Inr split: if_splits option.splits)
  then show ?thesis using assms(2) f body j by (auto simp: document_ids_def)
qed

lemma inv_token: "enroll_inv boots s \<Longrightarrow> k \<in> set (ad_tokens (es_db s)) \<Longrightarrow> token_ok boots (es_plans s) (es_db s) k"
  by (simp add: enroll_inv_def)

lemma inv_add_plan:
  assumes inv: "enroll_inv boots s" and p: "linked_plan boots p"
    and k: "\<And>k l r st g c. k \<in> set (ad_tokens (es_db s)) \<Longrightarrow> tk_id k = ep_id p \<Longrightarrow>
      standing (tk_user_id k) (es_db s) = Some (l, r, st, g, c) \<Longrightarrow> g = tk_generation k \<Longrightarrow> plan_ok r (tk_purpose k) c p"
  shows "enroll_inv boots (s\<lparr>es_plans := p # es_plans s\<rparr>)"
proof -
  have "token_ok boots (p # es_plans s) (es_db s) k" if tok: "k \<in> set (ad_tokens (es_db s))" for k
  proof -
    obtain l r st g c where "standing (tk_user_id k) (es_db s) = Some (l, r, st, g, c)" "tk_id k \<notin> boots"
        "g = tk_generation k \<longrightarrow> (\<forall>p \<in> set (es_plans s). ep_id p = tk_id k \<longrightarrow> plan_ok r (tk_purpose k) c p)"
      using inv_token [OF inv tok] unfolding token_ok_def by blast
    then show ?thesis using assms(3) [OF tok] by (simp add: token_ok_def)
  qed
  then show ?thesis using inv p by (simp add: enroll_inv_def)
qed

lemma inv_begin:
  assumes inv: "enroll_inv boots s" and docs: "document_ids boots file"
    and b: "enroll_begin sha hotp (read_document sha float realm file) body now (es_db s) = Inr (db', po)"
  shows "enroll_inv boots (s\<lparr>es_db := db', es_plans := (case po of None \<Rightarrow> es_plans s | Some p \<Rightarrow> p # es_plans s)\<rparr>)"
proof -
  obtain t name supplied n where t: "resolve_token sha (read_document sha float realm file) (jget body ''token'') now (es_db s) = Inr t"
    and q: "quiet (es_db s) db'"
    and p: "\<forall>p. po = Some p \<longrightarrow> p = \<lparr>ep_body = body, ep_id = rt_id t, ep_name = name,
       ep_role = (case rt_user t of None \<Rightarrow> ''admin'' | Some u \<Rightarrow> us_role u), ep_purpose = rt_purpose t,
       ep_prior = (case rt_user t of None \<Rightarrow> None | Some u \<Rightarrow> account_of (us_id u) (es_db s)), ep_password = supplied, ep_counter = n\<rparr>"
    by (rule enroll_beginE [OF b])
  let ?s = "s\<lparr>es_db := db'\<rparr>"
  have inv': "enroll_inv boots ?s" by (rule inv_quiet [OF inv q])
  show ?thesis
  proof (cases po)
    case None
    then show ?thesis using inv' by simp
  next
    case (Some plan)
    note plan = p [rule_format, OF Some]
    have "linked_plan boots plan \<and> (\<forall>k l r st g c. k \<in> set (ad_tokens db') \<and> tk_id k = ep_id plan \<and>
        standing (tk_user_id k) db' = Some (l, r, st, g, c) \<and> g = tk_generation k \<longrightarrow> plan_ok r (tk_purpose k) c plan)"
      using t
    proof (cases rule: resolve_tokenE)
      case (link str rest k0 u)
      have st: "standing (tk_user_id k0) db' = Some (us_issuer u = ''local'', us_role u, us_status u, us_generation u, confirmed (tk_user_id k0) (es_db s))"
        using link q by (simp add: quiet_def standing_def)
      have "tk_id k0 \<notin> boots" using inv_token [OF inv link(3)] by (simp add: token_ok_def)
      then have "linked_plan boots plan" using link by (simp add: linked_plan_def plan)
      moreover have "plan_ok r (tk_purpose k) c plan"
        if k: "k \<in> set (ad_tokens db')" "tk_id k = ep_id plan" "standing (tk_user_id k) db' = Some (l, r, w, g, c)" for k l r w g c
      proof -
        obtain k1 where k1: "k1 \<in> set (ad_tokens (es_db s))" "token_key k1 = token_key k"
          using same_keys [of token_key "ad_tokens db'" "ad_tokens (es_db s)" k] q k(1) unfolding quiet_def by blast
        then have "k1 = k0" using inv link k(2) by (simp add: enroll_inv_def token_key_def plan inj_on_def distinct_map)
        then show ?thesis using k1 k(3) st link user_of_id [OF link(7)]
          by (auto simp: plan_ok_def token_key_def plan prior_confirmed_def confirmed_def split: option.splits)
      qed
      ultimately show ?thesis by blast
    next
      case (document str i rest x)
      have d: "rt_id t \<in> boots" "split_link str = Some (rt_id t, rest)"
        using read_document_id [OF document(3) docs] document(2) by auto
      then have "linked_plan boots plan" using document by (simp add: linked_plan_def plan)
      moreover have "tk_id k \<noteq> ep_id plan" if "k \<in> set (ad_tokens db')" for k
        using inv' that d(1) by (auto simp: enroll_inv_def token_ok_def plan)
      ultimately show ?thesis by blast
    qed
    then show ?thesis using inv_add_plan [OF inv', of plan] Some by auto
  qed
qed

section \<open>Storing an enrollment\<close>

lemma insert_local_tables:
  assumes "insert_local i subject name display role now db = Inr (u, db')"
  shows "standing i db = None" "standing i db' = Some (True, role, ''pending'', 1, Some False)"
    "\<And>j. j \<noteq> i \<Longrightarrow> standing j db' = standing j db" "us_id u = i" "us_generation u = 1"
    "ad_tokens db' = ad_tokens db" "ad_enrollments db' = ad_enrollments db" "ad_used_tokens db' = ad_used_tokens db"
    "user_of i db' = Some u"
proof -
  let ?u = "\<lparr>us_id = i, us_issuer = ''local'', us_subject = subject, us_username = name, us_display_name = display,
     us_enabled = 1, us_created = now, us_last_login = 0, us_role = role, us_generation = 1, us_status = ''pending''\<rparr>"
  let ?a = "\<lparr>la_user_id = i, la_password_hash = None, la_totp_secret = None, la_totp_confirmed = False,
     la_last_counter = - 1, la_totp_streak = 0, la_totp_blocked_until = 0\<rparr>"
  have e: "u = ?u" "db' = db\<lparr>ad_users := ad_users db @ [?u], ad_accounts := ad_accounts db @ [?a]\<rparr>"
      "\<not> list_ex (\<lambda>x. us_id x = i) (ad_users db)" "\<not> list_ex (\<lambda>x. la_user_id x = i) (ad_accounts db)"
    using assms by (auto simp: insert_local_def Let_def list_ex_iff split: if_splits)
  have none: "user_of i db = None" "account_of i db = None" using e(3,4) by (simp_all add: find_where_None)
  show "standing i db = None" using none by (simp add: standing_def)
  show "standing i db' = Some (True, role, ''pending'', 1, Some False)" "user_of i db' = Some u"
    using none by (simp_all add: e(1,2) standing_def confirmed_def find_where_append)
  show "standing j db' = standing j db" if "j \<noteq> i" for j
    using that by (simp add: e(2) standing_def confirmed_def find_where_append split: option.splits)
  show "us_id u = i" "us_generation u = 1" "ad_tokens db' = ad_tokens db" "ad_enrollments db' = ad_enrollments db"
      "ad_used_tokens db' = ad_used_tokens db"
    by (simp_all add: e(1,2))
qed

lemma inv_new_user:
  assumes inv: "enroll_inv boots s" and fresh: "standing i (es_db s) = None"
    and ok: "standing_ok (standing i db')" "standing i db' \<noteq> None" and others: "\<And>j. j \<noteq> i \<Longrightarrow> standing j db' = standing j (es_db s)"
    and enrollments: "ad_enrollments db' = ad_enrollments (es_db s)"
    and tokens: "ad_tokens db' = ad_tokens (es_db s) @ ks" "distinct (map tk_id (ad_tokens db'))"
      "\<forall>k \<in> set ks. tk_user_id k = i \<and> tk_id k \<notin> boots \<union> ep_id ` set (es_plans s)"
  shows "enroll_inv boots (s\<lparr>es_db := db'\<rparr>)"
proof (rule inv_rotate [OF inv others ok _ _ tokens(2)])
  show "set (ad_enrollments db') \<subseteq> {e \<in> set (ad_enrollments (es_db s)). en_user_id e \<noteq> i}"
    using inv fresh enrollments by (fastforce simp: enroll_inv_def enrollment_ok_def)
  have "tk_user_id k \<noteq> i" if "k \<in> set (ad_tokens (es_db s))" for k
    using inv_token [OF inv that] fresh by (auto simp: token_ok_def)
  then show "set (ad_tokens db') \<subseteq> {k \<in> set (ad_tokens (es_db s)). tk_user_id k \<noteq> i} \<union>
      {k. tk_user_id k = i \<and> tk_id k \<notin> boots \<union> ep_id ` set (es_plans s)}"
    using tokens(1,3) by auto
qed

lemma inv_insert:
  assumes "enroll_inv boots s" "insert_local i subject name display role now (es_db s) = Inr (u, db')"
  shows "enroll_inv boots (s\<lparr>es_db := db'\<rparr>)"
proof -
  note tables = insert_local_tables [OF assms(2)]
  show ?thesis
    by (rule inv_new_user [OF assms(1) tables(1) _ _ tables(3) tables(7), where ks = "[]"])
      (use tables assms(1) in \<open>auto simp: standing_ok_def enroll_inv_def\<close>)
qed

lemma enroll_storeE:
  assumes "enroll_store sha bootstrap hashed f browser p now db = Inr db'"
  obtains selected t u db1 e audit kept where "resolve_token sha bootstrap (jget (ep_body p) ''token'') now db = Inr t"
    "enrolled_user f p t now db = Inr (u, db1)" "totp_selected (ep_body p) = Inr selected"
    "set kept \<subseteq> set (ad_enrollments db1)"
    "db' = db1\<lparr>ad_used_tokens := ad_used_tokens db1 @ [(rt_id t, ep_purpose p, now)],
       ad_tokens := delete_where (\<lambda>k. tk_id k = rt_id t) (ad_tokens db1), ad_enrollments := kept @ [e], ad_admin_audit := audit\<rparr>"
    "enrollment_key e = (us_id u, us_generation u, ep_purpose p, if enroll_factor p selected then Some (fr_secret f) else None)"
proof -
  obtain selected encoded t u db1 h where *: "resolve_token sha bootstrap (jget (ep_body p) ''token'') now db = Inr t"
      "enrolled_user f p t now db = Inr (u, db1)" "totp_selected (ep_body p) = Inr selected"
      "(case ep_password p of None \<Rightarrow> Inr None | Some s \<Rightarrow> rbind (hashed s) (\<lambda>h. Inr (Some h))) = Inr encoded"
      "unchanged_factor p u db1 = Inr ()" "token_hash sha (JStr (fr_handle f)) = Inr h"
    using assms unfolding enroll_store_def by (simp only: caught_Inr rbind_eq_Inr split_paired_Ex prod.case) fastforce
  show thesis
    by (rule that [OF *(1-3), where kept = "delete_where (\<lambda>e. en_expires e \<le> now) (ad_enrollments db1)"
          and e = "\<lparr>en_token_hash = h, en_user_id = us_id u, en_generation = us_generation u, en_binder_hash = browser,
            en_purpose = ep_purpose p, en_secret = (if enroll_factor p selected then Some (fr_secret f) else None),
            en_password_hash = encoded, en_expires = now + 600, en_failures = 0\<rparr>"
          and audit = "ad_admin_audit db1 @ [\<lparr>aa_actor_id = None, aa_target_id = Some (us_id u), aa_action = ''enrollment_started'',
            aa_details = [(''purpose'', JStr (ep_purpose p))], aa_created = now\<rparr>]"])
      (use assms * in \<open>auto simp: enroll_store_def Let_def delete_where_def enrollment_key_def split: if_splits\<close>)
qed

lemma inv_add_enrollment:
  assumes inv: "enroll_inv boots s" and e: "enrollment_ok (es_db s) e" and kept: "set kept \<subseteq> set (ad_enrollments (es_db s))"
  shows "enroll_inv boots (s\<lparr>es_db := (es_db s)\<lparr>ad_used_tokens := used, ad_tokens := delete_where P (ad_tokens (es_db s)),
    ad_enrollments := kept @ [e], ad_admin_audit := audit\<rparr>\<rparr>)"
proof -
  let ?db = "(es_db s)\<lparr>ad_used_tokens := used, ad_tokens := delete_where P (ad_tokens (es_db s)),
    ad_enrollments := kept @ [e], ad_admin_audit := audit\<rparr>"
  have st: "standing i ?db = standing i (es_db s)" for i by (rule standing_same) simp_all
  have "enrollment_ok ?db x" if "x \<in> set (kept @ [e])" for x
    using that e kept inv enrollment_ok_key [OF refl st] by (auto simp: enroll_inv_def)
  moreover have "token_ok boots (es_plans s) ?db k" if "k \<in> set (ad_tokens ?db)" for k
    using that inv_token [OF inv] token_ok_key [OF refl st] by (simp add: delete_where_def)
  ultimately show ?thesis using inv st by (simp add: enroll_inv_def delete_where_def distinct_map_filter)
qed

lemma inv_store:
  assumes inv: "enroll_inv boots s" and docs: "document_ids boots file" and p: "p \<in> set (es_plans s)" and f: "fr_secret f \<noteq> []"
    and b: "enroll_store sha (read_document sha float realm file) hashed f browser p now (es_db s) = Inr db'"
  shows "enroll_inv boots (s\<lparr>es_db := db'\<rparr>)"
proof -
  obtain selected t u db1 e audit kept where
      t: "resolve_token sha (read_document sha float realm file) (jget (ep_body p) ''token'') now (es_db s) = Inr t"
    and u: "enrolled_user f p t now (es_db s) = Inr (u, db1)" and kept: "set kept \<subseteq> set (ad_enrollments db1)"
    and db': "db' = db1\<lparr>ad_used_tokens := ad_used_tokens db1 @ [(rt_id t, ep_purpose p, now)],
       ad_tokens := delete_where (\<lambda>k. tk_id k = rt_id t) (ad_tokens db1), ad_enrollments := kept @ [e], ad_admin_audit := audit\<rparr>"
    and e: "enrollment_key e = (us_id u, us_generation u, ep_purpose p, if enroll_factor p selected then Some (fr_secret f) else None)"
    by (rule enroll_storeE [OF b])
  obtain str rest where lp: "jget (ep_body p) ''token'' = JStr str" "split_link str = Some (ep_id p, rest)"
      "ep_purpose p = ''password-reset'' \<longrightarrow> ep_id p \<notin> boots"
    using inv p by (auto simp: enroll_inv_def linked_plan_def)
  have "enroll_inv boots (s\<lparr>es_db := db1\<rparr>) \<and> enrollment_ok db1 e"
    using t
  proof (cases rule: resolve_tokenE)
    case (link str' rest' k v)
    then have same: "u = v" "db1 = es_db s" "tk_id k = ep_id p" using u lp by (auto simp: enrolled_user_def)
    have id: "us_id u = tk_user_id k" using user_of_id [OF link(7)] same(1) by simp
    have st: "standing (us_id u) (es_db s) = Some (True, us_role u, us_status u, us_generation u, confirmed (us_id u) (es_db s))"
      using link(7,9) id same(1) by (simp add: standing_def)
    then have "plan_ok (us_role u) (tk_purpose k) (confirmed (us_id u) (es_db s)) p"
      using inv_token [OF inv link(3)] p link(8) id same(1,3) by (auto simp: token_ok_def)
    then have "enrollment_ok (es_db s) e"
      using st e f by (auto simp: enrollment_ok_def enrollment_key_def plan_ok_def enroll_factor_def split: if_splits)
    then show ?thesis using inv same(2) by simp
  next
    case (document str' i rest' x)
    then obtain display where ins: "insert_local (fr_user_id f) (fr_subject f) (ep_name p) display ''admin'' now (es_db s) = Inr (u, db1)"
      using u by (auto simp: enrolled_user_def rbind_eq_Inr)
    have "ep_purpose p \<noteq> ''password-reset''"
      using read_document_id [OF document(3) docs] document(1) lp by auto
    then have "enrollment_ok db1 e"
      using insert_local_tables [OF ins] e by (auto simp: enrollment_ok_def enrollment_key_def)
    then show ?thesis using inv_insert [OF inv ins] by simp
  qed
  then show ?thesis
    using inv_add_enrollment [of boots "s\<lparr>es_db := db1\<rparr>" e kept] kept unfolding db' by simp
qed

lemma create_accountE:
  assumes "create_account idle sid name display role f tid hash now db = Inr db'"
  obtains nm shown r u db1 db2 audit where "insert_local (fr_user_id f) (fr_subject f) nm shown r now db = Inr (u, db1)"
    "link_token tid hash (us_id u) ''invite'' now db1 = Inr db2" "db' = db2\<lparr>ad_admin_audit := audit\<rparr>"
proof -
  obtain nm shown where names: "username name = Inr nm" "bounded_name 256 display = Inr shown"
    using assms unfolding create_account_def by (auto split: sum.splits)
  let ?invited = "invite_local f nm shown (case role of JStr r \<Rightarrow> r | _ \<Rightarrow> []) tid hash now db"
  obtain u db2 where i: "?invited = Inr (u, db2)"
    using assms names by (cases ?invited) (auto simp: create_account_def rbind_eq_Inr split: if_splits)
  then have "\<exists>audit. db' = db2\<lparr>ad_admin_audit := audit\<rparr>"
    using assms names by (auto simp: create_account_def rbind_eq_Inr split: if_splits)
  then show thesis using that i by (auto simp: invite_local_def rbind_eq_Inr)
qed

lemma inv_create:
  assumes inv: "enroll_inv boots s" and c: "create_account idle sid name display role f tid hash now (es_db s) = Inr db'"
    and fresh: "tid \<notin> boots \<union> ep_id ` set (es_plans s)"
  shows "enroll_inv boots (s\<lparr>es_db := db'\<rparr>)"
proof -
  obtain nm shown r u db1 db2 audit where i: "insert_local (fr_user_id f) (fr_subject f) nm shown r now (es_db s) = Inr (u, db1)"
    and l: "link_token tid hash (us_id u) ''invite'' now db1 = Inr db2" and db': "db' = db2\<lparr>ad_admin_audit := audit\<rparr>"
    by (rule create_accountE [OF c])
  note tables = insert_local_tables [OF i]
  obtain k where k: "db2 = db1\<lparr>ad_tokens := ad_tokens db1 @ [k]\<rparr>" "tk_id k = tid" "tk_user_id k = fr_user_id f"
      "\<not> list_ex (\<lambda>t. tk_id t = tid) (ad_tokens db1)"
    using l tables(4) by (auto simp: link_token_def list_ex_iff split: option.splits if_splits)
  have st: "standing j db' = standing j db1" for j unfolding db' k(1) by (rule standing_same) simp_all
  then have ok: "standing_ok (standing (fr_user_id f) db')" "standing (fr_user_id f) db' \<noteq> None"
    using tables(2) by (auto simp: standing_ok_def)
  show ?thesis
  proof (rule inv_new_user [OF inv tables(1) ok, where ks = "[k]"])
    show "distinct (map tk_id (ad_tokens db'))"
      using inv k tables(6) by (auto simp: db' enroll_inv_def list_ex_iff)
  qed (use st tables k fresh in \<open>simp_all add: db'\<close>)
qed

section \<open>Runs\<close>

text \<open>
  One transaction of some thread. Fresh identifiers of links are none of the documents of the operator and none that
  an enrollment in progress has read. \<open>commons\<close> is the row of a person who signs in through Commons for the first
  time, and \<open>other\<close> stands for the transactions that write none of the tables of accounts.
\<close>

inductive enroll_step :: "sha \<Rightarrow> hotp \<Rightarrow> string set \<Rightarrow> enroll_state \<Rightarrow> enroll_state \<Rightarrow> bool" for sha hotp boots where
  begins: "enroll_begin sha hotp (read_document sha float realm file) body now (es_db s) = Inr (db', po) \<Longrightarrow> document_ids boots file \<Longrightarrow>
    enroll_step sha hotp boots s (s\<lparr>es_db := db', es_plans := (case po of None \<Rightarrow> es_plans s | Some p \<Rightarrow> p # es_plans s)\<rparr>)"
| stores: "enroll_store sha (read_document sha float realm file) hashed f browser p now (es_db s) = Inr db' \<Longrightarrow>
    p \<in> set (es_plans s) \<Longrightarrow> document_ids boots file \<Longrightarrow> fr_secret f \<noteq> [] \<Longrightarrow> enroll_step sha hotp boots s (s\<lparr>es_db := db'\<rparr>)"
| finishes: "finish_enrollment sha hotp absolute_seconds old token browser handle totp now (es_db s) = Inr (db', r) \<Longrightarrow>
    enroll_step sha hotp boots s (s\<lparr>es_db := db'\<rparr>)"
| changes: "change_account idle sid usr action v tid hash now (es_db s) = Inr db' \<Longrightarrow> tid \<notin> boots \<union> ep_id ` set (es_plans s) \<Longrightarrow>
    enroll_step sha hotp boots s (s\<lparr>es_db := db'\<rparr>)"
| creates: "create_account idle sid name display role f tid hash now (es_db s) = Inr db' \<Longrightarrow> tid \<notin> boots \<union> ep_id ` set (es_plans s) \<Longrightarrow>
    enroll_step sha hotp boots s (s\<lparr>es_db := db'\<rparr>)"
| signs_in: "decide sign hotp a now (es_db s) = (db', result) \<Longrightarrow> enroll_step sha hotp boots s (s\<lparr>es_db := db'\<rparr>)"
| upgrades: "upgrade_hash a verified replacement (es_db s) = Inr db' \<Longrightarrow> enroll_step sha hotp boots s (s\<lparr>es_db := db'\<rparr>)"
| logs_in: "finish_login absolute_seconds old token verified_user now (es_db s) = Inr db' \<Longrightarrow> enroll_step sha hotp boots s (s\<lparr>es_db := db'\<rparr>)"
| steps_up: "reauthenticate idle sid usr_row verified_user now (es_db s) = Inr db' \<Longrightarrow> enroll_step sha hotp boots s (s\<lparr>es_db := db'\<rparr>)"
| commons: "user_of (us_id u) (es_db s) = None \<Longrightarrow> us_role u = ''owner'' \<Longrightarrow> us_issuer u \<noteq> ''local'' \<Longrightarrow>
    enroll_step sha hotp boots s (s\<lparr>es_db := (es_db s)\<lparr>ad_users := ad_users (es_db s) @ [u]\<rparr>\<rparr>)"
| other: "ad_users db' = ad_users (es_db s) \<Longrightarrow> ad_accounts db' = ad_accounts (es_db s) \<Longrightarrow> ad_tokens db' = ad_tokens (es_db s) \<Longrightarrow>
    ad_enrollments db' = ad_enrollments (es_db s) \<Longrightarrow> ad_used_tokens db' = ad_used_tokens (es_db s) \<Longrightarrow>
    enroll_step sha hotp boots s (s\<lparr>es_db := db'\<rparr>)"

inductive enroll_run :: "sha \<Rightarrow> hotp \<Rightarrow> string set \<Rightarrow> enroll_state \<Rightarrow> enroll_state \<Rightarrow> bool" for sha hotp boots where
  stays: "enroll_run sha hotp boots s s"
| goes_on: "enroll_run sha hotp boots s s' \<Longrightarrow> enroll_step sha hotp boots s' s'' \<Longrightarrow> enroll_run sha hotp boots s s''"

lemma inv_commons:
  assumes inv: "enroll_inv boots s" and u: "user_of (us_id u) (es_db s) = None" "us_role u = ''owner''" "us_issuer u \<noteq> ''local''"
  shows "enroll_inv boots (s\<lparr>es_db := (es_db s)\<lparr>ad_users := ad_users (es_db s) @ [u]\<rparr>\<rparr>)"
proof (rule inv_new_user [OF inv, where ks = "[]" and i = "us_id u"])
  show "standing (us_id u) (es_db s) = None" using u(1) by (simp add: standing_def)
  show "standing j ((es_db s)\<lparr>ad_users := ad_users (es_db s) @ [u]\<rparr>) = standing j (es_db s)" if "j \<noteq> us_id u" for j
    using that by (simp add: standing_def confirmed_def find_where_append split: option.splits)
qed (use inv u in \<open>simp_all add: standing_def standing_ok_def find_where_append enroll_inv_def\<close>)

lemma enroll_step_inv:
  assumes "enroll_step sha hotp boots s s'" "enroll_inv boots s"
  shows "enroll_inv boots s'"
  using assms
proof (induction rule: enroll_step.induct)
  case (begins float realm doc body now s db' po)
  then show ?case using inv_begin by blast
next
  case (stores float realm doc hashed f browser p now s db')
  then show ?case using inv_store by blast
next
  case (finishes absolute_seconds old token browser handle totp now s db' r)
  then show ?case using inv_complete by blast
next
  case (changes idle sid usr action v tid hash now s db')
  then show ?case using inv_change by blast
next
  case (creates idle sid name display role f tid hash now s db')
  then show ?case using inv_create by blast
next
  case (commons u s)
  then show ?case using inv_commons by blast
qed (blast intro: inv_quiet quiet_decide quiet_upgrade quiet_login quiet_step_up quiet_same)+

lemma enroll_run_inv: "enroll_run sha hotp boots s s' \<Longrightarrow> enroll_inv boots s \<Longrightarrow> enroll_inv boots s'"
  by (induction rule: enroll_run.induct) (blast intro: enroll_step_inv)+

text \<open>
  C13: an admin without a second factor is never active. Whatever enrollments, resets, changes of role and sign-ins are
  interleaved from an empty portal on, also between the two transactions of an enrollment, an active admin has
  a local account whose authentication code was confirmed.
\<close>
theorem active_admin_has_factor:
  assumes "enroll_run sha hotp boots \<lparr>es_db = db0, es_plans = []\<rparr> s"
    and "ad_users db0 = []" "ad_tokens db0 = []" "ad_enrollments db0 = []"
    and "user_of i (es_db s) = Some u" "us_role u = ''admin''" "us_status u = ''active''"
  shows "\<exists>a. account_of i (es_db s) = Some a \<and> la_totp_confirmed a"
proof -
  have "enroll_inv boots \<lparr>es_db = db0, es_plans = []\<rparr>"
    using assms(2-4) by (simp add: enroll_inv_def standing_ok_def standing_def)
  then have "standing_ok (standing i (es_db s))" using enroll_run_inv [OF assms(1)] by (simp add: enroll_inv_def)
  then show ?thesis using assms(5-7) by (auto simp: standing_ok_def standing_def confirmed_def)
qed

section \<open>Links are used once\<close>

lemma with_used [simp]:
  "ad_used_tokens (with_account v f db) = ad_used_tokens db" "ad_used_tokens (with_user v g db) = ad_used_tokens db"
  "ad_used_tokens (failure usr kind now db) = ad_used_tokens db"
  by (simp_all add: with_account_def with_user_def failure_def Let_def)

lemma decide_used: "decide sign hotp a now db = (db', r) \<Longrightarrow> ad_used_tokens db' = ad_used_tokens db"
  by (auto simp: decide_def Let_def split: verdict.splits option.splits prod.splits)

lemma upgrade_used: "upgrade_hash a verified replacement db = Inr db' \<Longrightarrow> ad_used_tokens db' = ad_used_tokens db"
  by (auto simp: upgrade_hash_def split: option.splits if_splits)

lemma login_used: "finish_login absolute_seconds old token verified now db = Inr db' \<Longrightarrow> ad_used_tokens db' = ad_used_tokens db"
  by (auto simp: finish_login_def mint_used split: option.splits if_splits)

lemma step_up_used: "reauthenticate idle sid u verified now db = Inr db' \<Longrightarrow> ad_used_tokens db' = ad_used_tokens db"
  by (auto simp: reauthenticate_def rbind_eq_Inr split: if_splits)

lemma link_used: "link_token tid hash usr purpose now db = Inr db' \<Longrightarrow> ad_used_tokens db' = ad_used_tokens db"
  by (auto simp: link_token_def split: option.splits if_splits)

lemma change_used:
  assumes "change_account idle sid usr action v tid hash now db = Inr db'"
  shows "ad_used_tokens db' = ad_used_tokens db"
proof -
  obtain u db1 details db3 audit where e: "edit_account action v u db = Inr (db1, details)"
    and l: "issue_link action tid hash usr now (reset_account action usr (security_change usr db1)) = Inr db3"
    and db': "db' = db3\<lparr>ad_admin_audit := audit\<rparr>"
    by (rule change_accountE [OF assms])
  show ?thesis
    by (rule issue_linkE [OF l])
      (simp add: db' set_pending_tables reset_account_tables security_change_tables edit_account_tables [OF e])
qed

lemma create_used: "create_account idle sid name display role f tid hash now db = Inr db' \<Longrightarrow> ad_used_tokens db' = ad_used_tokens db"
  by (erule create_accountE) (simp add: link_used insert_local_tables(8))

lemma enrolled_used: "enrolled_user f p t now db = Inr (u, db1) \<Longrightarrow> ad_used_tokens db1 = ad_used_tokens db"
  by (auto simp: enrolled_user_def rbind_eq_Inr insert_local_tables(8) split: option.splits)

lemma finish_used:
  "finish_enrollment sha hotp absolute_seconds old token browser handle totp now db = Inr (db', r) \<Longrightarrow> ad_used_tokens db' = ad_used_tokens db"
  by (erule finish_enrollmentE) (simp_all add: complete_enrollment_tables)

lemma store_used:
  assumes "enroll_store sha bootstrap hashed f browser p now db = Inr db'"
  obtains t where "resolve_token sha bootstrap (jget (ep_body p) ''token'') now db = Inr t"
    "ad_used_tokens db' = ad_used_tokens db @ [(rt_id t, ep_purpose p, now)]"
  by (rule enroll_storeE [OF assms]) (simp add: that enrolled_used)

lemma begin_used: "enroll_begin sha hotp bootstrap body now db = Inr (db', po) \<Longrightarrow> ad_used_tokens db' = ad_used_tokens db"
  by (erule enroll_beginE)

lemma enroll_step_used: "enroll_step sha hotp boots s s' \<Longrightarrow> set (ad_used_tokens (es_db s)) \<subseteq> set (ad_used_tokens (es_db s'))"
proof (induction rule: enroll_step.induct)
  case (stores float realm doc hashed f browser p now s db')
  then show ?case by (auto elim: store_used)
qed (simp_all add: begin_used finish_used change_used create_used decide_used upgrade_used login_used step_up_used)

lemma enroll_run_used: "enroll_run sha hotp boots s s' \<Longrightarrow> set (ad_used_tokens (es_db s)) \<subseteq> set (ad_used_tokens (es_db s'))"
  by (induction rule: enroll_run.induct) (auto dest: enroll_step_used)

lemma resolve_used:
  assumes "split_link str = Some (i, r)" "(i, x) \<in> set (ad_used_tokens db)"
  shows "resolve_token sha bootstrap (JStr str) now db \<noteq> Inr t"
  using assms by (auto simp: resolve_token_def rbind_eq_Inr list_ex_iff)

text \<open>
  C14: an enrollment link is used once. After an enrollment was stored for a link, no enrollment is stored for the same
  link again, whatever transactions come in between and whichever enrollments for it were already in progress.
\<close>
theorem enrollment_link_used_once:
  assumes "enroll_store sha (read_document sha float realm file) hashed f browser p now (es_db s) = Inr db'"
    and "enroll_run sha hotp boots (s\<lparr>es_db := db'\<rparr>) s'"
    and "jget (ep_body p') ''token'' = jget (ep_body p) ''token''"
  shows "\<exists>e. enroll_store sha (read_document sha float realm file') hashed' f' browser' p' later (es_db s') = Inl e"
proof -
  obtain t where t: "resolve_token sha (read_document sha float realm file) (jget (ep_body p) ''token'') now (es_db s) = Inr t"
    and used: "ad_used_tokens db' = ad_used_tokens (es_db s) @ [(rt_id t, ep_purpose p, now)]"
    by (rule store_used [OF assms(1)])
  obtain str r where str: "jget (ep_body p) ''token'' = JStr str" "split_link str = Some (rt_id t, r)"
    using t
  proof (cases rule: resolve_tokenE)
    case (document s i r x)
    then show ?thesis using that read_document_id [OF document(3), of UNIV] by (auto simp: document_ids_def)
  qed (use that in blast)
  have "(rt_id t, ep_purpose p, now) \<in> set (ad_used_tokens (es_db s'))"
    using enroll_run_used [OF assms(2)] used by auto
  then have "resolve_token sha (read_document sha float realm file') (jget (ep_body p') ''token'') later (es_db s') \<noteq> Inr x" for x
    using resolve_used [OF str(2)] str(1) assms(3) by simp
  then have "enroll_store sha (read_document sha float realm file') hashed' f' browser' p' later (es_db s') \<noteq> Inr x" for x
    by (metis store_used)
  then show ?thesis by (metis sum.exhaust)
qed

section \<open>The first admin\<close>

definition empty_portal :: auth_db where
  "empty_portal = \<lparr>ad_users = [], ad_accounts = [], ad_failures = [], ad_sessions = [], ad_tokens = [], ad_enrollments = [],
     ad_used_tokens = [], ad_valid_after = 0, ad_audit = [], ad_admin_audit = []\<rparr>"

definition example_document :: string where
  "example_document = ''00000000-0000-4000-8000-000000000009''"

definition example_sha :: sha where
  "example_sha s = replicate 64 (CHR ''a'')"

definition example_boot :: bootstrap where
  "example_boot = read_document example_sha (\<lambda>_. 0) ''realm'' (Inr (JObj
     [(''format'', JStr ''openstack-platform-admin-enrollment-v1''), (''id'', JStr example_document),
      (''tokenHash'', JStr (replicate 64 (CHR ''a''))), (''created'', JInt 5), (''expires'', JInt 1000), (''realm'', JStr ''realm'')]))"

definition example_body :: jdict where
  "example_body = [(''csrfToken'', JStr ''x''), (''token'', JStr (example_document @ ''.'' @ replicate 43 (CHR ''b''))),
     (''password'', JStr ''correct horse battery''), (''username'', JStr ''ann'')]"

definition example_fresh :: fresh where
  "example_fresh = \<lparr>fr_user_id = example_user_id, fr_subject = ''s'', fr_handle = replicate 43 (CHR ''c''), fr_secret = ''k''\<rparr>"

lemma example_enrollment:
  "rbind (enroll_begin example_sha example_hotp example_boot example_body 10 empty_portal) (\<lambda>(db1, po).
   rbind (enroll_store example_sha example_boot (\<lambda>_. Inr ''h'') example_fresh ''browser'' (the po) 20 db1) (\<lambda>db2.
   rbind (finish_enrollment example_sha example_hotp 3600 None ''sid'' ''browser'' (JStr (replicate 43 (CHR ''c''))) (JStr ''000003'') 100 db2) (\<lambda>(db3, r).
   Inr (po \<noteq> None, r, map (\<lambda>u. (us_id u, us_role u, us_status u)) (ad_users db3))))) =
   Inr (True, Signed_In, [(example_user_id, ''admin'', ''active'')])"
  by code_simp

lemma example_states:
  obtains db1 p db2 db3 where
    "enroll_begin example_sha example_hotp example_boot example_body 10 empty_portal = Inr (db1, Some p)"
    "enroll_store example_sha example_boot (\<lambda>_. Inr ''h'') example_fresh ''browser'' p 20 db1 = Inr db2"
    "finish_enrollment example_sha example_hotp 3600 None ''sid'' ''browser'' (JStr (replicate 43 (CHR ''c''))) (JStr ''000003'') 100 db2 = Inr (db3, Signed_In)"
    "map (\<lambda>u. (us_id u, us_role u, us_status u)) (ad_users db3) = [(example_user_id, ''admin'', ''active'')]"
  using example_enrollment by (auto simp: rbind_eq_Inr)

lemma example_secret: "fr_secret example_fresh \<noteq> []"
  by code_simp

lemma example_documents: "document_ids UNIV file"
  by (simp add: document_ids_def)

theorem active_admin_has_factor_witness:
  "\<exists>s u. enroll_run example_sha example_hotp UNIV \<lparr>es_db = empty_portal, es_plans = []\<rparr> s \<and> user_of example_user_id (es_db s) = Some u \<and>
     us_role u = ''admin'' \<and> us_status u = ''active'' \<and> (\<exists>a. account_of example_user_id (es_db s) = Some a \<and> la_totp_confirmed a)"
proof -
  obtain db1 p db2 db3 where b: "enroll_begin example_sha example_hotp example_boot example_body 10 empty_portal = Inr (db1, Some p)"
    and st: "enroll_store example_sha example_boot (\<lambda>_. Inr ''h'') example_fresh ''browser'' p 20 db1 = Inr db2"
    and f: "finish_enrollment example_sha example_hotp 3600 None ''sid'' ''browser'' (JStr (replicate 43 (CHR ''c''))) (JStr ''000003'') 100 db2 = Inr (db3, Signed_In)"
    and u: "map (\<lambda>u. (us_id u, us_role u, us_status u)) (ad_users db3) = [(example_user_id, ''admin'', ''active'')]"
    by (rule example_states)
  let ?s0 = "\<lparr>es_db = empty_portal, es_plans = []\<rparr>" and ?s1 = "\<lparr>es_db = db1, es_plans = [p]\<rparr>"
  have "enroll_step example_sha example_hotp UNIV ?s0 ?s1"
    using enroll_step.begins [of example_sha example_hotp "\<lambda>_. 0" "''realm''" _ example_body 10 ?s0] b example_documents
    by (fastforce simp: example_boot_def)
  moreover have "enroll_step example_sha example_hotp UNIV ?s1 (?s1\<lparr>es_db := db2\<rparr>)"
    by (rule enroll_step.stores [OF _ _ example_documents example_secret]) (use st in \<open>simp_all add: example_boot_def\<close>)
  moreover have "enroll_step example_sha example_hotp UNIV (?s1\<lparr>es_db := db2\<rparr>) (?s1\<lparr>es_db := db2, es_db := db3\<rparr>)"
    by (rule enroll_step.finishes) (use f in simp)
  ultimately have run: "enroll_run example_sha example_hotp UNIV ?s0 (?s1\<lparr>es_db := db3\<rparr>)"
    using enroll_run.intros by (metis enroll_state.update_convs(1) enroll_state.simps(4))
  obtain x where x: "ad_users db3 = [x]" "us_id x = example_user_id" "us_role x = ''admin''" "us_status x = ''active''"
    using u by (auto simp: map_eq_Cons_conv)
  have "\<exists>a. account_of example_user_id (es_db (?s1\<lparr>es_db := db3\<rparr>)) = Some a \<and> la_totp_confirmed a"
    by (rule active_admin_has_factor [OF run]) (use x in \<open>simp_all add: empty_portal_def\<close>)
  then show ?thesis using run x by (intro exI [of _ "?s1\<lparr>es_db := db3\<rparr>"] exI [of _ x]) simp
qed

theorem enrollment_link_used_once_witness:
  "\<exists>p db1 db2 e. enroll_store example_sha example_boot (\<lambda>_. Inr ''h'') example_fresh ''browser'' p 20 db1 = Inr db2 \<and>
     enroll_store example_sha example_boot (\<lambda>_. Inr ''h'') example_fresh ''other'' p 30 db2 = Inl e"
proof -
  obtain db1 p db2 db3 where st: "enroll_store example_sha example_boot (\<lambda>_. Inr ''h'') example_fresh ''browser'' p 20 db1 = Inr db2"
    by (rule example_states)
  have "enroll_run example_sha example_hotp UNIV (\<lparr>es_db = db1, es_plans = [p]\<rparr>\<lparr>es_db := db2\<rparr>) \<lparr>es_db = db2, es_plans = [p]\<rparr>"
    using enroll_run.stays by simp
  then have "\<exists>e. enroll_store example_sha example_boot (\<lambda>_. Inr ''h'') example_fresh ''other'' p 30 (es_db \<lparr>es_db = db2, es_plans = [p]\<rparr>) = Inl e"
    unfolding example_boot_def
    by (rule enrollment_link_used_once [OF _ _ refl, rotated]) (use st in \<open>simp add: example_boot_def\<close>)
  then show ?thesis using st by auto
qed

end
