(* ===== verification/Spec2Isabelle.thy ===== *)
theory Spec2Isabelle
  imports Deployment_Config Runtime_Text Runtime_Versions Capacity_Admission Controller_Runs Lane_Refinement
    Login_Limits Backup_Retention Dashboard_Service Worker_Sizing Broker_Runs Broker_Enrollment
begin

text \<open>
  A verification of the OpenStack deployment platform (\<open>src/openstack_platform\<close>), a Python program that
  builds and runs web applications on OpenStack.

  \<^bold>\<open>The program.\<close> The controller keeps its state in one SQLite database. It accepts requests over HTTP,
  binds each to an idempotency key, journals the work as an operation in the scope of an application or of
  the infrastructure, and runs it on a bounded pool of workers; deployments, managed storage and worker
  placement are rows the operations write when their remote work has succeeded. Validators and contracts
  decide which names, versions, paths and quotas are admitted. Beside the controller there are the
  management broker, which signs people in, journals their changes in a database of its own and sends each
  to the controller until it knows the outcome, timers that write and prune encrypted backups, and a
  read-only operator dashboard.

  \<^bold>\<open>Theories\<close>, from the bottom up; a definition has the name of the function, method, class or constant
  it translates (a leading underscore dropped, a suffix where HOL has the name):
  \<^item> \<open>Platform_Prelude\<close>: exceptions as one datatype \<open>error\<close>, results \<open>error + 'a\<close> with \<open>rbind\<close>, strings,
    and SQL statements on a table kept as a list of rows. \<open>Json_Values\<close>: Python documents, dictionaries in
    insertion order, \<open>json.dumps\<close>. \<open>Calendar\<close>: the part of \<open>datetime\<close> the code uses, with the proof that
    the order of timestamps as texts is the order of times.
  \<^item> \<open>Validation\<close> (\<open>validation.py\<close>), \<open>Storage_Contract\<close> (\<open>controller/storage_contract.py\<close>,
    \<open>instance_contract.py\<close>), \<open>Deployment_Config\<close> (\<open>controller/deployment_config.py\<close>), \<open>Runtime_Versions\<close>
    (\<open>runtime_versions.py\<close>), \<open>Runtime_Text\<close> (\<open>redact_text\<close> and \<open>safe_summary\<close> of \<open>runtime.py\<close>): pure code.
    The lemmas show canonical forms, injectivity of secret keys, round trips of environments, the meaning
    of version ranges against supported lines, and the size of error summaries.
  \<^item> \<open>Controller_Tables\<close>: the tables of \<open>controller/database.py\<close> as lists of records in the record \<open>db\<close>,
    their constraints, indexes and triggers as \<open>schema_ok\<close>, and transactions, which keep \<open>schema_ok\<close> or
    change nothing.
  \<^item> \<open>Operation_Journal\<close>, \<open>Application_Records\<close>, \<open>Deployment_Store\<close>, \<open>Resource_Store\<close>: one definition
    per operation of \<open>controller/database.py\<close>, with its behaviour on every branch.
  \<^item> \<open>Storage_Capacity\<close> (\<open>controller/storage_capacity.py\<close>) and \<open>Capacity_Admission\<close>: the disk budget.
  \<^item> \<open>Deployment_Acceptance\<close>: the acceptance of a healthy candidate in \<open>controller/application_runtime.py\<close>
    and the single updates other services make in the same tables.
  \<^item> \<open>Async_Executor\<close> (\<open>controller/async_operations.py\<close>, \<open>controller/finishing_retries.py\<close>): queue, slots,
    work items, startup recovery and finishing retries. \<open>Executor_Runs\<close> composes them to interleavings of
    threads and proves what the executor accounts for, over locales for what a handler may do.
  \<^item> \<open>Controller_Calls\<close>, \<open>Controller_Guarantees\<close>, \<open>Controller_Runs\<close>: every database call as one datatype,
    the invariants each call keeps, and what holds after any sequence of calls from an empty database.
    \<open>Lane_Refinement\<close>: the journal refines the specification of one foreground and one finishing lane per
    scope.
  \<^item> \<open>Worker_Sizing\<close> (\<open>controller/sizing.py\<close>, \<open>controller/worker_reuse.py\<close>, the records of
    \<open>controller/fixed_ip_service.py\<close>, the metadata of \<open>controller/storage_capacity.py\<close>): reserves and budgets of a
    worker, sizing plans, and the verification of the accepted worker before it is used again.
  \<^item> \<open>Broker_Journal\<close> (\<open>management/broker/journal.py\<close>, with the recording and resuming of intents in \<open>api.py\<close>):
    the two transactions of a dispatch, the evaluation of the controller's answer between them, the scans that
    dispatch what is due and retire deleted applications, and the view of an intent. \<open>Broker_Runs\<close>: the steps of
    the threads interleaved, and what holds after any run of them.
  \<^item> \<open>Login_Limits\<close> (\<open>management/broker/local_auth_limits.py\<close>): the sliding windows of sign-in attempts and
    device failures; a locale of a window, interpreted for both. \<open>Broker_Sign_In\<close> (\<open>local_security.py\<close>,
    \<open>known_device.py\<close>, \<open>local_auth.py\<close>, parts of \<open>auth.py\<close> and \<open>accounts.py\<close>): password hashes, one-time codes,
    recognised browsers, the transaction that decides a sign-in, sessions and the changes that revoke them;
    the locale of a window is interpreted again for the failures of an account. \<open>Broker_Enrollment\<close>
    (\<open>accounts.py\<close>, \<open>bootstrap.py\<close>): one-time links, the two transactions of an enrollment and its completion, and
    the steps that may run between them.
  \<^item> \<open>Backup_Retention\<close> (\<open>backup_retention.py\<close>): what a scan of the backup directory finds, which files
    pruning unlinks and in which order; a locale of a matcher of file names, interpreted for backups and
    for deploy-key archives.
  \<^item> \<open>Dashboard_Sources\<close>, \<open>Dashboard_Model\<close>, \<open>Dashboard_Service\<close> (\<open>dashboard/sources.py\<close>, \<open>dashboard/model.py\<close>,
    \<open>dashboard/service.py\<close>): the parsers of remote reads, the projection to the snapshot, and the collector
    that carries old records forward. \<open>Dashboard_Guarantees\<close>: what the snapshot promises.

  \<^bold>\<open>Modelling.\<close> Python's unbounded integers are \<open>int\<close>, strings are lists of 8-bit code points. The clock,
  fresh identifiers and the outcome of remote calls are arguments of the definitions. Loops are structural
  recursion or have a termination proof; no definition uses fuel. The threads of the executor are steps
  that interleave at the points where the code takes its lock or a database transaction. What the code
  asks of Python's floating-point numbers and of address literals is an argument where it occurs
  (\<open>python_ops\<close> and the argument of \<open>urlsplit\<close>).

  \<^bold>\<open>This theory\<close> composes the broker with the controller: a change that the broker retries, in whatever
  interleaving of its threads, is one idempotency request of the controller.

  \<^bold>\<open>Not modelled\<close>: the services between the HTTP interface and the database beyond what is listed above
  (they sequence the modelled operations with calls to Nomad, OpenStack and the helper), the remote clients,
  the privileged helper, the pages of the broker, its Commons sign-in and its other
  in-memory limits, setup and release tooling, schema migrations, and the user interfaces. They run
  processes, move files or talk to remote services, and what they decide rests on answers of code outside
  the repository.
\<close>


lemma example_api_claim:
  "\<exists>x. api_claim (\<lambda>_. example_fingerprint) Broker_Runs.example_request example_time empty_db = Inr x"
proof -
  let ?q = "[(''method'', JStr ''POST''), (''path'', JStr ''/v1/applications/app/deployments''), (''body'', JObj [(''commit'', JStr ''abc'')])]"
  have k: "idempotency_key (Some example_id) = Inr example_id" by code_simp
  have v: "rbind (fingerprint_view (JObj ?q)) walk_refs = Inr ()" by code_simp
  have s: "strict_json (JObj ?q)" by code_simp
  have l: "length (json_text (json_sorted (JObj ?q))) \<le> 200" by code_simp
  have "request_fingerprint (\<lambda>_. example_fingerprint) ?q = Inr example_fingerprint"
    using v s l by (auto simp: request_fingerprint_def rbind_eq_Inr)
  then have "api_fingerprint (\<lambda>_. example_fingerprint) Broker_Runs.example_request = Inr example_fingerprint"
    by (simp add: api_fingerprint_def Broker_Runs.example_request_def)
  then show ?thesis using example_claim k by (simp add: api_claim_def Broker_Runs.example_request_def)
qed


end
